(* ===== verification/Prelude.thy ===== *)
theory Prelude
  imports Main "HOL-Library.Char_ord" "HOL-Library.List_Lexorder" "HOL-Library.Product_Lexorder"
    "HOL-Library.Multiset"
begin

section \<open>Shared types, Go string operations and generic lemmas\<close>

text \<open>
  Everything the component theories share: the type of Go strings (byte sequences), the functions
  of the packages \<^verbatim>\<open>strings\<close>, \<^verbatim>\<open>strconv\<close> and \<^verbatim>\<open>path\<close> that the sources call, and the lemmas about
  them. A Go string is a sequence of bytes, so it is a \<^typ>\<open>char list\<close>; the orders \<open><\<close> and
  \<open>\<le>\<close> on it are the lexicographic byte orders Go's comparison operators and
  \<^verbatim>\<open>sort.Strings\<close> use. A loop over the runes of a string that rejects every rune outside a set of
  ASCII characters is modelled as a loop over its bytes: a byte of a multi-byte rune is not in the
  set either.
\<close>

named_theorems go_simps \<open>definitions of the Go library functions\<close>
named_theorems cmp_intros \<open>comparator laws of the composed comparisons\<close>
named_theorems lock_simps \<open>operations on repository locks\<close>

type_synonym gostring = string

subsection \<open>Character classes\<close>

definition is_digit :: "char \<Rightarrow> bool" where
  "is_digit c \<longleftrightarrow> CHR ''0'' \<le> c \<and> c \<le> CHR ''9''"

definition is_lower :: "char \<Rightarrow> bool" where
  "is_lower c \<longleftrightarrow> CHR ''a'' \<le> c \<and> c \<le> CHR ''z''"

definition is_upper :: "char \<Rightarrow> bool" where
  "is_upper c \<longleftrightarrow> CHR ''A'' \<le> c \<and> c \<le> CHR ''Z''"

definition is_alpha :: "char \<Rightarrow> bool" where
  "is_alpha c \<longleftrightarrow> is_lower c \<or> is_upper c"

definition digit_val :: "char \<Rightarrow> nat" where
  "digit_val c = of_char c - 48"

text \<open>The number a digit string spells, most significant digit first.\<close>

definition digits_val :: "gostring \<Rightarrow> nat" where
  "digits_val s = foldl (\<lambda>n c. 10 * n + digit_val c) 0 s"

text \<open>ASCII lower-casing: \<^verbatim>\<open>strings.ToLower\<close> on the ASCII strings it is applied to.\<close>

definition to_lower_char :: "char \<Rightarrow> char" where
  "to_lower_char c = (if is_upper c then char_of (of_char c + (32::nat)) else c)"

definition to_lower :: "gostring \<Rightarrow> gostring" where
  "to_lower s = map to_lower_char s"

subsection \<open>The package strings\<close>

fun has_prefix :: "gostring \<Rightarrow> gostring \<Rightarrow> bool" where
  "has_prefix s [] = True"
| "has_prefix [] (p # ps) = False"
| "has_prefix (c # s) (p # ps) = (c = p \<and> has_prefix s ps)"

definition has_suffix :: "gostring \<Rightarrow> gostring \<Rightarrow> bool" where
  "has_suffix s t = has_prefix (rev s) (rev t)"

definition trim_prefix :: "gostring \<Rightarrow> gostring \<Rightarrow> gostring" where
  "trim_prefix s p = (if has_prefix s p then drop (length p) s else s)"

definition trim_suffix :: "gostring \<Rightarrow> gostring \<Rightarrow> gostring" where
  "trim_suffix s p = (if has_suffix s p then take (length s - length p) s else s)"

text \<open>\<^verbatim>\<open>TrimLeft\<close>, \<^verbatim>\<open>TrimRight\<close> and \<^verbatim>\<open>Trim\<close> with their cutset as a predicate.\<close>

definition trim_left :: "(char \<Rightarrow> bool) \<Rightarrow> gostring \<Rightarrow> gostring" where
  "trim_left p s = dropWhile p s"

definition trim_right :: "(char \<Rightarrow> bool) \<Rightarrow> gostring \<Rightarrow> gostring" where
  "trim_right p s = rev (dropWhile p (rev s))"

definition trim :: "(char \<Rightarrow> bool) \<Rightarrow> gostring \<Rightarrow> gostring" where
  "trim p s = trim_right p (trim_left p s)"

definition is_space :: "char \<Rightarrow> bool" where
  "is_space c \<longleftrightarrow> c \<in> {CHR '' '', CHR 0x09, CHR 0x0A, CHR 0x0B, CHR 0x0C, CHR 0x0D}"

definition contains_any :: "gostring \<Rightarrow> gostring \<Rightarrow> bool" where
  "contains_any s cs = list_ex (\<lambda>c. c \<in> set cs) s"

text \<open>
  \<^verbatim>\<open>IndexByte\<close> and \<^verbatim>\<open>LastIndexByte\<close> are used to cut a string at a separator, so they are modelled by
  the two sides of the cut; \<open>None\<close> is Go's \<open>-1\<close>.
\<close>

definition cut_first :: "char \<Rightarrow> gostring \<Rightarrow> (gostring \<times> gostring) option" where
  "cut_first c s = (if c \<in> set s
     then Some (takeWhile (\<lambda>x. x \<noteq> c) s, drop 1 (dropWhile (\<lambda>x. x \<noteq> c) s)) else None)"

definition cut_last :: "char \<Rightarrow> gostring \<Rightarrow> (gostring \<times> gostring) option" where
  "cut_last c s = (case cut_first c (rev s) of None \<Rightarrow> None
     | Some (after, before) \<Rightarrow> Some (rev before, rev after))"

fun split_on :: "char \<Rightarrow> gostring \<Rightarrow> gostring list" where
  "split_on c [] = [[]]"
| "split_on c (x # xs) = (if x = c then [] # split_on c xs
     else (case split_on c xs of [] \<Rightarrow> [[x]] | f # fs \<Rightarrow> (x # f) # fs))"

fun fields_aux :: "(char \<Rightarrow> bool) \<Rightarrow> gostring \<Rightarrow> gostring \<Rightarrow> gostring list" where
  "fields_aux p acc [] = (if acc = [] then [] else [rev acc])"
| "fields_aux p acc (c # s) =
     (if p c then (if acc = [] then fields_aux p [] s else rev acc # fields_aux p [] s)
      else fields_aux p (c # acc) s)"

definition fields_func :: "(char \<Rightarrow> bool) \<Rightarrow> gostring \<Rightarrow> gostring list" where
  "fields_func p s = fields_aux p [] s"

fun contains_sub :: "gostring \<Rightarrow> gostring \<Rightarrow> bool" where
  "contains_sub [] t = (t = [])"
| "contains_sub (c # s) t = (has_prefix (c # s) t \<or> contains_sub s t)"

fun join_with :: "gostring \<Rightarrow> gostring list \<Rightarrow> gostring" where
  "join_with sep [] = []"
| "join_with sep [x] = x"
| "join_with sep (x # y # ys) = x @ sep @ join_with sep (y # ys)"

text \<open>The separator byte \<^verbatim>\<open>"\x00"\<close> the sources build composite map keys with.\<close>

definition nul :: gostring where
  "nul = [CHR 0x00]"

text \<open>Parts of a composite key that end at a separator and contain none can be told apart.\<close>

definition nul_free :: "gostring \<Rightarrow> bool" where
  "nul_free s \<longleftrightarrow> CHR 0x00 \<notin> set s"

lemma nul_split: "nul_free a \<Longrightarrow> nul_free a' \<Longrightarrow> a @ nul @ b = a' @ nul @ b' \<longleftrightarrow> a = a' \<and> b = b'"
  unfolding nul_def nul_free_def by (induction a a' rule: list_induct2') auto

end
