(* ===== verification/Comparator.thy ===== *)
theory Comparator
  imports Prelude
begin

section \<open>Three-way comparators\<close>

text \<open>
  Every format orders version strings by a function that returns a negative number, zero or a
  positive number (\<^verbatim>\<open>state.VersionComparator\<close>). This theory holds the laws such a function has to
  satisfy to order anything, the ways the sources build one comparator from others (the first
  non-zero result wins; a list walked with a default for missing elements; a list whose proper
  prefix is lower), and the interface locale the retention code relies on.
\<close>

subsection \<open>The laws\<close>

definition comparator_on :: "'a set \<Rightarrow> ('a \<Rightarrow> 'a \<Rightarrow> int) \<Rightarrow> bool" where
  "comparator_on S c \<longleftrightarrow>
     (\<forall>a \<in> S. \<forall>b \<in> S. c a b \<in> {-1, 0, 1}) \<and>
     (\<forall>a \<in> S. \<forall>b \<in> S. c b a = - c a b) \<and>
     (\<forall>a \<in> S. \<forall>b \<in> S. \<forall>d \<in> S. c a b \<le> 0 \<longrightarrow> c b d \<le> 0 \<longrightarrow> c a d \<le> 0)"

lemma comparator_onI:
  assumes "\<And>a b. a \<in> S \<Longrightarrow> b \<in> S \<Longrightarrow> c a b \<in> {-1, 0, 1}"
    and "\<And>a b. a \<in> S \<Longrightarrow> b \<in> S \<Longrightarrow> c b a = - c a b"
    and "\<And>a b d. a \<in> S \<Longrightarrow> b \<in> S \<Longrightarrow> d \<in> S \<Longrightarrow> c a b \<le> 0 \<Longrightarrow> c b d \<le> 0 \<Longrightarrow> c a d \<le> 0"
  shows "comparator_on S c"
  unfolding comparator_on_def using assms by metis

lemma comparator_range: "\<lbrakk>comparator_on S c; a \<in> S; b \<in> S\<rbrakk> \<Longrightarrow> c a b \<in> {-1, 0, 1}"
  unfolding comparator_on_def by blast

lemma comparator_flip: "\<lbrakk>comparator_on S c; a \<in> S; b \<in> S\<rbrakk> \<Longrightarrow> c b a = - c a b"
  unfolding comparator_on_def by blast

lemma comparator_trans:
  "\<lbrakk>comparator_on S c; a \<in> S; b \<in> S; d \<in> S; c a b \<le> 0; c b d \<le> 0\<rbrakk> \<Longrightarrow> c a d \<le> 0"
  unfolding comparator_on_def by blast

lemma comparator_refl: "\<lbrakk>comparator_on S c; a \<in> S\<rbrakk> \<Longrightarrow> c a a = 0"
  using comparator_flip [of S c a a] by simp

lemma comparator_ge: "\<lbrakk>comparator_on S c; a \<in> S; b \<in> S; \<not> c a b < 0\<rbrakk> \<Longrightarrow> c b a \<le> 0"
  using comparator_flip [of S c a b] by linarith

lemma comparator_trans_less:
  assumes c: "comparator_on S c" and S: "a \<in> S" "b \<in> S" "d \<in> S"
    and ab: "c a b \<le> 0" and bd: "c b d \<le> 0" and strict: "c a b < 0 \<or> c b d < 0"
  shows "c a d < 0"
proof (rule ccontr)
  assume "\<not> c a d < 0"
  then have da: "c d a \<le> 0" by (rule comparator_ge [OF c S(1,3)])
  have "c b a \<le> 0" using comparator_trans [OF c S(2,3,1) bd da] .
  moreover have "c d b \<le> 0" using comparator_trans [OF c S(3,1,2) da ab] .
  moreover have "c b a = - c a b" "c d b = - c b d"
    using comparator_flip [OF c S(1,2)] comparator_flip [OF c S(2,3)] .
  ultimately show False using strict by linarith
qed

lemma comparator_trans_eq:
  assumes c: "comparator_on S c" and S: "a \<in> S" "b \<in> S" "d \<in> S"
    and ab: "c a b = 0" and bd: "c b d = 0"
  shows "c a d = 0"
proof -
  have flips: "c b a = 0" "c d b = 0" "c d a = - c a d"
    using comparator_flip [OF c S(1,2)] comparator_flip [OF c S(2,3)] comparator_flip [OF c S(1,3)] ab bd
    by simp_all
  have "c a d \<le> 0" using comparator_trans [OF c S] ab bd by simp
  moreover have "c d a \<le> 0" using comparator_trans [OF c S(3,2,1)] flips by simp
  ultimately show ?thesis using flips by linarith
qed

text \<open>Pulling a comparator back along a function, the shape of every \<open>compare (parse a) (parse b)\<close>.\<close>

lemma comparator_on_pullback:
  assumes c: "comparator_on S c" and k: "\<And>a. a \<in> T \<Longrightarrow> k a \<in> S"
  shows "comparator_on T (\<lambda>a b. c (k a) (k b))"
proof (rule comparator_onI)
  fix a b d assume T: "a \<in> T" "b \<in> T" "d \<in> T" and le: "c (k a) (k b) \<le> 0" "c (k b) (k d) \<le> 0"
  show "c (k a) (k d) \<le> 0" using comparator_trans [OF c k [OF T(1)] k [OF T(2)] k [OF T(3)] le] .
next
  fix a b assume T: "a \<in> T" "b \<in> T"
  show "c (k a) (k b) \<in> {-1, 0, 1}" using comparator_range [OF c k [OF T(1)] k [OF T(2)]] .
  show "c (k b) (k a) = - c (k a) (k b)" using comparator_flip [OF c k [OF T(1)] k [OF T(2)]] .
qed

lemma comparator_on_subset: "comparator_on S c \<Longrightarrow> T \<subseteq> S \<Longrightarrow> comparator_on T c"
  using comparator_on_pullback [of S c T "\<lambda>a. a"] by blast

lemma comparator_on_cong:
  assumes "comparator_on S c" and "\<And>a b. a \<in> S \<Longrightarrow> b \<in> S \<Longrightarrow> c' a b = c a b"
  shows "comparator_on S c'"
proof (rule comparator_onI)
  fix a b d assume S: "a \<in> S" "b \<in> S" "d \<in> S" and le: "c' a b \<le> 0" "c' b d \<le> 0"
  show "c' a d \<le> 0"
    using comparator_trans [OF assms(1) S] le unfolding assms(2) [OF S(1,2)] assms(2) [OF S(2,3)] assms(2) [OF S(1,3)] .
next
  fix a b assume S: "a \<in> S" "b \<in> S"
  show "c' a b \<in> {-1, 0, 1}"
    using comparator_range [OF assms(1) S] unfolding assms(2) [OF S] .
  show "c' b a = - c' a b"
    using comparator_flip [OF assms(1) S] unfolding assms(2) [OF S] assms(2) [OF S(2,1)] .
qed

subsection \<open>Comparing in a linear order\<close>

text \<open>The \<^verbatim>\<open>if a < b return -1; if a > b return 1\<close> of the sources; \<^verbatim>\<open>strings.Compare\<close> on strings.\<close>

definition cmp3 :: "'a::linorder \<Rightarrow> 'a \<Rightarrow> int" where
  "cmp3 a b = (if a < b then -1 else if b < a then 1 else 0)"

lemma cmp3_simps [simp]:
  "cmp3 a b \<le> 0 \<longleftrightarrow> a \<le> b" "cmp3 a b < 0 \<longleftrightarrow> a < b" "0 < cmp3 a b \<longleftrightarrow> b < a" "cmp3 a b = 0 \<longleftrightarrow> a = b"
  "cmp3 a b = -1 \<longleftrightarrow> a < b" "cmp3 a b = 1 \<longleftrightarrow> b < a" "cmp3 a a = 0"
  by (auto simp: cmp3_def)

lemma comparator_cmp3 [cmp_intros]: "comparator_on S (cmp3 :: 'a::linorder \<Rightarrow> _)"
proof (rule comparator_onI)
  fix a b d :: 'a assume "cmp3 a b \<le> 0" "cmp3 b d \<le> 0"
  then show "cmp3 a d \<le> 0" by simp
qed (auto simp: cmp3_def)

lemma comparator_key [cmp_intros]: "comparator_on S (\<lambda>a b. cmp3 (k a) (k b))"
  by (rule comparator_on_pullback [OF comparator_cmp3 [of UNIV]]) simp

subsection \<open>First non-zero result\<close>

definition cmp_then :: "int \<Rightarrow> int \<Rightarrow> int" where
  "cmp_then x y = (if x \<noteq> 0 then x else y)"

lemma cmp_then_0 [simp]: "cmp_then 0 y = y" "cmp_then x 0 = x" "cmp_then x y = 0 \<longleftrightarrow> x = 0 \<and> y = 0"
  by (auto simp: cmp_then_def)

lemma comparator_then [cmp_intros]:
  assumes c: "comparator_on S c" and d: "comparator_on S d"
  shows "comparator_on S (\<lambda>a b. cmp_then (c a b) (d a b))"
proof (rule comparator_onI)
  fix x y z assume S: "x \<in> S" "y \<in> S" "z \<in> S"
    and xy: "cmp_then (c x y) (d x y) \<le> 0" and yz: "cmp_then (c y z) (d y z) \<le> 0"
  have le: "c x y \<le> 0" "c y z \<le> 0" using xy yz by (auto simp: cmp_then_def split: if_splits)
  show "cmp_then (c x z) (d x z) \<le> 0"
  proof (cases "c x y = 0 \<and> c y z = 0")
    case True
    then have "c x z = 0" and "d x z \<le> 0"
      using comparator_trans_eq [OF c S] comparator_trans [OF d S] xy yz by auto
    then show ?thesis by simp
  next
    case False
    then have "c x z < 0" using comparator_trans_less [OF c S le] le by linarith
    then show ?thesis by (simp add: cmp_then_def)
  qed
next
  fix x y assume S: "x \<in> S" "y \<in> S"
  show "cmp_then (c x y) (d x y) \<in> {-1, 0, 1}"
    using comparator_range [OF c S] comparator_range [OF d S] by (auto simp: cmp_then_def)
  show "cmp_then (c y x) (d y x) = - cmp_then (c x y) (d x y)"
    using comparator_flip [OF c S] comparator_flip [OF d S] by (simp add: cmp_then_def)
qed

lemma cmp_then_flip: "x' = - x \<Longrightarrow> y' = - y \<Longrightarrow> cmp_then x' y' = - cmp_then x y"
  by (simp add: cmp_then_def)

lemma cmp_then_range: "x \<in> {-1, 0, 1} \<Longrightarrow> y \<in> {-1, 0, 1} \<Longrightarrow> cmp_then x y \<in> {-1, 0, 1}"
  by (auto simp: cmp_then_def)

subsection \<open>Walking two lists, with a default for missing elements\<close>

text \<open>
  The loop \<^verbatim>\<open>for index := 0; index < len(left) || index < len(right); index++\<close> whose body reads a
  default where one list has ended: dotted release numbers and Alpine suffixes are compared so.
\<close>

fun cmp_pad :: "('a \<Rightarrow> 'a \<Rightarrow> int) \<Rightarrow> 'a \<Rightarrow> 'a list \<Rightarrow> 'a list \<Rightarrow> int" where
  "cmp_pad c z [] [] = 0"
| "cmp_pad c z (x # xs) [] = cmp_then (c x z) (cmp_pad c z xs [])"
| "cmp_pad c z [] (y # ys) = cmp_then (c z y) (cmp_pad c z [] ys)"
| "cmp_pad c z (x # xs) (y # ys) = cmp_then (c x y) (cmp_pad c z xs ys)"

definition head_or :: "'a \<Rightarrow> 'a list \<Rightarrow> 'a" where
  "head_or z xs = (case xs of [] \<Rightarrow> z | x # _ \<Rightarrow> x)"

lemma cmp_pad_step:
  "c z z = 0 \<Longrightarrow> cmp_pad c z xs ys = cmp_then (c (head_or z xs) (head_or z ys)) (cmp_pad c z (tl xs) (tl ys))"
  by (cases xs; cases ys) (simp_all add: head_or_def)

lemma lists_head_or: "z \<in> S \<Longrightarrow> xs \<in> lists S \<Longrightarrow> head_or z xs \<in> S"
  by (cases xs) (auto simp: head_or_def)

lemma lists_tl: "xs \<in> lists S \<Longrightarrow> tl xs \<in> lists S"
  by (cases xs) auto

abbreviation lists_upto :: "nat \<Rightarrow> 'a set \<Rightarrow> 'a list set" where
  "lists_upto n S \<equiv> {ws. ws \<in> lists S \<and> length ws \<le> n}"

lemma comparator_pad_upto:
  assumes c: "comparator_on S c" and z: "z \<in> S"
  shows "comparator_on (lists_upto n S) (cmp_pad c z)"
proof (induction n)
  case 0
  show ?case by (rule comparator_onI) auto
next
  case (Suc n)
  have zz: "c z z = 0" using comparator_refl [OF c z] .
  have tails: "comparator_on (lists_upto (Suc n) S) (\<lambda>xs ys. cmp_pad c z (tl xs) (tl ys))"
    by (rule comparator_on_pullback [OF Suc.IH]) (auto simp: lists_tl)
  have "comparator_on (lists_upto (Suc n) S) (\<lambda>xs ys. c (head_or z xs) (head_or z ys))"
    by (rule comparator_on_pullback [OF c]) (simp add: lists_head_or [OF z])
  from comparator_then [OF this tails] show ?case
    by (rule comparator_on_cong) (rule cmp_pad_step [of c z, OF zz])
qed

lemma comparator_pad [cmp_intros]:
  assumes "comparator_on S c" and "z \<in> S"
  shows "comparator_on (lists S) (cmp_pad c z)"
proof (rule comparator_onI)
  note upto = comparator_pad_upto [OF assms]
  fix xs ys zs assume l: "xs \<in> lists S" "ys \<in> lists S" "zs \<in> lists S"
    and le: "cmp_pad c z xs ys \<le> 0" "cmp_pad c z ys zs \<le> 0"
  let ?n = "length xs + length ys + length zs"
  have "xs \<in> lists_upto ?n S" "ys \<in> lists_upto ?n S" "zs \<in> lists_upto ?n S"
    using l by simp_all
  then show "cmp_pad c z xs zs \<le> 0" using comparator_trans [OF upto] le by blast
next
  note upto = comparator_pad_upto [OF assms]
  fix xs ys assume l: "xs \<in> lists S" "ys \<in> lists S"
  let ?n = "length xs + length ys"
  have m: "xs \<in> lists_upto ?n S" "ys \<in> lists_upto ?n S"
    using l by simp_all
  show "cmp_pad c z xs ys \<in> {-1, 0, 1}" using comparator_range [OF upto m] .
  show "cmp_pad c z ys xs = - cmp_pad c z xs ys" using comparator_flip [OF upto m] .
qed

subsection \<open>Walking two lists, a proper prefix being lower\<close>

fun cmp_lex :: "('a \<Rightarrow> 'a \<Rightarrow> int) \<Rightarrow> 'a list \<Rightarrow> 'a list \<Rightarrow> int" where
  "cmp_lex c [] [] = 0"
| "cmp_lex c [] (y # ys) = -1"
| "cmp_lex c (x # xs) [] = 1"
| "cmp_lex c (x # xs) (y # ys) = cmp_then (c x y) (cmp_lex c xs ys)"

fun cmp_option :: "('a \<Rightarrow> 'a \<Rightarrow> int) \<Rightarrow> 'a option \<Rightarrow> 'a option \<Rightarrow> int" where
  "cmp_option c None None = 0"
| "cmp_option c None (Some b) = -1"
| "cmp_option c (Some a) None = 1"
| "cmp_option c (Some a) (Some b) = c a b"

lemma comparator_option [cmp_intros]:
  assumes c: "comparator_on S c"
  shows "comparator_on (insert None (Some ` S)) (cmp_option c)"
proof (rule comparator_onI)
  fix x y z assume S: "x \<in> insert None (Some ` S)" "y \<in> insert None (Some ` S)" "z \<in> insert None (Some ` S)"
    and le: "cmp_option c x y \<le> 0" "cmp_option c y z \<le> 0"
  show "cmp_option c x z \<le> 0"
    using S le by (cases x; cases y; cases z) (auto intro: comparator_trans [OF c])
next
  fix x y assume S: "x \<in> insert None (Some ` S)" "y \<in> insert None (Some ` S)"
  show "cmp_option c x y \<in> {-1, 0, 1}"
    using S comparator_range [OF c] by (cases x; cases y) auto
  show "cmp_option c y x = - cmp_option c x y"
    using S by (cases x; cases y) (auto intro: comparator_flip [OF c])
qed

lemma cmp_lex_pad: "cmp_lex c xs ys = cmp_pad (cmp_option c) None (map Some xs) (map Some ys)"
  by (induction c xs ys rule: cmp_lex.induct) (simp_all add: cmp_then_def)

lemma comparator_lex [cmp_intros]:
  assumes "comparator_on S c"
  shows "comparator_on (lists S) (cmp_lex c)"
  unfolding cmp_lex_pad
  by (rule comparator_on_pullback [OF comparator_pad [OF comparator_option [OF assms]]]) auto

lemma cmp_lex_string: "cmp_lex cmp3 s t = cmp3 s (t :: 'a::linorder list)"
  by (induction "cmp3 :: 'a \<Rightarrow> 'a \<Rightarrow> int" s t rule: cmp_lex.induct)
     (auto simp: cmp_then_def cmp3_def)

subsection \<open>The interface of a version comparator\<close>

text \<open>
  \<^verbatim>\<open>type VersionComparator func(left, right string) (int, error)\<close>. A comparator may refuse a string;
  on the strings it accepts it always answers, and its answers are those of a total preorder. The
  clients of the interface (retention, in the theory \<open>Prune\<close>) are verified against exactly these
  laws, and each format's comparator is shown to satisfy them.
\<close>

definition version_cmp :: "('v \<Rightarrow> 'v \<Rightarrow> 'e + int) \<Rightarrow> 'v \<Rightarrow> 'v \<Rightarrow> int" where
  "version_cmp compare a b = (case compare a b of Inl e \<Rightarrow> 0 | Inr c \<Rightarrow> c)"

locale version_comparator =
  fixes compare :: "gostring \<Rightarrow> gostring \<Rightarrow> 'e + int" and valid :: "gostring \<Rightarrow> bool"
  assumes compare_answers: "valid a \<Longrightarrow> valid b \<Longrightarrow> \<exists>c. compare a b = Inr c"
    and compare_laws: "comparator_on {v. valid v} (version_cmp compare)"
begin

lemma compare_Inr: "valid a \<Longrightarrow> valid b \<Longrightarrow> compare a b = Inr (version_cmp compare a b)"
  using compare_answers [of a b] by (auto simp: version_cmp_def)

lemma compare_same: "valid a \<Longrightarrow> compare a a = Inr 0"
  using compare_Inr [of a a] comparator_refl [OF compare_laws, of a] by simp

lemma compare_swap: "valid a \<Longrightarrow> valid b \<Longrightarrow> compare a b = Inr c \<Longrightarrow> compare b a = Inr (- c)"
  using compare_Inr [of a b] compare_Inr [of b a] comparator_flip [OF compare_laws, of a b] by simp

lemma compare_chain:
  "\<lbrakk>valid a; valid b; valid d; compare a b = Inr x; compare b d = Inr y; x \<le> 0; y \<le> 0\<rbrakk>
     \<Longrightarrow> \<exists>w. compare a d = Inr w \<and> w \<le> 0"
  using compare_Inr [of a b] compare_Inr [of b d] compare_Inr [of a d]
    comparator_trans [OF compare_laws, of a b d] by simp

end

text \<open>A comparator that parses both sides and compares what it parsed.\<close>

lemma version_comparatorI:
  assumes "\<And>a b. valid a \<Longrightarrow> valid b \<Longrightarrow> compare a b = Inr (c a b)"
    and "comparator_on {v. valid v} c"
  shows "version_comparator compare valid"
proof
  show "\<exists>x. compare a b = Inr x" if "valid a" "valid b" for a b using assms(1) [OF that] by blast
  show "comparator_on {v. valid v} (version_cmp compare)"
    by (rule comparator_on_cong [OF assms(2)]) (simp add: version_cmp_def assms(1))
qed

end
