(* ===== verification/Decimal.thy ===== *)
theory Decimal
  imports Comparator
begin

section \<open>Decimal strings and their order\<close>

text \<open>
  \<^verbatim>\<open>strconv.ParseUint\<close> and \<^verbatim>\<open>strconv.ParseInt\<close> in base 10, and the comparison the version comparators
  use instead of a conversion, because a version component may be longer than any integer type:
  strip leading zeros, compare lengths, then compare the digits as text. The main lemma says that
  this is the order of the numbers the strings spell, at any length.
\<close>

definition digit_string :: "gostring \<Rightarrow> bool" where
  "digit_string s = list_all is_digit s"

definition parse_uint :: "nat \<Rightarrow> gostring \<Rightarrow> nat option" where
  "parse_uint bits s =
     (if s \<noteq> [] \<and> digit_string s \<and> int (digits_val s) < 2 ^ bits then Some (digits_val s) else None)"

definition parse_int :: "nat \<Rightarrow> gostring \<Rightarrow> int option" where
  "parse_int bits s =
     (let (neg, ds) = (case s of [] \<Rightarrow> (False, [])
         | c # cs \<Rightarrow> if c = CHR ''-'' then (True, cs) else if c = CHR ''+'' then (False, cs) else (False, s))
      in if ds = [] \<or> \<not> digit_string ds then None
         else let n = int (digits_val ds); v = (if neg then - n else n)
              in if - (2 ^ (bits - 1)) \<le> v \<and> v < 2 ^ (bits - 1) then Some v else None)"

definition trim_zeros :: "gostring \<Rightarrow> gostring" where
  "trim_zeros s = trim_left (\<lambda>c. c = CHR ''0'') s"

definition cmp_decimal :: "gostring \<Rightarrow> gostring \<Rightarrow> int" where
  "cmp_decimal l r = (let l = trim_zeros l; r = trim_zeros r in
     cmp_then (cmp3 (length l) (length r)) (cmp3 l r))"

subsection \<open>Values of digit strings\<close>

lemma is_digit_range: "is_digit c \<longleftrightarrow> 48 \<le> (of_char c :: nat) \<and> (of_char c :: nat) \<le> 57"
  by (simp add: is_digit_def less_eq_char_def)

lemma digit_val_less: "is_digit c \<Longrightarrow> digit_val c < 10"
  unfolding is_digit_range digit_val_def by linarith

lemma digit_val_mono: "is_digit c \<Longrightarrow> is_digit d \<Longrightarrow> digit_val c < digit_val d \<longleftrightarrow> c < d"
  unfolding is_digit_range digit_val_def less_char_def by linarith

lemma digit_val_zero: "is_digit c \<Longrightarrow> digit_val c = 0 \<longleftrightarrow> c = CHR ''0''"
proof
  assume "is_digit c" and "digit_val c = 0"
  then have "of_char c = (48 :: nat)" unfolding is_digit_range digit_val_def by linarith
  then have "of_char c = (of_char CHR ''0'' :: nat)" by simp
  then show "c = CHR ''0''" by (simp only: of_char_eq_iff)
qed (simp add: digit_val_def)

lemma digits_val_acc: "foldl (\<lambda>n c. 10 * n + digit_val c) a s = a * 10 ^ length s + digits_val s"
proof (induction s arbitrary: a)
  case Nil
  show ?case by (simp add: digits_val_def)
next
  case (Cons c s)
  have "digits_val (c # s) = digit_val c * 10 ^ length s + digits_val s"
    using Cons.IH [of "digit_val c"] by (simp add: digits_val_def)
  then show ?case using Cons.IH [of "10 * a + digit_val c"] by (simp add: algebra_simps)
qed

lemma digits_val_simps [simp]:
  "digits_val [] = 0"
  "digits_val (c # s) = digit_val c * 10 ^ length s + digits_val s"
  using digits_val_acc [of "digit_val c" s] by (simp_all add: digits_val_def)

lemma digit_string_simps [simp]:
  "digit_string []" "digit_string (c # s) \<longleftrightarrow> is_digit c \<and> digit_string s"
  "digit_string (s @ t) \<longleftrightarrow> digit_string s \<and> digit_string t"
  by (auto simp: digit_string_def)

lemma digits_val_bound: "digit_string s \<Longrightarrow> digits_val s < 10 ^ length s"
proof (induction s)
  case (Cons c s)
  then have "digit_val c < 10" and "digits_val s < 10 ^ length s" by (simp_all add: digit_val_less)
  then have "digits_val (c # s) < (digit_val c + 1) * 10 ^ length s" by simp
  also have "\<dots> \<le> 10 * 10 ^ length s" using \<open>digit_val c < 10\<close> by (intro mult_right_mono) auto
  finally show ?case by simp
qed simp

lemma digits_val_less_iff:
  "length s = length t \<Longrightarrow> digit_string s \<Longrightarrow> digit_string t \<Longrightarrow> digits_val s < digits_val t \<longleftrightarrow> s < t"
proof (induction s t rule: list_induct2)
  case (Cons c s d t)
  have bounds: "digits_val s < 10 ^ length s" "digits_val t < 10 ^ length s"
    using Cons.hyps Cons.prems digits_val_bound [of s] digits_val_bound [of t] by simp_all
  have step: "x < y \<Longrightarrow> x * 10 ^ length s + u < y * 10 ^ length s + w" if "u < 10 ^ length s" for x y u w :: nat
  proof -
    assume "x < y"
    then have "x * 10 ^ length s + 10 ^ length s \<le> y * 10 ^ length s"
      using mult_right_mono [of "Suc x" y "10 ^ length s"] by simp
    with that show ?thesis by linarith
  qed
  show ?case
  proof (cases "digit_val c" "digit_val d" rule: linorder_cases)
    case less
    then have "c < d" using digit_val_mono Cons.prems by simp
    then show ?thesis using step [OF bounds(1) less] Cons.hyps by simp
  next
    case equal
    then have "c = d" using digit_val_mono Cons.prems by (metis digit_string_simps(2) not_less_iff_gr_or_eq)
    then show ?thesis using Cons by simp
  next
    case greater
    then have "d < c" using digit_val_mono Cons.prems by simp
    then show ?thesis using step [OF bounds(2) greater, of "digits_val s"] Cons.hyps by auto
  qed
qed simp

subsection \<open>Leading zeros\<close>

lemma trim_zeros_simps [simp]:
  "trim_zeros [] = []"
  "trim_zeros (c # s) = (if c = CHR ''0'' then trim_zeros s else c # s)"
  by (simp_all add: trim_zeros_def trim_left_def)

lemma digits_val_trim_zeros [simp]: "digits_val (trim_zeros s) = digits_val s"
  by (induction s) (auto simp: digit_val_def)

lemma digit_string_trim_zeros: "digit_string s \<Longrightarrow> digit_string (trim_zeros s)"
  by (induction s) auto

lemma trim_zeros_lower: "digit_string s \<Longrightarrow> trim_zeros s \<noteq> [] \<Longrightarrow> 10 ^ (length (trim_zeros s) - 1) \<le> digits_val s"
proof (induction s)
  case (Cons c s)
  show ?case
  proof (cases "c = CHR ''0''")
    case False
    then have "digit_val c \<noteq> 0" using Cons.prems digit_val_zero by simp
    then have "1 * 10 ^ length s \<le> digit_val c * 10 ^ length s" by (intro mult_right_mono) auto
    then have "10 ^ length s \<le> digits_val (c # s)" unfolding digits_val_simps by linarith
    with False show ?thesis by simp
  qed (use Cons in \<open>simp add: digit_val_def\<close>)
qed simp

lemma trim_zeros_shorter:
  assumes "digit_string s" "digit_string t" "length (trim_zeros s) < length (trim_zeros t)"
  shows "digits_val s < digits_val t"
proof -
  have "digits_val s < 10 ^ length (trim_zeros s)"
    using digits_val_bound [OF digit_string_trim_zeros [OF assms(1)]] by simp
  also have "\<dots> \<le> 10 ^ (length (trim_zeros t) - 1)"
    using assms(3) by (intro power_increasing) auto
  also have "\<dots> \<le> digits_val t" using trim_zeros_lower assms(2,3) by fastforce
  finally show ?thesis .
qed

lemma cmp_decimal_val:
  assumes "digit_string l" "digit_string r"
  shows "cmp_decimal l r = cmp3 (digits_val l) (digits_val r)"
proof (cases "length (trim_zeros l)" "length (trim_zeros r)" rule: linorder_cases)
  case equal
  have "(trim_zeros l < trim_zeros r) = (digits_val l < digits_val r)"
    "(trim_zeros r < trim_zeros l) = (digits_val r < digits_val l)"
    using digits_val_less_iff [OF equal] digits_val_less_iff [OF equal [symmetric]]
      digit_string_trim_zeros assms by simp_all
  with equal show ?thesis by (simp add: cmp_decimal_def Let_def cmp3_def)
qed (use trim_zeros_shorter [of l r] trim_zeros_shorter [of r l] assms
     in \<open>auto simp: cmp_decimal_def Let_def cmp_then_def cmp3_def\<close>)

lemma comparator_decimal [cmp_intros]: "comparator_on {s. digit_string s} cmp_decimal"
  by (rule comparator_on_cong [OF comparator_key [where k = digits_val]]) (simp add: cmp_decimal_val)

subsection \<open>Cutting a digit prefix\<close>

text \<open>The loop \<^verbatim>\<open>for index < len(value) && accept(value[index])\<close> and the two slices it returns.\<close>

definition take_digits :: "gostring \<Rightarrow> gostring \<times> gostring" where
  "take_digits s = (takeWhile is_digit s, dropWhile is_digit s)"

lemma digit_string_takeWhile [simp]: "digit_string (takeWhile is_digit s)"
  by (induction s) auto

end
