(* ===== verification/Go_Regexp.thy ===== *)
theory Go_Regexp
  imports Decimal
begin

section \<open>Regular expressions of the package regexp\<close>

text \<open>
  The fragment of Go's \<^verbatim>\<open>regexp\<close> the sources use: classes, concatenation, alternation, greedy
  repetition and capture groups. \<open>rx_match\<close> lists the ways an expression matches a prefix of the text
  in the order of preference Go documents (leftmost-first, as a backtracking matcher would find
  them), each with the text left over and the groups captured; the first one that ends where the
  pattern requires is the match. \<open>rx_lang\<close> is the usual language of the expression, and the lemmas
  say that a match is found exactly for the strings of the language and that what a group captured
  is in the language of a group of that number.
\<close>

datatype rx = Eps | Cls "char \<Rightarrow> bool" | Seq rx rx | Alt rx rx | Star rx | Cap nat rx

type_synonym captures = "(nat \<times> gostring) list"

function rx_match :: "rx \<Rightarrow> gostring \<Rightarrow> captures \<Rightarrow> (gostring \<times> captures) list" where
  "rx_match Eps s c = [(s, c)]"
| "rx_match (Cls p) s c = (case s of [] \<Rightarrow> [] | x # xs \<Rightarrow> if p x then [(xs, c)] else [])"
| "rx_match (Seq a b) s c = concat (map (\<lambda>(s', c'). rx_match b s' c') (rx_match a s c))"
| "rx_match (Alt a b) s c = rx_match a s c @ rx_match b s c"
| "rx_match (Star a) s c =
     concat (map (\<lambda>(s', c'). if length s' < length s then rx_match (Star a) s' c' else []) (rx_match a s c))
     @ [(s, c)]"
| "rx_match (Cap n a) s c = map (\<lambda>(s', c'). (s', (n, take (length s - length s') s) # c')) (rx_match a s c)"
  by pat_completeness auto
termination
  by (relation "measures [\<lambda>(r, s, c). size r, \<lambda>(r, s, c). length s]") auto

declare rx_match.simps(5) [simp del]

lemma set_rx_match_Star:
  "(s', c') \<in> set (rx_match (Star a) s c) \<longleftrightarrow> (s' = s \<and> c' = c) \<or>
     (\<exists>s1 c1. (s1, c1) \<in> set (rx_match a s c) \<and> length s1 < length s \<and> (s', c') \<in> set (rx_match (Star a) s1 c1))"
  by (subst rx_match.simps(5)) (auto split: if_splits)

text \<open>An optional, a repeated and a literal expression, and \<^verbatim>\<open>{n,}\<close> and \<^verbatim>\<open>{0,n}\<close>.\<close>

definition Opt :: "rx \<Rightarrow> rx" where "Opt a = Alt a Eps"
definition Plus :: "rx \<Rightarrow> rx" where "Plus a = Seq a (Star a)"

fun Lit :: "(char \<Rightarrow> char \<Rightarrow> bool) \<Rightarrow> gostring \<Rightarrow> rx" where
  "Lit eq [] = Eps"
| "Lit eq (x # xs) = Seq (Cls (eq x)) (Lit eq xs)"

fun Times :: "nat \<Rightarrow> rx \<Rightarrow> rx \<Rightarrow> rx" where
  "Times 0 a r = r"
| "Times (Suc n) a r = Seq a (Times n a r)"

fun Upto :: "nat \<Rightarrow> rx \<Rightarrow> rx" where
  "Upto 0 a = Eps"
| "Upto (Suc n) a = Opt (Seq a (Upto n a))"

text \<open>
  \<open>rx_full\<close> is a match of \<^verbatim>\<open>^...$\<close>, \<open>rx_ends\<close> one of \<^verbatim>\<open>...$\<close> and \<open>rx_search\<close> one without anchors; a group
  that took no part is the empty string.
\<close>

definition rx_full :: "rx \<Rightarrow> gostring \<Rightarrow> captures option" where
  "rx_full r s = (case filter (\<lambda>(s', c). s' = []) (rx_match r s []) of [] \<Rightarrow> None | (s', c) # _ \<Rightarrow> Some c)"

fun suffixes :: "gostring \<Rightarrow> gostring list" where
  "suffixes [] = [[]]"
| "suffixes (c # s) = (c # s) # suffixes s"

definition rx_ends :: "rx \<Rightarrow> gostring \<Rightarrow> bool" where
  "rx_ends r s = list_ex (\<lambda>t. rx_full r t \<noteq> None) (suffixes s)"

definition rx_search :: "rx \<Rightarrow> gostring \<Rightarrow> bool" where
  "rx_search r s = list_ex (\<lambda>t. rx_match r t [] \<noteq> []) (suffixes s)"

definition group :: "captures \<Rightarrow> nat \<Rightarrow> gostring" where
  "group c n = (case map_of c n of None \<Rightarrow> [] | Some s \<Rightarrow> s)"

subsection \<open>The language of an expression\<close>

inductive rx_lang :: "rx \<Rightarrow> gostring \<Rightarrow> bool" where
  rx_Eps: "rx_lang Eps []"
| rx_Cls: "p x \<Longrightarrow> rx_lang (Cls p) [x]"
| rx_Seq: "rx_lang a u \<Longrightarrow> rx_lang b v \<Longrightarrow> rx_lang (Seq a b) (u @ v)"
| rx_AltL: "rx_lang a u \<Longrightarrow> rx_lang (Alt a b) u"
| rx_AltR: "rx_lang b u \<Longrightarrow> rx_lang (Alt a b) u"
| rx_Star0: "rx_lang (Star a) []"
| rx_Star: "rx_lang a u \<Longrightarrow> rx_lang (Star a) v \<Longrightarrow> rx_lang (Star a) (u @ v)"
| rx_Cap: "rx_lang a u \<Longrightarrow> rx_lang (Cap n a) u"

inductive_simps rx_lang_simps [simp]:
  "rx_lang Eps u" "rx_lang (Cls p) u" "rx_lang (Alt a b) u" "rx_lang (Cap n a) u"

inductive_simps rx_lang_Seq: "rx_lang (Seq a b) u"

lemma rx_match_sound: "(s', c') \<in> set (rx_match r s c) \<Longrightarrow> \<exists>u. s = u @ s' \<and> rx_lang r u"
proof (induction r s c arbitrary: s' c' rule: rx_match.induct)
  case (3 a b s c)
  then obtain s1 c1 where 1: "(s1, c1) \<in> set (rx_match a s c)" "(s', c') \<in> set (rx_match b s1 c1)" by auto
  obtain u where u: "s = u @ s1" "rx_lang a u" using 3(1) [OF 1(1)] by auto
  obtain v where v: "s1 = v @ s'" "rx_lang b v" using 3(2) [OF 1(1) refl 1(2)] by auto
  have "s = (u @ v) @ s'" "rx_lang (Seq a b) (u @ v)" using u v rx_Seq by auto
  then show ?case by blast
next
  case (5 a s c)
  from 5(3) consider "s' = s" | s1 c1 where "(s1, c1) \<in> set (rx_match a s c)" "length s1 < length s"
      "(s', c') \<in> set (rx_match (Star a) s1 c1)"
    using set_rx_match_Star by blast
  then show ?case
  proof cases
    case 1
    then show ?thesis using rx_Star0 by auto
  next
    case 1: 2
    obtain u where u: "s = u @ s1" "rx_lang a u" using 5(1) [OF 1(1)] by auto
    obtain v where v: "s1 = v @ s'" "rx_lang (Star a) v" using 5(2) [OF 1(1) refl 1(2,3)] by auto
    have "s = (u @ v) @ s'" "rx_lang (Star a) (u @ v)" using u v rx_Star by auto
    then show ?thesis by blast
  qed
next
  case (4 a b s c)
  then show ?case by (metis Un_iff rx_AltL rx_AltR rx_match.simps(4) set_append)
next
  case (6 n a s c)
  then show ?case by fastforce
qed (auto split: list.splits if_splits)

lemma rx_match_complete: "rx_lang r u \<Longrightarrow> \<exists>c'. (t, c') \<in> set (rx_match r (u @ t) c)"
proof (induction r u arbitrary: t c rule: rx_lang.induct)
  case (rx_Seq a u b v)
  obtain c1 where "(v @ t, c1) \<in> set (rx_match a (u @ v @ t) c)" using rx_Seq.IH(1) by blast
  moreover obtain c2 where "(t, c2) \<in> set (rx_match b (v @ t) c1)" using rx_Seq.IH(2) by blast
  ultimately show ?case by force
next
  case (rx_Star a u v)
  show ?case
  proof (cases u)
    case Nil
    then show ?thesis using rx_Star.IH(2) by simp
  next
    case (Cons x xs)
    obtain c1 where 1: "(v @ t, c1) \<in> set (rx_match a (u @ v @ t) c)" using rx_Star.IH(1) by blast
    obtain c2 where 2: "(t, c2) \<in> set (rx_match (Star a) (v @ t) c1)" using rx_Star.IH(2) by blast
    have "length (v @ t) < length (u @ v @ t)" using Cons by simp
    with 1 2 have "(t, c2) \<in> set (rx_match (Star a) (u @ v @ t) c)" using set_rx_match_Star by blast
    then show ?thesis by auto
  qed
next
  case (rx_Cap a u n)
  then show ?case by force
next
  case (rx_AltL a u b)
  then show ?case by force
next
  case (rx_AltR b u a)
  then show ?case by force
next
  case (rx_Star0 a)
  show ?case by (rule exI [of _ c], subst rx_match.simps(5)) simp
qed auto

lemma rx_full_Some: "rx_full r s = Some c \<Longrightarrow> ([], c) \<in> set (rx_match r s [])"
proof -
  assume "rx_full r s = Some c"
  then obtain rest where "filter (\<lambda>(s', c). s' = []) (rx_match r s []) = ([], c) # rest"
    by (auto simp: rx_full_def filter_eq_Cons_iff split: list.splits)
  then have "([], c) \<in> set (filter (\<lambda>(s', c). s' = []) (rx_match r s []))" by simp
  then show ?thesis by simp
qed

lemma rx_full_lang: "rx_full r s \<noteq> None \<longleftrightarrow> rx_lang r s"
proof
  assume "rx_full r s \<noteq> None"
  then obtain c where "([], c) \<in> set (rx_match r s [])" using rx_full_Some by blast
  then show "rx_lang r s" using rx_match_sound [of "[]" c r s "[]"] by simp
next
  assume "rx_lang r s"
  then obtain c where "([], c) \<in> set (rx_match r s [])" using rx_match_complete [of r s "[]"] by auto
  then have "filter (\<lambda>(s', c). s' = []) (rx_match r s []) \<noteq> []" by (force simp: filter_empty_conv)
  then show "rx_full r s \<noteq> None" by (auto simp: rx_full_def split: list.splits)
qed

subsection \<open>What a group captures\<close>

fun rx_groups :: "rx \<Rightarrow> (nat \<times> rx) list" where
  "rx_groups Eps = []"
| "rx_groups (Cls p) = []"
| "rx_groups (Seq a b) = rx_groups a @ rx_groups b"
| "rx_groups (Alt a b) = rx_groups a @ rx_groups b"
| "rx_groups (Star a) = rx_groups a"
| "rx_groups (Cap n a) = (n, a) # rx_groups a"

lemma rx_match_groups:
  assumes "(s', c') \<in> set (rx_match r s c)" and "(n, w) \<in> set c'"
  shows "(n, w) \<in> set c \<or> (\<exists>a. (n, a) \<in> set (rx_groups r) \<and> rx_lang a w)"
  using assms
proof (induction r s c arbitrary: s' c' rule: rx_match.induct)
  case (3 a b s c)
  then obtain s1 c1 where 1: "(s1, c1) \<in> set (rx_match a s c)" "(s', c') \<in> set (rx_match b s1 c1)" by auto
  show ?case using 3(1) [OF 1(1)] 3(2) [OF 1(1) refl 1(2) 3(4)] by auto
next
  case (5 a s c)
  from 5(3) consider "c' = c" | s1 c1 where "(s1, c1) \<in> set (rx_match a s c)" "length s1 < length s"
      "(s', c') \<in> set (rx_match (Star a) s1 c1)"
    using set_rx_match_Star by blast
  then show ?case
  proof cases
    case 1
    then show ?thesis using 5(4) by blast
  next
    case 1: 2
    show ?thesis using 5(1) [OF 1(1)] 5(2) [OF 1(1) refl 1(2,3) 5(4)] by auto
  qed
next
  case (6 n' a s c)
  then obtain c1 where 1: "(s', c1) \<in> set (rx_match a s c)" "c' = (n', take (length s - length s') s) # c1" by auto
  have "rx_lang a (take (length s - length s') s)" using rx_match_sound [OF 1(1)] by auto
  then show ?case using 6(1) [OF 1(1)] 6(3) 1(2) by auto
next
  case (2 p s c)
  then show ?case by (auto split: list.splits if_splits)
next
  case (4 a b s c)
  from 4(3) consider "(s', c') \<in> set (rx_match a s c)" | "(s', c') \<in> set (rx_match b s c)" by auto
  then show ?case using 4(1,2) [OF _ 4(4)] by cases auto
qed auto

lemma group_lang:
  assumes "rx_full r s = Some c" and "group c n \<noteq> []"
  shows "\<exists>a. (n, a) \<in> set (rx_groups r) \<and> rx_lang a (group c n)"
proof -
  have "(n, group c n) \<in> set c"
    using assms(2) by (auto simp: group_def split: option.splits dest: map_of_SomeD)
  then show ?thesis using rx_match_groups [OF rx_full_Some [OF assms(1)]] by simp
qed

subsection \<open>Languages of the derived expressions\<close>

lemma rx_lang_Seq_Cls [simp]: "rx_lang (Seq (Cls p) b) u \<longleftrightarrow> (\<exists>x v. u = x # v \<and> p x \<and> rx_lang b v)"
  unfolding rx_lang_Seq rx_lang_simps(2) by (metis append_Cons append_Nil)

lemma rx_lang_Star_class: "rx_lang (Star (Cls p)) u \<longleftrightarrow> list_all p u"
proof
  show "rx_lang (Star (Cls p)) u \<Longrightarrow> list_all p u"
    by (induction "Star (Cls p)" u rule: rx_lang.induct) auto
  show "list_all p u \<Longrightarrow> rx_lang (Star (Cls p)) u"
  proof (induction u)
    case (Cons x u)
    then show ?case using rx_Star [of "Cls p" "[x]" u] rx_Cls [of p x] by simp
  qed (rule rx_Star0)
qed

lemma rx_lang_Opt: "rx_lang (Opt a) u \<longleftrightarrow> u = [] \<or> rx_lang a u"
  by (auto simp: Opt_def)

lemma rx_lang_Plus_class: "rx_lang (Plus (Cls p)) u \<longleftrightarrow> u \<noteq> [] \<and> list_all p u"
  by (cases u) (auto simp: Plus_def rx_lang_Star_class)

lemma rx_lang_Lit: "rx_lang (Lit eq w) u \<longleftrightarrow> list_all2 eq w u"
  by (induction w arbitrary: u) (auto simp: list_all2_Cons1)

lemma rx_lang_Times:
  "rx_lang (Times n (Cls p) r) u \<longleftrightarrow> n \<le> length u \<and> list_all p (take n u) \<and> rx_lang r (drop n u)"
proof (induction n arbitrary: u)
  case (Suc n)
  show ?case by (cases u) (auto simp: Suc)
qed simp

lemma rx_lang_Upto: "rx_lang (Upto n (Cls p)) u \<longleftrightarrow> length u \<le> n \<and> list_all p u"
proof (induction n arbitrary: u)
  case (Suc n)
  show ?case by (cases u) (auto simp: rx_lang_Opt Suc)
qed auto

lemma set_suffixes: "t \<in> set (suffixes s) \<longleftrightarrow> (\<exists>u. s = u @ t)"
proof (induction s)
  case (Cons x s)
  show ?case unfolding suffixes.simps list.set insert_iff Cons
    by (metis append_Cons append_Nil append_eq_Cons_conv)
qed simp

lemma rx_ends_lang: "rx_ends r s \<longleftrightarrow> (\<exists>u t. s = u @ t \<and> rx_lang r t)"
  unfolding rx_ends_def list_ex_iff Bex_def set_suffixes rx_full_lang by blast

lemma rx_match_lang: "rx_match r s [] \<noteq> [] \<longleftrightarrow> (\<exists>t v. s = t @ v \<and> rx_lang r t)"
proof
  assume "rx_match r s [] \<noteq> []"
  then obtain s' c where "(s', c) \<in> set (rx_match r s [])" by (cases "rx_match r s []") auto
  then show "\<exists>t v. s = t @ v \<and> rx_lang r t" using rx_match_sound by blast
next
  assume "\<exists>t v. s = t @ v \<and> rx_lang r t"
  then obtain t v where "s = t @ v" "rx_lang r t" by blast
  then obtain c where "(v, c) \<in> set (rx_match r s [])" using rx_match_complete by blast
  then show "rx_match r s [] \<noteq> []" by auto
qed

lemma rx_search_lang: "rx_search r s \<longleftrightarrow> (\<exists>u t v. s = u @ t @ v \<and> rx_lang r t)"
  unfolding rx_search_def list_ex_iff Bex_def set_suffixes rx_match_lang by blast

end
