(* ===== verification/Build_Version.thy ===== *)
theory Build_Version
  imports Go_Regexp
begin

section \<open>The version a binary reports\<close>

text \<open>
  \<^verbatim>\<open>internal/version/version.go\<close>: which Git descriptions name a release, and what a binary says of
  itself from the string stamped at link time and the build information of the toolchain. Both are
  arguments here, \<open>stamped\<close> and \<open>info\<close> (what \<^verbatim>\<open>debug.ReadBuildInfo\<close> returned). Tags are ASCII.
\<close>

record build_info =
  info_settings :: "(gostring \<times> gostring) list"
  info_main_version :: gostring

record Build =
  build_Version :: gostring
  build_Describe :: gostring
  build_Revision :: gostring
  build_Modified :: bool

definition hex_digit :: "char \<Rightarrow> bool" where
  "hex_digit c \<longleftrightarrow> is_digit c \<or> (CHR ''a'' \<le> c \<and> c \<le> CHR ''f'')"

definition tag_char :: "char \<Rightarrow> bool" where
  "tag_char c \<longleftrightarrow> is_alpha c \<or> is_digit c \<or> c \<in> {CHR ''.'', CHR ''+'', CHR ''~'', CHR ''-''}"

definition releaseTag :: rx where
  "releaseTag = Seq (Cls is_digit) (Upto 127 (Cls tag_char))"

definition snapshot :: rx where
  "snapshot = Seq (Lit (=) ''-'') (Seq (Plus (Cls is_digit)) (Seq (Lit (=) ''-g'')
     (Times 7 (Cls hex_digit) (Star (Cls hex_digit)))))"

definition hashLike :: rx where
  "hashLike = Times 7 (Cls hex_digit) (Upto 33 (Cls hex_digit))"

definition pseudoVersion :: rx where
  "pseudoVersion = Seq (Lit (=) ''-'') (Times 14 (Cls is_digit) (Seq (Lit (=) ''-'')
     (Times 12 (Cls hex_digit) Eps)))"

definition releaseVersion :: "gostring \<Rightarrow> gostring" where
  "releaseVersion describe =
     (if describe = [] \<or> has_suffix describe ''-dirty'' then []
      else if rx_ends snapshot describe then []
      else let candidate = trim_prefix describe ''v'' in
        if rx_full releaseTag candidate = None \<or> rx_full hashLike candidate \<noteq> None then []
        else candidate)"

definition tag_PackageVersion :: "gostring \<Rightarrow> gostring \<times> bool" where
  "tag_PackageVersion tag = (let resolved = releaseVersion (trim is_space tag) in (resolved, resolved \<noteq> []))"

definition moduleReleaseVersion :: "gostring \<Rightarrow> gostring" where
  "moduleReleaseVersion moduleVersion =
     (if moduleVersion = [] \<or> moduleVersion = ''(devel)'' then []
      else if CHR ''+'' \<in> set moduleVersion \<or> rx_search pseudoVersion moduleVersion then []
      else releaseVersion moduleVersion)"

definition apply_setting :: "gostring \<Rightarrow> gostring \<times> gostring \<Rightarrow> Build \<Rightarrow> Build" where
  "apply_setting stamped setting build =
     (if fst setting = ''vcs.revision'' then
        (if build_Revision build = [] then build\<lparr>build_Revision := snd setting\<rparr> else build)
      else if fst setting = ''vcs.modified'' then
        (if stamped = [] \<and> snd setting = ''true'' then build\<lparr>build_Modified := True\<rparr> else build)
      else build)"

definition readBuildInfo :: "gostring \<Rightarrow> build_info option \<Rightarrow> Build \<Rightarrow> Build" where
  "readBuildInfo stamped info build = (case info of None \<Rightarrow> build
     | Some info \<Rightarrow>
       let build = fold (apply_setting stamped) (info_settings info) build in
       if stamped \<noteq> [] then build
       else let resolved = moduleReleaseVersion (info_main_version info) in
         if resolved \<noteq> [] \<and> \<not> build_Modified build
         then build\<lparr>build_Version := resolved, build_Describe := info_main_version info\<rparr>
         else build)"

definition Current :: "gostring \<Rightarrow> build_info option \<Rightarrow> Build" where
  "Current stamped info =
     (let build = \<lparr>build_Version = [], build_Describe = stamped, build_Revision = [], build_Modified = False\<rparr>;
          build = (if stamped \<noteq> [] then build\<lparr>build_Modified := has_suffix stamped ''-dirty'',
                     build_Version := releaseVersion stamped\<rparr> else build)
      in readBuildInfo stamped info build)"

definition IsRelease :: "Build \<Rightarrow> bool" where
  "IsRelease build \<longleftrightarrow> build_Version build \<noteq> []"

definition build_String :: "Build \<Rightarrow> gostring" where
  "build_String build =
     (if IsRelease build then build_Version build
      else if build_Describe build \<noteq> [] then build_Describe build
      else if build_Revision build \<noteq> [] then
        (let revision = (if length (build_Revision build) > 12 then take 12 (build_Revision build)
                         else build_Revision build)
         in if build_Modified build then revision @ ''-dirty'' else revision)
      else ''unknown'')"

subsection \<open>Lemmas\<close>

lemma releaseTag_lang:
  "rx_lang releaseTag u \<longleftrightarrow> (\<exists>d t. u = d # t \<and> is_digit d \<and> length t \<le> 127 \<and> list_all tag_char t)"
  by (auto simp: releaseTag_def rx_lang_Upto)

lemma hashLike_lang: "rx_lang hashLike u \<longleftrightarrow> 7 \<le> length u \<and> length u \<le> 40 \<and> list_all hex_digit u"
proof -
  have "list_all hex_digit u \<longleftrightarrow> list_all hex_digit (take 7 u) \<and> list_all hex_digit (drop 7 u)"
    by (metis append_take_drop_id list_all_append)
  then show ?thesis by (auto simp: hashLike_def rx_lang_Times rx_lang_Upto)
qed

lemma snapshot_lang:
  assumes "n \<noteq> []" "digit_string n" "7 \<le> length h" "list_all hex_digit h"
  shows "rx_lang snapshot (''-'' @ n @ ''-g'' @ h)"
proof -
  have "rx_lang (Times 7 (Cls hex_digit) (Star (Cls hex_digit))) h"
    using assms(3,4) by (auto simp: rx_lang_Times rx_lang_Star_class list_all_iff dest: in_set_takeD in_set_dropD)
  moreover have "rx_lang (Plus (Cls is_digit)) n" using assms(1,2) by (simp add: rx_lang_Plus_class digit_string_def)
  moreover have "rx_lang (Lit (=) ''-'') ''-''" "rx_lang (Lit (=) ''-g'') ''-g''"
    by (simp_all add: rx_lang_Lit del: Lit.simps)
  ultimately show ?thesis unfolding snapshot_def by (intro rx_Seq)
qed

lemma releaseVersion_snapshot:
  assumes "n \<noteq> []" "digit_string n" "7 \<le> length h" "list_all hex_digit h"
  shows "releaseVersion (tag @ ''-'' @ n @ ''-g'' @ h) = []"
  using snapshot_lang [OF assms] by (auto simp: releaseVersion_def rx_ends_lang)

lemma apply_setting_keeps:
  "build_Version (fold (apply_setting stamped) settings b) = build_Version b"
  "build_Describe (fold (apply_setting stamped) settings b) = build_Describe b"
  "stamped \<noteq> [] \<Longrightarrow> build_Modified (fold (apply_setting stamped) settings b) = build_Modified b"
  by (induction settings arbitrary: b) (auto simp: apply_setting_def)

lemma releaseVersion_sound:
  assumes "releaseVersion describe \<noteq> []"
  shows "describe = releaseVersion describe \<or> describe = CHR ''v'' # releaseVersion describe"
    and "rx_lang releaseTag (releaseVersion describe)" and "\<not> rx_lang hashLike (releaseVersion describe)"
    and "\<not> has_suffix describe ''-dirty''" and "\<not> rx_ends snapshot describe"
  using assms rx_full_lang [of releaseTag "trim_prefix describe ''v''"]
    rx_full_lang [of hashLike "trim_prefix describe ''v''"]
  by (cases describe; auto simp: releaseVersion_def Let_def trim_prefix_def split: if_splits)+

subsection \<open>Properties\<close>

text \<open>
  C33: whatever a non-empty release version was derived from, it begins with a digit, has at most 128
  characters of the package version alphabet, is not shaped like a commit hash, and the description
  was exactly that version or its \<^verbatim>\<open>v\<close>-prefixed tag.
\<close>

theorem release_version_shape:
  assumes "releaseVersion describe \<noteq> []"
  shows "\<exists>d t. releaseVersion describe = d # t \<and> is_digit d \<and> length t \<le> 127 \<and> list_all tag_char t \<and>
    \<not> (7 \<le> length (d # t) \<and> length (d # t) \<le> 40 \<and> list_all hex_digit (d # t)) \<and>
    (describe = d # t \<or> describe = CHR ''v'' # d # t)"
  using releaseVersion_sound [OF assms] unfolding releaseTag_lang hashLike_lang by fastforce

theorem release_version_shape_witness:
  "\<exists>d t. releaseVersion ''v1.2'' = d # t \<and> is_digit d \<and> length t \<le> 127 \<and> list_all tag_char t \<and>
    \<not> (7 \<le> length (d # t) \<and> length (d # t) \<le> 40 \<and> list_all hex_digit (d # t)) \<and>
    (''v1.2'' = d # t \<or> ''v1.2'' = CHR ''v'' # d # t)"
  by (rule release_version_shape) code_simp

text \<open>
  A build past a tag is never a release: whatever the tag, a description that \<^verbatim>\<open>git describe\<close> made
  of it by appending a commit count and an abbreviated hash yields the empty version.
\<close>

theorem snapshot_not_released:
  assumes "commits \<noteq> []" and "digit_string commits" and "7 \<le> length hash" and "list_all hex_digit hash"
  shows "releaseVersion (tag @ ''-'' @ commits @ ''-g'' @ hash) = []"
  using assms by (rule releaseVersion_snapshot)

theorem snapshot_not_released_witness: "releaseVersion (''v1.2.3'' @ ''-'' @ ''4'' @ ''-g'' @ ''0abcdef'') = []"
  by (rule snapshot_not_released) (simp_all add: is_digit_def hex_digit_def)

text \<open>
  A binary that reports itself a release was built from a clean tree, and when it was stamped its
  version is the one the stamp names, whatever the toolchain recorded.
\<close>

theorem current_release_is_clean:
  assumes "IsRelease (Current stamped info)"
  shows "\<not> build_Modified (Current stamped info) \<and>
    (stamped \<noteq> [] \<longrightarrow> build_Version (Current stamped info) = releaseVersion stamped)"
  using assms releaseVersion_sound(4) [of stamped]
  by (auto simp: IsRelease_def Current_def readBuildInfo_def Let_def apply_setting_keeps split: option.splits if_splits)

theorem current_release_is_clean_witness:
  "\<not> build_Modified (Current ''v1.2'' None) \<and>
    build_Version (Current ''v1.2'' None) = releaseVersion ''v1.2''"
proof -
  have "IsRelease (Current ''v1.2'' None)" by code_simp
  then show ?thesis using current_release_is_clean [of "''v1.2''" None] by simp
qed

end
