(* ===== verification/Hexdigest.thy ===== *)
theory Hexdigest
  imports Prelude
begin

section \<open>Hexadecimal digests\<close>

text \<open>
  \<^verbatim>\<open>internal/hexdigest/hexdigest.go\<close>: which strings count as a pinned digest. \<^verbatim>\<open>hex.DecodeString\<close>
  accepts both cases, so the lower-case comparison is what makes equal bytes have equal digests.
\<close>

definition hex_char :: "char \<Rightarrow> bool" where
  "hex_char c \<longleftrightarrow> is_digit c \<or> (CHR ''a'' \<le> c \<and> c \<le> CHR ''f'') \<or> (CHR ''A'' \<le> c \<and> c \<le> CHR ''F'')"

text \<open>The number of bytes \<^verbatim>\<open>hex.DecodeString\<close> returns, or its error.\<close>

definition hex_decoded_length :: "gostring \<Rightarrow> nat option" where
  "hex_decoded_length s = (if list_all hex_char s \<and> even (length s) then Some (length s div 2) else None)"

definition validLowerHex :: "gostring \<Rightarrow> nat \<Rightarrow> bool" where
  "validLowerHex value bytes = (case hex_decoded_length value of None \<Rightarrow> False
     | Some n \<Rightarrow> n = bytes \<and> value = to_lower value)"

definition ValidSHA256 :: "gostring \<Rightarrow> bool" where
  "ValidSHA256 value = validLowerHex value 32"

definition ValidFingerprint :: "gostring \<Rightarrow> bool" where
  "ValidFingerprint value = validLowerHex value 20"

definition lower_hex :: "char \<Rightarrow> bool" where
  "lower_hex c \<longleftrightarrow> is_digit c \<or> (CHR ''a'' \<le> c \<and> c \<le> CHR ''f'')"

lemma lower_hex_char: "lower_hex c \<longleftrightarrow> hex_char c \<and> to_lower_char c = c"
proof
  assume l: "lower_hex c"
  then have "\<not> is_upper c"
    by (auto simp: lower_hex_def is_digit_def is_upper_def less_eq_char_def)
  then show "hex_char c \<and> to_lower_char c = c" using l by (auto simp: lower_hex_def hex_char_def to_lower_char_def)
next
  assume h: "hex_char c \<and> to_lower_char c = c"
  have "to_lower_char c \<noteq> c" if "is_upper c"
  proof -
    have "of_char c + 32 < (256 :: nat)" using that by (simp add: is_upper_def less_eq_char_def)
    then have "of_char (to_lower_char c) = (of_char c + 32 :: nat)" using that by (simp add: to_lower_char_def)
    then show ?thesis by auto
  qed
  then have "\<not> is_upper c" using h by blast
  then show "lower_hex c" using h by (auto simp: lower_hex_def hex_char_def is_upper_def less_eq_char_def)
qed

lemma validLowerHex_iff: "validLowerHex v n \<longleftrightarrow> length v = 2 * n \<and> list_all lower_hex v"
proof -
  have "to_lower v = v \<longleftrightarrow> list_all (\<lambda>c. to_lower_char c = c) v"
    by (induction v) (auto simp: to_lower_def)
  then show ?thesis
    by (auto simp: validLowerHex_def hex_decoded_length_def lower_hex_char list_all_iff eq_commute [of v])
qed

lemma ValidSHA256_iff: "ValidSHA256 v \<longleftrightarrow> length v = 64 \<and> list_all lower_hex v"
  by (simp add: ValidSHA256_def validLowerHex_iff)

lemma ValidFingerprint_iff: "ValidFingerprint v \<longleftrightarrow> length v = 40 \<and> list_all lower_hex v"
  by (simp add: ValidFingerprint_def validLowerHex_iff)

lemma ValidSHA256_not_Nil: "ValidSHA256 v \<Longrightarrow> v \<noteq> []"
  by (auto simp: ValidSHA256_iff)

lemma ValidFingerprint_not_Nil: "ValidFingerprint v \<Longrightarrow> v \<noteq> []"
  by (auto simp: ValidFingerprint_iff)

lemma lower_hex_no_nul: "\<not> lower_hex CHR 0x00" by code_simp

lemma ValidSHA256_no_nul: "ValidSHA256 v \<Longrightarrow> CHR 0x00 \<notin> set v"
  using lower_hex_no_nul by (auto simp: ValidSHA256_iff list_all_iff)

end
