(* ===== verification/Source_Url.thy ===== *)
theory Source_Url
  imports Prelude "HOL-Library.Word"
begin

section \<open>Public source URLs and addresses\<close>

text \<open>
  \<^verbatim>\<open>source/source.go\<close>: which URLs may be recorded as an artifact's origin and which network addresses
  may be fetched from. An address is what \<^verbatim>\<open>netip.Addr\<close> holds: nothing, 32 bits, or 128 bits with a
  zone; the predicates of \<^verbatim>\<open>net/netip\<close> are modelled bit by bit, among them that \<^verbatim>\<open>Prefix.Contains\<close> is
  false for an address with a zone. \<^verbatim>\<open>url.Parse\<close> and \<^verbatim>\<open>netip.ParseAddr\<close> are arguments, the fields of a
  record \<open>url_lib\<close>.
\<close>

subsection \<open>Addresses\<close>

datatype addr = AddrZero | Addr4 "32 word" | Addr6 "128 word" gostring

datatype prefix = Prefix4 "32 word" nat | Prefix6 "128 word" nat

definition high_bits :: "nat \<Rightarrow> 'a::len word \<Rightarrow> 'a word" where
  "high_bits n w = drop_bit (LENGTH('a) - n) w"

fun prefix_Contains :: "prefix \<Rightarrow> addr \<Rightarrow> bool" where
  "prefix_Contains (Prefix4 p n) (Addr4 a) = (high_bits n a = high_bits n p)"
| "prefix_Contains (Prefix6 p n) (Addr6 a zone) = (zone = [] \<and> high_bits n a = high_bits n p)"
| "prefix_Contains p a = False"

fun Unmap :: "addr \<Rightarrow> addr" where
  "Unmap (Addr6 a zone) = (if high_bits 96 a = 0xffff then Addr4 (ucast a) else Addr6 a zone)"
| "Unmap a = a"

fun IsLoopback :: "addr \<Rightarrow> bool" where
  "IsLoopback AddrZero = False"
| "IsLoopback (Addr4 a) = (high_bits 8 a = 127)"
| "IsLoopback (Addr6 a zone) = (a = 1)"

fun IsMulticast :: "addr \<Rightarrow> bool" where
  "IsMulticast AddrZero = False"
| "IsMulticast (Addr4 a) = (high_bits 4 a = 0xe)"
| "IsMulticast (Addr6 a zone) = (high_bits 8 a = 0xff)"

fun IsLinkLocalUnicast :: "addr \<Rightarrow> bool" where
  "IsLinkLocalUnicast AddrZero = False"
| "IsLinkLocalUnicast (Addr4 a) = (high_bits 16 a = 0xa9fe)"
| "IsLinkLocalUnicast (Addr6 a zone) = (high_bits 10 a = 0x3fa)"

fun IsLinkLocalMulticast :: "addr \<Rightarrow> bool" where
  "IsLinkLocalMulticast AddrZero = False"
| "IsLinkLocalMulticast (Addr4 a) = (high_bits 24 a = 0xe00000)"
| "IsLinkLocalMulticast (Addr6 a zone) = (high_bits 8 a = 0xff \<and> take_bit 4 (high_bits 16 a) = 2)"

fun IsPrivate :: "addr \<Rightarrow> bool" where
  "IsPrivate AddrZero = False"
| "IsPrivate (Addr4 a) = (high_bits 8 a = 10 \<or> high_bits 12 a = 0xac1 \<or> high_bits 16 a = 0xc0a8)"
| "IsPrivate (Addr6 a zone) = (high_bits 7 a = 0x7e)"

fun IsUnspecified :: "addr \<Rightarrow> bool" where
  "IsUnspecified AddrZero = False"
| "IsUnspecified (Addr4 a) = (a = 0)"
| "IsUnspecified (Addr6 a zone) = (a = 0 \<and> zone = [])"

fun IsGlobalUnicast :: "addr \<Rightarrow> bool" where
  "IsGlobalUnicast AddrZero = False"
| "IsGlobalUnicast (Addr4 a) = (a \<noteq> 0 \<and> a \<noteq> 0xffffffff \<and>
     \<not> IsLoopback (Addr4 a) \<and> \<not> IsMulticast (Addr4 a) \<and> \<not> IsLinkLocalUnicast (Addr4 a))"
| "IsGlobalUnicast (Addr6 a zone) = (\<not> IsUnspecified (Addr6 a zone) \<and>
     \<not> IsLoopback (Addr6 a zone) \<and> \<not> IsMulticast (Addr6 a zone) \<and> \<not> IsLinkLocalUnicast (Addr6 a zone))"

definition deniedPublicPrefixes :: "prefix list" where
  "deniedPublicPrefixes =
    [Prefix4 0x00000000 8, Prefix4 0x64400000 10,
     Prefix4 0xc0000000 24, Prefix4 0xc0586300 24,
     Prefix4 0xc0000200 24, Prefix4 0xc6120000 15,
     Prefix4 0xc6336400 24, Prefix4 0xcb007100 24,
     Prefix4 0xf0000000 4, Prefix6 0x0064ff9b000000000000000000000000 96,
     Prefix6 0x0064ff9b000100000000000000000000 48, Prefix6 0x01000000000000000000000000000000 64,
     Prefix6 0x20010000000000000000000000000000 32, Prefix6 0x20010002000000000000000000000000 48,
     Prefix6 0x20010010000000000000000000000000 28, Prefix6 0x20010020000000000000000000000000 28,
     Prefix6 0x20010db8000000000000000000000000 32, Prefix6 0x20020000000000000000000000000000 16,
     Prefix6 0x3fff0000000000000000000000000000 20, Prefix6 0x5f000000000000000000000000000000 16,
     Prefix6 0xfec00000000000000000000000000000 10]"

definition IsPublicAddress :: "addr \<Rightarrow> bool" where
  "IsPublicAddress address =
     (let address = Unmap address in
      if address = AddrZero \<or> \<not> IsGlobalUnicast address \<or> IsPrivate address \<or> IsLoopback address
         \<or> IsLinkLocalUnicast address \<or> IsLinkLocalMulticast address \<or> IsMulticast address
         \<or> IsUnspecified address then False
      else \<not> list_ex (\<lambda>prefix. prefix_Contains prefix address) deniedPublicPrefixes)"

subsection \<open>URLs\<close>

text \<open>A parsed URL: its components, and what \<^verbatim>\<open>Hostname()\<close> and \<^verbatim>\<open>String()\<close> return for it.\<close>

record url =
  url_Scheme :: gostring
  url_Host :: gostring
  url_Hostname :: gostring
  url_User :: bool
  url_Fragment :: gostring
  url_RawQuery :: gostring
  url_Path :: gostring
  url_RawPath :: gostring
  url_String :: gostring

record url_lib =
  ul_parse :: "gostring \<Rightarrow> url option"
  ul_addr :: "gostring \<Rightarrow> addr option"

datatype url_error = NotAbsoluteHTTPS | HasCredentialsQueryFragment | HostNotPublic | AddressNotPublic
  | UnsafePathCharacters | DotSegments

text \<open>
  \<^verbatim>\<open>strings.IndexFunc(s, unicode.IsControl) >= 0\<close>: the control characters U+0000 to U+001F, U+007F and
  U+0080 to U+009F, the last two groups as they are encoded.
\<close>

fun has_control :: "gostring \<Rightarrow> bool" where
  "has_control [] = False"
| "has_control (c # s) = (of_char c < (32::nat) \<or> of_char c = (127::nat) \<or>
     (c = CHR 0xC2 \<and> (case s of [] \<Rightarrow> False | d # _ \<Rightarrow> 128 \<le> (of_char d :: nat) \<and> of_char d < (160::nat))) \<or>
     has_control s)"

definition validateURL :: "url_lib \<Rightarrow> url option \<Rightarrow> url_error option" where
  "validateURL lib u = (case u of None \<Rightarrow> Some NotAbsoluteHTTPS
     | Some value \<Rightarrow>
       if url_Scheme value \<noteq> ''https'' \<or> url_Host value = [] \<or> url_Hostname value = [] then Some NotAbsoluteHTTPS
       else if url_User value \<or> url_Fragment value \<noteq> [] then Some HasCredentialsQueryFragment
       else let hostname = trim_suffix (to_lower (url_Hostname value)) ''.'' in
         if hostname = ''localhost'' \<or> has_suffix hostname ''.localhost'' then Some HostNotPublic
         else if (case ul_addr lib hostname of None \<Rightarrow> False | Some address \<Rightarrow> \<not> IsPublicAddress address)
         then Some AddressNotPublic
         else if contains_any (url_String value) [CHR 0x00, CHR 0x0D, CHR 0x0A, CHR 0x5C]
           \<or> CHR 0x5C \<in> set (url_Path value) \<or> has_control (url_Path value)
           \<or> contains_sub (to_lower (url_RawPath value)) ''%2f'' \<or> contains_sub (to_lower (url_RawPath value)) ''%5c''
         then Some UnsafePathCharacters
         else if list_ex (\<lambda>segment. segment = ''.'' \<or> segment = ''..'') (split_on (CHR ''/'') (url_Path value))
         then Some DotSegments
         else None)"

definition ValidatePublicURL :: "url_lib \<Rightarrow> url option \<Rightarrow> url_error option" where
  "ValidatePublicURL lib value =
     (if (case value of None \<Rightarrow> False | Some v \<Rightarrow> url_RawQuery v \<noteq> []) then Some HasCredentialsQueryFragment
      else validateURL lib value)"

definition ValidateRedirectURL :: "url_lib \<Rightarrow> url option \<Rightarrow> url_error option" where
  "ValidateRedirectURL lib value = validateURL lib value"

subsection \<open>IPv4 addresses by their bytes\<close>

definition ip4 :: "nat \<Rightarrow> nat \<Rightarrow> nat \<Rightarrow> nat \<Rightarrow> 32 word" where
  "ip4 a b c d = of_nat (((a * 256 + b) * 256 + c) * 256 + d)"

definition map4in6 :: "32 word \<Rightarrow> 128 word" where
  "map4in6 a = 0xffff00000000 + ucast a"

text \<open>The IPv4 ranges that are not public, octet by octet.\<close>

definition special4 :: "nat \<Rightarrow> nat \<Rightarrow> nat \<Rightarrow> bool" where
  "special4 a b c \<longleftrightarrow> a = 0 \<or> a = 10 \<or> a = 127 \<or> 224 \<le> a \<or>
     (a = 100 \<and> 64 \<le> b \<and> b < 128) \<or> (a = 169 \<and> b = 254) \<or> (a = 172 \<and> 16 \<le> b \<and> b < 32) \<or>
     (a = 192 \<and> (b = 168 \<or> (b = 0 \<and> (c = 0 \<or> c = 2)) \<or> (b = 88 \<and> c = 99))) \<or>
     (a = 198 \<and> (b = 18 \<or> b = 19 \<or> (b = 51 \<and> c = 100))) \<or> (a = 203 \<and> b = 0 \<and> c = 113)"

lemma high_bits_unat: "unat (high_bits n (w :: 'a::len word)) = unat w div 2 ^ (LENGTH('a) - n)"
  by (simp only: high_bits_def unat_drop_bit_eq) (simp only: drop_bit_eq_div)

lemma high_bits_eq: "high_bits n w = v \<longleftrightarrow> unat w div 2 ^ (LENGTH('a) - n) = unat (v :: 'a::len word)"
  by (metis high_bits_unat word_unat_eq_iff)

lemma ip4_unat:
  assumes "a < 256" "b < 256" "c < 256" "d < 256"
  shows "unat (ip4 a b c d) = ((a * 256 + b) * 256 + c) * 256 + d"
proof -
  have "((a * 256 + b) * 256 + c) * 256 + d < 2 ^ LENGTH(32)" using assms by simp
  then show ?thesis unfolding ip4_def unat_of_nat by (rule mod_less)
qed

lemma ip4_high_bits:
  assumes "a < 256" "b < 256" "c < 256" "d < 256"
  shows "unat (high_bits 8 (ip4 a b c d)) = a"
    and "unat (high_bits 16 (ip4 a b c d)) = a * 256 + b"
    and "unat (high_bits 24 (ip4 a b c d)) = (a * 256 + b) * 256 + c"
    and "unat (high_bits 12 (ip4 a b c d)) = a * 16 + b div 16"
    and "unat (high_bits 10 (ip4 a b c d)) = a * 4 + b div 64"
    and "unat (high_bits 15 (ip4 a b c d)) = a * 128 + b div 2"
    and "unat (high_bits 4 (ip4 a b c d)) = a div 16"
  using assms by (simp_all add: high_bits_unat ip4_unat)

lemma high_bits_eq_unat: "high_bits n w = v \<longleftrightarrow> unat (high_bits n w) = unat v"
  by (simp add: word_unat_eq_iff)

lemma pack_eq: "x < m \<Longrightarrow> a * m + x = k \<longleftrightarrow> a = k div m \<and> x = k mod (m::nat)"
  by (metis div_mult_mod_eq div_mult_self3 mod_mult_self3 div_less mod_less add.commute add_0 gr_implies_not0)

lemma denied_high_bits:
  "unat (high_bits 8 (0x00000000 :: 32 word)) = 0"
  "unat (high_bits 10 (0x64400000 :: 32 word)) = 401"
  "unat (high_bits 24 (0xc0000000 :: 32 word)) = 12582912"
  "unat (high_bits 24 (0xc0586300 :: 32 word)) = 12605539"
  "unat (high_bits 24 (0xc0000200 :: 32 word)) = 12582914"
  "unat (high_bits 15 (0xc6120000 :: 32 word)) = 25353"
  "unat (high_bits 24 (0xc6336400 :: 32 word)) = 12989284"
  "unat (high_bits 24 (0xcb007100 :: 32 word)) = 13303921"
  "unat (high_bits 4 (0xf0000000 :: 32 word)) = 15"
  by (simp_all add: high_bits_unat)

lemma quotients:
  "401 div 4 = (100::nat)" "401 mod 4 = (1::nat)" "25353 div 128 = (198::nat)" "25353 mod 128 = (9::nat)"
  "12582912 div 256 div 256 = (192::nat)" "12582912 div 256 mod 256 = (0::nat)" "12582912 mod 256 = (0::nat)"
  "12582914 div 256 div 256 = (192::nat)" "12582914 div 256 mod 256 = (0::nat)" "12582914 mod 256 = (2::nat)"
  "12605539 div 256 div 256 = (192::nat)" "12605539 div 256 mod 256 = (88::nat)" "12605539 mod 256 = (99::nat)"
  "12989284 div 256 div 256 = (198::nat)" "12989284 div 256 mod 256 = (51::nat)" "12989284 mod 256 = (100::nat)"
  "13303921 div 256 div 256 = (203::nat)" "13303921 div 256 mod 256 = (0::nat)" "13303921 mod 256 = (113::nat)"
  by simp_all

lemma ip4_public:
  assumes "a < 256" "b < 256" "c < 256" "d < 256"
  shows "IsPublicAddress (Addr4 (ip4 a b c d)) \<longleftrightarrow> \<not> special4 a b c"
proof -
  note bits = ip4_high_bits [OF assms]
  have range16: "b div 16 = 1 \<longleftrightarrow> 16 \<le> b \<and> b < 32" and range64: "b div 64 = 1 \<longleftrightarrow> 64 \<le> b \<and> b < 128"
    and range2: "b div 2 = 9 \<longleftrightarrow> b = 18 \<or> b = 19" and a14: "a div 16 = 14 \<longleftrightarrow> 224 \<le> a \<and> a < 240"
    and a15: "a div 16 = 15 \<longleftrightarrow> 240 \<le> a"
    using assms by auto
  have lt: "b div 16 < 16" "b div 64 < 4" "b div 2 < 128" using assms by auto
  note pack = pack_eq [OF assms(2), of a] pack_eq [OF assms(3)] pack_eq [OF lt(1), of a] pack_eq [OF lt(2), of a]
    pack_eq [OF lt(3), of a]
  have priv: "IsPrivate (Addr4 (ip4 a b c d)) \<longleftrightarrow> a = 10 \<or> (a = 172 \<and> 16 \<le> b \<and> b < 32) \<or> (a = 192 \<and> b = 168)"
    by (auto simp: high_bits_eq_unat bits range16 [symmetric] pack)
  have loop: "IsLoopback (Addr4 (ip4 a b c d)) \<longleftrightarrow> a = 127"
    by (auto simp: high_bits_eq_unat bits)
  have ll: "IsLinkLocalUnicast (Addr4 (ip4 a b c d)) \<longleftrightarrow> a = 169 \<and> b = 254"
    by (auto simp: high_bits_eq_unat bits pack)
  have mc: "IsMulticast (Addr4 (ip4 a b c d)) \<longleftrightarrow> 224 \<le> a \<and> a < 240"
    by (auto simp: high_bits_eq_unat bits a14 [symmetric])
  have eqI: "v = w \<longleftrightarrow> m = k" if "unat v = m" "unat w = k" for v w :: "32 word" and m k
    unfolding that [symmetric] by (rule word_unat_eq_iff)
  note contains = eqI [OF bits(1) denied_high_bits(1)] eqI [OF bits(5) denied_high_bits(2)]
    eqI [OF bits(3) denied_high_bits(3)] eqI [OF bits(3) denied_high_bits(4)] eqI [OF bits(3) denied_high_bits(5)]
    eqI [OF bits(6) denied_high_bits(6)] eqI [OF bits(3) denied_high_bits(7)] eqI [OF bits(3) denied_high_bits(8)]
    eqI [OF bits(7) denied_high_bits(9)]
  have denied: "list_ex (\<lambda>p. prefix_Contains p (Addr4 (ip4 a b c d))) deniedPublicPrefixes \<longleftrightarrow>
      a = 0 \<or> (a = 100 \<and> b div 64 = 1) \<or> (a = 192 \<and> b = 0 \<and> (c = 0 \<or> c = 2)) \<or> (a = 192 \<and> b = 88 \<and> c = 99) \<or>
      (a = 198 \<and> b div 2 = 9) \<or> (a = 198 \<and> b = 51 \<and> c = 100) \<or> (a = 203 \<and> b = 0 \<and> c = 113) \<or> a div 16 = 15"
    unfolding deniedPublicPrefixes_def list_ex_iff list.set bex_simps prefix_Contains.simps contains pack quotients
    by blast
  have ends: "ip4 a b c d = 0 \<Longrightarrow> a = 0" "ip4 a b c d = 0xffffffff \<Longrightarrow> a = 255"
    using ip4_high_bits(1) [OF assms] by (auto simp: high_bits_unat)
  have local: "unat (0xe00000 :: 32 word) = 14680064" "14680064 div 256 div 256 = (224::nat)" by simp_all
  have sub: "IsLinkLocalMulticast (Addr4 (ip4 a b c d)) \<Longrightarrow> IsMulticast (Addr4 (ip4 a b c d))"
    unfolding IsLinkLocalMulticast.simps mc eqI [OF bits(3) local(1)] pack local(2) by simp
  have "IsPublicAddress (Addr4 (ip4 a b c d)) \<longleftrightarrow> ip4 a b c d \<noteq> 0 \<and> ip4 a b c d \<noteq> 0xffffffff \<and>
      \<not> IsPrivate (Addr4 (ip4 a b c d)) \<and> \<not> IsLoopback (Addr4 (ip4 a b c d)) \<and>
      \<not> IsLinkLocalUnicast (Addr4 (ip4 a b c d)) \<and> \<not> IsMulticast (Addr4 (ip4 a b c d)) \<and>
      \<not> list_ex (\<lambda>p. prefix_Contains p (Addr4 (ip4 a b c d))) deniedPublicPrefixes"
    using sub unfolding IsPublicAddress_def Let_def Unmap.simps IsGlobalUnicast.simps IsUnspecified.simps by auto
  moreover have "224 \<le> a \<longleftrightarrow> (224 \<le> a \<and> a < 240) \<or> 240 \<le> a" by auto
  moreover have "ip4 a b c d = 0xffffffff \<longrightarrow> 240 \<le> a" using ends(2) by auto
  ultimately show ?thesis
    unfolding priv loop ll mc denied special4_def range64 range2 a15 using ends(1) by argo
qed

lemma map4in6_unmap: "Unmap (Addr6 (map4in6 w) zone) = Addr4 w"
proof -
  have lt: "unat w < 2 ^ 32" by (rule order_less_le_trans [OF unsigned_less]) simp
  have small: "281470681743360 + unat w < 2 ^ LENGTH(128)" using lt by simp
  have m: "map4in6 w = of_nat (281470681743360 + unat w)" by (simp add: map4in6_def)
  have u: "unat (map4in6 w) = 281470681743360 + unat w" unfolding m unat_of_nat by (rule mod_less [OF small])
  have "(281470681743360 + unat w) div 2 ^ 32 = 65535" using lt by simp
  then have "unat (high_bits 96 (map4in6 w)) = unat (0xffff :: 128 word)" by (simp add: high_bits_unat u)
  then have "high_bits 96 (map4in6 w) = 0xffff" unfolding word_unat_eq_iff .
  moreover have "unat (ucast (map4in6 w) :: 32 word) = unat w"
    using lt by (simp add: unsigned_ucast_eq u take_bit_eq_mod flip: mod_add_left_eq)
  ultimately show ?thesis by (simp add: word_unat_eq_iff)
qed

lemma IsPublicAddress_mapped: "IsPublicAddress (Addr6 (map4in6 w) zone) = IsPublicAddress (Addr4 w)"
  by (simp only: IsPublicAddress_def map4in6_unmap Unmap.simps(3))

subsection \<open>Properties\<close>

text \<open>
  An IPv4 address is accepted as public exactly when it is outside the special-purpose ranges
  (this network, private, loopback, link-local, shared, protocol assignments, documentation,
  benchmarking, 6to4 relay, multicast, reserved), and writing it as an IPv4-mapped IPv6 address, with
  or without a zone, changes nothing.
\<close>

theorem public_ipv4_exact:
  assumes "a < 256" and "b < 256" and "c < 256" and "d < 256"
  shows "IsPublicAddress (Addr4 (ip4 a b c d)) = (\<not> special4 a b c) \<and>
    IsPublicAddress (Addr6 (map4in6 (ip4 a b c d)) zone) = (\<not> special4 a b c)"
  by (simp only: IsPublicAddress_mapped ip4_public [OF assms])

theorem public_ipv4_exact_witness:
  "IsPublicAddress (Addr4 (ip4 127 0 0 1)) = (\<not> special4 127 0 0) \<and>
    IsPublicAddress (Addr6 (map4in6 (ip4 127 0 0 1)) []) = (\<not> special4 127 0 0) \<and> special4 127 0 0 \<and> \<not> special4 8 8 8"
proof -
  have "special4 127 0 0" "\<not> special4 8 8 8" by (simp_all add: special4_def)
  then show ?thesis using public_ipv4_exact [of 127 0 0 1 "[]"] by simp
qed

text \<open>
  An IPv6 address with a zone escapes the deny list, because \<^verbatim>\<open>Prefix.Contains\<close> is false for it: the
  address of 127.0.0.1 behind the NAT64 prefix is refused, and accepted when it carries a zone.
\<close>

theorem zoned_address_escapes:
  "\<not> IsPublicAddress (Addr6 0x0064ff9b00000000000000007f000001 []) \<and>
   IsPublicAddress (Addr6 0x0064ff9b00000000000000007f000001 ''x'')"
  by (simp add: IsPublicAddress_def deniedPublicPrefixes_def high_bits_eq_unat high_bits_unat)

end
