(* ===== verification/State_Model.thy ===== *)
theory State_Model
  imports Hexdigest Source_Url
begin

section \<open>The data model of a workspace\<close>

text \<open>
  The structures of \<^verbatim>\<open>internal/state/model.go\<close>, field by field, and its functions on digest
  provenance. A field is named after the Go field with a prefix for its structure. A Go map from
  names is an association list, read with \<open>map_of\<close>; a pointer that may be nil is an option. Sizes and
  second counts are mathematical integers: the code only compares them and adds small bounds to them.
\<close>

subsection \<open>The manifest\<close>

record Workspace =
  ws_Name :: gostring
  ws_ID :: gostring
  ws_Forge :: gostring
  ws_ForgeRepository :: gostring
  ws_ForgeHost :: gostring

record BlobStoreConfig =
  bs_Type :: gostring
  bs_Bucket :: gostring
  bs_Prefix :: gostring
  bs_Region :: gostring
  bs_Endpoint :: gostring
  bs_UsePathStyle :: bool

record SigningRotation =
  rot_SuccessorKey :: gostring
  rot_Phase :: gostring
  rot_MinimumRefreshSeconds :: int

record KeyRef =
  ref_Backend :: gostring
  ref_ID :: gostring

record SigningKey =
  key_Algorithm :: gostring
  key_Usage :: gostring
  key_Fingerprint :: gostring
  key_CreatedAt :: gostring
  key_ExpiresAt :: gostring
  key_PublicKeyPath :: gostring
  key_PublicKeySHA256 :: gostring
  key_PublicArmorPath :: gostring
  key_PublicArmorSHA256 :: gostring
  key_Ref :: KeyRef

record HostConfig =
  host_Type :: gostring
  host_Path :: gostring
  host_Target :: gostring
  host_Bucket :: gostring
  host_Prefix :: gostring
  host_Region :: gostring
  host_Endpoint :: gostring
  host_CanonicalEndpoint :: gostring
  host_UsePathStyle :: bool
  host_ReadAuth :: gostring
  host_CredentialBroker :: gostring
  host_Repository :: gostring
  host_Branch :: gostring
  host_PreviewRepository :: gostring
  host_PreviewBranch :: gostring
  host_PreviewEndpoint :: gostring

record Repository =
  repo_Format :: gostring
  repo_Lock :: gostring
  repo_Host :: HostConfig
  repo_Visibility :: gostring
  repo_Gate :: gostring
  repo_ApprovalKeys :: "gostring list"
  repo_SigningKeys :: "gostring list"
  repo_SigningKeyring :: gostring
  repo_SigningRotation :: "SigningRotation option"
  repo_Keep :: int
  repo_Track :: gostring
  repo_Suite :: gostring
  repo_Component :: gostring
  repo_Architectures :: "gostring list"

record Manifest =
  man_SchemaVersion :: int
  man_Workspace :: Workspace
  man_BlobStore :: BlobStoreConfig
  man_Keys :: "(gostring \<times> SigningKey) list"
  man_Repositories :: "(gostring \<times> Repository) list"

definition ManifestSchema :: int where "ManifestSchema = 7"
definition LockSchema :: int where "LockSchema = 2"
definition LedgerSchema :: int where "LedgerSchema = 1"
definition DeploymentSchema :: int where "DeploymentSchema = 2"

subsection \<open>The lock\<close>

record ArtifactOrigin =
  origin_Kind :: gostring
  origin_URL :: gostring
  origin_Provenance :: gostring

record LockedBlob =
  blob_Filename :: gostring
  blob_Architecture :: gostring
  blob_Size :: int
  blob_MD5 :: gostring
  blob_SHA1 :: gostring
  blob_SHA256 :: gostring
  blob_Added :: gostring
  blob_Origin :: "ArtifactOrigin option"

record PackageVersion =
  pv_Package :: gostring
  pv_Version :: gostring
  pv_State :: gostring
  pv_Blobs :: "LockedBlob list"

record Placement =
  pl_Package :: gostring
  pl_Version :: gostring
  pl_Track :: gostring
  pl_Distro :: gostring

record RepositoryLock =
  lock_SchemaVersion :: int
  lock_Repository :: gostring
  lock_PackageVersion :: "PackageVersion list"
  lock_Placement :: "Placement list"

subsection \<open>The ledger and the deployment journal\<close>

record PublicationRecord =
  pr_SchemaVersion :: int
  pr_PlanID :: gostring
  pr_ChangeID :: gostring
  pr_Repository :: gostring
  pr_Package :: gostring
  pr_Version :: gostring
  pr_BlobSHA256 :: "gostring list"
  pr_TreeSHA256 :: gostring
  pr_RecordedAt :: gostring

record DeploymentRecord =
  dr_SchemaVersion :: int
  dr_Repository :: gostring
  dr_PlanID :: gostring
  dr_ChangeID :: gostring
  dr_TreeSHA256 :: gostring
  dr_ManifestSHA256 :: gostring
  dr_NativeRevision :: gostring
  dr_DeployedAt :: gostring
  dr_ActiveSigningFingerprint :: gostring
  dr_TrustedSigningFingerprints :: "gostring list"
  dr_SigningKeyringPath :: gostring
  dr_SigningRotationPhase :: gostring
  dr_SigningMinimumRefreshSeconds :: int
  dr_TrustSince :: gostring

subsection \<open>Digest provenance\<close>

definition provenanceStrength :: "gostring \<Rightarrow> nat option" where
  "provenanceStrength provenance = map_of
     [(''computed'', 1), (''index-stated'', 2), (''index-chain'', 3), (''operator'', 4), (''signed-index'', 5)] provenance"

definition ValidProvenance :: "gostring \<Rightarrow> bool" where
  "ValidProvenance provenance \<longleftrightarrow> provenanceStrength provenance \<noteq> None"

text \<open>A missing key of a Go map reads as 0.\<close>

definition AtLeast :: "gostring \<Rightarrow> gostring \<Rightarrow> bool" where
  "AtLeast provenance floor \<longleftrightarrow>
     (case provenanceStrength floor of None \<Rightarrow> 0 | Some n \<Rightarrow> n)
       \<le> (case provenanceStrength provenance of None \<Rightarrow> 0 | Some n \<Rightarrow> n)"

definition DigestProvenanceOf :: "LockedBlob \<Rightarrow> gostring" where
  "DigestProvenanceOf blob = (case blob_Origin blob of None \<Rightarrow> ''operator''
     | Some origin \<Rightarrow> if origin_Provenance origin = [] then ''operator'' else origin_Provenance origin)"

datatype origin_error = InvalidArtifactOrigin | UnknownProvenance gostring

definition ValidateArtifactOrigin :: "url_lib \<Rightarrow> ArtifactOrigin \<Rightarrow> origin_error option" where
  "ValidateArtifactOrigin lib origin =
     (case ul_parse lib (origin_URL origin) of
        None \<Rightarrow> Some InvalidArtifactOrigin
      | Some parsed \<Rightarrow>
        if origin_Kind origin \<noteq> ''https'' \<or> ValidatePublicURL lib (Some parsed) \<noteq> None
        then Some InvalidArtifactOrigin
        else if origin_Provenance origin \<noteq> [] \<and> \<not> ValidProvenance (origin_Provenance origin)
        then Some (UnknownProvenance (origin_Provenance origin))
        else None)"

text \<open>Every blob of a lock whose origin was validated has a provenance with a rank.\<close>

lemma DigestProvenanceOf_valid:
  assumes "\<And>origin. blob_Origin b = Some origin \<Longrightarrow> ValidateArtifactOrigin lib origin = None"
  shows "ValidProvenance (DigestProvenanceOf b)"
proof (cases "blob_Origin b")
  case None
  then show ?thesis by (simp add: DigestProvenanceOf_def ValidProvenance_def provenanceStrength_def)
next
  case (Some origin)
  then show ?thesis using assms [OF Some]
    by (auto simp: DigestProvenanceOf_def ValidateArtifactOrigin_def ValidProvenance_def provenanceStrength_def
        split: option.splits if_splits)
qed

end
