(* ===== verification/Go_Path.thy ===== *)
theory Go_Path
  imports Prelude "HOL-Library.Sublist"
begin

section \<open>Slash-separated paths and the workspace boundary\<close>

text \<open>
  The functions of \<^verbatim>\<open>path\<close> and \<^verbatim>\<open>path/filepath\<close> (on a Unix system) the sources use, and the checks of
  \<^verbatim>\<open>internal/state/store.go\<close> that keep every path of the manifest inside the workspace:
  \<^verbatim>\<open>validateRelativePath\<close>, \<^verbatim>\<open>pathWithin\<close> and \<^verbatim>\<open>WorkspacePath\<close>. The file system is an argument of the
  last: what \<^verbatim>\<open>os.Lstat\<close> and \<^verbatim>\<open>filepath.EvalSymlinks\<close> answer for a name.
\<close>

subsection \<open>Clean, Base, Join, Dir, Rel\<close>

definition is_abs :: "gostring \<Rightarrow> bool" where
  "is_abs s = has_prefix s ''/''"

text \<open>The element stack of \<^verbatim>\<open>Clean\<close>, innermost element first.\<close>

definition clean_step :: "bool \<Rightarrow> gostring \<Rightarrow> gostring list \<Rightarrow> gostring list" where
  "clean_step rooted c out =
     (if c = [] \<or> c = ''.'' then out
      else if c = ''..'' then
        (case out of [] \<Rightarrow> if rooted then [] else [''..'']
         | e # rest \<Rightarrow> if e = ''..'' then ''..'' # out else rest)
      else c # out)"

definition path_elements :: "gostring \<Rightarrow> gostring list" where
  "path_elements s = rev (fold (clean_step (is_abs s)) (split_on (CHR ''/'') s) [])"

definition path_clean :: "gostring \<Rightarrow> gostring" where
  "path_clean s = (if is_abs s then ''/'' @ join_with ''/'' (path_elements s)
     else if path_elements s = [] then ''.''
     else join_with ''/'' (path_elements s))"

definition path_base :: "gostring \<Rightarrow> gostring" where
  "path_base s =
     (if s = [] then ''.''
      else let s = trim_right (\<lambda>c. c = CHR ''/'') s;
               s = (case cut_last (CHR ''/'') s of None \<Rightarrow> s | Some (before, after) \<Rightarrow> after)
           in if s = [] then ''/'' else s)"

definition path_join :: "gostring list \<Rightarrow> gostring" where
  "path_join elems = (let elems = dropWhile (\<lambda>e. e = []) elems in
     if elems = [] then [] else path_clean (join_with ''/'' elems))"

text \<open>\<^verbatim>\<open>Dir\<close> of a clean path: the path without its last element.\<close>

definition path_dir :: "gostring \<Rightarrow> gostring" where
  "path_dir s = path_clean (case cut_last (CHR ''/'') s of None \<Rightarrow> [] | Some (before, after) \<Rightarrow> before @ ''/'')"

fun strip_common :: "gostring list \<Rightarrow> gostring list \<Rightarrow> gostring list \<times> gostring list" where
  "strip_common (b # bs) (t # ts) = (if b = t then strip_common bs ts else (b # bs, t # ts))"
| "strip_common bs ts = (bs, ts)"

definition path_rel :: "gostring \<Rightarrow> gostring \<Rightarrow> gostring option" where
  "path_rel base targ =
     (if is_abs base \<noteq> is_abs targ then None
      else let (bs, ts) = strip_common (path_elements base) (path_elements targ) in
        if bs \<noteq> [] \<and> hd bs = ''..'' then None
        else if bs = [] \<and> ts = [] then Some ''.''
        else Some (join_with ''/'' (replicate (length bs) ''..'' @ ts)))"

subsection \<open>The checks\<close>

datatype path_error = EmptyOrAbsolute | ControlCharacter | EscapesWorkspace | EscapesBySymlink
  | CannotResolve | FileSystemError

definition validateRelativePath :: "gostring \<Rightarrow> path_error option" where
  "validateRelativePath name =
     (if name = [] \<or> is_abs name then Some EmptyOrAbsolute
      else if contains_any name [CHR 0x00, CHR 0x0D, CHR 0x0A] then Some ControlCharacter
      else let clean = path_clean name in
        if clean = ''.'' \<or> clean = ''..'' \<or> has_prefix clean ''../'' then Some EscapesWorkspace
        else None)"

definition pathWithin :: "gostring \<Rightarrow> gostring \<Rightarrow> bool" where
  "pathWithin root name = (case path_rel root name of None \<Rightarrow> False
     | Some relative \<Rightarrow> relative \<noteq> ''..'' \<and> \<not> has_prefix relative ''../'')"

datatype lstat = Present | NotExist | LstatError

record file_system =
  fs_lstat :: "gostring \<Rightarrow> lstat"
  fs_eval :: "gostring \<Rightarrow> gostring option"

text \<open>
  The upward search for the nearest existing ancestor, on the path elements below the root directory:
  \<^verbatim>\<open>Dir\<close> drops the last one and the file system root is its own parent.
\<close>

fun nearest_existing :: "file_system \<Rightarrow> gostring list \<Rightarrow> path_error + gostring" where
  "nearest_existing fs rev_elements =
     (let existing = ''/'' @ join_with ''/'' (rev rev_elements) in
      case fs_lstat fs existing of
        Present \<Rightarrow> Inr existing
      | LstatError \<Rightarrow> Inl FileSystemError
      | NotExist \<Rightarrow> (case rev_elements of [] \<Rightarrow> Inl CannotResolve | e # rest \<Rightarrow> nearest_existing fs rest))"

definition WorkspacePath :: "file_system \<Rightarrow> gostring \<Rightarrow> gostring \<Rightarrow> path_error + gostring" where
  "WorkspacePath fs root relative =
     (case validateRelativePath relative of Some e \<Rightarrow> Inl e | None \<Rightarrow>
      case fs_eval fs root of None \<Rightarrow> Inl FileSystemError | Some resolvedRoot \<Rightarrow>
      let candidate = path_join [resolvedRoot, relative] in
      case nearest_existing fs (rev (path_elements candidate)) of Inl e \<Rightarrow> Inl e | Inr existing \<Rightarrow>
      case fs_eval fs existing of None \<Rightarrow> Inl FileSystemError | Some resolvedExisting \<Rightarrow>
      if \<not> pathWithin resolvedRoot resolvedExisting then Inl EscapesBySymlink
      else if fs_lstat fs candidate = Present then
        (case fs_eval fs candidate of None \<Rightarrow> Inl FileSystemError
         | Some resolvedCandidate \<Rightarrow>
           if \<not> pathWithin resolvedRoot resolvedCandidate then Inl EscapesBySymlink else Inr candidate)
      else Inr candidate)"

subsection \<open>Elements of a clean path\<close>

definition plain_element :: "gostring \<Rightarrow> bool" where
  "plain_element c \<longleftrightarrow> c \<noteq> [] \<and> c \<noteq> ''.'' \<and> c \<noteq> ''..'' \<and> CHR ''/'' \<notin> set c"

text \<open>The stack is some plain elements above a run of parent references, none of them when rooted.\<close>

definition clean_stack :: "bool \<Rightarrow> gostring list \<Rightarrow> bool" where
  "clean_stack rooted out \<longleftrightarrow> (\<exists>k ps. out = ps @ replicate k ''..'' \<and> list_all plain_element ps \<and> (rooted \<longrightarrow> k = 0))"

lemma split_on_no_sep: "f \<in> set (split_on c s) \<Longrightarrow> c \<notin> set f"
  by (induction c s arbitrary: f rule: split_on.induct) (auto split: list.splits if_splits)

lemma clean_step_stack:
  assumes "clean_stack rooted out" and "CHR ''/'' \<notin> set c"
  shows "clean_stack rooted (clean_step rooted c out)"
proof -
  obtain k ps where out: "out = ps @ replicate k ''..''" "list_all plain_element ps" "rooted \<longrightarrow> k = 0"
    using assms(1) by (auto simp: clean_stack_def)
  consider "c = [] \<or> c = ''.''" | "c = ''..''" "ps = []" | p qs where "c = ''..''" "ps = p # qs" | "plain_element c"
    using assms(2) by (cases ps) (auto simp: plain_element_def)
  then show ?thesis
  proof cases
    case 1
    then show ?thesis using assms(1) by (auto simp: clean_step_def)
  next
    case 2
    then have "clean_step rooted c out = replicate (if rooted then 0 else Suc k) ''..''"
      using out(1,3) by (cases k) (auto simp: clean_step_def)
    then show ?thesis unfolding clean_stack_def by (intro exI [of _ "if rooted then 0 else Suc k"] exI [of _ "[]"]) simp
  next
    case (3 p qs)
    then show ?thesis using out by (auto simp: clean_step_def clean_stack_def plain_element_def)
  next
    case 4
    then have "clean_step rooted c out = (c # ps) @ replicate k ''..''"
      using out(1) by (simp add: clean_step_def plain_element_def)
    then show ?thesis using out 4 unfolding clean_stack_def by (intro exI [of _ k] exI [of _ "c # ps"]) simp
  qed
qed

lemma fold_clean_stack:
  "clean_stack rooted out \<Longrightarrow> (\<And>c. c \<in> set cs \<Longrightarrow> CHR ''/'' \<notin> set c) \<Longrightarrow> clean_stack rooted (fold (clean_step rooted) cs out)"
  by (induction cs arbitrary: out) (simp_all add: clean_step_stack)

lemma path_elements_shape:
  "\<exists>k ps. path_elements s = replicate k ''..'' @ ps \<and> list_all plain_element ps \<and> (is_abs s \<longrightarrow> k = 0)"
proof -
  have "clean_stack (is_abs s) []" by (simp add: clean_stack_def)
  then have "clean_stack (is_abs s) (fold (clean_step (is_abs s)) (split_on (CHR ''/'') s) [])"
    by (rule fold_clean_stack) (simp add: split_on_no_sep)
  then obtain k ps where "fold (clean_step (is_abs s)) (split_on (CHR ''/'') s) [] = ps @ replicate k ''..''"
    "list_all plain_element ps" "is_abs s \<longrightarrow> k = 0"
    by (auto simp: clean_stack_def)
  then show ?thesis unfolding path_elements_def by (intro exI [of _ k] exI [of _ "rev ps"]) (simp add: list_all_iff)
qed

lemma join_with_Cons: "join_with sep (x # xs) = (if xs = [] then x else x @ sep @ join_with sep xs)"
  by (cases xs) simp_all

lemma has_prefix_append [simp]: "has_prefix (p @ s) p"
  by (induction p) simp_all

lemma validateRelativePath_elements:
  assumes "validateRelativePath name = None"
  shows "\<not> is_abs name" "path_elements name \<noteq> []" "list_all plain_element (path_elements name)"
proof -
  show abs: "\<not> is_abs name" using assms by (auto simp: validateRelativePath_def split: if_splits)
  have clean: "path_clean name \<noteq> ''.''" "path_clean name \<noteq> ''..''" "\<not> has_prefix (path_clean name) ''../''"
    using assms by (auto simp: validateRelativePath_def Let_def split: if_splits)
  show ne: "path_elements name \<noteq> []" using clean(1) abs by (auto simp: path_clean_def)
  obtain k ps where shape: "path_elements name = replicate k ''..'' @ ps" "list_all plain_element ps"
    using path_elements_shape by blast
  have "k = 0"
  proof (rule ccontr)
    assume "k \<noteq> 0"
    then obtain es where es: "path_elements name = ''..'' # es" using shape(1) by (cases k) auto
    then have "path_clean name = ''..'' \<or> (\<exists>t. path_clean name = ''../'' @ t)"
      using abs by (auto simp: path_clean_def join_with_Cons)
    then show False using clean(2,3) has_prefix_append by fastforce
  qed
  then show "list_all plain_element (path_elements name)" using shape by simp
qed

subsection \<open>Joining to the workspace root\<close>

lemma split_on_nonempty [simp]: "split_on c s \<noteq> []"
  by (induction c s rule: split_on.induct) (auto split: list.splits)

lemma split_on_append: "split_on c (s @ c # t) = split_on c s @ split_on c t"
proof (induction c s rule: split_on.induct)
  case (2 c x xs)
  then show ?case by (cases "split_on c xs") auto
qed simp

text \<open>
  A parent reference at the bottom of the stack stays there, so the stack of a relative path whose
  result is plain never went below its start, and the same elements are pushed on top of any other
  stack of plain elements.
\<close>

lemma parent_stays: "''..'' \<in> set out \<Longrightarrow> ''..'' \<in> set (fold (clean_step False) cs out)"
proof (induction cs arbitrary: out)
  case (Cons c cs)
  have "''..'' \<in> set (clean_step False c out)" using Cons.prems by (cases out) (auto simp: clean_step_def)
  then show ?case using Cons.IH by simp
qed simp

lemma fold_clean_lift:
  assumes "list_all plain_element out" and "\<And>c. c \<in> set cs \<Longrightarrow> CHR ''/'' \<notin> set c"
    and "''..'' \<notin> set (fold (clean_step False) cs out)"
  shows "fold (clean_step True) cs (out @ base) = fold (clean_step False) cs out @ base"
  using assms
proof (induction cs arbitrary: out)
  case (Cons c cs)
  have "clean_step False ''..'' [] = [''..'']" by (simp add: clean_step_def)
  then have "\<not> (c = ''..'' \<and> out = [])" using Cons.prems(3) parent_stays [of "[''..'']" cs] by auto
  then have "clean_step True c (out @ base) = clean_step False c out @ base"
    and "list_all plain_element (clean_step False c out)"
    using Cons.prems(1) Cons.prems(2) [of c]
    by (auto simp: clean_step_def plain_element_def list_all_iff split: list.splits)
  then show ?case using Cons.IH [of "clean_step False c out"] Cons.prems(2,3) by simp
qed simp

lemma is_abs_append: "s \<noteq> [] \<Longrightarrow> is_abs (s @ t) = is_abs s"
  by (cases s) (simp_all add: is_abs_def)

lemma plain_no_parent: "list_all plain_element es \<Longrightarrow> ''..'' \<notin> set es"
  by (auto simp: list_all_iff plain_element_def)

lemma path_elements_abs: "is_abs s \<Longrightarrow> list_all plain_element (path_elements s)"
  using path_elements_shape [of s] by auto

lemma path_elements_append:
  assumes "is_abs root" and "\<not> is_abs name" and "list_all plain_element (path_elements name)"
  shows "path_elements (root @ ''/'' @ name) = path_elements root @ path_elements name"
proof -
  have ne: "root \<noteq> []" using assms(1) by (auto simp: is_abs_def)
  define base where "base = fold (clean_step True) (split_on (CHR ''/'') root) []"
  have "''..'' \<notin> set (fold (clean_step False) (split_on (CHR ''/'') name) [])"
    using plain_no_parent [OF assms(3)] assms(2) by (simp add: path_elements_def)
  then have "fold (clean_step True) (split_on (CHR ''/'') name) ([] @ base)
      = fold (clean_step False) (split_on (CHR ''/'') name) [] @ base"
    by (intro fold_clean_lift) (simp_all add: split_on_no_sep)
  then show ?thesis using assms(1,2) is_abs_append [OF ne]
    by (simp add: path_elements_def split_on_append base_def)
qed

lemma split_on_join:
  "es \<noteq> [] \<Longrightarrow> list_all (\<lambda>e. CHR ''/'' \<notin> set e) es \<Longrightarrow> split_on (CHR ''/'') (join_with ''/'' es) = es"
proof (induction es)
  case (Cons e es)
  have e: "split_on (CHR ''/'') e = [e]"
    using Cons.prems(2) by (induction e) auto
  show ?case using Cons e split_on_append [of "CHR ''/''" e "join_with ''/'' es"]
    by (cases "es = []") (simp_all add: join_with_Cons)
qed simp

lemma fold_clean_push: "list_all plain_element es \<Longrightarrow> fold (clean_step rooted) es out = rev es @ out"
  by (induction es arbitrary: out) (simp_all add: clean_step_def plain_element_def)

lemma path_elements_join:
  assumes "list_all plain_element es"
  shows "path_elements (''/'' @ join_with ''/'' es) = es"
proof (cases "es = []")
  case False
  have "list_all (\<lambda>e. CHR ''/'' \<notin> set e) es" using assms by (auto simp: list_all_iff plain_element_def)
  then have "split_on (CHR ''/'') (''/'' @ join_with ''/'' es) = [] # es"
    using split_on_join [OF False] by simp
  then show ?thesis using fold_clean_push [OF assms, of True "[]"]
    by (simp add: path_elements_def is_abs_def clean_step_def)
qed (simp add: path_elements_def clean_step_def)

lemma path_elements_clean: "is_abs s \<Longrightarrow> path_elements (path_clean s) = path_elements s"
  using path_elements_join [OF path_elements_abs] by (simp add: path_clean_def)

lemma is_abs_clean: "is_abs s \<Longrightarrow> is_abs (path_clean s)"
  by (simp add: path_clean_def is_abs_def)

lemma candidate_elements:
  assumes "is_abs root" and "validateRelativePath name = None"
  shows "path_elements (path_join [root, name]) = path_elements root @ path_elements name"
proof -
  have ne: "root \<noteq> []" using assms(1) by (auto simp: is_abs_def)
  have "is_abs (root @ ''/'' @ name)" using assms(1) is_abs_append [OF ne] by simp
  then show ?thesis
    using path_elements_append [OF assms(1)] validateRelativePath_elements [OF assms(2)] ne
    by (simp add: path_join_def path_elements_clean)
qed

subsection \<open>Being inside the root\<close>

lemma strip_common_prefix:
  "strip_common b t = (bs, ts) \<Longrightarrow> \<exists>p. b = p @ bs \<and> t = p @ ts \<and> (bs = [] \<or> ts = [] \<or> hd bs \<noteq> hd ts)"
proof (induction b t rule: strip_common.induct)
  case (1 b bs' t ts')
  show ?case
  proof (cases "b = t")
    case True
    then obtain p where "bs' = p @ bs \<and> ts' = p @ ts \<and> (bs = [] \<or> ts = [] \<or> hd bs \<noteq> hd ts)" using 1 by auto
    then show ?thesis using True by (intro exI [of _ "b # p"]) simp
  next
    case False
    then show ?thesis using 1 by auto
  qed
qed auto

lemma join_starts_parent: "es = ''..'' # rest \<Longrightarrow> join_with ''/'' es = ''..'' \<or> has_prefix (join_with ''/'' es) ''../''"
  by (auto simp: join_with_Cons)

lemma join_plain_not_parent:
  assumes "list_all plain_element es"
  shows "join_with ''/'' es \<noteq> ''..'' \<and> \<not> has_prefix (join_with ''/'' es) ''../''"
proof (cases es)
  case (Cons e rest)
  have e: "plain_element e" using assms Cons by simp
  have pre: "has_prefix s ''../'' \<longleftrightarrow> (\<exists>t. s = ''../'' @ t)" for s
    by (cases s; cases "tl s"; cases "tl (tl s)") auto
  have "split_on (CHR ''/'') (join_with ''/'' es) = es"
    using assms Cons by (intro split_on_join) (auto simp: list_all_iff plain_element_def)
  moreover have "split_on (CHR ''/'') (''../'' @ t) = ''..'' # split_on (CHR ''/'') t" for t by simp
  moreover have "split_on (CHR ''/'') ''..'' = [''..'']" by simp
  ultimately show ?thesis using e Cons pre unfolding plain_element_def by (metis list.inject)
qed simp

lemma pathWithin_prefix:
  assumes "is_abs root"
  shows "pathWithin root name \<longleftrightarrow> is_abs name \<and> prefix (path_elements root) (path_elements name)"
proof (cases "is_abs name")
  case True
  obtain bs ts where st: "strip_common (path_elements root) (path_elements name) = (bs, ts)" by fastforce
  obtain p where p: "path_elements root = p @ bs" "path_elements name = p @ ts"
      "bs = [] \<or> ts = [] \<or> hd bs \<noteq> hd ts"
    using strip_common_prefix [OF st] by blast
  have plain: "list_all plain_element bs" "list_all plain_element ts"
    using path_elements_abs [OF assms] path_elements_abs [OF True] p by simp_all
  show ?thesis
  proof (cases bs)
    case Nil
    then show ?thesis using assms True st p plain join_plain_not_parent [OF plain(2)]
      by (auto simp: pathWithin_def path_rel_def)
  next
    case (Cons b rest)
    have "join_with ''/'' (replicate (length bs) ''..'' @ ts) = ''..'' \<or>
        has_prefix (join_with ''/'' (replicate (length bs) ''..'' @ ts)) ''../''"
      using Cons by (intro join_starts_parent) simp
    then have "\<not> pathWithin root name" using assms True st Cons by (auto simp: pathWithin_def path_rel_def)
    moreover have "\<not> prefix (path_elements root) (path_elements name)"
      using p Cons by (cases ts) (auto simp: prefix_def)
    ultimately show ?thesis by simp
  qed
qed (use assms in \<open>simp add: pathWithin_def path_rel_def\<close>)

subsection \<open>Properties\<close>

text \<open>
  A relative path the manifest validation accepts names something strictly below the workspace
  root: joined to any absolute root and cleaned, its elements are those of the root followed by at
  least one further element, and none of them is a parent reference.
\<close>

theorem relative_path_below_root:
  assumes "is_abs root" and "validateRelativePath name = None"
  shows "\<exists>es. path_elements (path_join [root, name]) = path_elements root @ es \<and> es \<noteq> [] \<and>
    list_all plain_element es"
  using candidate_elements [OF assms] validateRelativePath_elements [OF assms(2)] by blast

theorem relative_path_below_root_witness:
  "\<exists>es. path_elements (path_join [''/srv/ws'', ''a/../locks/./deb.toml'']) = path_elements ''/srv/ws'' @ es \<and>
    es \<noteq> [] \<and> list_all plain_element es"
proof (rule relative_path_below_root)
  show "is_abs ''/srv/ws''" by code_simp
  show "validateRelativePath ''a/../locks/./deb.toml'' = None" by code_simp
qed

text \<open>
  C32: a path \<^verbatim>\<open>WorkspacePath\<close> returns cannot leave the workspace: lexically it is below the resolved
  root, its nearest existing ancestor resolves inside the root, and when the path itself exists, what
  it resolves to through symbolic links is inside the root too.
\<close>

theorem workspace_path_confined:
  assumes "fs_eval fs root = Some resolved" and "is_abs resolved" and "WorkspacePath fs root relative = Inr candidate"
  shows "path_elements candidate = path_elements resolved @ path_elements relative \<and>
    list_all plain_element (path_elements relative) \<and>
    (\<exists>existing target. nearest_existing fs (rev (path_elements candidate)) = Inr existing \<and>
       fs_eval fs existing = Some target \<and> is_abs target \<and> prefix (path_elements resolved) (path_elements target)) \<and>
    (fs_lstat fs candidate = Present \<longrightarrow> (\<exists>target. fs_eval fs candidate = Some target \<and> is_abs target \<and>
       prefix (path_elements resolved) (path_elements target)))"
proof -
  have rel: "validateRelativePath relative = None" and cand: "candidate = path_join [resolved, relative]"
    using assms by (auto simp: WorkspacePath_def Let_def split: option.splits sum.splits if_splits)
  show ?thesis using assms(1,3) candidate_elements [OF assms(2) rel] validateRelativePath_elements(3) [OF rel] cand
    by (auto simp: WorkspacePath_def Let_def pathWithin_prefix [OF assms(2)] simp del: nearest_existing.simps
        split: option.splits sum.splits if_splits)
qed

text \<open>A file system for the witness: everything exists and only one link leads elsewhere.\<close>

definition link_fs :: file_system where
  "link_fs = \<lparr>fs_lstat = (\<lambda>p. Present), fs_eval = (\<lambda>p. if p = ''/srv/ws/l'' then Some ''/srv/ws/t'' else Some p)\<rparr>"

theorem workspace_path_confined_witness:
  "path_elements ''/srv/ws/l'' = path_elements ''/srv/ws'' @ path_elements ''l'' \<and>
    list_all plain_element (path_elements ''l'') \<and>
    (\<exists>existing target. nearest_existing link_fs (rev (path_elements ''/srv/ws/l'')) = Inr existing \<and>
       fs_eval link_fs existing = Some target \<and> is_abs target \<and> prefix (path_elements ''/srv/ws'') (path_elements target)) \<and>
    (\<exists>target. fs_eval link_fs ''/srv/ws/l'' = Some target \<and>
       is_abs target \<and> prefix (path_elements ''/srv/ws'') (path_elements target))"
proof -
  have "fs_eval link_fs ''/srv/ws'' = Some ''/srv/ws''" by (simp add: link_fs_def)
  moreover have "is_abs ''/srv/ws''" by code_simp
  moreover have "WorkspacePath link_fs ''/srv/ws'' ''l'' = Inr ''/srv/ws/l''" by code_simp
  moreover have "fs_lstat link_fs ''/srv/ws/l'' = Present" by (simp add: link_fs_def)
  ultimately show ?thesis using workspace_path_confined [of link_fs "''/srv/ws''" "''/srv/ws''" "''l''" "''/srv/ws/l''"] by blast
qed

end
