(* ===== verification/Deb_Version.thy ===== *)
theory Deb_Version
  imports Decimal
begin

section \<open>Debian versions\<close>

text \<open>
  \<^verbatim>\<open>formats/deb/version.go\<close> and \<^verbatim>\<open>validVersion\<close> of \<^verbatim>\<open>formats/deb/inspect.go\<close>: the two nested loops that
  compare an upstream version or a revision, and the comparison of whole versions. The reference
  definition \<open>deb_key\<close> reads a version part as a sequence of weights (the non-digit characters, a
  terminating 0, the number, and so on, continued by zeros forever); the loops decide the
  lexicographic order of these sequences, which makes them a total preorder.
\<close>

datatype deb_error = InvalidDebianVersion

subsection \<open>The comparison of one part\<close>

definition versionOrder :: "char \<Rightarrow> int" where
  "versionOrder c =
     (if c = CHR ''~'' then -1
      else if c = CHR 0x00 \<or> is_digit c then 0
      else if is_alpha c then int (of_char c)
      else int (of_char c) + 256)"

definition firstByte :: "gostring \<Rightarrow> char" where
  "firstByte s = (case s of [] \<Rightarrow> CHR 0x00 | c # _ \<Rightarrow> c)"

definition compareNumeric :: "gostring \<Rightarrow> gostring \<Rightarrow> int" where
  "compareNumeric left right =
     (let left = trim_zeros left; right = trim_zeros right in
      if length left < length right then -1
      else if length left > length right then 1
      else if left < right then -1
      else if left > right then 1
      else 0)"

definition starts_non_digit :: "gostring \<Rightarrow> bool" where
  "starts_non_digit s = (case s of [] \<Rightarrow> False | c # _ \<Rightarrow> \<not> is_digit c)"

lemma starts_non_digit_length: "starts_non_digit s \<Longrightarrow> length s - 1 < length s"
  by (cases s) (auto simp: starts_non_digit_def)

text \<open>The inner loop: \<open>Inl\<close> is its \<^verbatim>\<open>return\<close>, \<open>Inr\<close> the two strings when it ends.\<close>

function skip_non_digits :: "gostring \<Rightarrow> gostring \<Rightarrow> int + gostring \<times> gostring" where
  "skip_non_digits left right =
     (if starts_non_digit left \<or> starts_non_digit right then
        let leftOrder = versionOrder (firstByte left); rightOrder = versionOrder (firstByte right) in
        if leftOrder < rightOrder then Inl (-1)
        else if leftOrder > rightOrder then Inl 1
        else skip_non_digits (if starts_non_digit left then drop 1 left else left)
                             (if starts_non_digit right then drop 1 right else right)
      else Inr (left, right))"
  by pat_completeness auto
termination
proof (relation "measure (\<lambda>(l, r). length l + length r)", goal_cases)
  case 1
  show ?case by simp
next
  case (2 l r lo ro)
  then show ?case using starts_non_digit_length [of l] starts_non_digit_length [of r] by auto
qed

declare skip_non_digits.simps [simp del]

lemma skip_non_digits_Inr:
  "skip_non_digits l r = Inr (l', r') \<Longrightarrow>
     l' = dropWhile (\<lambda>c. \<not> is_digit c) l \<and> r' = dropWhile (\<lambda>c. \<not> is_digit c) r"
proof (induction l r arbitrary: l' r' rule: skip_non_digits.induct)
  case (1 l r)
  have drop: "dropWhile (\<lambda>c. \<not> is_digit c) (if starts_non_digit s then drop 1 s else s)
      = dropWhile (\<lambda>c. \<not> is_digit c) s" for s
    by (cases s) (auto simp: starts_non_digit_def)
  have stop: "\<not> starts_non_digit s \<Longrightarrow> dropWhile (\<lambda>c. \<not> is_digit c) s = s" for s
    by (cases s) (auto simp: starts_non_digit_def)
  show ?case
  proof (cases "starts_non_digit l \<or> starts_non_digit r")
    case True
    with "1.prems" have "skip_non_digits (if starts_non_digit l then drop 1 l else l)
        (if starts_non_digit r then drop 1 r else r) = Inr (l', r')"
      and "\<not> versionOrder (firstByte l) < versionOrder (firstByte r)"
      and "\<not> versionOrder (firstByte r) < versionOrder (firstByte l)"
      by (simp_all add: skip_non_digits.simps [of l r] Let_def split: if_split_asm)
    with "1.IH" [OF True refl refl] show ?thesis unfolding drop by blast
  next
    case False
    with "1.prems" show ?thesis by (simp add: skip_non_digits.simps [of l r] stop)
  qed
qed

definition after_number :: "gostring \<Rightarrow> gostring" where
  "after_number s = dropWhile is_digit (dropWhile (\<lambda>c. \<not> is_digit c) s)"

lemma after_number_shorter: "s \<noteq> [] \<Longrightarrow> length (after_number s) < length s"
proof (cases s)
  case (Cons c t)
  then show ?thesis
    using length_dropWhile_le [of is_digit t] length_dropWhile_le [of "\<lambda>c. \<not> is_digit c" t]
      length_dropWhile_le [of is_digit "dropWhile (\<lambda>c. \<not> is_digit c) t"]
    by (simp add: after_number_def)
qed simp

lemma after_number_le: "length (after_number s) \<le> length s"
  using after_number_shorter [of s] by (cases "s = []") (auto simp: after_number_def)

function compareVersionPart :: "gostring \<Rightarrow> gostring \<Rightarrow> int" where
  "compareVersionPart left right =
     (if left \<noteq> [] \<or> right \<noteq> [] then
        case skip_non_digits left right of
          Inl result \<Rightarrow> result
        | Inr (left', right') \<Rightarrow>
            let (leftDigits, leftRest) = take_digits left';
                (rightDigits, rightRest) = take_digits right';
                comparison = compareNumeric leftDigits rightDigits
            in if comparison \<noteq> 0 then comparison else compareVersionPart leftRest rightRest
      else 0)"
  by pat_completeness auto
termination
proof (relation "measure (\<lambda>(l, r). length l + length r)", goal_cases)
  case 1
  show ?case by simp
next
  case (2 l r b l' r' x ld lr y rd rr c)
  then have "lr = after_number l" "rr = after_number r"
    by (auto simp: take_digits_def after_number_def dest: skip_non_digits_Inr)
  with 2(1) show ?case
    using after_number_shorter [of l] after_number_shorter [of r] after_number_le [of l] after_number_le [of r]
    by auto
qed

declare compareVersionPart.simps [simp del]

subsection \<open>The reference order\<close>

function deb_key :: "gostring \<Rightarrow> int list" where
  "deb_key s = (if s = [] then []
     else map versionOrder (takeWhile (\<lambda>c. \<not> is_digit c) s)
          @ 0 # int (digits_val (takeWhile is_digit (dropWhile (\<lambda>c. \<not> is_digit c) s)))
          # deb_key (after_number s))"
  by pat_completeness auto
termination
  by (relation "measure length") (auto simp: after_number_shorter)

declare deb_key.simps [simp del]

lemma deb_key_Nil [simp]: "deb_key [] = []"
  by (simp add: deb_key.simps)

lemma is_digit_tilde [simp]: "\<not> is_digit (CHR ''~'')"
  by (simp add: is_digit_def)

lemma versionOrder_nonzero: "c \<noteq> CHR 0x00 \<Longrightarrow> \<not> is_digit c \<Longrightarrow> versionOrder c \<noteq> 0"
proof -
  assume c: "c \<noteq> CHR 0x00" "\<not> is_digit c"
  have "(of_char c :: nat) \<noteq> 0"
  proof
    assume "(of_char c :: nat) = 0"
    then have "of_char c = (of_char (CHR 0x00) :: nat)" by simp
    then show False using c(1) by (simp only: of_char_eq_iff)
  qed
  then have "int (of_char c) > 0" by linarith
  then show ?thesis unfolding versionOrder_def using c by (auto simp del: of_nat_of_char)
qed

lemma compareNumeric_decimal: "compareNumeric l r = cmp_decimal l r"
  by (simp add: compareNumeric_def cmp_decimal_def Let_def cmp3_def cmp_then_def)

lemma cmp_pad_default: "c z z = 0 \<Longrightarrow> cmp_pad c z [] ys = cmp_pad c z [z, z] ys"
  "c z z = 0 \<Longrightarrow> cmp_pad c z ys [] = cmp_pad c z ys [z, z]"
  by (cases ys; cases "tl ys"; simp)+

text \<open>What the inner loop decides, in terms of the weights of the two non-digit runs.\<close>

lemma skip_non_digits_key:
  assumes "CHR 0x00 \<notin> set l" "CHR 0x00 \<notin> set r"
  shows "cmp_pad cmp3 0 (map versionOrder (takeWhile (\<lambda>c. \<not> is_digit c) l) @ 0 # xs)
             (map versionOrder (takeWhile (\<lambda>c. \<not> is_digit c) r) @ 0 # ys)
         = (case skip_non_digits l r of Inl c \<Rightarrow> c | Inr _ \<Rightarrow> cmp_pad cmp3 0 xs ys)"
  using assms
proof (induction l r rule: skip_non_digits.induct)
  case (1 l r)
  have vo0: "\<not> starts_non_digit s \<Longrightarrow> versionOrder (firstByte s) = 0 \<and> takeWhile (\<lambda>c. \<not> is_digit c) s = []" for s
    by (cases s) (auto simp: starts_non_digit_def firstByte_def versionOrder_def)
  have vo1: "starts_non_digit s \<Longrightarrow> CHR 0x00 \<notin> set s \<Longrightarrow> versionOrder (firstByte s) \<noteq> 0
      \<and> map versionOrder (takeWhile (\<lambda>c. \<not> is_digit c) s)
          = versionOrder (firstByte s) # map versionOrder (takeWhile (\<lambda>c. \<not> is_digit c) (drop 1 s))" for s
    by (cases s) (auto simp: starts_non_digit_def firstByte_def versionOrder_nonzero)
  have mem: "CHR 0x00 \<notin> set s \<Longrightarrow> CHR 0x00 \<notin> set (drop 1 s)" for s
    by (cases s) auto
  consider (both) "starts_non_digit l" "starts_non_digit r" | (left) "starts_non_digit l" "\<not> starts_non_digit r"
    | (right) "\<not> starts_non_digit l" "starts_non_digit r" | (none) "\<not> starts_non_digit l" "\<not> starts_non_digit r"
    by blast
  then show ?case
  proof cases
    case both
    show ?thesis
    proof (cases "versionOrder (firstByte l)" "versionOrder (firstByte r)" rule: linorder_cases)
      case equal
      with both have "skip_non_digits l r = skip_non_digits (drop 1 l) (drop 1 r)"
        by (simp add: skip_non_digits.simps [of l r])
      moreover note "1.IH" [OF _ refl refl, simplified equal both if_True, OF _ _ _ mem mem]
      ultimately show ?thesis using both equal vo1 "1.prems" by simp
    qed (use both vo1 "1.prems" in \<open>simp_all add: skip_non_digits.simps [of l r] cmp3_def cmp_then_def\<close>)
  next
    case left
    then show ?thesis using vo1 [of l] vo0 [of r] "1.prems"
      by (auto simp: skip_non_digits.simps [of l r] cmp3_def cmp_then_def)
  next
    case right
    then show ?thesis using vo1 [of r] vo0 [of l] "1.prems"
      by (auto simp: skip_non_digits.simps [of l r] cmp3_def cmp_then_def)
  next
    case none
    then show ?thesis using vo0 by (simp add: skip_non_digits.simps [of l r])
  qed
qed

definition deb_step :: "gostring \<Rightarrow> int list" where
  "deb_step s = map versionOrder (takeWhile (\<lambda>c. \<not> is_digit c) s)
     @ 0 # int (digits_val (takeWhile is_digit (dropWhile (\<lambda>c. \<not> is_digit c) s))) # deb_key (after_number s)"

lemma deb_key_step: "cmp_pad cmp3 0 (deb_key l) (deb_key r) = cmp_pad cmp3 0 (deb_step l) (deb_step r)"
proof -
  have "deb_key s = (if s = [] then [] else deb_step s)" for s
    by (simp add: deb_key.simps [of s] deb_step_def)
  moreover have "deb_step [] = [0, 0]" by (simp add: deb_step_def after_number_def)
  ultimately show ?thesis
    using cmp_pad_default(1) [of cmp3 "0 :: int"] cmp_pad_default(2) [of cmp3 "0 :: int"] by simp
qed

lemma set_after_number: "set (after_number s) \<subseteq> set s"
  unfolding after_number_def by (meson set_dropWhileD subsetI)

lemma compareVersionPart_key:
  assumes "CHR 0x00 \<notin> set l" "CHR 0x00 \<notin> set r"
  shows "compareVersionPart l r = cmp_pad cmp3 0 (deb_key l) (deb_key r)"
  using assms
proof (induction l r rule: compareVersionPart.induct)
  case (1 l r)
  let ?num = "\<lambda>s. takeWhile is_digit (dropWhile (\<lambda>c. \<not> is_digit c) s)"
  note decide = skip_non_digits_key [OF "1.prems", of "int (digits_val (?num l)) # deb_key (after_number l)"
      "int (digits_val (?num r)) # deb_key (after_number r)", folded deb_step_def, folded deb_key_step]
  show ?case
  proof (cases "l = [] \<and> r = []")
    case True
    then show ?thesis by (simp add: compareVersionPart.simps)
  next
    case False
    show ?thesis
    proof (cases "skip_non_digits l r")
      case (Inl c)
      with False decide show ?thesis by (simp add: compareVersionPart.simps [of l r])
    next
      case (Inr p)
      then have p: "p = (dropWhile (\<lambda>c. \<not> is_digit c) l, dropWhile (\<lambda>c. \<not> is_digit c) r)"
        using skip_non_digits_Inr [of l r "fst p" "snd p"] by (cases p) simp
      have num: "compareNumeric (?num l) (?num r) = cmp3 (int (digits_val (?num l))) (int (digits_val (?num r)))"
        by (simp add: compareNumeric_decimal cmp_decimal_val cmp3_def)
      have rest: "compareNumeric (?num l) (?num r) = 0 \<Longrightarrow>
          compareVersionPart (after_number l) (after_number r)
            = cmp_pad cmp3 0 (deb_key (after_number l)) (deb_key (after_number r))"
        using "1.IH" [OF _ Inr p [symmetric] refl take_digits_def [symmetric] refl take_digits_def [symmetric] refl]
          False "1.prems" set_after_number [of l] set_after_number [of r]
        by (auto simp: after_number_def)
      show ?thesis
        using False Inr p decide num rest
        by (auto simp: compareVersionPart.simps [of l r] take_digits_def after_number_def [symmetric]
            Let_def cmp_then_def)
    qed
  qed
qed

subsection \<open>Whole versions\<close>

definition deb_validVersion :: "gostring \<Rightarrow> bool" where
  "deb_validVersion version =
     (if version = [] \<or> contains_any version [CHR 0x00, CHR 0x0D, CHR 0x0A, CHR '' '', CHR 0x09, CHR ''/'', CHR 0x5C]
      then False
      else let body = (\<lambda>remainder.
             (case remainder of [] \<Rightarrow> False | c # _ \<Rightarrow> is_digit c) \<and>
             \<not> has_suffix remainder ''-'' \<and>
             (case cut_last (CHR ''-'') remainder of None \<Rightarrow> True | Some (_, after) \<Rightarrow> CHR '':'' \<notin> set after) \<and>
             list_all (\<lambda>c. is_alpha c \<or> is_digit c \<or> c \<in> set ''.:+~-'') remainder)
      in case cut_first (CHR '':'') version of
           None \<Rightarrow> body version
         | Some (before, remainder) \<Rightarrow>
             before \<noteq> [] \<and> trim_prefix before ''+'' \<noteq> [] \<and>
             parse_uint 64 (trim_prefix before ''+'') \<noteq> None \<and> body remainder)"

definition deb_splitVersion :: "gostring \<Rightarrow> gostring \<times> gostring \<times> gostring" where
  "deb_splitVersion version =
     (let (epoch, version) = (case cut_first (CHR '':'') version of None \<Rightarrow> (''0'', version)
            | Some (before, after) \<Rightarrow> (trim_prefix before ''+'', after));
          (upstream, revision) = (case cut_last (CHR ''-'') version of None \<Rightarrow> (version, ''0'')
            | Some (before, after) \<Rightarrow> (before, after))
      in (epoch, upstream, revision))"

definition deb_CompareVersions :: "gostring \<Rightarrow> gostring \<Rightarrow> deb_error + int" where
  "deb_CompareVersions left right =
     (if \<not> deb_validVersion left \<or> \<not> deb_validVersion right then Inl InvalidDebianVersion
      else let (leftEpoch, leftUpstream, leftRevision) = deb_splitVersion left;
               (rightEpoch, rightUpstream, rightRevision) = deb_splitVersion right;
               epochs = compareNumeric leftEpoch rightEpoch;
               upstreams = compareVersionPart leftUpstream rightUpstream
           in if epochs \<noteq> 0 then Inr epochs
              else if upstreams \<noteq> 0 then Inr upstreams
              else Inr (compareVersionPart leftRevision rightRevision))"

abbreviation deb_epoch :: "gostring \<Rightarrow> gostring" where "deb_epoch v \<equiv> fst (deb_splitVersion v)"
abbreviation deb_upstream :: "gostring \<Rightarrow> gostring" where "deb_upstream v \<equiv> fst (snd (deb_splitVersion v))"
abbreviation deb_revision :: "gostring \<Rightarrow> gostring" where "deb_revision v \<equiv> snd (snd (deb_splitVersion v))"

lemma cut_first_set: "cut_first c s = Some (a, b) \<Longrightarrow> set a \<subseteq> set s \<and> set b \<subseteq> set s"
  by (auto simp: cut_first_def split: if_splits dest: set_takeWhileD in_set_dropD set_dropWhileD)

lemma cut_last_set: "cut_last c s = Some (a, b) \<Longrightarrow> set a \<subseteq> set s \<and> set b \<subseteq> set s"
  by (auto simp: cut_last_def split: option.splits dest!: cut_first_set)

lemma deb_valid_no_nul: "deb_validVersion v \<Longrightarrow> CHR 0x00 \<notin> set v"
  by (auto simp: deb_validVersion_def contains_any_def list_ex_iff split: if_splits)

lemma deb_split_no_nul:
  assumes "deb_validVersion v"
  shows "CHR 0x00 \<notin> set (deb_upstream v)" "CHR 0x00 \<notin> set (deb_revision v)"
  using deb_valid_no_nul [OF assms]
  by (auto simp: deb_splitVersion_def Let_def split: option.splits prod.splits
      dest!: cut_first_set cut_last_set)

lemma deb_epoch_digits: "deb_validVersion v \<Longrightarrow> digit_string (deb_epoch v)"
  by (auto simp: deb_validVersion_def deb_splitVersion_def Let_def parse_uint_def is_digit_def
      split: option.splits prod.splits if_splits)

definition deb_order :: "gostring \<Rightarrow> gostring \<Rightarrow> int" where
  "deb_order a b = cmp_then (cmp_decimal (deb_epoch a) (deb_epoch b))
     (cmp_then (cmp_pad cmp3 0 (deb_key (deb_upstream a)) (deb_key (deb_upstream b)))
               (cmp_pad cmp3 0 (deb_key (deb_revision a)) (deb_key (deb_revision b))))"

lemma deb_CompareVersions_order:
  assumes "deb_validVersion a" "deb_validVersion b"
  shows "deb_CompareVersions a b = Inr (deb_order a b)"
  using assms deb_split_no_nul [OF assms(1)] deb_split_no_nul [OF assms(2)]
  by (cases "deb_splitVersion a"; cases "deb_splitVersion b")
     (simp add: deb_CompareVersions_def deb_order_def compareNumeric_decimal compareVersionPart_key
       cmp_then_def)

lemma comparator_deb_order: "comparator_on {v. deb_validVersion v} deb_order"
proof -
  note pad = comparator_pad [OF comparator_cmp3 [of UNIV] UNIV_I, simplified]
  have "comparator_on {v. deb_validVersion v} (\<lambda>a b. cmp_decimal (deb_epoch a) (deb_epoch b))"
    by (rule comparator_on_pullback [OF comparator_decimal]) (simp add: deb_epoch_digits)
  moreover have "comparator_on {v. deb_validVersion v}
      (\<lambda>a b. cmp_pad cmp3 0 (deb_key (k a)) (deb_key (k b)))" for k
    by (rule comparator_on_pullback [OF pad]) simp
  ultimately show ?thesis unfolding deb_order_def [abs_def] by (intro comparator_then)
qed

interpretation deb: version_comparator deb_CompareVersions deb_validVersion
  by (rule version_comparatorI [OF deb_CompareVersions_order comparator_deb_order])

subsection \<open>Properties\<close>

text \<open>
  C34: the two nested loops of \<^verbatim>\<open>compareVersionPart\<close> compute the reference order: on strings without a
  NUL byte (every accepted version is one) their result is the lexicographic comparison, with missing
  weights read as 0, of the weight sequences of the two parts.
\<close>

theorem deb_part_reference:
  assumes "CHR 0x00 \<notin> set left" and "CHR 0x00 \<notin> set right"
  shows "compareVersionPart left right = cmp_pad cmp3 0 (deb_key left) (deb_key right)"
  using assms by (rule compareVersionPart_key)

theorem deb_part_reference_witness:
  "compareVersionPart ''1.0~rc1'' ''1.0'' = cmp_pad cmp3 0 (deb_key ''1.0~rc1'') (deb_key ''1.0'')
   \<and> deb_key ''1.0~rc1'' = [0, 1, 302, 0, 0, -1, 114, 99, 0, 1]"
proof -
  have "deb_key ''1.0~rc1'' = [0, 1, 302, 0, 0, -1, 114, 99, 0, 1]" by code_simp
  then show ?thesis using deb_part_reference [of "''1.0~rc1''" "''1.0''"] by simp
qed

text \<open>
  C22: on accepted Debian versions \<^verbatim>\<open>CompareVersions\<close> never fails and is a total preorder: its answer
  is -1, 0 or 1, swapping the arguments negates it, and at-most is transitive.
\<close>

theorem deb_compare_total_preorder:
  assumes "deb_validVersion a" and "deb_validVersion b" and "deb_validVersion c"
  shows "\<exists>x y z. deb_CompareVersions a b = Inr x \<and> deb_CompareVersions b a = Inr (- x) \<and> x \<in> {-1, 0, 1} \<and>
    deb_CompareVersions b c = Inr y \<and> deb_CompareVersions a c = Inr z \<and> (x \<le> 0 \<and> y \<le> 0 \<longrightarrow> z \<le> 0)"
  using assms deb.compare_Inr comparator_range [OF deb.compare_laws] comparator_flip [OF deb.compare_laws]
    comparator_trans [OF deb.compare_laws, of a b c]
  by (metis mem_Collect_eq)

theorem deb_compare_total_preorder_witness:
  "\<exists>x y z. deb_CompareVersions ''1.0~rc1'' ''1.0-1'' = Inr x \<and> deb_CompareVersions ''1.0-1'' ''1.0~rc1'' = Inr (- x)
    \<and> x \<in> {-1, 0, 1} \<and> deb_CompareVersions ''1.0-1'' ''2:0.9'' = Inr y
    \<and> deb_CompareVersions ''1.0~rc1'' ''2:0.9'' = Inr z \<and> (x \<le> 0 \<and> y \<le> 0 \<longrightarrow> z \<le> 0)"
proof (rule deb_compare_total_preorder)
  show "deb_validVersion ''1.0~rc1''" by code_simp
  show "deb_validVersion ''1.0-1''" by code_simp
  show "deb_validVersion ''2:0.9''" by code_simp
qed

end
