(* ===== verification/Rpm_Version.thy ===== *)
theory Rpm_Version
  imports Decimal
begin

section \<open>RPM versions\<close>

text \<open>
  \<^verbatim>\<open>formats/rpm/version.go\<close>: \<^verbatim>\<open>rpmvercmp\<close> over segments, and epoch, version, release. The
  reference definition \<open>rpm_key\<close> cuts a string into tokens (tilde, end of string, caret, letters,
  number, in this order of rank); the loop decides the lexicographic order of the token lists.
\<close>

datatype rpm_error = EmptyVersion | InvalidEpoch gostring | NoVersionPart gostring

definition is_separator :: "char \<Rightarrow> bool" where
  "is_separator c \<longleftrightarrow> \<not> is_digit c \<and> \<not> is_alpha c \<and> c \<noteq> CHR ''~'' \<and> c \<noteq> CHR ''^''"

definition trimSeparators :: "gostring \<Rightarrow> gostring" where
  "trimSeparators value = dropWhile is_separator value"

text \<open>The \<^verbatim>\<open>switch\<close> after the loop.\<close>

definition segments_left :: "gostring \<Rightarrow> gostring \<Rightarrow> int" where
  "segments_left one two = (if one = [] \<and> two = [] then 0 else if one = [] then -1 else 1)"

text \<open>The comparison of one pair of segments of the same kind; 0 lets the loop go on.\<close>

definition compare_segment :: "bool \<Rightarrow> gostring \<Rightarrow> gostring \<Rightarrow> int" where
  "compare_segment numeric segmentOne segmentTwo =
     (if segmentTwo = [] then (if numeric then 1 else -1)
      else let one = (if numeric then trim_zeros segmentOne else segmentOne);
               two = (if numeric then trim_zeros segmentTwo else segmentTwo)
      in if numeric \<and> length one \<noteq> length two then (if length one > length two then 1 else -1)
         else cmp3 one two)"

lemma trimSeparators_length: "length (trimSeparators s) \<le> length s"
  by (simp add: trimSeparators_def length_dropWhile_le)

lemma trimSeparators_head: "trimSeparators s = c # t \<Longrightarrow> is_digit c \<or> is_alpha c \<or> c = CHR ''~'' \<or> c = CHR ''^''"
  using hd_dropWhile [of is_separator s] by (auto simp: trimSeparators_def is_separator_def)

lemma dropWhile_head_shorter: "p c \<Longrightarrow> length (dropWhile p (c # t)) < Suc (length t)"
  using length_dropWhile_le [of p t] by simp

lemma drop_head_shorter:
  "\<lbrakk>length a \<le> n; length b \<le> m; a \<noteq> []\<rbrakk> \<Longrightarrow> length (drop 1 a) + length (drop 1 b) < n + m"
  by (cases a; cases b) auto

function compare_loop :: "gostring \<Rightarrow> gostring \<Rightarrow> int" where
  "compare_loop one two =
     (if one = [] \<and> two = [] then segments_left one two
      else let one' = trimSeparators one; two' = trimSeparators two in
        if has_prefix one' ''~'' \<or> has_prefix two' ''~'' then
          (if \<not> has_prefix one' ''~'' then 1
           else if \<not> has_prefix two' ''~'' then -1
           else compare_loop (drop 1 one') (drop 1 two'))
        else if has_prefix one' ''^'' \<or> has_prefix two' ''^'' then
          (if one' = [] then -1
           else if two' = [] then 1
           else if \<not> has_prefix one' ''^'' then 1
           else if \<not> has_prefix two' ''^'' then -1
           else compare_loop (drop 1 one') (drop 1 two'))
        else if one' = [] \<or> two' = [] then segments_left one' two'
        else let numeric = is_digit (hd one');
                 accept = (if numeric then is_digit else is_alpha);
                 result = compare_segment numeric (takeWhile accept one') (takeWhile accept two')
             in if result \<noteq> 0 then result
                else compare_loop (dropWhile accept one') (dropWhile accept two'))"
  by pat_completeness auto
termination
proof (relation "measure (\<lambda>(l, r). length l + length r)", goal_cases)
  case 1
  show ?case by simp
next
  case (2 one two one' two')
  then have "one' \<noteq> []" by (cases one') auto
  with 2 show ?case using drop_head_shorter [OF trimSeparators_length trimSeparators_length] by simp
next
  case (3 one two one' two')
  then show ?case using drop_head_shorter [OF trimSeparators_length trimSeparators_length] by simp
next
  case (4 one two one' two' numeric accept result)
  then have ne: "one' \<noteq> []" and tilde: "\<not> has_prefix one' ''~''" and caret: "\<not> has_prefix one' ''^''"
    and trim: "trimSeparators one = one'" "trimSeparators two = two'"
    and acc: "accept = (if is_digit (hd one') then is_digit else is_alpha)" by blast+
  from ne obtain c t where one': "one' = c # t" by (cases one') blast+
  have "is_digit c \<or> is_alpha c"
    using tilde caret trim one' trimSeparators_head [of one c t] by auto
  then have "length (dropWhile accept one') < length one'"
    using acc one' dropWhile_head_shorter [of accept c t] by auto
  then show ?case
    using trim trimSeparators_length [of one] trimSeparators_length [of two] length_dropWhile_le [of accept two']
    by simp
qed

declare compare_loop.simps [simp del]

definition CompareSegments :: "gostring \<Rightarrow> gostring \<Rightarrow> int" where
  "CompareSegments left right = (if left = right then 0 else compare_loop left right)"

definition splitEVR :: "gostring \<Rightarrow> rpm_error + int \<times> gostring \<times> gostring" where
  "splitEVR value =
     (if value = [] then Inl EmptyVersion
      else let rest = (\<lambda>epoch value.
             let (version, release) = (case cut_first (CHR ''-'') value of None \<Rightarrow> (value, [])
                   | Some (before, after) \<Rightarrow> (before, after))
             in if version = [] then Inl (NoVersionPart value) else Inr (epoch, version, release))
      in case cut_first (CHR '':'') value of
           None \<Rightarrow> rest 0 value
         | Some (before, after) \<Rightarrow>
             (case parse_int 32 before of
                None \<Rightarrow> Inl (InvalidEpoch value)
              | Some parsed \<Rightarrow> if parsed < 0 then Inl (InvalidEpoch value) else rest parsed after))"

definition rpm_CompareVersions :: "gostring \<Rightarrow> gostring \<Rightarrow> rpm_error + int" where
  "rpm_CompareVersions left right =
     (case splitEVR left of Inl e \<Rightarrow> Inl e
      | Inr (leftEpoch, leftVersion, leftRelease) \<Rightarrow>
        (case splitEVR right of Inl e \<Rightarrow> Inl e
         | Inr (rightEpoch, rightVersion, rightRelease) \<Rightarrow>
           if leftEpoch \<noteq> rightEpoch then (if leftEpoch < rightEpoch then Inr (-1) else Inr 1)
           else let result = CompareSegments leftVersion rightVersion in
             if result \<noteq> 0 then Inr result else Inr (CompareSegments leftRelease rightRelease)))"

subsection \<open>The reference order\<close>

type_synonym rpm_token = "nat \<times> nat \<times> gostring"

definition token_tilde :: rpm_token where "token_tilde = (0, 0, [])"
definition token_end :: rpm_token where "token_end = (1, 0, [])"
definition token_caret :: rpm_token where "token_caret = (2, 0, [])"
definition token_alpha :: "gostring \<Rightarrow> rpm_token" where "token_alpha s = (3, 0, s)"
definition token_number :: "nat \<Rightarrow> rpm_token" where "token_number n = (4, n, [])"

lemmas token_defs = token_tilde_def token_end_def token_caret_def token_alpha_def token_number_def

function rpm_key :: "gostring \<Rightarrow> rpm_token list" where
  "rpm_key s = (case trimSeparators s of
       [] \<Rightarrow> [token_end]
     | c # t \<Rightarrow>
         if c = CHR ''~'' then token_tilde # rpm_key t
         else if c = CHR ''^'' then token_caret # rpm_key t
         else if is_digit c then token_number (digits_val (takeWhile is_digit (c # t))) # rpm_key (dropWhile is_digit (c # t))
         else token_alpha (takeWhile is_alpha (c # t)) # rpm_key (dropWhile is_alpha (c # t)))"
  by pat_completeness auto
termination
proof (relation "measure length", goal_cases)
  case 1
  show ?case by simp
next
  case (2 s c t)
  then show ?case using trimSeparators_length [of s] by simp
next
  case (3 s c t)
  then show ?case using trimSeparators_length [of s] by simp
next
  case (4 s c t)
  then show ?case using trimSeparators_length [of s] dropWhile_head_shorter [of is_digit c t] by simp
next
  case (5 s c t)
  then have "is_alpha c" using trimSeparators_head [of s c t] by simp
  then show ?case using 5 trimSeparators_length [of s] dropWhile_head_shorter [of is_alpha c t] by simp
qed

declare rpm_key.simps [simp del]

lemma cmp3_Cons: "cmp3 (x # xs) (y # ys :: 'a::linorder list) = cmp_then (cmp3 x y) (cmp3 xs ys)"
  by (auto simp: cmp3_def cmp_then_def)

text \<open>The ranks of the tokens, and the order within the two kinds that carry a value.\<close>

lemma cmp3_tokens [simp]:
  "cmp3 token_tilde token_end = -1" "cmp3 token_end token_tilde = 1"
  "cmp3 token_tilde token_caret = -1" "cmp3 token_caret token_tilde = 1"
  "cmp3 token_tilde (token_alpha s) = -1" "cmp3 (token_alpha s) token_tilde = 1"
  "cmp3 token_tilde (token_number n) = -1" "cmp3 (token_number n) token_tilde = 1"
  "cmp3 token_end token_caret = -1" "cmp3 token_caret token_end = 1"
  "cmp3 token_end (token_alpha s) = -1" "cmp3 (token_alpha s) token_end = 1"
  "cmp3 token_end (token_number n) = -1" "cmp3 (token_number n) token_end = 1"
  "cmp3 token_caret (token_alpha s) = -1" "cmp3 (token_alpha s) token_caret = 1"
  "cmp3 token_caret (token_number n) = -1" "cmp3 (token_number n) token_caret = 1"
  "cmp3 (token_alpha s) (token_number n) = -1" "cmp3 (token_number n) (token_alpha s) = 1"
  "cmp3 (token_alpha s) (token_alpha t) = cmp3 s t" "cmp3 (token_number n) (token_number m) = cmp3 n m"
  by (simp_all add: token_defs cmp3_def)

lemma digit_not_alpha: "is_digit c \<Longrightarrow> \<not> is_alpha c"
  unfolding is_digit_def is_alpha_def is_lower_def is_upper_def less_eq_char_def by auto

lemma specials_not_digit_alpha [simp]:
  "\<not> is_digit (CHR ''~'')" "\<not> is_digit (CHR ''^'')" "\<not> is_alpha (CHR ''~'')" "\<not> is_alpha (CHR ''^'')"
  by (simp_all add: is_digit_def is_alpha_def is_lower_def is_upper_def)

lemma compare_segment_number:
  assumes "digit_string s" "digit_string t" "t \<noteq> []"
  shows "compare_segment True s t = cmp3 (digits_val s) (digits_val t)"
proof -
  have "compare_segment True s t = cmp_decimal s t"
    using assms(3) by (auto simp: compare_segment_def cmp_decimal_def Let_def cmp_then_def cmp3_def)
  then show ?thesis using cmp_decimal_val assms by simp
qed

lemma rpm_key_trimmed:
  "trimSeparators s = [] \<Longrightarrow> rpm_key s = [token_end]"
  "trimSeparators s = CHR ''~'' # t \<Longrightarrow> rpm_key s = token_tilde # rpm_key t"
  "trimSeparators s = CHR ''^'' # t \<Longrightarrow> rpm_key s = token_caret # rpm_key t"
  "trimSeparators s = c # t \<Longrightarrow> is_digit c \<Longrightarrow>
     rpm_key s = token_number (digits_val (takeWhile is_digit (c # t))) # rpm_key (dropWhile is_digit (c # t))"
  "trimSeparators s = c # t \<Longrightarrow> is_alpha c \<Longrightarrow>
     rpm_key s = token_alpha (takeWhile is_alpha (c # t)) # rpm_key (dropWhile is_alpha (c # t))"
  using digit_not_alpha [of c] by (subst rpm_key.simps, auto)+

text \<open>How a trimmed string can start.\<close>

lemma trimSeparators_start:
  obtains (fin) "trimSeparators s = []"
    | (tilde) t where "trimSeparators s = CHR ''~'' # t"
    | (caret) t where "trimSeparators s = CHR ''^'' # t"
    | (digit) c t where "trimSeparators s = c # t" "is_digit c" "\<not> is_alpha c" "c \<noteq> CHR ''~''" "c \<noteq> CHR ''^''"
    | (alpha) c t where "trimSeparators s = c # t" "is_alpha c" "\<not> is_digit c" "c \<noteq> CHR ''~''" "c \<noteq> CHR ''^''"
proof (cases "trimSeparators s")
  case Nil
  then show thesis by (rule fin)
next
  case (Cons c t)
  then show thesis
    using trimSeparators_head [OF Cons] digit_not_alpha [of c] specials_not_digit_alpha tilde caret digit alpha
    by metis
qed

lemma compare_loop_key: "compare_loop one two = cmp3 (rpm_key one) (rpm_key two)"
proof (induction one two rule: compare_loop.induct)
  case (1 one two)
  show ?case
  proof (cases "one = [] \<and> two = []")
    case True
    then show ?thesis by (simp add: compare_loop.simps segments_left_def)
  next
    case False
    note unfold = compare_loop.simps [of one two] rpm_key_trimmed cmp3_Cons
    note IH = "1.IH" [OF False refl refl]
    show ?thesis
    proof (cases one rule: trimSeparators_start)
      case fin
      then show ?thesis using False
        by (cases two rule: trimSeparators_start) (auto simp: unfold segments_left_def cmp_then_def)
    next
      case (tilde t)
      then show ?thesis using False IH(1)
        by (cases two rule: trimSeparators_start) (auto simp: unfold cmp_then_def)
    next
      case (caret t)
      then show ?thesis using False IH(2)
        by (cases two rule: trimSeparators_start) (auto simp: unfold cmp_then_def)
    next
      case (digit c t)
      show ?thesis
      proof (cases two rule: trimSeparators_start)
        case two: (digit d u)
        have "compare_segment True (takeWhile is_digit (c # t)) (takeWhile is_digit (d # u))
            = cmp3 (digits_val (takeWhile is_digit (c # t))) (digits_val (takeWhile is_digit (d # u)))"
          by (rule compare_segment_number) (use digit two in simp_all)
        then show ?thesis using False digit two IH(3)
          by (auto simp: unfold Let_def cmp_then_def)
      qed (use False digit in \<open>auto simp: unfold segments_left_def cmp_then_def compare_segment_def\<close>)
    next
      case (alpha c t)
      show ?thesis
      proof (cases two rule: trimSeparators_start)
        case two: (alpha d u)
        have "compare_segment False (takeWhile is_alpha (c # t)) (takeWhile is_alpha (d # u))
            = cmp3 (takeWhile is_alpha (c # t)) (takeWhile is_alpha (d # u))"
          using two by (simp add: compare_segment_def)
        then show ?thesis using False alpha two IH(3)
          by (auto simp: unfold Let_def cmp_then_def)
      qed (use False alpha in \<open>auto simp: unfold segments_left_def cmp_then_def compare_segment_def\<close>)
    qed
  qed
qed

lemma CompareSegments_key: "CompareSegments left right = cmp3 (rpm_key left) (rpm_key right)"
  by (simp add: CompareSegments_def compare_loop_key)

subsection \<open>Epoch, version, release\<close>

definition rpm_valid :: "gostring \<Rightarrow> bool" where
  "rpm_valid v = (case splitEVR v of Inl _ \<Rightarrow> False | Inr _ \<Rightarrow> True)"

definition rpm_parts :: "gostring \<Rightarrow> int \<times> gostring \<times> gostring" where
  "rpm_parts v = (case splitEVR v of Inl _ \<Rightarrow> (0, [], []) | Inr parts \<Rightarrow> parts)"

definition rpm_order :: "gostring \<Rightarrow> gostring \<Rightarrow> int" where
  "rpm_order a b = cmp_then (cmp3 (fst (rpm_parts a)) (fst (rpm_parts b)))
     (cmp_then (cmp3 (rpm_key (fst (snd (rpm_parts a)))) (rpm_key (fst (snd (rpm_parts b)))))
               (cmp3 (rpm_key (snd (snd (rpm_parts a)))) (rpm_key (snd (snd (rpm_parts b))))))"

lemma rpm_CompareVersions_order:
  "rpm_valid a \<Longrightarrow> rpm_valid b \<Longrightarrow> rpm_CompareVersions a b = Inr (rpm_order a b)"
  by (auto simp: rpm_valid_def rpm_CompareVersions_def rpm_order_def rpm_parts_def CompareSegments_key
      cmp_then_def cmp3_def split: sum.splits)

lemma comparator_rpm_order: "comparator_on {v. rpm_valid v} rpm_order"
  unfolding rpm_order_def [abs_def] by (intro comparator_then comparator_key)

interpretation rpm: version_comparator rpm_CompareVersions rpm_valid
  by (rule version_comparatorI [OF rpm_CompareVersions_order comparator_rpm_order])

subsection \<open>Properties\<close>

text \<open>
  C35: the segment loop of \<^verbatim>\<open>CompareSegments\<close> computes the reference order on all strings: cut into
  tokens ranked tilde, end of string, caret, letters, number, its result is the lexicographic
  comparison of the two token lists.
\<close>

theorem rpm_segments_reference: "CompareSegments left right = cmp3 (rpm_key left) (rpm_key right)"
  by (rule CompareSegments_key)

text \<open>
  C23: on RPM versions that split into epoch, version and release, \<^verbatim>\<open>CompareVersions\<close> never fails and is
  a total preorder.
\<close>

theorem rpm_compare_total_preorder:
  assumes "rpm_valid a" and "rpm_valid b" and "rpm_valid c"
  shows "\<exists>x y z. rpm_CompareVersions a b = Inr x \<and> rpm_CompareVersions b a = Inr (- x) \<and> x \<in> {-1, 0, 1} \<and>
    rpm_CompareVersions b c = Inr y \<and> rpm_CompareVersions a c = Inr z \<and> (x \<le> 0 \<and> y \<le> 0 \<longrightarrow> z \<le> 0)"
  using assms rpm.compare_Inr comparator_range [OF rpm.compare_laws] comparator_flip [OF rpm.compare_laws]
    comparator_trans [OF rpm.compare_laws, of a b c]
  by (metis mem_Collect_eq)

theorem rpm_compare_total_preorder_witness:
  "\<exists>x y z. rpm_CompareVersions ''1.0~rc1-1'' ''1.0-1'' = Inr x \<and> rpm_CompareVersions ''1.0-1'' ''1.0~rc1-1'' = Inr (- x)
    \<and> x \<in> {-1, 0, 1} \<and> rpm_CompareVersions ''1.0-1'' ''1:0.9-2'' = Inr y
    \<and> rpm_CompareVersions ''1.0~rc1-1'' ''1:0.9-2'' = Inr z \<and> (x \<le> 0 \<and> y \<le> 0 \<longrightarrow> z \<le> 0)"
proof (rule rpm_compare_total_preorder)
  show "rpm_valid ''1.0~rc1-1''" by code_simp
  show "rpm_valid ''1.0-1''" by code_simp
  show "rpm_valid ''1:0.9-2''" by code_simp
qed

end
