(* ===== verification/Apk_Version.thy ===== *)
theory Apk_Version
  imports Decimal
begin

section \<open>Alpine versions\<close>

text \<open>
  \<^verbatim>\<open>formats/apk/version.go\<close>: the parser of \<^verbatim>\<open>1.2.3a_rc1-r4\<close> and the comparison of parsed versions.
  Where every dotted component fits in 64 bits the comparison is a total preorder; where one does
  not, it falls back to comparing that component as text and is not transitive.
\<close>

datatype apk_error = EmptyVersion | InvalidRevision gostring | StrayDash gostring
  | UnknownSuffix gostring gostring | InvalidSuffixNumber gostring | NoNumericPart gostring
  | NonNumericComponent gostring gostring

record apk_suffix =
  rank :: int
  suffix_number :: int

record apk_version =
  numbers :: "gostring list"
  letter :: gostring
  suffixes :: "apk_suffix list"
  revision :: int
  hasRevision :: bool

definition suffixRank :: "gostring \<Rightarrow> int option" where
  "suffixRank name = map_of [(''alpha'', -5), (''beta'', -4), (''pre'', -3), (''rc'', -2),
     (''cvs'', 1), (''svn'', 2), (''git'', 3), (''hg'', 4), (''p'', 5)] name"

subsection \<open>The parser\<close>

text \<open>\<^verbatim>\<open>strings.LastIndex\<close>, as the two sides of the last occurrence.\<close>

fun cut_last_sub :: "gostring \<Rightarrow> gostring \<Rightarrow> (gostring \<times> gostring) option" where
  "cut_last_sub t [] = None"
| "cut_last_sub t (c # s) = (case cut_last_sub t s of
       Some (before, after) \<Rightarrow> Some (c # before, after)
     | None \<Rightarrow> if has_prefix (c # s) t then Some ([], drop (length t) (c # s)) else None)"

fun parse_suffixes :: "gostring \<Rightarrow> gostring list \<Rightarrow> apk_error + apk_suffix list" where
  "parse_suffixes value [] = Inr []"
| "parse_suffixes value (part # parts) =
     (let name = trim_right is_digit part; digits = drop (length name) part in
      case suffixRank name of
        None \<Rightarrow> Inl (UnknownSuffix value name)
      | Some rk \<Rightarrow>
          (case (if digits = [] then Some 0 else parse_int 64 digits) of
             None \<Rightarrow> Inl (InvalidSuffixNumber value)
           | Some number \<Rightarrow>
               (case parse_suffixes value parts of Inl e \<Rightarrow> Inl e
                | Inr rest \<Rightarrow> Inr (\<lparr>rank = rk, suffix_number = number\<rparr> # rest))))"

fun parse_numbers :: "gostring \<Rightarrow> gostring list \<Rightarrow> apk_error + gostring list" where
  "parse_numbers value [] = Inr []"
| "parse_numbers value (part # parts) =
     (if part = [] \<or> trim_left is_digit part \<noteq> [] then Inl (NonNumericComponent value part)
      else (case parse_numbers value parts of Inl e \<Rightarrow> Inl e | Inr rest \<Rightarrow> Inr (part # rest)))"

text \<open>The part of the parser behind the revision: suffixes, letter, dotted numbers.\<close>

definition parse_remainder :: "gostring \<Rightarrow> apk_version \<Rightarrow> gostring \<Rightarrow> apk_error + apk_version" where
  "parse_remainder value parsed remainder =
     (if CHR ''-'' \<in> set remainder then Inl (StrayDash value)
      else
        let (remainder, suffixParts) = (case cut_first (CHR ''_'') remainder of
              None \<Rightarrow> (remainder, [])
            | Some (before, after) \<Rightarrow> (before, split_on (CHR ''_'') after))
        in case parse_suffixes value suffixParts of Inl e \<Rightarrow> Inl e | Inr suffs \<Rightarrow>
        let (remainder, lett) = (if remainder \<noteq> [] \<and> is_lower (last remainder)
              then (butlast remainder, [last remainder]) else (remainder, []))
        in if remainder = [] then Inl (NoNumericPart value)
           else case parse_numbers value (split_on (CHR ''.'') remainder) of Inl e \<Rightarrow> Inl e
             | Inr nums \<Rightarrow> Inr (parsed\<lparr>numbers := nums, letter := lett, suffixes := suffs\<rparr>))"

definition apk_parseVersion :: "gostring \<Rightarrow> apk_error + apk_version" where
  "apk_parseVersion value =
     (let zero = \<lparr>numbers = [], letter = [], suffixes = [], revision = 0, hasRevision = False\<rparr> in
      if value = [] then Inl EmptyVersion
      else case cut_last_sub ''-r'' value of
        None \<Rightarrow> parse_remainder value zero value
      | Some (before, after) \<Rightarrow>
          (case parse_int 64 after of
             None \<Rightarrow> Inl (InvalidRevision value)
           | Some rv \<Rightarrow>
               if rv < 0 then Inl (InvalidRevision value)
               else parse_remainder value (zero\<lparr>revision := rv, hasRevision := True\<rparr>) before))"

subsection \<open>The comparison\<close>

definition compareNumber :: "gostring \<Rightarrow> gostring \<Rightarrow> int" where
  "compareNumber left right =
     (if (has_prefix left ''0'' \<or> has_prefix right ''0'') \<and> (length left > 1 \<or> length right > 1)
      then cmp3 (trim_right (\<lambda>c. c = CHR ''0'') left) (trim_right (\<lambda>c. c = CHR ''0'') right)
      else case (parse_int 64 left, parse_int 64 right) of
             (Some leftValue, Some rightValue) \<Rightarrow>
               if leftValue < rightValue then -1 else if leftValue > rightValue then 1 else 0
           | _ \<Rightarrow> cmp3 left right)"

definition no_suffix :: apk_suffix where
  "no_suffix = \<lparr>rank = 0, suffix_number = 0\<rparr>"

definition compare_suffix :: "apk_suffix \<Rightarrow> apk_suffix \<Rightarrow> int" where
  "compare_suffix left right =
     (if rank left \<noteq> rank right then (if rank left < rank right then -1 else 1)
      else if suffix_number left \<noteq> suffix_number right
      then (if suffix_number left < suffix_number right then -1 else 1)
      else 0)"

text \<open>
  The two index loops read \<^verbatim>\<open>"0"\<close> and the zero suffix past the end of the shorter list, which is
  \<open>cmp_pad\<close> with these defaults.
\<close>

definition apk_compare :: "apk_version \<Rightarrow> apk_version \<Rightarrow> int" where
  "apk_compare left right =
     (let numbersResult = cmp_pad compareNumber ''0'' (numbers left) (numbers right);
          letterResult = cmp3 (letter left) (letter right);
          suffixResult = cmp_pad compare_suffix no_suffix (suffixes left) (suffixes right)
      in if numbersResult \<noteq> 0 then numbersResult
         else if letterResult \<noteq> 0 then letterResult
         else if suffixResult \<noteq> 0 then suffixResult
         else if hasRevision left \<noteq> hasRevision right then (if hasRevision right then -1 else 1)
         else if revision left \<noteq> revision right then (if revision left < revision right then -1 else 1)
         else 0)"

definition apk_CompareVersions :: "gostring \<Rightarrow> gostring \<Rightarrow> apk_error + int" where
  "apk_CompareVersions left right =
     (case apk_parseVersion left of Inl e \<Rightarrow> Inl e
      | Inr parsedLeft \<Rightarrow>
        (case apk_parseVersion right of Inl e \<Rightarrow> Inl e
         | Inr parsedRight \<Rightarrow> Inr (apk_compare parsedLeft parsedRight)))"

subsection \<open>Components that fit in 64 bits\<close>

definition small_number :: "gostring \<Rightarrow> bool" where
  "small_number p \<longleftrightarrow> p \<noteq> [] \<and> digit_string p \<and> int (digits_val p) < 2 ^ 63"

definition number_key :: "gostring \<Rightarrow> nat \<times> gostring \<times> nat" where
  "number_key p = (if has_prefix p ''0'' then (0, trim_right (\<lambda>c. c = CHR ''0'') p, 0)
                   else (1, [], digits_val p))"

lemma parse_int_digits:
  assumes "s \<noteq> []" and "digit_string s"
  shows "parse_int bits s = (if int (digits_val s) < 2 ^ (bits - 1) then Some (int (digits_val s)) else None)"
proof -
  obtain c t where s: "s = c # t" "is_digit c" "digit_string t" using assms by (cases s) auto
  have "c \<noteq> CHR ''-''" "c \<noteq> CHR ''+''" using s(2) by (auto simp: is_digit_def)
  then have "parse_int bits s = (let n = int (digits_val s) in
      if - (2 ^ (bits - 1)) \<le> n \<and> n < 2 ^ (bits - 1) then Some n else None)"
    using s by (simp add: parse_int_def del: digits_val_simps)
  moreover have "- (2 ^ (bits - 1)) \<le> int (digits_val s)" by (rule order_trans [of _ 0]) simp_all
  ultimately show ?thesis by (simp add: Let_def del: digits_val_simps)
qed

lemma parse_int_small: "small_number p \<Longrightarrow> parse_int 64 p = Some (int (digits_val p))"
  by (simp add: small_number_def parse_int_digits)

lemma has_prefix_char [simp]: "has_prefix s [c] \<longleftrightarrow> (\<exists>t. s = c # t)"
  by (cases s) auto

lemma trim_right_Cons:
  "trim_right p (c # s) = (if \<not> p c \<or> trim_right p s \<noteq> [] then c # trim_right p s else [])"
  by (auto simp: trim_right_def dropWhile_append dropWhile_eq_Nil_conv)

lemma trim_zero_less:
  assumes "is_digit d" "d \<noteq> CHR ''0''"
  shows "trim_right (\<lambda>c. c = CHR ''0'') (CHR ''0'' # s) < trim_right (\<lambda>c. c = CHR ''0'') (d # t)"
proof -
  have "CHR ''0'' < d" using assms by (simp add: is_digit_def order.strict_iff_order)
  then show ?thesis using assms by (simp add: trim_right_Cons)
qed

lemma compareNumber_key:
  assumes l: "small_number l" and r: "small_number r"
  shows "compareNumber l r = cmp3 (number_key l) (number_key r)"
proof -
  obtain c s d t where cd: "l = c # s" "r = d # t" "is_digit c" "is_digit d"
    using l r by (auto simp: small_number_def neq_Nil_conv)
  have num: "compareNumber l r = cmp3 (digits_val l) (digits_val r)"
    if "\<not> ((has_prefix l ''0'' \<or> has_prefix r ''0'') \<and> (length l > 1 \<or> length r > 1))"
    unfolding compareNumber_def if_not_P [OF that] parse_int_small [OF l] parse_int_small [OF r]
    by (simp add: cmp3_def)
  consider (fraction) "c = CHR ''0'' \<or> d = CHR ''0''" "length l > 1 \<or> length r > 1"
    | (single) "c = CHR ''0'' \<or> d = CHR ''0''" "s = []" "t = []" | (plain) "c \<noteq> CHR ''0''" "d \<noteq> CHR ''0''"
    using cd by auto
  then show ?thesis
  proof cases
    case fraction
    then have "compareNumber l r = cmp3 (trim_right (\<lambda>c. c = CHR ''0'') l) (trim_right (\<lambda>c. c = CHR ''0'') r)"
      using cd by (auto simp: compareNumber_def)
    then show ?thesis
      using fraction(1) cd trim_zero_less [of c t s] trim_zero_less [of d s t]
      by (auto simp: number_key_def cmp3_def)
  next
    case single
    then show ?thesis using num cd digit_val_zero [of c] digit_val_zero [of d]
      by (auto simp: number_key_def cmp3_def trim_right_Cons trim_right_def)
  next
    case plain
    then show ?thesis using num cd by (auto simp: number_key_def cmp3_def)
  qed
qed

lemma comparator_number: "comparator_on {p. small_number p} compareNumber"
  by (rule comparator_on_cong [OF comparator_key [where k = number_key]]) (simp add: compareNumber_key)

lemma comparator_suffix: "comparator_on UNIV compare_suffix"
  by (rule comparator_on_cong [OF comparator_key [where k = "\<lambda>s. (rank s, suffix_number s)"]])
     (auto simp: compare_suffix_def cmp3_def)

definition apk_valid :: "gostring \<Rightarrow> bool" where
  "apk_valid v = (case apk_parseVersion v of Inl _ \<Rightarrow> False
     | Inr parsed \<Rightarrow> list_all (\<lambda>p. int (digits_val p) < 2 ^ 63) (numbers parsed))"

definition apk_parsed :: "gostring \<Rightarrow> apk_version" where
  "apk_parsed v = (case apk_parseVersion v of Inl _ \<Rightarrow> undefined | Inr parsed \<Rightarrow> parsed)"

lemma parse_numbers_digits: "parse_numbers value parts = Inr nums \<Longrightarrow> p \<in> set nums \<Longrightarrow> p \<noteq> [] \<and> digit_string p"
  by (induction parts arbitrary: nums)
     (auto simp: trim_left_def dropWhile_eq_Nil_conv digit_string_def list_all_iff split: if_splits sum.splits)

lemma apk_parseVersion_digits:
  "apk_parseVersion v = Inr parsed \<Longrightarrow> p \<in> set (numbers parsed) \<Longrightarrow> p \<noteq> [] \<and> digit_string p"
  by (auto simp: apk_parseVersion_def parse_remainder_def Let_def split: if_splits option.splits sum.splits prod.splits
      dest: parse_numbers_digits)

lemma apk_valid_small: "apk_valid v \<Longrightarrow> numbers (apk_parsed v) \<in> lists {p. small_number p}"
  by (auto simp: apk_valid_def apk_parsed_def small_number_def list_all_iff dest: apk_parseVersion_digits
      split: sum.splits)

definition apk_order :: "apk_version \<Rightarrow> apk_version \<Rightarrow> int" where
  "apk_order a b = cmp_then (cmp_pad compareNumber ''0'' (numbers a) (numbers b))
     (cmp_then (cmp3 (letter a) (letter b))
     (cmp_then (cmp_pad compare_suffix no_suffix (suffixes a) (suffixes b))
     (cmp_then (cmp3 (hasRevision a) (hasRevision b)) (cmp3 (revision a) (revision b)))))"

lemma apk_compare_order: "apk_compare a b = apk_order a b"
  by (auto simp: apk_compare_def apk_order_def cmp_then_def cmp3_def Let_def)

lemma small_number_0: "small_number ''0''"
  by (simp add: small_number_def is_digit_def digit_val_def)

lemma comparator_apk_order: "comparator_on {a. numbers a \<in> lists {p. small_number p}} apk_order"
proof -
  let ?D = "{a. numbers a \<in> lists {p. small_number p}}"
  have "comparator_on ?D (\<lambda>a b. cmp_pad compareNumber ''0'' (numbers a) (numbers b))"
    by (rule comparator_on_pullback [OF comparator_pad [OF comparator_number]])
       (simp_all add: small_number_0)
  moreover have "comparator_on ?D (\<lambda>a b. cmp_pad compare_suffix no_suffix (suffixes a) (suffixes b))"
    by (rule comparator_on_pullback [OF comparator_pad [OF comparator_suffix]]) simp_all
  ultimately show ?thesis unfolding apk_order_def [abs_def] by (intro comparator_then comparator_key)
qed

lemma apk_CompareVersions_order:
  "apk_valid a \<Longrightarrow> apk_valid b \<Longrightarrow> apk_CompareVersions a b = Inr (apk_order (apk_parsed a) (apk_parsed b))"
  by (auto simp: apk_valid_def apk_CompareVersions_def apk_parsed_def apk_compare_order split: sum.splits)

interpretation apk: version_comparator apk_CompareVersions apk_valid
proof (rule version_comparatorI [OF apk_CompareVersions_order])
  show "comparator_on {v. apk_valid v} (\<lambda>a b. apk_order (apk_parsed a) (apk_parsed b))"
    by (rule comparator_on_pullback [OF comparator_apk_order]) (simp add: apk_valid_small del: in_lists_conv_set)
qed

subsection \<open>Properties\<close>

text \<open>
  C24: on Alpine versions that parse and whose dotted components fit in 63 bits, \<^verbatim>\<open>CompareVersions\<close> never
  fails and is a total preorder, although one component is compared as a number, as a fraction or as
  text depending on both sides.
\<close>

theorem apk_compare_total_preorder:
  assumes "apk_valid a" and "apk_valid b" and "apk_valid c"
  shows "\<exists>x y z. apk_CompareVersions a b = Inr x \<and> apk_CompareVersions b a = Inr (- x) \<and> x \<in> {-1, 0, 1} \<and>
    apk_CompareVersions b c = Inr y \<and> apk_CompareVersions a c = Inr z \<and> (x \<le> 0 \<and> y \<le> 0 \<longrightarrow> z \<le> 0)"
  using assms apk.compare_Inr comparator_range [OF apk.compare_laws] comparator_flip [OF apk.compare_laws]
    comparator_trans [OF apk.compare_laws, of a b c]
  by (metis mem_Collect_eq)

theorem apk_compare_total_preorder_witness:
  "\<exists>x y z. apk_CompareVersions ''1.05_rc1'' ''1.1-r0'' = Inr x \<and> apk_CompareVersions ''1.1-r0'' ''1.05_rc1'' = Inr (- x)
    \<and> x \<in> {-1, 0, 1} \<and> apk_CompareVersions ''1.1-r0'' ''1.1a'' = Inr y
    \<and> apk_CompareVersions ''1.05_rc1'' ''1.1a'' = Inr z \<and> (x \<le> 0 \<and> y \<le> 0 \<longrightarrow> z \<le> 0)"
proof (rule apk_compare_total_preorder)
  show "apk_valid ''1.05_rc1''" by code_simp
  show "apk_valid ''1.1-r0''" by code_simp
  show "apk_valid ''1.1a''" by code_simp
qed

text \<open>
  C37: without the bound the order breaks: a component that does not fit in an \<^verbatim>\<open>int64\<close> is compared as
  text with every other, so the component comparison has a cycle 9 < 10 < 10000000000000000000 < 9.
\<close>

theorem apk_number_cycle:
  "compareNumber ''9'' ''10'' < 0 \<and> compareNumber ''10'' ''10000000000000000000'' < 0 \<and>
   compareNumber ''10000000000000000000'' ''9'' < 0"
  by (simp add: compareNumber_def parse_int_digits is_digit_def digit_val_def cmp3_def)

end
