(* ===== verification/Pypi_Version.thy ===== *)
theory Pypi_Version
  imports Go_Regexp
begin

section \<open>Python versions (PEP 440)\<close>

text \<open>
  \<^verbatim>\<open>formats/pypi/version.go\<close>: the pattern, the parser that reads its groups and the comparator. The
  statements are about ASCII inputs: on other bytes \<^verbatim>\<open>TrimSpace\<close> and the case-insensitive classes of
  the pattern accept a few Unicode letters and spaces that are outside PEP 440. The reference order
  is the one PEP 440 prescribes: epoch, release padded with zeros, pre-release phase and number with
  development releases below and final releases above, post-release, development release, local
  version segments with numbers above text.
\<close>

datatype pypi_error = InvalidPEP440

record pep440Version =
  pep_epoch :: gostring
  pep_preNumber :: gostring
  pep_postNumber :: gostring
  pep_devNumber :: gostring
  pep_release :: "gostring list"
  pep_prePhase :: int
  pep_hasPre :: bool
  pep_hasPost :: bool
  pep_hasDev :: bool
  pep_local :: "gostring list"

subsection \<open>The pattern\<close>

definition fold_eq :: "char \<Rightarrow> char \<Rightarrow> bool" where
  "fold_eq x y \<longleftrightarrow> to_lower_char y = x"

definition pep_separator :: "char \<Rightarrow> bool" where
  "pep_separator c \<longleftrightarrow> c \<in> {CHR ''.'', CHR ''_'', CHR ''-''}"

definition pep_alnum :: "char \<Rightarrow> bool" where
  "pep_alnum c \<longleftrightarrow> is_lower (to_lower_char c) \<or> is_digit c"

definition rx_word :: "gostring list \<Rightarrow> rx" where
  "rx_word ws = foldr (\<lambda>w r. Alt (Lit fold_eq w) r) (butlast ws) (Lit fold_eq (last ws))"

definition pep440Pattern :: rx where
  "pep440Pattern =
     (let sep = Opt (Cls pep_separator); digits = Star (Cls is_digit); number = Plus (Cls is_digit);
          alnums = Plus (Cls pep_alnum) in
      Seq (Opt (Lit fold_eq ''v''))
     (Seq (Opt (Seq (Cap 1 number) (Lit (=) ''!'')))
     (Seq (Cap 2 (Seq number (Star (Seq (Cls (\<lambda>c. c = CHR ''.'')) number))))
     (Seq (Opt (Seq sep (Seq (Cap 3 (rx_word [''alpha'', ''beta'', ''preview'', ''pre'', ''a'', ''b'', ''c'', ''rc'']))
            (Seq sep (Cap 4 digits)))))
     (Seq (Opt (Alt (Seq (Lit (=) ''-'') (Cap 5 number))
            (Seq sep (Seq (Cap 6 (rx_word [''post'', ''rev'', ''r''])) (Seq sep (Cap 7 digits))))))
     (Seq (Opt (Seq sep (Seq (Cap 8 (Lit fold_eq ''dev'')) (Seq sep (Cap 9 digits)))))
          (Opt (Seq (Lit (=) ''+'') (Cap 10 (Seq alnums (Star (Seq (Cls pep_separator) alnums))))))))))))"

subsection \<open>The parser\<close>

definition defaultNumber :: "gostring \<Rightarrow> gostring" where
  "defaultNumber value = (if value = [] then ''0'' else value)"

definition numericSegment :: "gostring \<Rightarrow> bool" where
  "numericSegment value \<longleftrightarrow> value \<noteq> [] \<and> list_all is_digit value"

definition parsePEP440 :: "gostring \<Rightarrow> pypi_error + pep440Version" where
  "parsePEP440 value = (case rx_full pep440Pattern (trim is_space value) of
       None \<Rightarrow> Inl InvalidPEP440
     | Some matches \<Rightarrow>
       let hasPre = group matches 3 \<noteq> [];
           phase = to_lower (group matches 3);
           hasPost = group matches 5 \<noteq> [] \<or> group matches 6 \<noteq> [];
           hasDev = group matches 8 \<noteq> []
       in Inr \<lparr>pep_epoch = defaultNumber (group matches 1),
            pep_preNumber = (if hasPre then defaultNumber (group matches 4) else []),
            pep_postNumber = (if hasPost
               then (if group matches 5 = [] then defaultNumber (group matches 7)
                     else defaultNumber (group matches 5)) else []),
            pep_devNumber = (if hasDev then defaultNumber (group matches 9) else []),
            pep_release = split_on (CHR ''.'') (group matches 2),
            pep_prePhase = (if \<not> hasPre \<or> phase \<in> {''a'', ''alpha''} then 0
                            else if phase \<in> {''b'', ''beta''} then 1 else 2),
            pep_hasPre = hasPre, pep_hasPost = hasPost, pep_hasDev = hasDev,
            pep_local = (if group matches 10 \<noteq> []
               then fields_func pep_separator (to_lower (group matches 10)) else [])\<rparr>)"

subsection \<open>The comparison\<close>

definition compareNumericString :: "gostring \<Rightarrow> gostring \<Rightarrow> int" where
  "compareNumericString left right =
     (let left = trim_zeros left; right = trim_zeros right in
      if length left < length right then -1
      else if length left > length right then 1
      else if left < right then -1
      else if left > right then 1
      else 0)"

definition compareRelease :: "gostring list \<Rightarrow> gostring list \<Rightarrow> int" where
  "compareRelease left right = cmp_pad compareNumericString ''0'' left right"

definition preRank :: "pep440Version \<Rightarrow> int" where
  "preRank version =
     (if pep_hasPre version then 0
      else if pep_hasDev version \<and> \<not> pep_hasPost version then -1
      else 1)"

definition comparePre :: "pep440Version \<Rightarrow> pep440Version \<Rightarrow> int" where
  "comparePre left right =
     (if preRank left < preRank right then -1
      else if preRank left > preRank right then 1
      else if preRank left \<noteq> 0 then 0
      else if pep_prePhase left < pep_prePhase right then -1
      else if pep_prePhase left > pep_prePhase right then 1
      else compareNumericString (pep_preNumber left) (pep_preNumber right))"

definition compareOptionalNumber :: "bool \<Rightarrow> gostring \<Rightarrow> bool \<Rightarrow> gostring \<Rightarrow> int \<Rightarrow> int \<Rightarrow> int" where
  "compareOptionalNumber leftPresent left rightPresent right absentRank presentRank =
     (let leftRank = (if leftPresent then presentRank else absentRank);
          rightRank = (if rightPresent then presentRank else absentRank) in
      if leftRank < rightRank then -1
      else if leftRank > rightRank then 1
      else if \<not> leftPresent then 0
      else compareNumericString left right)"

fun local_loop :: "gostring list \<Rightarrow> gostring list \<Rightarrow> int" where
  "local_loop (l # left) (r # right) =
     (if numericSegment l \<and> \<not> numericSegment r then 1
      else if \<not> numericSegment l \<and> numericSegment r then -1
      else if numericSegment l then
        (if compareNumericString l r \<noteq> 0 then compareNumericString l r else local_loop left right)
      else if l < r then -1
      else if l > r then 1
      else local_loop left right)"
| "local_loop left right =
     (if length left < length right then -1 else if length left > length right then 1 else 0)"

definition compareLocal :: "gostring list \<Rightarrow> gostring list \<Rightarrow> int" where
  "compareLocal left right =
     (if left = [] \<and> right = [] then 0
      else if left = [] then -1
      else if right = [] then 1
      else local_loop left right)"

definition pypi_compare :: "pep440Version \<Rightarrow> pep440Version \<Rightarrow> int" where
  "pypi_compare l r =
     (let epochs = compareNumericString (pep_epoch l) (pep_epoch r);
          releases = compareRelease (pep_release l) (pep_release r);
          pres = comparePre l r;
          posts = compareOptionalNumber (pep_hasPost l) (pep_postNumber l) (pep_hasPost r) (pep_postNumber r) (-1) 1;
          devs = compareOptionalNumber (pep_hasDev l) (pep_devNumber l) (pep_hasDev r) (pep_devNumber r) 1 (-1)
      in if epochs \<noteq> 0 then epochs
         else if releases \<noteq> 0 then releases
         else if pres \<noteq> 0 then pres
         else if posts \<noteq> 0 then posts
         else if devs \<noteq> 0 then devs
         else compareLocal (pep_local l) (pep_local r))"

definition pypi_CompareVersions :: "gostring \<Rightarrow> gostring \<Rightarrow> pypi_error + int" where
  "pypi_CompareVersions left right =
     (case parsePEP440 left of Inl e \<Rightarrow> Inl e
      | Inr leftVersion \<Rightarrow>
        (case parsePEP440 right of Inl e \<Rightarrow> Inl e
         | Inr rightVersion \<Rightarrow> Inr (pypi_compare leftVersion rightVersion)))"

subsection \<open>What the parser guarantees\<close>

definition pep_wf :: "pep440Version \<Rightarrow> bool" where
  "pep_wf v \<longleftrightarrow> digit_string (pep_epoch v) \<and> list_all digit_string (pep_release v) \<and>
     digit_string (pep_preNumber v) \<and> digit_string (pep_postNumber v) \<and> digit_string (pep_devNumber v)"

lemma rx_lang_number: "rx_lang (Plus (Cls is_digit)) u \<longleftrightarrow> u \<noteq> [] \<and> digit_string u"
  by (simp add: rx_lang_Plus_class digit_string_def)

lemma rx_lang_digits: "rx_lang (Star (Cls is_digit)) u \<longleftrightarrow> digit_string u"
  by (simp add: rx_lang_Star_class digit_string_def)

text \<open>The groups of the pattern by number, none of the word groups having groups of its own.\<close>

lemma rx_groups_Lit [simp]: "rx_groups (Lit eq w) = []"
  by (induction w) simp_all

lemma rx_groups_word [simp]: "rx_groups (rx_word ws) = []"
proof -
  have "rx_groups (foldr (\<lambda>w r. Alt (Lit fold_eq w) r) us r) = rx_groups r" for us r
    by (induction us) simp_all
  then show ?thesis by (simp add: rx_word_def)
qed

lemma rx_groups_derived [simp]: "rx_groups (Opt a) = rx_groups a" "rx_groups (Plus a) = rx_groups a @ rx_groups a"
  by (simp_all add: Opt_def Plus_def)

lemma group_number:
  assumes "rx_full pep440Pattern s = Some c" and "n \<in> {1, 4, 5, 7, 9}"
  shows "digit_string (group c n)"
proof (cases "group c n = []")
  case False
  then obtain a where "(n, a) \<in> set (rx_groups pep440Pattern)" "rx_lang a (group c n)"
    using group_lang [OF assms(1)] by blast
  then show ?thesis using assms(2)
    by (auto simp: pep440Pattern_def Let_def rx_lang_number rx_lang_digits)
qed simp

lemma split_on_digits: "list_all (\<lambda>c. c = d \<or> is_digit c) s \<Longrightarrow> list_all digit_string (split_on d s)"
  by (induction d s rule: split_on.induct) (auto split: list.splits)

lemma rx_lang_Star_set:
  assumes "rx_lang (Star a) u" and "\<And>w. rx_lang a w \<Longrightarrow> list_all p w"
  shows "list_all p u"
  using assms by (induction "Star a" u rule: rx_lang.induct) auto

lemma group_release:
  assumes "rx_full pep440Pattern s = Some c"
  shows "list_all (\<lambda>c. c = CHR ''.'' \<or> is_digit c) (group c 2)"
proof (cases "group c 2 = []")
  case False
  then obtain a where "(2, a) \<in> set (rx_groups pep440Pattern)" "rx_lang a (group c 2)"
    using group_lang [OF assms(1)] by blast
  then have "rx_lang (Seq (Plus (Cls is_digit)) (Star (Seq (Cls (\<lambda>c. c = CHR ''.'')) (Plus (Cls is_digit))))) (group c 2)"
    by (auto simp: pep440Pattern_def Let_def)
  then obtain u v where uv: "group c 2 = u @ v" "digit_string u"
    "rx_lang (Star (Seq (Cls (\<lambda>c. c = CHR ''.'')) (Plus (Cls is_digit)))) v"
    by (auto simp: rx_lang_Seq [of "Plus (Cls is_digit)"] rx_lang_number)
  have "list_all (\<lambda>c. c = CHR ''.'' \<or> is_digit c) v"
    by (rule rx_lang_Star_set [OF uv(3)])
       (auto simp: rx_lang_number digit_string_def list_all_iff)
  then show ?thesis using uv by (auto simp: digit_string_def list_all_iff)
qed simp

lemma defaultNumber_digits: "digit_string s \<Longrightarrow> digit_string (defaultNumber s)"
  by (simp add: defaultNumber_def is_digit_def)

lemma parsePEP440_wf: "parsePEP440 v = Inr p \<Longrightarrow> pep_wf p"
  by (auto simp: parsePEP440_def pep_wf_def Let_def defaultNumber_digits group_number
      split_on_digits group_release split: option.splits)

subsection \<open>The reference order\<close>

definition pre_key :: "pep440Version \<Rightarrow> int \<times> int \<times> nat" where
  "pre_key v = (if pep_hasPre v then (0, pep_prePhase v, digits_val (pep_preNumber v))
     else if pep_hasDev v \<and> \<not> pep_hasPost v then (-1, 0, 0) else (1, 0, 0))"

definition post_key :: "pep440Version \<Rightarrow> nat \<times> nat" where
  "post_key v = (if pep_hasPost v then (1, digits_val (pep_postNumber v)) else (0, 0))"

definition dev_key :: "pep440Version \<Rightarrow> nat \<times> nat" where
  "dev_key v = (if pep_hasDev v then (0, digits_val (pep_devNumber v)) else (1, 0))"

definition local_key :: "gostring \<Rightarrow> nat \<times> nat \<times> gostring" where
  "local_key f = (if numericSegment f then (1, digits_val f, []) else (0, 0, f))"

definition pep440_order :: "pep440Version \<Rightarrow> pep440Version \<Rightarrow> int" where
  "pep440_order a b =
     cmp_then (cmp3 (digits_val (pep_epoch a)) (digits_val (pep_epoch b)))
    (cmp_then (cmp_pad cmp3 0 (map digits_val (pep_release a)) (map digits_val (pep_release b)))
    (cmp_then (cmp3 (pre_key a) (pre_key b))
    (cmp_then (cmp3 (post_key a) (post_key b))
    (cmp_then (cmp3 (dev_key a) (dev_key b))
              (cmp3 (map local_key (pep_local a)) (map local_key (pep_local b)))))))"

lemma compareNumericString_val:
  "digit_string l \<Longrightarrow> digit_string r \<Longrightarrow> compareNumericString l r = cmp3 (digits_val l) (digits_val r)"
  by (subst cmp_decimal_val [symmetric])
     (auto simp: compareNumericString_def cmp_decimal_def cmp3_def cmp_then_def Let_def)

lemma compareRelease_val:
  "list_all digit_string l \<Longrightarrow> list_all digit_string r \<Longrightarrow>
     compareRelease l r = cmp_pad cmp3 0 (map digits_val l) (map digits_val r)"
proof -
  have zero: "digit_string ''0''" "digit_val CHR ''0'' = 0" by (simp_all add: is_digit_def digit_val_def)
  show "list_all digit_string l \<Longrightarrow> list_all digit_string r \<Longrightarrow>
     compareRelease l r = cmp_pad cmp3 0 (map digits_val l) (map digits_val r)"
    unfolding compareRelease_def
  proof (induction l r rule: list_induct2')
    case (2 x xs)
    then have "cmp_pad compareNumericString ''0'' xs [] = cmp_pad cmp3 0 (map digits_val xs) []"
      by (induction xs) (auto simp: compareNumericString_val [OF _ zero(1)] zero(2))
    then show ?case using 2 by (simp add: compareNumericString_val [OF _ zero(1)] zero(2))
  next
    case (3 y ys)
    then have "cmp_pad compareNumericString ''0'' [] ys = cmp_pad cmp3 0 [] (map digits_val ys)"
      by (induction ys) (auto simp: compareNumericString_val [OF zero(1)] zero(2))
    then show ?case using 3 by (simp add: compareNumericString_val [OF zero(1)] zero(2))
  qed (simp_all add: compareNumericString_val)
qed

lemma local_loop_key: "local_loop l r = cmp3 (map local_key l) (map local_key r)"
  unfolding cmp_lex_string [symmetric]
proof (induction l r rule: list_induct2')
  case (4 l left r right)
  have "compareNumericString l r = cmp3 (digits_val l) (digits_val r)" if "numericSegment l" "numericSegment r"
    using that by (intro compareNumericString_val) (auto simp: numericSegment_def digit_string_def)
  then show ?case using 4
    by (auto simp: local_key_def cmp_then_def cmp3_def split: if_splits)
qed simp_all

lemma compareLocal_key: "compareLocal l r = cmp3 (map local_key l) (map local_key r)"
  by (cases l; cases r) (simp_all add: compareLocal_def local_loop_key cmp3_def)

lemma pypi_compare_order: "pep_wf a \<Longrightarrow> pep_wf b \<Longrightarrow> pypi_compare a b = pep440_order a b"
proof -
  assume wf: "pep_wf a" "pep_wf b"
  note num = compareNumericString_val
  have "comparePre a b = cmp3 (pre_key a) (pre_key b)"
    using wf by (auto simp: comparePre_def preRank_def pre_key_def pep_wf_def num cmp3_def)
  moreover have "compareOptionalNumber (pep_hasPost a) (pep_postNumber a) (pep_hasPost b) (pep_postNumber b) (-1) 1
      = cmp3 (post_key a) (post_key b)"
    using wf by (auto simp: compareOptionalNumber_def post_key_def pep_wf_def num cmp3_def)
  moreover have "compareOptionalNumber (pep_hasDev a) (pep_devNumber a) (pep_hasDev b) (pep_devNumber b) 1 (-1)
      = cmp3 (dev_key a) (dev_key b)"
    using wf by (auto simp: compareOptionalNumber_def dev_key_def pep_wf_def num cmp3_def)
  ultimately show ?thesis using wf
    by (simp add: pypi_compare_def pep440_order_def Let_def cmp_then_def compareLocal_key compareRelease_val
        num pep_wf_def)
qed

definition ascii :: "gostring \<Rightarrow> bool" where
  "ascii s = list_all (\<lambda>c. of_char c < (128::nat)) s"

definition pypi_valid :: "gostring \<Rightarrow> bool" where
  "pypi_valid v = (ascii v \<and> (case parsePEP440 v of Inl _ \<Rightarrow> False | Inr _ \<Rightarrow> True))"

definition pypi_parsed :: "gostring \<Rightarrow> pep440Version" where
  "pypi_parsed v = projr (parsePEP440 v)"

lemma pypi_CompareVersions_order:
  "pypi_valid a \<Longrightarrow> pypi_valid b \<Longrightarrow>
     pypi_CompareVersions a b = Inr (pep440_order (pypi_parsed a) (pypi_parsed b))"
  using parsePEP440_wf pypi_compare_order
  by (auto simp: pypi_valid_def pypi_CompareVersions_def pypi_parsed_def split: sum.splits)

lemma comparator_pep440_order: "comparator_on UNIV pep440_order"
proof -
  have "comparator_on UNIV (\<lambda>a b. cmp_pad cmp3 (0::nat) (map digits_val (pep_release a)) (map digits_val (pep_release b)))"
    by (rule comparator_on_pullback [OF comparator_pad [OF comparator_cmp3 [of UNIV]]]) simp_all
  then show ?thesis unfolding pep440_order_def [abs_def] by (intro comparator_then comparator_key)
qed

interpretation pypi: version_comparator pypi_CompareVersions pypi_valid
proof (rule version_comparatorI [OF pypi_CompareVersions_order])
  show "comparator_on {v. pypi_valid v} (\<lambda>a b. pep440_order (pypi_parsed a) (pypi_parsed b))"
    by (rule comparator_on_pullback [OF comparator_pep440_order]) simp
qed

subsection \<open>Properties\<close>

text \<open>
  C36: on ASCII strings that match the pattern, \<^verbatim>\<open>CompareVersions\<close> decides the order of PEP 440 by the
  values the version spells, at any length of its numbers: epoch, zero-padded release, pre-release,
  post-release, development release, local segments.
\<close>

theorem pypi_compare_reference:
  assumes "pypi_valid a" and "pypi_valid b"
  shows "\<exists>p q. parsePEP440 a = Inr p \<and> parsePEP440 b = Inr q \<and>
    pypi_CompareVersions a b = Inr (pep440_order p q)"
  using assms pypi_CompareVersions_order [OF assms]
  by (auto simp: pypi_valid_def pypi_parsed_def split: sum.splits)

theorem pypi_compare_reference_witness:
  "\<exists>p q. parsePEP440 ''1.0.dev1'' = Inr p \<and> parsePEP440 ''1.0'' = Inr q \<and>
    pypi_CompareVersions ''1.0.dev1'' ''1.0'' = Inr (pep440_order p q)"
proof (rule pypi_compare_reference)
  show "pypi_valid ''1.0.dev1''" by code_simp
  show "pypi_valid ''1.0''" by code_simp
qed

end
