(* ===== verification/Raw_Version.thy ===== *)
theory Raw_Version
  imports Decimal
begin

section \<open>Versions of raw files and of Helm charts\<close>

text \<open>
  \<^verbatim>\<open>formats/raw/version.go\<close> and \<^verbatim>\<open>formats/helm/version.go\<close>. Both call the package
  \<^verbatim>\<open>Masterminds/semver\<close>; its constructor \<open>newVersion\<close> and its comparison \<open>semCompare\<close> are arguments of
  the definitions, and what the code relies on is that \<open>semCompare\<close> orders the values it is given.
\<close>

subsection \<open>Natural order\<close>

definition raw_separator :: "char \<Rightarrow> bool" where
  "raw_separator c \<longleftrightarrow> c \<in> {CHR ''.'', CHR ''-'', CHR ''+'', CHR ''~'', CHR ''_''}"

definition raw_splitVersion :: "gostring \<Rightarrow> gostring list" where
  "raw_splitVersion version = fields_func raw_separator version"

text \<open>The index loop; a field past the end of its list is read as the empty string.\<close>

fun natural_loop :: "gostring list \<Rightarrow> gostring list \<Rightarrow> int" where
  "natural_loop [] [] = 0"
| "natural_loop leftFields rightFields =
     (let leftField = head_or [] leftFields; rightField = head_or [] rightFields in
      if leftField = [] then -1
      else if rightField = [] then 1
      else case (parse_uint 64 leftField, parse_uint 64 rightField) of
        (Some leftNumber, Some rightNumber) \<Rightarrow>
          if leftNumber \<noteq> rightNumber then (if leftNumber < rightNumber then -1 else 1)
          else natural_loop (tl leftFields) (tl rightFields)
      | (Some _, None) \<Rightarrow> 1
      | (None, Some _) \<Rightarrow> -1
      | (None, None) \<Rightarrow>
          if leftField \<noteq> rightField then (if leftField < rightField then -1 else 1)
          else natural_loop (tl leftFields) (tl rightFields))"

definition compareNatural :: "gostring \<Rightarrow> gostring \<Rightarrow> int" where
  "compareNatural left right = natural_loop (raw_splitVersion left) (raw_splitVersion right)"

text \<open>The order of single fields: text below numbers, text as text, numbers as numbers.\<close>

definition field_key :: "gostring \<Rightarrow> nat \<times> nat \<times> gostring" where
  "field_key f = (case parse_uint 64 f of Some n \<Rightarrow> (1, n, []) | None \<Rightarrow> (0, 0, f))"

lemma fields_aux_nonempty: "f \<in> set (fields_aux p acc s) \<Longrightarrow> f \<noteq> []"
  by (induction p acc s rule: fields_aux.induct) (auto split: if_splits)

lemma raw_fields_nonempty: "[] \<notin> set (raw_splitVersion v)"
  using fields_aux_nonempty by (auto simp: raw_splitVersion_def fields_func_def)

lemma natural_loop_Cons:
  assumes "l \<noteq> []" "r \<noteq> []"
  shows "natural_loop (l # ls) (r # rs) = cmp_then (cmp3 (field_key l) (field_key r)) (natural_loop ls rs)"
  using assms by (cases "parse_uint 64 l"; cases "parse_uint 64 r")
    (auto simp: head_or_def field_key_def cmp3_def cmp_then_def)

lemma natural_loop_lex:
  "[] \<notin> set ls \<Longrightarrow> [] \<notin> set rs \<Longrightarrow> natural_loop ls rs = cmp_lex (\<lambda>a b. cmp3 (field_key a) (field_key b)) ls rs"
proof (induction ls rs rule: list_induct2')
  case (4 l ls r rs)
  then show ?case using natural_loop_Cons [of l r ls rs] by auto
qed (auto simp: head_or_def)

lemma comparator_natural: "comparator_on UNIV compareNatural"
proof -
  have "comparator_on UNIV (\<lambda>a b. cmp_lex (\<lambda>a b. cmp3 (field_key a) (field_key b))
      (raw_splitVersion a) (raw_splitVersion b))"
    by (rule comparator_on_pullback [OF comparator_lex [OF comparator_key [of UNIV field_key]]]) simp
  then show ?thesis
    by (rule comparator_on_cong) (simp add: compareNatural_def natural_loop_lex raw_fields_nonempty)
qed

subsection \<open>The two comparators\<close>

definition raw_CompareVersions ::
  "(gostring \<Rightarrow> 'e + 'sv) \<Rightarrow> ('sv \<Rightarrow> 'sv \<Rightarrow> int) \<Rightarrow> gostring \<Rightarrow> gostring \<Rightarrow> 'e + int" where
  "raw_CompareVersions newVersion semCompare left right =
     (case (newVersion left, newVersion right) of
        (Inr leftSemver, Inr rightSemver) \<Rightarrow> Inr (semCompare leftSemver rightSemver)
      | (Inr _, Inl _) \<Rightarrow> Inr (-1)
      | (Inl _, Inr _) \<Rightarrow> Inr 1
      | (Inl _, Inl _) \<Rightarrow> Inr (compareNatural left right))"

definition helm_CompareVersions ::
  "(gostring \<Rightarrow> 'e + 'sv) \<Rightarrow> ('sv \<Rightarrow> 'sv \<Rightarrow> int) \<Rightarrow> gostring \<Rightarrow> gostring \<Rightarrow> 'e + int" where
  "helm_CompareVersions newVersion semCompare left right =
     (case newVersion left of Inl e \<Rightarrow> Inl e
      | Inr leftVersion \<Rightarrow>
        (case newVersion right of Inl e \<Rightarrow> Inl e
         | Inr rightVersion \<Rightarrow> Inr (semCompare leftVersion rightVersion)))"

definition semver_valid :: "(gostring \<Rightarrow> 'e + 'sv) \<Rightarrow> gostring \<Rightarrow> bool" where
  "semver_valid newVersion v = (case newVersion v of Inl _ \<Rightarrow> False | Inr _ \<Rightarrow> True)"

lemma helm_version_comparator:
  assumes "comparator_on UNIV semCompare"
  shows "version_comparator (helm_CompareVersions newVersion semCompare) (semver_valid newVersion)"
proof (rule version_comparatorI)
  let ?k = "\<lambda>v. projr (newVersion v)"
  show "helm_CompareVersions newVersion semCompare a b = Inr (semCompare (?k a) (?k b))"
    if "semver_valid newVersion a" "semver_valid newVersion b" for a b
    using that by (auto simp: helm_CompareVersions_def semver_valid_def split: sum.splits)
  show "comparator_on {v. semver_valid newVersion v} (\<lambda>a b. semCompare (?k a) (?k b))"
    by (rule comparator_on_pullback [OF assms]) simp
qed

text \<open>Versions that parse as SemVer form a block below all others.\<close>

definition raw_order :: "(gostring \<Rightarrow> 'e + 'sv) \<Rightarrow> ('sv \<Rightarrow> 'sv \<Rightarrow> int) \<Rightarrow> gostring \<Rightarrow> gostring \<Rightarrow> int" where
  "raw_order newVersion semCompare a b =
     cmp_then (cmp3 (\<not> semver_valid newVersion a) (\<not> semver_valid newVersion b))
       (if semver_valid newVersion a then semCompare (projr (newVersion a)) (projr (newVersion b))
        else compareNatural a b)"

lemma raw_CompareVersions_order:
  "raw_CompareVersions newVersion semCompare a b = Inr (raw_order newVersion semCompare a b)"
  by (auto simp: raw_CompareVersions_def raw_order_def semver_valid_def cmp3_def cmp_then_def split: sum.splits)

lemma comparator_raw_order:
  assumes c: "comparator_on UNIV semCompare"
  shows "comparator_on UNIV (raw_order newVersion semCompare)"
proof -
  let ?v = "semver_valid newVersion" and ?k = "\<lambda>v. projr (newVersion v)"
  note flip = comparator_flip [OF c UNIV_I UNIV_I] comparator_flip [OF comparator_natural UNIV_I UNIV_I]
  have trans: "semCompare x y \<le> 0 \<Longrightarrow> semCompare y z \<le> 0 \<Longrightarrow> semCompare x z \<le> 0" for x y z
    using comparator_trans [OF c] by blast
  have nat_trans: "compareNatural x y \<le> 0 \<Longrightarrow> compareNatural y z \<le> 0 \<Longrightarrow> compareNatural x z \<le> 0" for x y z
    using comparator_trans [OF comparator_natural] by blast
  show ?thesis
  proof (rule comparator_onI)
    fix x y z assume "raw_order newVersion semCompare x y \<le> 0" "raw_order newVersion semCompare y z \<le> 0"
    then show "raw_order newVersion semCompare x z \<le> 0"
      by (cases "?v x"; cases "?v y"; cases "?v z")
         (auto simp: raw_order_def cmp3_def cmp_then_def intro: trans nat_trans)
  next
    fix x y
    show "raw_order newVersion semCompare x y \<in> {-1, 0, 1}"
      using comparator_range [OF c, of "?k x" "?k y"] comparator_range [OF comparator_natural, of x y]
      by (auto simp: raw_order_def cmp3_def cmp_then_def)
    show "raw_order newVersion semCompare y x = - raw_order newVersion semCompare x y"
      using flip(1) [of "?k y" "?k x"] flip(2) [of y x] by (auto simp: raw_order_def cmp3_def cmp_then_def)
  qed
qed

lemma raw_version_comparator:
  assumes "comparator_on UNIV semCompare"
  shows "version_comparator (raw_CompareVersions newVersion semCompare) (\<lambda>_. True)"
  by (rule version_comparatorI [OF raw_CompareVersions_order]) (simp add: comparator_raw_order assms)

subsection \<open>Properties\<close>

text \<open>A concrete constructor for the witness: a version is a plain decimal number.\<close>

definition parse_int_version :: "gostring \<Rightarrow> unit + int" where
  "parse_int_version v = (case parse_int 64 v of None \<Rightarrow> Inl () | Some n \<Rightarrow> Inr n)"

text \<open>
  Whatever SemVer constructor is used and given that its comparison is a total preorder, the raw
  comparator answers for every pair of strings and is a total preorder on all of them, mixed schemes
  included.
\<close>

theorem raw_compare_total_preorder:
  assumes semver: "comparator_on UNIV semCompare"
  shows "\<exists>x y z. raw_CompareVersions newVersion semCompare a b = Inr x \<and>
    raw_CompareVersions newVersion semCompare b a = Inr (- x) \<and> x \<in> {-1, 0, 1} \<and>
    raw_CompareVersions newVersion semCompare b c = Inr y \<and>
    raw_CompareVersions newVersion semCompare a c = Inr z \<and> (x \<le> 0 \<and> y \<le> 0 \<longrightarrow> z \<le> 0)"
  using comparator_range [OF comparator_raw_order [OF semver], of a b newVersion]
    comparator_flip [OF comparator_raw_order [OF semver], of a b newVersion]
    comparator_trans [OF comparator_raw_order [OF semver], of a b c newVersion]
  by (simp add: raw_CompareVersions_order)

theorem raw_compare_total_preorder_witness:
  "\<exists>x y z. raw_CompareVersions parse_int_version cmp3 ''1.2.3.10'' ''1.2.3.4'' = Inr x \<and>
    raw_CompareVersions parse_int_version cmp3 ''1.2.3.4'' ''1.2.3.10'' = Inr (- x) \<and> x \<in> {-1, 0, 1} \<and>
    raw_CompareVersions parse_int_version cmp3 ''1.2.3.4'' ''7'' = Inr y \<and>
    raw_CompareVersions parse_int_version cmp3 ''1.2.3.10'' ''7'' = Inr z \<and> (x \<le> 0 \<and> y \<le> 0 \<longrightarrow> z \<le> 0)"
  by (rule raw_compare_total_preorder [OF comparator_cmp3])

end
