(* ===== verification/Formats.thy ===== *)
theory Formats
  imports State_Model Go_Path Deb_Version Rpm_Version Apk_Version Pypi_Version Raw_Version
begin

section \<open>The format registry and the host support matrix\<close>

text \<open>
  \<^verbatim>\<open>formats/format.go\<close>: the six packaging ecosystems as one data type, the registry and the rules a
  format contributes (which filenames are its own, which artifacts of a version collide, whether placements carry a
  distribution) to the lock, to signing and to publication. \<^verbatim>\<open>host/support.go\<close>: which host serves which format.
  Inspection and rendering of artifacts are not part of the model.
\<close>

datatype format = PypiFormat | DebFormat | HelmFormat | RawFormat | RpmFormat | ApkFormat

datatype format_error = UnsupportedFormat gostring

record Artifact =
  art_Filename :: gostring
  art_Architecture :: gostring

record FormatRepository =
  fr_Suite :: gostring
  fr_Architectures :: "gostring list"
  fr_Signed :: bool

record Identity =
  id_Name :: gostring
  id_Version :: gostring

definition registry :: "(gostring \<times> format) list" where
  "registry = [(''pypi'', PypiFormat), (''deb'', DebFormat), (''helm'', HelmFormat), (''raw'', RawFormat),
     (''rpm'', RpmFormat), (''apk'', ApkFormat)]"

definition For :: "gostring \<Rightarrow> format_error + format" where
  "For name = (case map_of registry name of None \<Rightarrow> Inl (UnsupportedFormat name) | Some f \<Rightarrow> Inr f)"

definition Supported :: "gostring \<Rightarrow> bool" where
  "Supported name \<longleftrightarrow> map_of registry name \<noteq> None"

definition Names :: "gostring list" where
  "Names = sort (map fst registry)"

definition All :: "format list" where
  "All = map (\<lambda>name. the (map_of registry name)) Names"

subsection \<open>Filenames and names\<close>

text \<open>Filenames are ASCII, so that lower-casing them is lower-casing their bytes.\<close>

definition IsDistributionFilename :: "gostring \<Rightarrow> bool" where
  "IsDistributionFilename name = (let lower = to_lower name in
     has_suffix lower ''.whl'' \<or> has_suffix lower ''.tar.gz'' \<or> has_suffix lower ''.tgz'' \<or> has_suffix lower ''.zip'')"

definition IsPackageFilename :: "gostring \<Rightarrow> bool" where
  "IsPackageFilename name = has_suffix (to_lower name) ''.deb''"

definition IsChartFilename :: "gostring \<Rightarrow> bool" where
  "IsChartFilename name = has_suffix (to_lower name) ''.tgz''"

definition raw_IsArtifactFilename :: "gostring \<Rightarrow> bool" where
  "raw_IsArtifactFilename name =
     (if name = [] \<or> length name > 255 \<or> name = ''.'' \<or> name = ''..'' then False
      else if contains_any name [CHR ''/'', CHR 0x5C] \<or> CHR 0x00 \<in> set name then False
      else name \<noteq> ''SHA256SUMS'' \<and> name \<noteq> ''index.html'')"

definition rpm_IsArtifactFilename :: "gostring \<Rightarrow> bool" where
  "rpm_IsArtifactFilename name =
     (if name = [] \<or> length name > 255 \<or> contains_any name [CHR ''/'', CHR 0x5C] \<or> CHR 0x00 \<in> set name then False
      else has_suffix (to_lower name) ''.rpm'' \<and> \<not> has_suffix (to_lower name) ''.src.rpm'')"

definition apk_IsArtifactFilename :: "gostring \<Rightarrow> bool" where
  "apk_IsArtifactFilename name =
     (if name = [] \<or> length name > 255 \<or> contains_any name [CHR ''/'', CHR 0x5C] \<or> CHR 0x00 \<in> set name then False
      else has_suffix (to_lower name) ''.apk'')"

text \<open>\<^verbatim>\<open>ReplaceAllString\<close> of the pattern \<^verbatim>\<open>[-_.]+\<close>: each maximal run of separators becomes one dash.\<close>

fun collapse_separators :: "bool \<Rightarrow> gostring \<Rightarrow> gostring" where
  "collapse_separators inside [] = []"
| "collapse_separators inside (c # s) =
     (if c \<in> {CHR ''-'', CHR ''_'', CHR ''.''} then (if inside then collapse_separators True s else CHR ''-'' # collapse_separators True s)
      else c # collapse_separators False s)"

definition pypi_NormalizeName :: "gostring \<Rightarrow> gostring" where
  "pypi_NormalizeName name = to_lower (collapse_separators False name)"

subsection \<open>The six formats\<close>

text \<open>The methods of the interface \<^verbatim>\<open>Format\<close>, without inspection and rendering, as a record of rules.\<close>

record format_rules =
  rule_Name :: gostring
  rule_ID :: gostring
  rule_MaxArtifactSize :: int
  rule_IsArtifactFilename :: "gostring \<Rightarrow> bool"
  rule_NormalizeName :: "gostring \<Rightarrow> gostring"
  rule_DerivesIdentityFromBytes :: bool
  rule_ArtifactCoordinate :: "Artifact \<Rightarrow> gostring"
  rule_SupportsDistros :: bool
  rule_RequiresLegacyDigests :: bool
  rule_SigningAlgorithm :: gostring
  rule_ImplementsSigning :: bool
  rule_CommitPaths :: "FormatRepository \<Rightarrow> gostring list"

definition pypiFormat :: format_rules where
  "pypiFormat = \<lparr>rule_Name = ''pypi'', rule_ID = ''pypi/v1'', rule_MaxArtifactSize = 2 ^ 30,
     rule_IsArtifactFilename = IsDistributionFilename, rule_NormalizeName = pypi_NormalizeName,
     rule_DerivesIdentityFromBytes = True, rule_ArtifactCoordinate = (\<lambda>artifact. art_Filename artifact),
     rule_SupportsDistros = False, rule_RequiresLegacyDigests = False, rule_SigningAlgorithm = [],
     rule_ImplementsSigning = False, rule_CommitPaths = (\<lambda>repository. [''simple/index.html''])\<rparr>"

definition debFormat :: format_rules where
  "debFormat = \<lparr>rule_Name = ''deb'', rule_ID = ''deb/v1'', rule_MaxArtifactSize = 256 * 2 ^ 20,
     rule_IsArtifactFilename = IsPackageFilename, rule_NormalizeName = (\<lambda>n. n),
     rule_DerivesIdentityFromBytes = True, rule_ArtifactCoordinate = (\<lambda>artifact. art_Architecture artifact),
     rule_SupportsDistros = True, rule_RequiresLegacyDigests = True, rule_SigningAlgorithm = ''openpgp-rsa4096'',
     rule_ImplementsSigning = True,
     rule_CommitPaths = (\<lambda>repository.
       let release = path_join [''dists'', fr_Suite repository, ''Release''] in
       if fr_Signed repository
       then [path_join [''dists'', fr_Suite repository, ''InRelease''], release,
             path_join [''dists'', fr_Suite repository, ''Release.gpg'']]
       else [release])\<rparr>"

definition helmFormat :: format_rules where
  "helmFormat = \<lparr>rule_Name = ''helm'', rule_ID = ''helm/v1'', rule_MaxArtifactSize = 256 * 2 ^ 20,
     rule_IsArtifactFilename = IsChartFilename, rule_NormalizeName = (\<lambda>n. n),
     rule_DerivesIdentityFromBytes = True, rule_ArtifactCoordinate = (\<lambda>artifact. ''chart''),
     rule_SupportsDistros = False, rule_RequiresLegacyDigests = False, rule_SigningAlgorithm = ''openpgp-rsa4096'',
     rule_ImplementsSigning = True, rule_CommitPaths = (\<lambda>repository. [''index.yaml''])\<rparr>"

definition rawFormat :: format_rules where
  "rawFormat = \<lparr>rule_Name = ''raw'', rule_ID = ''raw/v1'', rule_MaxArtifactSize = 2 * 2 ^ 30,
     rule_IsArtifactFilename = raw_IsArtifactFilename, rule_NormalizeName = (\<lambda>n. n),
     rule_DerivesIdentityFromBytes = False, rule_ArtifactCoordinate = (\<lambda>artifact. art_Filename artifact),
     rule_SupportsDistros = False, rule_RequiresLegacyDigests = False, rule_SigningAlgorithm = [],
     rule_ImplementsSigning = False, rule_CommitPaths = (\<lambda>repository. [''SHA256SUMS''])\<rparr>"

definition rpmFormat :: format_rules where
  "rpmFormat = \<lparr>rule_Name = ''rpm'', rule_ID = ''rpm/v1'', rule_MaxArtifactSize = 3 * 2 ^ 30,
     rule_IsArtifactFilename = rpm_IsArtifactFilename, rule_NormalizeName = (\<lambda>n. n),
     rule_DerivesIdentityFromBytes = True, rule_ArtifactCoordinate = (\<lambda>artifact. art_Architecture artifact),
     rule_SupportsDistros = False, rule_RequiresLegacyDigests = False, rule_SigningAlgorithm = ''openpgp-rsa4096'',
     rule_ImplementsSigning = True,
     rule_CommitPaths = (\<lambda>repository. if fr_Signed repository
       then [''repodata/repomd.xml'', ''repodata/repomd.xml.asc''] else [''repodata/repomd.xml''])\<rparr>"

definition apkFormat :: format_rules where
  "apkFormat = \<lparr>rule_Name = ''apk'', rule_ID = ''apk/v1'', rule_MaxArtifactSize = 2 ^ 30,
     rule_IsArtifactFilename = apk_IsArtifactFilename, rule_NormalizeName = (\<lambda>n. n),
     rule_DerivesIdentityFromBytes = True, rule_ArtifactCoordinate = (\<lambda>artifact. art_Architecture artifact),
     rule_SupportsDistros = False, rule_RequiresLegacyDigests = False, rule_SigningAlgorithm = ''apk-rsa4096'',
     rule_ImplementsSigning = True,
     rule_CommitPaths = (\<lambda>repository.
       map (\<lambda>architecture. path_join [architecture, ''APKINDEX.tar.gz'']) (fr_Architectures repository))\<rparr>"

fun rules :: "format \<Rightarrow> format_rules" where
  "rules PypiFormat = pypiFormat"
| "rules DebFormat = debFormat"
| "rules HelmFormat = helmFormat"
| "rules RawFormat = rawFormat"
| "rules RpmFormat = rpmFormat"
| "rules ApkFormat = apkFormat"

text \<open>The dynamic calls \<^verbatim>\<open>selected.Method(...)\<close> of the clients.\<close>

abbreviation format_Name :: "format \<Rightarrow> gostring" where "format_Name f \<equiv> rule_Name (rules f)"
abbreviation IsArtifactFilename :: "format \<Rightarrow> gostring \<Rightarrow> bool" where "IsArtifactFilename f \<equiv> rule_IsArtifactFilename (rules f)"
abbreviation DerivesIdentityFromBytes :: "format \<Rightarrow> bool" where "DerivesIdentityFromBytes f \<equiv> rule_DerivesIdentityFromBytes (rules f)"
abbreviation RequiresLegacyDigests :: "format \<Rightarrow> bool" where "RequiresLegacyDigests f \<equiv> rule_RequiresLegacyDigests (rules f)"
abbreviation ArtifactCoordinate :: "format \<Rightarrow> Artifact \<Rightarrow> gostring" where "ArtifactCoordinate f \<equiv> rule_ArtifactCoordinate (rules f)"
abbreviation SupportsDistros :: "format \<Rightarrow> bool" where "SupportsDistros f \<equiv> rule_SupportsDistros (rules f)"
abbreviation SigningAlgorithm :: "format \<Rightarrow> gostring" where "SigningAlgorithm f \<equiv> rule_SigningAlgorithm (rules f)"
abbreviation ImplementsSigning :: "format \<Rightarrow> bool" where "ImplementsSigning f \<equiv> rule_ImplementsSigning (rules f)"
abbreviation CommitPaths :: "format \<Rightarrow> FormatRepository \<Rightarrow> gostring list" where "CommitPaths f \<equiv> rule_CommitPaths (rules f)"

lemmas format_defs = pypiFormat_def debFormat_def helmFormat_def rawFormat_def rpmFormat_def apkFormat_def

definition IdentityFor :: "format option \<Rightarrow> gostring \<Rightarrow> gostring \<Rightarrow> Identity" where
  "IdentityFor selected name version = (case selected of
       None \<Rightarrow> \<lparr>id_Name = [], id_Version = []\<rparr>
     | Some f \<Rightarrow> if DerivesIdentityFromBytes f then \<lparr>id_Name = [], id_Version = []\<rparr>
                 else \<lparr>id_Name = name, id_Version = version\<rparr>)"

definition Supplied :: "Identity \<Rightarrow> bool" where
  "Supplied identity \<longleftrightarrow> id_Name identity \<noteq> [] \<or> id_Version identity \<noteq> []"

subsection \<open>Version comparison by format\<close>

datatype version_error = DebError deb_error | RpmError rpm_error | ApkError apk_error | PypiError pypi_error
  | SemverError

definition lift_error :: "('e \<Rightarrow> version_error) \<Rightarrow> 'e + int \<Rightarrow> version_error + int" where
  "lift_error f r = (case r of Inl e \<Rightarrow> Inl (f e) | Inr c \<Rightarrow> Inr c)"

fun CompareVersions :: "(gostring \<Rightarrow> unit + 'sv) \<Rightarrow> ('sv \<Rightarrow> 'sv \<Rightarrow> int) \<Rightarrow> format \<Rightarrow> gostring \<Rightarrow> gostring \<Rightarrow> version_error + int" where
  "CompareVersions newVersion semCompare PypiFormat l r = lift_error PypiError (pypi_CompareVersions l r)"
| "CompareVersions newVersion semCompare DebFormat l r = lift_error DebError (deb_CompareVersions l r)"
| "CompareVersions newVersion semCompare HelmFormat l r =
     lift_error (\<lambda>_. SemverError) (helm_CompareVersions newVersion semCompare l r)"
| "CompareVersions newVersion semCompare RawFormat l r =
     lift_error (\<lambda>_. SemverError) (raw_CompareVersions newVersion semCompare l r)"
| "CompareVersions newVersion semCompare RpmFormat l r = lift_error RpmError (rpm_CompareVersions l r)"
| "CompareVersions newVersion semCompare ApkFormat l r = lift_error ApkError (apk_CompareVersions l r)"

fun valid_version :: "(gostring \<Rightarrow> unit + 'sv) \<Rightarrow> format \<Rightarrow> gostring \<Rightarrow> bool" where
  "valid_version newVersion PypiFormat v = pypi_valid v"
| "valid_version newVersion DebFormat v = deb_validVersion v"
| "valid_version newVersion HelmFormat v = semver_valid newVersion v"
| "valid_version newVersion RawFormat v = True"
| "valid_version newVersion RpmFormat v = rpm_valid v"
| "valid_version newVersion ApkFormat v = apk_valid v"

lemma version_comparator_lift:
  assumes "version_comparator compare valid"
  shows "version_comparator (\<lambda>l r. lift_error f (compare l r)) valid"
proof (rule version_comparatorI)
  show "lift_error f (compare a b) = Inr (version_cmp compare a b)" if "valid a" "valid b" for a b
    using version_comparator.compare_Inr [OF assms that] by (simp add: lift_error_def)
  show "comparator_on {v. valid v} (version_cmp compare)"
    by (rule version_comparator.compare_laws [OF assms])
qed

lemmas format_comparators = CompareVersions.simps [abs_def] valid_version.simps [abs_def]

lemma format_version_comparator:
  assumes "comparator_on UNIV semCompare"
  shows "version_comparator (CompareVersions newVersion semCompare f) (valid_version newVersion f)"
proof (cases f)
  case PypiFormat
  then show ?thesis using version_comparator_lift [OF pypi.version_comparator_axioms, of PypiError] by (simp add: format_comparators)
next
  case DebFormat
  then show ?thesis using version_comparator_lift [OF deb.version_comparator_axioms, of DebError] by (simp add: format_comparators)
next
  case HelmFormat
  then show ?thesis using version_comparator_lift [OF helm_version_comparator [OF assms], of _ newVersion] by (simp add: format_comparators)
next
  case RawFormat
  then show ?thesis using version_comparator_lift [OF raw_version_comparator [OF assms], of _ newVersion] by (simp add: format_comparators)
next
  case RpmFormat
  then show ?thesis using version_comparator_lift [OF rpm.version_comparator_axioms, of RpmError] by (simp add: format_comparators)
next
  case ApkFormat
  then show ?thesis using version_comparator_lift [OF apk.version_comparator_axioms, of ApkError] by (simp add: format_comparators)
qed

subsection \<open>Hosts\<close>

record FormatSupport =
  fs_Publish :: bool
  fs_RemoteClientVerification :: bool
  fs_InstallDocument :: bool

definition remote_support :: FormatSupport where
  "remote_support = \<lparr>fs_Publish = True, fs_RemoteClientVerification = True, fs_InstallDocument = True\<rparr>"

definition local_support :: FormatSupport where
  "local_support = \<lparr>fs_Publish = True, fs_RemoteClientVerification = False, fs_InstallDocument = False\<rparr>"

definition no_support :: FormatSupport where
  "no_support = \<lparr>fs_Publish = False, fs_RemoteClientVerification = False, fs_InstallDocument = False\<rparr>"

definition formatSupport :: "(gostring \<times> (gostring \<times> FormatSupport) list) list" where
  "formatSupport =
    [(''local'', [(''pypi'', local_support), (''deb'', local_support), (''helm'', local_support),
       (''raw'', local_support), (''rpm'', local_support), (''apk'', local_support)]),
     (''s3'', [(''pypi'', remote_support), (''helm'', remote_support), (''rpm'', remote_support), (''raw'', remote_support)]),
     (''rsync'', [(''pypi'', remote_support), (''deb'', remote_support), (''helm'', remote_support),
       (''raw'', remote_support), (''rpm'', remote_support), (''apk'', remote_support)]),
     (''github-pages'', [(''pypi'', remote_support), (''deb'', remote_support), (''helm'', remote_support),
       (''raw'', remote_support), (''rpm'', remote_support), (''apk'', remote_support)])]"

definition Supports :: "gostring \<Rightarrow> gostring \<Rightarrow> FormatSupport" where
  "Supports hostType format = (case map_of formatSupport hostType of None \<Rightarrow> no_support
     | Some byFormat \<Rightarrow> (case map_of byFormat format of None \<Rightarrow> no_support | Some s \<Rightarrow> s))"

definition SupportedFormats :: "gostring \<Rightarrow> gostring list" where
  "SupportedFormats hostType = (case map_of formatSupport hostType of None \<Rightarrow> []
     | Some byFormat \<Rightarrow> sort (map fst (filter (\<lambda>(format, support). fs_Publish support) byFormat)))"

definition KnownHostTypes :: "gostring list" where
  "KnownHostTypes = sort (map fst formatSupport)"

subsection \<open>Lemmas\<close>

lemma For_Name [simp]: "For (format_Name f) = Inr f"
  by (cases f) (simp_all add: For_def registry_def format_defs)

lemma For_Inr: "For name = Inr f \<Longrightarrow> name = format_Name f"
  by (auto simp: For_def registry_def format_defs split: if_splits option.splits)

lemma Supports_registered: "fs_Publish (Supports h name) \<Longrightarrow> Supported name"
  by (auto simp: Supports_def formatSupport_def Supported_def registry_def no_support_def split: if_splits option.splits)

lemma collapse_idem:
  "collapse_separators False (collapse_separators inside s) = collapse_separators inside s \<and>
   collapse_separators True (collapse_separators True s) = collapse_separators True s"
  by (induction s arbitrary: inside) auto

lemma to_lower_char_cases: "to_lower_char c = c \<or> (is_upper c \<and> is_lower (to_lower_char c))"
proof (cases "is_upper c")
  case True
  then have "of_char c + 32 < (256 :: nat)" by (simp add: is_upper_def less_eq_char_def)
  then have "of_char (to_lower_char c) = (of_char c + 32 :: nat)" using True by (simp add: to_lower_char_def)
  then show ?thesis using True by (simp add: is_upper_def is_lower_def less_eq_char_def)
qed (simp add: to_lower_char_def)

lemma to_lower_char_separator: "c \<in> {CHR ''-'', CHR ''_'', CHR ''.''} \<longleftrightarrow> to_lower_char c \<in> {CHR ''-'', CHR ''_'', CHR ''.''}"
  using to_lower_char_cases [of c] by (auto simp: is_upper_def is_lower_def)

lemma collapse_to_lower: "collapse_separators inside (to_lower s) = to_lower (collapse_separators inside s)"
proof (induction s arbitrary: inside)
  case (Cons c s)
  have dash: "to_lower_char CHR ''-'' = CHR ''-''" by (simp add: to_lower_char_def is_upper_def)
  show ?case using Cons to_lower_char_separator [of c] by (simp add: to_lower_def dash)
qed (simp add: to_lower_def)

lemma to_lower_idem: "to_lower (to_lower s) = to_lower s"
proof -
  have "to_lower_char (to_lower_char c) = to_lower_char c" for c
    using to_lower_char_cases [of c] by (auto simp: to_lower_char_def is_upper_def is_lower_def less_eq_char_def)
  then show ?thesis by (simp add: to_lower_def)
qed

subsection \<open>Properties\<close>

text \<open>
  The PEP 503 name normalization is idempotent, and two names that differ only in case and in which
  separators they use normalize to the same name.
\<close>

theorem normalize_name_canonical:
  "pypi_NormalizeName (pypi_NormalizeName name) = pypi_NormalizeName name \<and>
   pypi_NormalizeName (to_lower name) = pypi_NormalizeName name \<and>
   pypi_NormalizeName (left @ ''_'' @ right) = pypi_NormalizeName (left @ ''.'' @ right) \<and>
   pypi_NormalizeName (left @ ''--'' @ right) = pypi_NormalizeName (left @ ''-'' @ right)"
proof -
  have "collapse_separators i (left @ ''_'' @ right) = collapse_separators i (left @ ''.'' @ right) \<and>
      collapse_separators i (left @ ''--'' @ right) = collapse_separators i (left @ ''-'' @ right)" for i
    by (induction left arbitrary: i) auto
  then show ?thesis
    by (simp add: pypi_NormalizeName_def collapse_to_lower collapse_idem to_lower_idem)
qed

text \<open>
  The registry is a bijection between the six names and the six formats: looking a format's name up
  returns that format, any name that is found is the found format's own name, and every other name is
  refused.
\<close>

theorem registry_bijective:
  "For (format_Name f) = Inr f \<and> (For name = Inr f) = (name = format_Name f) \<and>
   Supported name = (\<exists>g. For name = Inr g)"
  using For_Inr [of name f] For_Name [of f] by (auto simp: Supported_def For_def split: option.splits)

text \<open>
  C33: for every format, the versions it accepts, for apk those with numbers below \<open>2 ^ 63\<close> and for PyPI those
  in ASCII, are totally preordered by its comparator: it answers on all of them, antisymmetrically and
  transitively (given that the SemVer library's comparison does so for the two formats that use it).
\<close>

theorem every_format_orders_versions:
  assumes "comparator_on UNIV semCompare"
    and "valid_version newVersion f a" and "valid_version newVersion f b" and "valid_version newVersion f c"
  shows "\<exists>x y z. CompareVersions newVersion semCompare f a b = Inr x \<and>
    CompareVersions newVersion semCompare f b a = Inr (- x) \<and>
    CompareVersions newVersion semCompare f b c = Inr y \<and> CompareVersions newVersion semCompare f a c = Inr z \<and>
    (x \<le> 0 \<and> y \<le> 0 \<longrightarrow> z \<le> 0)"
proof -
  note vc = format_version_comparator [OF assms(1), of newVersion f]
  note laws = version_comparator.compare_laws [OF vc]
  show ?thesis
    using assms(2-4) version_comparator.compare_Inr [OF vc] comparator_flip [OF laws, of a b]
      comparator_trans [OF laws, of a b c]
    by (metis mem_Collect_eq)
qed

theorem every_format_orders_versions_witness:
  "\<exists>x y z. CompareVersions parse_int_version cmp3 DebFormat ''1.0~rc1'' ''1.0-1'' = Inr x \<and>
    CompareVersions parse_int_version cmp3 DebFormat ''1.0-1'' ''1.0~rc1'' = Inr (- x) \<and>
    CompareVersions parse_int_version cmp3 DebFormat ''1.0-1'' ''2:0.9'' = Inr y \<and>
    CompareVersions parse_int_version cmp3 DebFormat ''1.0~rc1'' ''2:0.9'' = Inr z \<and>
    (x \<le> 0 \<and> y \<le> 0 \<longrightarrow> z \<le> 0)"
proof (rule every_format_orders_versions [OF comparator_cmp3])
  show "valid_version parse_int_version DebFormat ''1.0~rc1''" by code_simp
  show "valid_version parse_int_version DebFormat ''1.0-1''" by code_simp
  show "valid_version parse_int_version DebFormat ''2:0.9''" by code_simp
qed

text \<open>
  The object store, which can switch one object atomically and no more, is only declared for formats
  whose unsigned revision goes live by exactly one path, and only formats of the registry are declared
  for any host.
\<close>

theorem object_store_single_commit_path:
  assumes "fs_Publish (Supports hostType (format_Name f))" and "hostType = ''s3''" and "\<not> fr_Signed r"
  shows "\<exists>p. CommitPaths f r = [p]"
  using assms by (cases f) (auto simp: Supports_def formatSupport_def no_support_def format_defs)

theorem object_store_single_commit_path_witness:
  "\<exists>p. CommitPaths RpmFormat \<lparr>fr_Suite = [], fr_Architectures = [], fr_Signed = False\<rparr> = [p]"
  by (rule object_store_single_commit_path [of "''s3''"]) code_simp+

end
