(* ===== verification/Lock_Store.thy ===== *)
theory Lock_Store
  imports Formats
begin

section \<open>The repository lock\<close>

text \<open>
  The operations of \<^verbatim>\<open>internal/state/store.go\<close> on a repository lock: adding an artifact, recording its
  origin, promoting and yanking placements, the canonical order and the validation every load and
  every apply performs. An operation returns the lock it leaves behind together with its result, so
  that what happens to the lock on an error is part of the model. \<^verbatim>\<open>sort.Slice\<close> is a stable sort here;
  Go leaves the order of elements with equal keys open, and in a validated lock there are none.
\<close>

datatype lock_error = LockFormat gostring | InvalidTrack gostring | InvalidDistro gostring | NoDistros gostring
  | UnsafeFilename gostring | InconsistentMetadata gostring gostring | BoundToDifferentBytes gostring gostring
  | DifferentOrigin | ArtifactNotRecorded | VersionNotRecorded gostring gostring | AllWithCoordinates
  | IdentityMismatch gostring | InvalidPackageVersion gostring gostring | DuplicatePackageVersion gostring gostring
  | InvalidBlobFile | InvalidBlobDigest | InvalidBlobOrigin | DuplicateCoordinate gostring gostring
  | DanglingPlacement gostring gostring | DuplicatePlacement gostring gostring

subsection \<open>Placement coordinates\<close>

definition coordinate_char :: "char \<Rightarrow> bool" where
  "coordinate_char c \<longleftrightarrow> is_alpha c \<or> is_digit c \<or> c \<in> {CHR ''.'', CHR ''_'', CHR ''+'', CHR ''-''}"

definition placementCoordinatePattern :: rx where
  "placementCoordinatePattern = Seq (Cls (\<lambda>c. is_alpha c \<or> is_digit c)) (Upto 127 (Cls coordinate_char))"

definition is_placement_coordinate :: "gostring \<Rightarrow> bool" where
  "is_placement_coordinate s \<longleftrightarrow> rx_full placementCoordinatePattern s \<noteq> None"

definition validatePlacementCoordinates :: "gostring \<Rightarrow> gostring \<Rightarrow> gostring \<Rightarrow> lock_error option" where
  "validatePlacementCoordinates format track distro =
     (if \<not> is_placement_coordinate track then Some (InvalidTrack track)
      else case For format of Inl e \<Rightarrow> Some (LockFormat format)
      | Inr selected \<Rightarrow>
        if SupportsDistros selected then
          (if \<not> is_placement_coordinate distro then Some (InvalidDistro distro) else None)
        else if distro \<noteq> [] then Some (NoDistros format) else None)"

subsection \<open>Canonical order\<close>

definition blob_key :: "LockedBlob \<Rightarrow> gostring \<times> gostring \<times> gostring" where
  "blob_key b = (blob_Architecture b, blob_Filename b, blob_SHA256 b)"

definition version_key :: "PackageVersion \<Rightarrow> gostring \<times> gostring" where
  "version_key pv = (pv_Package pv, pv_Version pv)"

definition placement_key :: "Placement \<Rightarrow> gostring \<times> gostring \<times> gostring \<times> gostring" where
  "placement_key pl = (pl_Package pl, pl_Version pl, pl_Track pl, pl_Distro pl)"

definition sort_blobs :: "PackageVersion \<Rightarrow> PackageVersion" where
  "sort_blobs pv = pv\<lparr>pv_Blobs := sort_key blob_key (pv_Blobs pv)\<rparr>"

definition canonicalizeLock :: "RepositoryLock \<Rightarrow> RepositoryLock" where
  "canonicalizeLock lock = lock\<lparr>
     lock_PackageVersion := sort_key version_key (map sort_blobs (lock_PackageVersion lock)),
     lock_Placement := sort_key placement_key (lock_Placement lock)\<rparr>"

subsection \<open>Adding an artifact\<close>

definition legacyDigestConflict :: "LockedBlob \<Rightarrow> LockedBlob \<Rightarrow> bool" where
  "legacyDigestConflict existing derived \<longleftrightarrow>
     (blob_MD5 existing \<noteq> [] \<and> blob_MD5 derived \<noteq> [] \<and> blob_MD5 existing \<noteq> blob_MD5 derived) \<or>
     (blob_SHA1 existing \<noteq> [] \<and> blob_SHA1 derived \<noteq> [] \<and> blob_SHA1 existing \<noteq> blob_SHA1 derived)"

definition blob_coordinate :: "format \<Rightarrow> LockedBlob \<Rightarrow> gostring" where
  "blob_coordinate selected b = ArtifactCoordinate selected
     \<lparr>art_Filename = blob_Filename b, art_Architecture = blob_Architecture b\<rparr>"

fun check_blobs :: "format \<Rightarrow> gostring \<Rightarrow> gostring \<Rightarrow> LockedBlob \<Rightarrow> LockedBlob list \<Rightarrow> lock_error + bool" where
  "check_blobs selected packageName version blob [] = Inr False"
| "check_blobs selected packageName version blob (existing # rest) =
     (if blob_SHA256 existing = blob_SHA256 blob \<and> blob_Filename existing = blob_Filename blob then
        (if blob_Size existing \<noteq> blob_Size blob \<or> legacyDigestConflict existing blob
            \<or> blob_Architecture existing \<noteq> blob_Architecture blob
         then Inl (InconsistentMetadata packageName version) else Inr True)
      else if blob_Filename existing = blob_Filename blob
           \<or> blob_coordinate selected existing = blob_coordinate selected blob
      then Inl (BoundToDifferentBytes packageName version)
      else check_blobs selected packageName version blob rest)"

definition is_version :: "gostring \<Rightarrow> gostring \<Rightarrow> PackageVersion \<Rightarrow> bool" where
  "is_version packageName version pv \<longleftrightarrow> pv_Package pv = packageName \<and> pv_Version pv = version"

fun first_index :: "('a \<Rightarrow> bool) \<Rightarrow> 'a list \<Rightarrow> nat option" where
  "first_index p [] = None"
| "first_index p (x # xs) = (if p x then Some 0 else map_option Suc (first_index p xs))"

definition AddBlob :: "RepositoryLock \<Rightarrow> gostring \<Rightarrow> gostring \<Rightarrow> gostring \<Rightarrow> LockedBlob \<Rightarrow> gostring \<Rightarrow> gostring
    \<Rightarrow> RepositoryLock \<times> (lock_error + bool)" where
  "AddBlob lock format track distro blob packageName version =
     (case For format of Inl e \<Rightarrow> (lock, Inl (LockFormat format)) | Inr selected \<Rightarrow>
      let track = (if track = [] then ''stable'' else track) in
      case validatePlacementCoordinates format track distro of Some e \<Rightarrow> (lock, Inl e) | None \<Rightarrow>
      if path_base (blob_Filename blob) \<noteq> blob_Filename blob \<or> blob_Filename blob = []
      then (lock, Inl (UnsafeFilename (blob_Filename blob)))
      else
        let (lock, index) = (case first_index (is_version packageName version) (lock_PackageVersion lock) of
              Some i \<Rightarrow> (lock, i)
            | None \<Rightarrow> (lock\<lparr>lock_PackageVersion := lock_PackageVersion lock @
                  [\<lparr>pv_Package = packageName, pv_Version = version, pv_State = ''draft'', pv_Blobs = []\<rparr>]\<rparr>,
                length (lock_PackageVersion lock)));
            pv = lock_PackageVersion lock ! index
        in case check_blobs selected packageName version blob (pv_Blobs pv) of Inl e \<Rightarrow> (lock, Inl e)
        | Inr blobExists \<Rightarrow>
          let lock = (if blobExists then lock else lock\<lparr>lock_PackageVersion :=
                (lock_PackageVersion lock)[index := pv\<lparr>pv_Blobs := pv_Blobs pv @ [blob]\<rparr>]\<rparr>);
              placement = \<lparr>pl_Package = packageName, pl_Version = version, pl_Track = track, pl_Distro = distro\<rparr>;
              placementExists = (placement \<in> set (lock_Placement lock));
              lock = (if placementExists then lock else lock\<lparr>lock_Placement := lock_Placement lock @ [placement]\<rparr>)
          in (lock, Inr (\<not> blobExists \<or> \<not> placementExists)))"

subsection \<open>Recording an origin\<close>

fun set_origin_blobs :: "gostring \<Rightarrow> gostring \<Rightarrow> ArtifactOrigin \<Rightarrow> LockedBlob list
    \<Rightarrow> (LockedBlob list \<times> (lock_error + bool)) option" where
  "set_origin_blobs filename digest origin [] = None"
| "set_origin_blobs filename digest origin (locked # rest) =
     (if blob_Filename locked \<noteq> filename \<or> blob_SHA256 locked \<noteq> digest then
        (case set_origin_blobs filename digest origin rest of None \<Rightarrow> None
         | Some (rest', r) \<Rightarrow> Some (locked # rest', r))
      else case blob_Origin locked of
        Some o' \<Rightarrow> Some (locked # rest, if o' = origin then Inr False else Inl DifferentOrigin)
      | None \<Rightarrow> Some (locked\<lparr>blob_Origin := Some origin\<rparr> # rest, Inr True))"

fun set_origin_versions :: "gostring \<Rightarrow> gostring \<Rightarrow> gostring \<Rightarrow> gostring \<Rightarrow> ArtifactOrigin \<Rightarrow> PackageVersion list
    \<Rightarrow> PackageVersion list \<times> (lock_error + bool)" where
  "set_origin_versions packageName version filename digest origin [] = ([], Inl ArtifactNotRecorded)"
| "set_origin_versions packageName version filename digest origin (pv # rest) =
     (case (if is_version packageName version pv then set_origin_blobs filename digest origin (pv_Blobs pv) else None) of
        Some (blobs, r) \<Rightarrow> (pv\<lparr>pv_Blobs := blobs\<rparr> # rest, r)
      | None \<Rightarrow> (let (rest', r) = set_origin_versions packageName version filename digest origin rest in (pv # rest', r)))"

definition SetBlobOrigin :: "RepositoryLock \<Rightarrow> gostring \<Rightarrow> gostring \<Rightarrow> gostring \<Rightarrow> gostring \<Rightarrow> ArtifactOrigin
    \<Rightarrow> RepositoryLock \<times> (lock_error + bool)" where
  "SetBlobOrigin lock packageName version filename digest origin =
     (let (pvs, r) = set_origin_versions packageName version filename digest origin (lock_PackageVersion lock)
      in (lock\<lparr>lock_PackageVersion := pvs\<rparr>, r))"

subsection \<open>Promotion and yanking\<close>

definition packageVersionExists :: "RepositoryLock \<Rightarrow> gostring \<Rightarrow> gostring \<Rightarrow> bool" where
  "packageVersionExists lock packageName version = list_ex (is_version packageName version) (lock_PackageVersion lock)"

definition PromotePlacement :: "RepositoryLock \<Rightarrow> gostring \<Rightarrow> gostring \<Rightarrow> gostring \<Rightarrow> gostring \<Rightarrow> gostring
    \<Rightarrow> RepositoryLock \<times> (lock_error + bool)" where
  "PromotePlacement lock format packageName version track distro =
     (case validatePlacementCoordinates format track distro of Some e \<Rightarrow> (lock, Inl e) | None \<Rightarrow>
      if \<not> packageVersionExists lock packageName version then (lock, Inl (VersionNotRecorded packageName version))
      else
        let placement = \<lparr>pl_Package = packageName, pl_Version = version, pl_Track = track, pl_Distro = distro\<rparr> in
        if placement \<in> set (lock_Placement lock) then (lock, Inr False)
        else (canonicalizeLock (lock\<lparr>lock_Placement := lock_Placement lock @ [placement]\<rparr>), Inr True))"

definition yank_matches :: "gostring \<Rightarrow> gostring \<Rightarrow> gostring \<Rightarrow> gostring \<Rightarrow> bool \<Rightarrow> Placement \<Rightarrow> bool" where
  "yank_matches packageName version track distro every pl \<longleftrightarrow>
     pl_Package pl = packageName \<and> pl_Version pl = version \<and>
     (every \<or> (pl_Track pl = track \<and> pl_Distro pl = distro))"

definition YankPlacements :: "RepositoryLock \<Rightarrow> gostring \<Rightarrow> gostring \<Rightarrow> gostring \<Rightarrow> gostring \<Rightarrow> gostring \<Rightarrow> bool
    \<Rightarrow> RepositoryLock \<times> (lock_error + nat)" where
  "YankPlacements lock format packageName version track distro every =
     (if \<not> packageVersionExists lock packageName version then (lock, Inl (VersionNotRecorded packageName version))
      else if every \<and> (track \<noteq> [] \<or> distro \<noteq> []) then (lock, Inl AllWithCoordinates)
      else case (if every then None else validatePlacementCoordinates format track distro) of
        Some e \<Rightarrow> (lock, Inl e)
      | None \<Rightarrow>
        let m = yank_matches packageName version track distro every in
        (canonicalizeLock (lock\<lparr>lock_Placement := filter (\<lambda>pl. \<not> m pl) (lock_Placement lock)\<rparr>),
         Inr (length (filter m (lock_Placement lock)))))"

subsection \<open>Validation\<close>

definition version_identity :: "gostring \<Rightarrow> gostring \<Rightarrow> gostring" where
  "version_identity packageName version = packageName @ nul @ version"

definition valid_blob_file :: "LockedBlob \<Rightarrow> bool" where
  "valid_blob_file b \<longleftrightarrow> blob_Filename b \<noteq> [] \<and> path_base (blob_Filename b) = blob_Filename b \<and>
     \<not> has_control (blob_Filename b) \<and> 0 \<le> blob_Size b"

definition valid_blob_origin :: "url_lib \<Rightarrow> LockedBlob \<Rightarrow> bool" where
  "valid_blob_origin lib b = (case blob_Origin b of None \<Rightarrow> True
     | Some origin \<Rightarrow> ValidateArtifactOrigin lib origin = None)"

fun validate_blobs :: "url_lib \<Rightarrow> format \<Rightarrow> PackageVersion \<Rightarrow> gostring list \<Rightarrow> LockedBlob list \<Rightarrow> lock_error option" where
  "validate_blobs lib selected pv coordinates [] = None"
| "validate_blobs lib selected pv coordinates (b # bs) =
     (if \<not> valid_blob_file b then Some InvalidBlobFile
      else if \<not> validLowerHex (blob_SHA256 b) 32 then Some InvalidBlobDigest
      else if \<not> valid_blob_origin lib b then Some InvalidBlobOrigin
      else if blob_coordinate selected b \<in> set coordinates then Some (DuplicateCoordinate (pv_Package pv) (pv_Version pv))
      else validate_blobs lib selected pv (blob_coordinate selected b # coordinates) bs)"

fun validate_versions :: "url_lib \<Rightarrow> format \<Rightarrow> gostring list \<Rightarrow> PackageVersion list \<Rightarrow> lock_error + gostring list" where
  "validate_versions lib selected versions [] = Inr versions"
| "validate_versions lib selected versions (pv # pvs) =
     (let identity = version_identity (pv_Package pv) (pv_Version pv) in
      if pv_Package pv = [] \<or> pv_Version pv = [] \<or> pv_State pv \<noteq> ''draft'' \<or> pv_Blobs pv = []
      then Inl (InvalidPackageVersion (pv_Package pv) (pv_Version pv))
      else if identity \<in> set versions then Inl (DuplicatePackageVersion (pv_Package pv) (pv_Version pv))
      else case validate_blobs lib selected pv [] (pv_Blobs pv) of Some e \<Rightarrow> Inl e
        | None \<Rightarrow> validate_versions lib selected (identity # versions) pvs)"

definition placement_coordinate :: "Placement \<Rightarrow> gostring" where
  "placement_coordinate pl = version_identity (pl_Package pl) (pl_Version pl) @ nul @ pl_Track pl @ nul @ pl_Distro pl"

fun validate_placements :: "gostring list \<Rightarrow> gostring list \<Rightarrow> Placement list \<Rightarrow> lock_error option" where
  "validate_placements versions placements [] = None"
| "validate_placements versions placements (pl # pls) =
     (if version_identity (pl_Package pl) (pl_Version pl) \<notin> set versions \<or> pl_Track pl = []
      then Some (DanglingPlacement (pl_Package pl) (pl_Version pl))
      else if placement_coordinate pl \<in> set placements then Some (DuplicatePlacement (pl_Package pl) (pl_Version pl))
      else validate_placements versions (placement_coordinate pl # placements) pls)"

definition ValidateLock :: "url_lib \<Rightarrow> RepositoryLock \<Rightarrow> gostring \<Rightarrow> gostring \<Rightarrow> lock_error option" where
  "ValidateLock lib lock expectedRepository format =
     (if lock_SchemaVersion lock \<noteq> LockSchema \<or> lock_Repository lock \<noteq> expectedRepository
      then Some (IdentityMismatch expectedRepository)
      else case For format of Inl e \<Rightarrow> Some (LockFormat format)
      | Inr selected \<Rightarrow>
        (case validate_versions lib selected [] (lock_PackageVersion lock) of Inl e \<Rightarrow> Some e
         | Inr versions \<Rightarrow> validate_placements versions [] (lock_Placement lock)))"

subsection \<open>What validation means\<close>

abbreviation pv_identity :: "PackageVersion \<Rightarrow> gostring" where
  "pv_identity pv \<equiv> version_identity (pv_Package pv) (pv_Version pv)"

abbreviation pl_identity :: "Placement \<Rightarrow> gostring" where
  "pl_identity pl \<equiv> version_identity (pl_Package pl) (pl_Version pl)"

definition blob_ok :: "url_lib \<Rightarrow> LockedBlob \<Rightarrow> bool" where
  "blob_ok lib b \<longleftrightarrow> valid_blob_file b \<and> ValidSHA256 (blob_SHA256 b) \<and> valid_blob_origin lib b"

definition blobs_ok :: "url_lib \<Rightarrow> format \<Rightarrow> LockedBlob list \<Rightarrow> bool" where
  "blobs_ok lib selected bs \<longleftrightarrow> bs \<noteq> [] \<and> (\<forall>b \<in> set bs. blob_ok lib b) \<and> distinct (map (blob_coordinate selected) bs)"

definition version_ok :: "url_lib \<Rightarrow> format \<Rightarrow> PackageVersion \<Rightarrow> bool" where
  "version_ok lib selected pv \<longleftrightarrow> pv_Package pv \<noteq> [] \<and> pv_Version pv \<noteq> [] \<and> pv_State pv = ''draft'' \<and>
     blobs_ok lib selected (pv_Blobs pv)"

definition lock_ok :: "url_lib \<Rightarrow> format \<Rightarrow> RepositoryLock \<Rightarrow> bool" where
  "lock_ok lib selected lock \<longleftrightarrow>
     (\<forall>pv \<in> set (lock_PackageVersion lock). version_ok lib selected pv) \<and>
     distinct (map pv_identity (lock_PackageVersion lock)) \<and>
     (\<forall>pl \<in> set (lock_Placement lock). pl_identity pl \<in> pv_identity ` set (lock_PackageVersion lock) \<and> pl_Track pl \<noteq> []) \<and>
     distinct (map placement_coordinate (lock_Placement lock))"

lemma validate_blobs_iff:
  "validate_blobs lib selected pv cs bs = None \<longleftrightarrow>
     (\<forall>b \<in> set bs. blob_ok lib b) \<and> distinct (map (blob_coordinate selected) bs) \<and>
     set cs \<inter> blob_coordinate selected ` set bs = {}"
  by (induction bs arbitrary: cs) (auto simp: blob_ok_def ValidSHA256_def)

lemma validate_versions_iff:
  "validate_versions lib selected vs pvs = Inr vs' \<longleftrightarrow>
     vs' = rev (map pv_identity pvs) @ vs \<and> (\<forall>pv \<in> set pvs. version_ok lib selected pv) \<and>
     distinct (map pv_identity pvs) \<and> set vs \<inter> pv_identity ` set pvs = {}"
proof (induction pvs arbitrary: vs)
  case (Cons pv pvs)
  show ?case
    using Cons [of "pv_identity pv # vs"] validate_blobs_iff [of lib selected pv "[]" "pv_Blobs pv"]
    by (cases "validate_blobs lib selected pv [] (pv_Blobs pv)") (auto simp: Let_def version_ok_def blobs_ok_def)
qed auto

lemma validate_placements_iff:
  "validate_placements vs cs pls = None \<longleftrightarrow>
     (\<forall>pl \<in> set pls. pl_identity pl \<in> set vs \<and> pl_Track pl \<noteq> []) \<and>
     distinct (map placement_coordinate pls) \<and> set cs \<inter> placement_coordinate ` set pls = {}"
  by (induction pls arbitrary: cs) auto

lemma ValidateLock_iff:
  "ValidateLock lib lock repository format = None \<longleftrightarrow>
     lock_SchemaVersion lock = LockSchema \<and> lock_Repository lock = repository \<and>
     (\<exists>selected. For format = Inr selected \<and> lock_ok lib selected lock)"
proof (cases "For format")
  case (Inr selected)
  show ?thesis
  proof (cases "validate_versions lib selected [] (lock_PackageVersion lock)")
    case (Inl e)
    then have "\<not> lock_ok lib selected lock"
      using validate_versions_iff [of lib selected "[]" "lock_PackageVersion lock"] by (auto simp: lock_ok_def)
    then show ?thesis using Inr Inl by (auto simp: ValidateLock_def)
  next
    case (Inr vs)
    then show ?thesis using \<open>For format = Inr selected\<close> validate_versions_iff [of lib selected "[]" "lock_PackageVersion lock" vs]
      by (auto simp: ValidateLock_def lock_ok_def validate_placements_iff)
  qed
qed (simp add: ValidateLock_def)

subsection \<open>Composite keys\<close>

text \<open>
  The maps of the code are keyed by strings joined with NUL bytes, which identify their parts as long
  as the parts before the last separator contain none.
\<close>

definition lock_nul_free :: "RepositoryLock \<Rightarrow> bool" where
  "lock_nul_free lock \<longleftrightarrow>
     (\<forall>pv \<in> set (lock_PackageVersion lock). nul_free (pv_Package pv) \<and> nul_free (pv_Version pv)) \<and>
     (\<forall>pl \<in> set (lock_Placement lock). nul_free (pl_Package pl) \<and> nul_free (pl_Version pl) \<and> nul_free (pl_Track pl))"

lemma version_identity_eq:
  "nul_free p \<Longrightarrow> nul_free p' \<Longrightarrow> version_identity p v = version_identity p' v' \<longleftrightarrow> p = p' \<and> v = v'"
  by (simp add: version_identity_def nul_split)

lemma placement_coordinate_eq:
  assumes "nul_free (pl_Package a)" "nul_free (pl_Version a)" "nul_free (pl_Track a)"
    and "nul_free (pl_Package b)" "nul_free (pl_Version b)" "nul_free (pl_Track b)"
  shows "placement_coordinate a = placement_coordinate b \<longleftrightarrow> a = b"
proof -
  have "placement_coordinate a = placement_coordinate b \<longleftrightarrow>
      pl_Package a = pl_Package b \<and> pl_Version a = pl_Version b \<and> pl_Track a = pl_Track b \<and> pl_Distro a = pl_Distro b"
    using assms by (simp add: placement_coordinate_def version_identity_def nul_split)
  then show ?thesis by (cases a; cases b) simp
qed

lemma coordinate_nul_free: "is_placement_coordinate s \<Longrightarrow> nul_free s \<and> s \<noteq> []"
proof -
  have "\<not> coordinate_char CHR 0x00" "\<not> (is_alpha CHR 0x00 \<or> is_digit CHR 0x00)" by code_simp+
  then show "is_placement_coordinate s \<Longrightarrow> nul_free s \<and> s \<noteq> []"
    unfolding is_placement_coordinate_def rx_full_lang
    by (auto simp: placementCoordinatePattern_def rx_lang_Upto nul_free_def list_all_iff)
qed

lemma validatePlacementCoordinates_track:
  "validatePlacementCoordinates format track distro = None \<Longrightarrow> nul_free track \<and> track \<noteq> []"
  using coordinate_nul_free by (auto simp: validatePlacementCoordinates_def split: if_splits)

subsection \<open>Sorting keeps the lock\<close>

lemma distinct_map_sort [simp]: "distinct (map f (sort_key k xs)) = distinct (map f xs)"
  by (rule mset_eq_imp_distinct_iff) simp

lemma sort_blobs_simps [simp]:
  "pv_Package (sort_blobs pv) = pv_Package pv" "pv_Version (sort_blobs pv) = pv_Version pv"
  "pv_State (sort_blobs pv) = pv_State pv" "pv_Blobs (sort_blobs pv) = sort_key blob_key (pv_Blobs pv)"
  by (simp_all add: sort_blobs_def)

lemma version_ok_sort [simp]: "version_ok lib f (sort_blobs pv) = version_ok lib f pv"
proof -
  have "sort_key blob_key (pv_Blobs pv) = [] \<longleftrightarrow> pv_Blobs pv = []"
    by (metis length_0_conv length_sort)
  then show ?thesis by (simp add: version_ok_def blobs_ok_def)
qed

lemma canonicalize_simps [simp]:
  "lock_SchemaVersion (canonicalizeLock lock) = lock_SchemaVersion lock"
  "lock_Repository (canonicalizeLock lock) = lock_Repository lock"
  "lock_Placement (canonicalizeLock lock) = sort_key placement_key (lock_Placement lock)"
  "lock_PackageVersion (canonicalizeLock lock) = sort_key version_key (map sort_blobs (lock_PackageVersion lock))"
  by (simp_all add: canonicalizeLock_def)

lemma lock_ok_canonicalize [simp]: "lock_ok lib f (canonicalizeLock lock) = lock_ok lib f lock"
  by (simp add: lock_ok_def image_image comp_def)

lemma lock_nul_free_canonicalize [simp]: "lock_nul_free (canonicalizeLock lock) = lock_nul_free lock"
  by (simp add: lock_nul_free_def)

lemma ValidateLock_canonicalize:
  "ValidateLock lib (canonicalizeLock lock) repository format = None \<longleftrightarrow> ValidateLock lib lock repository format = None"
  by (simp add: ValidateLock_iff)

end
