(* ===== verification/Lock_Safety.thy ===== *)
theory Lock_Safety
  imports Lock_Store
begin

section \<open>Every operation keeps a lock valid\<close>

text \<open>
  The contract all lock operations share, as a locale: on an error the lock is untouched, and on
  success a lock that validates still validates. Each operation of \<open>Lock_Store\<close> is an
  interpretation, and what follows from the contract alone is proved once: whatever an operation
  returns, the lock it leaves behind validates for the same repository and format.
\<close>

locale lock_operation =
  fixes run :: "RepositoryLock \<Rightarrow> RepositoryLock \<times> ('e + 'r)"
    and pre :: "url_lib \<Rightarrow> format \<Rightarrow> bool"
  assumes error_unchanged: "run lock = (lock', Inl e) \<Longrightarrow> lock' = lock"
    and header_kept: "run lock = (lock', result) \<Longrightarrow>
      lock_SchemaVersion lock' = lock_SchemaVersion lock \<and> lock_Repository lock' = lock_Repository lock"
    and ok_kept: "run lock = (lock', Inr x) \<Longrightarrow> pre lib selected \<Longrightarrow> lock_ok lib selected lock \<Longrightarrow> lock_nul_free lock \<Longrightarrow>
      lock_ok lib selected lock' \<and> lock_nul_free lock'"
begin

lemma validity_kept:
  assumes "\<And>selected. For format = Inr selected \<Longrightarrow> pre lib selected" and "ValidateLock lib lock repository format = None" and "lock_nul_free lock"
  shows "ValidateLock lib (fst (run lock)) repository format = None \<and> lock_nul_free (fst (run lock))"
proof -
  obtain lock' r where run: "run lock = (lock', r)" by fastforce
  show ?thesis
  proof (cases r)
    case (Inl e)
    then have "lock' = lock" using run error_unchanged by blast
    then show ?thesis using assms run by simp
  next
    case (Inr x)
    then show ?thesis using assms run header_kept [OF run] ok_kept [of lock lock' x lib]
      by (auto simp: ValidateLock_iff)
  qed
qed

end

subsection \<open>Lemmas on the parts\<close>

lemma first_index_Some: "first_index p xs = Some i \<Longrightarrow> i < length xs \<and> p (xs ! i)"
  by (induction xs arbitrary: i) (auto split: if_splits)

lemma first_index_None: "first_index p xs = None \<longleftrightarrow> (\<forall>x \<in> set xs. \<not> p x)"
  by (induction xs) auto

lemma check_blobs_new: "check_blobs f p v b bs = Inr False \<Longrightarrow>
    \<forall>e \<in> set bs. blob_Filename e \<noteq> blob_Filename b \<and> blob_coordinate f e \<noteq> blob_coordinate f b"
  by (induction bs) (auto split: if_splits)

lemma check_blobs_known: "check_blobs f p v b bs = Inr True \<Longrightarrow>
    \<exists>e \<in> set bs. blob_SHA256 e = blob_SHA256 b \<and> blob_Filename e = blob_Filename b \<and>
      blob_Size e = blob_Size b \<and> blob_Architecture e = blob_Architecture b"
  by (induction bs) (auto split: if_splits)

text \<open>The new version record and the new placement of an addition.\<close>

definition draft_version :: "gostring \<Rightarrow> gostring \<Rightarrow> LockedBlob list \<Rightarrow> PackageVersion" where
  "draft_version p v bs = \<lparr>pv_Package = p, pv_Version = v, pv_State = ''draft'', pv_Blobs = bs\<rparr>"

definition placement_of :: "gostring \<Rightarrow> gostring \<Rightarrow> gostring \<Rightarrow> gostring \<Rightarrow> Placement" where
  "placement_of p v track distro = \<lparr>pl_Package = p, pl_Version = v, pl_Track = track, pl_Distro = distro\<rparr>"

definition default_track :: "gostring \<Rightarrow> gostring" where
  "default_track track = (if track = [] then ''stable'' else track)"

text \<open>What a successful addition does to the two lists, case by case.\<close>

inductive added_versions :: "format \<Rightarrow> gostring \<Rightarrow> gostring \<Rightarrow> LockedBlob \<Rightarrow> PackageVersion list \<Rightarrow> PackageVersion list \<Rightarrow> bool \<Rightarrow> bool"
  for f p v b pvs where
  added_new: "first_index (is_version p v) pvs = None \<Longrightarrow> added_versions f p v b pvs (pvs @ [draft_version p v [b]]) True"
| added_blob: "first_index (is_version p v) pvs = Some i \<Longrightarrow> check_blobs f p v b (pv_Blobs (pvs ! i)) = Inr False \<Longrightarrow>
    added_versions f p v b pvs (pvs[i := (pvs ! i)\<lparr>pv_Blobs := pv_Blobs (pvs ! i) @ [b]\<rparr>]) True"
| added_known: "first_index (is_version p v) pvs = Some i \<Longrightarrow> check_blobs f p v b (pv_Blobs (pvs ! i)) = Inr True \<Longrightarrow>
    added_versions f p v b pvs pvs False"

lemma AddBlob_Inr:
  assumes "AddBlob lock format track distro b p v = (lock', Inr changed)"
  shows "\<exists>f fresh. For format = Inr f \<and> validatePlacementCoordinates format (default_track track) distro = None \<and>
    path_base (blob_Filename b) = blob_Filename b \<and> blob_Filename b \<noteq> [] \<and>
    added_versions f p v b (lock_PackageVersion lock) (lock_PackageVersion lock') fresh \<and>
    lock_Placement lock' = (let pl = placement_of p v (default_track track) distro in
      if pl \<in> set (lock_Placement lock) then lock_Placement lock else lock_Placement lock @ [pl]) \<and>
    lock_SchemaVersion lock' = lock_SchemaVersion lock \<and> lock_Repository lock' = lock_Repository lock \<and>
    changed = (fresh \<or> placement_of p v (default_track track) distro \<notin> set (lock_Placement lock))"
proof -
  obtain f where f: "For format = Inr f"
    and coords: "validatePlacementCoordinates format (default_track track) distro = None"
    and fname: "path_base (blob_Filename b) = blob_Filename b" "blob_Filename b \<noteq> []"
    using assms by (auto simp: AddBlob_def Let_def default_track_def split: sum.splits option.splits if_splits)
  show ?thesis
  proof (cases "first_index (is_version p v) (lock_PackageVersion lock)")
    case None
    then have "added_versions f p v b (lock_PackageVersion lock) (lock_PackageVersion lock @ [draft_version p v [b]]) True"
      by (rule added_new)
    then show ?thesis using assms f coords fname None
      by (intro exI [of _ f] exI [of _ True])
         (auto simp: AddBlob_def Let_def default_track_def draft_version_def placement_of_def)
  next
    case (Some i)
    let ?pv = "lock_PackageVersion lock ! i"
    obtain known where known: "check_blobs f p v b (pv_Blobs ?pv) = Inr known"
      using assms f coords fname Some
      by (cases "check_blobs f p v b (pv_Blobs ?pv)") (auto simp: AddBlob_def Let_def default_track_def)
    show ?thesis
    proof (cases known)
      case True
      then have "added_versions f p v b (lock_PackageVersion lock) (lock_PackageVersion lock) False"
        using added_known [OF Some] known by simp
      then show ?thesis using assms f coords fname Some known True
        by (intro exI [of _ f] exI [of _ False]) (auto simp: AddBlob_def Let_def default_track_def placement_of_def)
    next
      case False
      then have "added_versions f p v b (lock_PackageVersion lock)
          ((lock_PackageVersion lock)[i := ?pv\<lparr>pv_Blobs := pv_Blobs ?pv @ [b]\<rparr>]) True"
        using added_blob [OF Some] known by simp
      then show ?thesis using assms f coords fname Some known False
        by (intro exI [of _ f] exI [of _ True]) (auto simp: AddBlob_def Let_def default_track_def placement_of_def)
    qed
  qed
qed

lemma AddBlob_Inl: "AddBlob lock format track distro b p v = (lock', Inl e) \<Longrightarrow> lock' = lock"
  by (auto simp: AddBlob_def Let_def split: sum.splits option.splits if_splits prod.splits)

lemma added_versions_ok:
  assumes "added_versions f p v b pvs pvs' fresh"
    and "\<forall>pv \<in> set pvs. version_ok lib f pv \<and> nul_free (pv_Package pv) \<and> nul_free (pv_Version pv)"
    and "distinct (map pv_identity pvs)"
    and "blob_ok lib b" "p \<noteq> []" "v \<noteq> []" "nul_free p" "nul_free v"
  shows "(\<forall>pv \<in> set pvs'. version_ok lib f pv \<and> nul_free (pv_Package pv) \<and> nul_free (pv_Version pv)) \<and>
    distinct (map pv_identity pvs') \<and> pv_identity ` set pvs \<subseteq> pv_identity ` set pvs' \<and>
    version_identity p v \<in> pv_identity ` set pvs'"
  using assms(1)
proof cases
  case added_new
  have "version_identity p v \<notin> pv_identity ` set pvs"
    using added_new(3) assms(2,7) by (auto simp: first_index_None is_version_def version_identity_eq)
  then show ?thesis using added_new assms(2-)
    by (auto simp: draft_version_def version_ok_def blobs_ok_def)
next
  case (added_blob i)
  let ?pv = "pvs ! i" and ?pv' = "(pvs ! i)\<lparr>pv_Blobs := pv_Blobs (pvs ! i) @ [b]\<rparr>"
  have i: "i < length pvs" "is_version p v ?pv" using first_index_Some [OF added_blob(3)] by auto
  have ids: "map pv_identity pvs' = map pv_identity pvs"
    using i added_blob(1) by (simp add: map_update list_update_same_conv)
  have "version_ok lib f ?pv'"
    using check_blobs_new [OF added_blob(4)] assms(2,4) i(1) nth_mem [OF i(1)]
    by (auto simp: version_ok_def blobs_ok_def)
  moreover have "nul_free (pv_Package ?pv') \<and> nul_free (pv_Version ?pv')" using assms(2) nth_mem [OF i(1)] by simp
  ultimately have all: "\<forall>pv \<in> set pvs'. version_ok lib f pv \<and> nul_free (pv_Package pv) \<and> nul_free (pv_Version pv)"
    using assms(2) added_blob(1) set_update_subset_insert [of pvs i ?pv'] by auto
  have "pv_identity ` set pvs' = pv_identity ` set pvs" using ids by (metis set_map)
  moreover have "version_identity p v \<in> pv_identity ` set pvs"
    using i nth_mem [OF i(1)] by (auto simp: is_version_def intro!: rev_image_eqI)
  ultimately show ?thesis using all ids assms(3) by simp
next
  case (added_known i)
  have "version_identity p v \<in> pv_identity ` set pvs"
    using first_index_Some [OF added_known(3)] by (auto simp: is_version_def intro!: rev_image_eqI [of "pvs ! i"])
  then show ?thesis using added_known assms(2,3) by simp
qed

definition add_pre :: "gostring \<Rightarrow> LockedBlob \<Rightarrow> gostring \<Rightarrow> gostring \<Rightarrow> url_lib \<Rightarrow> format \<Rightarrow> bool" where
  "add_pre format b p v lib selected \<longleftrightarrow> For format = Inr selected \<and> blob_ok lib b \<and> p \<noteq> [] \<and> v \<noteq> [] \<and>
     nul_free p \<and> nul_free v"

lemma placements_ok_add:
  assumes "\<forall>pl \<in> set pls. nul_free (pl_Package pl) \<and> nul_free (pl_Version pl) \<and> nul_free (pl_Track pl)"
    and "distinct (map placement_coordinate pls)"
    and "nul_free (pl_Package pl)" "nul_free (pl_Version pl)" "nul_free (pl_Track pl)" "pl \<notin> set pls"
  shows "distinct (map placement_coordinate (pls @ [pl]))"
  using assms by (auto simp: placement_coordinate_eq)

lemma AddBlob_ok:
  assumes "AddBlob lock format track distro b p v = (lock', Inr changed)"
    and "add_pre format b p v lib selected" and "lock_ok lib selected lock" and "lock_nul_free lock"
  shows "lock_ok lib selected lock' \<and> lock_nul_free lock'"
proof -
  let ?pl = "placement_of p v (default_track track) distro"
  obtain f fresh where add: "For format = Inr f"
      "validatePlacementCoordinates format (default_track track) distro = None"
      "added_versions f p v b (lock_PackageVersion lock) (lock_PackageVersion lock') fresh"
      "lock_Placement lock' = (if ?pl \<in> set (lock_Placement lock) then lock_Placement lock else lock_Placement lock @ [?pl])"
    using AddBlob_Inr [OF assms(1)] by (auto simp: Let_def)
  have f: "f = selected" using add(1) assms(2) by (simp add: add_pre_def)
  have track: "nul_free (default_track track)" "default_track track \<noteq> []"
    using validatePlacementCoordinates_track [OF add(2)] by auto
  have pv: "(\<forall>pv \<in> set (lock_PackageVersion lock'). version_ok lib f pv \<and> nul_free (pv_Package pv) \<and> nul_free (pv_Version pv)) \<and>
    distinct (map pv_identity (lock_PackageVersion lock')) \<and>
    pv_identity ` set (lock_PackageVersion lock) \<subseteq> pv_identity ` set (lock_PackageVersion lock') \<and>
    version_identity p v \<in> pv_identity ` set (lock_PackageVersion lock')"
    by (rule added_versions_ok [OF add(3)])
       (use assms(2-4) f in \<open>auto simp: lock_ok_def lock_nul_free_def add_pre_def\<close>)
  have pl: "distinct (map placement_coordinate (lock_Placement lock'))"
    using assms(2-4) track placements_ok_add [of "lock_Placement lock" ?pl]
    by (simp add: add(4) lock_ok_def lock_nul_free_def add_pre_def placement_of_def)
  have "\<forall>pl \<in> set (lock_Placement lock'). pl_identity pl \<in> pv_identity ` set (lock_PackageVersion lock') \<and> pl_Track pl \<noteq> []"
    using pv track assms(3) by (auto simp: add(4) lock_ok_def placement_of_def)
  moreover have "\<forall>pl \<in> set (lock_Placement lock'). nul_free (pl_Package pl) \<and> nul_free (pl_Version pl) \<and> nul_free (pl_Track pl)"
    using track assms(2,4) by (auto simp: add(4) lock_nul_free_def add_pre_def placement_of_def)
  ultimately show ?thesis using pv pl f by (simp add: lock_ok_def lock_nul_free_def)
qed

interpretation add_blob: lock_operation "\<lambda>lock. AddBlob lock format track distro b p v" "add_pre format b p v"
  for format track distro b p v
proof
  show "lock' = lock" if "AddBlob lock format track distro b p v = (lock', Inl e)" for lock lock' e
    using that by (rule AddBlob_Inl)
  show "lock_SchemaVersion lock' = lock_SchemaVersion lock \<and> lock_Repository lock' = lock_Repository lock"
    if "AddBlob lock format track distro b p v = (lock', r)" for lock lock' r
    using that AddBlob_Inl AddBlob_Inr by (cases r) (blast, fastforce)
qed (rule AddBlob_ok)

subsection \<open>Origins\<close>

lemma set_origin_blobs_spec:
  assumes "set_origin_blobs filename digest origin bs = Some (bs', r)"
  shows "map (blob_coordinate f) bs' = map (blob_coordinate f) bs \<and>
    (\<forall>b' \<in> set bs'. b' \<in> set bs \<or> (\<exists>b \<in> set bs. b' = b\<lparr>blob_Origin := Some origin\<rparr>)) \<and>
    (\<forall>e. r = Inl e \<longrightarrow> bs' = bs) \<and> map blob_SHA256 bs' = map blob_SHA256 bs"
  using assms
  by (induction bs arbitrary: bs')
     (auto simp: blob_coordinate_def split: if_splits option.splits, (metis+)?)

lemma set_origin_blobs_ok:
  assumes "set_origin_blobs filename digest origin bs = Some (bs', r)"
    and "ValidateArtifactOrigin lib origin = None" and "blobs_ok lib f bs"
  shows "blobs_ok lib f bs'"
proof -
  note spec = set_origin_blobs_spec [OF assms(1), of f]
  have "blob_ok lib b'" if "b' \<in> set bs'" for b'
    using spec that assms(2,3) by (auto simp: blobs_ok_def blob_ok_def valid_blob_file_def valid_blob_origin_def)
  then show ?thesis using spec assms(3) unfolding blobs_ok_def by (metis map_is_Nil_conv)
qed

lemma set_origin_versions_spec:
  assumes "set_origin_versions p v filename digest origin pvs = (pvs', r)"
  shows "map (\<lambda>pv. (pv_Package pv, pv_Version pv)) pvs' = map (\<lambda>pv. (pv_Package pv, pv_Version pv)) pvs \<and>
    (\<forall>e. r = Inl e \<longrightarrow> pvs' = pvs) \<and>
    (ValidateArtifactOrigin lib origin = None \<longrightarrow> (\<forall>pv \<in> set pvs. version_ok lib f pv) \<longrightarrow>
      (\<forall>pv \<in> set pvs'. version_ok lib f pv))"
  using assms
proof (induction pvs arbitrary: pvs')
  case (Cons pv pvs)
  show ?case
  proof (cases "if is_version p v pv then set_origin_blobs filename digest origin (pv_Blobs pv) else None")
    case None
    obtain rest' where rest: "set_origin_versions p v filename digest origin pvs = (rest', r)" "pvs' = pv # rest'"
      using Cons.prems None by (auto split: prod.splits)
    show ?thesis using Cons.IH [OF rest(1)] rest(2) by simp
  next
    case (Some br)
    then obtain bs where bs: "set_origin_blobs filename digest origin (pv_Blobs pv) = Some (bs, r)"
      "pvs' = pv\<lparr>pv_Blobs := bs\<rparr> # pvs"
      using Cons.prems by (cases br) (auto split: if_splits)
    have "version_ok lib f (pv\<lparr>pv_Blobs := bs\<rparr>)" if "ValidateArtifactOrigin lib origin = None" "version_ok lib f pv"
      using set_origin_blobs_ok [OF bs(1) that(1)] that(2) by (simp add: version_ok_def)
    then show ?thesis using bs set_origin_blobs_spec [OF bs(1), of f] by simp
  qed
qed simp

lemma identities_map:
  assumes "map (\<lambda>pv. (pv_Package pv, pv_Version pv)) pvs' = map (\<lambda>pv. (pv_Package pv, pv_Version pv)) pvs"
  shows "map pv_identity pvs' = map pv_identity pvs"
    and "(\<lambda>pv. (pv_Package pv, pv_Version pv)) ` set pvs' = (\<lambda>pv. (pv_Package pv, pv_Version pv)) ` set pvs"
proof -
  have "map (\<lambda>x. version_identity (fst x) (snd x)) (map (\<lambda>pv. (pv_Package pv, pv_Version pv)) pvs')
      = map (\<lambda>x. version_identity (fst x) (snd x)) (map (\<lambda>pv. (pv_Package pv, pv_Version pv)) pvs)"
    using assms by (rule arg_cong)
  then show "map pv_identity pvs' = map pv_identity pvs" by (simp add: comp_def)
  show "(\<lambda>pv. (pv_Package pv, pv_Version pv)) ` set pvs' = (\<lambda>pv. (pv_Package pv, pv_Version pv)) ` set pvs"
    using assms by (metis set_map)
qed

interpretation set_origin: lock_operation "\<lambda>lock. SetBlobOrigin lock p v filename digest origin"
  "\<lambda>lib selected. ValidateArtifactOrigin lib origin = None"
  for p v filename digest origin
proof
  fix lock lock' :: RepositoryLock and r :: "lock_error + bool" and e lib selected
  obtain pvs r' where pvs: "set_origin_versions p v filename digest origin (lock_PackageVersion lock) = (pvs, r')"
    by fastforce
  note spec = set_origin_versions_spec [OF pvs, of lib selected]
  show "lock' = lock" if "SetBlobOrigin lock p v filename digest origin = (lock', Inl e)"
    using that spec pvs by (auto simp: SetBlobOrigin_def)
  show "lock_SchemaVersion lock' = lock_SchemaVersion lock \<and> lock_Repository lock' = lock_Repository lock"
    if "SetBlobOrigin lock p v filename digest origin = (lock', r)"
    using that pvs by (auto simp: SetBlobOrigin_def)
  show "lock_ok lib selected lock' \<and> lock_nul_free lock'"
    if run: "SetBlobOrigin lock p v filename digest origin = (lock', Inr x)"
      and "ValidateArtifactOrigin lib origin = None" and ok: "lock_ok lib selected lock" "lock_nul_free lock" for x
  proof -
    have lock': "lock' = lock\<lparr>lock_PackageVersion := pvs\<rparr>" using run pvs by (auto simp: SetBlobOrigin_def)
    note ids = identities_map [OF conjunct1 [OF spec]]
    have "pv_identity ` set pvs = pv_identity ` set (lock_PackageVersion lock)" using ids(1) by (metis set_map)
    then have "lock_ok lib selected lock'" using spec that(2) ok(1) ids(1) by (simp add: lock' lock_ok_def)
    moreover have "lock_nul_free lock'"
    proof -
      have "nul_free (pv_Package pv) \<and> nul_free (pv_Version pv)" if "pv \<in> set pvs" for pv
      proof -
        have "(pv_Package pv, pv_Version pv) \<in> (\<lambda>pv. (pv_Package pv, pv_Version pv)) ` set (lock_PackageVersion lock)"
          using that ids(2) by blast
        then show ?thesis using ok(2) by (auto simp: lock_nul_free_def)
      qed
      then show ?thesis using ok(2) by (simp add: lock' lock_nul_free_def)
    qed
    ultimately show ?thesis by simp
  qed
qed

subsection \<open>Promotion and yanking\<close>

lemma packageVersionExists_identity:
  "packageVersionExists lock p v \<Longrightarrow> version_identity p v \<in> pv_identity ` set (lock_PackageVersion lock)"
  by (auto simp: packageVersionExists_def list_ex_iff is_version_def intro!: rev_image_eqI)

lemma packageVersionExists_nul_free:
  "packageVersionExists lock p v \<Longrightarrow> lock_nul_free lock \<Longrightarrow> nul_free p \<and> nul_free v"
  by (auto simp: packageVersionExists_def list_ex_iff is_version_def lock_nul_free_def)

interpretation promote: lock_operation "\<lambda>lock. PromotePlacement lock format p v track distro" "\<lambda>lib selected. True"
  for format p v track distro
proof
  fix lock lock' :: RepositoryLock and r :: "lock_error + bool" and e lib selected
  show "lock' = lock" if "PromotePlacement lock format p v track distro = (lock', Inl e)"
    using that by (auto simp: PromotePlacement_def Let_def split: option.splits if_splits)
  show "lock_SchemaVersion lock' = lock_SchemaVersion lock \<and> lock_Repository lock' = lock_Repository lock"
    if "PromotePlacement lock format p v track distro = (lock', r)"
    using that by (auto simp: PromotePlacement_def Let_def split: option.splits if_splits)
  show "lock_ok lib selected lock' \<and> lock_nul_free lock'"
    if run: "PromotePlacement lock format p v track distro = (lock', Inr x)"
      and ok: "lock_ok lib selected lock" "lock_nul_free lock" for x
  proof -
    let ?pl = "placement_of p v track distro"
    have track: "nul_free track" "track \<noteq> []" and exists: "packageVersionExists lock p v"
      using run validatePlacementCoordinates_track [of format track distro]
      by (auto simp: PromotePlacement_def split: option.splits if_splits)
    consider "lock' = lock" | "?pl \<notin> set (lock_Placement lock)"
        "lock' = canonicalizeLock (lock\<lparr>lock_Placement := lock_Placement lock @ [?pl]\<rparr>)"
      using run by (auto simp: PromotePlacement_def Let_def placement_of_def split: option.splits if_splits)
    then show ?thesis
    proof cases
      case 2
      note pv = packageVersionExists_identity [OF exists] packageVersionExists_nul_free [OF exists ok(2)]
      have "distinct (map placement_coordinate (lock_Placement lock @ [?pl]))"
        by (rule placements_ok_add) (use ok pv track 2(1) in \<open>auto simp: lock_ok_def lock_nul_free_def placement_of_def\<close>)
      then have "lock_ok lib selected (lock\<lparr>lock_Placement := lock_Placement lock @ [?pl]\<rparr>)"
        using ok(1) pv track by (simp add: lock_ok_def placement_of_def)
      then show ?thesis using 2(2) ok(2) pv track by (simp add: lock_nul_free_def placement_of_def)
    qed (use ok in simp)
  qed
qed

interpretation yank: lock_operation "\<lambda>lock. YankPlacements lock format p v track distro every" "\<lambda>lib selected. True"
  for format p v track distro every
proof
  fix lock lock' :: RepositoryLock and r :: "lock_error + nat" and e lib selected
  show "lock' = lock" if "YankPlacements lock format p v track distro every = (lock', Inl e)"
    using that by (auto simp: YankPlacements_def Let_def split: option.splits if_splits)
  show "lock_SchemaVersion lock' = lock_SchemaVersion lock \<and> lock_Repository lock' = lock_Repository lock"
    if "YankPlacements lock format p v track distro every = (lock', r)"
    using that by (auto simp: YankPlacements_def Let_def split: option.splits if_splits)
  show "lock_ok lib selected lock' \<and> lock_nul_free lock'"
    if run: "YankPlacements lock format p v track distro every = (lock', Inr x)"
      and ok: "lock_ok lib selected lock" "lock_nul_free lock" for x
  proof -
    let ?l = "lock\<lparr>lock_Placement := filter (\<lambda>pl. \<not> yank_matches p v track distro every pl) (lock_Placement lock)\<rparr>"
    have "lock' = canonicalizeLock ?l"
      using run by (auto simp: YankPlacements_def Let_def split: option.splits if_splits)
    moreover have "lock_ok lib selected ?l" "lock_nul_free ?l"
      using ok by (auto simp: lock_ok_def lock_nul_free_def distinct_map_filter)
    ultimately show ?thesis by (simp del: canonicalize_simps)
  qed
qed

subsection \<open>Sequences of operations\<close>

text \<open>The commands that edit a lock, as the engine issues them for a repository of a given format.\<close>

datatype lock_command =
    CommandAdd gostring gostring LockedBlob gostring gostring
  | CommandOrigin gostring gostring gostring gostring ArtifactOrigin
  | CommandPromote gostring gostring gostring gostring
  | CommandYank gostring gostring gostring gostring bool

fun run_command :: "gostring \<Rightarrow> lock_command \<Rightarrow> RepositoryLock \<Rightarrow> RepositoryLock" where
  "run_command format (CommandAdd track distro b p v) lock = fst (AddBlob lock format track distro b p v)"
| "run_command format (CommandOrigin p v filename digest origin) lock = fst (SetBlobOrigin lock p v filename digest origin)"
| "run_command format (CommandPromote p v track distro) lock = fst (PromotePlacement lock format p v track distro)"
| "run_command format (CommandYank p v track distro every) lock = fst (YankPlacements lock format p v track distro every)"

text \<open>What a command brings into the lock: inspected facts and a validated origin.\<close>

fun command_ok :: "url_lib \<Rightarrow> lock_command \<Rightarrow> bool" where
  "command_ok lib (CommandAdd track distro b p v) \<longleftrightarrow>
     blob_ok lib b \<and> p \<noteq> [] \<and> v \<noteq> [] \<and> nul_free p \<and> nul_free v"
| "command_ok lib (CommandOrigin p v filename digest origin) \<longleftrightarrow> ValidateArtifactOrigin lib origin = None"
| "command_ok lib (CommandPromote p v track distro) \<longleftrightarrow> True"
| "command_ok lib (CommandYank p v track distro every) \<longleftrightarrow> True"

lemma run_command_valid:
  assumes "command_ok lib c" and "ValidateLock lib lock repository format = None" and "lock_nul_free lock"
  shows "ValidateLock lib (run_command format c lock) repository format = None \<and> lock_nul_free (run_command format c lock)"
proof (cases c)
  case (CommandAdd track distro b p v)
  then show ?thesis
    using add_blob.validity_kept [of format format b p v lib lock repository track distro] assms
    by (simp add: add_pre_def)
next
  case (CommandOrigin p v filename digest origin)
  then show ?thesis using set_origin.validity_kept [of format lib origin lock repository] assms by simp
next
  case (CommandPromote p v track distro)
  then show ?thesis using promote.validity_kept [OF TrueI assms(2,3)] by simp
next
  case (CommandYank p v track distro every)
  then show ?thesis using yank.validity_kept [OF TrueI assms(2,3)] by simp
qed

lemma run_commands_valid:
  "(\<forall>c \<in> set cs. command_ok lib c) \<Longrightarrow> ValidateLock lib lock repository format = None \<Longrightarrow> lock_nul_free lock \<Longrightarrow>
     ValidateLock lib (fold (run_command format) cs lock) repository format = None"
proof (induction cs arbitrary: lock)
  case (Cons c cs)
  then show ?case using run_command_valid [of lib c lock repository format] by simp
qed simp

subsection \<open>What is recorded\<close>

definition recorded :: "RepositoryLock \<Rightarrow> gostring \<Rightarrow> gostring \<Rightarrow> LockedBlob \<Rightarrow> bool" where
  "recorded lock p v b \<longleftrightarrow> (\<exists>pv \<in> set (lock_PackageVersion lock). is_version p v pv \<and> b \<in> set (pv_Blobs pv))"

definition same_bytes :: "LockedBlob \<Rightarrow> LockedBlob \<Rightarrow> bool" where
  "same_bytes e b \<longleftrightarrow> blob_SHA256 e = blob_SHA256 b \<and> blob_Filename e = blob_Filename b \<and>
     blob_Size e = blob_Size b \<and> blob_Architecture e = blob_Architecture b"

lemma recorded_nth: "i < length (lock_PackageVersion lock) \<Longrightarrow> is_version p v (lock_PackageVersion lock ! i) \<Longrightarrow>
    b \<in> set (pv_Blobs (lock_PackageVersion lock ! i)) \<Longrightarrow> recorded lock p v b"
  unfolding recorded_def by (metis nth_mem)

lemma added_versions_recorded:
  assumes "added_versions f p v b (lock_PackageVersion lock) (lock_PackageVersion lock') fresh"
  shows "\<exists>e. recorded lock' p v e \<and> same_bytes e b" and "recorded lock p' v' e \<Longrightarrow> recorded lock' p' v' e"
    and "\<not> fresh \<Longrightarrow> lock_PackageVersion lock' = lock_PackageVersion lock"
proof -
  let ?pvs = "lock_PackageVersion lock" and ?pvs' = "lock_PackageVersion lock'"
  have "(\<exists>e. recorded lock' p v e \<and> same_bytes e b) \<and> (recorded lock p' v' e \<longrightarrow> recorded lock' p' v' e) \<and>
      (\<not> fresh \<longrightarrow> ?pvs' = ?pvs)"
    using assms
  proof cases
    case added_new
    then show ?thesis by (auto simp: recorded_def draft_version_def is_version_def same_bytes_def)
  next
    case (added_blob i)
    have i: "i < length ?pvs" "is_version p v (?pvs ! i)" using first_index_Some [OF added_blob(3)] by auto
    let ?pv' = "(?pvs ! i)\<lparr>pv_Blobs := pv_Blobs (?pvs ! i) @ [b]\<rparr>"
    have at: "?pvs' ! i = ?pv'" "i < length ?pvs'" using i(1) added_blob(1) by simp_all
    have "recorded lock' p v b" using at i(2) by (intro recorded_nth [of i]) (simp_all add: is_version_def)
    moreover have "recorded lock' p' v' e" if rec: "recorded lock p' v' e"
    proof -
      obtain pv where pv: "pv \<in> set ?pvs" "is_version p' v' pv" "e \<in> set (pv_Blobs pv)"
        using rec by (auto simp: recorded_def)
      obtain j where "j < length ?pvs" "?pvs ! j = pv" using pv(1) by (meson in_set_conv_nth)
      then have j: "j < length ?pvs" "is_version p' v' (?pvs ! j)" "e \<in> set (pv_Blobs (?pvs ! j))"
        using pv by simp_all
      show ?thesis
        using j i added_blob(1) by (intro recorded_nth [of j]) (cases "j = i"; simp add: is_version_def)+
    qed
    ultimately show ?thesis using added_blob(2) by (auto simp: same_bytes_def)
  next
    case (added_known i)
    have i: "i < length ?pvs" "is_version p v (?pvs ! i)" using first_index_Some [OF added_known(3)] by auto
    obtain e where "e \<in> set (pv_Blobs (?pvs ! i))" "same_bytes e b"
      using check_blobs_known [OF added_known(4)] by (auto simp: same_bytes_def)
    then have "recorded lock p v e" using i by (intro recorded_nth)
    then show ?thesis using added_known(1) \<open>same_bytes e b\<close> by (auto simp: recorded_def)
  qed
  then show "\<exists>e. recorded lock' p v e \<and> same_bytes e b" "recorded lock p' v' e \<Longrightarrow> recorded lock' p' v' e"
    "\<not> fresh \<Longrightarrow> ?pvs' = ?pvs"
    by blast+
qed

lemma check_blobs_refuses:
  "\<exists>e \<in> set bs. blob_Filename e = blob_Filename b \<or> blob_coordinate f e = blob_coordinate f b \<Longrightarrow>
   \<forall>e \<in> set bs. \<not> (blob_SHA256 e = blob_SHA256 b \<and> blob_Filename e = blob_Filename b) \<Longrightarrow>
   check_blobs f p v b bs = Inl (BoundToDifferentBytes p v)"
  by (induction bs) auto

subsection \<open>A sample lock\<close>

definition sample_lib :: url_lib where
  "sample_lib = \<lparr>ul_parse = (\<lambda>s. None), ul_addr = (\<lambda>s. None)\<rparr>"

definition sample_blob :: "gostring \<Rightarrow> char \<Rightarrow> LockedBlob" where
  "sample_blob filename c = \<lparr>blob_Filename = filename, blob_Architecture = [], blob_Size = 7, blob_MD5 = [],
     blob_SHA1 = [], blob_SHA256 = replicate 64 c, blob_Added = [], blob_Origin = None\<rparr>"

definition sample_lock :: RepositoryLock where
  "sample_lock = \<lparr>lock_SchemaVersion = 2, lock_Repository = ''tools'',
     lock_PackageVersion = [draft_version ''x'' ''1.0'' [sample_blob ''x-1.0.tgz'' CHR ''a'']],
     lock_Placement = [placement_of ''x'' ''1.0'' ''stable'' []]\<rparr>"

lemma sample_lock_valid: "ValidateLock sample_lib sample_lock ''tools'' ''raw'' = None" "lock_nul_free sample_lock"
  by code_simp+

subsection \<open>Properties\<close>

text \<open>
  C25: starting from a lock that validates and has no NUL bytes, any sequence of additions, origin records,
  promotions and yanks, successful or refused, leaves a lock that validates for the same repository and
  format, provided the artifacts added pass the checks of a blob and have a package and a version without
  NUL bytes, and the origins recorded are valid.
\<close>

theorem lock_edits_keep_validity:
  assumes "ValidateLock lib lock repository format = None" and "lock_nul_free lock"
    and "\<forall>c \<in> set commands. command_ok lib c"
  shows "ValidateLock lib (fold (run_command format) commands lock) repository format = None"
  using assms run_commands_valid by blast

theorem lock_edits_keep_validity_witness:
  "ValidateLock sample_lib (fold (run_command ''raw'')
     [CommandAdd [] [] (sample_blob ''x-1.1.tgz'' CHR ''b'') ''x'' ''1.1'', CommandYank ''x'' ''1.0'' [] [] True]
     sample_lock) ''tools'' ''raw'' = None"
proof (rule lock_edits_keep_validity [OF sample_lock_valid])
  show "\<forall>c \<in> set [CommandAdd [] [] (sample_blob ''x-1.1.tgz'' CHR ''b'') ''x'' ''1.1'', CommandYank ''x'' ''1.0'' [] [] True].
      command_ok sample_lib c" by code_simp
qed

text \<open>
  A successful addition records the artifact under its version and the requested placement, keeps
  every artifact and every placement recorded before, and reports a change exactly when the lock
  changed.
\<close>

theorem add_blob_records:
  assumes "AddBlob lock format track distro b p v = (lock', Inr changed)"
  shows "(\<exists>e. recorded lock' p v e \<and> same_bytes e b) \<and>
    placement_of p v (default_track track) distro \<in> set (lock_Placement lock') \<and>
    (\<forall>p' v' e. recorded lock p' v' e \<longrightarrow> recorded lock' p' v' e) \<and>
    set (lock_Placement lock) \<subseteq> set (lock_Placement lock') \<and> (changed = (lock' \<noteq> lock))"
proof -
  let ?pl = "placement_of p v (default_track track) distro"
  obtain f fresh where add: "added_versions f p v b (lock_PackageVersion lock) (lock_PackageVersion lock') fresh"
      "lock_Placement lock' = (if ?pl \<in> set (lock_Placement lock) then lock_Placement lock else lock_Placement lock @ [?pl])"
      "lock_SchemaVersion lock' = lock_SchemaVersion lock" "lock_Repository lock' = lock_Repository lock"
      "changed = (fresh \<or> ?pl \<notin> set (lock_Placement lock))"
    using AddBlob_Inr [OF assms] by (auto simp: Let_def)
  have fresh: "lock_PackageVersion lock' \<noteq> lock_PackageVersion lock" if fresh
    using add(1) that
  proof cases
    case (added_blob i)
    have "i < length (lock_PackageVersion lock)" using first_index_Some [OF added_blob(3)] by simp
    then have "pv_Blobs (lock_PackageVersion lock' ! i) \<noteq> pv_Blobs (lock_PackageVersion lock ! i)"
      using added_blob(1) by simp
    then show ?thesis by metis
  qed simp_all
  have "changed = (lock' \<noteq> lock)"
  proof
    assume "changed"
    then show "lock' \<noteq> lock" using add(2,5) fresh by (auto split: if_splits)
  next
    assume "lock' \<noteq> lock"
    then show "changed" using add(2-5) added_versions_recorded(3) [OF add(1)] by (cases fresh) auto
  qed
  then show ?thesis using added_versions_recorded(1,2) [OF add(1)] add(2) by auto
qed

theorem add_blob_records_witness:
  "let lock' = fst (AddBlob sample_lock ''raw'' [] [] (sample_blob ''x-1.1.tgz'' CHR ''b'') ''x'' ''1.1'') in
    (\<exists>e. recorded lock' ''x'' ''1.1'' e \<and> same_bytes e (sample_blob ''x-1.1.tgz'' CHR ''b'')) \<and>
    placement_of ''x'' ''1.1'' (default_track []) [] \<in> set (lock_Placement lock') \<and>
    (\<forall>p' v' e. recorded sample_lock p' v' e \<longrightarrow> recorded lock' p' v' e) \<and>
    set (lock_Placement sample_lock) \<subseteq> set (lock_Placement lock') \<and> (True = (lock' \<noteq> sample_lock))"
  unfolding Let_def
proof (rule add_blob_records)
  have "snd (AddBlob sample_lock ''raw'' [] [] (sample_blob ''x-1.1.tgz'' CHR ''b'') ''x'' ''1.1'') = Inr True"
    by code_simp
  then show "AddBlob sample_lock ''raw'' [] [] (sample_blob ''x-1.1.tgz'' CHR ''b'') ''x'' ''1.1'' =
      (fst (AddBlob sample_lock ''raw'' [] [] (sample_blob ''x-1.1.tgz'' CHR ''b'') ''x'' ''1.1''), Inr True)"
    by (simp add: prod_eq_iff)
qed

text \<open>
  The bytes of a version are immutable: an addition whose filename or artifact coordinate is taken by
  other bytes of the same version is refused, and a refused addition leaves the lock untouched.
\<close>

theorem add_blob_refuses_rebinding:
  assumes "For format = Inr f" and "validatePlacementCoordinates format (default_track track) distro = None"
    and "path_base (blob_Filename b) = blob_Filename b" and "blob_Filename b \<noteq> []"
    and "first_index (is_version p v) (lock_PackageVersion lock) = Some i"
    and "e \<in> set (pv_Blobs (lock_PackageVersion lock ! i))"
    and "blob_Filename e = blob_Filename b \<or> blob_coordinate f e = blob_coordinate f b"
    and "\<forall>e \<in> set (pv_Blobs (lock_PackageVersion lock ! i)).
      \<not> (blob_SHA256 e = blob_SHA256 b \<and> blob_Filename e = blob_Filename b)"
  shows "AddBlob lock format track distro b p v = (lock, Inl (BoundToDifferentBytes p v))"
proof -
  have "check_blobs f p v b (pv_Blobs (lock_PackageVersion lock ! i)) = Inl (BoundToDifferentBytes p v)"
    using assms(6-8) by (intro check_blobs_refuses) blast+
  then show ?thesis using assms(1-5) by (simp add: AddBlob_def Let_def default_track_def)
qed

theorem add_blob_refuses_rebinding_witness:
  "AddBlob sample_lock ''raw'' ''stable'' [] (sample_blob ''x-1.0.tgz'' CHR ''b'') ''x'' ''1.0''
    = (sample_lock, Inl (BoundToDifferentBytes ''x'' ''1.0''))"
proof (rule add_blob_refuses_rebinding [where i = 0 and f = RawFormat and e = "sample_blob ''x-1.0.tgz'' CHR ''a''"])
  let ?b = "sample_blob ''x-1.0.tgz'' CHR ''b''" and ?e = "sample_blob ''x-1.0.tgz'' CHR ''a''"
  show "For ''raw'' = Inr RawFormat" by code_simp
  show "validatePlacementCoordinates ''raw'' (default_track ''stable'') [] = None" by code_simp
  show "path_base (blob_Filename ?b) = blob_Filename ?b" by code_simp
  show "blob_Filename ?b \<noteq> []" by code_simp
  show "first_index (is_version ''x'' ''1.0'') (lock_PackageVersion sample_lock) = Some 0" by code_simp
  show "?e \<in> set (pv_Blobs (lock_PackageVersion sample_lock ! 0))" by (simp add: sample_lock_def draft_version_def)
  show "blob_Filename ?e = blob_Filename ?b \<or> blob_coordinate RawFormat ?e = blob_coordinate RawFormat ?b" by code_simp
  show "\<forall>e \<in> set (pv_Blobs (lock_PackageVersion sample_lock ! 0)).
      \<not> (blob_SHA256 e = blob_SHA256 ?b \<and> blob_Filename e = blob_Filename ?b)" by code_simp
qed

text \<open>
  Yanking removes exactly the placements it selects, reports how many they were, keeps all others,
  and keeps the record of every version and its artifacts.
\<close>

theorem yank_removes_only_placements:
  assumes "YankPlacements lock format p v track distro every = (lock', Inr removed)"
  shows "mset (lock_Placement lock') = filter_mset (\<lambda>pl. \<not> yank_matches p v track distro every pl) (mset (lock_Placement lock)) \<and>
    removed = size (filter_mset (yank_matches p v track distro every) (mset (lock_Placement lock))) \<and>
    (\<forall>p' v' b. recorded lock' p' v' b = recorded lock p' v' b)"
proof -
  have "lock' = canonicalizeLock (lock\<lparr>lock_Placement :=
        filter (\<lambda>pl. \<not> yank_matches p v track distro every pl) (lock_Placement lock)\<rparr>)"
    and "removed = length (filter (yank_matches p v track distro every) (lock_Placement lock))"
    using assms by (auto simp: YankPlacements_def Let_def split: option.splits if_splits)
  then show ?thesis
    by (auto simp: recorded_def is_version_def simp flip: mset_filter size_mset)
qed

theorem yank_removes_only_placements_witness:
  "let lock' = fst (YankPlacements sample_lock ''raw'' ''x'' ''1.0'' [] [] True) in
    mset (lock_Placement lock') = filter_mset (\<lambda>pl. \<not> yank_matches ''x'' ''1.0'' [] [] True pl) (mset (lock_Placement sample_lock)) \<and>
    1 = size (filter_mset (yank_matches ''x'' ''1.0'' [] [] True) (mset (lock_Placement sample_lock))) \<and>
    (\<forall>p' v' b. recorded lock' p' v' b = recorded sample_lock p' v' b)"
  unfolding Let_def
proof (rule yank_removes_only_placements)
  have "snd (YankPlacements sample_lock ''raw'' ''x'' ''1.0'' [] [] True) = Inr 1" by code_simp
  then show "YankPlacements sample_lock ''raw'' ''x'' ''1.0'' [] [] True =
      (fst (YankPlacements sample_lock ''raw'' ''x'' ''1.0'' [] [] True), Inr 1)"
    by (simp add: prod_eq_iff)
qed

text \<open>
  Canonical order is idempotent and loses nothing: it permutes versions, the blobs of each version,
  and placements, and a lock validates exactly when its canonical form does.
\<close>

theorem canonicalize_lossless:
  "canonicalizeLock (canonicalizeLock lock) = canonicalizeLock lock \<and>
   mset (lock_PackageVersion (canonicalizeLock lock)) = image_mset sort_blobs (mset (lock_PackageVersion lock)) \<and>
   mset (lock_Placement (canonicalizeLock lock)) = mset (lock_Placement lock) \<and>
   (ValidateLock lib (canonicalizeLock lock) repository format = None) = (ValidateLock lib lock repository format = None)"
proof -
  have idem: "sort_key k (sort_key k xs) = sort_key k xs" for k :: "'x \<Rightarrow> 'y::linorder" and xs
    by (rule sort_key_id_if_sorted) (rule sorted_sort_key)
  have s: "sort_blobs (sort_blobs pv) = sort_blobs pv" for pv by (simp add: sort_blobs_def idem)
  have "map sort_blobs (sort_key version_key (map sort_blobs pvs)) = sort_key version_key (map sort_blobs pvs)" for pvs
    by (rule map_idI) (auto simp: s)
  then have "canonicalizeLock (canonicalizeLock lock) = canonicalizeLock lock"
    by (simp add: canonicalizeLock_def idem)
  then show ?thesis by (simp only: ValidateLock_canonicalize) simp
qed

end
