(* ===== verification/Prune.thy ===== *)
theory Prune
  imports Lock_Safety
begin

section \<open>Retention\<close>

text \<open>
  \<^verbatim>\<open>PrunePlacements\<close> of \<^verbatim>\<open>internal/state/prune.go\<close>: the placements of a lock fall into partitions by
  package, track and distribution; each is put in descending version order by insertion, and the
  placements below the last version to keep are removed. The insertion sort and the cut-off are
  verified against the laws of the locale \<open>version_comparator\<close> only, so the result holds for every
  format's comparator.
\<close>

type_synonym partition = "gostring \<times> gostring \<times> gostring"

datatype 'e prune_error = KeepTooSmall | ComparatorRequired | CompareFailed partition gostring gostring 'e

definition partition_of :: "Placement \<Rightarrow> partition" where
  "partition_of pl = (pl_Package pl, pl_Track pl, pl_Distro pl)"

text \<open>
  One pass of the inner loop: the version at the cursor moves towards the front of the sorted prefix,
  which is given from its end, until it meets one it must not pass.
\<close>

fun sift :: "partition \<Rightarrow> (gostring \<Rightarrow> gostring \<Rightarrow> 'e + int) \<Rightarrow> gostring \<Rightarrow> gostring list
    \<Rightarrow> 'e prune_error + gostring list" where
  "sift part compare x [] = Inr [x]"
| "sift part compare x (y # ys) = (case compare x y of Inl e \<Rightarrow> Inl (CompareFailed part x y e)
     | Inr comparison \<Rightarrow>
       if comparison < 0 \<or> (comparison = 0 \<and> y \<le> x) then Inr (x # y # ys)
       else (case sift part compare x ys of Inl e \<Rightarrow> Inl e | Inr zs \<Rightarrow> Inr (y # zs)))"

fun sort_loop :: "partition \<Rightarrow> (gostring \<Rightarrow> gostring \<Rightarrow> 'e + int) \<Rightarrow> gostring list \<Rightarrow> gostring list
    \<Rightarrow> 'e prune_error + gostring list" where
  "sort_loop part compare acc [] = Inr (rev acc)"
| "sort_loop part compare acc (x # xs) = (case sift part compare x acc of Inl e \<Rightarrow> Inl e
     | Inr acc' \<Rightarrow> sort_loop part compare acc' xs)"

fun below_cutoff :: "partition \<Rightarrow> (gostring \<Rightarrow> gostring \<Rightarrow> 'e + int) \<Rightarrow> gostring \<Rightarrow> gostring list
    \<Rightarrow> 'e prune_error + gostring list" where
  "below_cutoff part compare cutoff [] = Inr []"
| "below_cutoff part compare cutoff (v # vs) = (case compare v cutoff of
       Inl e \<Rightarrow> Inl (CompareFailed part v cutoff e)
     | Inr comparison \<Rightarrow> (case below_cutoff part compare cutoff vs of Inl e \<Rightarrow> Inl e
         | Inr rest \<Rightarrow> Inr (if comparison \<noteq> 0 then v # rest else rest)))"

definition partition_versions :: "Placement list \<Rightarrow> partition \<Rightarrow> gostring list" where
  "partition_versions pls part = map pl_Version (filter (\<lambda>pl. partition_of pl = part) pls)"

definition prune_partition :: "nat \<Rightarrow> (gostring \<Rightarrow> gostring \<Rightarrow> 'e + int) \<Rightarrow> Placement list \<Rightarrow> partition
    \<Rightarrow> 'e prune_error + gostring list" where
  "prune_partition keep compare pls part =
     (case sort_loop part compare [] (partition_versions pls part) of Inl e \<Rightarrow> Inl e
      | Inr versions \<Rightarrow>
        if length versions \<le> keep then Inr []
        else below_cutoff part compare (versions ! (keep - 1)) (drop keep versions))"

fun prune_partitions :: "nat \<Rightarrow> (gostring \<Rightarrow> gostring \<Rightarrow> 'e + int) \<Rightarrow> Placement list \<Rightarrow> partition list
    \<Rightarrow> 'e prune_error + (partition \<times> gostring) list" where
  "prune_partitions keep compare pls [] = Inr []"
| "prune_partitions keep compare pls (part # parts) =
     (case prune_partition keep compare pls part of Inl e \<Rightarrow> Inl e
      | Inr vs \<Rightarrow> (case prune_partitions keep compare pls parts of Inl e \<Rightarrow> Inl e
          | Inr rest \<Rightarrow> Inr (map (Pair part) vs @ rest)))"

definition PrunePlacements :: "RepositoryLock \<Rightarrow> int \<Rightarrow> (gostring \<Rightarrow> gostring \<Rightarrow> 'e + int) option
    \<Rightarrow> RepositoryLock \<times> ('e prune_error + nat)" where
  "PrunePlacements lock keep comparator =
     (if keep < 1 then (lock, Inl KeepTooSmall)
      else case comparator of None \<Rightarrow> (lock, Inl ComparatorRequired)
      | Some compare \<Rightarrow>
        let pls = lock_Placement lock;
            partitionNames = sort (remdups (map partition_of pls))
        in case prune_partitions (nat keep) compare pls partitionNames of Inl e \<Rightarrow> (lock, Inl e)
        | Inr remove \<Rightarrow>
          if remove = [] then (lock, Inr 0)
          else let gone = (\<lambda>pl. (partition_of pl, pl_Version pl) \<in> set remove) in
            (canonicalizeLock (lock\<lparr>lock_Placement := filter (\<lambda>pl. \<not> gone pl) pls\<rparr>),
             Inr (length (filter gone pls))))"

subsection \<open>Counting in a sorted list\<close>

lemma takeWhile_sorted:
  assumes "sorted_wrt r vs" and "\<And>a b. a \<in> set vs \<Longrightarrow> b \<in> set vs \<Longrightarrow> r a b \<Longrightarrow> P b \<Longrightarrow> P a"
  shows "filter P vs = takeWhile P vs"
  using assms
proof (induction vs)
  case (Cons x vs)
  have "filter P vs = []" if "\<not> P x" using Cons.prems that by (auto simp: filter_empty_conv)
  moreover have "filter P vs = takeWhile P vs" using Cons.prems by (intro Cons.IH) auto
  ultimately show ?case by simp
qed simp

lemma length_takeWhile_ge:
  "k \<le> length (takeWhile P vs) \<longleftrightarrow> k \<le> length vs \<and> (\<forall>i < k. P (vs ! i))"
proof (induction vs arbitrary: k)
  case (Cons x vs)
  show ?case
  proof (cases k)
    case (Suc n)
    then show ?thesis using Cons.IH [of n] by (auto simp: All_less_Suc2)
  qed simp
qed auto

lemma cutoff_count:
  assumes c: "comparator_on S c" and S: "set vs \<subseteq> S" and sorted: "sorted_wrt (\<lambda>a b. c b a \<le> 0) vs"
    and k: "1 \<le> k" "k < length vs" and w: "w \<in> set vs"
  shows "(w \<in> set (drop k vs) \<and> c w (vs ! (k - 1)) \<noteq> 0) \<longleftrightarrow> k \<le> length (filter (\<lambda>x. c w x < 0) vs)"
proof -
  let ?P = "\<lambda>x. c w x < 0" and ?cut = "vs ! (k - 1)"
  have cut: "?cut \<in> set vs" using k by simp
  have mono: "?P a" if "a \<in> set vs" "b \<in> set vs" "c b a \<le> 0" "?P b" for a b
    using comparator_trans_less [OF c, of w b a] that w S by auto
  have "k \<le> length (filter ?P vs) \<longleftrightarrow> (\<forall>i < k. ?P (vs ! i))"
    using takeWhile_sorted [OF sorted, of ?P] mono length_takeWhile_ge [of k ?P vs] k by simp
  also have "\<dots> \<longleftrightarrow> ?P ?cut"
  proof
    assume cutP: "?P ?cut"
    have "?P (vs ! i)" if "i < k" for i
    proof (cases "i = k - 1")
      case False
      then have "c ?cut (vs ! i) \<le> 0" using sorted_wrt_nth_less [OF sorted, of i "k - 1"] that k by simp
      then show ?thesis using mono [of "vs ! i" ?cut] cut cutP that k by simp
    qed (use cutP in simp)
    then show "\<forall>i < k. ?P (vs ! i)" by blast
  qed (use k in simp)
  also have "\<dots> \<longleftrightarrow> w \<in> set (drop k vs) \<and> c w ?cut \<noteq> 0"
  proof
    assume cutP: "?P ?cut"
    have "w \<notin> set (take k vs)"
    proof
      assume "w \<in> set (take k vs)"
      then obtain i where i: "i < k" "i < length vs" "vs ! i = w" by (auto simp: in_set_conv_nth)
      then have "c ?cut w \<le> 0"
        using sorted_wrt_nth_less [OF sorted, of i "k - 1"] comparator_refl [OF c, of w] k w S by (cases "i = k - 1") auto
      moreover have "c ?cut w = - c w ?cut" using comparator_flip [OF c, of w ?cut] w cut S by blast
      ultimately show False using cutP by simp
    qed
    then show "w \<in> set (drop k vs) \<and> c w ?cut \<noteq> 0" using w cutP
      by (metis Un_iff append_take_drop_id less_irrefl set_append)
  next
    assume drop: "w \<in> set (drop k vs) \<and> c w ?cut \<noteq> 0"
    then obtain j where "j < length vs - k" "drop k vs ! j = w" by (auto simp: in_set_conv_nth)
    then have "c w ?cut \<le> 0" using sorted_wrt_nth_less [OF sorted, of "k - 1" "k + j"] k by simp
    then show "?P ?cut" using drop by simp
  qed
  finally show ?thesis by simp
qed

text \<open>How many placements of its partition are strictly newer than a placement.\<close>

definition newer :: "(gostring \<Rightarrow> gostring \<Rightarrow> 'e + int) \<Rightarrow> Placement list \<Rightarrow> Placement \<Rightarrow> nat" where
  "newer compare pls pl = length (filter (\<lambda>q. partition_of q = partition_of pl \<and>
     version_cmp compare (pl_Version pl) (pl_Version q) < 0) pls)"

subsection \<open>The loops against the comparator's contract\<close>

context version_comparator
begin

abbreviation vcmp :: "gostring \<Rightarrow> gostring \<Rightarrow> int" where
  "vcmp \<equiv> version_cmp compare"

lemma sift_correct:
  assumes "\<forall>v \<in> set (x # ys). valid v" and "sorted_wrt (\<lambda>a b. vcmp a b \<le> 0) ys"
  shows "\<exists>zs. sift part compare x ys = Inr zs \<and> mset zs = add_mset x (mset ys) \<and> sorted_wrt (\<lambda>a b. vcmp a b \<le> 0) zs"
  using assms
proof (induction ys)
  case (Cons y ys)
  have cmp: "compare x y = Inr (vcmp x y)" using Cons.prems(1) compare_Inr by simp
  obtain zs where zs: "sift part compare x ys = Inr zs" "mset zs = add_mset x (mset ys)"
      "sorted_wrt (\<lambda>a b. vcmp a b \<le> 0) zs"
    using Cons by auto
  show ?case
  proof (cases "vcmp x y < 0 \<or> (vcmp x y = 0 \<and> y \<le> x)")
    case True
    have "vcmp x z \<le> 0" if "z \<in> set ys" for z
      using comparator_trans [OF compare_laws, of x y z] Cons.prems that True by auto
    then show ?thesis using True cmp Cons.prems(2) by auto
  next
    case False
    have "vcmp y x \<le> 0" using False comparator_ge [OF compare_laws, of x y] Cons.prems(1) by auto
    moreover have "set zs = insert x (set ys)" using zs(2) by (metis set_mset_add_mset_insert set_mset_mset)
    ultimately show ?thesis using False cmp zs Cons.prems(2) by auto
  qed
qed simp

lemma sort_loop_correct:
  assumes "\<forall>v \<in> set (acc @ xs). valid v" and "sorted_wrt (\<lambda>a b. vcmp a b \<le> 0) acc"
  shows "\<exists>vs. sort_loop part compare acc xs = Inr vs \<and> mset vs = mset (acc @ xs) \<and>
    sorted_wrt (\<lambda>a b. vcmp b a \<le> 0) vs"
  using assms
proof (induction xs arbitrary: acc)
  case Nil
  then show ?case by (simp add: sorted_wrt_rev)
next
  case (Cons x xs)
  obtain zs where zs: "sift part compare x acc = Inr zs" "mset zs = add_mset x (mset acc)"
      "sorted_wrt (\<lambda>a b. vcmp a b \<le> 0) zs"
    using sift_correct [of x acc part] Cons.prems by auto
  have "set zs = insert x (set acc)" using zs(2) by (metis set_mset_add_mset_insert set_mset_mset)
  then obtain vs where "sort_loop part compare zs xs = Inr vs" "mset vs = mset (zs @ xs)"
      "sorted_wrt (\<lambda>a b. vcmp b a \<le> 0) vs"
    using Cons.IH [of zs] Cons.prems zs(3) by auto
  then show ?case using zs by simp
qed

lemma below_cutoff_correct:
  "\<forall>v \<in> set (cutoff # vs). valid v \<Longrightarrow>
     below_cutoff part compare cutoff vs = Inr (filter (\<lambda>v. vcmp v cutoff \<noteq> 0) vs)"
  by (induction vs) (auto simp: compare_Inr)

lemma filter_partition_versions:
  "length (filter P (partition_versions pls part)) = length (filter (\<lambda>q. partition_of q = part \<and> P (pl_Version q)) pls)"
  by (induction pls) (auto simp: partition_versions_def)

lemma prune_partition_correct:
  assumes "\<forall>pl \<in> set pls. valid (pl_Version pl)" and "1 \<le> keep"
  shows "\<exists>vs. prune_partition keep compare pls part = Inr vs \<and>
    (\<forall>pl \<in> set pls. partition_of pl = part \<longrightarrow> (pl_Version pl \<in> set vs \<longleftrightarrow> keep \<le> newer compare pls pl)) \<and>
    set vs \<subseteq> set (partition_versions pls part)"
proof -
  have valid: "\<forall>v \<in> set (partition_versions pls part). valid v" using assms(1) by (auto simp: partition_versions_def)
  obtain vs where vs: "sort_loop part compare [] (partition_versions pls part) = Inr vs"
      "mset vs = mset (partition_versions pls part)" "sorted_wrt (\<lambda>a b. vcmp b a \<le> 0) vs"
    using sort_loop_correct [of "[]" "partition_versions pls part" part] valid by auto
  have set: "set vs = set (partition_versions pls part)" using vs(2) by (metis set_mset_mset)
  have newer: "newer compare pls pl = length (filter (\<lambda>x. vcmp (pl_Version pl) x < 0) vs)" if "partition_of pl = part" for pl
  proof -
    have "length (filter P vs) = length (filter P (partition_versions pls part))" for P
      using vs(2) by (metis mset_filter size_mset)
    then show ?thesis using filter_partition_versions [of "\<lambda>x. vcmp (pl_Version pl) x < 0" pls part] that
      by (simp add: newer_def)
  qed
  have mem: "pl_Version pl \<in> set vs" if "pl \<in> set pls" "partition_of pl = part" for pl
    using that by (auto simp: set partition_versions_def)
  show ?thesis
  proof (cases "length vs \<le> keep")
    case True
    have "\<not> keep \<le> newer compare pls pl" if "pl \<in> set pls" "partition_of pl = part" for pl
    proof -
      have "vcmp (pl_Version pl) (pl_Version pl) = 0" using comparator_refl [OF compare_laws] assms(1) that(1) by simp
      then have "length (filter (\<lambda>x. vcmp (pl_Version pl) x < 0) vs) < length vs"
        using mem [OF that] by (intro length_filter_less [of "pl_Version pl"]) simp_all
      then show ?thesis using newer [OF that(2)] True by simp
    qed
    then show ?thesis using True vs(1) by (auto simp: prune_partition_def)
  next
    case False
    let ?cut = "vs ! (keep - 1)"
    have cut: "?cut \<in> set vs" using False by simp
    have below: "below_cutoff part compare ?cut (drop keep vs) = Inr (filter (\<lambda>v. vcmp v ?cut \<noteq> 0) (drop keep vs))"
      using valid set cut by (intro below_cutoff_correct) (auto dest: in_set_dropD)
    have "pl_Version pl \<in> set (filter (\<lambda>v. vcmp v ?cut \<noteq> 0) (drop keep vs)) \<longleftrightarrow> keep \<le> newer compare pls pl"
      if "pl \<in> set pls" "partition_of pl = part" for pl
      using cutoff_count [OF compare_laws _ vs(3) assms(2), of "pl_Version pl"] valid set mem [OF that]
        newer [OF that(2)] False by auto
    then show ?thesis using False vs(1) below set by (auto simp: prune_partition_def dest: in_set_dropD)
  qed
qed

lemma prune_partitions_correct:
  assumes "\<forall>pl \<in> set pls. valid (pl_Version pl)" and "1 \<le> keep"
  shows "\<exists>remove. prune_partitions keep compare pls parts = Inr remove \<and>
    (\<forall>pl \<in> set pls. partition_of pl \<in> set parts \<longrightarrow>
      ((partition_of pl, pl_Version pl) \<in> set remove \<longleftrightarrow> keep \<le> newer compare pls pl)) \<and> fst ` set remove \<subseteq> set parts \<and>
    (remove \<noteq> [] \<longrightarrow> (\<exists>pl \<in> set pls. (partition_of pl, pl_Version pl) \<in> set remove))"
proof (induction parts)
  case (Cons part parts)
  obtain remove where rest: "prune_partitions keep compare pls parts = Inr remove"
    "\<forall>pl \<in> set pls. partition_of pl \<in> set parts \<longrightarrow>
      ((partition_of pl, pl_Version pl) \<in> set remove \<longleftrightarrow> keep \<le> newer compare pls pl)" "fst ` set remove \<subseteq> set parts"
    "remove \<noteq> [] \<longrightarrow> (\<exists>pl \<in> set pls. (partition_of pl, pl_Version pl) \<in> set remove)"
    using Cons.IH by blast
  obtain vs where vs: "prune_partition keep compare pls part = Inr vs"
    "\<forall>pl \<in> set pls. partition_of pl = part \<longrightarrow> (pl_Version pl \<in> set vs \<longleftrightarrow> keep \<le> newer compare pls pl)"
    "set vs \<subseteq> set (partition_versions pls part)"
    using prune_partition_correct [OF assms] by blast
  have "\<exists>pl \<in> set pls. (partition_of pl, pl_Version pl) \<in> set (map (Pair part) vs @ remove)"
    if "map (Pair part) vs @ remove \<noteq> []"
  proof (cases vs)
    case (Cons v vs')
    then have "v \<in> set (partition_versions pls part)" using vs(3) by auto
    then obtain pl where "pl \<in> set pls" "partition_of pl = part" "pl_Version pl = v"
      by (auto simp: partition_versions_def)
    then show ?thesis using Cons by (intro bexI [of _ pl]) auto
  qed (use rest(4) that in auto)
  moreover have "(partition_of pl, pl_Version pl) \<in> set (map (Pair part) vs @ remove) \<longleftrightarrow> keep \<le> newer compare pls pl"
    if "pl \<in> set pls" "partition_of pl \<in> set (part # parts)" for pl
    using that rest(2,3) vs(2) by (cases "partition_of pl = part"; cases "partition_of pl \<in> set parts") force+
  ultimately show ?case using rest vs by auto
qed simp

lemma prune_correct:
  assumes "\<forall>pl \<in> set (lock_Placement lock). valid (pl_Version pl)" and "1 \<le> keep"
  shows "\<exists>lock'. PrunePlacements lock keep (Some compare) =
      (lock', Inr (length (filter (\<lambda>pl. nat keep \<le> newer compare (lock_Placement lock) pl) (lock_Placement lock)))) \<and>
    mset (lock_Placement lock') = mset (filter (\<lambda>pl. newer compare (lock_Placement lock) pl < nat keep) (lock_Placement lock)) \<and>
    (lock' = lock \<or> lock' = canonicalizeLock (lock\<lparr>lock_Placement :=
       filter (\<lambda>pl. newer compare (lock_Placement lock) pl < nat keep) (lock_Placement lock)\<rparr>))"
proof -
  let ?pls = "lock_Placement lock" and ?gone = "\<lambda>pl. nat keep \<le> newer compare (lock_Placement lock) pl"
  let ?parts = "sort (remdups (map partition_of ?pls))"
  have parts: "partition_of pl \<in> set ?parts" if "pl \<in> set ?pls" for pl using that by simp
  have keep: "1 \<le> nat keep" using assms(2) by simp
  obtain remove where r: "prune_partitions (nat keep) compare ?pls ?parts = Inr remove \<and>
    (\<forall>pl \<in> set ?pls. partition_of pl \<in> set ?parts \<longrightarrow>
      ((partition_of pl, pl_Version pl) \<in> set remove \<longleftrightarrow> ?gone pl)) \<and> fst ` set remove \<subseteq> set ?parts \<and>
    (remove \<noteq> [] \<longrightarrow> (\<exists>pl \<in> set ?pls. (partition_of pl, pl_Version pl) \<in> set remove))"
    using prune_partitions_correct [OF assms(1) keep, of ?parts] by (elim exE)
  have remove: "prune_partitions (nat keep) compare ?pls ?parts = Inr remove" using r by (rule conjunct1)
  have gone_iff: "(partition_of pl, pl_Version pl) \<in> set remove \<longleftrightarrow> ?gone pl" if "pl \<in> set ?pls" for pl
    using conjunct1 [OF conjunct2 [OF r]] parts [OF that] that by blast
  have gone: "filter (\<lambda>pl. (partition_of pl, pl_Version pl) \<in> set remove) ?pls = filter ?gone ?pls"
    "filter (\<lambda>pl. (partition_of pl, pl_Version pl) \<notin> set remove) ?pls
      = filter (\<lambda>pl. newer compare ?pls pl < nat keep) ?pls"
    using gone_iff by (auto intro!: filter_cong simp: not_le)
  show ?thesis
  proof (cases "remove = []")
    case True
    then have "filter ?gone ?pls = []" "filter (\<lambda>pl. newer compare ?pls pl < nat keep) ?pls = ?pls"
      using gone by simp_all
    then show ?thesis using True remove assms(2) by (intro exI [of _ lock]) (simp add: PrunePlacements_def Let_def)
  next
    case False
    then show ?thesis using remove gone assms(2) by (simp add: PrunePlacements_def Let_def)
  qed
qed

end

subsection \<open>Retention is a lock operation\<close>

lemma PrunePlacements_cases:
  assumes "PrunePlacements lock keep comparator = (lock', r)"
  shows "lock' = lock \<or> (\<exists>p. lock' = canonicalizeLock (lock\<lparr>lock_Placement := filter p (lock_Placement lock)\<rparr>))"
  using assms by (auto simp: PrunePlacements_def Let_def split: if_splits option.splits sum.splits)

interpretation prune: lock_operation "\<lambda>lock. PrunePlacements lock keep comparator" "\<lambda>lib selected. True"
  for keep comparator
proof
  fix lock lock' :: RepositoryLock and r :: "'a prune_error + nat" and e lib selected
  show "lock' = lock" if "PrunePlacements lock keep comparator = (lock', Inl e)"
    using that by (auto simp: PrunePlacements_def Let_def split: if_splits option.splits sum.splits)
  show "lock_SchemaVersion lock' = lock_SchemaVersion lock \<and> lock_Repository lock' = lock_Repository lock"
    if "PrunePlacements lock keep comparator = (lock', r)"
    using PrunePlacements_cases [OF that] by auto
  show "lock_ok lib selected lock' \<and> lock_nul_free lock'"
    if run: "PrunePlacements lock keep comparator = (lock', Inr x)"
      and ok: "lock_ok lib selected lock" "lock_nul_free lock" for x
  proof -
    have "lock_ok lib selected (lock\<lparr>lock_Placement := filter p (lock_Placement lock)\<rparr>)"
      "lock_nul_free (lock\<lparr>lock_Placement := filter p (lock_Placement lock)\<rparr>)" for p
      using ok by (auto simp: lock_ok_def lock_nul_free_def distinct_map_filter)
    then show ?thesis using PrunePlacements_cases [OF run] ok by (auto simp del: canonicalize_simps)
  qed
qed

subsection \<open>Properties\<close>

text \<open>
  C24: for every format, retention of at least one version over versions the format accepts (for apk with
  numbers below \<open>2 ^ 63\<close>, for PyPI in ASCII, and given a SemVer comparison that is a total preorder) always
  succeeds, and it removes exactly the placements that have at least \<open>keep\<close> placements of their own package, track and
  distribution with a strictly greater version; all others stay, ties included.
\<close>

theorem prune_keeps_newest:
  assumes "comparator_on UNIV semCompare" and "1 \<le> keep"
    and "\<forall>pl \<in> set (lock_Placement lock). valid_version newVersion f (pl_Version pl)"
  shows "\<exists>lock' removed. PrunePlacements lock keep (Some (CompareVersions newVersion semCompare f)) = (lock', Inr removed) \<and>
    mset (lock_Placement lock') = filter_mset
      (\<lambda>pl. newer (CompareVersions newVersion semCompare f) (lock_Placement lock) pl < nat keep) (mset (lock_Placement lock)) \<and>
    removed + length (lock_Placement lock') = length (lock_Placement lock)"
proof -
  let ?P = "\<lambda>pl. newer (CompareVersions newVersion semCompare f) (lock_Placement lock) pl < nat keep"
  let ?pls = "lock_Placement lock"
  obtain lock' where run: "PrunePlacements lock keep (Some (CompareVersions newVersion semCompare f)) =
      (lock', Inr (length (filter (\<lambda>pl. \<not> ?P pl) ?pls)))" and ms: "mset (lock_Placement lock') = mset (filter ?P ?pls)"
    using version_comparator.prune_correct [OF format_version_comparator [OF assms(1)] assms(3,2)]
    by (auto simp: not_less)
  have "length (filter (\<lambda>pl. \<not> ?P pl) ?pls) + length (lock_Placement lock') = length ?pls"
    using ms sum_length_filter_compl [of ?P ?pls] by (metis add.commute size_mset)
  then show ?thesis using run ms by auto
qed

definition three_versions :: RepositoryLock where
  "three_versions = \<lparr>lock_SchemaVersion = 2, lock_Repository = ''tools'', lock_PackageVersion = [],
     lock_Placement = map (\<lambda>v. placement_of ''x'' v ''stable'' ''bookworm'') [''1.9'', ''1.10'', ''1.10~rc1'']\<rparr>"

theorem prune_keeps_newest_witness:
  "\<exists>lock' removed. PrunePlacements three_versions 1 (Some (CompareVersions parse_int_version cmp3 DebFormat)) = (lock', Inr removed) \<and>
    mset (lock_Placement lock') = filter_mset
      (\<lambda>pl. newer (CompareVersions parse_int_version cmp3 DebFormat) (lock_Placement three_versions) pl < nat 1)
      (mset (lock_Placement three_versions)) \<and>
    removed + length (lock_Placement lock') = length (lock_Placement three_versions)"
proof (rule prune_keeps_newest [OF comparator_cmp3])
  show "\<forall>pl \<in> set (lock_Placement three_versions). valid_version parse_int_version DebFormat (pl_Version pl)"
    by code_simp
qed simp

text \<open>
  A retention run, whatever the comparator answers, leaves a valid lock valid, and when it fails it
  leaves the lock untouched.
\<close>

theorem prune_keeps_validity:
  assumes "ValidateLock lib lock repository format = None" and "lock_nul_free lock"
  shows "ValidateLock lib (fst (PrunePlacements lock keep comparator)) repository format = None \<and>
    (\<forall>e. snd (PrunePlacements lock keep comparator) = Inl e \<longrightarrow> fst (PrunePlacements lock keep comparator) = lock)"
  using prune.validity_kept [OF TrueI assms] prune.error_unchanged by (metis prod.collapse)

theorem prune_keeps_validity_witness:
  "ValidateLock sample_lib (fst (PrunePlacements sample_lock 1 (Some deb_CompareVersions))) ''tools'' ''raw'' = None"
  by (rule prune_keeps_validity [OF sample_lock_valid, THEN conjunct1])

end
