(* ===== verification/Ledger.thy ===== *)
theory Ledger
  imports Lock_Safety
begin

section \<open>The publication ledger\<close>

text \<open>
  \<^verbatim>\<open>internal/state/ledger.go\<close>: the append-only record of which bytes were published under which name,
  its validation against a lock, the records an apply adds, the replay of the ledger's Git history and
  the guarded rewrite of the ledger file. Parsing of timestamps, the JSON encoding of a record and the
  objects Git returns are arguments.
\<close>

datatype ledger_error = UnsupportedLedgerSchema | InvalidRecord | InvalidBlobBinding | InvalidTimestamp
  | DuplicateRecordKey | ConflictingBinding gostring gostring | CannotChangeBytes gostring gostring
  | CannotBeRemoved gostring | NotIdempotent gostring | MissingObject | HistoryDuplicateKey
  | ChangedImmutableRecord | RemovedImmutableRecord | DiffersFromBase gostring | UndecodableLedger

subsection \<open>Records\<close>

definition publicationRecordKey :: "PublicationRecord \<Rightarrow> gostring" where
  "publicationRecordKey r = pr_PlanID r @ nul @ pr_ChangeID r @ nul @ pr_Package r @ nul @ pr_Version r"

fun equalStrings :: "gostring list \<Rightarrow> gostring list \<Rightarrow> bool" where
  "equalStrings [] [] = True"
| "equalStrings (l # ls) (r # rs) = (l = r \<and> equalStrings ls rs)"
| "equalStrings _ _ = False"

definition publicationRecordEqual :: "PublicationRecord \<Rightarrow> PublicationRecord \<Rightarrow> bool" where
  "publicationRecordEqual left right \<longleftrightarrow>
     pr_SchemaVersion left = pr_SchemaVersion right \<and> pr_PlanID left = pr_PlanID right \<and>
     pr_ChangeID left = pr_ChangeID right \<and> pr_Repository left = pr_Repository right \<and>
     pr_Package left = pr_Package right \<and> pr_Version left = pr_Version right \<and>
     pr_TreeSHA256 left = pr_TreeSHA256 right \<and> pr_RecordedAt left = pr_RecordedAt right \<and>
     equalStrings (pr_BlobSHA256 left) (pr_BlobSHA256 right)"

definition blobDigests :: "PackageVersion \<Rightarrow> gostring list" where
  "blobDigests pv = sort (map blob_SHA256 (pv_Blobs pv))"

text \<open>The digest loop: every digest valid and, past the first, above its predecessor.\<close>

fun digests_increasing :: "gostring \<Rightarrow> gostring list \<Rightarrow> bool" where
  "digests_increasing previous [] = True"
| "digests_increasing previous (d # ds) =
     (ValidSHA256 d \<and> \<not> (previous \<noteq> [] \<and> d \<le> previous) \<and> digests_increasing d ds)"

definition validatePublicationRecord :: "(gostring \<Rightarrow> int option) \<Rightarrow> PublicationRecord \<Rightarrow> gostring \<Rightarrow> ledger_error option" where
  "validatePublicationRecord parseTime r repository =
     (if pr_SchemaVersion r \<noteq> LedgerSchema then Some UnsupportedLedgerSchema
      else if pr_Repository r = [] \<or> (repository \<noteq> [] \<and> pr_Repository r \<noteq> repository) \<or>
        \<not> ValidSHA256 (pr_PlanID r) \<or> \<not> ValidSHA256 (pr_TreeSHA256 r) \<or>
        pr_ChangeID r \<noteq> pr_Repository r @ '':'' @ take 12 (pr_TreeSHA256 r) \<or>
        pr_Package r = [] \<or> pr_Version r = [] \<or> pr_BlobSHA256 r = []
      then Some InvalidRecord
      else if \<not> digests_increasing [] (pr_BlobSHA256 r) then Some InvalidBlobBinding
      else if parseTime (pr_RecordedAt r) = None then Some InvalidTimestamp
      else None)"

fun validate_history :: "(gostring \<Rightarrow> int option) \<Rightarrow> gostring \<Rightarrow> gostring list \<Rightarrow> PublicationRecord list \<Rightarrow> ledger_error option" where
  "validate_history parseTime repository seen [] = None"
| "validate_history parseTime repository seen (r # rs) =
     (case validatePublicationRecord parseTime r repository of Some e \<Rightarrow> Some e
      | None \<Rightarrow> if publicationRecordKey r \<in> set seen then Some DuplicateRecordKey
        else validate_history parseTime repository (publicationRecordKey r # seen) rs)"

definition ValidatePublicationHistory :: "(gostring \<Rightarrow> int option) \<Rightarrow> gostring \<Rightarrow> PublicationRecord list \<Rightarrow> ledger_error option" where
  "ValidatePublicationHistory parseTime repository records = validate_history parseTime repository [] records"

subsection \<open>Bindings\<close>

text \<open>
  The map from versions to their published digests, newest entry first. A nil slice of the code is the
  empty list.
\<close>

fun record_bindings :: "(gostring \<times> gostring list) list \<Rightarrow> PublicationRecord list
    \<Rightarrow> ledger_error + (gostring \<times> gostring list) list" where
  "record_bindings bindings [] = Inr bindings"
| "record_bindings bindings (r # rs) =
     (let key = version_identity (pr_Package r) (pr_Version r); digests = sort (pr_BlobSHA256 r) in
      if (case map_of bindings key of None \<Rightarrow> False
          | Some existing \<Rightarrow> existing \<noteq> [] \<and> \<not> equalStrings existing digests)
      then Inl (ConflictingBinding (pr_Package r) (pr_Version r))
      else record_bindings ((key, digests) # bindings) rs)"

fun check_bindings :: "(gostring \<times> gostring list) list \<Rightarrow> PackageVersion list \<Rightarrow> ledger_error option" where
  "check_bindings bindings [] = None"
| "check_bindings bindings (pv # pvs) =
     (case map_of bindings (pv_identity pv) of
        Some published \<Rightarrow>
          if published \<noteq> [] \<and> \<not> equalStrings published (blobDigests pv)
          then Some (CannotChangeBytes (pv_Package pv) (pv_Version pv)) else check_bindings bindings pvs
      | None \<Rightarrow> check_bindings bindings pvs)"

definition ValidatePublishedBindings :: "RepositoryLock \<Rightarrow> PublicationRecord list \<Rightarrow> ledger_error option" where
  "ValidatePublishedBindings lock records =
     (case record_bindings [] records of Inl e \<Rightarrow> Some e
      | Inr bindings \<Rightarrow>
        (case check_bindings bindings (lock_PackageVersion lock) of Some e \<Rightarrow> Some e
         | None \<Rightarrow>
           map_option CannotBeRemoved
             (find (\<lambda>key. key \<notin> set (map pv_identity (lock_PackageVersion lock))) (sort (remdups (map fst bindings))))))"

subsection \<open>The records of an apply\<close>

definition candidate_record :: "gostring \<Rightarrow> gostring \<Rightarrow> gostring \<Rightarrow> gostring \<Rightarrow> gostring \<Rightarrow> PackageVersion \<Rightarrow> PublicationRecord" where
  "candidate_record repository planID changeID treeSHA recordedAt pv =
     \<lparr>pr_SchemaVersion = LedgerSchema, pr_PlanID = planID, pr_ChangeID = changeID, pr_Repository = repository,
      pr_Package = pv_Package pv, pr_Version = pv_Version pv, pr_BlobSHA256 = blobDigests pv,
      pr_TreeSHA256 = treeSHA, pr_RecordedAt = recordedAt\<rparr>"

fun append_records :: "(gostring \<Rightarrow> PublicationRecord option) \<Rightarrow> (PackageVersion \<Rightarrow> PublicationRecord) \<Rightarrow>
    PublicationRecord list \<Rightarrow> PackageVersion list \<Rightarrow> ledger_error + PublicationRecord list" where
  "append_records seen candidate records [] = Inr records"
| "append_records seen candidate records (pv # pvs) =
     (case seen (publicationRecordKey (candidate pv)) of
        Some previous \<Rightarrow>
          if \<not> publicationRecordEqual previous (candidate pv) then Inl (NotIdempotent (publicationRecordKey (candidate pv)))
          else append_records seen candidate records pvs
      | None \<Rightarrow> append_records seen candidate (records @ [candidate pv]) pvs)"

definition updatedPublicationRecords :: "PublicationRecord list \<Rightarrow> gostring \<Rightarrow> gostring \<Rightarrow> gostring \<Rightarrow> gostring \<Rightarrow> gostring
    \<Rightarrow> RepositoryLock \<Rightarrow> ledger_error + PublicationRecord list" where
  "updatedPublicationRecords existing repository planID changeID treeSHA recordedAt lock =
     append_records (map_of (rev (map (\<lambda>r. (publicationRecordKey r, r)) existing)))
       (candidate_record repository planID changeID treeSHA recordedAt) existing (lock_PackageVersion lock)"

subsection \<open>The file\<close>

fun encodeLedger :: "(PublicationRecord \<Rightarrow> gostring) \<Rightarrow> PublicationRecord list \<Rightarrow> gostring" where
  "encodeLedger marshal [] = []"
| "encodeLedger marshal (r # rs) = marshal r @ [CHR 0x0A] @ encodeLedger marshal rs"

text \<open>
  The lines \<^verbatim>\<open>bufio.Scanner\<close> yields: split at newlines, a last empty piece dropped, a trailing carriage
  return removed.
\<close>

definition scan_lines :: "gostring \<Rightarrow> gostring list" where
  "scan_lines content = (let pieces = split_on (CHR 0x0A) content in
     map (\<lambda>l. trim_suffix l [CHR 0x0D]) (if last pieces = [] then butlast pieces else pieces))"

fun parse_lines :: "(gostring \<Rightarrow> PublicationRecord option) \<Rightarrow> (gostring \<Rightarrow> int option) \<Rightarrow> gostring list
    \<Rightarrow> ledger_error + PublicationRecord list" where
  "parse_lines decode parseTime [] = Inr []"
| "parse_lines decode parseTime (l # ls) = (case decode l of None \<Rightarrow> Inl UndecodableLedger
     | Some r \<Rightarrow> (case validatePublicationRecord parseTime r [] of Some e \<Rightarrow> Inl e
       | None \<Rightarrow> (case parse_lines decode parseTime ls of Inl e \<Rightarrow> Inl e | Inr rs \<Rightarrow> Inr (r # rs))))"

definition parseLedger :: "(gostring \<Rightarrow> PublicationRecord option) \<Rightarrow> (gostring \<Rightarrow> int option) \<Rightarrow> gostring
    \<Rightarrow> ledger_error + PublicationRecord list" where
  "parseLedger decode parseTime content = parse_lines decode parseTime (scan_lines content)"

definition expectedPublicationLedger :: "(gostring \<Rightarrow> PublicationRecord option) \<Rightarrow> (PublicationRecord \<Rightarrow> gostring) \<Rightarrow>
    (gostring \<Rightarrow> int option) \<Rightarrow> gostring \<Rightarrow> gostring \<Rightarrow> gostring \<Rightarrow> gostring \<Rightarrow> gostring \<Rightarrow> gostring \<Rightarrow> RepositoryLock
    \<Rightarrow> ledger_error + gostring" where
  "expectedPublicationLedger decode marshal parseTime baseContent repository planID changeID treeSHA recordedAt lock =
     (case (if baseContent = [] then Inr [] else parseLedger decode parseTime baseContent) of Inl e \<Rightarrow> Inl e
      | Inr baseRecords \<Rightarrow>
        (case updatedPublicationRecords baseRecords repository planID changeID treeSHA recordedAt lock of Inl e \<Rightarrow> Inl e
         | Inr expected \<Rightarrow> Inr (encodeLedger marshal expected)))"

text \<open>
  The guarded rewrite: \<open>file\<close> is the ledger file, \<open>None\<close> when it does not exist, which reads as empty.
\<close>

definition PreparePublicationRecords :: "(gostring \<Rightarrow> PublicationRecord option) \<Rightarrow> (PublicationRecord \<Rightarrow> gostring) \<Rightarrow>
    (gostring \<Rightarrow> int option) \<Rightarrow> gostring \<Rightarrow> gostring \<Rightarrow> gostring \<Rightarrow> gostring \<Rightarrow> gostring \<Rightarrow> gostring \<Rightarrow> RepositoryLock
    \<Rightarrow> gostring option \<Rightarrow> gostring option \<times> ledger_error option" where
  "PreparePublicationRecords decode marshal parseTime baseContent repository planID changeID treeSHA recordedAt lock ledger =
     (case expectedPublicationLedger decode marshal parseTime baseContent repository planID changeID treeSHA recordedAt lock of
        Inl e \<Rightarrow> (ledger, Some e)
      | Inr expectedContent \<Rightarrow>
        let actualContent = (case ledger of None \<Rightarrow> [] | Some content \<Rightarrow> content) in
        if actualContent = expectedContent then (ledger, None)
        else if actualContent \<noteq> baseContent then (ledger, Some (DiffersFromBase repository))
        else (Some expectedContent, None))"

subsection \<open>Replay of the history\<close>

text \<open>
  One historical ledger: a duplicate key, a changed record, or the records not seen before appended to
  \<open>records\<close> and to \<open>every\<close>, the map of all records by key.
\<close>

fun replay_records :: "gostring list \<Rightarrow> PublicationRecord list \<Rightarrow> (gostring \<times> PublicationRecord) list \<Rightarrow> PublicationRecord list
    \<Rightarrow> ledger_error + PublicationRecord list \<times> (gostring \<times> PublicationRecord) list" where
  "replay_records keys records every [] = Inr (records, every)"
| "replay_records keys records every (r # rs) =
     (let key = publicationRecordKey r in
      if key \<in> set keys then Inl HistoryDuplicateKey
      else case map_of every key of
        Some existing \<Rightarrow> if \<not> publicationRecordEqual existing r then Inl ChangedImmutableRecord
          else replay_records (key # keys) records every rs
      | None \<Rightarrow> replay_records (key # keys) (records @ [r]) ((key, r) # every) rs)"

fun replay_objects :: "gostring list \<Rightarrow> PublicationRecord list \<Rightarrow> (gostring \<times> PublicationRecord) list \<Rightarrow>
    (gostring \<times> (ledger_error + PublicationRecord list)) list
    \<Rightarrow> ledger_error + PublicationRecord list \<times> (gostring \<times> PublicationRecord) list" where
  "replay_objects replayed records every [] = Inr (records, every)"
| "replay_objects replayed records every ((oid, parsed) # objects) =
     (if oid = [] then Inl MissingObject
      else if oid \<in> set replayed then replay_objects replayed records every objects
      else case parsed of Inl e \<Rightarrow> Inl e
        | Inr historical \<Rightarrow> (case replay_records [] records every historical of Inl e \<Rightarrow> Inl e
            | Inr (records', every') \<Rightarrow> replay_objects (oid # replayed) records' every' objects))"

fun index_current :: "(gostring \<times> PublicationRecord) list \<Rightarrow> PublicationRecord list
    \<Rightarrow> ledger_error + (gostring \<times> PublicationRecord) list" where
  "index_current current [] = Inr current"
| "index_current current (r # rs) =
     (if map_of current (publicationRecordKey r) \<noteq> None then Inl DuplicateRecordKey
      else index_current ((publicationRecordKey r, r) # current) rs)"

definition loadLedgerHistory :: "PublicationRecord list \<Rightarrow> (gostring \<times> (ledger_error + PublicationRecord list)) list
    \<Rightarrow> ledger_error + PublicationRecord list" where
  "loadLedgerHistory records objects =
     (case index_current [] records of Inl e \<Rightarrow> Inl e
      | Inr current \<Rightarrow>
        (case replay_objects [] records current objects of Inl e \<Rightarrow> Inl e
         | Inr (records', every) \<Rightarrow>
           if list_all (\<lambda>key. map_of current key \<noteq> None) (sort (remdups (map fst every)))
           then Inr records' else Inl RemovedImmutableRecord))"

subsection \<open>Lemmas\<close>

lemma equalStrings_iff [simp]: "equalStrings l r \<longleftrightarrow> l = r"
  by (induction l r rule: equalStrings.induct) auto

lemma publicationRecordEqual_iff [simp]: "publicationRecordEqual l r \<longleftrightarrow> l = r"
  by (cases l; cases r) (auto simp: publicationRecordEqual_def)

lemma digests_increasing_strict: "digests_increasing p ds \<Longrightarrow> sorted_wrt (<) ds \<and> (p \<noteq> [] \<longrightarrow> (\<forall>d \<in> set ds. p < d))"
proof (induction ds arbitrary: p)
  case (Cons d ds)
  then have ne: "d \<noteq> []" using ValidSHA256_not_Nil by auto
  have IH: "sorted_wrt (<) ds" "\<forall>x \<in> set ds. d < x" using Cons.IH [of d] Cons.prems ne by simp_all
  have "p < d" if "p \<noteq> []" using Cons.prems that by (simp add: not_le)
  then show ?case using IH by (auto intro: order.strict_trans)
qed simp

lemma digests_increasing_iff:
  "p = [] \<or> (\<forall>d \<in> set ds. p < d) \<Longrightarrow> (\<forall>d \<in> set ds. ValidSHA256 d) \<Longrightarrow> sorted_wrt (<) ds \<Longrightarrow> digests_increasing p ds"
  by (induction ds arbitrary: p) auto

lemma record_bindings_spec:
  assumes "record_bindings bindings records = Inr bindings'"
    and "\<forall>r \<in> set records. pr_BlobSHA256 r \<noteq> []"
    and "\<forall>k d. map_of bindings k = Some d \<longrightarrow> d \<noteq> []"
  shows "(\<forall>r \<in> set records. map_of bindings' (version_identity (pr_Package r) (pr_Version r)) = Some (sort (pr_BlobSHA256 r))) \<and>
    (\<forall>k d. map_of bindings k = Some d \<longrightarrow> map_of bindings' k = Some d) \<and>
    fst ` set bindings' = fst ` set bindings \<union> (\<lambda>r. version_identity (pr_Package r) (pr_Version r)) ` set records"
  using assms
proof (induction records arbitrary: bindings)
  case (Cons r rs)
  let ?key = "version_identity (pr_Package r) (pr_Version r)" and ?d = "sort (pr_BlobSHA256 r)"
  have ne: "?d \<noteq> []" using Cons.prems(2) by (metis length_0_conv length_sort list.set_intros(1))
  have agree: "d = ?d" if "map_of bindings ?key = Some d" for d
    using Cons.prems(1,3) that by (auto simp: Let_def split: if_splits)
  have rest: "record_bindings ((?key, ?d) # bindings) rs = Inr bindings'"
    using Cons.prems(1) by (auto simp: Let_def split: if_splits)
  note IH = Cons.IH [OF rest]
  have IH': "(\<forall>r \<in> set rs. map_of bindings' (version_identity (pr_Package r) (pr_Version r)) = Some (sort (pr_BlobSHA256 r))) \<and>
    (\<forall>k d. map_of ((?key, ?d) # bindings) k = Some d \<longrightarrow> map_of bindings' k = Some d) \<and>
    fst ` set bindings' = fst ` set ((?key, ?d) # bindings) \<union> (\<lambda>r. version_identity (pr_Package r) (pr_Version r)) ` set rs"
    using IH Cons.prems(2,3) ne by auto
  have "map_of bindings' k = Some d" if "map_of bindings k = Some d" for k d
    using IH' agree that by (cases "k = ?key") auto
  then show ?case using IH' by auto
qed simp

lemma check_bindings_spec:
  "check_bindings bindings pvs = None \<longleftrightarrow>
     (\<forall>pv \<in> set pvs. \<forall>d. map_of bindings (pv_identity pv) = Some d \<longrightarrow> d \<noteq> [] \<longrightarrow> d = blobDigests pv)"
  by (induction pvs) (auto split: option.splits)

lemma ValidatePublishedBindings_sound:
  assumes "ValidatePublishedBindings lock records = None"
    and "\<forall>r \<in> set records. pr_BlobSHA256 r \<noteq> []" and "r \<in> set records"
  shows "\<exists>pv \<in> set (lock_PackageVersion lock). pv_identity pv = version_identity (pr_Package r) (pr_Version r) \<and>
    blobDigests pv = sort (pr_BlobSHA256 r)"
proof -
  let ?key = "version_identity (pr_Package r) (pr_Version r)"
  obtain bindings where b: "record_bindings [] records = Inr bindings"
      "check_bindings bindings (lock_PackageVersion lock) = None"
      "find (\<lambda>key. key \<notin> set (map pv_identity (lock_PackageVersion lock))) (sort (remdups (map fst bindings))) = None"
    using assms(1) by (auto simp: ValidatePublishedBindings_def split: sum.splits option.splits)
  note spec = record_bindings_spec [OF b(1) assms(2)]
  have "?key \<in> fst ` set bindings" using spec assms(3) by auto
  then have "?key \<in> pv_identity ` set (lock_PackageVersion lock)"
    using b(3) by (auto simp: find_None_iff)
  then obtain pv where pv: "pv \<in> set (lock_PackageVersion lock)" "pv_identity pv = ?key" by auto
  have "sort (pr_BlobSHA256 r) \<noteq> []" using assms(2,3) by (metis length_0_conv length_sort)
  then have "blobDigests pv = sort (pr_BlobSHA256 r)"
    using b(2) pv spec assms(3) unfolding check_bindings_spec by auto
  then show ?thesis using pv by blast
qed

text \<open>With one record per version in the lock, the validation is exact.\<close>

definition published_in :: "RepositoryLock \<Rightarrow> PublicationRecord \<Rightarrow> bool" where
  "published_in lock r \<longleftrightarrow> (\<exists>pv \<in> set (lock_PackageVersion lock).
     pv_identity pv = version_identity (pr_Package r) (pr_Version r) \<and> blobDigests pv = sort (pr_BlobSHA256 r))"

lemma distinct_identity_eq:
  "distinct (map pv_identity pvs) \<Longrightarrow> a \<in> set pvs \<Longrightarrow> b \<in> set pvs \<Longrightarrow> pv_identity a = pv_identity b \<Longrightarrow> a = b"
  by (auto simp: distinct_map inj_on_def)

lemma record_bindings_complete:
  assumes "distinct (map pv_identity pvs)"
    and "\<forall>r \<in> set records. \<exists>pv \<in> set pvs. pv_identity pv = version_identity (pr_Package r) (pr_Version r) \<and>
      blobDigests pv = sort (pr_BlobSHA256 r)"
    and "\<forall>k d. map_of bindings k = Some d \<longrightarrow> (\<exists>pv \<in> set pvs. pv_identity pv = k \<and> blobDigests pv = d)"
  shows "\<exists>bindings'. record_bindings bindings records = Inr bindings' \<and>
    (\<forall>k d. map_of bindings' k = Some d \<longrightarrow> (\<exists>pv \<in> set pvs. pv_identity pv = k \<and> blobDigests pv = d))"
  using assms(2,3)
proof (induction records arbitrary: bindings)
  case (Cons r rs)
  let ?key = "version_identity (pr_Package r) (pr_Version r)" and ?d = "sort (pr_BlobSHA256 r)"
  obtain pv where pv: "pv \<in> set pvs" "pv_identity pv = ?key" "blobDigests pv = ?d" using Cons.prems(1) by auto
  have "d = ?d" if "map_of bindings ?key = Some d" for d
    using Cons.prems(2) that pv distinct_identity_eq [OF assms(1) pv(1)] by metis
  moreover have "\<exists>bindings'. record_bindings ((?key, ?d) # bindings) rs = Inr bindings' \<and>
    (\<forall>k d. map_of bindings' k = Some d \<longrightarrow> (\<exists>pv \<in> set pvs. pv_identity pv = k \<and> blobDigests pv = d))"
    using Cons.prems pv by (intro Cons.IH) auto
  ultimately show ?case by (auto simp: Let_def split: option.splits)
qed simp

lemma ValidatePublishedBindings_iff:
  assumes "distinct (map pv_identity (lock_PackageVersion lock))" and "\<forall>r \<in> set records. pr_BlobSHA256 r \<noteq> []"
  shows "ValidatePublishedBindings lock records = None \<longleftrightarrow> (\<forall>r \<in> set records. published_in lock r)"
proof
  assume "ValidatePublishedBindings lock records = None"
  then show "\<forall>r \<in> set records. published_in lock r"
    using ValidatePublishedBindings_sound [OF _ assms(2)] by (auto simp: published_in_def)
next
  assume all: "\<forall>r \<in> set records. published_in lock r"
  let ?pvs = "lock_PackageVersion lock"
  obtain bindings where b: "record_bindings [] records = Inr bindings"
      "\<forall>k d. map_of bindings k = Some d \<longrightarrow> (\<exists>pv \<in> set ?pvs. pv_identity pv = k \<and> blobDigests pv = d)"
    using record_bindings_complete [OF assms(1), of records "[]"] all by (auto simp: published_in_def)
  have check: "check_bindings bindings ?pvs = None"
    using b(2) distinct_identity_eq [OF assms(1)] unfolding check_bindings_spec by metis
  have "k \<in> set (map pv_identity ?pvs)" if "k \<in> fst ` set bindings" for k
  proof -
    have "map_of bindings k \<noteq> None" using that by (simp add: map_of_eq_None_iff)
    then show ?thesis using b(2) by fastforce
  qed
  then have "find (\<lambda>key. key \<notin> set (map pv_identity ?pvs)) (sort (remdups (map fst bindings))) = None"
    by (auto simp: find_None_iff)
  then show "ValidatePublishedBindings lock records = None" using b(1) check by (simp add: ValidatePublishedBindings_def)
qed

lemma append_records_spec:
  "append_records seen candidate records pvs = Inr out \<Longrightarrow>
     out = records @ map candidate (filter (\<lambda>pv. seen (publicationRecordKey (candidate pv)) = None) pvs) \<and>
     (\<forall>pv \<in> set pvs. \<forall>r. seen (publicationRecordKey (candidate pv)) = Some r \<longrightarrow> r = candidate pv)"
proof (induction pvs arbitrary: records)
  case (Cons pv pvs)
  then show ?case using Cons.IH [of "records @ [candidate pv]"] Cons.IH [of records]
    by (cases "seen (publicationRecordKey (candidate pv))") (auto split: if_splits)
qed simp

lemma append_records_complete:
  "\<forall>pv \<in> set pvs. seen (publicationRecordKey (candidate pv)) = Some (candidate pv) \<Longrightarrow>
     append_records seen candidate records pvs = Inr records"
  by (induction pvs) auto

lemma seen_records:
  "map_of (rev (map (\<lambda>r. (publicationRecordKey r, r)) rs)) k = Some r \<Longrightarrow> r \<in> set rs \<and> publicationRecordKey r = k"
  "map_of (rev (map (\<lambda>r. (publicationRecordKey r, r)) rs)) k = None \<longleftrightarrow> k \<notin> publicationRecordKey ` set rs"
  by (auto dest!: map_of_SomeD simp: map_of_eq_None_iff image_image)

lemma candidate_key: "publicationRecordKey (candidate_record repository planID changeID treeSHA recordedAt pv)
    = planID @ nul @ changeID @ nul @ pv_identity pv"
  by (simp add: publicationRecordKey_def candidate_record_def version_identity_def)

lemma updated_spec:
  assumes "updatedPublicationRecords existing repository planID changeID treeSHA recordedAt lock = Inr out"
  shows "\<exists>new. out = existing @ new \<and>
    set new \<subseteq> candidate_record repository planID changeID treeSHA recordedAt ` set (lock_PackageVersion lock) \<and>
    publicationRecordKey ` set new \<inter> publicationRecordKey ` set existing = {} \<and>
    (\<forall>pv \<in> set (lock_PackageVersion lock). candidate_record repository planID changeID treeSHA recordedAt pv \<in> set out) \<and>
    (distinct (map pv_identity (lock_PackageVersion lock)) \<longrightarrow> distinct (map publicationRecordKey new))"
proof -
  let ?c = "candidate_record repository planID changeID treeSHA recordedAt" and ?pvs = "lock_PackageVersion lock"
  let ?seen = "map_of (rev (map (\<lambda>r. (publicationRecordKey r, r)) existing))"
  let ?new = "map ?c (filter (\<lambda>pv. ?seen (publicationRecordKey (?c pv)) = None) ?pvs)"
  have out: "out = existing @ ?new" and
    same: "\<forall>pv \<in> set ?pvs. \<forall>r. ?seen (publicationRecordKey (?c pv)) = Some r \<longrightarrow> r = ?c pv"
    using append_records_spec [of ?seen ?c existing ?pvs out] assms by (auto simp: updatedPublicationRecords_def)
  have "publicationRecordKey ` set ?new \<inter> publicationRecordKey ` set existing = {}"
    using seen_records(2) [of existing] by fastforce
  moreover have "?c pv \<in> set out" if "pv \<in> set ?pvs" for pv
  proof (cases "?seen (publicationRecordKey (?c pv))")
    case None
    then show ?thesis using out that by simp
  next
    case (Some r)
    then show ?thesis using same that seen_records(1) [OF Some] out by auto
  qed
  moreover have "distinct (map publicationRecordKey ?new)" if d: "distinct (map pv_identity ?pvs)"
  proof -
    have "publicationRecordKey \<circ> ?c = (\<lambda>x. planID @ nul @ changeID @ nul @ x) \<circ> pv_identity"
      by (simp add: candidate_key comp_def)
    then have "distinct (map (publicationRecordKey \<circ> ?c) ?pvs)" using d
      by (simp add: distinct_map comp_inj_on_iff inj_on_def)
    then show ?thesis by (simp add: distinct_map_filter)
  qed
  ultimately show ?thesis using out by (intro exI [of _ ?new]) auto
qed

subsection \<open>Lemmas on the replay\<close>

definition extends :: "(gostring \<times> PublicationRecord) list \<Rightarrow> (gostring \<times> PublicationRecord) list \<Rightarrow> bool" where
  "extends every every' \<longleftrightarrow> (\<forall>k x. map_of every k = Some x \<longrightarrow> map_of every' k = Some x)"

lemma extends_refl: "extends e e" and extends_trans: "extends a b \<Longrightarrow> extends b c \<Longrightarrow> extends a c"
  by (simp_all add: extends_def)

lemma replay_records_spec:
  "replay_records keys records every hist = Inr (records', every') \<Longrightarrow>
     extends every every' \<and> (\<forall>r \<in> set hist. map_of every' (publicationRecordKey r) = Some r) \<and>
     (\<exists>new. records' = records @ new \<and> (new \<noteq> [] \<longrightarrow> (\<exists>k. map_of every k = None \<and> map_of every' k \<noteq> None)))"
proof (induction hist arbitrary: keys records every)
  case Nil
  then show ?case by (simp add: extends_def)
next
  case (Cons r rs)
  let ?k = "publicationRecordKey r"
  show ?case
  proof (cases "map_of every ?k")
    case None
    have run: "replay_records (?k # keys) (records @ [r]) ((?k, r) # every) rs = Inr (records', every')"
      using Cons.prems None by (auto simp: Let_def split: if_splits)
    note IH = Cons.IH [OF run]
    have "extends every ((?k, r) # every)" using None by (auto simp: extends_def)
    moreover have "map_of every' ?k = Some r" using IH by (simp add: extends_def)
    ultimately show ?thesis using IH None extends_trans by fastforce
  next
    case (Some x)
    then have "x = r" and run: "replay_records (?k # keys) records every rs = Inr (records', every')"
      using Cons.prems by (auto simp: Let_def split: if_splits)
    then show ?thesis using Cons.IH [OF run] Some by (auto simp: extends_def)
  qed
qed

lemma replay_objects_spec:
  "replay_objects replayed records every objects = Inr (records', every') \<Longrightarrow>
     extends every every' \<and>
     (\<forall>(oid, parsed) \<in> set objects. oid \<notin> set replayed \<longrightarrow>
        (\<exists>hist. (oid, Inr hist) \<in> set objects \<and> (\<forall>r \<in> set hist. map_of every' (publicationRecordKey r) = Some r))) \<and>
     (\<exists>new. records' = records @ new \<and> (new \<noteq> [] \<longrightarrow> (\<exists>k. map_of every k = None \<and> map_of every' k \<noteq> None)))"
proof (induction objects arbitrary: replayed records every)
  case Nil
  then show ?case by (simp add: extends_def)
next
  case (Cons object objects)
  obtain oid parsed where o: "object = (oid, parsed)" by fastforce
  show ?case
  proof (cases "oid \<in> set replayed")
    case True
    then have "replay_objects replayed records every objects = Inr (records', every')"
      using Cons.prems o by (auto split: if_splits)
    from Cons.IH [OF this] show ?thesis using o True by fastforce
  next
    case False
    obtain hist records1 every1 where h: "parsed = Inr hist"
        "replay_records [] records every hist = Inr (records1, every1)"
        "replay_objects (oid # replayed) records1 every1 objects = Inr (records', every')"
      using Cons.prems o False by (auto split: if_splits sum.splits)
    note one = replay_records_spec [OF h(2)] and rest = Cons.IH [OF h(3)]
    have ext: "extends every every'" using one rest extends_trans by blast
    obtain new1 new2 where new: "records1 = records @ new1" "records' = records1 @ new2"
      "new1 \<noteq> [] \<longrightarrow> (\<exists>k. map_of every k = None \<and> map_of every1 k \<noteq> None)"
      "new2 \<noteq> [] \<longrightarrow> (\<exists>k. map_of every1 k = None \<and> map_of every' k \<noteq> None)"
      using one rest by blast
    have fresh: "\<exists>k. map_of every k = None \<and> map_of every' k \<noteq> None" if ne: "new1 @ new2 \<noteq> []"
    proof (cases "new1 = []")
      case True
      then obtain k where "map_of every1 k = None" "map_of every' k \<noteq> None" using new(4) ne by auto
      moreover then have "map_of every k = None" using one by (auto simp: extends_def) (metis not_None_eq)
      ultimately show ?thesis by blast
    next
      case False
      then obtain k x where "map_of every k = None" "map_of every1 k = Some x" using new(3) by auto
      then show ?thesis using rest by (auto simp: extends_def)
    qed
    have mine: "\<forall>r \<in> set hist. map_of every' (publicationRecordKey r) = Some r"
      using one rest by (auto simp: extends_def)
    have "\<exists>hist. (oid', Inr hist) \<in> set (object # objects) \<and> (\<forall>r \<in> set hist. map_of every' (publicationRecordKey r) = Some r)"
      if "(oid', parsed') \<in> set (object # objects)" "oid' \<notin> set replayed" for oid' parsed'
    proof (cases "oid' = oid")
      case True
      then show ?thesis using mine o h(1) by auto
    next
      case False
      then show ?thesis using rest that o by fastforce
    qed
    then show ?thesis using ext new(1,2) fresh by (intro conjI exI [of _ "new1 @ new2"]) auto
  qed
qed

lemma index_current_spec:
  "index_current current records = Inr current' \<Longrightarrow> map_of current' k = Some r \<Longrightarrow> map_of current k = Some r \<or> r \<in> set records"
proof (induction records arbitrary: current)
  case (Cons a records)
  then have "index_current ((publicationRecordKey a, a) # current) records = Inr current'" by (auto split: if_splits)
  from Cons.IH [OF this Cons.prems(2)] show ?case by (cases "publicationRecordKey a = k") auto
qed simp

lemma loadLedgerHistory_sound:
  assumes "loadLedgerHistory records objects = Inr records'"
    and "\<And>oid p p'. (oid, p) \<in> set objects \<Longrightarrow> (oid, p') \<in> set objects \<Longrightarrow> p = p'"
  shows "records' = records \<and> (\<forall>oid hist. (oid, Inr hist) \<in> set objects \<longrightarrow> set hist \<subseteq> set records)"
proof -
  obtain current every where c: "index_current [] records = Inr current"
      "replay_objects [] records current objects = Inr (records', every)"
      "list_all (\<lambda>key. map_of current key \<noteq> None) (sort (remdups (map fst every)))"
    using assms(1) by (auto simp: loadLedgerHistory_def split: sum.splits if_splits)
  note spec = replay_objects_spec [OF c(2)]
  have known: "map_of current k \<noteq> None" if "map_of every k \<noteq> None" for k
    using c(3) that by (auto simp: list_all_iff map_of_eq_None_iff)
  obtain new where new: "records' = records @ new" "new \<noteq> [] \<longrightarrow> (\<exists>k. map_of current k = None \<and> map_of every k \<noteq> None)"
    using spec by blast
  then have "new = []" using known by blast
  moreover have "r \<in> set records" if mem: "(oid, Inr hist) \<in> set objects" "r \<in> set hist" for oid hist r
  proof -
    obtain hist' where h': "(oid, Inr hist') \<in> set objects" "\<forall>r \<in> set hist'. map_of every (publicationRecordKey r) = Some r"
      using bspec [OF conjunct1 [OF conjunct2 [OF spec]] mem(1)] by auto
    have "hist' = hist" using assms(2) [OF mem(1) h'(1)] by simp
    then have every: "map_of every (publicationRecordKey r) = Some r" using h'(2) mem(2) by blast
    then obtain x where "map_of current (publicationRecordKey r) = Some x" using known by fastforce
    then have "map_of current (publicationRecordKey r) = Some r" using spec every by (auto simp: extends_def)
    then show ?thesis using index_current_spec [OF c(1)] by fastforce
  qed
  ultimately show ?thesis using new(1) by auto
qed

subsection \<open>Lemmas on the file\<close>

lemma encode_lines:
  assumes "\<forall>r \<in> set rs. CHR 0x0A \<notin> set (marshal r)"
  shows "split_on (CHR 0x0A) (encodeLedger marshal rs) = map marshal rs @ [[]]"
  using assms
proof (induction rs)
  case (Cons r rs)
  have "split_on (CHR 0x0A) s = [s]" if "CHR 0x0A \<notin> set s" for s using that by (induction s) auto
  then have "split_on (CHR 0x0A) (marshal r) = [marshal r]" using Cons.prems by simp
  then show ?case using Cons split_on_append [of "CHR 0x0A" "marshal r" "encodeLedger marshal rs"] by simp
qed simp

lemma trim_suffix_none: "\<not> has_suffix s p \<Longrightarrow> trim_suffix s p = s"
  by (simp add: trim_suffix_def)

lemma parse_encode:
  assumes "\<forall>r \<in> set rs. CHR 0x0A \<notin> set (marshal r) \<and> \<not> has_suffix (marshal r) [CHR 0x0D] \<and>
      decode (marshal r) = Some r \<and> validatePublicationRecord parseTime r [] = None"
  shows "parseLedger decode parseTime (encodeLedger marshal rs) = Inr rs"
proof -
  have "scan_lines (encodeLedger marshal rs) = map marshal rs"
    using assms encode_lines [of rs marshal]
    by (auto simp: scan_lines_def Let_def trim_suffix_none)
  moreover have "parse_lines decode parseTime (map marshal rs) = Inr rs"
    using assms by (induction rs) auto
  ultimately show ?thesis by (simp add: parseLedger_def)
qed

subsection \<open>New records are valid\<close>

lemma blobDigests_sorted: "sort (blobDigests pv) = blobDigests pv"
  by (simp add: blobDigests_def sorted_sort_id)

lemma validate_history_iff:
  "validate_history parseTime repository seen rs = None \<longleftrightarrow>
     (\<forall>r \<in> set rs. validatePublicationRecord parseTime r repository = None) \<and> distinct (map publicationRecordKey rs) \<and>
     set seen \<inter> publicationRecordKey ` set rs = {}"
proof (induction rs arbitrary: seen)
  case (Cons r rs)
  show ?case using Cons [of "publicationRecordKey r # seen"]
    by (cases "validatePublicationRecord parseTime r repository") auto
qed simp

lemma candidate_valid:
  assumes "version_ok lib f pv" and "distinct (map blob_SHA256 (pv_Blobs pv))"
    and "repository \<noteq> []" "ValidSHA256 planID" "ValidSHA256 treeSHA" "changeID = repository @ '':'' @ take 12 treeSHA"
    and "parseTime recordedAt \<noteq> None"
  shows "validatePublicationRecord parseTime (candidate_record repository planID changeID treeSHA recordedAt pv) repository = None"
proof -
  have "sorted_wrt (<) (blobDigests pv)"
    using assms(2) by (simp add: blobDigests_def strict_sorted_iff)
  moreover have "\<forall>d \<in> set (blobDigests pv). ValidSHA256 d"
    using assms(1) by (auto simp: blobDigests_def version_ok_def blobs_ok_def blob_ok_def)
  ultimately have "digests_increasing [] (blobDigests pv)" by (intro digests_increasing_iff) auto
  moreover have "blobDigests pv \<noteq> []"
    using assms(1) by (metis blobDigests_def blobs_ok_def length_0_conv length_map length_sort version_ok_def)
  ultimately show ?thesis using assms
    by (auto simp: validatePublicationRecord_def candidate_record_def version_ok_def)
qed

subsection \<open>Samples\<close>

definition sample_time :: "gostring \<Rightarrow> int option" where
  "sample_time s = (if s = ''t'' then Some 0 else None)"

definition sample_record :: PublicationRecord where
  "sample_record = candidate_record ''tools'' (replicate 64 CHR ''1'') (''tools:'' @ replicate 12 CHR ''2'')
     (replicate 64 CHR ''2'') ''t'' (draft_version ''x'' ''1.0'' [sample_blob ''x-1.0.tgz'' CHR ''a''])"

text \<open>Two files of one release with the same bytes, which no validation of the lock forbids.\<close>

definition twin_lock :: RepositoryLock where
  "twin_lock = \<lparr>lock_SchemaVersion = 2, lock_Repository = ''tools'',
     lock_PackageVersion = [draft_version ''x'' ''1.0'' [sample_blob ''x.tgz'' CHR ''a'', sample_blob ''x-latest.tgz'' CHR ''a'']],
     lock_Placement = []\<rparr>"

definition sample_objects :: "(gostring \<times> (ledger_error + PublicationRecord list)) list" where
  "sample_objects = [(''a'', Inr [sample_record]), (''b'', Inr [])]"

subsection \<open>Properties\<close>

text \<open>
  C26: for a lock with one record per version, the binding check accepts exactly when every version that
  was ever published is still in the lock with exactly the digests it was published with.
\<close>

theorem published_bindings_exact:
  assumes "distinct (map pv_identity (lock_PackageVersion lock))" and "\<forall>r \<in> set records. pr_BlobSHA256 r \<noteq> []"
  shows "ValidatePublishedBindings lock records = None \<longleftrightarrow> (\<forall>r \<in> set records. published_in lock r)"
  using assms by (rule ValidatePublishedBindings_iff)

theorem published_bindings_exact_witness:
  "ValidatePublishedBindings sample_lock [sample_record] = None \<longleftrightarrow> (\<forall>r \<in> set [sample_record]. published_in sample_lock r)"
proof (rule published_bindings_exact)
  show "distinct (map pv_identity (lock_PackageVersion sample_lock))" by code_simp
  show "\<forall>r \<in> set [sample_record]. pr_BlobSHA256 r \<noteq> []" by code_simp
qed

text \<open>
  C27: recording a publication only appends: the old ledger is a prefix of the new one, no new record
  reuses an old key, every version of the lock has its record, and recording the same publication again
  changes nothing.
\<close>

theorem ledger_append_only:
  assumes "updatedPublicationRecords existing repository planID changeID treeSHA recordedAt lock = Inr out"
    and "distinct (map pv_identity (lock_PackageVersion lock))"
  shows "(\<exists>new. out = existing @ new \<and> publicationRecordKey ` set new \<inter> publicationRecordKey ` set existing = {}) \<and>
    (\<forall>pv \<in> set (lock_PackageVersion lock). candidate_record repository planID changeID treeSHA recordedAt pv \<in> set out) \<and>
    updatedPublicationRecords out repository planID changeID treeSHA recordedAt lock = Inr out"
proof -
  let ?c = "candidate_record repository planID changeID treeSHA recordedAt" and ?pvs = "lock_PackageVersion lock"
  let ?seen = "\<lambda>rs. map_of (rev (map (\<lambda>r. (publicationRecordKey r, r)) rs))"
  obtain new where new: "out = existing @ new" "set new \<subseteq> ?c ` set ?pvs"
      "publicationRecordKey ` set new \<inter> publicationRecordKey ` set existing = {}"
      "\<forall>pv \<in> set ?pvs. ?c pv \<in> set out" "distinct (map publicationRecordKey new)"
    using updated_spec [OF assms(1)] assms(2) by blast
  have "?seen out (publicationRecordKey (?c pv)) = Some (?c pv)" if "pv \<in> set ?pvs" for pv
  proof (cases "?c pv \<in> set new")
    case True
    have "distinct (map fst (rev (map (\<lambda>r. (publicationRecordKey r, r)) new)))"
      using new(5) by (simp add: comp_def distinct_rev flip: rev_map)
    then have "?seen new (publicationRecordKey (?c pv)) = Some (?c pv)"
      using True by (intro map_of_is_SomeI) auto
    then show ?thesis using new(1) by (simp add: map_add_Some_iff)
  next
    case False
    then have old: "?c pv \<in> set existing" using new(1,4) that by auto
    then have none: "?seen new (publicationRecordKey (?c pv)) = None" using new(3) by (simp add: seen_records(2)) blast
    have "?seen existing (publicationRecordKey (?c pv)) \<noteq> None" using old by (simp add: seen_records(2))
    then have "?seen existing (publicationRecordKey (?c pv)) = Some (?c pv)"
      using append_records_spec [of "?seen existing" ?c existing ?pvs out] assms(1) that
      by (auto simp: updatedPublicationRecords_def)
    then show ?thesis using new(1) none by (simp add: map_add_Some_iff)
  qed
  then have "updatedPublicationRecords out repository planID changeID treeSHA recordedAt lock = Inr out"
    unfolding updatedPublicationRecords_def by (intro append_records_complete) blast
  then show ?thesis using new by blast
qed

theorem ledger_append_only_witness:
  "(\<exists>new. [sample_record] = [] @ new \<and> publicationRecordKey ` set new \<inter> publicationRecordKey ` set [] = {}) \<and>
    candidate_record ''tools'' (replicate 64 CHR ''1'') (''tools:'' @ replicate 12 CHR ''2'') (replicate 64 CHR ''2'') ''t''
      ` set (lock_PackageVersion sample_lock) \<subseteq> set [sample_record] \<and>
    updatedPublicationRecords [sample_record] ''tools'' (replicate 64 CHR ''1'') (''tools:'' @ replicate 12 CHR ''2'')
      (replicate 64 CHR ''2'') ''t'' sample_lock = Inr [sample_record]"
  unfolding image_subset_iff
proof (rule ledger_append_only)
  show "updatedPublicationRecords [] ''tools'' (replicate 64 CHR ''1'') (''tools:'' @ replicate 12 CHR ''2'')
      (replicate 64 CHR ''2'') ''t'' sample_lock = Inr [sample_record]"
    by (simp add: updatedPublicationRecords_def sample_lock_def sample_record_def)
  show "distinct (map pv_identity (lock_PackageVersion sample_lock))" by code_simp
qed

text \<open>
  Publishing keeps the ledger consistent with the lock: when the lock agrees with the ledger before,
  it agrees with the ledger that records the publication of that lock.
\<close>

theorem publishing_keeps_bindings:
  assumes "ValidatePublishedBindings lock existing = None" and "\<forall>r \<in> set existing. pr_BlobSHA256 r \<noteq> []"
    and "lock_ok lib f lock"
    and "updatedPublicationRecords existing repository planID changeID treeSHA recordedAt lock = Inr out"
  shows "ValidatePublishedBindings lock out = None"
proof -
  let ?c = "candidate_record repository planID changeID treeSHA recordedAt"
  have d: "distinct (map pv_identity (lock_PackageVersion lock))" using assms(3) by (simp add: lock_ok_def)
  obtain new where new: "out = existing @ new" "set new \<subseteq> ?c ` set (lock_PackageVersion lock)"
    using updated_spec [OF assms(4)] by blast
  have "published_in lock r \<and> pr_BlobSHA256 r \<noteq> []" if "r \<in> set new" for r
  proof -
    obtain pv where pv: "pv \<in> set (lock_PackageVersion lock)" "r = ?c pv" using new(2) \<open>r \<in> set new\<close> by auto
    then have "pv_Blobs pv \<noteq> []" using assms(3) by (simp add: lock_ok_def version_ok_def blobs_ok_def)
    then have "blobDigests pv \<noteq> []" by (metis blobDigests_def length_0_conv length_map length_sort)
    then show ?thesis using pv by (auto simp: published_in_def candidate_record_def blobDigests_sorted)
  qed
  then show ?thesis
    using assms(1,2) new(1) unfolding ValidatePublishedBindings_iff [OF d assms(2)]
    by (subst ValidatePublishedBindings_iff [OF d]) auto
qed

theorem publishing_keeps_bindings_witness: "ValidatePublishedBindings sample_lock [sample_record] = None"
proof (rule publishing_keeps_bindings)
  show "ValidatePublishedBindings sample_lock [] = None" by code_simp
  show "\<forall>r \<in> set []. pr_BlobSHA256 r \<noteq> []" by simp
  show "lock_ok sample_lib RawFormat sample_lock"
    using sample_lock_valid(1) by (auto simp: ValidateLock_iff For_def registry_def)
  show "updatedPublicationRecords [] ''tools'' (replicate 64 CHR ''1'') (''tools:'' @ replicate 12 CHR ''2'')
      (replicate 64 CHR ''2'') ''t'' sample_lock = Inr [sample_record]"
    by (simp add: updatedPublicationRecords_def sample_lock_def sample_record_def)
qed

text \<open>
  A valid ledger stays valid when the publication of a valid lock is recorded in it, provided no
  version of the lock has two artifacts with the same digest.
\<close>

theorem new_records_validate:
  assumes "ValidatePublicationHistory parseTime repository existing = None" and "lock_ok lib f lock"
    and "\<forall>pv \<in> set (lock_PackageVersion lock). distinct (map blob_SHA256 (pv_Blobs pv))"
    and "repository \<noteq> []" and "ValidSHA256 planID" and "ValidSHA256 treeSHA"
    and "changeID = repository @ '':'' @ take 12 treeSHA" and "parseTime recordedAt \<noteq> None"
    and "updatedPublicationRecords existing repository planID changeID treeSHA recordedAt lock = Inr out"
  shows "ValidatePublicationHistory parseTime repository out = None"
proof -
  let ?c = "candidate_record repository planID changeID treeSHA recordedAt"
  have d: "distinct (map pv_identity (lock_PackageVersion lock))" using assms(2) by (simp add: lock_ok_def)
  obtain new where new: "out = existing @ new" "set new \<subseteq> ?c ` set (lock_PackageVersion lock)"
      "publicationRecordKey ` set new \<inter> publicationRecordKey ` set existing = {}" "distinct (map publicationRecordKey new)"
    using updated_spec [OF assms(9)] d by blast
  have "validatePublicationRecord parseTime r repository = None" if "r \<in> set new" for r
  proof -
    obtain pv where pv: "pv \<in> set (lock_PackageVersion lock)" "r = ?c pv" using new(2) \<open>r \<in> set new\<close> by auto
    have "version_ok lib f pv" "distinct (map blob_SHA256 (pv_Blobs pv))"
      using pv(1) assms(2,3) by (simp_all add: lock_ok_def)
    then show ?thesis unfolding pv(2) by (rule candidate_valid) (fact assms)+
  qed
  then show ?thesis using assms(1) new(1,3,4)
    unfolding ValidatePublicationHistory_def validate_history_iff by auto
qed

theorem new_records_validate_witness: "ValidatePublicationHistory sample_time ''tools'' [sample_record] = None"
proof (rule new_records_validate)
  show "ValidatePublicationHistory sample_time ''tools'' [] = None" by code_simp
  show "lock_ok sample_lib RawFormat sample_lock"
    using sample_lock_valid(1) by (auto simp: ValidateLock_iff For_def registry_def)
  show "\<forall>pv \<in> set (lock_PackageVersion sample_lock). distinct (map blob_SHA256 (pv_Blobs pv))" by code_simp
  show "''tools'' \<noteq> []" by simp
  show "ValidSHA256 (replicate 64 CHR ''1'')" by code_simp
  show "ValidSHA256 (replicate 64 CHR ''2'')" by code_simp
  show "''tools:'' @ replicate 12 CHR ''2'' = ''tools'' @ '':'' @ take 12 (replicate 64 CHR ''2'')" by code_simp
  show "sample_time ''t'' \<noteq> None" by (simp add: sample_time_def)
  show "updatedPublicationRecords [] ''tools'' (replicate 64 CHR ''1'') (''tools:'' @ replicate 12 CHR ''2'')
      (replicate 64 CHR ''2'') ''t'' sample_lock = Inr [sample_record]"
    by (simp add: updatedPublicationRecords_def sample_lock_def sample_record_def)
qed

text \<open>
  The proviso is needed. A lock with two files of equal bytes in one version validates, its
  publication is recorded without complaint, and the record that was written is one the ledger's own
  parser refuses, because it wants strictly increasing digests.
\<close>

theorem equal_artifacts_poison_ledger:
  "ValidateLock sample_lib twin_lock ''tools'' ''raw'' = None \<and>
   (\<exists>r. updatedPublicationRecords [] ''tools'' (replicate 64 CHR ''1'') (''tools:'' @ replicate 12 CHR ''2'')
      (replicate 64 CHR ''2'') ''t'' twin_lock = Inr [r] \<and>
    validatePublicationRecord sample_time r [] = Some InvalidBlobBinding)"
proof -
  let ?r = "candidate_record ''tools'' (replicate 64 CHR ''1'') (''tools:'' @ replicate 12 CHR ''2'')
     (replicate 64 CHR ''2'') ''t'' (hd (lock_PackageVersion twin_lock))"
  have "ValidateLock sample_lib twin_lock ''tools'' ''raw'' = None" by code_simp
  moreover have "updatedPublicationRecords [] ''tools'' (replicate 64 CHR ''1'') (''tools:'' @ replicate 12 CHR ''2'')
      (replicate 64 CHR ''2'') ''t'' twin_lock = Inr [?r]"
    by (simp add: updatedPublicationRecords_def twin_lock_def)
  moreover have "validatePublicationRecord sample_time ?r [] = Some InvalidBlobBinding" by code_simp
  ultimately show ?thesis by blast
qed

text \<open>
  C28: when the replay of the ledger's history succeeds, the current ledger contains every record of every
  historical version of the file, unchanged, and is returned as it is (object identifiers standing for
  their content).
\<close>

theorem ledger_history_immutable:
  assumes "loadLedgerHistory records objects = Inr records'"
    and "\<And>oid p p'. (oid, p) \<in> set objects \<Longrightarrow> (oid, p') \<in> set objects \<Longrightarrow> p = p'"
  shows "records' = records \<and> (\<forall>oid hist. (oid, Inr hist) \<in> set objects \<longrightarrow> set hist \<subseteq> set records)"
  using assms by (rule loadLedgerHistory_sound)

theorem ledger_history_immutable_witness:
  "{hist. \<exists>oid. (oid, Inr hist) \<in> set sample_objects} \<subseteq> {hist. set hist \<subseteq> set [sample_record]}"
proof -
  have "[sample_record] = [sample_record] \<and>
    (\<forall>oid hist. (oid, Inr hist) \<in> set sample_objects \<longrightarrow> set hist \<subseteq> set [sample_record])"
  proof (rule ledger_history_immutable)
  show "loadLedgerHistory [sample_record] sample_objects = Inr [sample_record]"
    by (simp add: loadLedgerHistory_def sample_objects_def)
  show "p = p'" if "(oid, p) \<in> set sample_objects"
    "(oid, p') \<in> set sample_objects"
    for oid and p p' :: "ledger_error + PublicationRecord list" using that by (auto simp: sample_objects_def)
  qed
  then show ?thesis by blast
qed

text \<open>
  The rewrite of the ledger file is guarded and restartable: it succeeds only when the file held the
  reviewed base or already the expected bytes, then the file holds the expected bytes, a second run
  leaves it alone, and a refused run leaves it alone too.
\<close>

theorem prepare_ledger_guarded:
  "let run = PreparePublicationRecords decode marshal parseTime base repository planID changeID treeSHA recordedAt lock;
       content = (\<lambda>f. case f of None \<Rightarrow> [] | Some c \<Rightarrow> c);
       expected = expectedPublicationLedger decode marshal parseTime base repository planID changeID treeSHA recordedAt lock
   in if snd (run ledger) = None
      then expected = Inr (content (fst (run ledger))) \<and> content ledger \<in> {base, content (fst (run ledger))} \<and>
        run (fst (run ledger)) = (fst (run ledger), None)
      else fst (run ledger) = ledger"
  by (cases "expectedPublicationLedger decode marshal parseTime base repository planID changeID treeSHA recordedAt lock")
     (auto simp: PreparePublicationRecords_def Let_def)

text \<open>
  Reading back a written ledger yields the records that were written, for records that validate and a
  JSON encoder whose lines contain no newline and decode to the record they encode.
\<close>

theorem ledger_roundtrip:
  assumes "\<forall>r \<in> set rs. CHR 0x0A \<notin> set (marshal r) \<and> \<not> has_suffix (marshal r) [CHR 0x0D] \<and> decode (marshal r) = Some r"
    and "\<forall>r \<in> set rs. validatePublicationRecord parseTime r [] = None"
  shows "parseLedger decode parseTime (encodeLedger marshal rs) = Inr rs"
  using assms by (intro parse_encode) auto

theorem ledger_roundtrip_witness:
  "parseLedger (\<lambda>s. if s = ''{}'' then Some sample_record else None) sample_time (encodeLedger (\<lambda>r. ''{}'') [sample_record])
    = Inr [sample_record]"
proof (rule ledger_roundtrip)
  show "\<forall>r \<in> set [sample_record]. CHR 0x0A \<notin> set ''{}'' \<and> \<not> has_suffix ''{}'' [CHR 0x0D] \<and>
      (if ''{}'' = ''{}'' then Some sample_record else None) = Some r" by (simp add: has_suffix_def)
  show "\<forall>r \<in> set [sample_record]. validatePublicationRecord sample_time r [] = None" by code_simp
qed

end
