(* ===== verification/Plan_Model.thy ===== *)
theory Plan_Model
  imports State_Model
begin

section \<open>The data model of a plan\<close>

text \<open>
  The plan structures of \<^verbatim>\<open>internal/state/model.go\<close> and the published revision of \<^verbatim>\<open>host/host.go\<close>,
  field by field. A Go byte slice is a string; a field is named after the Go field with a prefix for
  its structure.
\<close>

record PlanPublicationBinding =
  bind_Package :: gostring
  bind_Version :: gostring
  bind_BlobSHA256 :: "gostring list"

record PlanAcquisition =
  acq_Package :: gostring
  acq_Version :: gostring
  acq_Filename :: gostring
  acq_SHA256 :: gostring
  acq_OriginURL :: gostring

record PlanPublicKey =
  ppk_KeyName :: gostring
  ppk_Fingerprint :: gostring
  ppk_PublicKeyPath :: gostring
  ppk_PublicKeySHA256 :: gostring

record SigningNode =
  node_ID :: gostring
  node_Kind :: gostring
  node_DependsOn :: "gostring list"
  node_Scheme :: gostring
  node_PayloadSHA256 :: gostring
  node_OutputPath :: gostring
  node_ContentSHA256 :: gostring
  node_Content :: gostring

record PlanSigning =
  ps_KeyName :: gostring
  ps_Algorithm :: gostring
  ps_Fingerprint :: gostring
  ps_PublicKeyPath :: gostring
  ps_PublicKeySHA256 :: gostring
  ps_PublicArmorPath :: gostring
  ps_PublicArmorSHA256 :: gostring
  ps_SignatureTime :: gostring
  ps_RecipeSHA256 :: gostring
  ps_KeyringPath :: gostring
  ps_KeyringSHA256 :: gostring
  ps_TrustedKeys :: "PlanPublicKey list"
  ps_RotationPhase :: gostring
  ps_MinimumRefreshSeconds :: int
  ps_Nodes :: "SigningNode list"

record PlanRepository =
  plr_Name :: gostring
  plr_Gate :: gostring
  plr_ApprovalKeys :: "gostring list"
  plr_Format :: gostring
  plr_LockSHA256 :: gostring
  plr_Host :: HostConfig
  plr_Visibility :: gostring
  plr_HostIdentitySHA256 :: gostring
  plr_CanonicalEndpoint :: gostring
  plr_InstallDocSHA256 :: gostring
  plr_ObservedRevision :: gostring
  plr_ObservedPlanID :: gostring
  plr_ObservedChangeID :: gostring
  plr_ObservedReleaseSHA256 :: gostring
  plr_ObservedManifestSHA256 :: gostring
  plr_ObservedRestoreID :: gostring
  plr_ObservedRestoreSHA256 :: gostring
  plr_ObservedRestoreRootSHA256 :: gostring
  plr_ObservedDeployment :: DeploymentRecord
  plr_FaithfulPreview :: bool
  plr_ConditionalCommit :: bool
  plr_ConditionalRestore :: bool
  plr_PrivateRead :: bool
  plr_CredentialBrokerIdentity :: gostring
  plr_Signing :: "PlanSigning list"
  plr_PublicationRecords :: bool
  plr_PublicationBindings :: "PlanPublicationBinding list"
  plr_Acquisitions :: "PlanAcquisition list"
  plr_ObservedTreeSHA256 :: gostring
  plr_DesiredTreeSHA256 :: gostring
  plr_DesiredManifestSHA256 :: gostring
  plr_ChangeID :: gostring
  plr_Action :: gostring

record PlanPayload =
  pay_EngineVersion :: gostring
  pay_GitRevision :: gostring
  pay_ManifestSHA256 :: gostring
  pay_WorkspaceID :: gostring
  pay_Forge :: gostring
  pay_ForgeRepository :: gostring
  pay_ForgeHost :: gostring
  pay_GeneratedAt :: gostring
  pay_CreatedAt :: gostring
  pay_ExpiresAt :: gostring
  pay_VerificationMode :: gostring
  pay_BlobStore :: BlobStoreConfig
  pay_BlobStoreIdentitySHA256 :: gostring
  pay_KnowledgeSHA256 :: gostring
  pay_Repositories :: "PlanRepository list"

record Plan =
  plan_SchemaVersion :: int
  plan_PlanID :: gostring
  plan_Payload :: PlanPayload

record PublishedRevision =
  pub_NativeRevision :: gostring
  pub_TreeSHA256 :: gostring
  pub_PlanID :: gostring
  pub_ChangeID :: gostring
  pub_RestoreID :: gostring
  pub_ReleaseSHA256 :: gostring
  pub_ManifestSHA256 :: gostring
  pub_RestoreSHA256 :: gostring
  pub_RestoreRootSHA256 :: gostring

subsection \<open>Reading an observation out of a plan\<close>

definition publishedFromPlanObservation :: "PlanRepository \<Rightarrow> PublishedRevision" where
  "publishedFromPlanObservation planned = \<lparr>
     pub_NativeRevision = plr_ObservedRevision planned, pub_TreeSHA256 = plr_ObservedTreeSHA256 planned,
     pub_PlanID = plr_ObservedPlanID planned, pub_ChangeID = plr_ObservedChangeID planned,
     pub_RestoreID = plr_ObservedRestoreID planned, pub_ReleaseSHA256 = plr_ObservedReleaseSHA256 planned,
     pub_ManifestSHA256 = plr_ObservedManifestSHA256 planned, pub_RestoreSHA256 = plr_ObservedRestoreSHA256 planned,
     pub_RestoreRootSHA256 = plr_ObservedRestoreRootSHA256 planned\<rparr>"

definition revisionMatchesPlanObservation :: "PublishedRevision \<Rightarrow> PlanRepository \<Rightarrow> bool" where
  "revisionMatchesPlanObservation revision planned \<longleftrightarrow>
     pub_NativeRevision revision = plr_ObservedRevision planned \<and> pub_TreeSHA256 revision = plr_ObservedTreeSHA256 planned \<and>
     pub_PlanID revision = plr_ObservedPlanID planned \<and> pub_ChangeID revision = plr_ObservedChangeID planned \<and>
     pub_ReleaseSHA256 revision = plr_ObservedReleaseSHA256 planned \<and>
     pub_ManifestSHA256 revision = plr_ObservedManifestSHA256 planned \<and>
     pub_RestoreID revision = plr_ObservedRestoreID planned \<and> pub_RestoreSHA256 revision = plr_ObservedRestoreSHA256 planned \<and>
     pub_RestoreRootSHA256 revision = plr_ObservedRestoreRootSHA256 planned"

lemma revisionMatchesPlanObservation_iff:
  "revisionMatchesPlanObservation revision planned \<longleftrightarrow> revision = publishedFromPlanObservation planned"
  by (auto simp: revisionMatchesPlanObservation_def publishedFromPlanObservation_def)

end
