(* ===== verification/Host_Port.thy ===== *)
theory Host_Port
  imports Plan_Model
begin

section \<open>The host port\<close>

text \<open>
  The structures of \<^verbatim>\<open>host/host.go\<close> that pass between the engine and a host adapter, and the port
  itself: a host is a record of operations on a world it keeps to itself, which is the type parameter.
  A credential is its handle. The rewriter of a root document is not called by the engine and is not
  part of the repository structure here; contexts only carry cancellation, which an operation answers
  with an error.
\<close>

record ClientRoute =
  route_URL :: gostring
  route_Size :: int
  route_SHA256 :: gostring

record ClientAccess =
  ca_Endpoint :: gostring
  ca_Routes :: "ClientRoute list"
  ca_PropagationTimeout :: int
  ca_Credential :: "gostring option"

record HostRepository =
  hr_Name :: gostring
  hr_WorkspaceID :: gostring
  hr_HostIdentity :: gostring
  hr_Format :: gostring
  hr_CommitPaths :: "gostring list"
  hr_Type :: gostring
  hr_Visibility :: gostring
  hr_WorkspaceRoot :: gostring
  hr_Path :: gostring
  hr_Target :: gostring
  hr_Bucket :: gostring
  hr_Prefix :: gostring
  hr_Region :: gostring
  hr_Endpoint :: gostring
  hr_CanonicalEndpoint :: gostring
  hr_UsePathStyle :: bool
  hr_ReadAuth :: gostring
  hr_CredentialBroker :: gostring
  hr_RemoteRepository :: gostring
  hr_Branch :: gostring
  hr_PreviewRepository :: gostring
  hr_PreviewBranch :: gostring
  hr_PreviewEndpoint :: gostring

record Capabilities =
  cap_FaithfulPreview :: bool
  cap_ConditionalCommit :: bool
  cap_ConditionalRestore :: bool
  cap_PrivateRead :: bool
  cap_CredentialBrokerIdentity :: gostring

record HostFile =
  hf_Path :: gostring
  hf_Size :: int
  hf_SHA256 :: gostring

record StageRequest =
  sr_PlanID :: gostring
  sr_ChangeID :: gostring
  sr_PreviousRevision :: gostring
  sr_Directory :: gostring
  sr_TreeSHA256 :: gostring
  sr_Files :: "HostFile list"
  sr_CommitPaths :: "gostring list"

record StagedPublication =
  sp_ID :: gostring
  sp_PlanID :: gostring
  sp_ChangeID :: gostring
  sp_PreviousRevision :: gostring
  sp_PreviewEndpoint :: gostring
  sp_TreeSHA256 :: gostring
  sp_Files :: "HostFile list"
  sp_CommitPaths :: "gostring list"
  sp_Access :: ClientAccess

record ExpectedRevision =
  er_NativeRevision :: gostring
  er_TreeSHA256 :: gostring
  er_PlanID :: gostring
  er_ChangeID :: gostring
  er_ReleaseSHA256 :: gostring
  er_ManifestSHA256 :: gostring
  er_RestoreID :: gostring
  er_RestoreSHA256 :: gostring
  er_RestoreRootSHA256 :: gostring

record RestoreRef =
  rr_ID :: gostring
  rr_PlanID :: gostring
  rr_ChangeID :: gostring
  rr_FailedTree :: gostring
  rr_DescriptorSHA256 :: gostring
  rr_RootSHA256 :: gostring

record CommitResult =
  cr_Revision :: PublishedRevision
  cr_CanonicalEndpoint :: gostring
  cr_RestoreRef :: "RestoreRef option"
  cr_Access :: ClientAccess

datatype ErrorKind = ErrorInvalidConfiguration | ErrorInfrastructure | ErrorStale | ErrorIndeterminate

record HostError =
  he_Kind :: ErrorKind
  he_Operation :: gostring
  he_Retryable :: bool
  he_EffectMayHaveOccurred :: bool

text \<open>An adapter may also return an error that is not a \<open>HostError\<close>.\<close>

datatype host_failure = HostFailure HostError | OtherFailure gostring

definition IsKind :: "host_failure \<Rightarrow> ErrorKind \<Rightarrow> bool" where
  "IsKind err kind = (case err of HostFailure e \<Rightarrow> he_Kind e = kind | OtherFailure _ \<Rightarrow> False)"

record 'w host =
  host_Capabilities :: "HostRepository \<Rightarrow> 'w \<Rightarrow> 'w \<times> (host_failure + Capabilities)"
  host_Observe :: "HostRepository \<Rightarrow> 'w \<Rightarrow> 'w \<times> (host_failure + PublishedRevision)"
  host_ReadAccess :: "HostRepository \<Rightarrow> PublishedRevision \<Rightarrow> 'w \<Rightarrow> 'w \<times> (host_failure + ClientAccess)"
  host_Stage :: "HostRepository \<Rightarrow> StageRequest \<Rightarrow> 'w \<Rightarrow> 'w \<times> (host_failure + StagedPublication)"
  host_Commit :: "HostRepository \<Rightarrow> StagedPublication \<Rightarrow> ExpectedRevision \<Rightarrow> 'w \<Rightarrow> 'w \<times> (host_failure + CommitResult)"
  host_Restore :: "HostRepository \<Rightarrow> RestoreRef \<Rightarrow> ExpectedRevision \<Rightarrow> 'w \<Rightarrow> 'w \<times> (host_failure + PublishedRevision)"
  host_Abort :: "HostRepository \<Rightarrow> StagedPublication \<Rightarrow> 'w \<Rightarrow> 'w \<times> (host_failure + unit)"

subsection \<open>The zero values\<close>

definition no_access :: ClientAccess where
  "no_access = \<lparr>ca_Endpoint = [], ca_Routes = [], ca_PropagationTimeout = 0, ca_Credential = None\<rparr>"

definition no_stage :: StagedPublication where
  "no_stage = \<lparr>sp_ID = [], sp_PlanID = [], sp_ChangeID = [], sp_PreviousRevision = [], sp_PreviewEndpoint = [],
     sp_TreeSHA256 = [], sp_Files = [], sp_CommitPaths = [], sp_Access = no_access\<rparr>"

definition no_revision :: PublishedRevision where
  "no_revision = \<lparr>pub_NativeRevision = [], pub_TreeSHA256 = [], pub_PlanID = [], pub_ChangeID = [], pub_RestoreID = [],
     pub_ReleaseSHA256 = [], pub_ManifestSHA256 = [], pub_RestoreSHA256 = [], pub_RestoreRootSHA256 = []\<rparr>"

subsection \<open>Expected revisions\<close>

definition expectedRevisionFromPlan :: "PlanRepository \<Rightarrow> ExpectedRevision" where
  "expectedRevisionFromPlan planned = \<lparr>
     er_NativeRevision = plr_ObservedRevision planned, er_TreeSHA256 = plr_ObservedTreeSHA256 planned,
     er_PlanID = plr_ObservedPlanID planned, er_ChangeID = plr_ObservedChangeID planned,
     er_ReleaseSHA256 = plr_ObservedReleaseSHA256 planned, er_ManifestSHA256 = plr_ObservedManifestSHA256 planned,
     er_RestoreID = plr_ObservedRestoreID planned, er_RestoreSHA256 = plr_ObservedRestoreSHA256 planned,
     er_RestoreRootSHA256 = plr_ObservedRestoreRootSHA256 planned\<rparr>"

definition expectedRevisionFromPublished :: "PublishedRevision \<Rightarrow> ExpectedRevision" where
  "expectedRevisionFromPublished published = \<lparr>
     er_NativeRevision = pub_NativeRevision published, er_TreeSHA256 = pub_TreeSHA256 published,
     er_PlanID = pub_PlanID published, er_ChangeID = pub_ChangeID published,
     er_ReleaseSHA256 = pub_ReleaseSHA256 published, er_ManifestSHA256 = pub_ManifestSHA256 published,
     er_RestoreID = pub_RestoreID published, er_RestoreSHA256 = pub_RestoreSHA256 published,
     er_RestoreRootSHA256 = pub_RestoreRootSHA256 published\<rparr>"

text \<open>What a plan expects is the revision it observed, and a revision is determined by what it expects.\<close>

lemma expected_observation:
  "expectedRevisionFromPlan planned = expectedRevisionFromPublished (publishedFromPlanObservation planned)"
  by (simp add: expectedRevisionFromPlan_def expectedRevisionFromPublished_def publishedFromPlanObservation_def)

lemma expectedRevisionFromPublished_inject:
  "expectedRevisionFromPublished r = expectedRevisionFromPublished r' \<longleftrightarrow> r = r'"
  by (cases r; cases r') (auto simp: expectedRevisionFromPublished_def)

end
