(* ===== verification/Bindings.thy ===== *)
theory Bindings
  imports Ledger Host_Port
begin

section \<open>What a repository publishes\<close>

text \<open>
  The functions of \<^verbatim>\<open>engine/workspace.go\<close> that read, out of a lock, the versions a repository shows on its
  track and distribution, the bindings an apply has to record for them, and the artifacts it has to
  acquire. \<^verbatim>\<open>reflect.DeepEqual\<close> tells a nil slice from an empty one: the digests of a version are never
  nil, those read from the map of published records are nil when the version has no record or a record
  without digests.
\<close>

definition placement_visible :: "Repository \<Rightarrow> Placement \<Rightarrow> bool" where
  "placement_visible repository pl \<longleftrightarrow> pl_Track pl = repo_Track repository \<and>
     (if repo_Format repository = ''deb'' then pl_Distro pl = repo_Suite repository else pl_Distro pl = [])"

definition visiblePackageVersions :: "RepositoryLock \<Rightarrow> Repository \<Rightarrow> PackageVersion list" where
  "visiblePackageVersions lock repository =
     (let active = map pl_identity (filter (placement_visible repository) (lock_Placement lock)) in
      filter (\<lambda>pv. pv_identity pv \<in> set active) (lock_PackageVersion lock))"

definition activeRepositoryLock :: "RepositoryLock \<Rightarrow> Repository \<Rightarrow> RepositoryLock" where
  "activeRepositoryLock lock repository = lock\<lparr>lock_PackageVersion := visiblePackageVersions lock repository\<rparr>"

definition binding_of :: "PackageVersion \<Rightarrow> PlanPublicationBinding" where
  "binding_of pv = \<lparr>bind_Package = pv_Package pv, bind_Version = pv_Version pv, bind_BlobSHA256 = blobDigests pv\<rparr>"

text \<open>The last record of a version wins.\<close>

definition published_digests :: "PublicationRecord list \<Rightarrow> gostring \<Rightarrow> gostring list" where
  "published_digests records key =
     (case map_of (rev (map (\<lambda>r. (version_identity (pr_Package r) (pr_Version r), sort (pr_BlobSHA256 r))) records)) key of
        None \<Rightarrow> [] | Some digests \<Rightarrow> digests)"

definition missingPublicationBindings :: "RepositoryLock \<Rightarrow> Repository \<Rightarrow> PublicationRecord list \<Rightarrow> PlanPublicationBinding list" where
  "missingPublicationBindings lock repository records =
     map binding_of (filter (\<lambda>pv. published_digests records (pv_identity pv) = [] \<or>
         published_digests records (pv_identity pv) \<noteq> blobDigests pv) (visiblePackageVersions lock repository))"

definition publicationBindingsComplete :: "RepositoryLock \<Rightarrow> Repository \<Rightarrow> PublicationRecord list \<Rightarrow> bool" where
  "publicationBindingsComplete lock repository records \<longleftrightarrow> missingPublicationBindings lock repository records = []"

definition publicationBindingsForVersions :: "PackageVersion list \<Rightarrow> PlanPublicationBinding list" where
  "publicationBindingsForVersions versions = map binding_of versions"

definition acquisition_key :: "PlanAcquisition \<Rightarrow> gostring \<times> gostring \<times> gostring \<times> gostring" where
  "acquisition_key a = (acq_Package a, acq_Version a, acq_Filename a, acq_SHA256 a)"

definition version_acquisitions :: "PackageVersion \<Rightarrow> PlanAcquisition list" where
  "version_acquisitions pv = concat (map (\<lambda>locked. case blob_Origin locked of None \<Rightarrow> []
     | Some origin \<Rightarrow> [\<lparr>acq_Package = pv_Package pv, acq_Version = pv_Version pv, acq_Filename = blob_Filename locked,
         acq_SHA256 = blob_SHA256 locked, acq_OriginURL = origin_URL origin\<rparr>]) (pv_Blobs pv))"

text \<open>
  \<^verbatim>\<open>sort.Slice\<close> with a comparison of these four fields; two artifacts of a version with the same file name
  and digest may come out in either order in the code.
\<close>

definition planAcquisitionsForVersions :: "PackageVersion list \<Rightarrow> PlanAcquisition list" where
  "planAcquisitionsForVersions versions = sort_key acquisition_key (concat (map version_acquisitions versions))"

subsection \<open>Lemmas\<close>

lemma visible_subset: "set (visiblePackageVersions lock repository) \<subseteq> set (lock_PackageVersion lock)"
  by (auto simp: visiblePackageVersions_def Let_def)

lemma visible_distinct:
  "distinct (map pv_identity (lock_PackageVersion lock)) \<Longrightarrow> distinct (map pv_identity (visiblePackageVersions lock repository))"
  by (simp add: visiblePackageVersions_def Let_def distinct_map_filter)

lemma active_lock_ok: "lock_ok lib f lock \<Longrightarrow> \<forall>pv \<in> set (visiblePackageVersions lock repository). pv_Blobs pv \<noteq> []"
  using visible_subset by (fastforce simp: lock_ok_def version_ok_def blobs_ok_def)

lemma published_digests_last:
  assumes "\<forall>r \<in> set records. version_identity (pr_Package r) (pr_Version r) = key \<longrightarrow> sort (pr_BlobSHA256 r) = digests"
    and "r \<in> set records" and "version_identity (pr_Package r) (pr_Version r) = key"
  shows "published_digests records key = digests"
proof -
  let ?m = "rev (map (\<lambda>r. (version_identity (pr_Package r) (pr_Version r), sort (pr_BlobSHA256 r))) records)"
  have "map_of ?m key \<noteq> None" using assms(2,3) by (auto simp: map_of_eq_None_iff image_image)
  then obtain d where d: "map_of ?m key = Some d" by blast
  then have "(key, d) \<in> set ?m" by (rule map_of_SomeD)
  then show ?thesis using assms(1) d by (auto simp: published_digests_def)
qed

lemma complete_iff:
  "publicationBindingsComplete lock repository records \<longleftrightarrow>
     (\<forall>pv \<in> set (visiblePackageVersions lock repository). published_digests records (pv_identity pv) \<noteq> [] \<and>
       published_digests records (pv_identity pv) = blobDigests pv)"
  by (auto simp: publicationBindingsComplete_def missingPublicationBindings_def filter_empty_conv)

text \<open>
  A version of a lock without NUL bytes in names is visible exactly when a placement puts it on the
  repository's track and, for Debian, its suite.
\<close>

lemma visible_iff:
  assumes "lock_nul_free lock" and "pv \<in> set (lock_PackageVersion lock)"
  shows "pv \<in> set (visiblePackageVersions lock repository) \<longleftrightarrow>
    (\<exists>pl \<in> set (lock_Placement lock). placement_visible repository pl \<and>
       pl_Package pl = pv_Package pv \<and> pl_Version pl = pv_Version pv)"
proof -
  have "pl_identity pl = pv_identity pv \<longleftrightarrow> pl_Package pl = pv_Package pv \<and> pl_Version pl = pv_Version pv"
    if "pl \<in> set (lock_Placement lock)" for pl
    using assms that by (simp add: lock_nul_free_def version_identity_eq)
  moreover have "pv \<in> set (visiblePackageVersions lock repository) \<longleftrightarrow>
      (\<exists>pl \<in> set (lock_Placement lock). placement_visible repository pl \<and> pl_identity pl = pv_identity pv)"
    using assms(2) by (force simp: visiblePackageVersions_def Let_def)
  ultimately show ?thesis by blast
qed

subsection \<open>Properties\<close>

text \<open>
  Recording a publication settles what the plan asked for. When the ledger agrees with a valid lock,
  recording the versions a repository shows yields a ledger in which no publication binding is missing
  any more, so that the next plan has no publication to record.
\<close>

theorem recording_completes_bindings:
  assumes "lock_ok lib f lock" and "\<forall>r \<in> set existing. pr_BlobSHA256 r \<noteq> []"
    and "ValidatePublishedBindings lock existing = None"
    and "updatedPublicationRecords existing repositoryName planID changeID treeSHA recordedAt
       (activeRepositoryLock lock repository) = Inr out"
  shows "publicationBindingsComplete lock repository out"
proof -
  let ?c = "candidate_record repositoryName planID changeID treeSHA recordedAt"
  let ?visible = "visiblePackageVersions lock repository"
  have unique: "distinct (map pv_identity (lock_PackageVersion lock))" using assms(1) by (simp add: lock_ok_def)
  obtain new where out: "out = existing @ new" "set new \<subseteq> ?c ` set ?visible" "\<forall>pv \<in> set ?visible. ?c pv \<in> set out"
    using updated_spec [OF assms(4)] by (auto simp: activeRepositoryLock_def)
  have old: "\<forall>r \<in> set existing. published_in lock r"
    using ValidatePublishedBindings_iff [OF unique assms(2)] assms(3) by simp
  have "published_digests out (pv_identity pv) = blobDigests pv" if pv: "pv \<in> set ?visible" for pv
  proof (rule published_digests_last [where r = "?c pv"])
    show "?c pv \<in> set out" using out(3) pv by blast
    show "version_identity (pr_Package (?c pv)) (pr_Version (?c pv)) = pv_identity pv" by (simp add: candidate_record_def)
    have in_lock: "pv \<in> set (lock_PackageVersion lock)" using pv visible_subset by blast
    show "\<forall>r \<in> set out. version_identity (pr_Package r) (pr_Version r) = pv_identity pv \<longrightarrow> sort (pr_BlobSHA256 r) = blobDigests pv"
    proof (intro ballI impI)
      fix r assume r: "r \<in> set out" "version_identity (pr_Package r) (pr_Version r) = pv_identity pv"
      obtain pv' where pv': "pv' \<in> set (lock_PackageVersion lock)" "pv_identity pv' = pv_identity pv"
          "blobDigests pv' = sort (pr_BlobSHA256 r)"
      proof (cases "r \<in> set existing")
        case True
        then show ?thesis using that old r(2) by (auto simp: published_in_def)
      next
        case False
        then obtain pv' where "pv' \<in> set ?visible" "r = ?c pv'" using r(1) out(1,2) by auto
        then show ?thesis using that [of pv'] r(2) visible_subset [of lock repository] by (auto simp: candidate_record_def blobDigests_def sorted_sort_id)
      qed
      show "sort (pr_BlobSHA256 r) = blobDigests pv"
        using distinct_identity_eq [OF unique pv'(1) in_lock pv'(2)] pv'(3) by simp
    qed
  qed
  moreover have "blobDigests pv \<noteq> []" if "pv \<in> set ?visible" for pv
  proof -
    have "length (blobDigests pv) \<noteq> 0" using active_lock_ok [OF assms(1)] that by (simp add: blobDigests_def)
    then show ?thesis by auto
  qed
  ultimately show ?thesis by (simp add: complete_iff)
qed

definition sample_host :: HostConfig where
  "sample_host = \<lparr>host_Type = ''local'', host_Path = ''out'', host_Target = [], host_Bucket = [], host_Prefix = [], host_Region = [],
     host_Endpoint = [], host_CanonicalEndpoint = [], host_UsePathStyle = False, host_ReadAuth = [], host_CredentialBroker = [],
     host_Repository = [], host_Branch = [], host_PreviewRepository = [], host_PreviewBranch = [], host_PreviewEndpoint = []\<rparr>"

definition tools_repository :: Repository where
  "tools_repository = \<lparr>repo_Format = ''raw'', repo_Lock = ''locks/tools.toml'', repo_Host = sample_host, repo_Visibility = ''public'',
     repo_Gate = ''auto'', repo_ApprovalKeys = [], repo_SigningKeys = [], repo_SigningKeyring = [], repo_SigningRotation = None,
     repo_Keep = 0, repo_Track = ''stable'', repo_Suite = [], repo_Component = [], repo_Architectures = []\<rparr>"

theorem recording_completes_bindings_witness:
  "publicationBindingsComplete sample_lock tools_repository [sample_record]"
proof (rule recording_completes_bindings)
  show "lock_ok sample_lib RawFormat sample_lock"
    using sample_lock_valid(1) by (auto simp: ValidateLock_iff For_def registry_def)
  show "\<forall>r \<in> set []. pr_BlobSHA256 r \<noteq> []" by simp
  show "ValidatePublishedBindings sample_lock [] = None" by code_simp
  show "updatedPublicationRecords [] ''tools'' (replicate 64 CHR ''1'') (''tools:'' @ replicate 12 CHR ''2'')
      (replicate 64 CHR ''2'') ''t'' (activeRepositoryLock sample_lock tools_repository) = Inr [sample_record]" by code_simp
qed

end
