(* ===== verification/Deployment.thy ===== *)
theory Deployment
  imports Go_Regexp Go_Path State_Model
begin

section \<open>The deployment journal\<close>

text \<open>
  \<^verbatim>\<open>internal/state/deployment.go\<close>: the receipt a successful apply leaves for each repository, its
  validation, its provenance in the Git history and the write of a batch of receipts with its rollback.
  Time is counted in nanoseconds since Go's zero time. Timestamp parsing, the JSON encoding and what
  Git and the file system answer are arguments; cancellation of a context is not modelled.
\<close>

datatype deployment_error = InvalidDeploymentRecord | InvalidDeploymentTimestamp | InvalidTrustTimestamp
  | InvalidRepositoryName gostring | DeploymentPath path_error | DeploymentRead | DeploymentDecode | NotCanonical
  | NotCommitted | GitFailure | NotManaged | InvalidReceiptPaths | UnrelatedReceiptPaths | DiffersFromCommit
  | InvalidCommitTimestamp | DuplicateDeployment | DeploymentWrite gostring | CommitFailed
  | RestoreFailed deployment_error gostring

subsection \<open>Names\<close>

definition identifier_char :: "char \<Rightarrow> bool" where
  "identifier_char c \<longleftrightarrow> is_lower c \<or> is_digit c \<or> c = CHR ''-''"

definition identifierPattern :: "gostring \<Rightarrow> bool" where
  "identifierPattern s = (case s of [] \<Rightarrow> False | c # cs \<Rightarrow> is_lower c \<and> list_all identifier_char cs)"

definition fingerprintPattern :: "gostring \<Rightarrow> bool" where
  "fingerprintPattern s \<longleftrightarrow> length s = 40 \<and> list_all lower_hex s"

definition ValidateRepositoryName :: "gostring \<Rightarrow> deployment_error option" where
  "ValidateRepositoryName name = (if \<not> identifierPattern name then Some (InvalidRepositoryName name) else None)"

definition deployment_file :: "gostring \<Rightarrow> gostring" where
  "deployment_file repository = path_join [''deployments'', repository @ ''.json'']"

definition deploymentPath :: "file_system \<Rightarrow> gostring \<Rightarrow> gostring \<Rightarrow> deployment_error + gostring" where
  "deploymentPath fs root repository =
     (case ValidateRepositoryName repository of Some e \<Rightarrow> Inl e | None \<Rightarrow>
      case WorkspacePath fs root (deployment_file repository) of
        Inl e \<Rightarrow> Inl (DeploymentPath e) | Inr name \<Rightarrow> Inr name)"

subsection \<open>Validation of a receipt\<close>

definition MinimumSigningRefreshSeconds :: int where
  "MinimumSigningRefreshSeconds = 7 * 24 * 60 * 60"

definition validDeploymentIdentity :: "DeploymentRecord \<Rightarrow> bool" where
  "validDeploymentIdentity r \<longleftrightarrow> ValidSHA256 (dr_PlanID r) \<and> ValidSHA256 (dr_TreeSHA256 r) \<and>
     (dr_ManifestSHA256 r = [] \<or> ValidSHA256 (dr_ManifestSHA256 r)) \<and> dr_NativeRevision r \<noteq> [] \<and>
     dr_ChangeID r = dr_Repository r @ '':'' @ take 12 (dr_TreeSHA256 r)"

definition no_signing :: "DeploymentRecord \<Rightarrow> bool" where
  "no_signing r \<longleftrightarrow> dr_TrustedSigningFingerprints r = [] \<and> dr_SigningKeyringPath r = [] \<and>
     dr_SigningRotationPhase r = [] \<and> dr_SigningMinimumRefreshSeconds r = 0 \<and> dr_TrustSince r = []"

text \<open>The loop over the trusted fingerprints: each well-formed and new; the result is \<open>foundActive\<close>.\<close>

fun trusted_loop :: "gostring \<Rightarrow> gostring list \<Rightarrow> bool \<Rightarrow> gostring list \<Rightarrow> bool option" where
  "trusted_loop active seen foundActive [] = Some foundActive"
| "trusted_loop active seen foundActive (f # fs) =
     (if \<not> fingerprintPattern f \<or> f \<in> set seen then None
      else trusted_loop active (f # seen) (foundActive \<or> f = active) fs)"

definition validDeploymentSigning :: "(gostring \<Rightarrow> int option) \<Rightarrow> DeploymentRecord \<Rightarrow> bool" where
  "validDeploymentSigning parseTime r =
     (let active = dr_ActiveSigningFingerprint r; trusted = dr_TrustedSigningFingerprints r;
          phase = dr_SigningRotationPhase r; minimum = dr_SigningMinimumRefreshSeconds r in
      if dr_SchemaVersion r = 1 then active = [] \<and> no_signing r
      else if active = [] then no_signing r
      else if \<not> fingerprintPattern active \<or> trusted = [] \<or> validateRelativePath (dr_SigningKeyringPath r) \<noteq> None \<or>
        \<not> has_prefix (dr_SigningKeyringPath r) ''keys/'' \<or> \<not> has_suffix (dr_SigningKeyringPath r) ''.gpg'' \<or>
        (phase \<noteq> [] \<and> phase \<noteq> ''introducing'' \<and> phase \<noteq> ''activated'') then False
      else if phase = [] \<and> minimum \<noteq> 0 \<or> phase \<noteq> [] \<and> minimum < MinimumSigningRefreshSeconds then False
      else if phase = [] \<and> (length trusted \<noteq> 1 \<or> active \<noteq> trusted ! 0) \<or>
        phase = ''introducing'' \<and> (length trusted \<noteq> 2 \<or> active \<noteq> trusted ! 0) \<or>
        phase = ''activated'' \<and> (length trusted \<noteq> 2 \<or> active \<noteq> trusted ! 1) then False
      else (case trusted_loop active [] False trusted of None \<Rightarrow> False
        | Some foundActive \<Rightarrow> if \<not> foundActive then False else parseTime (dr_TrustSince r) \<noteq> None))"

definition zero_record :: DeploymentRecord where
  "zero_record = \<lparr>dr_SchemaVersion = 0, dr_Repository = [], dr_PlanID = [], dr_ChangeID = [], dr_TreeSHA256 = [],
     dr_ManifestSHA256 = [], dr_NativeRevision = [], dr_DeployedAt = [], dr_ActiveSigningFingerprint = [],
     dr_TrustedSigningFingerprints = [], dr_SigningKeyringPath = [], dr_SigningRotationPhase = [],
     dr_SigningMinimumRefreshSeconds = 0, dr_TrustSince = []\<rparr>"

definition ValidateDeploymentRecord :: "(gostring \<Rightarrow> int option) \<Rightarrow> DeploymentRecord \<Rightarrow> gostring \<Rightarrow> deployment_error option" where
  "ValidateDeploymentRecord parseTime r repository =
     (if r = zero_record then None
      else if (dr_SchemaVersion r \<noteq> 1 \<and> dr_SchemaVersion r \<noteq> DeploymentSchema) \<or> dr_Repository r \<noteq> repository \<or>
        \<not> validDeploymentIdentity r \<or> \<not> validDeploymentSigning parseTime r then Some InvalidDeploymentRecord
      else if parseTime (dr_DeployedAt r) = None then Some InvalidDeploymentTimestamp
      else None)"

subsection \<open>Reading a receipt\<close>

text \<open>
  A file is absent, unreadable or has a content. \<open>marshal\<close> is \<^verbatim>\<open>json.MarshalIndent\<close> of a record and
  \<open>decode\<close> is \<^verbatim>\<open>jsonstrict.Decode\<close> under its size limit.
\<close>

datatype read_result = Missing | Unreadable | Content gostring

type_synonym files = "gostring \<Rightarrow> read_result"

definition encode_record :: "(DeploymentRecord \<Rightarrow> gostring) \<Rightarrow> DeploymentRecord \<Rightarrow> gostring" where
  "encode_record marshal r = marshal r @ [CHR 0x0A]"

definition LoadDeployment :: "file_system \<Rightarrow> (gostring \<Rightarrow> DeploymentRecord option) \<Rightarrow> (DeploymentRecord \<Rightarrow> gostring) \<Rightarrow>
    (gostring \<Rightarrow> int option) \<Rightarrow> files \<Rightarrow> gostring \<Rightarrow> gostring \<Rightarrow> deployment_error + DeploymentRecord" where
  "LoadDeployment fs decode marshal parseTime store root repository =
     (case deploymentPath fs root repository of Inl e \<Rightarrow> Inl e | Inr name \<Rightarrow>
      case store name of Missing \<Rightarrow> Inr zero_record | Unreadable \<Rightarrow> Inl DeploymentRead | Content content \<Rightarrow>
      case decode content of None \<Rightarrow> Inl DeploymentDecode | Some r \<Rightarrow>
      case ValidateDeploymentRecord parseTime r repository of Some e \<Rightarrow> Inl e | None \<Rightarrow>
      if content \<noteq> encode_record marshal r then Inl NotCanonical else Inr r)"

subsection \<open>Provenance in the Git history\<close>

record git_view =
  gv_prefix :: "gostring option"
  gv_last_commit :: "gostring \<Rightarrow> gostring option"
  gv_message :: "gostring \<Rightarrow> gostring option"
  gv_changed :: "gostring \<Rightarrow> gostring list option"
  gv_show :: "gostring \<Rightarrow> gostring \<Rightarrow> gostring option"
  gv_commit_time :: "gostring \<Rightarrow> gostring option"

definition hasPlanTrailer :: "gostring \<Rightarrow> gostring \<Rightarrow> bool" where
  "hasPlanTrailer message planID =
     list_ex (\<lambda>line. trim is_space line = ''Snailmail-Plan: '' @ planID) (split_on (CHR 0x0A) message)"

definition workspaceGitPath :: "git_view \<Rightarrow> gostring \<Rightarrow> deployment_error + gostring" where
  "workspaceGitPath git relative = (case gv_prefix git of None \<Rightarrow> Inl GitFailure
     | Some gitPrefix \<Rightarrow> Inr (path_join [gitPrefix, relative]))"

text \<open>The path below the workspace, or \<open>None\<close> when it is not inside.\<close>

definition workspaceRelativeGitPath :: "git_view \<Rightarrow> gostring \<Rightarrow> deployment_error + gostring option" where
  "workspaceRelativeGitPath git name = (case gv_prefix git of None \<Rightarrow> Inl GitFailure
     | Some gitPrefix \<Rightarrow> Inr (if gitPrefix = [] then Some name
         else if \<not> has_prefix name gitPrefix then None else Some (trim_prefix name gitPrefix)))"

fun receipt_paths :: "git_view \<Rightarrow> gostring list \<Rightarrow> deployment_error option" where
  "receipt_paths git [] = None"
| "receipt_paths git (name # names) =
     (case workspaceRelativeGitPath git name of Inl e \<Rightarrow> Some e
      | Inr None \<Rightarrow> Some UnrelatedReceiptPaths
      | Inr (Some relative) \<Rightarrow>
        if \<not> has_prefix relative ''deployments/'' \<or> \<not> has_suffix relative ''.json'' then Some UnrelatedReceiptPaths
        else receipt_paths git names)"

definition isPlanDeploymentCommit :: "git_view \<Rightarrow> gostring \<Rightarrow> gostring \<Rightarrow> deployment_error + bool" where
  "isPlanDeploymentCommit git revision planID =
     (case gv_message git revision of None \<Rightarrow> Inr False | Some message \<Rightarrow>
      if \<not> hasPlanTrailer message planID \<or> \<not> has_prefix message (''record snailmail deployments'' @ [CHR 0x0A])
      then Inr False
      else case gv_changed git revision of None \<Rightarrow> Inl InvalidReceiptPaths | Some paths \<Rightarrow>
        if paths = [] then Inl InvalidReceiptPaths
        else case receipt_paths git paths of Some e \<Rightarrow> Inl e | None \<Rightarrow> Inr True)"

definition managedDeploymentCommitTime :: "git_view \<Rightarrow> (DeploymentRecord \<Rightarrow> gostring) \<Rightarrow> (gostring \<Rightarrow> int option) \<Rightarrow>
    gostring \<Rightarrow> DeploymentRecord \<Rightarrow> deployment_error + int" where
  "managedDeploymentCommitTime git marshal parseTime repository r =
     (case workspaceGitPath git (deployment_file repository) of Inl e \<Rightarrow> Inl e | Inr treePath \<Rightarrow>
      case gv_last_commit git treePath of None \<Rightarrow> Inl NotCommitted | Some commit \<Rightarrow>
      if commit = [] then Inl NotCommitted
      else case isPlanDeploymentCommit git commit (dr_PlanID r) of Inl e \<Rightarrow> Inl e | Inr managed \<Rightarrow>
      if \<not> managed then Inl NotManaged
      else case gv_changed git commit of None \<Rightarrow> Inl InvalidReceiptPaths | Some changedPaths \<Rightarrow>
      if changedPaths = [] then Inl InvalidReceiptPaths
      else case receipt_paths git changedPaths of Some e \<Rightarrow> Inl e | None \<Rightarrow>
      case gv_show git commit treePath of None \<Rightarrow> Inl GitFailure | Some committedContent \<Rightarrow>
      if committedContent \<noteq> encode_record marshal r then Inl DiffersFromCommit
      else case gv_commit_time git commit of None \<Rightarrow> Inl GitFailure | Some value \<Rightarrow>
      case parseTime value of None \<Rightarrow> Inl InvalidCommitTimestamp | Some committedAt \<Rightarrow> Inr committedAt)"

text \<open>The zero time stands for no trust time.\<close>

definition AuthoritativeDeploymentTrustSince :: "git_view \<Rightarrow> (DeploymentRecord \<Rightarrow> gostring) \<Rightarrow> (gostring \<Rightarrow> int option) \<Rightarrow>
    gostring \<Rightarrow> DeploymentRecord \<Rightarrow> deployment_error + int" where
  "AuthoritativeDeploymentTrustSince git marshal parseTime repository r =
     (if dr_TrustSince r = [] then Inr 0
      else case parseTime (dr_TrustSince r) of None \<Rightarrow> Inl InvalidTrustTimestamp | Some trustSince \<Rightarrow>
      case managedDeploymentCommitTime git marshal parseTime repository r of Inl e \<Rightarrow> Inl e | Inr committedAt \<Rightarrow>
      Inr (if committedAt > trustSince then committedAt else trustSince))"

definition ValidateDeploymentProvenance :: "git_view \<Rightarrow> (DeploymentRecord \<Rightarrow> gostring) \<Rightarrow> (gostring \<Rightarrow> int option) \<Rightarrow>
    gostring \<Rightarrow> DeploymentRecord \<Rightarrow> deployment_error option" where
  "ValidateDeploymentProvenance git marshal parseTime repository r =
     (case managedDeploymentCommitTime git marshal parseTime repository r of Inl e \<Rightarrow> Some e | Inr _ \<Rightarrow> None)"

subsection \<open>Writing a batch of receipts\<close>

text \<open>
  \<^verbatim>\<open>atomicWrite\<close> replaces the file by a rename and then syncs the directory, so it can report an
  error before the rename or after it.
\<close>

datatype write_outcome = Written | FailedBefore | FailedAfter

record deployment_io =
  io_write :: "gostring \<Rightarrow> write_outcome"
  io_restore :: "gostring \<Rightarrow> write_outcome"
  io_remove :: "gostring \<Rightarrow> bool"
  io_commit :: "gostring list \<Rightarrow> gostring option"

definition atomic_write :: "write_outcome \<Rightarrow> gostring \<Rightarrow> gostring \<Rightarrow> files \<Rightarrow> files \<times> bool" where
  "atomic_write outcome name content store = (case outcome of
       Written \<Rightarrow> (store(name := Content content), True)
     | FailedBefore \<Rightarrow> (store, False)
     | FailedAfter \<Rightarrow> (store(name := Content content), False))"

text \<open>The loop over the sorted records: the files, the prior contents, and an error or the changed paths.\<close>

fun write_records :: "file_system \<Rightarrow> deployment_io \<Rightarrow> (DeploymentRecord \<Rightarrow> gostring) \<Rightarrow> (gostring \<Rightarrow> int option) \<Rightarrow> gostring \<Rightarrow>
    gostring option \<Rightarrow> DeploymentRecord list \<Rightarrow> files \<Rightarrow> (gostring \<times> read_result) list \<Rightarrow> gostring list \<Rightarrow>
    files \<times> (gostring \<times> read_result) list \<times> (deployment_error + gostring list)" where
  "write_records fs io marshal parseTime root previous [] store priors paths = (store, priors, Inr paths)"
| "write_records fs io marshal parseTime root previous (record # rest) store priors paths =
     (if previous = Some (dr_Repository record) then (store, priors, Inl DuplicateDeployment)
      else let r = record\<lparr>dr_SchemaVersion := DeploymentSchema\<rparr> in
        if ValidateRepositoryName (dr_Repository r) \<noteq> None then (store, priors, Inl InvalidDeploymentRecord)
        else case ValidateDeploymentRecord parseTime r (dr_Repository r) of Some e \<Rightarrow> (store, priors, Inl e) | None \<Rightarrow>
        case deploymentPath fs root (dr_Repository r) of Inl e \<Rightarrow> (store, priors, Inl e) | Inr name \<Rightarrow>
        if store name = Content (encode_record marshal r)
        then write_records fs io marshal parseTime root (Some (dr_Repository r)) rest store priors paths
        else if store name = Unreadable then (store, priors, Inl DeploymentRead)
        else let priors' = priors @ [(name, store name)];
                 (store', ok) = atomic_write (io_write io name) name (encode_record marshal r) store in
          if \<not> ok then (store', priors', Inl (DeploymentWrite name))
          else write_records fs io marshal parseTime root (Some (dr_Repository r)) rest store' priors'
                 (paths @ [deployment_file (dr_Repository r)]))"

text \<open>The deferred rollback, in the order the contents were saved.\<close>

fun restore_files :: "deployment_io \<Rightarrow> (gostring \<times> read_result) list \<Rightarrow> files \<Rightarrow> deployment_error \<Rightarrow> files \<times> deployment_error" where
  "restore_files io [] store err = (store, err)"
| "restore_files io ((name, prior) # rest) store err =
     (case prior of
        Content content \<Rightarrow>
          (let (store', ok) = atomic_write (io_restore io name) name content store in
           restore_files io rest store' (if ok then err else RestoreFailed err name))
      | _ \<Rightarrow> if io_remove io name then restore_files io rest (store(name := Missing)) err
             else restore_files io rest store (RestoreFailed err name))"

definition CommitDeployments :: "file_system \<Rightarrow> deployment_io \<Rightarrow> (DeploymentRecord \<Rightarrow> gostring) \<Rightarrow> (gostring \<Rightarrow> int option) \<Rightarrow>
    gostring \<Rightarrow> gostring \<Rightarrow> DeploymentRecord list \<Rightarrow> files \<Rightarrow> files \<times> (deployment_error + gostring)" where
  "CommitDeployments fs io marshal parseTime root baseRevision records store =
     (if records = [] then (store, Inr baseRevision)
      else let (store', priors, outcome) =
             write_records fs io marshal parseTime root None (sort_key dr_Repository records) store [] [] in
        case outcome of
          Inl e \<Rightarrow> (let (restored, err) = restore_files io priors store' e in (restored, Inl err))
        | Inr paths \<Rightarrow>
          if paths = [] then (store', Inr baseRevision)
          else case io_commit io paths of
            None \<Rightarrow> (let (restored, err) = restore_files io priors store' CommitFailed in (restored, Inl err))
          | Some revision \<Rightarrow> (store', Inr revision))"

subsection \<open>Receipt files\<close>

lemma identifier_elements:
  assumes "identifierPattern repository"
  shows "plain_element (repository @ ''.json'')"
proof -
  obtain c cs where r: "repository = c # cs" "is_lower c" "list_all identifier_char cs"
    using assms by (auto simp: identifierPattern_def split: list.splits)
  have "\<not> is_lower CHR ''/''" "\<not> identifier_char CHR ''/''" "\<not> is_lower CHR ''.''" by code_simp+
  then show ?thesis using r by (auto simp: plain_element_def list_all_iff)
qed

lemma path_elements_plain:
  assumes "es \<noteq> []" and "list_all plain_element es"
  shows "path_elements (join_with ''/'' es) = es"
proof -
  have "list_all (\<lambda>e. CHR ''/'' \<notin> set e) es" using assms(2) by (auto simp: list_all_iff plain_element_def)
  then show ?thesis using split_on_join [OF assms(1)] fold_clean_push [OF assms(2)]
    by (simp add: path_elements_def)
qed

lemma deployment_file_elements:
  assumes "identifierPattern repository"
  shows "deployment_file repository = ''deployments/'' @ repository @ ''.json''"
    and "path_elements (deployment_file repository) = [''deployments'', repository @ ''.json'']"
proof -
  have plain: "list_all plain_element [''deployments'', repository @ ''.json'']"
    using identifier_elements [OF assms] by (simp add: plain_element_def)
  have elements: "path_elements (''deployments/'' @ repository @ ''.json'') = [''deployments'', repository @ ''.json'']"
    using path_elements_plain [OF _ plain] by simp
  show "deployment_file repository = ''deployments/'' @ repository @ ''.json''"
    using elements by (simp add: deployment_file_def path_join_def path_clean_def is_abs_def)
  then show "path_elements (deployment_file repository) = [''deployments'', repository @ ''.json'']"
    using elements by simp
qed

lemma deploymentPath_elements:
  assumes "fs_eval fs root = Some resolved" and "is_abs resolved" and "deploymentPath fs root repository = Inr name"
  shows "identifierPattern repository"
    and "path_elements name = path_elements resolved @ [''deployments'', repository @ ''.json'']"
proof -
  show ident: "identifierPattern repository"
    using assms(3) by (auto simp: deploymentPath_def ValidateRepositoryName_def split: if_splits)
  have "WorkspacePath fs root (deployment_file repository) = Inr name"
    using assms(3) by (auto simp: deploymentPath_def split: option.splits sum.splits)
  then have "name = path_join [resolved, deployment_file repository]"
    and "validateRelativePath (deployment_file repository) = None"
    using assms(1) by (auto simp: WorkspacePath_def Let_def split: option.splits sum.splits if_splits)
  then show "path_elements name = path_elements resolved @ [''deployments'', repository @ ''.json'']"
    using candidate_elements [OF assms(2)] deployment_file_elements(2) [OF ident] by metis
qed

lemma deploymentPath_injective:
  assumes "fs_eval fs root = Some resolved" and "is_abs resolved"
    and "deploymentPath fs root a = Inr name" and "deploymentPath fs root b = Inr name"
  shows "a = b"
  using deploymentPath_elements(2) [OF assms(1,2,3)] deploymentPath_elements(2) [OF assms(1,2,4)] by simp

subsection \<open>The batch is all or nothing\<close>

text \<open>What the write loop has done to the files, told by the prior contents it saved.\<close>

definition saved :: "files \<Rightarrow> files \<Rightarrow> (gostring \<times> read_result) list \<Rightarrow> bool" where
  "saved store store' new \<longleftrightarrow> distinct (map fst new) \<and> (\<forall>n. n \<notin> fst ` set new \<longrightarrow> store' n = store n) \<and>
     (\<forall>n c. (n, c) \<in> set new \<longrightarrow> c = store n \<and> c \<noteq> Unreadable)"

lemma saved_Nil: "saved store store []"
  by (simp add: saved_def)

lemma saved_Cons:
  assumes "saved store1 store2 new" and "name \<notin> fst ` set new" and "store name \<noteq> Unreadable"
    and "\<And>n. n \<noteq> name \<Longrightarrow> store1 n = store n"
  shows "saved store store2 ((name, store name) # new)"
proof -
  have "c = store n \<and> c \<noteq> Unreadable" if new: "(n, c) \<in> set new" for n c
  proof -
    have "n \<in> fst ` set new" using new by force
    then have "n \<noteq> name" using assms(2) by metis
    then have "store1 n = store n" by (rule assms(4))
    moreover have "c = store1 n \<and> c \<noteq> Unreadable" using assms(1) new unfolding saved_def by blast
    ultimately show ?thesis by auto
  qed
  moreover have "distinct (map fst ((name, store name) # new))" using assms(1,2) by (simp add: saved_def)
  moreover have "store2 n = store n" if "n \<notin> fst ` set ((name, store name) # new)" for n
    using assms(1,4) that by (simp add: saved_def)
  ultimately show ?thesis unfolding saved_def using assms(3) by auto
qed

lemma atomic_write_other:
  "atomic_write outcome name content store = (store', ok) \<Longrightarrow> n \<noteq> name \<Longrightarrow> store' n = store n"
  by (auto simp: atomic_write_def split: write_outcome.splits)

lemma write_records_saved:
  assumes root: "fs_eval fs root = Some resolved" "is_abs resolved"
  shows "write_records fs io marshal parseTime root previous records store priors paths = (store', priors', outcome) \<Longrightarrow>
    sorted (map dr_Repository records) \<Longrightarrow> (\<And>p r. previous = Some p \<Longrightarrow> r \<in> set records \<Longrightarrow> p \<le> dr_Repository r) \<Longrightarrow>
    \<exists>new. priors' = priors @ new \<and> saved store store' new \<and>
      (\<forall>n \<in> fst ` set new. \<exists>repository. deploymentPath fs root repository = Inr n \<and> previous \<noteq> Some repository \<and>
         (\<forall>p. previous = Some p \<longrightarrow> p \<le> repository))"
proof (induction records arbitrary: previous store priors paths)
  case Nil
  then show ?case by (auto intro!: exI [of _ "[]"] saved_Nil)
next
  case (Cons item rest)
  let ?repo = "dr_Repository item" and ?r = "item\<lparr>dr_SchemaVersion := DeploymentSchema\<rparr>"
  have stop: ?case if "priors' = priors" "store' = store" using that by (auto intro!: exI [of _ "[]"] saved_Nil)
  show ?case
  proof (cases "previous = Some ?repo \<or> ValidateRepositoryName ?repo \<noteq> None \<or>
      ValidateDeploymentRecord parseTime ?r ?repo \<noteq> None \<or> (\<exists>e. deploymentPath fs root ?repo = Inl e)")
    case True
    then show ?thesis using Cons.prems(1) by (intro stop) (auto simp: Let_def split: if_splits option.splits sum.splits)
  next
    case False
    then obtain name where name: "deploymentPath fs root ?repo = Inr name"
      by (cases "deploymentPath fs root ?repo") auto
    have "write_records fs io marshal parseTime root previous (item # rest) store priors paths =
       (if store name = Content (encode_record marshal ?r)
        then write_records fs io marshal parseTime root (Some ?repo) rest store priors paths
        else if store name = Unreadable then (store, priors, Inl DeploymentRead)
        else case atomic_write (io_write io name) name (encode_record marshal ?r) store of (store1, ok) \<Rightarrow>
          if \<not> ok then (store1, priors @ [(name, store name)], Inl (DeploymentWrite name))
          else write_records fs io marshal parseTime root (Some ?repo) rest store1 (priors @ [(name, store name)])
                 (paths @ [deployment_file ?repo]))"
      using False name by (simp add: Let_def split: prod.split)
    note go = this [unfolded Cons.prems(1), symmetric]
    have above: "p \<le> dr_Repository r" if "Some ?repo = Some p" "r \<in> set rest" for p r
      using Cons.prems(2) that by simp
    have srt: "sorted (map dr_Repository rest)" using Cons.prems(2) by simp
    have tail: "\<exists>repository. deploymentPath fs root repository = Inr n \<and> previous \<noteq> Some repository \<and>
         (\<forall>p. previous = Some p \<longrightarrow> p \<le> repository)"
      if "deploymentPath fs root repository = Inr n" "?repo \<le> repository" for n repository
    proof (intro exI [of _ repository] conjI allI impI)
      have "p < ?repo" if "previous = Some p" for p using Cons.prems(3) [OF that] False that by fastforce
      then show "previous \<noteq> Some repository" "\<And>p. previous = Some p \<Longrightarrow> p \<le> repository"
        using that(2) by fastforce+
    qed (fact that(1))
    consider "store name = Content (encode_record marshal ?r)" | "store name = Unreadable" 
      | "store name \<noteq> Content (encode_record marshal ?r)" "store name \<noteq> Unreadable" by blast
    then show ?thesis
    proof cases
      case 1
      then have "write_records fs io marshal parseTime root (Some ?repo) rest store priors paths = (store', priors', outcome)"
        using go by simp
      then have "\<exists>new. priors' = priors @ new \<and> saved store store' new \<and>
        (\<forall>n \<in> fst ` set new. \<exists>repository. deploymentPath fs root repository = Inr n \<and> Some ?repo \<noteq> Some repository \<and>
             (\<forall>p. Some ?repo = Some p \<longrightarrow> p \<le> repository))"
        by (rule Cons.IH [OF _ srt]) (rule above)
      then obtain new where "priors' = priors @ new" "saved store store' new"
        "\<forall>n \<in> fst ` set new. \<exists>repository. deploymentPath fs root repository = Inr n \<and> Some ?repo \<noteq> Some repository \<and>
             (\<forall>p. Some ?repo = Some p \<longrightarrow> p \<le> repository)" by (elim exE conjE)
      then show ?thesis using tail by (intro exI [of _ new] conjI ballI) (simp, simp, metis)
    next
      case 2
      then show ?thesis using go by (intro stop) (auto split: prod.splits)
    next
      case 3
      obtain store1 ok where w: "atomic_write (io_write io name) name (encode_record marshal ?r) store = (store1, ok)"
        by (cases "atomic_write (io_write io name) name (encode_record marshal ?r) store") auto
      note other = atomic_write_other [OF w]
      show ?thesis
      proof (cases ok)
        case False
        have "priors' = priors @ [(name, store name)]" "store' = store1" using go 3 w False by auto
        moreover have "saved store store1 [(name, store name)]"
          by (rule saved_Cons [where ?store1.0 = store1]) (simp_all add: other saved_Nil 3(2))
        ultimately show ?thesis using tail [OF name] by (intro exI [of _ "[(name, store name)]"]) simp
      next
        case True
        have "write_records fs io marshal parseTime root (Some ?repo) rest store1 (priors @ [(name, store name)])
            (paths @ [deployment_file ?repo]) = (store', priors', outcome)" using go 3 w True by simp
        then have "\<exists>new. priors' = (priors @ [(name, store name)]) @ new \<and> saved store1 store' new \<and>
        (\<forall>n \<in> fst ` set new. \<exists>repository. deploymentPath fs root repository = Inr n \<and> Some ?repo \<noteq> Some repository \<and>
             (\<forall>p. Some ?repo = Some p \<longrightarrow> p \<le> repository))"
        by (rule Cons.IH [OF _ srt]) (rule above)
        then obtain new where new: "priors' = priors @ (name, store name) # new"
          "saved store1 store' new" "\<forall>n \<in> fst ` set new. \<exists>repository. deploymentPath fs root repository = Inr n \<and> Some ?repo \<noteq> Some repository \<and>
             (\<forall>p. Some ?repo = Some p \<longrightarrow> p \<le> repository)" by auto
        have "name \<notin> fst ` set new" using new(3) deploymentPath_injective [OF root name] by metis
        then have "saved store store' ((name, store name) # new)"
          by (intro saved_Cons [where ?store1.0 = store1 and store = store and name = name]) (simp_all add: other new(2) 3(2))
        moreover have "\<exists>repository. deploymentPath fs root repository = Inr n \<and> previous \<noteq> Some repository \<and>
            (\<forall>p. previous = Some p \<longrightarrow> p \<le> repository)" if "n \<in> fst ` set ((name, store name) # new)" for n
        proof (cases "n = name")
          case False
          then have "n \<in> fst ` set new" using that by simp
          then show ?thesis using new(3) tail by metis
        qed (use tail [OF name] in simp)
        ultimately show ?thesis using new(1) by (intro exI [of _ "(name, store name) # new"] conjI ballI)
      qed
    qed
  qed
qed










text \<open>A workspace at \<^verbatim>\<open>/w\<close> without symbolic links, and a receipt of an unsigned repository.\<close>

definition plain_fs :: file_system where
  "plain_fs = \<lparr>fs_lstat = (\<lambda>_. Present), fs_eval = Some\<rparr>"

definition any_time :: "gostring \<Rightarrow> int option" where
  "any_time s = (if s = [] then None else Some 0)"

definition sample_receipt :: "gostring \<Rightarrow> DeploymentRecord" where
  "sample_receipt repository = zero_record\<lparr>dr_SchemaVersion := DeploymentSchema, dr_Repository := repository,
     dr_PlanID := replicate 64 (CHR ''a''), dr_TreeSHA256 := replicate 64 (CHR ''b''),
     dr_ChangeID := repository @ '':bbbbbbbbbbbb'', dr_NativeRevision := ''n'', dr_DeployedAt := ''t''\<rparr>"

definition failing_io :: deployment_io where
  "failing_io = \<lparr>io_write = (\<lambda>n. if n = ''/w/deployments/b.json'' then FailedAfter else Written),
     io_restore = (\<lambda>_. Written), io_remove = (\<lambda>_. True), io_commit = (\<lambda>_. None)\<rparr>"


text \<open>A loop that ends without an error has left the encoding of every record in its file.\<close>

lemma write_records_complete:
  assumes root: "fs_eval fs root = Some resolved" "is_abs resolved"
  shows "write_records fs io marshal parseTime root previous records store priors paths = (store', priors', Inr paths') \<Longrightarrow>
    sorted (map dr_Repository records) \<Longrightarrow> (\<And>p r. previous = Some p \<Longrightarrow> r \<in> set records \<Longrightarrow> p \<le> dr_Repository r) \<Longrightarrow>
    r \<in> set records \<Longrightarrow> \<exists>name. deploymentPath fs root (dr_Repository r) = Inr name \<and>
      store' name = Content (encode_record marshal (r\<lparr>dr_SchemaVersion := DeploymentSchema\<rparr>)) \<and>
      ValidateDeploymentRecord parseTime (r\<lparr>dr_SchemaVersion := DeploymentSchema\<rparr>) (dr_Repository r) = None"
proof (induction records arbitrary: previous store priors paths)
  case (Cons item rest)
  let ?repo = "dr_Repository item" and ?r = "item\<lparr>dr_SchemaVersion := DeploymentSchema\<rparr>"
  have srt: "sorted (map dr_Repository rest)" and above: "\<And>p r. Some ?repo = Some p \<Longrightarrow> r \<in> set rest \<Longrightarrow> p \<le> dr_Repository r"
    using Cons.prems(2) by auto
  obtain name store1 priors1 paths1 where step: "deploymentPath fs root ?repo = Inr name"
    "store1 name = Content (encode_record marshal ?r)" "ValidateDeploymentRecord parseTime ?r ?repo = None"
    "write_records fs io marshal parseTime root (Some ?repo) rest store1 priors1 paths1 = (store', priors', Inr paths')"
    using Cons.prems(1) by (auto simp: Let_def atomic_write_def split: if_splits option.splits sum.splits write_outcome.splits)
      (metis fun_upd_same)
  have "\<exists>new. priors' = priors1 @ new \<and> saved store1 store' new \<and>
      (\<forall>n \<in> fst ` set new. \<exists>repository. deploymentPath fs root repository = Inr n \<and> Some ?repo \<noteq> Some repository \<and>
         (\<forall>p. Some ?repo = Some p \<longrightarrow> p \<le> repository))"
    by (rule write_records_saved [OF root step(4) srt]) (rule above)
  then obtain new where "saved store1 store' new"
    "\<forall>n \<in> fst ` set new. \<exists>repository. deploymentPath fs root repository = Inr n \<and> Some ?repo \<noteq> Some repository \<and>
         (\<forall>p. Some ?repo = Some p \<longrightarrow> p \<le> repository)" by (elim exE conjE)
  moreover from this(2) have "name \<notin> fst ` set new" using deploymentPath_injective [OF root step(1)] by metis
  ultimately have "store' name = Content (encode_record marshal ?r)" using step(2) by (simp add: saved_def)
  then show ?case using Cons.prems(4) step(1,3) Cons.IH [OF step(4) srt above] by (cases "r = item") auto
qed simp

text \<open>
  A batch of receipts that is recorded can be read back. After a successful commit every record of
  the batch, with the current schema version, is what loading the receipt of its repository returns:
  the loader accepts its encoding as canonical and valid, and no record has overwritten another.
\<close>

theorem committed_deployments_load:
  assumes "fs_eval fs root = Some resolved" and "is_abs resolved"
    and "CommitDeployments fs io marshal parseTime root base records store = (store', Inr revision)"
    and "r \<in> set records"
    and "decode (encode_record marshal (r\<lparr>dr_SchemaVersion := DeploymentSchema\<rparr>)) = Some (r\<lparr>dr_SchemaVersion := DeploymentSchema\<rparr>)"
  shows "LoadDeployment fs decode marshal parseTime store' root (dr_Repository r)
      = Inr (r\<lparr>dr_SchemaVersion := DeploymentSchema\<rparr>)"
proof -
  obtain store1 priors paths where w:
    "write_records fs io marshal parseTime root None (sort_key dr_Repository records) store [] [] = (store1, priors, Inr paths)"
    and same: "store1 = store'"
    using assms(3,4) by (auto simp: CommitDeployments_def split: if_splits sum.splits option.splits prod.splits)
  have "\<exists>name. deploymentPath fs root (dr_Repository r) = Inr name \<and>
      store1 name = Content (encode_record marshal (r\<lparr>dr_SchemaVersion := DeploymentSchema\<rparr>)) \<and>
      ValidateDeploymentRecord parseTime (r\<lparr>dr_SchemaVersion := DeploymentSchema\<rparr>) (dr_Repository r) = None"
    using assms(4) by (intro write_records_complete [OF assms(1,2) w]) simp_all
  then show ?thesis using assms(5) same by (auto simp: LoadDeployment_def)
qed

theorem committed_deployments_load_witness:
  "LoadDeployment plain_fs (\<lambda>s. Some (sample_receipt ''a'')) (\<lambda>_. ''{}'') any_time
     (fst (CommitDeployments plain_fs (failing_io\<lparr>io_commit := \<lambda>_. Some ''rev''\<rparr>) (\<lambda>_. ''{}'') any_time ''/w'' ''base''
       [sample_receipt ''a''] (\<lambda>_. Missing))) ''/w'' ''a'' = Inr (sample_receipt ''a'')"
proof -
  let ?r = "sample_receipt ''a''"
  let ?run = "CommitDeployments plain_fs (failing_io\<lparr>io_commit := \<lambda>_. Some ''rev''\<rparr>) (\<lambda>_. ''{}'') any_time ''/w'' ''base''
       [?r] (\<lambda>_. Missing)"
  have "\<not> isl (snd ?run)" by code_simp
  then obtain store' revision where run: "?run = (store', Inr revision)" by (cases ?run; cases "snd ?run") auto
  have same: "?r\<lparr>dr_SchemaVersion := DeploymentSchema\<rparr> = ?r" "dr_Repository ?r = ''a''" by (simp_all add: sample_receipt_def)
  have "LoadDeployment plain_fs (\<lambda>s. Some ?r) (\<lambda>_. ''{}'') any_time store' ''/w'' (dr_Repository ?r)
      = Inr (?r\<lparr>dr_SchemaVersion := DeploymentSchema\<rparr>)"
    by (rule committed_deployments_load [where resolved = "''/w''", OF _ _ run]) (simp_all add: plain_fs_def is_abs_def same)
  then show ?thesis using run same by simp
qed

end
