(* ===== verification/Signing_Shape.thy ===== *)
theory Signing_Shape
  imports Bindings Deployment
begin

section \<open>The signatures of a repository\<close>

text \<open>
  Which signatures a format makes and where they go (\<^verbatim>\<open>formats/signing.go\<close>), and the checks of
  \<^verbatim>\<open>engine/signing_recipe.go\<close> and \<^verbatim>\<open>engine/signing.go\<close> on the signatures a plan carries. The digest of a
  recipe is a SHA-256 over its JSON encoding and stands as an argument. The payloads, the signatures
  and their placement in a rendered tree are not modelled.
\<close>

datatype signing_error = RecipeFormat gostring | UnsignedFormat gostring | NoArchitectures | RecipeDigest | RotationTrust
  | TrustedKey | ActiveSignerOmitted | ResponseCount nat nat | NodeIdentity | UnsafeOutput

record SigningOutput =
  out_ID :: gostring
  out_Scheme :: gostring
  out_Path :: gostring

record SigningShape =
  shape_PayloadID :: gostring
  shape_Outputs :: "SigningOutput list"

record PublishedArtifact =
  pa_Filename :: gostring
  pa_SHA256 :: gostring

definition SchemeOpenPGPCleartext :: gostring where "SchemeOpenPGPCleartext = ''openpgp-cleartext-v4''"
definition SchemeOpenPGPDetached :: gostring where "SchemeOpenPGPDetached = ''openpgp-detached-armored-v4''"
definition SchemeAPKRSA256 :: gostring where "SchemeAPKRSA256 = ''apk-rsa-pkcs1-sha256-v1''"

definition defaulted :: "gostring \<Rightarrow> gostring \<Rightarrow> gostring" where
  "defaulted value fallback = (if value = [] then fallback else value)"

subsection \<open>The shapes\<close>

definition deb_SigningShape :: "FormatRepository \<Rightarrow> SigningShape" where
  "deb_SigningShape repository =
     (let suite = path_join [''dists'', defaulted (fr_Suite repository) ''stable''] in
      \<lparr>shape_PayloadID = ''deb-release'', shape_Outputs =
        [\<lparr>out_ID = ''deb-inrelease'', out_Scheme = SchemeOpenPGPCleartext, out_Path = path_join [suite, ''InRelease'']\<rparr>,
         \<lparr>out_ID = ''deb-release-gpg'', out_Scheme = SchemeOpenPGPDetached, out_Path = path_join [suite, ''Release.gpg'']\<rparr>]\<rparr>)"

definition rpm_SigningShape :: SigningShape where
  "rpm_SigningShape = \<lparr>shape_PayloadID = ''rpm-repomd'', shape_Outputs =
     [\<lparr>out_ID = ''rpm-repomd-asc'', out_Scheme = SchemeOpenPGPDetached, out_Path = ''repodata/repomd.xml.asc''\<rparr>]\<rparr>"

definition apk_SigningShape :: "FormatRepository \<Rightarrow> signing_error + SigningShape" where
  "apk_SigningShape repository =
     (let outputs = map (\<lambda>architecture. \<lparr>out_ID = ''apk-index-'' @ architecture, out_Scheme = SchemeAPKRSA256,
            out_Path = path_join [architecture, ''APKINDEX.tar.gz'']\<rparr>) (fr_Architectures repository) in
      if outputs = [] then Inl NoArchitectures
      else Inr \<lparr>shape_PayloadID = ''apk-index'', shape_Outputs = outputs\<rparr>)"

definition helm_SigningShape :: "gostring list \<Rightarrow> SigningShape" where
  "helm_SigningShape published = \<lparr>shape_PayloadID = ''helm-provenance'', shape_Outputs =
     map (\<lambda>chart. \<lparr>out_ID = ''helm-provenance-'' @ chart, out_Scheme = SchemeOpenPGPCleartext, out_Path = chart @ ''.prov''\<rparr>)
       published\<rparr>"

definition SignerFor :: "gostring \<Rightarrow> signing_error + format" where
  "SignerFor name = (case For name of Inl e \<Rightarrow> Inl (RecipeFormat name)
     | Inr selected \<Rightarrow> if ImplementsSigning selected then Inr selected else Inl (UnsignedFormat name))"

text \<open>The dynamic calls on a signer; the two formats that are not signers have no such methods.\<close>

fun SigningShapeOf :: "format \<Rightarrow> FormatRepository \<Rightarrow> gostring list \<Rightarrow> signing_error + SigningShape" where
  "SigningShapeOf DebFormat repository published = Inr (deb_SigningShape repository)"
| "SigningShapeOf RpmFormat repository published = Inr rpm_SigningShape"
| "SigningShapeOf ApkFormat repository published = apk_SigningShape repository"
| "SigningShapeOf HelmFormat repository published = Inr (helm_SigningShape published)"
| "SigningShapeOf f repository published = Inl (UnsignedFormat (format_Name f))"

fun SigningNodeOf :: "format \<Rightarrow> (gostring \<times> gostring list) option" where
  "SigningNodeOf DebFormat = Some (''deb-release'', [SchemeOpenPGPCleartext, SchemeOpenPGPDetached])"
| "SigningNodeOf RpmFormat = Some (''rpm-repomd'', [SchemeOpenPGPDetached])"
| "SigningNodeOf ApkFormat = Some (''apk-index'', [SchemeAPKRSA256])"
| "SigningNodeOf HelmFormat = Some (''helm-provenance'', [SchemeOpenPGPCleartext])"
| "SigningNodeOf f = None"

definition ChartPath :: "gostring \<Rightarrow> gostring \<Rightarrow> gostring" where
  "ChartPath digest filename = path_join [''charts'', digest, filename]"

definition helm_PublishedPaths :: "PublishedArtifact list \<Rightarrow> gostring list" where
  "helm_PublishedPaths artifacts = sort (remdups (map (\<lambda>a. ChartPath (pa_SHA256 a) (pa_Filename a)) artifacts))"

definition PublishedPathsOf :: "format \<Rightarrow> PublishedArtifact list \<Rightarrow> gostring list" where
  "PublishedPathsOf f artifacts = (if f = HelmFormat then helm_PublishedPaths artifacts else [])"

definition signingRepositoryView :: "Repository \<Rightarrow> FormatRepository" where
  "signingRepositoryView repository = \<lparr>fr_Suite = repo_Suite repository, fr_Architectures = repo_Architectures repository,
     fr_Signed = (repo_SigningKeys repository \<noteq> [])\<rparr>"

definition signingShapeFor :: "Repository \<Rightarrow> gostring list \<Rightarrow> signing_error + SigningShape" where
  "signingShapeFor repository published = (case SignerFor (repo_Format repository) of Inl e \<Rightarrow> Inl e
     | Inr signing \<Rightarrow> SigningShapeOf signing (signingRepositoryView repository) published)"

definition lockedArtifactPaths :: "Repository \<Rightarrow> RepositoryLock \<Rightarrow> gostring list" where
  "lockedArtifactPaths repository lock = (case SignerFor (repo_Format repository) of Inl e \<Rightarrow> []
     | Inr signing \<Rightarrow> PublishedPathsOf signing (concat (map (\<lambda>pv. map (\<lambda>locked.
         \<lparr>pa_Filename = blob_Filename locked, pa_SHA256 = blob_SHA256 locked\<rparr>) (pv_Blobs pv)) (visiblePackageVersions lock repository))))"

definition knownSigningNode :: "gostring \<Rightarrow> gostring \<Rightarrow> bool" where
  "knownSigningNode scheme payloadID = list_ex (\<lambda>name. case SignerFor name of Inl e \<Rightarrow> False
     | Inr signing \<Rightarrow> (case SigningNodeOf signing of None \<Rightarrow> False
        | Some (declared, schemes) \<Rightarrow> declared = payloadID \<and> scheme \<in> set schemes)) Names"

subsection \<open>The recipe of a plan\<close>

definition unsafe_output :: "gostring \<Rightarrow> bool" where
  "unsafe_output p \<longleftrightarrow> is_abs p \<or> path_clean p \<noteq> p \<or> has_prefix p ''../''"

fun validate_nodes :: "gostring \<Rightarrow> SigningNode list \<Rightarrow> SigningOutput list \<Rightarrow> signing_error option" where
  "validate_nodes payloadID (n # nodes) (want # outputs) =
     (if node_ID n \<noteq> out_ID want \<or> node_Kind n \<noteq> ''sign'' \<or> node_Scheme n \<noteq> out_Scheme want \<or> node_OutputPath n \<noteq> out_Path want
      then Some NodeIdentity
      else if node_DependsOn n \<noteq> [payloadID] then Some NodeIdentity
      else if unsafe_output (node_OutputPath n) then Some UnsafeOutput
      else validate_nodes payloadID nodes outputs)"
| "validate_nodes payloadID nodes outputs = None"

definition validateRecipeNodes :: "SigningNode list \<Rightarrow> SigningShape \<Rightarrow> signing_error option" where
  "validateRecipeNodes nodes recipe =
     (if length nodes \<noteq> length (shape_Outputs recipe) then Some (ResponseCount (length nodes) (length (shape_Outputs recipe)))
      else validate_nodes (shape_PayloadID recipe) nodes (shape_Outputs recipe))"

definition maxSigningNodes :: nat where "maxSigningNodes = 1024"

fun check_trusted :: "gostring list \<Rightarrow> PlanPublicKey list \<Rightarrow> bool" where
  "check_trusted seen [] = True"
| "check_trusted seen (trusted # rest) =
     (ppk_KeyName trusted \<noteq> [] \<and> ppk_KeyName trusted \<notin> set seen \<and> ValidFingerprint (ppk_Fingerprint trusted) \<and>
      ValidSHA256 (ppk_PublicKeySHA256 trusted) \<and> ppk_PublicKeyPath trusted \<noteq> [] \<and> check_trusted (ppk_KeyName trusted # seen) rest)"

definition loose_node :: "SigningNode \<Rightarrow> bool" where
  "loose_node n \<longleftrightarrow> node_Kind n = ''sign'' \<and>
     (case node_DependsOn n of [payloadID] \<Rightarrow> knownSigningNode (node_Scheme n) payloadID | _ \<Rightarrow> False) \<and>
     node_OutputPath n \<noteq> [] \<and> \<not> unsafe_output (node_OutputPath n)"

definition validateSigningRecipeMetadata :: "(PlanSigning \<Rightarrow> gostring) \<Rightarrow> PlanSigning \<Rightarrow> SigningShape option \<Rightarrow> signing_error option" where
  "validateSigningRecipeMetadata recipeDigest signing recipe =
     (if ps_Nodes signing = [] \<or> length (ps_Nodes signing) > maxSigningNodes \<or> ps_RecipeSHA256 signing \<noteq> recipeDigest signing \<or>
        \<not> ValidSHA256 (ps_KeyringSHA256 signing) \<or> is_abs (ps_KeyringPath signing) \<or>
        path_clean (ps_KeyringPath signing) \<noteq> ps_KeyringPath signing \<or> \<not> has_prefix (ps_KeyringPath signing) ''keys/'' \<or>
        \<not> has_suffix (ps_KeyringPath signing) ''.gpg'' \<or> ps_TrustedKeys signing = [] then Some RecipeDigest
      else if (ps_RotationPhase signing = [] \<and> (ps_MinimumRefreshSeconds signing \<noteq> 0 \<or> length (ps_TrustedKeys signing) \<noteq> 1)) \<or>
        ((ps_RotationPhase signing = ''introducing'' \<or> ps_RotationPhase signing = ''activated'') \<and>
         (ps_MinimumRefreshSeconds signing < MinimumSigningRefreshSeconds \<or> length (ps_TrustedKeys signing) \<noteq> 2)) \<or>
        (ps_RotationPhase signing \<noteq> [] \<and> ps_RotationPhase signing \<noteq> ''introducing'' \<and> ps_RotationPhase signing \<noteq> ''activated'')
      then Some RotationTrust
      else if \<not> check_trusted [] (ps_TrustedKeys signing) then Some TrustedKey
      else if \<not> list_ex (\<lambda>t. ppk_KeyName t = ps_KeyName signing \<and> ppk_Fingerprint t = ps_Fingerprint signing) (ps_TrustedKeys signing)
      then Some ActiveSignerOmitted
      else case recipe of
        Some shape \<Rightarrow> validateRecipeNodes (ps_Nodes signing) shape
      | None \<Rightarrow> if list_all loose_node (ps_Nodes signing) then None else Some NodeIdentity)"

fun nodes_equal :: "SigningNode list \<Rightarrow> SigningNode list \<Rightarrow> bool" where
  "nodes_equal (l # ls) (r # rs) = (if node_ID l \<noteq> node_ID r \<or> node_Kind l \<noteq> node_Kind r \<or> node_DependsOn l \<noteq> node_DependsOn r \<or>
      node_Scheme l \<noteq> node_Scheme r \<or> node_PayloadSHA256 l \<noteq> node_PayloadSHA256 r \<or> node_OutputPath l \<noteq> node_OutputPath r \<or>
      node_ContentSHA256 l \<noteq> node_ContentSHA256 r \<or> node_Content l \<noteq> node_Content r then False else nodes_equal ls rs)"
| "nodes_equal ls rs = True"

fun signings_equal :: "PlanSigning list \<Rightarrow> PlanSigning list \<Rightarrow> bool" where
  "signings_equal (l # ls) (r # rs) = (if ps_KeyName l \<noteq> ps_KeyName r \<or> ps_Algorithm l \<noteq> ps_Algorithm r \<or>
      ps_Fingerprint l \<noteq> ps_Fingerprint r \<or> ps_PublicKeyPath l \<noteq> ps_PublicKeyPath r \<or> ps_PublicKeySHA256 l \<noteq> ps_PublicKeySHA256 r \<or>
      ps_PublicArmorPath l \<noteq> ps_PublicArmorPath r \<or> ps_PublicArmorSHA256 l \<noteq> ps_PublicArmorSHA256 r \<or>
      ps_SignatureTime l \<noteq> ps_SignatureTime r \<or> ps_RecipeSHA256 l \<noteq> ps_RecipeSHA256 r \<or> ps_KeyringPath l \<noteq> ps_KeyringPath r \<or>
      ps_KeyringSHA256 l \<noteq> ps_KeyringSHA256 r \<or> ps_TrustedKeys l \<noteq> ps_TrustedKeys r \<or> ps_RotationPhase l \<noteq> ps_RotationPhase r \<or>
      ps_MinimumRefreshSeconds l \<noteq> ps_MinimumRefreshSeconds r \<or> length (ps_Nodes l) \<noteq> length (ps_Nodes r) then False
    else nodes_equal (ps_Nodes l) (ps_Nodes r) \<and> signings_equal ls rs)"
| "signings_equal ls rs = True"

definition signingContentsEqual :: "PlanSigning list \<Rightarrow> PlanSigning list \<Rightarrow> bool" where
  "signingContentsEqual left right = (length left = length right \<and> signings_equal left right)"

subsection \<open>Lemmas\<close>

text \<open>The field-by-field comparison is equality.\<close>

lemma nodes_equal_iff: "length ls = length rs \<Longrightarrow> nodes_equal ls rs \<longleftrightarrow> ls = rs"
  by (induction ls rs rule: nodes_equal.induct) (auto intro: SigningNode.equality)

lemma signings_equal_iff: "length ls = length rs \<Longrightarrow> signings_equal ls rs \<longleftrightarrow> ls = rs"
proof (induction ls rs rule: signings_equal.induct)
  case (1 l ls r rs)
  have nodes: "length (ps_Nodes l) = length (ps_Nodes r) \<Longrightarrow> nodes_equal (ps_Nodes l) (ps_Nodes r) \<longleftrightarrow> ps_Nodes l = ps_Nodes r"
    by (rule nodes_equal_iff)
  show ?case using 1 by (auto simp: nodes intro: PlanSigning.equality)
qed auto

lemma signingContentsEqual_iff [simp]: "signingContentsEqual left right \<longleftrightarrow> left = right"
  by (auto simp: signingContentsEqual_def signings_equal_iff)

text \<open>What a format declares covers the shapes it produces.\<close>

lemma SigningNode_covers_shape:
  assumes "SigningShapeOf f repository published = Inr shape"
  shows "\<exists>schemes. SigningNodeOf f = Some (shape_PayloadID shape, schemes) \<and> out_Scheme ` set (shape_Outputs shape) \<subseteq> set schemes"
  using assms by (cases f) (auto simp: deb_SigningShape_def rpm_SigningShape_def apk_SigningShape_def helm_SigningShape_def
      Let_def split: if_splits)

lemma known_node:
  assumes "SignerFor name = Inr f" and "SigningNodeOf f = Some (payloadID, schemes)" and "scheme \<in> set schemes"
  shows "knownSigningNode scheme payloadID"
proof -
  have "name \<in> set Names" using assms(1) by (force simp: SignerFor_def For_def Names_def split: option.splits sum.splits dest: map_of_SomeD)
  then show ?thesis using assms by (force simp: knownSigningNode_def list_ex_iff)
qed

lemma validate_nodes_all:
  assumes "validate_nodes payloadID nodes outputs = None" and "length nodes = length outputs" and "n \<in> set nodes"
  shows "node_Kind n = ''sign'' \<and> node_DependsOn n = [payloadID] \<and> \<not> unsafe_output (node_OutputPath n) \<and>
    (\<exists>want \<in> set outputs. node_Scheme n = out_Scheme want \<and> node_OutputPath n = out_Path want)"
  using assms by (induction payloadID nodes outputs rule: validate_nodes.induct) (auto split: if_splits)

lemma empty_path_unsafe: "unsafe_output []"
  by code_simp

subsection \<open>Properties\<close>

text \<open>
  C38: the check of a plan that is read before its repository is rebuilt does not refuse a plan the full
  check accepts: signatures that fit the shape of a repository pass the check that only knows what the
  formats declare.
\<close>

theorem shape_check_implies_plan_check:
  assumes "signingShapeFor repository published = Inr shape"
    and "validateSigningRecipeMetadata recipeDigest signing (Some shape) = None"
  shows "validateSigningRecipeMetadata recipeDigest signing None = None"
proof -
  obtain f where f: "SignerFor (repo_Format repository) = Inr f" "SigningShapeOf f (signingRepositoryView repository) published = Inr shape"
    using assms(1) by (auto simp: signingShapeFor_def split: sum.splits)
  obtain schemes where declared: "SigningNodeOf f = Some (shape_PayloadID shape, schemes)"
      "out_Scheme ` set (shape_Outputs shape) \<subseteq> set schemes"
    using SigningNode_covers_shape [OF f(2)] by blast
  have nodes: "validate_nodes (shape_PayloadID shape) (ps_Nodes signing) (shape_Outputs shape) = None"
      "length (ps_Nodes signing) = length (shape_Outputs shape)"
    using assms(2) by (auto simp: validateSigningRecipeMetadata_def validateRecipeNodes_def split: if_splits)
  have "loose_node n" if "n \<in> set (ps_Nodes signing)" for n
    using validate_nodes_all [OF nodes that] known_node [OF f(1) declared(1)] declared(2) empty_path_unsafe
    by (auto simp: loose_node_def)
  then have "list_all loose_node (ps_Nodes signing)" by (simp add: list_all_iff)
  then show ?thesis using assms(2) by (simp add: validateSigningRecipeMetadata_def split: if_splits)
qed

definition sample_key :: PlanPublicKey where
  "sample_key = \<lparr>ppk_KeyName = ''k'', ppk_Fingerprint = replicate 40 CHR ''a'', ppk_PublicKeyPath = ''keys/k.gpg'',
     ppk_PublicKeySHA256 = replicate 64 CHR ''b''\<rparr>"

definition rpm_signing :: PlanSigning where
  "rpm_signing = \<lparr>ps_KeyName = ''k'', ps_Algorithm = ''openpgp-rsa4096'', ps_Fingerprint = replicate 40 CHR ''a'',
     ps_PublicKeyPath = ''keys/k.gpg'', ps_PublicKeySHA256 = replicate 64 CHR ''b'', ps_PublicArmorPath = ''keys/k.asc'',
     ps_PublicArmorSHA256 = replicate 64 CHR ''c'', ps_SignatureTime = ''t'', ps_RecipeSHA256 = ''r'', ps_KeyringPath = ''keys/ring.gpg'',
     ps_KeyringSHA256 = replicate 64 CHR ''d'', ps_TrustedKeys = [sample_key], ps_RotationPhase = [], ps_MinimumRefreshSeconds = 0,
     ps_Nodes = [\<lparr>node_ID = ''rpm-repomd-asc'', node_Kind = ''sign'', node_DependsOn = [''rpm-repomd''],
       node_Scheme = SchemeOpenPGPDetached, node_PayloadSHA256 = replicate 64 CHR ''e'', node_OutputPath = ''repodata/repomd.xml.asc'',
       node_ContentSHA256 = replicate 64 CHR ''f'', node_Content = ''s''\<rparr>]\<rparr>"

theorem shape_check_implies_plan_check_witness:
  "validateSigningRecipeMetadata (\<lambda>_. ''r'') rpm_signing None = None"
proof (rule shape_check_implies_plan_check)
  show "signingShapeFor (tools_repository\<lparr>repo_Format := ''rpm'', repo_SigningKeys := [''k'']\<rparr>) [] = Inr rpm_SigningShape"
    by (simp add: signingShapeFor_def SignerFor_def For_def registry_def format_defs)
  show "validateSigningRecipeMetadata (\<lambda>_. ''r'') rpm_signing (Some rpm_SigningShape) = None" by code_simp
qed

end
