(* ===== verification/Go_Time.thy ===== *)
theory Go_Time
  imports Prelude
begin

section \<open>Timestamps\<close>

text \<open>
  The part of the package \<^verbatim>\<open>time\<close> that the sources use on timestamps: a time is a number of nanoseconds
  since the zero time, the start of the year 1 in UTC; \<^verbatim>\<open>Format(RFC3339)\<close> of a time in UTC and
  \<^verbatim>\<open>Parse(RFC3339)\<close>, which also accepts a one-digit hour, a fraction of a second and a zone offset.
\<close>

definition Second :: int where "Second = 1000000000"
definition Hour :: int where "Hour = 3600 * Second"

text \<open>The start of the year 10000, the first time that RFC 3339 cannot print.\<close>

definition MaxTime :: int where "MaxTime = 315537897600 * Second"

subsection \<open>The calendar\<close>

definition is_leap :: "int \<Rightarrow> bool" where
  "is_leap y \<longleftrightarrow> y mod 4 = 0 \<and> (y mod 100 \<noteq> 0 \<or> y mod 400 = 0)"

definition month_lengths :: "int \<Rightarrow> int list" where
  "month_lengths y = [31, if is_leap y then 29 else 28, 31, 30, 31, 30, 31, 31, 30, 31, 30, 31]"

definition days_before_year :: "int \<Rightarrow> int" where
  "days_before_year y = 365 * (y - 1) + (y - 1) div 4 - (y - 1) div 100 + (y - 1) div 400"

text \<open>The year of a day number and the day within the year, by 400, 100, 4 and 1 year cycles.\<close>

definition year_of :: "int \<Rightarrow> int \<times> int" where
  "year_of d = (let n400 = d div 146097; d1 = d mod 146097; n100 = min 3 (d1 div 36524); d2 = d1 - 36524 * n100;
     n4 = d2 div 1461; d3 = d2 mod 1461; n1 = min 3 (d3 div 365)
     in (400 * n400 + 100 * n100 + 4 * n4 + n1 + 1, d3 - 365 * n1))"

fun month_of :: "int list \<Rightarrow> int \<Rightarrow> int \<Rightarrow> int \<times> int" where
  "month_of [] m d = (m, d + 1)"
| "month_of [n] m d = (m, d + 1)"
| "month_of (n # ns) m d = (if d < n then (m, d + 1) else month_of ns (m + 1) (d - n))"

definition date_days :: "int \<Rightarrow> int \<Rightarrow> int \<Rightarrow> int" where
  "date_days y m d = days_before_year y + sum_list (take (nat (m - 1)) (month_lengths y)) + d - 1"

subsection \<open>Format\<close>

definition digit_char :: "int \<Rightarrow> char" where
  "digit_char n = char_of (48 + nat n)"

definition pad2 :: "int \<Rightarrow> gostring" where
  "pad2 n = [digit_char (n div 10 mod 10), digit_char (n mod 10)]"

definition format_rfc3339 :: "int \<Rightarrow> gostring" where
  "format_rfc3339 t = (let s = t div Second; (y, yday) = year_of (s div 86400);
     (m, d) = month_of (month_lengths y) 1 yday; clock = s mod 86400
     in pad2 (y div 100) @ pad2 (y mod 100) @ ''-'' @ pad2 m @ ''-'' @ pad2 d @ ''T'' @
        pad2 (clock div 3600) @ '':'' @ pad2 (clock div 60 mod 60) @ '':'' @ pad2 (clock mod 60) @ ''Z'')"

subsection \<open>Parse\<close>

definition dval :: "char \<Rightarrow> int" where
  "dval c = int (digit_val c)"

fun getnum :: "bool \<Rightarrow> gostring \<Rightarrow> (int \<times> gostring) option" where
  "getnum fixed [] = None"
| "getnum fixed [a] = (if is_digit a \<and> \<not> fixed then Some (dval a, []) else None)"
| "getnum fixed (a # b # s) =
     (if \<not> is_digit a then None
      else if is_digit b then Some (10 * dval a + dval b, s)
      else if fixed then None else Some (dval a, b # s))"

fun skip :: "char \<Rightarrow> gostring \<Rightarrow> gostring option" where
  "skip c [] = None"
| "skip c (a # s) = (if a = c then Some s else None)"

definition in_range :: "int \<Rightarrow> int \<Rightarrow> int \<Rightarrow> unit option" where
  "in_range lo hi n = (if lo \<le> n \<and> n \<le> hi then Some () else None)"

fun parse_year :: "gostring \<Rightarrow> (int \<times> gostring) option" where
  "parse_year (a # b # c # d # s) =
     (if list_all is_digit [a, b, c, d] then Some (1000 * dval a + 100 * dval b + 10 * dval c + dval d, s) else None)"
| "parse_year _ = None"

text \<open>An optional fraction of a second, of which nine digits count.\<close>

fun parse_fraction :: "gostring \<Rightarrow> int \<times> gostring" where
  "parse_fraction (p # a # s) =
     (if (p = CHR ''.'' \<or> p = CHR '','') \<and> is_digit a then
        let ds = takeWhile is_digit (a # s); ds9 = take 9 ds
        in (int (digits_val ds9) * 10 ^ (9 - length ds9), dropWhile is_digit (a # s))
      else (0, p # a # s))"
| "parse_fraction s = (0, s)"

text \<open>The zone offset in seconds.\<close>

fun parse_zone :: "gostring \<Rightarrow> (int \<times> gostring) option" where
  "parse_zone (g # a # b # c # d # e # s) =
     (if g = CHR ''Z'' then Some (0, a # b # c # d # e # s)
      else if c \<noteq> CHR '':'' \<or> \<not> list_all is_digit [a, b, d, e] then None
      else let hr = 10 * dval a + dval b; mm = 10 * dval d + dval e; z = (hr * 60 + mm) * 60 in
        if hr > 24 \<or> mm > 60 then None
        else if g = CHR ''+'' then Some (z, s) else if g = CHR ''-'' then Some (- z, s) else None)"
| "parse_zone (g # s) = (if g = CHR ''Z'' then Some (0, s) else None)"
| "parse_zone [] = None"

definition parse_rfc3339 :: "gostring \<Rightarrow> int option" where
  "parse_rfc3339 s =
     Option.bind (parse_year s) (\<lambda>(y, s). Option.bind (skip (CHR ''-'') s) (\<lambda>s.
     Option.bind (getnum True s) (\<lambda>(m, s). Option.bind (in_range 1 12 m) (\<lambda>_. Option.bind (skip (CHR ''-'') s) (\<lambda>s.
     Option.bind (getnum True s) (\<lambda>(d, s). Option.bind (skip (CHR ''T'') s) (\<lambda>s.
     Option.bind (getnum False s) (\<lambda>(h, s). Option.bind (in_range 0 23 h) (\<lambda>_. Option.bind (skip (CHR '':'') s) (\<lambda>s.
     Option.bind (getnum True s) (\<lambda>(mi, s). Option.bind (in_range 0 59 mi) (\<lambda>_. Option.bind (skip (CHR '':'') s) (\<lambda>s.
     Option.bind (getnum True s) (\<lambda>(sec, s). Option.bind (in_range 0 59 sec) (\<lambda>_.
     let (ns, s) = parse_fraction s in
     Option.bind (parse_zone s) (\<lambda>(offset, s).
     if s \<noteq> [] then None
     else Option.bind (in_range 1 (month_lengths y ! nat (m - 1)) d) (\<lambda>_.
       Some (((date_days y m d * 86400 + h * 3600 + mi * 60 + sec) - offset) * Second + ns))))))))))))))))))"

subsection \<open>Printed times are read back\<close>

lemma digit_char_facts:
  assumes "0 \<le> n" and "n < 10"
  shows "is_digit (digit_char n)" and "dval (digit_char n) = n"
proof -
  have "n \<in> {0, 1, 2, 3, 4, 5, 6, 7, 8, 9}" using assms by (simp, arith)
  then show "is_digit (digit_char n)" "dval (digit_char n) = n"
    by (auto simp: digit_char_def is_digit_def dval_def digit_val_def less_eq_char_def)
qed

lemma getnum_pad2: "0 \<le> n \<Longrightarrow> n < 100 \<Longrightarrow> getnum fixed (pad2 n @ s) = Some (n, s)"
  using digit_char_facts [of "n div 10"] digit_char_facts [of "n mod 10"] by (simp add: pad2_def)

lemma parse_year_pad2:
  assumes "0 \<le> h" "h < 100" "0 \<le> l" "l < 100"
  shows "parse_year (pad2 h @ pad2 l @ s) = Some (100 * h + l, s)"
proof -
  have two: "10 * (n div 10 mod 10) + n mod 10 = n" if "0 \<le> n" "n < 100" for n :: int
  proof -
    have "n div 10 mod 10 = n div 10" using that by (intro mod_pos_pos_trivial) (auto simp: pos_imp_zdiv_nonneg_iff)
    then show ?thesis using mult_div_mod_eq [of 10 n] by linarith
  qed
  have digit: "is_digit (digit_char (n mod 10))" "dval (digit_char (n mod 10)) = n mod 10" for n
    using digit_char_facts [of "n mod 10"] by simp_all
  have "1000 * (h div 10 mod 10) + 100 * (h mod 10) + 10 * (l div 10 mod 10) + l mod 10 = 100 * h + l"
    using two [of h] two [of l] assms by linarith
  then show ?thesis by (simp only: pad2_def append_Cons append_Nil parse_year.simps list.pred_inject digit) simp
qed

lemma cycle_divisions:
  fixes a b c e :: int
  assumes "0 \<le> b" "b \<le> 3" "0 \<le> c" "c \<le> 24" "0 \<le> e" "e \<le> 3"
  shows "(400 * a + 100 * b + 4 * c + e) div 4 = 100 * a + 25 * b + c"
    and "(400 * a + 100 * b + 4 * c + e) div 100 = 4 * a + b"
    and "(400 * a + 100 * b + 4 * c + e) div 400 = a"
proof -
  have "(q * m + r) div m = q" if "0 \<le> r" "r < m" for q m r :: int using that by simp
  from this [of e 4 "100 * a + 25 * b + c"] this [of "4 * c + e" 100 "4 * a + b"] this [of "100 * b + 4 * c + e" 400 a]
  show "(400 * a + 100 * b + 4 * c + e) div 4 = 100 * a + 25 * b + c"
    "(400 * a + 100 * b + 4 * c + e) div 100 = 4 * a + b" "(400 * a + 100 * b + 4 * c + e) div 400 = a"
    using assms by (simp_all add: algebra_simps)
qed

lemma quotient_bounds: "0 < m \<Longrightarrow> m * (n div m) \<le> n \<and> n < m * (n div m) + m" for n m :: int
  using pos_mod_bound [of m n] pos_mod_sign [of m n] mult_div_mod_eq [of m n] by linarith

lemma year_of_days:
  assumes "0 \<le> d" and "year_of d = (y, k)"
  shows "d = days_before_year y + k" and "1 \<le> y" and "0 \<le> k" and "k < (if is_leap y then 366 else 365)"
proof -
  define a d1 where "a = d div 146097" and "d1 = d mod 146097"
  define b where "b = min 3 (d1 div 36524)"
  define d2 where "d2 = d1 - 36524 * b"
  define c d3 where "c = d2 div 1461" and "d3 = d2 mod 1461"
  define e where "e = min 3 (d3 div 365)"
  have "year_of d = (400 * a + 100 * b + 4 * c + e + 1, d3 - 365 * e)"
    unfolding year_of_def Let_def e_def d3_def c_def d2_def b_def a_def d1_def by (rule refl)
  then have y: "y = 400 * a + 100 * b + 4 * c + e + 1" and k: "k = d3 - 365 * e" using assms(2) by simp_all
  have d1: "0 \<le> d1" "d1 < 146097" "d = 146097 * a + d1" by (simp_all add: d1_def a_def)
  have b_range: "0 \<le> b" "b \<le> 3" using d1(1,2) by (auto simp: b_def pos_imp_zdiv_nonneg_iff)
  have d2: "0 \<le> d2" "d2 < 36525" "b < 3 \<Longrightarrow> d2 < 36524"
    using d1(1,2) quotient_bounds [of 36524 d1] unfolding d2_def b_def by (auto simp: min_def)
  have c_range: "0 \<le> c" "c \<le> 24" "d2 = 1461 * c + d3" using d2(1,2) by (auto simp: c_def d3_def pos_imp_zdiv_nonneg_iff)
  have d3: "0 \<le> d3" "d3 < 1461" by (simp_all add: d3_def)
  have e_range: "0 \<le> e" "e \<le> 3" using d3 by (auto simp: e_def pos_imp_zdiv_nonneg_iff)
  have k_range: "0 \<le> k" "k < 366" "e < 3 \<Longrightarrow> k < 365"
    using d3 quotient_bounds [of 365 d3] unfolding k e_def by (auto simp: min_def)
  show "1 \<le> y" using assms(1) y b_range c_range e_range by (simp add: a_def pos_imp_zdiv_nonneg_iff)
  show "0 \<le> k" by (fact k_range)
  show "d = days_before_year y + k"
    using cycle_divisions [OF b_range c_range(1,2) e_range, of a] d1(3) c_range(3)
    by (simp add: days_before_year_def y k d2_def)
  show "k < (if is_leap y then 366 else 365)"
  proof (cases "k = 365")
    case True
    then have full: "e = 3" "d3 = 1460" using k_range(3) e_range k by linarith+
    then have y4: "y = 4 * (100 * a + 25 * b + c + 1)" using y by simp
    have "c = 24 \<Longrightarrow> b = 3" using d2(3) c_range(3) full(2) b_range(2) by linarith
    then have "y = 400 * (a + 1) \<or> (y = 100 * (4 * a + b) + 4 * (c + 1) \<and> 0 < 4 * (c + 1) \<and> 4 * (c + 1) < 100)"
      using y4 c_range(1,2) by (cases "c = 24") auto
    moreover have "(100 * q + r) mod 100 = r" if "0 < r" "r < 100" for q r :: int using that by simp
    from this [of "4 * (c + 1)" "4 * a + b"]
    have "y mod 100 = 4 * (c + 1)" if "y = 100 * (4 * a + b) + 4 * (c + 1)" "0 < 4 * (c + 1)" "4 * (c + 1) < 100"
      using that by simp
    moreover have "(400 * (a + 1)) mod 400 = 0" by simp
    ultimately have "y mod 100 \<noteq> 0 \<or> y mod 400 = 0" by (elim disjE conjE) (metis, linarith)
    then have "is_leap y" using y4 by (simp add: is_leap_def)
    then show ?thesis using k_range by simp
  qed (use k_range in simp)
qed

lemma month_of_days:
  "ns \<noteq> [] \<Longrightarrow> 0 \<le> k \<Longrightarrow> k < sum_list ns \<Longrightarrow> month_of ns m k = (m', d) \<Longrightarrow>
     m \<le> m' \<and> m' < m + int (length ns) \<and> 1 \<le> d \<and> d \<le> ns ! nat (m' - m) \<and>
     k = sum_list (take (nat (m' - m)) ns) + d - 1"
proof (induction ns m k rule: month_of.induct)
  case (3 n n2 ns m d0)
  show ?case
  proof (cases "d0 < n")
    case True
    then show ?thesis using 3 by auto
  next
    case False
    then have IH: "m + 1 \<le> m' \<and> m' < m + 1 + int (length (n2 # ns)) \<and> 1 \<le> d \<and> d \<le> (n2 # ns) ! nat (m' - (m + 1)) \<and>
       d0 - n = sum_list (take (nat (m' - (m + 1))) (n2 # ns)) + d - 1" using 3 by simp
    then have "nat (m' - m) = Suc (nat (m' - (m + 1)))" by linarith
    then show ?thesis using IH False by simp
  qed
qed auto

lemma month_lengths_sum: "sum_list (month_lengths y) = (if is_leap y then 366 else 365)"
  by (simp add: month_lengths_def)

lemma month_lengths_max: "i < 12 \<Longrightarrow> month_lengths y ! i \<le> 31"
  by (auto simp: month_lengths_def nth_Cons split: nat.splits)

lemma in_rangeI: "lo \<le> n \<Longrightarrow> n \<le> hi \<Longrightarrow> in_range lo hi n = Some ()"
  by (simp add: in_range_def)

text \<open>The parser on a printed date, field by field.\<close>

lemma parse_fields:
  assumes "\<And>rest. parse_year (pad2 (y div 100) @ pad2 (y mod 100) @ rest) = Some (y, rest)"
    and "in_range 1 12 m = Some ()" "in_range 1 (month_lengths y ! nat (m - 1)) d = Some ()" "0 \<le> d" "d < 100"
    and "in_range 0 23 h = Some ()" "in_range 0 59 mi = Some ()" "in_range 0 59 se = Some ()"
  shows "parse_rfc3339 (pad2 (y div 100) @ pad2 (y mod 100) @ ''-'' @ pad2 m @ ''-'' @ pad2 d @ ''T'' @
      pad2 h @ '':'' @ pad2 mi @ '':'' @ pad2 se @ ''Z'') = Some ((date_days y m d * 86400 + h * 3600 + mi * 60 + se) * Second)"
proof -
  have num: "getnum f (pad2 n @ rest) = Some (n, rest)" if "in_range lo hi n = Some ()" "0 \<le> lo" "hi < 100" for f n rest lo hi
    using getnum_pad2 that by (auto simp: in_range_def split: if_splits)
  have "getnum f (pad2 d @ rest) = Some (d, rest)" for f rest using assms(4,5) by (rule getnum_pad2)
  then show ?thesis unfolding parse_rfc3339_def
    by (simp add: assms num [OF assms(2)] num [OF assms(6)] num [OF assms(7)] num [OF assms(8)])
qed

theorem parse_format_rfc3339:
  assumes "0 \<le> t" and "t < MaxTime" and "t mod Second = 0"
  shows "parse_rfc3339 (format_rfc3339 t) = Some t"
proof -
  define s where "s = t div Second"
  have t: "t = s * Second" using assms(3) by (auto simp: s_def)
  have s: "0 \<le> s" "s < 315537897600" using assms t by (simp_all add: MaxTime_def Second_def)
  define clock where "clock = s mod 86400"
  have clock: "0 \<le> clock" "clock < 86400" "s = 86400 * (s div 86400) + clock" by (simp_all add: clock_def)
  obtain y k where yk: "year_of (s div 86400) = (y, k)" by fastforce
  obtain m d where md: "month_of (month_lengths y) 1 k = (m, d)" by fastforce
  have "0 \<le> s div 86400" using s by (simp add: pos_imp_zdiv_nonneg_iff)
  note year = year_of_days [OF this yk]
  have month: "1 \<le> m" "m \<le> 12" "1 \<le> d" "d \<le> month_lengths y ! nat (m - 1)" "k = sum_list (take (nat (m - 1)) (month_lengths y)) + d - 1"
    using month_of_days [OF _ year(3) _ md] year(4) month_lengths_sum [of y] by (auto simp: month_lengths_def)
  have "y < 10000"
  proof (rule ccontr)
    assume "\<not> y < 10000"
    then have "days_before_year y \<ge> 3652059" using zdiv_mono1 [of 9999 "y - 1" 4] zdiv_mono1 [of 9999 "y - 1" 400]
      quotient_bounds [of 100 "y - 1"] by (simp add: days_before_year_def)
    then show False using year(1,3) s(2) clock by linarith
  qed
  then have y: "parse_year (pad2 (y div 100) @ pad2 (y mod 100) @ rest) = Some (y, rest)" for rest
    using parse_year_pad2 [of "y div 100" "y mod 100"] year(2) by (simp add: pos_imp_zdiv_nonneg_iff)
  have d: "d < 100" using month(1-4) month_lengths_max [of "nat (m - 1)" y] by linarith
  have parts: "0 \<le> clock div 3600" "clock div 3600 \<le> 23" "0 \<le> clock div 60 mod 60" "clock div 60 mod 60 \<le> 59"
    "0 \<le> clock mod 60" "clock mod 60 \<le> 59"
    using clock(1,2) by (auto simp: pos_imp_zdiv_nonneg_iff)
  have sum: "clock div 3600 * 3600 + clock div 60 mod 60 * 60 + clock mod 60 = clock"
  proof -
    have "60 * (clock div 3600) + clock div 60 mod 60 = clock div 60"
      using mult_div_mod_eq [of 60 "clock div 60"] by (simp add: zdiv_zmult2_eq [symmetric])
    then show ?thesis using mult_div_mod_eq [of 60 clock] by linarith
  qed
  have ranges: "in_range 1 12 m = Some ()" "in_range 1 (month_lengths y ! nat (m - 1)) d = Some ()" "0 \<le> d" "d < 100"
    "in_range 0 23 (clock div 3600) = Some ()" "in_range 0 59 (clock div 60 mod 60) = Some ()" "in_range 0 59 (clock mod 60) = Some ()"
    using month(3) d by (auto intro!: in_rangeI month(1-4) parts)
  have "parse_rfc3339 (format_rfc3339 t) = Some ((date_days y m d * 86400 + clock div 3600 * 3600 +
      clock div 60 mod 60 * 60 + clock mod 60) * Second)"
    unfolding format_rfc3339_def Let_def s_def [symmetric] yk md clock_def [symmetric] prod.case
    by (rule parse_fields [OF y ranges])
  moreover have "date_days y m d = s div 86400" using month(5) year(1) by (simp add: date_days_def)
  then have "date_days y m d * 86400 + clock div 3600 * 3600 + clock div 60 mod 60 * 60 + clock mod 60 = s"
    using clock(3) sum by linarith
  ultimately show ?thesis using t by simp
qed

end
