(* ===== verification/Rotation.thy ===== *)
theory Rotation
  imports Deployment Plan_Model Go_Time
begin

section \<open>Signing state and its transitions\<close>

text \<open>
  The signing state a repository asks for, the receipt it is compared with, and the transitions between
  two deployed states that \<^verbatim>\<open>engine/signing.go\<close> authorizes. A time is a number of nanoseconds since Go's
  zero time; a duration is a signed 64-bit number of nanoseconds, so the conversion of a number of
  seconds wraps around. Adding a duration to a time does not overflow: times of any year up to 9999
  leave room for the 292 years a duration can hold.
\<close>

datatype rotation_error = InvalidSigningState | UnknownSigningKey gostring | InvalidKeyValidity
  | KeysExpireInRotation | SuccessorExpiresInOverlap | RotationNeedsDeployedState | ReceiptMismatch
  | SigningRemoved | KeyringChanged | SkipsPhase | IndexPanic

definition int64 :: "int \<Rightarrow> int" where
  "int64 n = (n + 2 ^ 63) mod 2 ^ 64 - 2 ^ 63"

text \<open>\<^verbatim>\<open>time.Duration(n) * time.Second\<close>.\<close>

definition seconds :: "int \<Rightarrow> int" where
  "seconds n = int64 (n * Second)"

record deploymentSigningState =
  ss_active :: gostring
  ss_trusted :: "gostring list"
  ss_keyring :: gostring
  ss_phase :: gostring
  ss_minimumRefresh :: int

definition no_signing_state :: deploymentSigningState where
  "no_signing_state = \<lparr>ss_active = [], ss_trusted = [], ss_keyring = [], ss_phase = [], ss_minimumRefresh = 0\<rparr>"

subsection \<open>The desired state\<close>

text \<open>The active key, the trusted keys, the phase and the minimum refresh of a repository.\<close>

definition repositorySigningState :: "Repository \<Rightarrow> rotation_error + gostring \<times> gostring list \<times> gostring \<times> int" where
  "repositorySigningState repository =
     (if repo_SigningKeys repository = [] then Inr ([], [], [], 0)
      else if length (repo_SigningKeys repository) \<noteq> 1 \<or> repo_SigningKeyring repository = [] then Inl InvalidSigningState
      else let active = repo_SigningKeys repository ! 0 in
        case repo_SigningRotation repository of
          None \<Rightarrow> Inr (active, [active], [], 0)
        | Some rotation \<Rightarrow>
          Inr (if rot_Phase rotation = ''activated'' then rot_SuccessorKey rotation else active,
               [active, rot_SuccessorKey rotation], rot_Phase rotation, rot_MinimumRefreshSeconds rotation))"

fun trusted_fingerprints :: "(gostring \<times> SigningKey) list \<Rightarrow> gostring list \<Rightarrow> rotation_error + gostring list" where
  "trusted_fingerprints keys [] = Inr []"
| "trusted_fingerprints keys (name # names) =
     (case map_of keys name of None \<Rightarrow> Inl (UnknownSigningKey name)
      | Some key \<Rightarrow> (case trusted_fingerprints keys names of Inl e \<Rightarrow> Inl e
         | Inr fingerprints \<Rightarrow> Inr (key_Fingerprint key # fingerprints)))"

definition repositoryDeploymentSigningState :: "Repository \<Rightarrow> (gostring \<times> SigningKey) list
    \<Rightarrow> rotation_error + deploymentSigningState" where
  "repositoryDeploymentSigningState repository keys =
     (case repositorySigningState repository of Inl e \<Rightarrow> Inl e
      | Inr (activeKey, trustedKeys, phase, minimumRefresh) \<Rightarrow>
        if activeKey = [] then Inr no_signing_state
        else case map_of keys activeKey of None \<Rightarrow> Inl (UnknownSigningKey activeKey)
        | Some active \<Rightarrow> (case trusted_fingerprints keys trustedKeys of Inl e \<Rightarrow> Inl e
           | Inr trusted \<Rightarrow> Inr \<lparr>ss_active = key_Fingerprint active, ss_trusted = trusted,
               ss_keyring = repo_SigningKeyring repository, ss_phase = phase, ss_minimumRefresh = minimumRefresh\<rparr>))"

definition deploymentSigningMatches :: "DeploymentRecord \<Rightarrow> deploymentSigningState \<Rightarrow> bool" where
  "deploymentSigningMatches deployment signing \<longleftrightarrow>
     dr_ActiveSigningFingerprint deployment = ss_active signing \<and>
     dr_TrustedSigningFingerprints deployment = ss_trusted signing \<and>
     dr_SigningRotationPhase deployment = ss_phase signing \<and>
     dr_SigningKeyringPath deployment = ss_keyring signing \<and>
     dr_SigningMinimumRefreshSeconds deployment = ss_minimumRefresh signing \<and>
     (ss_active signing = [] \<or> dr_TrustSince deployment \<noteq> [])"

definition deploymentMatchesDesired :: "DeploymentRecord \<Rightarrow> PublishedRevision \<Rightarrow> gostring \<Rightarrow> gostring
    \<Rightarrow> deploymentSigningState \<Rightarrow> bool" where
  "deploymentMatchesDesired deployment observed treeSHA256 manifestSHA256 signing =
     (if \<not> ValidSHA256 treeSHA256 \<or> dr_TreeSHA256 deployment \<noteq> treeSHA256 \<or>
        dr_ManifestSHA256 deployment \<noteq> manifestSHA256 \<or> dr_NativeRevision deployment = [] \<or>
        dr_NativeRevision deployment \<noteq> pub_NativeRevision observed \<or>
        dr_ChangeID deployment \<noteq> dr_Repository deployment @ '':'' @ take 12 treeSHA256 \<or>
        \<not> deploymentSigningMatches deployment signing then False else True)"

subsection \<open>Key validity\<close>

text \<open>A rotation without a signing key makes the code index an empty slice.\<close>

definition validateRotationKeyValidity :: "(gostring \<Rightarrow> int option) \<Rightarrow> Repository \<Rightarrow> (gostring \<times> SigningKey) list \<Rightarrow> int
    \<Rightarrow> rotation_error option" where
  "validateRotationKeyValidity parseTime repository keys at =
     (case repo_SigningRotation repository of None \<Rightarrow> None
      | Some rotation \<Rightarrow>
        if repo_SigningKeys repository = [] then Some IndexPanic
        else let minimum = seconds (rot_MinimumRefreshSeconds rotation) in
        case (map_of keys (repo_SigningKeys repository ! 0), map_of keys (rot_SuccessorKey rotation)) of
          (Some base, Some successor) \<Rightarrow>
            (case (parseTime (key_ExpiresAt base), parseTime (key_CreatedAt successor), parseTime (key_ExpiresAt successor)) of
               (Some baseExpires, Some successorCreated, Some successorExpires) \<Rightarrow>
                 if rot_Phase rotation = ''introducing'' then
                   (if baseExpires < at + int64 (minimum + 2 * Hour) \<or> successorCreated > at + minimum \<or>
                      successorExpires < at + int64 (2 * minimum + 2 * Hour)
                    then Some KeysExpireInRotation else None)
                 else if rot_Phase rotation = ''activated'' then
                   (if successorExpires < at + int64 (minimum + 2 * Hour) then Some SuccessorExpiresInOverlap else None)
                 else None
             | _ \<Rightarrow> Some InvalidKeyValidity)
        | _ \<Rightarrow> Some InvalidKeyValidity)"

subsection \<open>The transition check\<close>

definition transitionReady :: "DeploymentRecord \<Rightarrow> int \<Rightarrow> int \<Rightarrow> bool" where
  "transitionReady deployment at trustNotBefore \<longleftrightarrow> trustNotBefore \<noteq> 0 \<and>
     MinimumSigningRefreshSeconds \<le> dr_SigningMinimumRefreshSeconds deployment \<and>
     \<not> at < trustNotBefore + seconds (dr_SigningMinimumRefreshSeconds deployment)"

definition transition_allowed :: "DeploymentRecord \<Rightarrow> deploymentSigningState \<Rightarrow> int \<Rightarrow> int \<Rightarrow> bool" where
  "transition_allowed deployment desired at trustNotBefore =
     (if ss_phase desired = ''introducing'' then
        dr_SigningRotationPhase deployment = [] \<and> dr_SigningMinimumRefreshSeconds deployment = 0 \<and>
        dr_ActiveSigningFingerprint deployment = ss_active desired \<and>
        dr_TrustedSigningFingerprints deployment = take 1 (ss_trusted desired)
      else if ss_phase desired = ''activated'' then
        dr_SigningRotationPhase deployment = ''introducing'' \<and>
        dr_SigningMinimumRefreshSeconds deployment = ss_minimumRefresh desired \<and> length (ss_trusted desired) = 2 \<and>
        dr_ActiveSigningFingerprint deployment = ss_trusted desired ! 0 \<and> ss_active desired = ss_trusted desired ! 1 \<and>
        dr_TrustedSigningFingerprints deployment = ss_trusted desired \<and> transitionReady deployment at trustNotBefore
      else if ss_phase desired = [] then
        dr_SigningRotationPhase deployment = ''activated'' \<and> length (dr_TrustedSigningFingerprints deployment) = 2 \<and>
        length (ss_trusted desired) = 1 \<and> dr_ActiveSigningFingerprint deployment = ss_active desired \<and>
        ss_trusted desired ! 0 = ss_active desired \<and> dr_TrustedSigningFingerprints deployment ! 1 = ss_active desired \<and>
        transitionReady deployment at trustNotBefore
      else False)"

definition validateRepositorySigningTransition :: "(gostring \<Rightarrow> int option) \<Rightarrow> Repository \<Rightarrow> (gostring \<times> SigningKey) list \<Rightarrow>
    DeploymentRecord \<Rightarrow> PublishedRevision \<Rightarrow> int \<Rightarrow> int \<Rightarrow> rotation_error option" where
  "validateRepositorySigningTransition parseTime repository keys deployment observed at trustNotBefore =
     (case repositoryDeploymentSigningState repository keys of Inl e \<Rightarrow> Some e | Inr desired \<Rightarrow>
      case validateRotationKeyValidity parseTime repository keys at of Some e \<Rightarrow> Some e | None \<Rightarrow>
      if dr_NativeRevision deployment = [] then
        (if ss_phase desired \<noteq> [] then Some RotationNeedsDeployedState else None)
      else if deploymentSigningMatches deployment desired then None
      else if dr_NativeRevision deployment \<noteq> pub_NativeRevision observed \<or>
        dr_TreeSHA256 deployment \<noteq> pub_TreeSHA256 observed \<or>
        (dr_ManifestSHA256 deployment \<noteq> [] \<and> pub_ManifestSHA256 observed \<noteq> [] \<and>
         dr_ManifestSHA256 deployment \<noteq> pub_ManifestSHA256 observed) then Some ReceiptMismatch
      else if ss_active desired = [] then Some SigningRemoved
      else if dr_ActiveSigningFingerprint deployment \<noteq> [] \<and> dr_SigningKeyringPath deployment \<noteq> ss_keyring desired
      then Some KeyringChanged
      else if dr_ActiveSigningFingerprint deployment = [] \<and> ss_phase desired = [] then None
      else if transition_allowed deployment desired at trustNotBefore then None
      else Some SkipsPhase)"

subsection \<open>The receipt of a deployment\<close>

text \<open>\<open>formatTime\<close> prints a time as RFC 3339; the receipt's time is cut to whole seconds.\<close>

definition truncate_second :: "int \<Rightarrow> int" where
  "truncate_second t = t - t mod Second"

definition continuousPublication :: "DeploymentRecord \<Rightarrow> PublishedRevision \<Rightarrow> bool" where
  "continuousPublication previous observed \<longleftrightarrow> dr_NativeRevision previous = pub_NativeRevision observed \<and>
     dr_TreeSHA256 previous = pub_TreeSHA256 observed \<and>
     (pub_ManifestSHA256 observed = [] \<or> dr_ManifestSHA256 previous = pub_ManifestSHA256 observed)"

definition deploymentRecordFor :: "(int \<Rightarrow> gostring) \<Rightarrow> PlanRepository \<Rightarrow> DeploymentRecord \<Rightarrow> PublishedRevision \<Rightarrow>
    deploymentSigningState \<Rightarrow> gostring \<Rightarrow> gostring \<Rightarrow> gostring \<Rightarrow> int \<Rightarrow> DeploymentRecord" where
  "deploymentRecordFor formatTime planned previous observed signing nativeRevision planID deployedAt now =
     (let r = \<lparr>dr_SchemaVersion = 0, dr_Repository = plr_Name planned, dr_PlanID = planID, dr_ChangeID = plr_ChangeID planned,
            dr_TreeSHA256 = plr_DesiredTreeSHA256 planned, dr_ManifestSHA256 = plr_DesiredManifestSHA256 planned,
            dr_NativeRevision = nativeRevision, dr_DeployedAt = deployedAt,
            dr_ActiveSigningFingerprint = ss_active signing, dr_TrustedSigningFingerprints = ss_trusted signing,
            dr_SigningKeyringPath = ss_keyring signing, dr_SigningRotationPhase = ss_phase signing,
            dr_SigningMinimumRefreshSeconds = ss_minimumRefresh signing, dr_TrustSince = []\<rparr> in
      if ss_active signing = [] then r
      else if continuousPublication previous observed \<and> dr_ActiveSigningFingerprint previous = ss_active signing \<and>
        dr_TrustedSigningFingerprints previous = ss_trusted signing \<and> dr_SigningKeyringPath previous = ss_keyring signing \<and>
        dr_SigningRotationPhase previous = ss_phase signing \<and>
        dr_SigningMinimumRefreshSeconds previous = ss_minimumRefresh signing \<and> dr_TrustSince previous \<noteq> []
      then r\<lparr>dr_TrustSince := dr_TrustSince previous\<rparr>
      else r\<lparr>dr_TrustSince := formatTime (truncate_second now)\<rparr>)"

text \<open>Formatting and parsing of whole seconds agree up to the year 10000.\<close>

definition times_round_trip :: "(gostring \<Rightarrow> int option) \<Rightarrow> (int \<Rightarrow> gostring) \<Rightarrow> bool" where
  "times_round_trip parseTime formatTime \<longleftrightarrow>
     (\<forall>t. 0 \<le> t \<and> t < MaxTime \<and> t mod Second = 0 \<longrightarrow> parseTime (formatTime t) = Some t)"

lemma rfc3339_round_trip: "times_round_trip parse_rfc3339 format_rfc3339"
  by (simp add: times_round_trip_def parse_format_rfc3339)

subsection \<open>The history of a repository's publications\<close>

text \<open>
  A publication is a receipt and the time clients start to see it. \<open>deployed\<close> is one successful apply:
  the transition check passes at the time \<open>at\<close> against the receipt of the previous publication, the new
  tree becomes visible at or after \<open>at\<close>, and the new receipt is made at the time \<open>now\<close> after that. The
  trust time is read from Git only when a rotation is involved, as both callers of the check do.
\<close>

record publication =
  pb_time :: int
  pb_record :: DeploymentRecord

definition trust_time :: "git_view \<Rightarrow> (DeploymentRecord \<Rightarrow> gostring) \<Rightarrow> (gostring \<Rightarrow> int option) \<Rightarrow> gostring \<Rightarrow>
    Repository \<Rightarrow> DeploymentRecord \<Rightarrow> deployment_error + int" where
  "trust_time git marshal parseTime name repository deployment =
     (if repo_SigningRotation repository \<noteq> None \<or> dr_SigningRotationPhase deployment \<noteq> []
      then AuthoritativeDeploymentTrustSince git marshal parseTime name deployment else Inr 0)"

inductive deployed :: "(DeploymentRecord \<Rightarrow> gostring) \<Rightarrow> (gostring \<Rightarrow> int option) \<Rightarrow> (int \<Rightarrow> gostring) \<Rightarrow> DeploymentRecord \<Rightarrow>
    int \<Rightarrow> publication \<Rightarrow> bool" for marshal parseTime formatTime where
  deploy: "trust_time git marshal parseTime name repository previous = Inr trust \<Longrightarrow>
    validateRepositorySigningTransition parseTime repository keys previous observed at trust = None \<Longrightarrow>
    repositoryDeploymentSigningState repository keys = Inr desired \<Longrightarrow>
    deploymentRecordFor formatTime planned previous observed' desired native planID deployedAt now = r \<Longrightarrow>
    native \<noteq> [] \<Longrightarrow> at \<le> visible \<Longrightarrow> visible \<le> now \<Longrightarrow>
    deployed marshal parseTime formatTime previous now \<lparr>pb_time = visible, pb_record = r\<lparr>dr_SchemaVersion := DeploymentSchema\<rparr>\<rparr>"

text \<open>A history, newest publication first. The next apply starts after the last one was recorded.\<close>

inductive history :: "(DeploymentRecord \<Rightarrow> gostring) \<Rightarrow> (gostring \<Rightarrow> int option) \<Rightarrow> (int \<Rightarrow> gostring) \<Rightarrow> publication list \<Rightarrow> bool"
  for marshal parseTime formatTime where
  history_first: "deployed marshal parseTime formatTime zero_record now p \<Longrightarrow> 0 \<le> now \<Longrightarrow> now < MaxTime \<Longrightarrow>
    history marshal parseTime formatTime [p]"
| history_next: "history marshal parseTime formatTime (q # h) \<Longrightarrow>
    deployed marshal parseTime formatTime (pb_record q) now p \<Longrightarrow> 0 \<le> now \<Longrightarrow> now < MaxTime \<Longrightarrow> pb_time q < pb_time p \<Longrightarrow>
    history marshal parseTime formatTime (p # q # h)"

text \<open>What a client sees that looks at the time \<open>t\<close>.\<close>

definition visible_at :: "publication list \<Rightarrow> int \<Rightarrow> publication option" where
  "visible_at h t = find (\<lambda>p. pb_time p \<le> t) h"

subsection \<open>Facts about the desired state\<close>

lemma trusted_fingerprints_member:
  "trusted_fingerprints keys names = Inr fs \<Longrightarrow> name \<in> set names \<Longrightarrow> map_of keys name = Some key \<Longrightarrow> key_Fingerprint key \<in> set fs"
  by (induction names arbitrary: fs) (auto split: option.splits sum.splits)

lemma desired_active_trusted:
  assumes "repositoryDeploymentSigningState repository keys = Inr desired" and "ss_active desired \<noteq> []"
  shows "ss_active desired \<in> set (ss_trusted desired)"
  using assms
  by (auto simp: repositoryDeploymentSigningState_def repositorySigningState_def no_signing_state_def Let_def
      split: if_splits sum.splits option.splits dest!: trusted_fingerprints_member)

lemma record_signing [simp]:
  "dr_ActiveSigningFingerprint (deploymentRecordFor f pl pr ob s n i d t) = ss_active s"
  "dr_TrustedSigningFingerprints (deploymentRecordFor f pl pr ob s n i d t) = ss_trusted s"
  "dr_SigningKeyringPath (deploymentRecordFor f pl pr ob s n i d t) = ss_keyring s"
  "dr_SigningRotationPhase (deploymentRecordFor f pl pr ob s n i d t) = ss_phase s"
  "dr_SigningMinimumRefreshSeconds (deploymentRecordFor f pl pr ob s n i d t) = ss_minimumRefresh s"
  "dr_NativeRevision (deploymentRecordFor f pl pr ob s n i d t) = n"
  by (simp_all add: deploymentRecordFor_def Let_def)

lemma seconds_exact:
  assumes "0 \<le> n" and "n \<le> 9223372036"
  shows "seconds n = n * Second"
proof -
  have "0 \<le> n * Second" "n * Second < 2 ^ 63" using assms by (simp_all add: Second_def)
  then show ?thesis by (simp add: seconds_def int64_def)
qed

lemma truncate_second_bounds: "truncate_second t \<le> t" "t < truncate_second t + Second" "truncate_second t mod Second = 0"
  using pos_mod_bound [of Second t] pos_mod_sign [of Second t]
  by (simp_all add: truncate_second_def Second_def minus_mod_eq_mult_div)

lemma trust_time_after:
  assumes "trust_time git marshal parseTime name repository d = Inr trust" and "dr_SigningRotationPhase d \<noteq> []"
    and "parseTime (dr_TrustSince d) = Some t" and "dr_TrustSince d \<noteq> []"
  shows "t \<le> trust"
  using assms by (auto simp: trust_time_def AuthoritativeDeploymentTrustSince_def split: sum.splits if_splits)

subsection \<open>Clients keep trusting the signatures\<close>

text \<open>
  What is known, relative to a client that fetched its keyring \<open>T\<close> at the time \<open>c\<close>, of the receipt of
  a later publication: its active key is in the keyring, and if it introduces a successor then either
  its trust clock started after \<open>c\<close> or the keyring has the successor too.
\<close>

definition client_trusts :: "(gostring \<Rightarrow> int option) \<Rightarrow> int \<Rightarrow> gostring set \<Rightarrow> DeploymentRecord \<Rightarrow> bool" where
  "client_trusts parseTime c T r \<longleftrightarrow> dr_ActiveSigningFingerprint r \<in> T \<and> dr_ActiveSigningFingerprint r \<noteq> [] \<and>
     dr_NativeRevision r \<noteq> [] \<and>
     (dr_SigningRotationPhase r = ''introducing'' \<longrightarrow>
        (\<exists>t. parseTime (dr_TrustSince r) = Some t \<and> c < t + Second) \<or> set (dr_TrustedSigningFingerprints r) \<subseteq> T)"

text \<open>The cases of a passed check on a signed deployment.\<close>

lemma transition_cases:
  assumes "validateRepositorySigningTransition parseTime repository keys d observed at trust = None"
    and "repositoryDeploymentSigningState repository keys = Inr desired"
    and "dr_NativeRevision d \<noteq> []" and "dr_ActiveSigningFingerprint d \<noteq> []"
  shows "deploymentSigningMatches d desired \<or> (ss_active desired \<noteq> [] \<and> transition_allowed d desired at trust)"
  using assms by (auto simp: validateRepositorySigningTransition_def split: option.splits if_splits)

lemma record_clock:
  assumes "times_round_trip parseTime formatTime" and "0 \<le> now" and "now < MaxTime" and "ss_active desired \<noteq> []"
  shows "dr_TrustSince (deploymentRecordFor formatTime planned d observed desired native planID deployedAt now) = dr_TrustSince d \<and>
      deploymentSigningMatches d desired
    \<or> parseTime (dr_TrustSince (deploymentRecordFor formatTime planned d observed desired native planID deployedAt now))
        = Some (truncate_second now)"
proof -
  have "truncate_second now = Second * (now div Second)" by (simp add: truncate_second_def minus_mod_eq_mult_div)
  then have "0 \<le> truncate_second now" using assms(2) by (simp add: Second_def pos_imp_zdiv_nonneg_iff)
  then have "parseTime (formatTime (truncate_second now)) = Some (truncate_second now)"
    using assms(1,3) truncate_second_bounds [of now] by (auto simp: times_round_trip_def)
  then show ?thesis using assms(4) by (auto simp: deploymentRecordFor_def Let_def deploymentSigningMatches_def)
qed

lemma deployed_keeps_trust:
  assumes step: "deployed marshal parseTime formatTime d now p" and clock: "times_round_trip parseTime formatTime"
    and now: "0 \<le> now" "now < MaxTime" and window: "c < pb_time p" "pb_time p \<le> u" "u + Second \<le> c + M * Second"
    and minimum: "dr_SigningRotationPhase d \<noteq> [] \<Longrightarrow> M \<le> dr_SigningMinimumRefreshSeconds d \<and> dr_SigningMinimumRefreshSeconds d \<le> 9223372036"
    and trusts: "client_trusts parseTime c T d"
  shows "client_trusts parseTime c T (pb_record p)"
  using step
proof cases
  case (deploy git name repository trust keys observed at desired planned observed' native planID deployedAt r visible)
  have d: "dr_ActiveSigningFingerprint d \<in> T" "dr_ActiveSigningFingerprint d \<noteq> []" "dr_NativeRevision d \<noteq> []"
    using trusts by (auto simp: client_trusts_def)
  note cases = transition_cases [OF deploy(3,4) d(3,2)]
  then have active: "ss_active desired \<noteq> []" using d by (auto simp: deploymentSigningMatches_def)
  have fresh: "c < truncate_second now + Second"
    using truncate_second_bounds(2) [of now] window(1) deploy(1,8) by simp
  have r: "r = deploymentRecordFor formatTime planned d observed' desired native planID deployedAt now" using deploy(5) by simp
  have clock_r: "dr_TrustSince r = dr_TrustSince d \<and> deploymentSigningMatches d desired \<or> parseTime (dr_TrustSince r) = Some (truncate_second now)"
    unfolding r by (rule record_clock [OF clock now active])
  have trusted_active: "dr_ActiveSigningFingerprint r \<in> T"
  proof (cases "deploymentSigningMatches d desired")
    case False
    then have allowed: "transition_allowed d desired at trust" using cases by simp
    show ?thesis
    proof (cases "ss_phase desired = ''activated''")
      case activated: True
      then have i: "dr_SigningRotationPhase d = ''introducing''" "ss_active desired = dr_TrustedSigningFingerprints d ! 1"
        "length (dr_TrustedSigningFingerprints d) = 2" and ready: "transitionReady d at trust"
        using allowed by (auto simp: transition_allowed_def)
      have "\<not> (\<exists>t. parseTime (dr_TrustSince d) = Some t \<and> c < t + Second)"
      proof
        assume "\<exists>t. parseTime (dr_TrustSince d) = Some t \<and> c < t + Second"
        then obtain t where t: "parseTime (dr_TrustSince d) = Some t" "c < t + Second" by blast
        have "dr_TrustSince d \<noteq> []" using ready deploy(2) i(1)
          by (auto simp: transitionReady_def trust_time_def AuthoritativeDeploymentTrustSince_def)
        then have "t \<le> trust" using trust_time_after [OF deploy(2) _ t(1)] i(1) by simp
        moreover have "trust + dr_SigningMinimumRefreshSeconds d * Second \<le> at"
          using ready minimum i(1) seconds_exact [of "dr_SigningMinimumRefreshSeconds d"]
          by (auto simp: transitionReady_def MinimumSigningRefreshSeconds_def)
        moreover have "M * Second \<le> dr_SigningMinimumRefreshSeconds d * Second" using minimum i(1) by (simp add: Second_def)
        ultimately show False using t(2) window deploy(1,7) by simp
      qed
      then have "set (dr_TrustedSigningFingerprints d) \<subseteq> T" using trusts i(1) by (auto simp: client_trusts_def)
      then show ?thesis using i by (simp add: r subset_iff)
    next
      case False
      then show ?thesis using allowed d(1) by (auto simp: transition_allowed_def r split: if_splits)
    qed
  qed (use d(1) in \<open>simp add: r deploymentSigningMatches_def\<close>)
  moreover have "(\<exists>t. parseTime (dr_TrustSince r) = Some t \<and> c < t + Second) \<or> set (dr_TrustedSigningFingerprints r) \<subseteq> T"
    if "dr_SigningRotationPhase r = ''introducing''"
    using clock_r
  proof
    assume same: "dr_TrustSince r = dr_TrustSince d \<and> deploymentSigningMatches d desired"
    then show ?thesis using trusts that by (auto simp: client_trusts_def r deploymentSigningMatches_def)
  qed (use fresh in blast)
  ultimately show ?thesis using active deploy(1,6) by (simp add: client_trusts_def r)
qed

text \<open>Every rotation announces a refresh interval of at least \<open>M\<close> seconds whose nanoseconds fit 64 bits.\<close>

definition refresh_windows :: "int \<Rightarrow> publication list \<Rightarrow> bool" where
  "refresh_windows M h \<longleftrightarrow> list_all (\<lambda>q. dr_SigningRotationPhase (pb_record q) \<noteq> [] \<longrightarrow>
     M \<le> dr_SigningMinimumRefreshSeconds (pb_record q) \<and> dr_SigningMinimumRefreshSeconds (pb_record q) \<le> 9223372036) h"

lemma find_split:
  "find P xs = Some x \<Longrightarrow> \<exists>ys zs. xs = ys @ x # zs \<and> P x \<and> (\<forall>y \<in> set ys. \<not> P y)"
proof (induction xs)
  case (Cons a xs)
  show ?case
  proof (cases "P a")
    case True
    then show ?thesis using Cons.prems by (intro exI [of _ "[]"] exI [of _ xs]) simp
  next
    case False
    then obtain ys zs where "xs = ys @ x # zs" "P x" "\<forall>y \<in> set ys. \<not> P y" using Cons by auto
    then show ?thesis using False by (intro exI [of _ "a # ys"] exI [of _ zs]) simp
  qed
qed simp

text \<open>Every receipt of a history is one the checks let through.\<close>

inductive_cases deployedE: "deployed marshal parseTime formatTime d now p"
inductive_cases history_ConsE: "history marshal parseTime formatTime (p # h)"

lemma history_suffix: "history marshal parseTime formatTime (xs @ q # ys) \<Longrightarrow> history marshal parseTime formatTime (q # ys)"
proof (induction xs)
  case (Cons x xs)
  then show ?case by (cases xs) (auto elim: history_ConsE)
qed simp

lemma history_decreasing:
  "history marshal parseTime formatTime (p # h) \<Longrightarrow> q \<in> set h \<Longrightarrow> pb_time q < pb_time p"
proof (induction h arbitrary: p)
  case (Cons x h)
  have "pb_time x < pb_time p" "history marshal parseTime formatTime (x # h)"
    using Cons.prems(1) by (auto elim: history_ConsE)
  then show ?case using Cons by fastforce
qed simp

lemma deployed_active_trusted:
  assumes "deployed marshal parseTime formatTime d now p" and "dr_ActiveSigningFingerprint (pb_record p) \<noteq> []"
  shows "dr_ActiveSigningFingerprint (pb_record p) \<in> set (dr_TrustedSigningFingerprints (pb_record p))
    \<and> dr_NativeRevision (pb_record p) \<noteq> []"
  using assms by (elim deployedE) (auto dest: desired_active_trusted)

lemma history_trusts:
  assumes clock: "times_round_trip parseTime formatTime" and window: "u + Second \<le> c + M * Second"
    and signed: "dr_ActiveSigningFingerprint (pb_record p) \<noteq> []"
  shows "history marshal parseTime formatTime h \<Longrightarrow> h = newer @ p # older \<Longrightarrow> (\<forall>q \<in> set newer. c < pb_time q) \<Longrightarrow>
    pb_time (hd h) \<le> u \<Longrightarrow> refresh_windows M h \<Longrightarrow>
    client_trusts parseTime c (set (dr_TrustedSigningFingerprints (pb_record p))) (pb_record (hd h))"
proof (induction h arbitrary: newer rule: history.induct)
  case (history_first now q)
  then show ?case using deployed_active_trusted [OF history_first.hyps(1)] signed
    by (cases newer) (auto simp: client_trusts_def)
next
  case (history_next q h now q')
  show ?case
  proof (cases newer)
    case Nil
    then show ?thesis using history_next.prems(1) deployed_active_trusted [OF history_next.hyps(2)] signed
      by (auto simp: client_trusts_def)
  next
    case (Cons x newer')
    then have x: "x = q'" "q # h = newer' @ p # older" using history_next.prems(1) by auto
    have here: "\<forall>y \<in> set newer'. c < pb_time y" "pb_time (hd (q # h)) \<le> u" "refresh_windows M (q # h)"
      using history_next.prems(2,3,4) history_next.hyps(5) Cons by (simp_all add: refresh_windows_def)
    from history_next.IH [OF x(2) here]
    have "client_trusts parseTime c (set (dr_TrustedSigningFingerprints (pb_record p))) (pb_record q)" by simp
    then have "client_trusts parseTime c (set (dr_TrustedSigningFingerprints (pb_record p))) (pb_record q')"
      using history_next.prems(2,3) here(3) x(1) Cons
      by (intro deployed_keeps_trust [OF history_next.hyps(2) clock history_next.hyps(3,4) _ _ window])
         (auto simp: refresh_windows_def)
    then show ?thesis by simp
  qed
qed

text \<open>
  C5: a key rotation never locks out a client that refreshes often enough. Take any sequence of
  applies that passed the transition check, starting from the first deployment, and a client that
  fetched the published keyring at the time \<open>c\<close> while the repository was signed. Whatever is published
  at a later time \<open>u\<close>, at most the minimum refresh interval \<open>M\<close> (less one second) after \<open>c\<close>, is signed
  by a key in that keyring. The one second is lost because the receipt's clock is cut to whole seconds.
  The rotations' own minimum must be at least \<open>M\<close>, and small enough that its nanoseconds fit 64 bits.
\<close>

theorem rotation_keeps_clients:
  assumes "history marshal parse_rfc3339 format_rfc3339 h" and "refresh_windows M h"
    and "visible_at h c = Some p" and "dr_ActiveSigningFingerprint (pb_record p) \<noteq> []"
    and "visible_at h u = Some q" and "c \<le> u" and "u + Second \<le> c + M * Second"
  shows "dr_ActiveSigningFingerprint (pb_record q) \<in> set (dr_TrustedSigningFingerprints (pb_record p))"
proof -
  obtain newer older where p: "h = newer @ p # older" "\<forall>x \<in> set newer. c < pb_time x" "pb_time p \<le> c"
    using assms(3) find_split [of _ h p] by (fastforce simp: visible_at_def)
  obtain newest rest where q: "h = newest @ q # rest" "\<forall>x \<in> set newest. u < pb_time x" "pb_time q \<le> u"
    using assms(5) find_split [of _ h q] by (fastforce simp: visible_at_def)
  have "p \<notin> set newest" using p(3) q(2) assms(6) by force
  then obtain between where between: "q # rest = between @ p # older" "newer = newest @ between"
    using p(1) q(1) by (auto simp: append_eq_append_conv2 Cons_eq_append_conv append_eq_Cons_conv)
  have "client_trusts parse_rfc3339 c (set (dr_TrustedSigningFingerprints (pb_record p))) (pb_record (hd (q # rest)))"
    using history_trusts [OF rfc3339_round_trip assms(7,4) history_suffix between(1)] assms(1,2) p(2) q(1,3) between(2)
    by (auto simp: refresh_windows_def)
  then show ?thesis by (simp add: client_trusts_def)
qed

text \<open>A repository signed by the key \<open>a\<close>, deployed and an hour later deployed again introducing the key \<open>b\<close>.\<close>

definition sample_key :: "char \<Rightarrow> SigningKey" where
  "sample_key c = \<lparr>key_Algorithm = ''openpgp-rsa4096'', key_Usage = ''sign'', key_Fingerprint = replicate 40 c,
     key_CreatedAt = ''2026-01-01T00:00:00Z'', key_ExpiresAt = ''2030-01-01T00:00:00Z'', key_PublicKeyPath = ''k.gpg'',
     key_PublicKeySHA256 = [], key_PublicArmorPath = ''k.asc'', key_PublicArmorSHA256 = [],
     key_Ref = \<lparr>ref_Backend = ''file'', ref_ID = ''w/k''\<rparr>\<rparr>"

definition sample_keys :: "(gostring \<times> SigningKey) list" where
  "sample_keys = [(''a'', sample_key (CHR ''a'')), (''b'', sample_key (CHR ''b''))]"

definition signed_repository :: "SigningRotation option \<Rightarrow> Repository" where
  "signed_repository rotation = \<lparr>repo_Format = ''deb'', repo_Lock = ''repos/debian.lock.toml'',
     repo_Host = \<lparr>host_Type = ''local'', host_Path = ''out'', host_Target = [], host_Bucket = [], host_Prefix = [], host_Region = [],
       host_Endpoint = [], host_CanonicalEndpoint = [], host_UsePathStyle = False, host_ReadAuth = [],
       host_CredentialBroker = [], host_Repository = [], host_Branch = [], host_PreviewRepository = [],
       host_PreviewBranch = [], host_PreviewEndpoint = []\<rparr>,
     repo_Visibility = ''public'', repo_Gate = ''auto'', repo_ApprovalKeys = [], repo_SigningKeys = [''a''],
     repo_SigningKeyring = ''keys/debian-archive-keyring.gpg'', repo_SigningRotation = rotation, repo_Keep = 0,
     repo_Track = ''stable'', repo_Suite = ''stable'', repo_Component = ''main'', repo_Architectures = [''amd64'']\<rparr>"

definition introducing_b :: SigningRotation where
  "introducing_b = \<lparr>rot_SuccessorKey = ''b'', rot_Phase = ''introducing'', rot_MinimumRefreshSeconds = 604800\<rparr>"

definition sample_signing :: "gostring list \<Rightarrow> gostring \<Rightarrow> int \<Rightarrow> deploymentSigningState" where
  "sample_signing trusted phase minimum = \<lparr>ss_active = replicate 40 (CHR ''a''), ss_trusted = trusted,
     ss_keyring = ''keys/debian-archive-keyring.gpg'', ss_phase = phase, ss_minimumRefresh = minimum\<rparr>"

definition sample_published :: PublishedRevision where
  "sample_published = \<lparr>pub_NativeRevision = ''n'', pub_TreeSHA256 = replicate 64 (CHR ''c''), pub_PlanID = [], pub_ChangeID = [],
     pub_RestoreID = [], pub_ReleaseSHA256 = [], pub_ManifestSHA256 = [], pub_RestoreSHA256 = [], pub_RestoreRootSHA256 = []\<rparr>"

definition rotation_record :: "deploymentSigningState \<Rightarrow> gostring \<Rightarrow> DeploymentRecord" where
  "rotation_record signing since = \<lparr>dr_SchemaVersion = DeploymentSchema, dr_Repository = ''debian'', dr_PlanID = ''plan'',
     dr_ChangeID = ''debian:cccccccccccc'', dr_TreeSHA256 = replicate 64 (CHR ''c''), dr_ManifestSHA256 = [],
     dr_NativeRevision = ''n'', dr_DeployedAt = ''t'', dr_ActiveSigningFingerprint = ss_active signing,
     dr_TrustedSigningFingerprints = ss_trusted signing, dr_SigningKeyringPath = ss_keyring signing,
     dr_SigningRotationPhase = ss_phase signing, dr_SigningMinimumRefreshSeconds = ss_minimumRefresh signing,
     dr_TrustSince = since\<rparr>"

definition stable_state :: deploymentSigningState where
  "stable_state = sample_signing [replicate 40 (CHR ''a'')] [] 0"

definition introducing_state :: deploymentSigningState where
  "introducing_state = sample_signing [replicate 40 (CHR ''a''), replicate 40 (CHR ''b'')] ''introducing'' 604800"

definition stable_publication :: publication where
  "stable_publication = \<lparr>pb_time = 63902822400 * Second, pb_record = rotation_record stable_state ''2026-01-01T00:00:00Z''\<rparr>"

definition introducing_publication :: publication where
  "introducing_publication = \<lparr>pb_time = 63902826000 * Second, pb_record = rotation_record introducing_state ''2026-01-01T01:00:00Z''\<rparr>"

definition sample_planned :: PlanRepository where
  "sample_planned = \<lparr>plr_Name = ''debian'', plr_Gate = ''auto'', plr_ApprovalKeys = [], plr_Format = ''deb'', plr_LockSHA256 = [],
     plr_Host = repo_Host (signed_repository None), plr_Visibility = ''public'', plr_HostIdentitySHA256 = [], plr_CanonicalEndpoint = [],
     plr_InstallDocSHA256 = [], plr_ObservedRevision = [], plr_ObservedPlanID = [], plr_ObservedChangeID = [],
     plr_ObservedReleaseSHA256 = [], plr_ObservedManifestSHA256 = [], plr_ObservedRestoreID = [], plr_ObservedRestoreSHA256 = [],
     plr_ObservedRestoreRootSHA256 = [], plr_ObservedDeployment = zero_record, plr_FaithfulPreview = True, plr_ConditionalCommit = True,
     plr_ConditionalRestore = True, plr_PrivateRead = False, plr_CredentialBrokerIdentity = [], plr_Signing = [],
     plr_PublicationRecords = False, plr_PublicationBindings = [], plr_Acquisitions = [], plr_ObservedTreeSHA256 = [],
     plr_DesiredTreeSHA256 = replicate 64 (CHR ''c''), plr_DesiredManifestSHA256 = [], plr_ChangeID = ''debian:cccccccccccc'',
     plr_Action = ''publish''\<rparr>"

definition sample_git :: git_view where
  "sample_git = \<lparr>gv_prefix = Some [], gv_last_commit = (\<lambda>_. Some ''c''),
     gv_message = (\<lambda>_. Some (''record snailmail deployments'' @ [CHR 0x0A, CHR 0x0A] @ ''Snailmail-Plan: plan'' @ [CHR 0x0A])),
     gv_changed = (\<lambda>_. Some [''deployments/debian.json'']), gv_show = (\<lambda>_ _. Some (''{}'' @ [CHR 0x0A])),
     gv_commit_time = (\<lambda>_. Some ''2026-01-01T00:00:01Z'')\<rparr>"

lemma sample_history: "history (\<lambda>_. ''{}'') parse_rfc3339 format_rfc3339 [introducing_publication, stable_publication]"
proof (rule history_next [where now = "63902826000 * Second"])
  have "deployed (\<lambda>_. ''{}'') parse_rfc3339 format_rfc3339 zero_record (63902822400 * Second)
      \<lparr>pb_time = 63902822400 * Second, pb_record = (rotation_record stable_state ''2026-01-01T00:00:00Z'')\<lparr>dr_SchemaVersion := 0, dr_SchemaVersion := DeploymentSchema\<rparr>\<rparr>"
    by (rule deploy [where git = sample_git and name = "''debian''" and repository = "signed_repository None" and trust = 0
        and keys = sample_keys and observed = sample_published and observed' = sample_published and desired = stable_state
        and planned = sample_planned and native = "''n''" and planID = "''plan''" and deployedAt = "''t''"
        and at = "63902822400 * Second" and r = "(rotation_record stable_state ''2026-01-01T00:00:00Z'')\<lparr>dr_SchemaVersion := 0\<rparr>"]) code_simp+
  then have "deployed (\<lambda>_. ''{}'') parse_rfc3339 format_rfc3339 zero_record (63902822400 * Second) stable_publication"
    by (simp add: stable_publication_def rotation_record_def)
  then show "history (\<lambda>_. ''{}'') parse_rfc3339 format_rfc3339 [stable_publication]"
    by (rule history_first) (simp_all add: Second_def MaxTime_def)
  have "deployed (\<lambda>_. ''{}'') parse_rfc3339 format_rfc3339 (pb_record stable_publication) (63902826000 * Second)
      \<lparr>pb_time = 63902826000 * Second, pb_record = (rotation_record introducing_state ''2026-01-01T01:00:00Z'')\<lparr>dr_SchemaVersion := 0, dr_SchemaVersion := DeploymentSchema\<rparr>\<rparr>"
    by (rule deploy [where git = sample_git and name = "''debian''" and repository = "signed_repository (Some introducing_b)"
        and trust = "63902822401 * Second"
        and keys = sample_keys and observed = sample_published and observed' = sample_published and desired = introducing_state
        and planned = sample_planned and native = "''n''" and planID = "''plan''" and deployedAt = "''t''"
        and at = "63902826000 * Second" and r = "(rotation_record introducing_state ''2026-01-01T01:00:00Z'')\<lparr>dr_SchemaVersion := 0\<rparr>"]) code_simp+
  then show "deployed (\<lambda>_. ''{}'') parse_rfc3339 format_rfc3339 (pb_record stable_publication) (63902826000 * Second) introducing_publication"
    by (simp add: introducing_publication_def rotation_record_def)
qed (simp_all add: Second_def MaxTime_def stable_publication_def introducing_publication_def)

theorem rotation_keeps_clients_witness:
  "dr_ActiveSigningFingerprint (pb_record introducing_publication) \<in> set (dr_TrustedSigningFingerprints (pb_record stable_publication))"
proof (rule rotation_keeps_clients [OF sample_history, where c = "63902822400 * Second" and u = "63902826000 * Second" and M = 604800])
  show "refresh_windows 604800 [introducing_publication, stable_publication]" by code_simp
  show "visible_at [introducing_publication, stable_publication] (63902822400 * Second) = Some stable_publication" by code_simp
  show "visible_at [introducing_publication, stable_publication] (63902826000 * Second) = Some introducing_publication" by code_simp
qed (simp_all add: Second_def, code_simp)

text \<open>
  A refresh interval of more than about 292 years is not a long window but none at all: its nanoseconds
  wrap around to a negative duration, and the transition is ready before the keyring was ever published.
\<close>

theorem refresh_window_wraps:
  "seconds 9223372037 < 0 \<and>
   transitionReady (rotation_record (introducing_state\<lparr>ss_minimumRefresh := 9223372037\<rparr>) []) (63000000000 * Second) (63902822400 * Second)"
  by code_simp

end
