(* ===== verification/Slash_Paths.thy ===== *)
theory Slash_Paths
  imports Go_Path
begin

section \<open>Paths by their elements\<close>

text \<open>
  Paths that are plain elements with slashes between them: they are told apart by their elements, cleaning
  leaves them alone, and going below a path appends to its elements.
\<close>

abbreviation slashed :: "gostring list \<Rightarrow> gostring" where
  "slashed es \<equiv> join_with ''/'' es"

abbreviation no_slash :: "gostring \<Rightarrow> bool" where
  "no_slash e \<equiv> CHR ''/'' \<notin> set e"

lemma has_prefix_iff: "has_prefix s p \<longleftrightarrow> (\<exists>t. s = p @ t)"
  by (induction s p rule: has_prefix.induct) auto

lemma has_prefix_same [simp]: "has_prefix (p @ s) (p @ t) = has_prefix s t"
  by (induction p) simp_all

lemma plain_no_slash: "list_all plain_element es \<Longrightarrow> list_all no_slash es"
  by (auto simp: list_all_iff plain_element_def)

lemma slashed_inject:
  assumes "list_all no_slash as" "list_all no_slash bs" "as \<noteq> []" "bs \<noteq> []"
  shows "slashed as = slashed bs \<longleftrightarrow> as = bs"
  using split_on_join [OF assms(3,1)] split_on_join [OF assms(4,2)] by metis

lemma slashed_append: "as \<noteq> [] \<Longrightarrow> bs \<noteq> [] \<Longrightarrow> slashed (as @ bs) = slashed as @ ''/'' @ slashed bs"
  by (induction as) (auto simp: join_with_Cons)

lemma path_elements_no_slash: "list_all no_slash (path_elements s)"
proof -
  obtain k ps where "path_elements s = replicate k ''..'' @ ps" "list_all plain_element ps"
    using path_elements_shape by blast
  then show ?thesis using plain_no_slash by (auto simp: list_all_iff)
qed

lemma slashed_not_abs: "list_all plain_element es \<Longrightarrow> \<not> is_abs (slashed es)"
  by (cases es) (auto simp: join_with_Cons is_abs_def plain_element_def neq_Nil_conv)

lemma path_elements_slashed: "list_all plain_element es \<Longrightarrow> es \<noteq> [] \<Longrightarrow> path_elements (slashed es) = es"
  using split_on_join [OF _ plain_no_slash] fold_clean_push [of es False "[]"] slashed_not_abs
  by (simp add: path_elements_def)

lemma path_clean_slashed: "list_all plain_element es \<Longrightarrow> es \<noteq> [] \<Longrightarrow> path_clean (slashed es) = slashed es"
  by (simp add: path_clean_def slashed_not_abs path_elements_slashed)

lemma path_elements_below:
  assumes "s \<noteq> []" and "list_all plain_element es" and "es \<noteq> []"
  shows "path_elements (s @ ''/'' @ slashed es) = path_elements s @ es"
  using split_on_append [of "CHR ''/''" s "slashed es"] split_on_join [OF assms(3) plain_no_slash [OF assms(2)]]
    fold_clean_push [OF assms(2)] is_abs_append [OF assms(1)]
  by (simp add: path_elements_def)

lemma path_join_plain:
  "list_all plain_element es \<Longrightarrow> es \<noteq> [] \<Longrightarrow> path_join es = slashed es"
  by (cases es) (simp_all add: path_join_def path_clean_slashed plain_element_def)

end
