(* ===== verification/Forge.thy ===== *)
theory Forge
  imports Prelude
begin

section \<open>Forge providers\<close>

text \<open>
  \<^verbatim>\<open>forge/provider.go\<close> and the port of \<^verbatim>\<open>forge/forge.go\<close>: which providers and repository references a
  workspace may name, and the three questions a gate asks a provider. A provider is an argument: the
  port is an interface of the code, and an answer that could not be had is \<open>None\<close>.
\<close>

record provider_rule =
  pr_minSegments :: nat
  pr_maxSegments :: nat
  pr_defaultHost :: gostring

definition DefaultProvider :: gostring where "DefaultProvider = ''github''"
definition ProviderNone :: gostring where "ProviderNone = ''none''"

definition providerRules :: "(gostring \<times> provider_rule) list" where
  "providerRules = [
     (''github'', \<lparr>pr_minSegments = 2, pr_maxSegments = 2, pr_defaultHost = ''github.com''\<rparr>),
     (''gitlab'', \<lparr>pr_minSegments = 2, pr_maxSegments = 20, pr_defaultHost = ''gitlab.com''\<rparr>),
     (''forgejo'', \<lparr>pr_minSegments = 2, pr_maxSegments = 2, pr_defaultHost = []\<rparr>),
     (''gitea'', \<lparr>pr_minSegments = 2, pr_maxSegments = 2, pr_defaultHost = []\<rparr>),
     (''none'', \<lparr>pr_minSegments = 1, pr_maxSegments = 1, pr_defaultHost = []\<rparr>)]"

definition KnownProvider :: "gostring \<Rightarrow> bool" where
  "KnownProvider name \<longleftrightarrow> map_of providerRules name \<noteq> None"

definition Providers :: "gostring list" where
  "Providers = [''github'', ''gitlab'', ''forgejo'', ''gitea'', ''none'']"

definition DefaultHost :: "gostring \<Rightarrow> gostring" where
  "DefaultHost provider = (case map_of providerRules provider of None \<Rightarrow> [] | Some rule \<Rightarrow> pr_defaultHost rule)"

definition segment_char :: "char \<Rightarrow> bool" where
  "segment_char c \<longleftrightarrow> is_lower c \<or> is_upper c \<or> is_digit c \<or> c = CHR ''-'' \<or> c = CHR ''_'' \<or> c = CHR ''.''"

definition validPathSegment :: "gostring \<Rightarrow> bool" where
  "validPathSegment value =
     (if value = [] \<or> length value > 100 \<or> has_prefix value ''.'' \<or> has_suffix value ''.'' then False
      else list_all segment_char value)"

text \<open>The loop over the segments; the last one must not end in \<^verbatim>\<open>.git\<close>.\<close>

fun segments_valid :: "gostring list \<Rightarrow> bool" where
  "segments_valid [] = True"
| "segments_valid (segment # rest) =
     (if \<not> validPathSegment segment then False
      else if rest = [] \<and> has_suffix (to_lower segment) ''.git'' then False
      else segments_valid rest)"

definition ValidRepositoryReference :: "gostring \<Rightarrow> gostring \<Rightarrow> bool" where
  "ValidRepositoryReference provider reference =
     (case map_of providerRules provider of None \<Rightarrow> False
      | Some rule \<Rightarrow>
        if reference = [] \<or> length reference > 512 then False
        else if provider = ProviderNone then \<not> contains_any reference [CHR '' '', CHR 0x09, CHR 0x0D, CHR 0x0A]
        else let segments = split_on (CHR ''/'') reference in
          if length segments < pr_minSegments rule \<or> length segments > pr_maxSegments rule then False
          else segments_valid segments)"

definition ValidHost :: "gostring \<Rightarrow> bool" where
  "ValidHost host \<longleftrightarrow> host \<noteq> [] \<and> length host \<le> 253 \<and>
     \<not> contains_any host [CHR '' '', CHR 0x09, CHR 0x0D, CHR 0x0A, CHR ''/'', CHR 0x5C, CHR ''?'', CHR ''#'', CHR ''@''] \<and>
     \<not> has_prefix host ''.'' \<and> \<not> has_suffix host ''.''"

subsection \<open>The port\<close>

record ForgeRepository =
  fr_Name :: gostring
  fr_Provider :: gostring
  fr_Host :: gostring
  fr_WorkingDirectory :: gostring

record RepositoryInfo =
  ri_Name :: gostring
  ri_DefaultBranch :: gostring

record PullRequest =
  pull_Number :: int
  pull_Merged :: bool
  pull_BaseBranch :: gostring

record Ancestry =
  anc_Contains :: bool
  anc_MergeBase :: gostring

text \<open>
  What a provider answers: \<open>None\<close> is a call that fails. The ancestry of a revision may be asked for several
  times in a run; the number of earlier calls is an argument, so the answers may differ.
\<close>

record forge =
  forge_Repository :: "ForgeRepository \<Rightarrow> RepositoryInfo option"
  forge_PullRequestsForRevision :: "ForgeRepository \<Rightarrow> gostring \<Rightarrow> PullRequest list option"
  forge_RevisionAncestry :: "ForgeRepository \<Rightarrow> gostring \<Rightarrow> gostring \<Rightarrow> nat \<Rightarrow> Ancestry option"

subsection \<open>Accepted references are plain paths\<close>

lemma known_providers_listed: "KnownProvider name \<longleftrightarrow> name \<in> set Providers"
  by (simp add: KnownProvider_def providerRules_def Providers_def)

lemma segments_valid_all: "segments_valid segments \<Longrightarrow> segment \<in> set segments \<Longrightarrow> validPathSegment segment"
  by (induction segments) (auto split: if_splits)

lemma segment_shape:
  assumes "validPathSegment segment"
  shows "segment \<noteq> []" and "segment \<noteq> ''.''" and "segment \<noteq> ''..''" and "list_all segment_char segment"
  using assms by (auto simp: validPathSegment_def split: if_splits)

text \<open>
  A repository reference that a forge workspace may name is a plain path of the provider's depth. It
  has the number of segments the provider addresses repositories with, no segment is empty, \<^verbatim>\<open>.\<close> or
  \<^verbatim>\<open>..\<close>, and every byte is a letter, a digit, \<^verbatim>\<open>-\<close>, \<^verbatim>\<open>_\<close> or \<^verbatim>\<open>.\<close>, so it can be put into an API path or a
  command line as it is. The plain remote is the exception, which no code sends anywhere.
\<close>

theorem accepted_reference_is_plain_path:
  assumes "ValidRepositoryReference provider reference" and "provider \<noteq> ProviderNone"
  shows "\<exists>rule. map_of providerRules provider = Some rule \<and>
    pr_minSegments rule \<le> length (split_on (CHR ''/'') reference) \<and> length (split_on (CHR ''/'') reference) \<le> pr_maxSegments rule \<and>
    (\<forall>segment \<in> set (split_on (CHR ''/'') reference). segment \<noteq> [] \<and> segment \<noteq> ''.'' \<and> segment \<noteq> ''..'' \<and> list_all segment_char segment)"
  using assms segments_valid_all segment_shape
  by (auto simp: ValidRepositoryReference_def Let_def not_less split: option.splits if_splits)

theorem accepted_reference_is_plain_path_witness:
  "\<exists>rule. map_of providerRules ''gitlab'' = Some rule \<and>
    pr_minSegments rule \<le> length (split_on (CHR ''/'') ''group/sub/project'') \<and>
    length (split_on (CHR ''/'') ''group/sub/project'') \<le> pr_maxSegments rule \<and>
    (\<forall>segment \<in> set (split_on (CHR ''/'') ''group/sub/project''). segment \<noteq> [] \<and> segment \<noteq> ''.'' \<and> segment \<noteq> ''..'' \<and>
       list_all segment_char segment)"
proof (rule accepted_reference_is_plain_path)
  show "ValidRepositoryReference ''gitlab'' ''group/sub/project''" by code_simp
  show "''gitlab'' \<noteq> ProviderNone" by (simp add: ProviderNone_def)
qed

end
