(* ===== verification/Base64.thy ===== *)
theory Base64
  imports Prelude
begin

section \<open>Base64\<close>

text \<open>
  \<^verbatim>\<open>base64.StdEncoding\<close>: the encoder, and the decoder as Go implements it. The decoder skips carriage
  returns and newlines anywhere, and it does not require the unused bits of the last group to be zero.
  A string of bytes is a list of characters.
\<close>

definition b64_char :: "nat \<Rightarrow> char" where
  "b64_char n = ''ABCDEFGHIJKLMNOPQRSTUVWXYZabcdefghijklmnopqrstuvwxyz0123456789+/'' ! n"

definition b64_val :: "char \<Rightarrow> nat option" where
  "b64_val c = (if is_upper c then Some (of_char c - 65) else if is_lower c then Some (of_char c - 71)
     else if is_digit c then Some (of_char c + 4) else if c = CHR ''+'' then Some 62
     else if c = CHR ''/'' then Some 63 else None)"

fun b64_encode :: "gostring \<Rightarrow> gostring" where
  "b64_encode [] = []"
| "b64_encode [a] = (let n = of_char a in [b64_char (n div 4), b64_char (n mod 4 * 16), CHR ''='', CHR ''=''])"
| "b64_encode [a, b] = (let n = of_char a; m = of_char b in
     [b64_char (n div 4), b64_char (n mod 4 * 16 + m div 16), b64_char (m mod 16 * 4), CHR ''=''])"
| "b64_encode (a # b # c # s) = (let n = of_char a; m = of_char b; k = of_char c in
     b64_char (n div 4) # b64_char (n mod 4 * 16 + m div 16) # b64_char (m mod 16 * 4 + k div 64) #
     b64_char (k mod 64) # b64_encode s)"

text \<open>Groups of four characters; padding only at the end.\<close>

fun b64_groups :: "gostring \<Rightarrow> gostring option" where
  "b64_groups [] = Some []"
| "b64_groups (a # b # c # d # s) =
     (case (b64_val a, b64_val b) of
        (Some w, Some x) \<Rightarrow>
          if c = CHR ''='' then (if d = CHR ''='' \<and> s = [] then Some [char_of (w * 4 + x div 16)] else None)
          else (case b64_val c of None \<Rightarrow> None
            | Some y \<Rightarrow>
              if d = CHR ''='' then (if s = [] then Some [char_of (w * 4 + x div 16), char_of (x mod 16 * 16 + y div 4)] else None)
              else (case b64_val d of None \<Rightarrow> None
                | Some z \<Rightarrow> (case b64_groups s of None \<Rightarrow> None
                   | Some rest \<Rightarrow> Some (char_of (w * 4 + x div 16) # char_of (x mod 16 * 16 + y div 4) #
                       char_of (y mod 4 * 64 + z) # rest))))
      | _ \<Rightarrow> None)"
| "b64_groups _ = None"

definition b64_decode :: "gostring \<Rightarrow> gostring option" where
  "b64_decode s = b64_groups (filter (\<lambda>c. c \<noteq> CHR 0x0D \<and> c \<noteq> CHR 0x0A) s)"

subsection \<open>The encoding is read back\<close>

lemma b64_table: "\<forall>n \<in> set [0..<64]. b64_val (b64_char n) = Some n \<and> b64_char n \<noteq> CHR ''='' \<and>
    b64_char n \<noteq> CHR 0x0D \<and> b64_char n \<noteq> CHR 0x0A"
  by code_simp

lemma b64_char_facts [simp]:
  assumes "n < 64"
  shows "b64_val (b64_char n) = Some n" and "b64_char n \<noteq> CHR ''=''"
    and "b64_char n \<noteq> CHR 0x0D" and "b64_char n \<noteq> CHR 0x0A"
  using b64_table assms by (simp_all del: upt_conv_Cons)

lemma byte_bounds [simp]:
  "of_char c div 4 < (64::nat)" "of_char c mod 4 * 16 + of_char d div 16 < (64::nat)" "of_char c mod 4 * 16 < (64::nat)"
  "of_char c mod 16 * 4 + of_char d div 64 < (64::nat)" "of_char c mod 16 * 4 < (64::nat)" "of_char c mod 64 < (64::nat)"
proof -
  have d: "of_char c div 4 < (64::nat)" "of_char c div 16 < (16::nat)" "of_char c div 64 < (4::nat)" for c
    by (simp_all add: less_mult_imp_div_less)
  have m: "of_char c mod 4 \<le> (3::nat)" "of_char c mod 16 \<le> (15::nat)" for c
    using mod_less_divisor [of 4 "of_char c"] mod_less_divisor [of 16 "of_char c"] by linarith+
  show "of_char c div 4 < (64::nat)" "of_char c mod 4 * 16 + of_char d div 16 < (64::nat)" "of_char c mod 4 * 16 < (64::nat)"
    "of_char c mod 16 * 4 + of_char d div 64 < (64::nat)" "of_char c mod 16 * 4 < (64::nat)" "of_char c mod 64 < (64::nat)"
    using d [of c] d [of d] m [of c] by auto
qed

lemma group_values:
  fixes n m k :: nat
  assumes "m < 256" "k < 256"
  shows "n div 4 * 4 + (n mod 4 * 16 + m div 16) div 16 = n"
    and "(n mod 4 * 16 + m div 16) mod 16 * 16 + (m mod 16 * 4 + k div 64) div 4 = m"
    and "(m mod 16 * 4 + k div 64) mod 4 * 64 + k mod 64 = k"
    and "n div 4 * 4 + n mod 4 * 16 div 16 = n"
    and "(n mod 4 * 16 + m div 16) mod 16 * 16 + m mod 16 * 4 div 4 = m"
proof -
  have small: "m div 16 < 16" "k div 64 < 4" using assms by (simp_all add: less_mult_imp_div_less)
  have "(n mod 4 * 16 + m div 16) div 16 = n mod 4" "(n mod 4 * 16 + m div 16) mod 16 = m div 16"
    "(m mod 16 * 4 + k div 64) div 4 = m mod 16" "(m mod 16 * 4 + k div 64) mod 4 = k div 64"
    using small by simp_all
  then show "n div 4 * 4 + (n mod 4 * 16 + m div 16) div 16 = n"
    "(n mod 4 * 16 + m div 16) mod 16 * 16 + (m mod 16 * 4 + k div 64) div 4 = m"
    "(m mod 16 * 4 + k div 64) mod 4 * 64 + k mod 64 = k"
    "n div 4 * 4 + n mod 4 * 16 div 16 = n"
    "(n mod 4 * 16 + m div 16) mod 16 * 16 + m mod 16 * 4 div 4 = m"
    by simp_all
qed

lemma b64_groups_encode: "b64_groups (b64_encode s) = Some s"
proof (induction s rule: b64_encode.induct)
  case (2 a)
  show ?case using group_values(4) [of 0 0 "of_char a"] by (simp add: Let_def)
next
  case (3 a b)
  show ?case using group_values(1,5) [of "of_char b" 0 "of_char a"]
    by (simp add: Let_def)
next
  case (4 a b c s)
  show ?case using 4 group_values(1,2) [of "of_char b" "of_char c" "of_char a"] group_values(3) [of "of_char b" "of_char c"]
    by (simp add: Let_def)
qed simp

lemma b64_encode_no_breaks: "c \<in> set (b64_encode s) \<Longrightarrow> c \<noteq> CHR 0x0D \<and> c \<noteq> CHR 0x0A"
proof (induction s rule: b64_encode.induct)
  case (2 a)
  then show ?case by (auto simp: Let_def)
next
  case (3 a b)
  then show ?case by (auto simp: Let_def)
next
  case (4 a b d s)
  then show ?case by (auto simp: Let_def)
qed simp

lemma b64_decode_encode: "b64_decode (b64_encode s) = Some s"
proof -
  have "filter (\<lambda>c. c \<noteq> CHR 0x0D \<and> c \<noteq> CHR 0x0A) (b64_encode s) = b64_encode s"
    by (rule filter_True) (use b64_encode_no_breaks in blast)
  then show ?thesis by (simp add: b64_decode_def b64_groups_encode)
qed

end
