(* ===== verification/Manifest_Checks.thy ===== *)
theory Manifest_Checks
  imports Lock_Store Deployment Forge Base64 Go_Time
begin

section \<open>Validation of a workspace manifest\<close>

text \<open>
  The checks of \<^verbatim>\<open>internal/state/store.go\<close> on the parts of a manifest: hosts, forge identity, gates,
  signing keys, a repository's signing and the blob store. They return the first error in the order the
  code tests its conditions. URL parsing, the escaped path of a URL and SHA-256 are in the argument
  \<open>lib\<close>. \<^verbatim>\<open>strings.EqualFold\<close> is the comparison of the lower-cased ASCII strings.
\<close>

record manifest_lib =
  ml_url :: url_lib
  ml_escaped :: "url \<Rightarrow> gostring"
  ml_sha256 :: "gostring \<Rightarrow> gostring"

text \<open>An error is named after the condition that failed, with the operands of the message.\<close>

datatype manifest_error = Refused gostring "gostring list"

subsection \<open>URLs and names\<close>

definition equal_fold :: "gostring \<Rightarrow> gostring \<Rightarrow> bool" where
  "equal_fold a b \<longleftrightarrow> to_lower a = to_lower b"

text \<open>The parsed URL of an accepted value.\<close>

definition validateHTTPURL :: "manifest_lib \<Rightarrow> gostring \<Rightarrow> bool" where
  "validateHTTPURL lib value =
     (if contains_any value [CHR 0x00, CHR 0x0D, CHR 0x0A] then False
      else case ul_parse (ml_url lib) value of None \<Rightarrow> False
      | Some parsed \<Rightarrow> (url_Scheme parsed = ''http'' \<or> url_Scheme parsed = ''https'') \<and> url_Host parsed \<noteq> [] \<and>
          \<not> url_User parsed \<and> url_RawQuery parsed = [] \<and> url_Fragment parsed = [])"

definition isLoopbackHost :: "gostring \<Rightarrow> bool" where
  "isLoopbackHost value \<longleftrightarrow> value = ''localhost'' \<or> value = ''127.0.0.1'' \<or> value = ''::1''"

text \<open>The test that follows \<open>validateHTTPURL\<close> wherever clients or credentials use the endpoint.\<close>

definition secure_endpoint :: "manifest_lib \<Rightarrow> gostring \<Rightarrow> bool" where
  "secure_endpoint lib value = (case ul_parse (ml_url lib) value of None \<Rightarrow> False
     | Some parsed \<Rightarrow> url_Scheme parsed = ''https'' \<or> (url_Scheme parsed = ''http'' \<and> isLoopbackHost (url_Hostname parsed)))"

definition sameConfiguredEndpoint :: "manifest_lib \<Rightarrow> gostring \<Rightarrow> gostring \<Rightarrow> bool" where
  "sameConfiguredEndpoint lib left right =
     (case (ul_parse (ml_url lib) left, ul_parse (ml_url lib) right) of
        (Some l, Some r) \<Rightarrow> equal_fold (url_Scheme l) (url_Scheme r) \<and> equal_fold (url_Host l) (url_Host r) \<and>
          equal_fold (trim_suffix (ml_escaped lib l) ''/'') (trim_suffix (ml_escaped lib r) ''/'')
      | _ \<Rightarrow> False)"

definition validGitHubName :: "gostring \<Rightarrow> bool" where
  "validGitHubName value =
     (if value = [] \<or> length value > 100 \<or> has_prefix value ''.'' \<or> has_suffix value ''.'' then False
      else list_all segment_char value)"

definition validGitHubRepository :: "gostring \<Rightarrow> bool" where
  "validGitHubRepository value =
     (case split_on (CHR ''/'') value of
        [owner, name] \<Rightarrow> validGitHubName owner \<and> validGitHubName name \<and> \<not> has_suffix (to_lower name) ''.git''
      | _ \<Rightarrow> False)"

text \<open>A byte of a multi-byte rune is above the forbidden ASCII characters.\<close>

definition branch_char :: "char \<Rightarrow> bool" where
  "branch_char c \<longleftrightarrow> \<not> (of_char c \<le> (32::nat) \<or> of_char c = (127::nat) \<or>
     c \<in> {CHR ''~'', CHR ''^'', CHR '':'', CHR ''?'', CHR ''*'', CHR ''['', CHR 0x5C})"

definition validGitBranch :: "gostring \<Rightarrow> bool" where
  "validGitBranch value =
     (if value = [] \<or> value = ''@'' \<or> has_prefix value ''/'' \<or> has_suffix value ''/'' \<or> has_suffix value ''.'' \<or>
        has_suffix value ''.lock'' \<or> contains_sub value ''..'' \<or> contains_sub value [CHR ''@'', CHR 0x7B] \<or> contains_sub value ''//'' then False
      else if \<not> list_all (\<lambda>component. component \<noteq> [] \<and> \<not> has_prefix component ''.'') (split_on (CHR ''/'') value) then False
      else list_all branch_char value)"

subsection \<open>Hosts\<close>

definition requireHostServesFormat :: "gostring \<Rightarrow> Repository \<Rightarrow> manifest_error option" where
  "requireHostServesFormat name repository =
     (if fs_Publish (Supports (host_Type (repo_Host repository)) (repo_Format repository)) then None
      else Some (Refused ''UnservedFormat'' [name]))"

definition validate_local :: "manifest_lib \<Rightarrow> gostring \<Rightarrow> Repository \<Rightarrow> manifest_error option" where
  "validate_local lib name repository =
     (let h = repo_Host repository in
      if validateRelativePath (host_Path h) \<noteq> None then Some (Refused ''LocalPath'' [name])
      else if host_Bucket h \<noteq> [] \<or> host_Prefix h \<noteq> [] \<or> host_Endpoint h \<noteq> [] \<or> host_ReadAuth h \<noteq> [] \<or>
        host_CredentialBroker h \<noteq> [] \<or> host_Repository h \<noteq> [] \<or> host_PreviewRepository h \<noteq> [] \<or>
        host_PreviewEndpoint h \<noteq> [] \<or> host_Branch h \<noteq> [] \<or> host_PreviewBranch h \<noteq> [] then Some (Refused ''LocalForeign'' [name])
      else if host_CanonicalEndpoint h \<noteq> [] \<and> \<not> validateHTTPURL lib (host_CanonicalEndpoint h) then Some (Refused ''BaseURL'' [name])
      else None)"

definition validate_rsync :: "manifest_lib \<Rightarrow> gostring \<Rightarrow> Repository \<Rightarrow> manifest_error option" where
  "validate_rsync lib name repository =
     (let h = repo_Host repository in
      case requireHostServesFormat name repository of Some e \<Rightarrow> Some e | None \<Rightarrow>
      if host_Target h = [] then Some (Refused ''NoTarget'' [name])
      else if contains_any (host_Target h) [CHR '' '', CHR 0x09, CHR 0x0D, CHR 0x0A, CHR 0x00] then Some (Refused ''InvalidTarget'' [name])
      else if \<not> has_prefix (host_Path h) ''/'' \<or> path_clean (host_Path h) = ''/'' then Some (Refused ''RsyncPath'' [name])
      else if host_Bucket h \<noteq> [] \<or> host_Prefix h \<noteq> [] \<or> host_Repository h \<noteq> [] \<or> host_Branch h \<noteq> [] then Some (Refused ''RsyncForeign'' [name])
      else if repo_Visibility repository \<noteq> ''public'' then Some (Refused ''RsyncPrivate'' [name])
      else if host_CanonicalEndpoint h \<noteq> [] \<and> \<not> validateHTTPURL lib (host_CanonicalEndpoint h) then Some (Refused ''BaseURL'' [name])
      else None)"

definition slash_trimmed :: "gostring \<Rightarrow> gostring" where
  "slash_trimmed s = trim (\<lambda>c. c = CHR ''/'') s"

definition validate_s3 :: "manifest_lib \<Rightarrow> gostring \<Rightarrow> Repository \<Rightarrow> manifest_error option" where
  "validate_s3 lib name repository =
     (let h = repo_Host repository; pre = slash_trimmed (host_Prefix h) in
      case requireHostServesFormat name repository of Some e \<Rightarrow> Some e | None \<Rightarrow>
      if repo_Visibility repository = ''private'' \<and> (host_ReadAuth h \<noteq> ''basic'' \<or> host_CredentialBroker h \<noteq> ''default'')
      then Some (Refused ''PrivateNeedsBroker'' [name])
      else if repo_Visibility repository = ''public'' \<and> (host_ReadAuth h \<noteq> [] \<or> host_CredentialBroker h \<noteq> [])
      then Some (Refused ''PublicWithBroker'' [name])
      else if host_Path h \<noteq> [] \<or> host_Bucket h = [] \<or> host_CanonicalEndpoint h = [] \<or> host_Repository h \<noteq> [] \<or>
        host_PreviewRepository h \<noteq> [] \<or> host_PreviewEndpoint h \<noteq> [] \<or> host_Branch h \<noteq> [] \<or> host_PreviewBranch h \<noteq> []
      then Some (Refused ''S3Shape'' [name])
      else if pre \<noteq> host_Prefix h \<or> (pre \<noteq> [] \<and> (path_clean pre \<noteq> pre \<or> has_prefix pre ''../'')) then Some (Refused ''S3Prefix'' [name])
      else if \<not> validateHTTPURL lib (host_CanonicalEndpoint h) then Some (Refused ''EndpointURL'' [name])
      else if \<not> secure_endpoint lib (host_CanonicalEndpoint h) then Some (Refused ''EndpointInsecure'' [name])
      else if host_Endpoint h \<noteq> [] \<and> \<not> validateHTTPURL lib (host_Endpoint h) then Some (Refused ''EndpointURL'' [name])
      else if host_Endpoint h \<noteq> [] \<and> \<not> secure_endpoint lib (host_Endpoint h) then Some (Refused ''EndpointInsecure'' [name])
      else None)"

fun validate_endpoints :: "manifest_lib \<Rightarrow> gostring \<Rightarrow> gostring list \<Rightarrow> manifest_error option" where
  "validate_endpoints lib name [] = None"
| "validate_endpoints lib name (endpoint # rest) =
     (if \<not> validateHTTPURL lib endpoint then Some (Refused ''EndpointURL'' [name])
      else if \<not> secure_endpoint lib endpoint then Some (Refused ''EndpointInsecure'' [name])
      else validate_endpoints lib name rest)"

definition validate_pages :: "manifest_lib \<Rightarrow> gostring \<Rightarrow> Repository \<Rightarrow> manifest_error option" where
  "validate_pages lib name repository =
     (let h = repo_Host repository;
          configuredPreview = (host_PreviewRepository h \<noteq> [] \<or> host_PreviewBranch h \<noteq> [] \<or> host_PreviewEndpoint h \<noteq> []) in
      case requireHostServesFormat name repository of Some e \<Rightarrow> Some e | None \<Rightarrow>
      if repo_Visibility repository \<noteq> ''public'' then Some (Refused ''PagesPrivate'' [name])
      else if host_Path h \<noteq> [] \<or> host_Bucket h \<noteq> [] \<or> host_Prefix h \<noteq> [] \<or> host_Region h \<noteq> [] \<or> host_Endpoint h \<noteq> [] \<or>
        host_UsePathStyle h \<or> host_ReadAuth h \<noteq> [] \<or> host_CredentialBroker h \<noteq> [] then Some (Refused ''PagesForeign'' [name])
      else if \<not> validGitHubRepository (host_Repository h) then Some (Refused ''PagesRepository'' [name])
      else if \<not> validGitBranch (host_Branch h) then Some (Refused ''PagesBranch'' [name])
      else if \<not> configuredPreview \<and> repo_Gate repository \<noteq> ''auto'' \<and> repo_Gate repository \<noteq> [] then Some (Refused ''PreviewRequired'' [name])
      else if configuredPreview \<and> (\<not> validGitHubRepository (host_PreviewRepository h) \<or>
        equal_fold (host_Repository h) (host_PreviewRepository h)) then Some (Refused ''PreviewRepositoryInvalid'' [name])
      else if configuredPreview \<and> sameConfiguredEndpoint lib (host_CanonicalEndpoint h) (host_PreviewEndpoint h)
      then Some (Refused ''PreviewSameEndpoint'' [name])
      else if configuredPreview \<and> \<not> validGitBranch (host_PreviewBranch h) then Some (Refused ''PagesBranch'' [name])
      else validate_endpoints lib name
        (host_CanonicalEndpoint h # (if configuredPreview then [host_PreviewEndpoint h] else [])))"

definition validateRepositoryHost :: "manifest_lib \<Rightarrow> gostring \<Rightarrow> Repository \<Rightarrow> manifest_error option" where
  "validateRepositoryHost lib name repository =
     (if repo_Keep repository < 0 then Some (Refused ''NegativeKeep'' [name])
      else if repo_Visibility repository \<noteq> ''public'' \<and> repo_Visibility repository \<noteq> ''private'' then Some (Refused ''InvalidVisibility'' [name])
      else if host_Type (repo_Host repository) = ''local'' then validate_local lib name repository
      else if host_Type (repo_Host repository) = ''rsync'' then validate_rsync lib name repository
      else if host_Type (repo_Host repository) = ''s3'' then validate_s3 lib name repository
      else if host_Type (repo_Host repository) = ''github-pages'' then validate_pages lib name repository
      else Some (Refused ''UnsupportedHost'' [name]))"

subsection \<open>Forge and gates\<close>

definition validateForgeIdentity :: "Workspace \<Rightarrow> manifest_error option" where
  "validateForgeIdentity workspace =
     (let provider = (if ws_Forge workspace = [] then DefaultProvider else ws_Forge workspace) in
      if \<not> KnownProvider provider then Some (Refused ''UnknownForge'' [ws_Forge workspace])
      else if ws_ForgeRepository workspace \<noteq> [] \<and> \<not> ValidRepositoryReference provider (ws_ForgeRepository workspace)
      then Some (Refused ''ForgeReference'' [ws_ForgeRepository workspace])
      else if ws_ForgeHost workspace \<noteq> [] \<and> \<not> ValidHost (ws_ForgeHost workspace) then Some (Refused ''ForgeHostInvalid'' [ws_ForgeHost workspace])
      else if ws_ForgeHost workspace = [] \<and> ws_ForgeRepository workspace \<noteq> [] \<and> provider \<noteq> ProviderNone \<and> DefaultHost provider = []
      then Some (Refused ''ForgeNeedsHost'' [provider])
      else if ws_Forge workspace \<noteq> [] \<and> ws_Forge workspace \<noteq> ProviderNone \<and> ws_ForgeRepository workspace = []
      then Some (Refused ''ForgeWithoutRepository'' [ws_Forge workspace])
      else None)"

definition validGate :: "gostring \<Rightarrow> bool" where
  "validGate value \<longleftrightarrow> value = ''auto'' \<or> value = ''pr'' \<or> value = ''approval''"

fun approval_keys_valid :: "gostring \<Rightarrow> gostring list \<Rightarrow> bool" where
  "approval_keys_valid previous [] = True"
| "approval_keys_valid previous (encoded # rest) =
     (case b64_decode encoded of None \<Rightarrow> False
      | Some decoded \<Rightarrow> if length decoded \<noteq> 32 \<or> (previous \<noteq> [] \<and> encoded \<le> previous) then False
          else approval_keys_valid encoded rest)"

definition ValidateGateConfiguration :: "gostring \<Rightarrow> gostring list \<Rightarrow> gostring \<Rightarrow> manifest_error option" where
  "ValidateGateConfiguration policy approvalKeys forgeRepository =
     (if \<not> validGate policy then Some (Refused ''InvalidGate'' [policy])
      else if policy = ''pr'' \<and> forgeRepository = [] then Some (Refused ''PRGateNeedsForge'' [])
      else if policy \<noteq> ''approval'' then (if approvalKeys \<noteq> [] then Some (Refused ''ApprovalKeysWithoutGate'' []) else None)
      else if approvalKeys = [] then Some (Refused ''ApprovalKeysMissing'' [])
      else if \<not> approval_keys_valid [] approvalKeys then Some (Refused ''ApprovalKeysInvalid'' [])
      else None)"

definition validateGateConfiguration :: "Repository \<Rightarrow> gostring \<Rightarrow> manifest_error option" where
  "validateGateConfiguration repository forgeRepository =
     ValidateGateConfiguration (repo_Gate repository) (repo_ApprovalKeys repository) forgeRepository"

subsection \<open>Signing\<close>

definition key_form :: "gostring \<Rightarrow> gostring \<Rightarrow> gostring" where
  "key_form name ending = path_join [''keys'', name @ ending]"

definition validate_key :: "gostring \<Rightarrow> gostring \<Rightarrow> SigningKey \<Rightarrow> manifest_error option" where
  "validate_key workspaceID name key =
     (let apk = (key_Algorithm key = ''apk-rsa4096'');
          binaryPath = key_form name (if apk then ''.rsa.pub'' else ''.gpg'');
          armorPath = (if apk then binaryPath else key_form name ''.asc'') in
      if \<not> identifierPattern name \<or> (key_Algorithm key \<noteq> ''openpgp-rsa4096'' \<and> key_Algorithm key \<noteq> ''apk-rsa4096'') \<or>
        key_Usage key \<noteq> ''sign'' \<or> \<not> fingerprintPattern (key_Fingerprint key) \<or>
        \<not> ValidSHA256 (key_PublicKeySHA256 key) \<or> \<not> ValidSHA256 (key_PublicArmorSHA256 key) \<or>
        key_PublicKeyPath key \<noteq> binaryPath \<or> key_PublicArmorPath key \<noteq> armorPath \<or>
        ref_Backend (key_Ref key) \<noteq> ''file'' \<or> ref_ID (key_Ref key) \<noteq> workspaceID @ ''/'' @ name
      then Some (Refused ''KeyIdentity'' [name])
      else case (parse_rfc3339 (key_CreatedAt key), parse_rfc3339 (key_ExpiresAt key)) of
        (Some createdAt, Some expiresAt) \<Rightarrow> if \<not> createdAt < expiresAt then Some (Refused ''KeyValidity'' [name]) else None
      | _ \<Rightarrow> Some (Refused ''KeyValidity'' [name]))"

text \<open>\<open>fingerprints\<close> maps the fingerprints seen so far to the key that has them.\<close>

fun validate_keys :: "gostring \<Rightarrow> (gostring \<times> gostring) list \<Rightarrow> (gostring \<times> SigningKey) list \<Rightarrow> manifest_error option" where
  "validate_keys workspaceID fingerprints [] = None"
| "validate_keys workspaceID fingerprints ((name, key) # rest) =
     (case validate_key workspaceID name key of Some e \<Rightarrow> Some e
      | None \<Rightarrow> (case map_of fingerprints (key_Fingerprint key) of Some previous \<Rightarrow> Some (Refused ''SameFingerprint'' [previous, name])
         | None \<Rightarrow> validate_keys workspaceID ((key_Fingerprint key, name) # fingerprints) rest))"

definition validateSigningKeys :: "Manifest \<Rightarrow> manifest_error option" where
  "validateSigningKeys manifest = validate_keys (ws_ID (man_Workspace manifest)) [] (man_Keys manifest)"

fun check_signing_keys :: "gostring \<Rightarrow> format \<Rightarrow> (gostring \<times> SigningKey) list \<Rightarrow> gostring \<Rightarrow> gostring list \<Rightarrow> manifest_error option" where
  "check_signing_keys name selected keys previous [] = None"
| "check_signing_keys name selected keys previous (signingKey # rest) =
     (case map_of keys signingKey of None \<Rightarrow> Some (Refused ''UnknownKey'' [name, signingKey])
      | Some configured \<Rightarrow>
        if key_Algorithm configured \<noteq> SigningAlgorithm selected then Some (Refused ''WrongAlgorithm'' [name, signingKey])
        else if signingKey \<le> previous then Some (Refused ''KeysUnsorted'' [name])
        else check_signing_keys name selected keys signingKey rest)"

definition validateRepositorySigning :: "gostring \<Rightarrow> Repository \<Rightarrow> (gostring \<times> SigningKey) list \<Rightarrow> manifest_error option" where
  "validateRepositorySigning name repository keys =
     (if repo_SigningKeys repository = [] then
        (if repo_SigningKeyring repository \<noteq> [] \<or> repo_SigningRotation repository \<noteq> None then Some (Refused ''TrustWithoutKey'' [name]) else None)
      else case For (repo_Format repository) of Inl e \<Rightarrow> Some (Refused ''NoSignatures'' [name])
      | Inr selected \<Rightarrow>
        if \<not> ImplementsSigning selected then Some (Refused ''NoSignatures'' [name])
        else if length (repo_SigningKeys repository) \<noteq> 1 then Some (Refused ''NotOneKey'' [name])
        else case check_signing_keys name selected keys [] (repo_SigningKeys repository) of Some e \<Rightarrow> Some e
        | None \<Rightarrow>
          if validateRelativePath (repo_SigningKeyring repository) \<noteq> None \<or>
            \<not> has_prefix (repo_SigningKeyring repository) ''keys/'' \<or> \<not> has_suffix (repo_SigningKeyring repository) ''.gpg''
          then Some (Refused ''KeyringPath'' [name])
          else (case repo_SigningRotation repository of None \<Rightarrow> None
            | Some rotation \<Rightarrow>
              if rot_SuccessorKey rotation = repo_SigningKeys repository ! 0 \<or>
                (rot_Phase rotation \<noteq> ''introducing'' \<and> rot_Phase rotation \<noteq> ''activated'') \<or>
                rot_MinimumRefreshSeconds rotation < MinimumSigningRefreshSeconds then Some (Refused ''InvalidRotation'' [name])
              else if map_of keys (rot_SuccessorKey rotation) = None then Some (Refused ''UnknownSuccessor'' [name, rot_SuccessorKey rotation])
              else None))"

subsection \<open>The blob store\<close>

definition ValidateBlobStore :: "manifest_lib \<Rightarrow> BlobStoreConfig \<Rightarrow> manifest_error option" where
  "ValidateBlobStore lib c =
     (if bs_Type c = ''local'' then
        (if bs_Bucket c \<noteq> [] \<or> bs_Prefix c \<noteq> [] \<or> bs_Region c \<noteq> [] \<or> bs_Endpoint c \<noteq> [] \<or> bs_UsePathStyle c
         then Some (Refused ''LocalBlobForeign'' []) else None)
      else if bs_Type c = ''s3'' then
        (let pre = slash_trimmed (bs_Prefix c) in
         if bs_Bucket c = [] \<or> contains_any (bs_Bucket c @ bs_Region c) [CHR 0x00, CHR 0x0D, CHR 0x0A] then Some (Refused ''S3BlobBucket'' [])
         else if pre \<noteq> bs_Prefix c \<or> CHR 0x5C \<in> set pre \<or> (pre \<noteq> [] \<and> (path_clean pre \<noteq> pre \<or> has_prefix pre ''../''))
         then Some (Refused ''S3BlobPrefix'' [])
         else if bs_Endpoint c \<noteq> [] then
           (if \<not> validateHTTPURL lib (bs_Endpoint c) then Some (Refused ''S3BlobEndpoint'' [])
            else if \<not> secure_endpoint lib (bs_Endpoint c) then Some (Refused ''S3BlobInsecure'' [])
            else case ul_parse (ml_url lib) (bs_Endpoint c) of
              Some parsed \<Rightarrow> if url_Path parsed \<noteq> [] \<and> url_Path parsed \<noteq> ''/'' then Some (Refused ''S3BlobPath'' []) else None
            | None \<Rightarrow> None)
         else None)
      else Some (Refused ''UnsupportedBlobStore'' [bs_Type c]))"

end
