(* ===== verification/Manifest_Store.thy ===== *)
theory Manifest_Store
  imports Slash_Paths Manifest_Checks
begin

section \<open>Loading, writing and setting up a manifest\<close>

text \<open>
  \<^verbatim>\<open>LoadManifest\<close>, \<^verbatim>\<open>WriteManifest\<close>, \<^verbatim>\<open>Init\<close> and \<^verbatim>\<open>Setup\<close> of \<^verbatim>\<open>internal/state/store.go\<close> with the migrations of
  older schemas and the check that two repositories do not publish to one place. The manifest file is a
  text; the TOML encoder and the decoders of that text are arguments, and so is whether each write
  succeeds. A map of the code is an association list; Go visits its entries in any order, which decides
  only which of several errors is reported.
\<close>

subsection \<open>Migrations\<close>

record legacyRepository =
  lr_Format :: gostring
  lr_Lock :: gostring
  lr_Output :: gostring
  lr_Gate :: gostring
  lr_Suite :: gostring
  lr_Component :: gostring
  lr_Architectures :: "gostring list"

record legacyManifest =
  lm_SchemaVersion :: int
  lm_Workspace :: Workspace
  lm_Repositories :: "(gostring \<times> legacyRepository) list"

definition zero_host :: HostConfig where
  "zero_host = \<lparr>host_Type = [], host_Path = [], host_Target = [], host_Bucket = [], host_Prefix = [], host_Region = [],
     host_Endpoint = [], host_CanonicalEndpoint = [], host_UsePathStyle = False, host_ReadAuth = [],
     host_CredentialBroker = [], host_Repository = [], host_Branch = [], host_PreviewRepository = [],
     host_PreviewBranch = [], host_PreviewEndpoint = []\<rparr>"

definition zero_repository :: Repository where
  "zero_repository = \<lparr>repo_Format = [], repo_Lock = [], repo_Host = zero_host, repo_Visibility = [], repo_Gate = [],
     repo_ApprovalKeys = [], repo_SigningKeys = [], repo_SigningKeyring = [], repo_SigningRotation = None, repo_Keep = 0,
     repo_Track = [], repo_Suite = [], repo_Component = [], repo_Architectures = []\<rparr>"

definition local_blob_store :: BlobStoreConfig where
  "local_blob_store = \<lparr>bs_Type = ''local'', bs_Bucket = [], bs_Prefix = [], bs_Region = [], bs_Endpoint = [], bs_UsePathStyle = False\<rparr>"

definition legacyWorkspaceID :: "manifest_lib \<Rightarrow> gostring \<Rightarrow> gostring" where
  "legacyWorkspaceID lib name = ml_sha256 lib (''snailmail-workspace'' @ nul @ name)"

definition migrateLegacyManifest :: "manifest_lib \<Rightarrow> legacyManifest \<Rightarrow> Manifest" where
  "migrateLegacyManifest lib legacy = \<lparr>man_SchemaVersion = ManifestSchema,
     man_Workspace = (lm_Workspace legacy)\<lparr>ws_ID := legacyWorkspaceID lib (ws_Name (lm_Workspace legacy))\<rparr>,
     man_BlobStore = local_blob_store, man_Keys = [],
     man_Repositories = map (\<lambda>(name, r). (name, zero_repository\<lparr>repo_Format := lr_Format r, repo_Lock := lr_Lock r,
       repo_Gate := lr_Gate r, repo_Visibility := ''public'',
       repo_Host := zero_host\<lparr>host_Type := ''local'', host_Path := lr_Output r\<rparr>,
       repo_Suite := lr_Suite r, repo_Component := lr_Component r, repo_Architectures := lr_Architectures r\<rparr>))
       (lm_Repositories legacy)\<rparr>"

text \<open>Schema 5 recorded no keyring path: a repository with one key gets the key's own file.\<close>

definition fill_keyring :: "(gostring \<times> SigningKey) list \<Rightarrow> Repository \<Rightarrow> Repository" where
  "fill_keyring keys r =
     (if length (repo_SigningKeys r) = 1 \<and> repo_SigningKeyring r = []
      then r\<lparr>repo_SigningKeyring := (case map_of keys (repo_SigningKeys r ! 0) of None \<Rightarrow> [] | Some key \<Rightarrow> key_PublicKeyPath key)\<rparr>
      else r)"

definition fill_track :: "Repository \<Rightarrow> Repository" where
  "fill_track r = (if repo_Track r = [] then r\<lparr>repo_Track := ''stable''\<rparr> else r)"

abbreviation map_repositories :: "(Repository \<Rightarrow> Repository) \<Rightarrow> Manifest \<Rightarrow> Manifest" where
  "map_repositories f m \<equiv> m\<lparr>man_Repositories := map (\<lambda>(name, r). (name, f r)) (man_Repositories m)\<rparr>"

definition migrateManifest :: "manifest_lib \<Rightarrow> int \<Rightarrow> Manifest \<Rightarrow> Manifest" where
  "migrateManifest lib header m =
     (if header \<in> {2, 3, 4, 5, 6} then
        let m1 = m\<lparr>man_SchemaVersion := ManifestSchema\<rparr>;
            m2 = (if header = 2 then m1\<lparr>man_Workspace := (man_Workspace m1)\<lparr>ws_ID := legacyWorkspaceID lib (ws_Name (man_Workspace m1))\<rparr>,
                    man_BlobStore := local_blob_store\<rparr> else m1)
        in if header = 5 then map_repositories (fill_keyring (man_Keys m2)) m2 else m2
      else m)"

subsection \<open>Loading\<close>

fun first_error :: "('a \<Rightarrow> 'e option) \<Rightarrow> 'a list \<Rightarrow> 'e option" where
  "first_error check [] = None"
| "first_error check (x # xs) = (case check x of Some e \<Rightarrow> Some e | None \<Rightarrow> first_error check xs)"

definition load_repository :: "manifest_lib \<Rightarrow> Manifest \<Rightarrow> gostring \<times> Repository \<Rightarrow> manifest_error option" where
  "load_repository lib m = (\<lambda>(name, r).
     if \<not> identifierPattern name then Some (Refused ''RepositoryName'' [name])
     else if \<not> Supported (repo_Format r) then Some (Refused ''UnsupportedFormat'' [name])
     else if \<not> is_placement_coordinate (repo_Track r) then Some (Refused ''InvalidTrack'' [name])
     else if \<not> validGate (repo_Gate r) then Some (Refused ''InvalidGate'' [name])
     else case validateGateConfiguration r (ws_ForgeRepository (man_Workspace m)) of Some e \<Rightarrow> Some e | None \<Rightarrow>
     if validateRelativePath (repo_Lock r) \<noteq> None then Some (Refused ''LockPath'' [name])
     else case validateRepositoryHost lib name r of Some e \<Rightarrow> Some e | None \<Rightarrow>
     validateRepositorySigning name r (man_Keys m))"

definition check_loaded :: "manifest_lib \<Rightarrow> Manifest \<Rightarrow> manifest_error option" where
  "check_loaded lib m =
     (if man_SchemaVersion m \<noteq> ManifestSchema \<or> \<not> identifierPattern (ws_Name (man_Workspace m)) \<or>
        \<not> ValidSHA256 (ws_ID (man_Workspace m)) then Some (Refused ''ManifestSchema'' [])
      else case validateForgeIdentity (man_Workspace m) of Some e \<Rightarrow> Some e | None \<Rightarrow>
      case ValidateBlobStore lib (man_BlobStore m) of Some e \<Rightarrow> Some e | None \<Rightarrow>
      case validateSigningKeys m of Some e \<Rightarrow> Some e | None \<Rightarrow>
      first_error (load_repository lib m) (man_Repositories m))"

text \<open>
  The TOML library: encoding a manifest, which may fail, and decoding a text as the header alone, as the
  manifest of the first schema and as a manifest, the last two strictly.
\<close>

record manifest_codec =
  mc_marshal :: "Manifest \<Rightarrow> gostring option"
  mc_header :: "gostring \<Rightarrow> int option"
  mc_legacy :: "gostring \<Rightarrow> legacyManifest option"
  mc_manifest :: "gostring \<Rightarrow> Manifest option"

definition state_ManifestFilename :: gostring where "state_ManifestFilename = ''snailmail.toml''"

definition decode_manifest :: "manifest_codec \<Rightarrow> manifest_lib \<Rightarrow> gostring \<Rightarrow> manifest_error + int \<times> Manifest" where
  "decode_manifest codec lib content =
     (case mc_header codec content of None \<Rightarrow> Inl (Refused ''Decode'' [])
      | Some header \<Rightarrow>
        if header = 1 then
          (case mc_legacy codec content of None \<Rightarrow> Inl (Refused ''Decode'' []) | Some legacy \<Rightarrow> Inr (header, migrateLegacyManifest lib legacy))
        else
          (case mc_manifest codec content of None \<Rightarrow> Inl (Refused ''Decode'' [])
           | Some manifest \<Rightarrow> Inr (header, migrateManifest lib header manifest)))"

text \<open>The last argument is the content of the manifest file, \<open>None\<close> when it cannot be read.\<close>

definition LoadManifest :: "file_system \<Rightarrow> manifest_codec \<Rightarrow> manifest_lib \<Rightarrow> gostring \<Rightarrow> gostring option \<Rightarrow> manifest_error + Manifest" where
  "LoadManifest fs codec lib root stored =
     (case WorkspacePath fs root state_ManifestFilename of Inl e \<Rightarrow> Inl (Refused ''Path'' [state_ManifestFilename]) | Inr name \<Rightarrow>
      case stored of None \<Rightarrow> Inl (Refused ''Read'' [name]) | Some content \<Rightarrow>
      case decode_manifest codec lib content of Inl e \<Rightarrow> Inl e | Inr (header, manifest) \<Rightarrow>
      let m = (if header < ManifestSchema then map_repositories fill_track manifest else manifest) in
      (case check_loaded lib m of Some e \<Rightarrow> Inl e | None \<Rightarrow> Inr m))"

subsection \<open>Writing\<close>

definition write_repository :: "manifest_lib \<Rightarrow> Manifest \<Rightarrow> gostring \<times> Repository \<Rightarrow> manifest_error option" where
  "write_repository lib m = (\<lambda>(name, r).
     if \<not> identifierPattern name \<or> \<not> validGate (repo_Gate r) \<or> \<not> is_placement_coordinate (repo_Track r)
     then Some (Refused ''NameOrGate'' [name])
     else case validateRepositoryHost lib name r of Some e \<Rightarrow> Some e | None \<Rightarrow>
     case validateGateConfiguration r (ws_ForgeRepository (man_Workspace m)) of Some e \<Rightarrow> Some e | None \<Rightarrow>
     validateRepositorySigning name r (man_Keys m))"

text \<open>The manifest that is encoded, or the error.\<close>

definition prepare_manifest :: "manifest_lib \<Rightarrow> Manifest \<Rightarrow> manifest_error + Manifest" where
  "prepare_manifest lib manifest =
     (let m = manifest\<lparr>man_SchemaVersion := ManifestSchema\<rparr>;
          m = (if ws_ID (man_Workspace m) = [] then m\<lparr>man_Workspace := (man_Workspace m)\<lparr>ws_ID := legacyWorkspaceID lib (ws_Name (man_Workspace m))\<rparr>\<rparr> else m);
          m = (if bs_Type (man_BlobStore m) = [] then m\<lparr>man_BlobStore := (man_BlobStore m)\<lparr>bs_Type := ''local''\<rparr>\<rparr> else m) in
      if \<not> identifierPattern (ws_Name (man_Workspace m)) \<or> \<not> ValidSHA256 (ws_ID (man_Workspace m))
      then Inl (Refused ''WorkspaceIdentity'' [])
      else case validateForgeIdentity (man_Workspace m) of Some e \<Rightarrow> Inl e | None \<Rightarrow>
      case ValidateBlobStore lib (man_BlobStore m) of Some e \<Rightarrow> Inl e | None \<Rightarrow>
      case validateSigningKeys m of Some e \<Rightarrow> Inl e | None \<Rightarrow>
      case first_error (write_repository lib m) (man_Repositories m) of Some e \<Rightarrow> Inl e | None \<Rightarrow> Inr m)"

text \<open>What is in the manifest file afterwards, and the error: a write can fail before or after it took effect.\<close>

definition WriteManifest :: "file_system \<Rightarrow> manifest_codec \<Rightarrow> manifest_lib \<Rightarrow> write_outcome \<Rightarrow> gostring \<Rightarrow> Manifest \<Rightarrow> gostring option \<Rightarrow>
    gostring option \<times> manifest_error option" where
  "WriteManifest fs codec lib outcome root manifest stored =
     (case prepare_manifest lib manifest of Inl e \<Rightarrow> (stored, Some e) | Inr m \<Rightarrow>
      case mc_marshal codec m of None \<Rightarrow> (stored, Some (Refused ''Encode'' [])) | Some encoded \<Rightarrow>
      case WorkspacePath fs root state_ManifestFilename of Inl e \<Rightarrow> (stored, Some (Refused ''Path'' [state_ManifestFilename])) | Inr name \<Rightarrow>
      (case outcome of Written \<Rightarrow> (Some encoded, None)
       | FailedBefore \<Rightarrow> (stored, Some (Refused ''Write'' [name])) | FailedAfter \<Rightarrow> (Some encoded, Some (Refused ''Write'' [name]))))"

subsection \<open>Publication targets\<close>

definition publicationTargets :: "Repository \<Rightarrow> gostring list" where
  "publicationTargets repository =
     (let h = repo_Host repository in
      if host_Type h = ''s3'' then [''s3 bucket '' @ host_Bucket h @ '' under prefix /'' @ slash_trimmed (host_Prefix h)]
      else if host_Type h = ''rsync'' then [host_Target h @ '':'' @ host_Path h]
      else if host_Type h = ''github-pages'' then
        (''GitHub Pages branch '' @ host_Branch h @ '' of '' @ host_Repository h) #
        (if host_PreviewRepository h \<noteq> []
         then [''GitHub Pages branch '' @ host_PreviewBranch h @ '' of '' @ host_PreviewRepository h] else [])
      else [''directory '' @ path_clean (host_Path h)])"

definition targetsOverlap :: "gostring \<Rightarrow> gostring \<Rightarrow> bool" where
  "targetsOverlap left right =
     (if left = right then True else has_prefix left (right @ ''/'') \<or> has_prefix right (left @ ''/''))"

definition RepositoryNames :: "Manifest \<Rightarrow> gostring list" where
  "RepositoryNames manifest = sort (map fst (man_Repositories manifest))"

definition checkPublicationTargets :: "Manifest \<Rightarrow> gostring \<Rightarrow> Repository \<Rightarrow> manifest_error option" where
  "checkPublicationTargets manifest name candidate =
     first_error (\<lambda>existingName.
       if existingName = name then None
       else case map_of (man_Repositories manifest) existingName of None \<Rightarrow> None
       | Some existing \<Rightarrow>
         if list_ex (\<lambda>target. list_ex (\<lambda>occupied. targetsOverlap target occupied) (publicationTargets existing)) (publicationTargets candidate)
         then Some (Refused ''TargetOwned'' [name, existingName]) else None)
       (RepositoryNames manifest)"

subsection \<open>Setting up a repository\<close>

record SetupOptions =
  so_Name :: gostring
  so_Format :: gostring
  so_Output :: gostring
  so_HostType :: gostring
  so_Gate :: gostring
  so_ApprovalKeys :: "gostring list"
  so_SigningKeys :: "gostring list"
  so_AllowUnsigned :: bool
  so_Keep :: int
  so_Track :: gostring
  so_Visibility :: gostring
  so_Target :: gostring
  so_Bucket :: gostring
  so_Prefix :: gostring
  so_Region :: gostring
  so_Endpoint :: gostring
  so_CanonicalEndpoint :: gostring
  so_UsePathStyle :: bool
  so_ReadAuth :: gostring
  so_CredentialBroker :: gostring
  so_Repository :: gostring
  so_Branch :: gostring
  so_PreviewRepository :: gostring
  so_PreviewBranch :: gostring
  so_PreviewEndpoint :: gostring
  so_Suite :: gostring
  so_Component :: gostring
  so_Architectures :: "gostring list"

definition or_default :: "gostring \<Rightarrow> gostring \<Rightarrow> gostring" where
  "or_default value d = (if value = [] then d else value)"

text \<open>The repository before its format-specific fields: what the targets, host and gate checks see.\<close>

definition setup_base :: "SetupOptions \<Rightarrow> Repository" where
  "setup_base options =
     (let hostType = or_default (so_HostType options) ''local'';
          h = \<lparr>host_Type = hostType, host_Path = so_Output options, host_Target = so_Target options, host_Bucket = so_Bucket options,
            host_Prefix = so_Prefix options, host_Region = so_Region options, host_Endpoint = so_Endpoint options,
            host_CanonicalEndpoint = so_CanonicalEndpoint options, host_UsePathStyle = so_UsePathStyle options,
            host_ReadAuth = so_ReadAuth options, host_CredentialBroker = so_CredentialBroker options,
            host_Repository = so_Repository options, host_Branch = so_Branch options,
            host_PreviewRepository = so_PreviewRepository options, host_PreviewBranch = so_PreviewBranch options,
            host_PreviewEndpoint = so_PreviewEndpoint options\<rparr>;
          h = (if hostType = ''github-pages'' then
                h\<lparr>host_Branch := or_default (host_Branch h) ''gh-pages'',
                  host_PreviewBranch := (if host_PreviewRepository h \<noteq> [] then or_default (host_PreviewBranch h) ''gh-pages''
                    else host_PreviewBranch h)\<rparr> else h) in
      \<lparr>repo_Format = so_Format options, repo_Lock = path_join [''repos'', so_Name options @ ''.lock.toml''], repo_Host = h,
       repo_Visibility = or_default (so_Visibility options) ''public'', repo_Gate = or_default (so_Gate options) ''auto'',
       repo_ApprovalKeys = so_ApprovalKeys options, repo_SigningKeys = so_SigningKeys options, repo_SigningKeyring = [],
       repo_SigningRotation = None, repo_Keep = so_Keep options, repo_Track = or_default (so_Track options) ''stable'',
       repo_Suite = [], repo_Component = [], repo_Architectures = []\<rparr>)"

definition setup_repository :: "SetupOptions \<Rightarrow> Repository" where
  "setup_repository options =
     (let r = setup_base options;
          r = (if so_Format options = ''apk'' then r\<lparr>repo_Architectures := so_Architectures options\<rparr> else r);
          r = (if so_Format options = ''deb'' then r\<lparr>repo_Suite := or_default (so_Suite options) ''stable'',
                 repo_Component := or_default (so_Component options) ''main'',
                 repo_Architectures := (if so_Architectures options = [] then [''amd64''] else so_Architectures options)\<rparr> else r) in
      if length (repo_SigningKeys r) = 1
      then r\<lparr>repo_SigningKeyring := path_join [''keys'', so_Name options @ ''-archive-keyring.gpg'']\<rparr> else r)"

text \<open>
  The files the command reads and writes: the content of the manifest, locks by their path, and install
  documents. Each write has an outcome of its own.
\<close>

record workspace_files =
  wf_manifest :: "gostring option"
  wf_locks :: "(gostring \<times> RepositoryLock) list"
  wf_documents :: "gostring list"

record setup_io =
  sio_lock :: write_outcome
  sio_document :: write_outcome
  sio_manifest :: write_outcome

definition lands :: "write_outcome \<Rightarrow> bool" where
  "lands outcome \<longleftrightarrow> outcome \<noteq> FailedBefore"

definition setup_checks :: "file_system \<Rightarrow> manifest_lib \<Rightarrow> gostring \<Rightarrow> SetupOptions \<Rightarrow> Manifest \<Rightarrow> manifest_error option" where
  "setup_checks fs lib root options manifest =
     (let r = setup_repository options; name = so_Name options in
      case For (so_Format options) of Inl e \<Rightarrow> Some (Refused ''UnsupportedFormat'' [name]) | Inr selected \<Rightarrow>
      if ImplementsSigning selected \<and> so_SigningKeys options = [] \<and> \<not> so_AllowUnsigned options
      then Some (Refused ''NeedsSigningKey'' [name])
      else if map_of (man_Repositories manifest) name \<noteq> None then Some (Refused ''RepositoryExists'' [name])
      else case checkPublicationTargets manifest name (setup_base options) of Some e \<Rightarrow> Some e | None \<Rightarrow>
      case validateRepositoryHost lib name (setup_base options) of Some e \<Rightarrow> Some e | None \<Rightarrow>
      case validateGateConfiguration (setup_base options) (ws_ForgeRepository (man_Workspace manifest)) of Some e \<Rightarrow> Some e | None \<Rightarrow>
      case validateRepositorySigning name r (man_Keys manifest) of Some e \<Rightarrow> Some e | None \<Rightarrow>
      case WorkspacePath fs root (repo_Lock r) of Inl e \<Rightarrow> Some (Refused ''Path'' [repo_Lock r]) | Inr resolvedLock \<Rightarrow>
      case fs_lstat fs resolvedLock of
        Present \<Rightarrow> Some (Refused ''LockExists'' [repo_Lock r])
      | LstatError \<Rightarrow> Some (Refused ''Lstat'' [repo_Lock r])
      | NotExist \<Rightarrow>
        if host_Type (repo_Host r) = ''local'' \<and> isl (WorkspacePath fs root (host_Path (repo_Host r)))
        then Some (Refused ''Path'' [host_Path (repo_Host r)]) else None)"

definition empty_lock :: "gostring \<Rightarrow> RepositoryLock" where
  "empty_lock name = \<lparr>lock_SchemaVersion = LockSchema, lock_Repository = name, lock_PackageVersion = [], lock_Placement = []\<rparr>"

definition Setup :: "file_system \<Rightarrow> manifest_codec \<Rightarrow> manifest_lib \<Rightarrow> setup_io \<Rightarrow> gostring \<Rightarrow> SetupOptions \<Rightarrow>
    workspace_files \<Rightarrow> workspace_files \<times> manifest_error option" where
  "Setup fs codec lib io root options files =
     (let r = setup_repository options; name = so_Name options;
          document = path_join [''docs'', ''install-'' @ name @ ''.md''] in
      if ValidateRepositoryName name \<noteq> None then (files, Some (Refused ''RepositoryName'' [name]))
      else if \<not> Supported (so_Format options) then (files, Some (Refused ''UnsupportedFormat'' [name]))
      else case LoadManifest fs codec lib root (wf_manifest files) of Inl e \<Rightarrow> (files, Some e) | Inr manifest \<Rightarrow>
      case setup_checks fs lib root options manifest of Some e \<Rightarrow> (files, Some e) | None \<Rightarrow>
      let files1 = (if lands (sio_lock io) then files\<lparr>wf_locks := (repo_Lock r, canonicalizeLock (empty_lock name)) # wf_locks files\<rparr> else files) in
      if sio_lock io \<noteq> Written then (files1, Some (Refused ''Write'' [repo_Lock r]))
      else let documented = fs_InstallDocument (Supports (host_Type (repo_Host r)) (repo_Format r));
               document_path = WorkspacePath fs root document;
               files2 = (if documented \<and> \<not> isl document_path \<and> lands (sio_document io)
                 then files1\<lparr>wf_documents := document # wf_documents files1\<rparr> else files1) in
        if documented \<and> isl document_path then (files2, Some (Refused ''Path'' [document]))
        else if documented \<and> sio_document io \<noteq> Written then (files2, Some (Refused ''Write'' [document]))
        else let (stored, err) = WriteManifest fs codec lib (sio_manifest io) root
                   (manifest\<lparr>man_Repositories := man_Repositories manifest @ [(name, r)]\<rparr>) (wf_manifest files2)
             in (files2\<lparr>wf_manifest := stored\<rparr>, err))"

subsection \<open>What is written can be loaded\<close>

lemma first_error_None: "first_error check xs = None \<longleftrightarrow> (\<forall>x \<in> set xs. check x = None)"
  by (induction xs) (auto split: option.splits)

definition loadable :: "gostring \<times> Repository \<Rightarrow> bool" where
  "loadable = (\<lambda>(name, r). Supported (repo_Format r) \<and> validateRelativePath (repo_Lock r) = None)"

lemma load_iff_write: "load_repository lib m x = None \<longleftrightarrow> write_repository lib m x = None \<and> loadable x"
  by (auto simp: load_repository_def write_repository_def loadable_def split: prod.splits option.splits if_splits)

lemma blob_store_typed: "ValidateBlobStore lib c = None \<Longrightarrow> bs_Type c \<noteq> []"
  by (auto simp: ValidateBlobStore_def split: if_splits)

lemma loaded_writable:
  assumes "check_loaded lib m = None"
  shows "prepare_manifest lib m = Inr m"
proof -
  have parts: "man_SchemaVersion m = ManifestSchema" "identifierPattern (ws_Name (man_Workspace m))"
    "ValidSHA256 (ws_ID (man_Workspace m))" "validateForgeIdentity (man_Workspace m) = None"
    "ValidateBlobStore lib (man_BlobStore m) = None" "validateSigningKeys m = None"
    "first_error (load_repository lib m) (man_Repositories m) = None"
    using assms by (auto simp: check_loaded_def split: if_splits option.splits)
  then have "first_error (write_repository lib m) (man_Repositories m) = None"
    by (simp add: first_error_None load_iff_write)
  moreover have "ws_ID (man_Workspace m) \<noteq> []" "bs_Type (man_BlobStore m) \<noteq> []"
    using parts ValidSHA256_not_Nil blob_store_typed by auto
  moreover have same: "m\<lparr>man_SchemaVersion := ManifestSchema\<rparr> = m" using parts(1) by simp
  ultimately show ?thesis unfolding prepare_manifest_def Let_def same using parts by simp
qed

lemma prepared_checks:
  assumes "prepare_manifest lib m = Inr m'"
  shows "man_SchemaVersion m' = ManifestSchema" and "man_Repositories m' = man_Repositories m" and "man_Keys m' = man_Keys m"
    and "list_all loadable (man_Repositories m') \<Longrightarrow> check_loaded lib m' = None"
proof -
  have m': "man_SchemaVersion m' = ManifestSchema" "identifierPattern (ws_Name (man_Workspace m'))"
    "ValidSHA256 (ws_ID (man_Workspace m'))" "validateForgeIdentity (man_Workspace m') = None"
    "ValidateBlobStore lib (man_BlobStore m') = None" "validateSigningKeys m' = None"
    "first_error (write_repository lib m') (man_Repositories m') = None"
    "man_Repositories m' = man_Repositories m" "man_Keys m' = man_Keys m"
    using assms unfolding prepare_manifest_def Let_def by (auto split: if_splits option.splits)
  then show "man_SchemaVersion m' = ManifestSchema" "man_Repositories m' = man_Repositories m" "man_Keys m' = man_Keys m"
    by simp_all
  show "check_loaded lib m' = None" if "list_all loadable (man_Repositories m')"
    using m' that unfolding check_loaded_def by (simp add: first_error_None load_iff_write list_all_iff)
qed

text \<open>The law of the TOML library: what it encodes it decodes to the same manifest.\<close>

definition reads_back :: "manifest_codec \<Rightarrow> Manifest \<Rightarrow> gostring \<Rightarrow> bool" where
  "reads_back codec m encoded \<longleftrightarrow> mc_header codec encoded = Some (man_SchemaVersion m) \<and> mc_manifest codec encoded = Some m"

definition codec_law :: "manifest_codec \<Rightarrow> bool" where
  "codec_law codec \<longleftrightarrow> (\<forall>m encoded. mc_marshal codec m = Some encoded \<longrightarrow> reads_back codec m encoded)"

lemma load_current:
  assumes "check_loaded lib m = None" and "reads_back codec m encoded" and "WorkspacePath fs root state_ManifestFilename = Inr name"
  shows "LoadManifest fs codec lib root (Some encoded) = Inr m"
proof -
  have "man_SchemaVersion m = ManifestSchema" using assms(1) by (auto simp: check_loaded_def split: if_splits)
  then show ?thesis using assms
    by (simp add: LoadManifest_def decode_manifest_def reads_back_def migrateManifest_def ManifestSchema_def Let_def)
qed

lemma LoadManifest_checked:
  assumes "LoadManifest fs codec lib root stored = Inr m"
  shows "check_loaded lib m = None" and "\<exists>name. WorkspacePath fs root state_ManifestFilename = Inr name"
  using assms by (auto simp: LoadManifest_def Let_def split: option.splits sum.splits prod.splits)

text \<open>
  C30: loading and writing a manifest agree. Whatever file was loaded, of the current schema or migrated
  from an older one, the manifest in memory passes every check of the writer unchanged: when the TOML
  library can encode it, its encoding is what is written, and if the library decodes what it encoded, that
  file loads to the same manifest again.
\<close>

theorem loaded_manifest_round_trip:
  assumes "LoadManifest fs codec lib root stored = Inr m" and "mc_marshal codec m = Some encoded" and "codec_law codec"
  shows "WriteManifest fs codec lib Written root m stored = (Some encoded, None) \<and> LoadManifest fs codec lib root (Some encoded) = Inr m"
proof -
  obtain name where name: "WorkspacePath fs root state_ManifestFilename = Inr name" using LoadManifest_checked(2) [OF assms(1)] by blast
  note checked = LoadManifest_checked(1) [OF assms(1)]
  have "reads_back codec m encoded" using assms(2,3) by (simp add: codec_law_def)
  then show ?thesis using load_current [OF checked _ name] loaded_writable [OF checked] assms(2) name by (simp add: WriteManifest_def)
qed

subsection \<open>A repository that was set up\<close>

lemma identifier_chars: "identifierPattern s \<Longrightarrow> c \<in> set s \<Longrightarrow> is_lower c \<or> is_digit c \<or> c = CHR ''-''"
  by (auto simp: identifierPattern_def identifier_char_def list_all_iff split: list.splits)

lemma named_file_valid:
  assumes "identifierPattern name" and "plain_element dir" and "plain_element (pre @ name @ ending)"
    and "\<not> contains_any (dir @ pre @ ending) [CHR 0x00, CHR 0x0D, CHR 0x0A]"
  shows "validateRelativePath (path_join [dir, pre @ name @ ending]) = None"
    and "path_join [dir, pre @ name @ ending] = dir @ ''/'' @ pre @ name @ ending"
proof -
  let ?f = "pre @ name @ ending"
  have plain: "list_all plain_element [dir, ?f]" using assms(2,3) by simp
  have ne: "dir \<noteq> []" "dir \<noteq> ''.''" "dir \<noteq> ''..''" "CHR ''/'' \<notin> set dir" using assms(2) by (auto simp: plain_element_def)
  have rel: "\<not> is_abs (dir @ ''/'' @ ?f)" using ne by (cases dir) (auto simp: is_abs_def)
  have elements: "path_elements (dir @ ''/'' @ ?f) = [dir, ?f]" using path_elements_plain [OF _ plain] by simp
  show joined: "path_join [dir, ?f] = dir @ ''/'' @ ?f"
    using elements rel ne(1) by (simp add: path_join_def path_clean_def)
  have clean: "path_clean (dir @ ''/'' @ ?f) = dir @ ''/'' @ ?f" using elements rel by (simp add: path_clean_def)
  have "\<not> has_prefix (dir @ t) ''../''" for t
  proof -
    obtain a d where d: "dir = a # d" using ne(1) by (cases dir) auto
    then show ?thesis using ne by (cases d; cases "tl d"; cases t) auto
  qed
  moreover have "dir @ ''/'' @ ?f \<noteq> ''.''" "dir @ ''/'' @ ?f \<noteq> ''..''" using ne(1,4) by (cases dir; cases "tl dir"; auto)+
  moreover have "\<not> contains_any (dir @ ''/'' @ ?f) [CHR 0x00, CHR 0x0D, CHR 0x0A]"
  proof -
    have "\<not> is_lower c \<and> \<not> is_digit c" if "c \<in> {CHR 0x00, CHR 0x0D, CHR 0x0A}" for c
      using that by (auto simp: is_lower_def is_digit_def less_eq_char_def)
    then have "c \<notin> {CHR 0x00, CHR 0x0D, CHR 0x0A}" if "c \<in> set name" for c using identifier_chars [OF assms(1) that] by auto
    then show ?thesis using assms(4) by (fastforce simp: contains_any_def list_ex_iff)
  qed
  ultimately show "validateRelativePath (path_join [dir, ?f]) = None"
    using rel clean ne(1) unfolding joined validateRelativePath_def Let_def by simp
qed

lemma setup_lock_path:
  assumes "identifierPattern (so_Name options)"
  shows "validateRelativePath (repo_Lock (setup_repository options)) = None"
proof -
  have plain: "plain_element (so_Name options @ ''.lock.toml'')"
    using assms by (auto simp: plain_element_def identifierPattern_def list_all_iff identifier_char_def is_lower_def is_digit_def
        less_eq_char_def split: list.splits)
  have "repo_Lock (setup_repository options) = path_join [''repos'', so_Name options @ ''.lock.toml'']"
    by (simp add: setup_repository_def setup_base_def Let_def)
  then show ?thesis using named_file_valid(1) [OF assms, of "''repos''" "[]" "''.lock.toml''"] plain
    by (simp add: plain_element_def contains_any_def)
qed

lemma setup_format: "repo_Format (setup_repository options) = so_Format options"
  by (simp add: setup_repository_def setup_base_def Let_def)

lemma setup_host: "repo_Host (setup_repository options) = repo_Host (setup_base options)"
  by (simp add: setup_repository_def Let_def)

lemma setup_targets: "publicationTargets (setup_repository options) = publicationTargets (setup_base options)"
  by (simp add: publicationTargets_def setup_host)

lemma Setup_success:
  assumes "Setup fs codec lib io root options files = (files', None)" and "LoadManifest fs codec lib root (wf_manifest files) = Inr manifest"
  obtains m' encoded name where "setup_checks fs lib root options manifest = None"
    "identifierPattern (so_Name options)" "Supported (so_Format options)"
    "prepare_manifest lib (manifest\<lparr>man_Repositories := man_Repositories manifest @ [(so_Name options, setup_repository options)]\<rparr>) = Inr m'"
    "mc_marshal codec m' = Some encoded" "wf_manifest files' = Some encoded" "WorkspacePath fs root state_ManifestFilename = Inr name"
    "wf_locks files' = (repo_Lock (setup_repository options), canonicalizeLock (empty_lock (so_Name options))) # wf_locks files"
  using assms unfolding Setup_def Let_def
  by (auto simp: ValidateRepositoryName_def WriteManifest_def lands_def split: if_splits sum.splits option.splits write_outcome.splits)

text \<open>The manifest in the workspace after a setup is the one it had with the new repository at its end.\<close>

lemma Setup_loads:
  assumes "Setup fs codec lib io root options files = (files', None)" and "LoadManifest fs codec lib root (wf_manifest files) = Inr manifest"
    and "codec_law codec"
  obtains m' where "LoadManifest fs codec lib root (wf_manifest files') = Inr m'"
    "man_Repositories m' = man_Repositories manifest @ [(so_Name options, setup_repository options)]"
    "setup_checks fs lib root options manifest = None" "Supported (so_Format options)"
    "wf_locks files' = (repo_Lock (setup_repository options), canonicalizeLock (empty_lock (so_Name options))) # wf_locks files"
proof -
  obtain m' encoded name where m': "setup_checks fs lib root options manifest = None" "identifierPattern (so_Name options)"
    "Supported (so_Format options)"
    "prepare_manifest lib (manifest\<lparr>man_Repositories := man_Repositories manifest @ [(so_Name options, setup_repository options)]\<rparr>) = Inr m'"
    "mc_marshal codec m' = Some encoded" "wf_manifest files' = Some encoded" "WorkspacePath fs root state_ManifestFilename = Inr name"
    "wf_locks files' = (repo_Lock (setup_repository options), canonicalizeLock (empty_lock (so_Name options))) # wf_locks files"
    by (rule Setup_success [OF assms(1,2)]) (rule that)
  have repos: "man_Repositories m' = man_Repositories manifest @ [(so_Name options, setup_repository options)]"
    using prepared_checks(2) [OF m'(4)] by simp
  have "list_all loadable (man_Repositories manifest)"
    using LoadManifest_checked(1) [OF assms(2)]
    by (auto simp: check_loaded_def first_error_None load_iff_write list_all_iff split: if_splits option.splits)
  then have "list_all loadable (man_Repositories m')"
    using repos m'(2,3) setup_lock_path by (simp add: loadable_def setup_format)
  then have "LoadManifest fs codec lib root (Some encoded) = Inr m'"
    using assms(3) m'(5) by (intro load_current [OF prepared_checks(4) [OF m'(4)] _ m'(7)]) (auto simp: codec_law_def)
  then show ?thesis using that m'(1,3,6,8) repos by simp
qed

text \<open>
  C23: a successful setup leaves a workspace that works. Provided the TOML library decodes what it encoded,
  the manifest file in the workspace afterwards loads without an error, contains the new repository under
  its name and every repository it had before unchanged, and the lock written for the new repository is a
  valid empty lock of it.
\<close>

theorem setup_configures_repository:
  assumes "Setup fs codec lib io root options files = (files', None)" and "LoadManifest fs codec lib root (wf_manifest files) = Inr manifest"
    and "codec_law codec"
  shows "\<exists>m'. LoadManifest fs codec lib root (wf_manifest files') = Inr m' \<and>
    map_of (man_Repositories m') = (map_of (man_Repositories manifest))(so_Name options \<mapsto> setup_repository options) \<and>
    (\<exists>lock. map_of (wf_locks files') (repo_Lock (setup_repository options)) = Some lock \<and>
       ValidateLock (ml_url lib) lock (so_Name options) (so_Format options) = None \<and> lock_PackageVersion lock = [])"
proof -
  obtain m' where m': "LoadManifest fs codec lib root (wf_manifest files') = Inr m'"
    "man_Repositories m' = man_Repositories manifest @ [(so_Name options, setup_repository options)]"
    "setup_checks fs lib root options manifest = None" "Supported (so_Format options)"
    "wf_locks files' = (repo_Lock (setup_repository options), canonicalizeLock (empty_lock (so_Name options))) # wf_locks files"
    by (rule Setup_loads [OF assms]) (rule that)
  have new: "map_of (man_Repositories manifest) (so_Name options) = None"
    using m'(3) by (auto simp: setup_checks_def Let_def split: sum.splits if_splits)
  have "map_of (man_Repositories m') = (map_of (man_Repositories manifest))(so_Name options \<mapsto> setup_repository options)"
    using new m'(2) by (auto simp: map_add_def fun_eq_iff split: option.splits)
  moreover have "ValidateLock (ml_url lib) (canonicalizeLock (empty_lock (so_Name options))) (so_Name options) (so_Format options) = None"
    using m'(4) by (auto simp: ValidateLock_def canonicalizeLock_def empty_lock_def Supported_def For_def split: option.splits)
  ultimately show ?thesis using m'(1,5) by (auto simp: canonicalizeLock_def empty_lock_def)
qed

text \<open>A file system with the workspace \<^verbatim>\<open>/w\<close>, an empty manifest in it, and options for a local raw repository.\<close>

definition bare_lib :: manifest_lib where
  "bare_lib = \<lparr>ml_url = \<lparr>ul_parse = (\<lambda>_. None), ul_addr = (\<lambda>_. None)\<rparr>, ml_escaped = url_Path,
     ml_sha256 = (\<lambda>_. replicate 64 (CHR ''a''))\<rparr>"

definition empty_fs :: file_system where
  "empty_fs = \<lparr>fs_lstat = (\<lambda>p. if p = ''/w'' then Present else NotExist), fs_eval = Some\<rparr>"

definition empty_manifest :: Manifest where
  "empty_manifest = \<lparr>man_SchemaVersion = 7, man_Workspace = \<lparr>ws_Name = ''w'', ws_ID = replicate 64 (CHR ''a''), ws_Forge = [],
     ws_ForgeRepository = [], ws_ForgeHost = []\<rparr>, man_BlobStore = local_blob_store, man_Keys = [], man_Repositories = []\<rparr>"

definition raw_options :: "gostring \<Rightarrow> gostring \<Rightarrow> SetupOptions" where
  "raw_options track output = \<lparr>so_Name = ''tools'', so_Format = ''raw'', so_Output = output, so_HostType = [], so_Gate = [],
     so_ApprovalKeys = [], so_SigningKeys = [], so_AllowUnsigned = False, so_Keep = 0, so_Track = track, so_Visibility = [],
     so_Target = [], so_Bucket = [], so_Prefix = [], so_Region = [], so_Endpoint = [], so_CanonicalEndpoint = [],
     so_UsePathStyle = False, so_ReadAuth = [], so_CredentialBroker = [], so_Repository = [], so_Branch = [],
     so_PreviewRepository = [], so_PreviewBranch = [], so_PreviewEndpoint = [], so_Suite = [], so_Component = [],
     so_Architectures = []\<rparr>"

text \<open>A codec that knows two manifests, the empty one and the one after a setup.\<close>

definition tools_set_up :: Manifest where
  "tools_set_up = empty_manifest\<lparr>man_Repositories := [(''tools'', setup_repository (raw_options [] ''out''))]\<rparr>"

definition bare_codec :: manifest_codec where
  "bare_codec = \<lparr>mc_marshal = (\<lambda>m. if m = empty_manifest then Some ''before'' else if m = tools_set_up then Some ''after'' else None),
     mc_header = (\<lambda>_. Some 7), mc_legacy = (\<lambda>_. None),
     mc_manifest = (\<lambda>encoded. if encoded = ''before'' then Some empty_manifest else if encoded = ''after'' then Some tools_set_up else None)\<rparr>"

lemma bare_codec_law: "codec_law bare_codec"
  by (auto simp: codec_law_def reads_back_def bare_codec_def tools_set_up_def empty_manifest_def split: if_splits)

definition bare_files :: workspace_files where
  "bare_files = \<lparr>wf_manifest = Some ''before'', wf_locks = [], wf_documents = []\<rparr>"

definition all_written :: setup_io where
  "all_written = \<lparr>sio_lock = Written, sio_document = Written, sio_manifest = Written\<rparr>"

lemma bare_loads: "LoadManifest empty_fs bare_codec bare_lib ''/w'' (Some ''before'') = Inr empty_manifest"
  by code_simp

theorem loaded_manifest_round_trip_witness:
  "WriteManifest empty_fs bare_codec bare_lib Written ''/w'' empty_manifest (Some ''before'') = (Some ''before'', None) \<and>
   LoadManifest empty_fs bare_codec bare_lib ''/w'' (Some ''before'') = Inr empty_manifest"
  by (rule loaded_manifest_round_trip [OF bare_loads _ bare_codec_law]) (simp add: bare_codec_def)

theorem setup_configures_repository_witness:
  "\<exists>m'. LoadManifest empty_fs bare_codec bare_lib ''/w''
      (wf_manifest (fst (Setup empty_fs bare_codec bare_lib all_written ''/w'' (raw_options [] ''out'') bare_files))) = Inr m' \<and>
    map_of (man_Repositories m') = (map_of (man_Repositories empty_manifest))(''tools'' \<mapsto> setup_repository (raw_options [] ''out''))"
proof -
  let ?run = "Setup empty_fs bare_codec bare_lib all_written ''/w'' (raw_options [] ''out'') bare_files"
  have "snd ?run = None" by code_simp
  then have run: "?run = (fst ?run, None)" by (metis prod.collapse)
  have "LoadManifest empty_fs bare_codec bare_lib ''/w'' (wf_manifest bare_files) = Inr empty_manifest"
    using bare_loads by (simp add: bare_files_def)
  from setup_configures_repository [OF run this bare_codec_law] show ?thesis by (auto simp: raw_options_def)
qed

text \<open>
  A failed setup can leave a lock behind. The track of a new repository is checked by the writer of
  the manifest, after the lock file was created. With a track that is not a placement coordinate the
  command reports an error and the manifest is not written, but the lock file of the repository exists
  from then on, and setting the repository up again refuses to overwrite it.
\<close>

theorem setup_bad_track_leaves_lock:
  "let (files, err) = Setup empty_fs bare_codec bare_lib all_written ''/w'' (raw_options ''bad track'' ''out'') bare_files;
       fs' = empty_fs\<lparr>fs_lstat := \<lambda>p. if p = ''/w'' \<or> p = ''/w/repos'' \<or> p = ''/w/repos/tools.lock.toml'' then Present else NotExist\<rparr>
   in err = Some (Refused ''NameOrGate'' [''tools'']) \<and> wf_manifest files = Some ''before'' \<and>
      map_of (wf_locks files) ''repos/tools.lock.toml'' = Some (empty_lock ''tools'') \<and>
      Setup fs' bare_codec bare_lib all_written ''/w'' (raw_options [] ''out'') files
        = (files, Some (Refused ''LockExists'' [''repos/tools.lock.toml'']))"
  by code_simp

subsection \<open>Publication targets do not collide\<close>

lemma targetsOverlap_sym: "targetsOverlap a b = targetsOverlap b a"
  by (auto simp: targetsOverlap_def)

definition disjoint_targets :: "Manifest \<Rightarrow> bool" where
  "disjoint_targets m \<longleftrightarrow> (\<forall>n1 r1 n2 r2. map_of (man_Repositories m) n1 = Some r1 \<longrightarrow> map_of (man_Repositories m) n2 = Some r2 \<longrightarrow>
     n1 \<noteq> n2 \<longrightarrow> (\<forall>t \<in> set (publicationTargets r1). \<forall>u \<in> set (publicationTargets r2). \<not> targetsOverlap t u))"

lemma checkPublicationTargets_None:
  assumes "checkPublicationTargets m name candidate = None" and "map_of (man_Repositories m) n = Some r" and "n \<noteq> name"
    and "t \<in> set (publicationTargets candidate)" and "u \<in> set (publicationTargets r)"
  shows "\<not> targetsOverlap t u"
proof -
  have "n \<in> set (RepositoryNames m)" using assms(2) by (auto simp: RepositoryNames_def dest: map_of_SomeD intro: rev_image_eqI)
  then show ?thesis using assms by (auto simp: checkPublicationTargets_def first_error_None list_ex_iff split: if_splits)
qed

text \<open>
  Repositories keep their own place to publish to. If no two repositories of a workspace have
  overlapping targets, the preview targets of GitHub Pages included, then after a successful setup still
  no two of them have, the new one included.
\<close>

theorem setup_keeps_targets_disjoint:
  assumes "Setup fs codec lib io root options files = (files', None)" and "LoadManifest fs codec lib root (wf_manifest files) = Inr manifest"
    and "codec_law codec" and "disjoint_targets manifest" and "LoadManifest fs codec lib root (wf_manifest files') = Inr m'"
  shows "disjoint_targets m'"
proof -
  have m: "setup_checks fs lib root options manifest = None"
    and repos: "man_Repositories m' = man_Repositories manifest @ [(so_Name options, setup_repository options)]"
    using Setup_loads [OF assms(1-3)] assms(5) by (metis sum.inject(2))+
  have "checkPublicationTargets manifest (so_Name options) (setup_base options) = None"
    using m by (auto simp: setup_checks_def Let_def split: sum.splits if_splits option.splits)
  then have "checkPublicationTargets manifest (so_Name options) (setup_repository options) = None"
    unfolding checkPublicationTargets_def setup_targets .
  note free = checkPublicationTargets_None [OF this]
  have old: "map_of (man_Repositories manifest) n = Some r \<or> n = so_Name options \<and> r = setup_repository options"
    if "map_of (man_Repositories m') n = Some r" for n r
    using that repos by (auto simp: map_add_def split: option.splits if_splits)
  show ?thesis unfolding disjoint_targets_def
  proof (intro allI impI ballI)
    fix n1 r1 n2 r2 t u
    assume a: "map_of (man_Repositories m') n1 = Some r1" "map_of (man_Repositories m') n2 = Some r2" "n1 \<noteq> n2"
      "t \<in> set (publicationTargets r1)" "u \<in> set (publicationTargets r2)"
    show "\<not> targetsOverlap t u"
      using old [OF a(1)] old [OF a(2)] a(3-5) assms(4) free targetsOverlap_sym [of t u]
      unfolding disjoint_targets_def by metis
  qed
qed

theorem setup_keeps_targets_disjoint_witness:
  "\<exists>m'. LoadManifest empty_fs bare_codec bare_lib ''/w''
      (wf_manifest (fst (Setup empty_fs bare_codec bare_lib all_written ''/w'' (raw_options [] ''out'') bare_files))) = Inr m' \<and> disjoint_targets m'"
proof -
  let ?run = "Setup empty_fs bare_codec bare_lib all_written ''/w'' (raw_options [] ''out'') bare_files"
  have "snd ?run = None" by code_simp
  then have run: "?run = (fst ?run, None)" by (metis prod.collapse)
  have load: "LoadManifest empty_fs bare_codec bare_lib ''/w'' (wf_manifest bare_files) = Inr empty_manifest"
    using bare_loads by (simp add: bare_files_def)
  obtain m' where "LoadManifest empty_fs bare_codec bare_lib ''/w'' (wf_manifest (fst ?run)) = Inr m'"
    by (rule Setup_loads [OF run load bare_codec_law]) (rule that)
  moreover have "disjoint_targets empty_manifest" by (simp add: disjoint_targets_def empty_manifest_def)
  ultimately show ?thesis using setup_keeps_targets_disjoint [OF run load bare_codec_law] by blast
qed

text \<open>A joined path is below another one when its elements continue the other's.\<close>

lemma join_below:
  assumes "xs \<noteq> []" "ys \<noteq> []" "list_all plain_element xs" "list_all plain_element ys"
  shows "has_prefix (join_with ''/'' ys) (join_with ''/'' xs @ ''/'') \<longleftrightarrow> (\<exists>zs. zs \<noteq> [] \<and> ys = xs @ zs)"
proof
  have no_slash: "list_all (\<lambda>e. CHR ''/'' \<notin> set e) xs" "list_all (\<lambda>e. CHR ''/'' \<notin> set e) ys"
    using assms(3,4) by (auto simp: list_all_iff plain_element_def)
  assume "has_prefix (join_with ''/'' ys) (join_with ''/'' xs @ ''/'')"
  then obtain t where "join_with ''/'' ys = join_with ''/'' xs @ CHR ''/'' # t" by (auto simp: has_prefix_iff)
  then have "ys = xs @ split_on (CHR ''/'') t"
    using split_on_append [of "CHR ''/''" "join_with ''/'' xs" t] split_on_join [OF assms(1) no_slash(1)]
      split_on_join [OF assms(2) no_slash(2)] by metis
  then show "\<exists>zs. zs \<noteq> [] \<and> ys = xs @ zs" by auto
next
  assume "\<exists>zs. zs \<noteq> [] \<and> ys = xs @ zs"
  then obtain zs where zs: "zs \<noteq> []" "ys = xs @ zs" by blast
  have "join_with ''/'' (xs @ zs) = join_with ''/'' xs @ ''/'' @ join_with ''/'' zs" using assms(1) zs(1)
    by (induction xs) (auto simp: join_with_Cons)
  then show "has_prefix (join_with ''/'' ys) (join_with ''/'' xs @ ''/'')" using zs(2) by simp
qed

text \<open>
  The overlap of two local repositories is the nesting of their directories. On accepted local paths
  the test on the printed targets says that two repositories overlap exactly when the elements of one
  cleaned path begin with the elements of the other: the same directory, or one inside the other. A
  directory whose name merely starts with the other's name does not count.
\<close>

theorem local_overlap_is_nesting:
  assumes "validateRelativePath p = None" and "validateRelativePath q = None"
  shows "targetsOverlap (''directory '' @ path_clean p) (''directory '' @ path_clean q) \<longleftrightarrow>
    (\<exists>zs. path_elements q = path_elements p @ zs) \<or> (\<exists>zs. path_elements p = path_elements q @ zs)"
proof -
  note p = validateRelativePath_elements [OF assms(1)] and q = validateRelativePath_elements [OF assms(2)]
  have clean: "path_clean p = join_with ''/'' (path_elements p)" "path_clean q = join_with ''/'' (path_elements q)"
    using p(1,2) q(1,2) by (simp_all add: path_clean_def)
  have no_slash: "list_all (\<lambda>e. CHR ''/'' \<notin> set e) (path_elements p)" "list_all (\<lambda>e. CHR ''/'' \<notin> set e) (path_elements q)"
    using p(3) q(3) by (auto simp: list_all_iff plain_element_def)
  have "path_clean p = path_clean q \<longleftrightarrow> path_elements p = path_elements q"
    using split_on_join [OF p(2) no_slash(1)] split_on_join [OF q(2) no_slash(2)] clean by metis
  then show ?thesis
    using join_below [OF p(2) q(2) p(3) q(3)] join_below [OF q(2) p(2) q(3) p(3)] clean
    by (auto simp: targetsOverlap_def)
qed

theorem local_overlap_is_nesting_witness:
  "targetsOverlap (''directory '' @ path_clean ''out/./apt'') (''directory '' @ path_clean ''out'') \<and>
   \<not> targetsOverlap (''directory '' @ path_clean ''output'') (''directory '' @ path_clean ''out'')"
proof -
  have v: "validateRelativePath ''out/./apt'' = None" "validateRelativePath ''out'' = None" "validateRelativePath ''output'' = None"
    by code_simp+
  have e: "path_elements ''out/./apt'' = [''out'', ''apt'']" "path_elements ''out'' = [''out'']" "path_elements ''output'' = [''output'']"
    by code_simp+
  show ?thesis using local_overlap_is_nesting [OF v(1,2)] local_overlap_is_nesting [OF v(3,2)] e by simp
qed

definition bucket_repository :: "gostring \<Rightarrow> Repository" where
  "bucket_repository pre = zero_repository\<lparr>repo_Format := ''pypi'',
     repo_Host := zero_host\<lparr>host_Type := ''s3'', host_Bucket := ''b'', host_Prefix := pre\<rparr>\<rparr>"

text \<open>
  Two object-store repositories in one bucket can overlap unnoticed. A repository with an empty prefix
  owns the whole bucket, but its target ends in the slash before the prefix, so it is not found to
  contain the target of a repository under a prefix in the same bucket.
\<close>

theorem bucket_root_overlap_missed:
  "checkPublicationTargets (empty_manifest\<lparr>man_Repositories := [(''whole'', bucket_repository [])]\<rparr>) ''part'' (bucket_repository ''apt'') = None
   \<and> checkPublicationTargets (empty_manifest\<lparr>man_Repositories := [(''whole'', bucket_repository ''apt'')]\<rparr>) ''part'' (bucket_repository ''apt/x'') \<noteq> None"
  by code_simp

end
