(* ===== verification/Effects.thy ===== *)
theory Effects
  imports Prelude
begin

section \<open>Effectful code with errors\<close>

text \<open>
  Code that calls out of the program and may return early with an error: a function from a state to the
  state it leaves and either an error or a value. An error keeps the state reached so far, as an early
  return of the Go code does. \<open>runs\<close> at the end says what holds of the state that
  a piece of code leaves, separately for a normal return and for an error; its rules take the code apart.
\<close>

subsection \<open>Results\<close>

text \<open>Pure code with early returns, for functions with a long sequence of them.\<close>

definition andR :: "'e + 'a \<Rightarrow> ('a \<Rightarrow> 'e + 'b) \<Rightarrow> 'e + 'b" where
  "andR m f = (case m of Inl e \<Rightarrow> Inl e | Inr a \<Rightarrow> f a)"

definition requireR :: "bool \<Rightarrow> 'e \<Rightarrow> 'e + unit" where
  "requireR b e = (if b then Inr () else Inl e)"

definition noError :: "('x \<Rightarrow> 'e) \<Rightarrow> 'x option \<Rightarrow> 'e + unit" where
  "noError f err = (case err of None \<Rightarrow> Inr () | Some x \<Rightarrow> Inl (f x))"

definition someR :: "'a option \<Rightarrow> 'e \<Rightarrow> 'e + 'a" where
  "someR v e = (case v of None \<Rightarrow> Inl e | Some a \<Rightarrow> Inr a)"

lemma andR_Inr [simp]: "andR m f = Inr b \<longleftrightarrow> (\<exists>a. m = Inr a \<and> f a = Inr b)"
  by (cases m) (simp_all add: andR_def)

lemma andR_simps [simp]: "andR (Inr a) f = f a" "andR (Inl e) f = Inl e"
  by (simp_all add: andR_def)

lemma requireR_Inr [simp]: "requireR b e = Inr u \<longleftrightarrow> b"
  by (simp add: requireR_def)

lemma noError_None [simp]: "noError f None = Inr ()" and requireR_True [simp]: "requireR True e = Inr ()"
    and someR_Some [simp]: "someR (Some a) e = Inr a"
  by (simp_all add: noError_def requireR_def someR_def)

lemma noError_Inr [simp]: "noError f err = Inr u \<longleftrightarrow> err = None"
  by (cases err) (simp_all add: noError_def)

lemma someR_Inr [simp]: "someR v e = Inr a \<longleftrightarrow> v = Some a"
  by (cases v) (simp_all add: someR_def)

subsection \<open>State and errors\<close>

type_synonym ('s, 'e, 'a) eff = "'s \<Rightarrow> 's \<times> ('e + 'a)"

definition ok :: "'a \<Rightarrow> ('s, 'e, 'a) eff" where
  "ok a = (\<lambda>s. (s, Inr a))"

definition fail :: "'e \<Rightarrow> ('s, 'e, 'a) eff" where
  "fail e = (\<lambda>s. (s, Inl e))"

definition andThen :: "('s, 'e, 'a) eff \<Rightarrow> ('a \<Rightarrow> ('s, 'e, 'b) eff) \<Rightarrow> ('s, 'e, 'b) eff" where
  "andThen m f = (\<lambda>s. case m s of (s', Inl e) \<Rightarrow> (s', Inl e) | (s', Inr a) \<Rightarrow> f a s')"

definition guard :: "bool \<Rightarrow> 'e \<Rightarrow> ('s, 'e, unit) eff" where
  "guard b e = (if b then ok () else fail e)"

definition update :: "('s \<Rightarrow> 's) \<Rightarrow> ('s, 'e, unit) eff" where
  "update f = (\<lambda>s. (f s, Inr ()))"

definition gets :: "('s \<Rightarrow> 'a) \<Rightarrow> ('s, 'e, 'a) eff" where
  "gets f = (\<lambda>s. (s, Inr (f s)))"

text \<open>The error as a value, for code that handles it.\<close>

definition attempt :: "('s, 'e, 'a) eff \<Rightarrow> ('s, 'f, 'e + 'a) eff" where
  "attempt m = (\<lambda>s. case m s of (s', r) \<Rightarrow> (s', Inr r))"

text \<open>A deferred call, which runs however the code before it ends; its own outcome is dropped.\<close>

definition deferred :: "('s, 'e, 'a) eff \<Rightarrow> ('s, 'f, unit) eff \<Rightarrow> ('s, 'e, 'a) eff" where
  "deferred m cleanup = (\<lambda>s. case m s of (s', r) \<Rightarrow> (fst (cleanup s'), r))"

primrec each :: "('x \<Rightarrow> ('s, 'e, unit) eff) \<Rightarrow> 'x list \<Rightarrow> ('s, 'e, unit) eff" where
  "each f [] = ok ()"
| "each f (x # xs) = andThen (f x) (\<lambda>_. each f xs)"

subsection \<open>What code leaves\<close>

definition runs :: "('s, 'e, 'a) eff \<Rightarrow> 's \<Rightarrow> ('a \<Rightarrow> 's \<Rightarrow> bool) \<Rightarrow> ('s \<Rightarrow> bool) \<Rightarrow> bool" where
  "runs m s Q E \<longleftrightarrow> (case m s of (s', Inr a) \<Rightarrow> Q a s' | (s', Inl e) \<Rightarrow> E s')"

lemma runs_ok_value: "runs m s Q E \<Longrightarrow> m s = (s', Inr a) \<Longrightarrow> Q a s'"
  by (simp add: runs_def)

lemma runs_error_value: "runs m s Q E \<Longrightarrow> m s = (s', Inl e) \<Longrightarrow> E s'"
  by (simp add: runs_def)

lemma runs_conseq: "runs m s Q E \<Longrightarrow> (\<And>a s. Q a s \<Longrightarrow> Q' a s) \<Longrightarrow> (\<And>s. E s \<Longrightarrow> E' s) \<Longrightarrow> runs m s Q' E'"
  by (auto simp: runs_def split: prod.splits sum.splits)

lemma runs_ok [simp]: "runs (ok a) s Q E \<longleftrightarrow> Q a s"
  by (simp add: runs_def ok_def)

lemma runs_fail [simp]: "runs (fail e) s Q E \<longleftrightarrow> E s"
  by (simp add: runs_def fail_def)

lemma runs_update [simp]: "runs (update f) s Q E \<longleftrightarrow> Q () (f s)"
  by (simp add: runs_def update_def)

lemma runs_gets [simp]: "runs (gets f) s Q E \<longleftrightarrow> Q (f s) s"
  by (simp add: runs_def gets_def)

lemma runs_guard [simp]: "runs (guard b e) s Q E \<longleftrightarrow> (if b then Q () s else E s)"
  by (simp add: guard_def)

lemma runs_andThen [simp]: "runs (andThen m f) s Q E \<longleftrightarrow> runs m s (\<lambda>a s'. runs (f a) s' Q E) E"
  by (simp add: runs_def andThen_def split: prod.split sum.split)

lemma runs_attempt [simp]: "runs (attempt m) s Q E \<longleftrightarrow> runs m s (\<lambda>a. Q (Inr a)) (\<lambda>s'. Q (Inl (projl (snd (m s)))) s')"
  by (simp add: runs_def attempt_def split: prod.split sum.split)

lemma runs_deferred [simp]:
  "runs (deferred m cleanup) s Q E \<longleftrightarrow>
     runs m s (\<lambda>a s'. runs cleanup s' (\<lambda>_. Q a) (Q a)) (\<lambda>s'. runs cleanup s' (\<lambda>_. E) E)"
proof -
  obtain s' r where m: "m s = (s', r)" by fastforce
  obtain s'' r' where "cleanup s' = (s'', r')" by fastforce
  then show ?thesis using m by (cases r; cases r') (simp_all add: runs_def deferred_def)
qed

text \<open>The same as rules, one for each way code is put together.\<close>

lemma runs_then: "runs m w (\<lambda>a w'. runs (f a) w' Q E) E \<Longrightarrow> runs (andThen m f) w Q E"
  by simp

lemma runs_guard_rule: "(b \<Longrightarrow> Q () w) \<Longrightarrow> E w \<Longrightarrow> runs (guard b e) w Q E"
  by simp

lemma runs_pair_rule: "(\<And>a b. runs (f a b) w Q E) \<Longrightarrow> runs (case p of (a, b) \<Rightarrow> f a b) w Q E"
  by (cases p) simp

lemma runs_sum_rule: "(\<And>e. runs (h e) w Q E) \<Longrightarrow> (\<And>a. runs (f a) w Q E) \<Longrightarrow> runs (case r of Inl e \<Rightarrow> h e | Inr a \<Rightarrow> f a) w Q E"
  by (cases r) simp_all

lemma runs_option_rule: "(v = None \<Longrightarrow> runs m w Q E) \<Longrightarrow> (\<And>a. v = Some a \<Longrightarrow> runs (f a) w Q E) \<Longrightarrow> runs (case v of None \<Rightarrow> m | Some a \<Rightarrow> f a) w Q E"
  by (cases v) simp_all

lemma runs_if_rule: "(b \<Longrightarrow> runs m w Q E) \<Longrightarrow> (\<not> b \<Longrightarrow> runs m' w Q E) \<Longrightarrow> runs (if b then m else m') w Q E"
  by simp

lemma runs_ok_rule: "Q a w \<Longrightarrow> runs (ok a) w Q E" and runs_fail_rule: "E w \<Longrightarrow> runs (fail e) w Q' E"
  by simp_all

lemmas runs_parts = runs_then runs_guard_rule runs_pair_rule runs_sum_rule runs_option_rule runs_if_rule runs_ok_rule runs_fail_rule

text \<open>A loop whose invariant speaks of the elements done so far.\<close>

lemma runs_each_done:
  assumes "I [] s"
    and "\<And>done x rest s. xs = done @ x # rest \<Longrightarrow> I done s \<Longrightarrow> runs (f x) s (\<lambda>_. I (done @ [x])) E"
  shows "runs (each f xs) s (\<lambda>_. I xs) E"
proof -
  have "runs (each f rest) s (\<lambda>_. I xs) E" if "xs = done @ rest" "I done s" for "done" rest s
    using that
  proof (induction rest arbitrary: "done" s)
    case (Cons x rest)
    have "runs (f x) s (\<lambda>_. I (done @ [x])) E" using assms(2) Cons.prems by simp
    then show ?case using Cons.IH [of "done @ [x]"] Cons.prems by (auto elim: runs_conseq)
  qed simp
  from this [of "[]" xs s] show ?thesis using assms(1) by simp
qed

lemma runs_each:
  "I s \<Longrightarrow> (\<And>x s. x \<in> set xs \<Longrightarrow> I s \<Longrightarrow> runs (f x) s (\<lambda>_. I) E) \<Longrightarrow> runs (each f xs) s (\<lambda>_. I) E"
  by (rule runs_each_done [where I = "\<lambda>_. I"]) auto

end
