(* ===== verification/Plan_Repository.thy ===== *)
theory Plan_Repository
  imports Signing_Shape Rotation Manifest_Store Effects
begin

section \<open>Planning one repository\<close>

text \<open>
  \<^verbatim>\<open>planRepository\<close> of \<^verbatim>\<open>engine/workspace.go\<close> and its helpers: what a plan records of a repository's
  configuration, its desired tree, and what its host serves. Everything the function reads is in a
  \<open>repository_view\<close>: the lock, the ledger and the receipt on disk, the digests of files, the answers of
  the host, and the outcome of building the tree, which depends on the signatures a plan already holds.
  An entry on the left is the read's error. The digests over JSON encodings are arguments. The acquisitions
  the function reports beside the planned repository are those in it, under the repository's name.
\<close>

datatype plan_error = ReadFailed gostring | PlanLock lock_error | PlanLedger ledger_error | PlanRotation rotation_error
  | PlanSigning signing_error | PlanExpiresAfterKey | CannotPublishConditionally | NoSuchRepository gostring
  | Stale gostring | Inconsistent gostring

record BuildResult =
  br_Format :: gostring
  br_TreeSHA256 :: gostring
  br_ManifestSHA256 :: gostring
  br_Signing :: "PlanSigning list"

record repository_view =
  vw_lock :: "plan_error + RepositoryLock"
  vw_lock_path :: "plan_error + unit"
  vw_lock_digest :: "plan_error + gostring"
  vw_ledger :: "plan_error + PublicationRecord list"
  vw_deployment :: "plan_error + DeploymentRecord"
  vw_trust :: "plan_error + int"
  vw_install_document :: "plan_error + gostring"
  vw_capabilities :: "plan_error + Capabilities"
  vw_observed :: "plan_error + PublishedRevision"
  vw_build :: "PlanSigning list \<Rightarrow> plan_error + BuildResult"
  vw_structure :: "plan_error + unit"

record plan_lib =
  lib_manifest :: manifest_lib
  lib_time :: "gostring \<Rightarrow> int option"
  lib_identity :: "gostring \<Rightarrow> gostring \<Rightarrow> HostConfig \<Rightarrow> gostring"
  lib_recipe :: "PlanSigning \<Rightarrow> gostring"
  lib_blob :: "gostring \<Rightarrow> BlobStoreConfig \<Rightarrow> gostring"
  lib_knowledge :: gostring

subsection \<open>The repository as a host sees it\<close>

text \<open>The view of a format without the name, the endpoint and the key, which no commit path depends on.\<close>

definition formatRepository :: "Repository \<Rightarrow> FormatRepository" where
  "formatRepository repository = \<lparr>fr_Suite = repo_Suite repository, fr_Architectures = repo_Architectures repository,
     fr_Signed = (repo_SigningKeys repository \<noteq> [])\<rparr>"

definition repositoryCommitPaths :: "Repository \<Rightarrow> gostring list" where
  "repositoryCommitPaths repository = (case For (repo_Format repository) of Inl e \<Rightarrow> []
     | Inr selected \<Rightarrow> CommitPaths selected (formatRepository repository))"

definition repositoryHostIdentity :: "plan_lib \<Rightarrow> Repository \<Rightarrow> gostring" where
  "repositoryHostIdentity lib repository = lib_identity lib (repo_Format repository) (repo_Visibility repository) (repo_Host repository)"

definition toHostRepository :: "gostring \<Rightarrow> gostring \<Rightarrow> gostring \<Rightarrow> gostring \<Rightarrow> Repository \<Rightarrow> HostRepository" where
  "toHostRepository root workspaceID hostIdentity name repository =
     (let h = repo_Host repository in
      \<lparr>hr_Name = name, hr_WorkspaceID = workspaceID, hr_HostIdentity = hostIdentity, hr_Format = repo_Format repository,
       hr_CommitPaths = repositoryCommitPaths repository, hr_Type = host_Type h, hr_Visibility = repo_Visibility repository,
       hr_WorkspaceRoot = root, hr_Path = host_Path h, hr_Target = host_Target h, hr_Bucket = host_Bucket h,
       hr_Prefix = host_Prefix h, hr_Region = host_Region h, hr_Endpoint = host_Endpoint h,
       hr_CanonicalEndpoint = (if host_Type h = ''local'' then host_Path h else host_CanonicalEndpoint h),
       hr_UsePathStyle = host_UsePathStyle h, hr_ReadAuth = host_ReadAuth h, hr_CredentialBroker = host_CredentialBroker h,
       hr_RemoteRepository = host_Repository h, hr_Branch = host_Branch h, hr_PreviewRepository = host_PreviewRepository h,
       hr_PreviewBranch = host_PreviewBranch h, hr_PreviewEndpoint = host_PreviewEndpoint h\<rparr>)"

definition managed_remote :: "gostring \<Rightarrow> bool" where
  "managed_remote hostType \<longleftrightarrow> hostType = ''s3'' \<or> hostType = ''github-pages''"

subsection \<open>The plan\<close>

definition plan_trust :: "Repository \<Rightarrow> DeploymentRecord \<Rightarrow> repository_view \<Rightarrow> plan_error + int" where
  "plan_trust repository deployment view =
     (if repo_SigningRotation repository \<noteq> None \<or> dr_SigningRotationPhase deployment \<noteq> [] then vw_trust view else Inr 0)"

definition plan_action :: "Repository \<Rightarrow> PublishedRevision \<Rightarrow> gostring \<Rightarrow> gostring \<Rightarrow> bool \<Rightarrow> DeploymentRecord \<Rightarrow> deploymentSigningState \<Rightarrow> gostring" where
  "plan_action repository observed tree manifest records deployment signing =
     (if pub_TreeSHA256 observed \<noteq> tree \<or>
        (managed_remote (host_Type (repo_Host repository)) \<and> pub_ManifestSHA256 observed \<noteq> manifest) \<or> records \<or>
        \<not> deploymentMatchesDesired deployment observed tree manifest signing
      then (if pub_NativeRevision observed = [] then ''create'' else ''update'') else ''noop'')"

definition planned_repository :: "plan_lib \<Rightarrow> gostring \<Rightarrow> gostring \<Rightarrow> gostring \<Rightarrow> Repository \<Rightarrow> RepositoryLock \<Rightarrow> PublicationRecord list \<Rightarrow>
    DeploymentRecord \<Rightarrow> gostring \<Rightarrow> BuildResult \<Rightarrow> Capabilities \<Rightarrow> PublishedRevision \<Rightarrow> deploymentSigningState \<Rightarrow> gostring \<Rightarrow> PlanRepository" where
  "planned_repository lib root workspaceID name repository lock ledger deployment lockDigest desired capabilities observed signing installDoc =
     (let identity = repositoryHostIdentity lib repository;
          visible = visiblePackageVersions lock repository;
          bindings = (if missingPublicationBindings lock repository ledger \<noteq> [] then publicationBindingsForVersions visible else []) in
      \<lparr>plr_Name = name, plr_Gate = repo_Gate repository, plr_ApprovalKeys = repo_ApprovalKeys repository,
       plr_Format = repo_Format repository, plr_LockSHA256 = lockDigest, plr_Host = repo_Host repository,
       plr_Visibility = repo_Visibility repository, plr_HostIdentitySHA256 = identity,
       plr_CanonicalEndpoint = hr_CanonicalEndpoint (toHostRepository root workspaceID identity name repository),
       plr_InstallDocSHA256 = installDoc, plr_ObservedRevision = pub_NativeRevision observed,
       plr_ObservedPlanID = pub_PlanID observed, plr_ObservedChangeID = pub_ChangeID observed,
       plr_ObservedReleaseSHA256 = pub_ReleaseSHA256 observed, plr_ObservedManifestSHA256 = pub_ManifestSHA256 observed,
       plr_ObservedRestoreID = pub_RestoreID observed, plr_ObservedRestoreSHA256 = pub_RestoreSHA256 observed,
       plr_ObservedRestoreRootSHA256 = pub_RestoreRootSHA256 observed, plr_ObservedDeployment = deployment,
       plr_FaithfulPreview = cap_FaithfulPreview capabilities, plr_ConditionalCommit = cap_ConditionalCommit capabilities,
       plr_ConditionalRestore = cap_ConditionalRestore capabilities, plr_PrivateRead = cap_PrivateRead capabilities,
       plr_CredentialBrokerIdentity = cap_CredentialBrokerIdentity capabilities, plr_Signing = br_Signing desired,
       plr_PublicationRecords = (bindings \<noteq> []), plr_PublicationBindings = bindings,
       plr_Acquisitions = planAcquisitionsForVersions visible, plr_ObservedTreeSHA256 = pub_TreeSHA256 observed,
       plr_DesiredTreeSHA256 = br_TreeSHA256 desired, plr_DesiredManifestSHA256 = br_ManifestSHA256 desired,
       plr_ChangeID = name @ '':'' @ take 12 (br_TreeSHA256 desired),
       plr_Action = plan_action repository observed (br_TreeSHA256 desired) (br_ManifestSHA256 desired) (bindings \<noteq> []) deployment signing\<rparr>)"

text \<open>The expiry of the signing key: the time of the key is read even when the signing state has an error.\<close>

definition plan_outlives_key :: "plan_lib \<Rightarrow> Manifest \<Rightarrow> Repository \<Rightarrow> int \<Rightarrow> bool" where
  "plan_outlives_key lib manifest repository expiresAt =
     (case repositorySigningState repository of Inl e \<Rightarrow> True
      | Inr (activeKey, trustedKeys, phase, minimumRefresh) \<Rightarrow>
        (case map_of (man_Keys manifest) activeKey of None \<Rightarrow> True
         | Some key \<Rightarrow> (case lib_time lib (key_ExpiresAt key) of None \<Rightarrow> True | Some keyExpiresAt \<Rightarrow> keyExpiresAt < expiresAt)))"

definition planRepository :: "plan_lib \<Rightarrow> gostring \<Rightarrow> Manifest \<Rightarrow> int \<Rightarrow> int \<Rightarrow> repository_view \<Rightarrow> gostring \<Rightarrow> plan_error + PlanRepository" where
  "planRepository lib root manifest createdAt expiresIn view name =
     andR (someR (map_of (man_Repositories manifest) name) (NoSuchRepository name)) (\<lambda>repository.
     andR (vw_lock view) (\<lambda>lock.
     andR (noError PlanLock (ValidateLock (ml_url (lib_manifest lib)) lock name (repo_Format repository))) (\<lambda>_.
     andR (vw_ledger view) (\<lambda>ledger.
     andR (noError PlanLedger (ValidatePublishedBindings lock ledger)) (\<lambda>_.
     andR (noError PlanRotation (validateRotationKeyValidity (lib_time lib) repository (man_Keys manifest) createdAt)) (\<lambda>_.
     andR (vw_deployment view) (\<lambda>deployment.
     andR (vw_lock_path view) (\<lambda>_.
     andR (vw_lock_digest view) (\<lambda>lockDigest.
     andR (vw_build view []) (\<lambda>desired.
     andR (requireR (\<not> (br_Signing desired \<noteq> [] \<and> plan_outlives_key lib manifest repository (createdAt + expiresIn))) PlanExpiresAfterKey) (\<lambda>_.
     andR (vw_capabilities view) (\<lambda>capabilities.
     andR (requireR (\<not> (\<not> cap_FaithfulPreview capabilities \<or> \<not> cap_ConditionalCommit capabilities \<or>
        (repo_Visibility repository = ''private'' \<and> \<not> cap_PrivateRead capabilities))) CannotPublishConditionally) (\<lambda>_.
     andR (vw_observed view) (\<lambda>observed.
     andR (plan_trust repository deployment view) (\<lambda>trustNotBefore.
     andR (noError PlanRotation (validateRepositorySigningTransition (lib_time lib) repository (man_Keys manifest) deployment
        observed createdAt trustNotBefore)) (\<lambda>_.
     andR (case repositoryDeploymentSigningState repository (man_Keys manifest) of Inl e \<Rightarrow> Inl (PlanRotation e) | Inr s \<Rightarrow> Inr s) (\<lambda>signing.
     andR (vw_install_document view) (\<lambda>installDoc.
     Inr (planned_repository lib root (ws_ID (man_Workspace manifest)) name repository lock ledger deployment lockDigest desired
       capabilities observed signing installDoc)))))))))))))))))))"

end
