(* ===== verification/Apply_Checks.thy ===== *)
theory Apply_Checks
  imports Plan_Repository
begin

section \<open>Checking a plan against the workspace\<close>

text \<open>
  The checks an apply makes before it changes anything (\<^verbatim>\<open>engine/workspace.go\<close>): \<^verbatim>\<open>validateApplyPlan\<close> on
  the plan alone, and \<^verbatim>\<open>prepareRepository\<close> on one planned repository against the workspace, the host
  and the rebuilt tree. \<^verbatim>\<open>reflect.DeepEqual\<close> tells a nil slice from an empty one. The lists compared here are
  nil when they are empty, with one exception: the approval keys a manifest spells out as an empty array
  are an empty slice, while a plan has nil for them. \<open>prep_emptyKeys\<close> names the repositories of such a manifest.
\<close>

subsection \<open>The plan alone\<close>

fun binding_digests :: "gostring \<Rightarrow> gostring list \<Rightarrow> bool" where
  "binding_digests previous [] = True"
| "binding_digests previous (d # ds) = (ValidSHA256 d \<and> \<not> d \<le> previous \<and> binding_digests d ds)"

fun bindings_valid :: "gostring \<Rightarrow> PlanPublicationBinding list \<Rightarrow> plan_error option" where
  "bindings_valid previous [] = None"
| "bindings_valid previous (b # bs) =
     (let identity = bind_Package b @ nul @ bind_Version b in
      if bind_Package b = [] \<or> bind_Version b = [] \<or> bind_BlobSHA256 b = [] then Some (Inconsistent ''binding'')
      else if identity \<le> previous then Some (Inconsistent ''unsorted bindings'')
      else if \<not> binding_digests [] (bind_BlobSHA256 b) then Some (Inconsistent ''binding digests'')
      else bindings_valid identity bs)"

fun acquisitions_valid :: "url_lib \<Rightarrow> gostring \<Rightarrow> PlanAcquisition list \<Rightarrow> bool" where
  "acquisitions_valid lib previous [] = True"
| "acquisitions_valid lib previous (a # rest) =
     (let identity = acq_Package a @ nul @ acq_Version a @ nul @ acq_Filename a @ nul @ acq_SHA256 a in
      \<not> (acq_Package a = [] \<or> acq_Version a = [] \<or> acq_Filename a = [] \<or> \<not> ValidSHA256 (acq_SHA256 a) \<or> identity \<le> previous \<or>
         ValidateArtifactOrigin lib \<lparr>origin_Kind = ''https'', origin_URL = acq_OriginURL a, origin_Provenance = []\<rparr> \<noteq> None) \<and>
      acquisitions_valid lib identity rest)"

definition formatSupportsSigning :: "gostring \<Rightarrow> bool" where
  "formatSupportsSigning name = (case For name of Inl e \<Rightarrow> False | Inr selected \<Rightarrow> ImplementsSigning selected)"

definition signing_metadata_valid :: "plan_lib \<Rightarrow> gostring \<Rightarrow> PlanSigning \<Rightarrow> plan_error + unit" where
  "signing_metadata_valid lib format signing =
     andR (requireR (formatSupportsSigning format \<and> ps_KeyName signing \<noteq> [] \<and>
        (ps_Algorithm signing = ''openpgp-rsa4096'' \<or> ps_Algorithm signing = ''apk-rsa4096'') \<and>
        ValidFingerprint (ps_Fingerprint signing) \<and> ValidSHA256 (ps_PublicKeySHA256 signing) \<and>
        ValidSHA256 (ps_PublicArmorSHA256 signing) \<and> ValidSHA256 (ps_RecipeSHA256 signing) \<and>
        ps_PublicKeyPath signing \<noteq> [] \<and> ps_PublicArmorPath signing \<noteq> [] \<and>
        ps_Nodes signing \<noteq> [] \<and> length (ps_Nodes signing) \<le> maxSigningNodes) (Inconsistent ''signing metadata'')) (\<lambda>_.
     andR (requireR (lib_time lib (ps_SignatureTime signing) \<noteq> None) (Inconsistent ''signature time'')) (\<lambda>_.
     andR (noError PlanSigning (validateSigningRecipeMetadata (lib_recipe lib) signing None)) (\<lambda>_.
     requireR (list_all (\<lambda>n. ValidSHA256 (node_PayloadSHA256 n) \<and> ValidSHA256 (node_ContentSHA256 n) \<and>
        node_Content n \<noteq> [] \<and> int (length (node_Content n)) \<le> 8 * 2 ^ 20) (ps_Nodes signing)) (Inconsistent ''signing response''))))"

text \<open>What the plan says it observed on an object store.\<close>

definition observation_valid :: "PlanRepository \<Rightarrow> bool" where
  "observation_valid p =
     (if host_Type (plr_Host p) \<noteq> ''s3'' then True
      else if plr_ObservedTreeSHA256 p = [] then
        plr_ObservedPlanID p = [] \<and> plr_ObservedChangeID p = [] \<and> plr_ObservedReleaseSHA256 p = [] \<and>
        plr_ObservedManifestSHA256 p = [] \<and> plr_ObservedRestoreID p = [] \<and> plr_ObservedRestoreSHA256 p = [] \<and>
        plr_ObservedRestoreRootSHA256 p = []
      else \<not> (plr_ObservedRevision p = [] \<or> \<not> ValidSHA256 (plr_ObservedPlanID p) \<or>
        plr_ObservedChangeID p \<noteq> plr_Name p @ '':'' @ take 12 (plr_ObservedTreeSHA256 p) \<or>
        \<not> ValidSHA256 (plr_ObservedReleaseSHA256 p) \<or> \<not> ValidSHA256 (plr_ObservedManifestSHA256 p) \<or>
        \<not> ValidSHA256 (plr_ObservedRestoreID p) \<or> \<not> ValidSHA256 (plr_ObservedRestoreSHA256 p)))"

definition validate_planned :: "plan_lib \<Rightarrow> gostring \<Rightarrow> PlanRepository \<Rightarrow> plan_error + unit" where
  "validate_planned lib forgeRepository p =
     andR (requireR (plr_Action p = ''create'' \<or> plr_Action p = ''update'' \<or> plr_Action p = ''noop'') (Inconsistent ''action'')) (\<lambda>_.
     andR (requireR (\<not> (plr_PublicationRecords p \<and> plr_Action p = ''noop'')) (Inconsistent ''noop records'')) (\<lambda>_.
     andR (requireR (plr_PublicationRecords p = (plr_PublicationBindings p \<noteq> [])) (Inconsistent ''bindings'')) (\<lambda>_.
     andR (noError (\<lambda>e. e) (bindings_valid [] (plr_PublicationBindings p))) (\<lambda>_.
     andR (requireR (acquisitions_valid (ml_url (lib_manifest lib)) [] (plr_Acquisitions p)) (Inconsistent ''acquisition'')) (\<lambda>_.
     andR (noError (\<lambda>e. Inconsistent ''gate'') (ValidateGateConfiguration (plr_Gate p) (plr_ApprovalKeys p) forgeRepository)) (\<lambda>_.
     andR (noError (\<lambda>e. Inconsistent ''deployment'') (ValidateDeploymentRecord (lib_time lib) (plr_ObservedDeployment p) (plr_Name p))) (\<lambda>_.
     andR (requireR (ValidSHA256 (plr_LockSHA256 p) \<and> ValidSHA256 (plr_DesiredTreeSHA256 p) \<and> ValidSHA256 (plr_HostIdentitySHA256 p) \<and>
        (plr_ObservedTreeSHA256 p = [] \<or> ValidSHA256 (plr_ObservedTreeSHA256 p))) (Inconsistent ''digest'')) (\<lambda>_.
     andR (requireR (length (plr_Signing p) \<le> 1) (Inconsistent ''dual signing'')) (\<lambda>_.
     andR (case plr_Signing p of [] \<Rightarrow> Inr () | signing # _ \<Rightarrow> signing_metadata_valid lib (plr_Format p) signing) (\<lambda>_.
     andR (requireR (host_Type (plr_Host p) = ''local'' \<or> host_Type (plr_Host p) = ''s3'' \<or> host_Type (plr_Host p) = ''github-pages'')
        (Inconsistent ''host type'')) (\<lambda>_.
     andR (requireR (plr_CanonicalEndpoint p \<noteq> []) (Inconsistent ''canonical endpoint'')) (\<lambda>_.
     andR (requireR (\<not> managed_remote (host_Type (plr_Host p)) \<or> ValidSHA256 (plr_InstallDocSHA256 p)) (Inconsistent ''install document'')) (\<lambda>_.
     andR (requireR (\<not> managed_remote (host_Type (plr_Host p)) \<or> ValidSHA256 (plr_DesiredManifestSHA256 p)) (Inconsistent ''manifest digest'')) (\<lambda>_.
     andR (requireR (plr_Visibility p \<noteq> ''private'' \<or> plr_PrivateRead p) (Inconsistent ''private read'')) (\<lambda>_.
     andR (requireR (plr_Visibility p \<noteq> ''private'' \<or> ValidSHA256 (plr_CredentialBrokerIdentity p)) (Inconsistent ''credential broker'')) (\<lambda>_.
     andR (requireR (list_all (\<lambda>d. d = [] \<or> ValidSHA256 d) [plr_ObservedReleaseSHA256 p, plr_ObservedManifestSHA256 p,
        plr_ObservedRestoreSHA256 p, plr_ObservedRestoreRootSHA256 p]) (Inconsistent ''observed digest'')) (\<lambda>_.
     andR (requireR (observation_valid p) (Inconsistent ''observation'')) (\<lambda>_.
     requireR (plr_ChangeID p = plr_Name p @ '':'' @ take 12 (plr_DesiredTreeSHA256 p)) (Inconsistent ''change id'')))))))))))))))))))"

fun validate_each :: "plan_lib \<Rightarrow> gostring \<Rightarrow> gostring list \<Rightarrow> PlanRepository list \<Rightarrow> plan_error + unit" where
  "validate_each lib forgeRepository seen [] = Inr ()"
| "validate_each lib forgeRepository seen (p # ps) =
     (if ValidateRepositoryName (plr_Name p) \<noteq> None then Inl (Inconsistent ''name'')
      else if plr_Name p \<in> set seen then Inl (Inconsistent ''duplicate repository'')
      else andR (validate_planned lib forgeRepository p) (\<lambda>_. validate_each lib forgeRepository (plr_Name p # seen) ps))"

definition validateApplyPlan :: "plan_lib \<Rightarrow> Plan \<Rightarrow> plan_error + unit" where
  "validateApplyPlan lib plan =
     (let payload = plan_Payload plan in
     andR (requireR (ValidSHA256 (pay_ManifestSHA256 payload)) (Inconsistent ''manifest digest'')) (\<lambda>_.
     andR (requireR (pay_KnowledgeSHA256 payload = lib_knowledge lib) (Inconsistent ''knowledge'')) (\<lambda>_.
     andR (requireR (ValidSHA256 (pay_WorkspaceID payload) \<and> ValidSHA256 (pay_BlobStoreIdentitySHA256 payload) \<and>
        ValidateBlobStore (lib_manifest lib) (pay_BlobStore payload) = None) (Inconsistent ''blob store'')) (\<lambda>_.
     andR (requireR (lib_blob lib (pay_WorkspaceID payload) (pay_BlobStore payload) = pay_BlobStoreIdentitySHA256 payload)
        (Inconsistent ''blob store identity'')) (\<lambda>_.
     andR (requireR (pay_VerificationMode payload = ''structural'' \<or> pay_VerificationMode payload = ''client'') (Inconsistent ''verification mode'')) (\<lambda>_.
     andR (someR (lib_time lib (pay_CreatedAt payload)) (Inconsistent ''creation time'')) (\<lambda>createdAt.
     andR (requireR (case lib_time lib (pay_ExpiresAt payload) of None \<Rightarrow> False | Some expiresAt \<Rightarrow> createdAt < expiresAt)
        (Inconsistent ''expiry'')) (\<lambda>_.
     andR (requireR (lib_time lib (pay_GeneratedAt payload) \<noteq> None) (Inconsistent ''generation time'')) (\<lambda>_.
     validate_each lib (pay_ForgeRepository payload) [] (pay_Repositories payload))))))))))"

subsection \<open>One repository\<close>

record applyPreparation =
  prep_root :: gostring
  prep_plan :: Plan
  prep_manifest :: Manifest
  prep_now :: int
  prep_expiresAt :: int
  prep_ledgerCommitted :: bool
  prep_StructuralOnly :: bool
  prep_DryRun :: bool
  prep_ledgerRepositories :: "gostring list"
  prep_deploymentRepositories :: "gostring list"
  prep_emptyKeys :: "gostring list"

text \<open>The approval keys of the manifest are an empty slice that is not nil.\<close>

definition empty_not_nil :: "applyPreparation \<Rightarrow> gostring \<Rightarrow> Repository \<Rightarrow> bool" where
  "empty_not_nil prep name repository \<longleftrightarrow> repo_ApprovalKeys repository = [] \<and> name \<in> set (prep_emptyKeys prep)"

text \<open>The stage is the directory of the rebuilt tree, empty when none was built.\<close>

record applyRepository =
  it_planned :: PlanRepository
  it_repository :: Repository
  it_lock :: RepositoryLock
  it_hostRepository :: HostRepository
  it_observed :: PublishedRevision
  it_hostStage :: StagedPublication
  it_stage :: gostring
  it_current :: bool
  it_deployment :: DeploymentRecord
  it_signing :: deploymentSigningState

abbreviation it_Name :: "applyRepository \<Rightarrow> gostring" where "it_Name item \<equiv> plr_Name (it_planned item)"
abbreviation it_Action :: "applyRepository \<Rightarrow> gostring" where "it_Action item \<equiv> plr_Action (it_planned item)"

definition check_planned_signing :: "plan_lib \<Rightarrow> applyPreparation \<Rightarrow> Repository \<Rightarrow> RepositoryLock \<Rightarrow> gostring \<Rightarrow> PlanSigning \<Rightarrow> plan_error + unit" where
  "check_planned_signing lib prep repository lock activeKey signing =
     andR (requireR (ps_KeyName signing = activeKey) (Stale ''signing key changed'')) (\<lambda>_.
     andR (someR (map_of (man_Keys (prep_manifest prep)) (ps_KeyName signing)) (Stale ''signing key missing'')) (\<lambda>key.
     andR (requireR (case lib_time lib (key_ExpiresAt key) of None \<Rightarrow> False
        | Some keyExpiresAt \<Rightarrow> \<not> keyExpiresAt < prep_expiresAt prep) PlanExpiresAfterKey) (\<lambda>_.
     andR (case signingShapeFor repository (lockedArtifactPaths repository lock) of Inl e \<Rightarrow> Inl (PlanSigning e) | Inr shape \<Rightarrow> Inr shape) (\<lambda>shape.
     noError PlanSigning (validateSigningRecipeMetadata (lib_recipe lib) signing (Some shape))))))"

definition matches_applied :: "Plan \<Rightarrow> PlanRepository \<Rightarrow> Repository \<Rightarrow> PublishedRevision \<Rightarrow> bool" where
  "matches_applied plan planned repository observed \<longleftrightarrow>
     plr_Action planned \<noteq> ''noop'' \<and> pub_TreeSHA256 observed = plr_DesiredTreeSHA256 planned \<and>
     (\<not> managed_remote (host_Type (repo_Host repository)) \<or>
      (pub_PlanID observed = plan_PlanID plan \<and> pub_ChangeID observed = plr_ChangeID planned \<and>
       pub_ManifestSHA256 observed = plr_DesiredManifestSHA256 planned))"

definition deployment_applied :: "Plan \<Rightarrow> PlanRepository \<Rightarrow> DeploymentRecord \<Rightarrow> PublishedRevision \<Rightarrow> deploymentSigningState \<Rightarrow> bool" where
  "deployment_applied plan planned deployment observed signing \<longleftrightarrow>
     dr_PlanID deployment = plan_PlanID plan \<and> dr_ChangeID deployment = plr_ChangeID planned \<and>
     dr_TreeSHA256 deployment = plr_DesiredTreeSHA256 planned \<and> dr_ManifestSHA256 deployment = plr_DesiredManifestSHA256 planned \<and>
     dr_NativeRevision deployment = pub_NativeRevision observed \<and> deploymentSigningMatches deployment signing"

definition expected_action :: "PlanRepository \<Rightarrow> Repository \<Rightarrow> RepositoryLock \<Rightarrow> PublicationRecord list \<Rightarrow> deploymentSigningState \<Rightarrow> gostring" where
  "expected_action planned repository lock ledger signing =
     (if plr_ObservedTreeSHA256 planned \<noteq> plr_DesiredTreeSHA256 planned \<or>
        (managed_remote (host_Type (repo_Host repository)) \<and> plr_ObservedManifestSHA256 planned \<noteq> plr_DesiredManifestSHA256 planned) \<or>
        \<not> publicationBindingsComplete lock repository ledger \<or>
        \<not> deploymentMatchesDesired (plr_ObservedDeployment planned) (publishedFromPlanObservation planned) (plr_DesiredTreeSHA256 planned)
          (plr_DesiredManifestSHA256 planned) signing
      then (if plr_ObservedRevision planned = [] then ''create'' else ''update'') else ''noop'')"

definition already_current :: "Plan \<Rightarrow> PlanRepository \<Rightarrow> Repository \<Rightarrow> DeploymentRecord \<Rightarrow> PublishedRevision \<Rightarrow> deploymentSigningState \<Rightarrow> bool" where
  "already_current plan planned repository deployment observed signing \<longleftrightarrow>
     pub_TreeSHA256 observed = plr_DesiredTreeSHA256 planned \<and>
     (\<not> managed_remote (host_Type (repo_Host repository)) \<or> pub_ManifestSHA256 observed = plr_DesiredManifestSHA256 planned) \<and>
     (deployment_applied plan planned deployment observed signing \<or>
      (plr_Action planned = ''noop'' \<and>
       deploymentMatchesDesired deployment observed (plr_DesiredTreeSHA256 planned) (plr_DesiredManifestSHA256 planned) signing) \<or>
      (matches_applied plan planned repository observed \<and> deployment = plr_ObservedDeployment planned))"

definition build_stage :: "repository_view \<Rightarrow> PlanRepository \<Rightarrow> plan_error + unit" where
  "build_stage view planned =
     andR (vw_build view (plr_Signing planned)) (\<lambda>staged.
     andR (requireR (br_TreeSHA256 staged = plr_DesiredTreeSHA256 planned \<and> br_ManifestSHA256 staged = plr_DesiredManifestSHA256 planned)
       (Stale ''rebuilt tree'')) (\<lambda>_.
     andR (requireR (signingContentsEqual (br_Signing staged) (plr_Signing planned)) (Stale ''signing recipe'')) (\<lambda>_.
     vw_structure view)))"

definition prepare_effects :: "applyPreparation \<Rightarrow> PlanRepository \<Rightarrow> Repository \<Rightarrow> RepositoryLock \<Rightarrow> PublicationRecord list \<Rightarrow> plan_error + unit" where
  "prepare_effects prep planned repository lock ledger =
     (let missing = missingPublicationBindings lock repository ledger; visible = visiblePackageVersions lock repository;
          expected = (if plr_PublicationRecords planned then publicationBindingsForVersions visible else []) in
     andR (requireR (plr_Acquisitions planned = planAcquisitionsForVersions visible) (Inconsistent ''acquisitions'')) (\<lambda>_.
     requireR (\<not> (plr_PublicationRecords planned \<noteq> (plr_PublicationBindings planned \<noteq> []) \<or> plr_PublicationBindings planned \<noteq> expected \<or>
        (\<not> prep_ledgerCommitted prep \<and> plr_PublicationRecords planned \<noteq> (missing \<noteq> [])) \<or>
        (prep_ledgerCommitted prep \<and> \<not> plr_PublicationRecords planned \<and> missing \<noteq> []))) (Inconsistent ''publication records'')))"

definition prepare_observation :: "applyPreparation \<Rightarrow> PlanRepository \<Rightarrow> Repository \<Rightarrow> RepositoryLock \<Rightarrow> PublicationRecord list \<Rightarrow>
    DeploymentRecord \<Rightarrow> PublishedRevision \<Rightarrow> deploymentSigningState \<Rightarrow> plan_error + unit" where
  "prepare_observation prep planned repository lock ledger deployment observed signing =
     (let plan = prep_plan prep in
     andR (requireR (deployment = plr_ObservedDeployment planned \<or> deployment_applied plan planned deployment observed signing)
        (Stale ''deployment receipt'')) (\<lambda>_.
     andR (requireR (revisionMatchesPlanObservation observed planned \<or> matches_applied plan planned repository observed)
        (if pub_TreeSHA256 observed = plr_ObservedTreeSHA256 planned then Stale ''native revision''
         else if pub_TreeSHA256 observed = plr_DesiredTreeSHA256 planned then Stale ''published by another change''
         else Stale ''target'')) (\<lambda>_.
     requireR (plr_Action planned = expected_action planned repository lock ledger signing \<and>
        plr_ChangeID planned = plr_Name planned @ '':'' @ take 12 (plr_DesiredTreeSHA256 planned)) (Inconsistent ''action metadata''))))"

text \<open>The directory of the stage stands as an argument; the operating system chooses it.\<close>

definition finish_prepare :: "applyPreparation \<Rightarrow> repository_view \<Rightarrow> gostring \<Rightarrow> PlanRepository \<Rightarrow> Repository \<Rightarrow> RepositoryLock \<Rightarrow> HostRepository \<Rightarrow>
    PublishedRevision \<Rightarrow> DeploymentRecord \<Rightarrow> deploymentSigningState \<Rightarrow> plan_error + applyRepository" where
  "finish_prepare prep view directory planned repository lock hostRepository observed deployment signing =
     (let current = already_current (prep_plan prep) planned repository deployment observed signing;
          item = \<lparr>it_planned = planned, it_repository = repository, it_lock = lock, it_hostRepository = hostRepository, it_observed = observed,
            it_hostStage = no_stage, it_stage = [], it_current = current, it_deployment = deployment, it_signing = signing\<rparr> in
      if current \<and> (prep_StructuralOnly prep \<or> plr_Action planned = ''noop'') \<and> \<not> (plr_Action planned \<noteq> ''noop'' \<and> plr_Signing planned \<noteq> [])
      then Inr item
      else andR (build_stage view planned) (\<lambda>_. Inr (item\<lparr>it_stage := directory\<rparr>)))"

definition prepareRepository :: "plan_lib \<Rightarrow> applyPreparation \<Rightarrow> repository_view \<Rightarrow> gostring \<Rightarrow> PlanRepository \<Rightarrow> plan_error + applyRepository" where
  "prepareRepository lib prep view directory planned =
     (let manifest = prep_manifest prep in
     andR (someR (map_of (man_Repositories manifest) (plr_Name planned)) (Stale ''configuration'')) (\<lambda>repository.
     andR (requireR (\<not> (repo_Format repository \<noteq> plr_Format planned \<or> repo_Gate repository \<noteq> plr_Gate planned \<or>
        repo_ApprovalKeys repository \<noteq> plr_ApprovalKeys planned \<or> empty_not_nil prep (plr_Name planned) repository \<or> length (plr_Signing planned) > 1 \<or>
        (plr_Signing planned = []) \<noteq> (repo_SigningKeys repository = []))) (Stale ''configuration'')) (\<lambda>_.
     andR (vw_lock_path view) (\<lambda>_.
     andR (requireR (vw_lock_digest view = Inr (plr_LockSHA256 planned)) (Stale ''lock'')) (\<lambda>_.
     andR (vw_lock view) (\<lambda>lock.
     andR (noError PlanLock (ValidateLock (ml_url (lib_manifest lib)) lock (plr_Name planned) (repo_Format repository))) (\<lambda>_.
     andR (case repositorySigningState repository of Inl e \<Rightarrow> Inl (PlanRotation e) | Inr state \<Rightarrow> Inr (fst state)) (\<lambda>activeKey.
     andR (case plr_Signing planned of [] \<Rightarrow> Inr () | signing # _ \<Rightarrow> check_planned_signing lib prep repository lock activeKey signing) (\<lambda>_.
     andR (requireR (repositoryHostIdentity lib repository = plr_HostIdentitySHA256 planned \<and> repo_Host repository = plr_Host planned \<and>
        repo_Visibility repository = plr_Visibility planned) (Stale ''host'')) (\<lambda>_.
     let hostRepository = toHostRepository (prep_root prep) (ws_ID (man_Workspace manifest)) (repositoryHostIdentity lib repository)
        (plr_Name planned) repository in
     andR (requireR (hr_CanonicalEndpoint hostRepository = plr_CanonicalEndpoint planned) (Stale ''canonical endpoint'')) (\<lambda>_.
     andR (requireR (vw_install_document view = Inr (plr_InstallDocSHA256 planned)) (Stale ''install document'')) (\<lambda>_.
     andR (vw_capabilities view) (\<lambda>capabilities.
     andR (requireR (cap_FaithfulPreview capabilities = plr_FaithfulPreview planned \<and> cap_ConditionalCommit capabilities = plr_ConditionalCommit planned \<and>
        cap_ConditionalRestore capabilities = plr_ConditionalRestore planned \<and> cap_PrivateRead capabilities = plr_PrivateRead planned \<and>
        cap_CredentialBrokerIdentity capabilities = plr_CredentialBrokerIdentity planned) (Stale ''capabilities'')) (\<lambda>_.
     andR (vw_ledger view) (\<lambda>ledger.
     andR (noError PlanLedger (ValidatePublicationHistory (lib_time lib) (plr_Name planned) ledger)) (\<lambda>_.
     andR (noError PlanLedger (ValidatePublishedBindings lock ledger)) (\<lambda>_.
     andR (prepare_effects prep planned repository lock ledger) (\<lambda>_.
     andR (vw_deployment view) (\<lambda>deployment.
     andR (case repositoryDeploymentSigningState repository (man_Keys manifest) of Inl e \<Rightarrow> Inl (PlanRotation e) | Inr s \<Rightarrow> Inr s) (\<lambda>signing.
     andR (vw_observed view) (\<lambda>observed.
     andR (plan_trust repository deployment view) (\<lambda>trustNotBefore.
     andR (noError PlanRotation (validateRepositorySigningTransition (lib_time lib) repository (man_Keys manifest) deployment
        (publishedFromPlanObservation planned) (prep_now prep) trustNotBefore)) (\<lambda>_.
     andR (prepare_observation prep planned repository lock ledger deployment observed signing) (\<lambda>_.
     finish_prepare prep view directory planned repository lock hostRepository observed deployment signing))))))))))))))))))))))))"

subsection \<open>Lemmas\<close>

lemma finish_prepare_facts:
  assumes "finish_prepare prep view directory planned repository lock hostRepository observed deployment signing = Inr item"
  shows "it_planned item = planned" "it_repository item = repository" "it_lock item = lock" "it_observed item = observed"
    "it_deployment item = deployment" "it_signing item = signing" "it_hostStage item = no_stage" "it_hostRepository item = hostRepository"
    "it_current item = already_current (prep_plan prep) planned repository deployment observed signing"
    "\<not> it_current item \<Longrightarrow> it_stage item = directory \<and> build_stage view planned = Inr ()"
  using assms by (auto simp: finish_prepare_def Let_def split: if_splits)

lemma prepareRepository_elim:
  assumes "prepareRepository lib prep view directory planned = Inr item"
  obtains repository lock ledger deployment observed signing where
    "map_of (man_Repositories (prep_manifest prep)) (plr_Name planned) = Some repository"
    "repo_Format repository = plr_Format planned" "repo_Gate repository = plr_Gate planned"
    "repo_ApprovalKeys repository = plr_ApprovalKeys planned" "repo_Host repository = plr_Host planned"
    "vw_lock_digest view = Inr (plr_LockSHA256 planned)" "vw_lock view = Inr lock" "vw_observed view = Inr observed"
    "vw_deployment view = Inr deployment"
    "prepare_observation prep planned repository lock ledger deployment observed signing = Inr ()"
    "finish_prepare prep view directory planned repository lock (toHostRepository (prep_root prep) (ws_ID (man_Workspace (prep_manifest prep)))
       (repositoryHostIdentity lib repository) (plr_Name planned) repository) observed deployment signing = Inr item"
  using assms unfolding prepareRepository_def Let_def
  apply (simp only: andR_Inr requireR_Inr noError_Inr someR_Inr de_Morgan_disj not_not)
  apply (elim exE conjE)
  by (rule that) (assumption | simp)+

lemma not_current_unchanged:
  assumes "prepare_observation prep planned repository lock ledger deployment observed signing = Inr ()"
    and "\<not> already_current (prep_plan prep) planned repository deployment observed signing"
  shows "observed = publishedFromPlanObservation planned" and "plr_Action planned \<noteq> ''noop''"
proof -
  have receipt: "deployment = plr_ObservedDeployment planned \<or> deployment_applied (prep_plan prep) planned deployment observed signing"
    and seen: "observed = publishedFromPlanObservation planned \<or> matches_applied (prep_plan prep) planned repository observed"
    and action: "plr_Action planned = expected_action planned repository lock ledger signing"
    using assms(1) by (auto simp: prepare_observation_def revisionMatchesPlanObservation_iff Let_def)
  show unchanged: "observed = publishedFromPlanObservation planned"
    using receipt seen assms(2) by (auto simp: already_current_def matches_applied_def)
  show "plr_Action planned \<noteq> ''noop''"
    using receipt unchanged action assms(2)
    by (auto simp: already_current_def expected_action_def publishedFromPlanObservation_def split: if_splits)
qed

lemma build_stage_facts:
  "build_stage view planned = Inr u \<longleftrightarrow> (\<exists>staged. vw_build view (plr_Signing planned) = Inr staged \<and>
     br_TreeSHA256 staged = plr_DesiredTreeSHA256 planned \<and> br_ManifestSHA256 staged = plr_DesiredManifestSHA256 planned \<and>
     br_Signing staged = plr_Signing planned \<and> vw_structure view = Inr ())"
  by (auto simp: build_stage_def)

subsection \<open>Properties\<close>

text \<open>
  C2: what an apply is about to publish is what was reviewed. A repository that passes the preparation is
  configured as the plan says, and its lock file is the one the plan was made from. Either the host
  already serves the desired tree, or the plan asks for a change, the host still serves exactly the
  revision the plan observed (so the revision the commit expects is the one just observed), and the
  rebuilt tree, its manifest and its signatures are those of the plan.
\<close>

theorem prepared_matches_review:
  assumes "prepareRepository lib prep view directory planned = Inr item"
  shows "it_planned item = planned \<and>
    map_of (man_Repositories (prep_manifest prep)) (plr_Name planned) = Some (it_repository item) \<and>
    repo_Format (it_repository item) = plr_Format planned \<and> repo_Gate (it_repository item) = plr_Gate planned \<and>
    repo_ApprovalKeys (it_repository item) = plr_ApprovalKeys planned \<and> repo_Host (it_repository item) = plr_Host planned \<and>
    vw_lock_digest view = Inr (plr_LockSHA256 planned) \<and> vw_lock view = Inr (it_lock item) \<and>
    (if it_current item then pub_TreeSHA256 (it_observed item) = plr_DesiredTreeSHA256 planned
     else plr_Action planned \<noteq> ''noop'' \<and>
       expectedRevisionFromPlan planned = expectedRevisionFromPublished (it_observed item) \<and>
       (\<exists>staged. vw_build view (plr_Signing planned) = Inr staged \<and> br_TreeSHA256 staged = plr_DesiredTreeSHA256 planned \<and>
          br_ManifestSHA256 staged = plr_DesiredManifestSHA256 planned \<and> br_Signing staged = plr_Signing planned))"
proof -
  obtain repository lock ledger deployment observed signing where facts:
      "map_of (man_Repositories (prep_manifest prep)) (plr_Name planned) = Some repository"
      "repo_Format repository = plr_Format planned" "repo_Gate repository = plr_Gate planned"
      "repo_ApprovalKeys repository = plr_ApprovalKeys planned" "repo_Host repository = plr_Host planned"
      "vw_lock_digest view = Inr (plr_LockSHA256 planned)" "vw_lock view = Inr lock"
      "prepare_observation prep planned repository lock ledger deployment observed signing = Inr ()"
      "finish_prepare prep view directory planned repository lock (toHostRepository (prep_root prep) (ws_ID (man_Workspace (prep_manifest prep)))
         (repositoryHostIdentity lib repository) (plr_Name planned) repository) observed deployment signing = Inr item"
    by (rule prepareRepository_elim [OF assms]) (rule that)
  note item = finish_prepare_facts [OF facts(9)]
  show ?thesis
  proof (cases "it_current item")
    case True
    then have "pub_TreeSHA256 observed = plr_DesiredTreeSHA256 planned" using item(9) by (simp add: already_current_def)
    then show ?thesis using facts item(1-4) True by simp
  next
    case False
    then have "\<not> already_current (prep_plan prep) planned repository deployment observed signing" using item(9) by simp
    note unchanged = not_current_unchanged [OF facts(8) this]
    have "build_stage view planned = Inr ()" using item(10) [OF False] by simp
    then show ?thesis using facts item(1-4) False unchanged(2) unfolding unchanged(1) expected_observation build_stage_facts by auto
  qed
qed











subsection \<open>A workspace with one repository\<close>

definition tools_lib :: plan_lib where
  "tools_lib = \<lparr>lib_manifest = \<lparr>ml_url = sample_lib, ml_escaped = (\<lambda>_. []), ml_sha256 = (\<lambda>_. [])\<rparr>, lib_time = sample_time,
     lib_identity = (\<lambda>f v h. replicate 64 CHR ''d''), lib_recipe = (\<lambda>_. []), lib_blob = (\<lambda>w b. replicate 64 CHR ''e''), lib_knowledge = ''k''\<rparr>"

definition tools_manifest :: Manifest where
  "tools_manifest = \<lparr>man_SchemaVersion = 7, man_Workspace = \<lparr>ws_Name = ''w'', ws_ID = replicate 64 CHR ''0'', ws_Forge = [], ws_ForgeRepository = [],
     ws_ForgeHost = []\<rparr>, man_BlobStore = \<lparr>bs_Type = ''local'', bs_Bucket = [], bs_Prefix = [], bs_Region = [], bs_Endpoint = [], bs_UsePathStyle = False\<rparr>,
     man_Keys = [], man_Repositories = [(''tools'', tools_repository)]\<rparr>"

definition tools_build :: BuildResult where
  "tools_build = \<lparr>br_Format = ''raw'', br_TreeSHA256 = replicate 64 CHR ''2'', br_ManifestSHA256 = replicate 64 CHR ''3'', br_Signing = []\<rparr>"

definition tools_view :: repository_view where
  "tools_view = \<lparr>vw_lock = Inr sample_lock, vw_lock_path = Inr (), vw_lock_digest = Inr (replicate 64 CHR ''4''), vw_ledger = Inr [],
     vw_deployment = Inr zero_record, vw_trust = Inr 0, vw_install_document = Inr [],
     vw_capabilities = Inr \<lparr>cap_FaithfulPreview = True, cap_ConditionalCommit = True, cap_ConditionalRestore = False, cap_PrivateRead = False,
       cap_CredentialBrokerIdentity = []\<rparr>,
     vw_observed = Inr no_revision, vw_build = (\<lambda>_. Inr tools_build), vw_structure = Inr ()\<rparr>"

definition tools_planned :: PlanRepository where
  "tools_planned = planned_repository tools_lib ''/w'' (replicate 64 CHR ''0'') ''tools'' tools_repository sample_lock [] zero_record
     (replicate 64 CHR ''4'') tools_build \<lparr>cap_FaithfulPreview = True, cap_ConditionalCommit = True, cap_ConditionalRestore = False,
       cap_PrivateRead = False, cap_CredentialBrokerIdentity = []\<rparr> no_revision no_signing_state []"

definition tools_payload :: PlanPayload where
  "tools_payload = \<lparr>pay_EngineVersion = ''phase1'', pay_GitRevision = replicate 40 CHR ''a'', pay_ManifestSHA256 = replicate 64 CHR ''5'',
     pay_WorkspaceID = replicate 64 CHR ''0'', pay_Forge = [], pay_ForgeRepository = [], pay_ForgeHost = [], pay_GeneratedAt = ''t'',
     pay_CreatedAt = ''t'', pay_ExpiresAt = ''t'', pay_VerificationMode = ''structural'', pay_BlobStore = man_BlobStore tools_manifest,
     pay_BlobStoreIdentitySHA256 = replicate 64 CHR ''e'', pay_KnowledgeSHA256 = ''k'', pay_Repositories = [tools_planned]\<rparr>"

definition tools_preparation :: applyPreparation where
  "tools_preparation = \<lparr>prep_root = ''/w'', prep_plan = \<lparr>plan_SchemaVersion = 1, plan_PlanID = replicate 64 CHR ''1'', plan_Payload = tools_payload\<rparr>,
     prep_manifest = tools_manifest, prep_now = 5, prep_expiresAt = 10, prep_ledgerCommitted = False, prep_StructuralOnly = True, prep_DryRun = False,
     prep_ledgerRepositories = [''tools''], prep_deploymentRepositories = [''tools''], prep_emptyKeys = []\<rparr>"



lemma tools_prepared: "prepareRepository tools_lib tools_preparation tools_view ''/w/s'' tools_planned =
   Inr \<lparr>it_planned = tools_planned, it_repository = tools_repository, it_lock = sample_lock,
     it_hostRepository = toHostRepository ''/w'' (replicate 64 CHR ''0'') (replicate 64 CHR ''d'') ''tools'' tools_repository,
     it_observed = no_revision, it_hostStage = no_stage, it_stage = ''/w/s'', it_current = False, it_deployment = zero_record,
     it_signing = no_signing_state\<rparr>"
  by code_simp

theorem prepared_matches_review_witness:
  "\<exists>item. prepareRepository tools_lib tools_preparation tools_view ''/w/s'' tools_planned = Inr item \<and> \<not> it_current item \<and>
    expectedRevisionFromPlan tools_planned = expectedRevisionFromPublished (it_observed item)"
proof -
  obtain item where item: "prepareRepository tools_lib tools_preparation tools_view ''/w/s'' tools_planned = Inr item" "\<not> it_current item"
    using tools_prepared by auto
  then show ?thesis using prepared_matches_review [OF item(1)] by auto
qed

text \<open>Two kinds of repository the checks never let through.\<close>

lemma validate_each_all:
  assumes "validate_each lib forgeRepository seen ps = Inr u" and "p \<in> set ps"
  shows "validate_planned lib forgeRepository p = Inr ()"
  using assms by (induction ps arbitrary: seen) (auto split: if_splits)

text \<open>
  No plan with a repository on an rsync host passes the checks that open an apply, whatever else the
  plan says, although the manifest accepts the host type and the support matrix serves every format on it.
\<close>

theorem rsync_plan_refused:
  assumes "p \<in> set (pay_Repositories (plan_Payload plan))" and "host_Type (plr_Host p) = ''rsync''"
  shows "validateApplyPlan lib plan \<noteq> Inr () \<and> fs_Publish (Supports ''rsync'' ''deb'')"
proof
  have "validate_planned lib (pay_ForgeRepository (plan_Payload plan)) p \<noteq> Inr ()"
    using assms(2) by (auto simp: validate_planned_def)
  then show "validateApplyPlan lib plan \<noteq> Inr ()"
    using validate_each_all [OF _ assms(1)] by (auto simp: validateApplyPlan_def Let_def)
  show "fs_Publish (Supports ''rsync'' ''deb'')" by code_simp
qed

theorem rsync_plan_refused_witness:
  "validateApplyPlan tools_lib \<lparr>plan_SchemaVersion = 1, plan_PlanID = [], plan_Payload = tools_payload
     \<lparr>pay_Repositories := [tools_planned\<lparr>plr_Host := sample_host\<lparr>host_Type := ''rsync''\<rparr>\<rparr>]\<rparr>\<rparr> \<noteq> Inr ()"
proof -
  let ?p = "tools_planned\<lparr>plr_Host := sample_host\<lparr>host_Type := ''rsync''\<rparr>\<rparr>"
  have "?p \<in> set (pay_Repositories (plan_Payload \<lparr>plan_SchemaVersion = 1, plan_PlanID = [], plan_Payload = tools_payload\<lparr>pay_Repositories := [?p]\<rparr>\<rparr>))"
    and "host_Type (plr_Host ?p) = ''rsync''" by simp_all
  from rsync_plan_refused [OF this] show ?thesis by blast
qed

text \<open>
  The build of a signed Helm repository that has no chart yet makes no signature, because its shape
  has no output, and a plan without signatures for a repository with a signing key is refused as stale.
\<close>

theorem empty_signed_helm_refused:
  assumes "repo_Format repository = ''helm''" and "visiblePackageVersions lock repository = []" and "repo_SigningKeys repository \<noteq> []"
    and "map_of (man_Repositories (prep_manifest prep)) (plr_Name planned) = Some repository" and "plr_Signing planned = []"
  shows "(\<exists>shape. signingShapeFor repository (lockedArtifactPaths repository lock) = Inr shape \<and> shape_Outputs shape = []) \<and>
    prepareRepository lib prep view directory planned = Inl (Stale ''configuration'')"
proof
  show "\<exists>shape. signingShapeFor repository (lockedArtifactPaths repository lock) = Inr shape \<and> shape_Outputs shape = []"
    using assms(1,2) by (simp add: signingShapeFor_def lockedArtifactPaths_def SignerFor_def For_def registry_def format_defs
        PublishedPathsOf_def helm_PublishedPaths_def helm_SigningShape_def)
  show "prepareRepository lib prep view directory planned = Inl (Stale ''configuration'')"
    using assms(3-5) by (simp add: prepareRepository_def Let_def requireR_def)
qed

theorem empty_signed_helm_refused_witness:
  "prepareRepository tools_lib
     (tools_preparation\<lparr>prep_manifest := tools_manifest\<lparr>man_Repositories := [(''tools'', tools_repository\<lparr>repo_Format := ''helm'', repo_SigningKeys := [''k'']\<rparr>)]\<rparr>\<rparr>)
     tools_view ''/w/s'' tools_planned = Inl (Stale ''configuration'')"
proof (rule empty_signed_helm_refused [where lock = "sample_lock\<lparr>lock_PackageVersion := []\<rparr>"
      and repository = "tools_repository\<lparr>repo_Format := ''helm'', repo_SigningKeys := [''k'']\<rparr>", THEN conjunct2])
  show "plr_Signing tools_planned = []" by code_simp
  have "plr_Name tools_planned = ''tools''" by code_simp
  then show "map_of (man_Repositories (prep_manifest (tools_preparation\<lparr>prep_manifest := tools_manifest\<lparr>man_Repositories :=
     [(''tools'', tools_repository\<lparr>repo_Format := ''helm'', repo_SigningKeys := [''k'']\<rparr>)]\<rparr>\<rparr>))) (plr_Name tools_planned) =
     Some (tools_repository\<lparr>repo_Format := ''helm'', repo_SigningKeys := [''k'']\<rparr>)" by simp
qed (simp_all add: visiblePackageVersions_def Let_def)

end
