(* ===== verification/Gate.thy ===== *)
theory Gate
  imports Forge Base64 Go_Time
begin

section \<open>Publication gates\<close>

text \<open>
  \<^verbatim>\<open>gate/gate.go\<close>: who may let an apply publish. The evaluator, the approvals it accepts and the
  evidence of a merged pull request. Ed25519 and SHA-256 are arguments, and so are reading the
  evidence file (its strict JSON decoding included) and the providers; a call of a provider that fails
  is \<open>None\<close>.
\<close>

datatype gate_error = UnsupportedGate gostring | NoApprovalFile | ApprovalsUnreadable | ApprovalSchemaError
  | LacksApproval gostring gostring | NoForgeRepository | NoForge | ForgeNotSelected | RepositoryUnidentified
  | ReviewUnavailable | NotMerged gostring gostring | InvalidKeyFile | InvalidPrivateKey

definition ApprovalSchema :: int where "ApprovalSchema = 1"

record Requirement =
  req_Policy :: gostring
  req_PlanID :: gostring
  req_Repository :: gostring
  req_GitRevision :: gostring
  req_Root :: gostring
  req_Now :: int
  req_ForgeRepository :: gostring
  req_Forge :: gostring
  req_ForgeHost :: gostring
  req_ApprovalKeys :: "gostring list"

record Approval =
  ap_PlanID :: gostring
  ap_Repository :: gostring
  ap_Approver :: gostring
  ap_ExpiresAt :: gostring
  ap_Signature :: gostring

record ApprovalFile =
  af_SchemaVersion :: int
  af_Approvals :: "Approval list"

record DefaultEvaluator =
  ev_approvalFile :: gostring
  ev_forges :: "(ForgeRepository \<Rightarrow> forge option) option"

record crypto =
  cr_sha256 :: "gostring \<Rightarrow> gostring"
  cr_verify :: "gostring \<Rightarrow> gostring \<Rightarrow> gostring \<Rightarrow> bool"
  cr_sign :: "gostring \<Rightarrow> gostring \<Rightarrow> gostring"
  cr_public :: "gostring \<Rightarrow> gostring"

subsection \<open>Approvals\<close>

definition approvalMessage :: "Approval \<Rightarrow> gostring" where
  "approvalMessage a = ''snailmail-approval/v1'' @ nul @ ap_PlanID a @ nul @ ap_Repository a @ nul @ ap_Approver a @ nul @ ap_ExpiresAt a"

text \<open>\<open>cr_sha256\<close> is the digest in lower-case hexadecimal.\<close>

definition approvalKeyID :: "crypto \<Rightarrow> gostring \<Rightarrow> gostring" where
  "approvalKeyID cr publicKey = ''ed25519:'' @ cr_sha256 cr publicKey"

fun verify_keys :: "crypto \<Rightarrow> Approval \<Rightarrow> gostring \<Rightarrow> gostring list \<Rightarrow> bool" where
  "verify_keys cr a signature [] = False"
| "verify_keys cr a signature (encoded # rest) =
     (case b64_decode encoded of
        Some publicKey \<Rightarrow>
          if length publicKey = 32 \<and> ap_Approver a = approvalKeyID cr publicKey \<and>
             cr_verify cr publicKey (approvalMessage a) signature then True
          else verify_keys cr a signature rest
      | None \<Rightarrow> verify_keys cr a signature rest)"

definition verifyApproval :: "crypto \<Rightarrow> Approval \<Rightarrow> gostring list \<Rightarrow> bool" where
  "verifyApproval cr a allowedKeys =
     (case b64_decode (ap_Signature a) of None \<Rightarrow> False
      | Some signature \<Rightarrow> if length signature \<noteq> 64 then False else verify_keys cr a signature allowedKeys)"

definition LoadApprovals :: "(gostring \<Rightarrow> ApprovalFile option) \<Rightarrow> gostring \<Rightarrow> gate_error + ApprovalFile" where
  "LoadApprovals read filename = (case read filename of None \<Rightarrow> Inl ApprovalsUnreadable
     | Some evidence \<Rightarrow> if af_SchemaVersion evidence \<noteq> ApprovalSchema then Inl ApprovalSchemaError else Inr evidence)"

fun find_approval :: "crypto \<Rightarrow> Requirement \<Rightarrow> Approval list \<Rightarrow> bool" where
  "find_approval cr req [] = False"
| "find_approval cr req (a # rest) =
     (if ap_PlanID a \<noteq> req_PlanID req \<or> ap_Repository a \<noteq> req_Repository req \<or> ap_Approver a = []
      then find_approval cr req rest
      else case parse_rfc3339 (ap_ExpiresAt a) of
        Some expiresAt \<Rightarrow> if req_Now req < expiresAt \<and> verifyApproval cr a (req_ApprovalKeys req) then True
          else find_approval cr req rest
      | None \<Rightarrow> find_approval cr req rest)"

definition requireApproval :: "crypto \<Rightarrow> (gostring \<Rightarrow> ApprovalFile option) \<Rightarrow> DefaultEvaluator \<Rightarrow> Requirement \<Rightarrow> gate_error option" where
  "requireApproval cr read evaluator req =
     (if ev_approvalFile evaluator = [] then Some NoApprovalFile
      else case LoadApprovals read (ev_approvalFile evaluator) of Inl e \<Rightarrow> Some e
      | Inr evidence \<Rightarrow> if find_approval cr req (af_Approvals evidence) then None
          else Some (LacksApproval (req_Repository req) (req_PlanID req)))"

text \<open>The content of a private key file, decoded: its schema version and the key.\<close>

definition SignApproval :: "crypto \<Rightarrow> (int \<times> gostring) option \<Rightarrow> gostring \<Rightarrow> gostring \<Rightarrow> gostring \<Rightarrow>
    gate_error + Approval \<times> gostring" where
  "SignApproval cr keyFile planID repository expiresAt =
     (case keyFile of None \<Rightarrow> Inl InvalidKeyFile
      | Some (schema, encoded) \<Rightarrow>
        if schema \<noteq> ApprovalSchema then Inl InvalidKeyFile
        else case b64_decode encoded of None \<Rightarrow> Inl InvalidPrivateKey
        | Some privateKey \<Rightarrow>
          if length privateKey \<noteq> 64 then Inl InvalidPrivateKey
          else let publicKey = cr_public cr privateKey;
                   a = \<lparr>ap_PlanID = planID, ap_Repository = repository, ap_Approver = approvalKeyID cr publicKey,
                        ap_ExpiresAt = expiresAt, ap_Signature = []\<rparr>
               in Inr (a\<lparr>ap_Signature := b64_encode (cr_sign cr privateKey (approvalMessage a))\<rparr>, b64_encode publicKey))"

subsection \<open>Merged pull requests\<close>

text \<open>
  The loop of \<^verbatim>\<open>verifyMergedPR\<close> asks for the ancestry once for every pull request that was merged into the branch,
  and passes over a call that fails: \<open>asked\<close> is the number of calls made so far, so that each call may be
  answered on its own.
\<close>

fun find_merged :: "forge \<Rightarrow> ForgeRepository \<Rightarrow> gostring \<Rightarrow> gostring \<Rightarrow> nat \<Rightarrow> PullRequest list \<Rightarrow> bool" where
  "find_merged provider targ revision branch asked [] = False"
| "find_merged provider targ revision branch asked (p # rest) =
     (if pull_Number p \<le> 0 \<or> \<not> pull_Merged p \<or> pull_BaseBranch p \<noteq> branch
      then find_merged provider targ revision branch asked rest
      else case forge_RevisionAncestry provider targ revision branch asked of
        Some ancestry \<Rightarrow> if anc_Contains ancestry \<and> anc_MergeBase ancestry = revision then True
          else find_merged provider targ revision branch (Suc asked) rest
      | None \<Rightarrow> find_merged provider targ revision branch (Suc asked) rest)"

definition verifyMergedPR :: "(ForgeRepository \<Rightarrow> forge option) option \<Rightarrow> Requirement \<Rightarrow> gostring \<Rightarrow> gate_error option" where
  "verifyMergedPR forges req revision =
     (if req_ForgeRepository req = [] then Some NoForgeRepository
      else case forges of None \<Rightarrow> Some NoForge
      | Some resolve \<Rightarrow>
        let targ = \<lparr>fr_Name = req_ForgeRepository req, fr_Provider = req_Forge req, fr_Host = req_ForgeHost req,
                      fr_WorkingDirectory = req_Root req\<rparr> in
        case resolve targ of None \<Rightarrow> Some ForgeNotSelected
        | Some provider \<Rightarrow>
          (case forge_Repository provider targ of None \<Rightarrow> Some RepositoryUnidentified
           | Some repository \<Rightarrow>
             (case forge_PullRequestsForRevision provider targ revision of None \<Rightarrow> Some ReviewUnavailable
              | Some pullRequests \<Rightarrow>
                if find_merged provider targ revision (ri_DefaultBranch repository) 0 pullRequests then None
                else Some (NotMerged revision (ri_DefaultBranch repository)))))"

definition Authorize :: "crypto \<Rightarrow> (gostring \<Rightarrow> ApprovalFile option) \<Rightarrow> DefaultEvaluator \<Rightarrow> Requirement \<Rightarrow> gate_error option" where
  "Authorize cr read evaluator req =
     (if req_Policy req = ''auto'' then None
      else if req_Policy req = ''pr'' then verifyMergedPR (ev_forges evaluator) req (req_GitRevision req)
      else if req_Policy req = ''approval'' then requireApproval cr read evaluator req
      else Some (UnsupportedGate (req_Policy req)))"

subsection \<open>What an authorization rests on\<close>

lemma verify_keys_iff:
  "verify_keys cr a signature keys \<longleftrightarrow> (\<exists>encoded \<in> set keys. \<exists>publicKey. b64_decode encoded = Some publicKey \<and>
     length publicKey = 32 \<and> ap_Approver a = approvalKeyID cr publicKey \<and> cr_verify cr publicKey (approvalMessage a) signature)"
  by (induction keys) (auto split: option.splits)

lemma find_approval_iff:
  "find_approval cr req approvals \<longleftrightarrow> (\<exists>a \<in> set approvals. ap_PlanID a = req_PlanID req \<and> ap_Repository a = req_Repository req \<and>
     ap_Approver a \<noteq> [] \<and> (\<exists>t. parse_rfc3339 (ap_ExpiresAt a) = Some t \<and> req_Now req < t) \<and>
     verifyApproval cr a (req_ApprovalKeys req))"
  by (induction approvals) (auto split: option.splits)




lemma approvalMessage_inj:
  assumes "approvalMessage a = approvalMessage b"
    and "nul_free (ap_PlanID a) \<and> nul_free (ap_Repository a) \<and> nul_free (ap_Approver a)"
    and "nul_free (ap_PlanID b) \<and> nul_free (ap_Repository b) \<and> nul_free (ap_Approver b)"
  shows "ap_PlanID a = ap_PlanID b" and "ap_Repository a = ap_Repository b" and "ap_Approver a = ap_Approver b"
    and "ap_ExpiresAt a = ap_ExpiresAt b"
  using assms by (simp_all add: approvalMessage_def nul_split)

text \<open>
  C22: an approval gate opens only for the plan that was approved. Let \<open>issued pk\<close> be the approvals signed
  with the private key of \<open>pk\<close>, and let signatures be unforgeable: a signature that verifies is one of
  an issued approval's message. If the gate authorizes a plan for a repository, then the owner of one of
  the repository's approval keys issued an approval with exactly this plan ID and this repository, and
  the expiry time it was issued with lies in the future.
\<close>

theorem approval_gate_binds_plan:
  assumes "Authorize cr read evaluator req = None" and "req_Policy req = ''approval''"
    and unforgeable: "\<And>pk msg sig. cr_verify cr pk msg sig \<Longrightarrow> \<exists>a \<in> issued pk. approvalMessage a = msg"
    and fields: "\<And>pk a. a \<in> issued pk \<Longrightarrow> nul_free (ap_PlanID a) \<and> nul_free (ap_Repository a) \<and> nul_free (ap_Approver a)"
    and digests: "\<And>s. nul_free (cr_sha256 cr s)"
    and "nul_free (req_PlanID req)" "nul_free (req_Repository req)"
  shows "\<exists>encoded \<in> set (req_ApprovalKeys req). \<exists>pk. b64_decode encoded = Some pk \<and>
    (\<exists>a \<in> issued pk. ap_PlanID a = req_PlanID req \<and> ap_Repository a = req_Repository req \<and>
       (\<exists>t. parse_rfc3339 (ap_ExpiresAt a) = Some t \<and> req_Now req < t))"
proof -
  obtain evidence where "LoadApprovals read (ev_approvalFile evaluator) = Inr evidence"
    "find_approval cr req (af_Approvals evidence)"
    using assms(1,2) by (auto simp: Authorize_def requireApproval_def split: if_splits sum.splits)
  then obtain a t where a: "ap_PlanID a = req_PlanID req" "ap_Repository a = req_Repository req"
    "parse_rfc3339 (ap_ExpiresAt a) = Some t" "req_Now req < t" "verifyApproval cr a (req_ApprovalKeys req)"
    by (auto simp: find_approval_iff)
  then obtain signature where "verify_keys cr a signature (req_ApprovalKeys req)"
    by (auto simp: verifyApproval_def split: option.splits if_splits)
  then obtain encoded pk where k: "encoded \<in> set (req_ApprovalKeys req)" "b64_decode encoded = Some pk"
    "ap_Approver a = approvalKeyID cr pk" "cr_verify cr pk (approvalMessage a) signature"
    by (auto simp: verify_keys_iff)
  obtain b where b: "b \<in> issued pk" "approvalMessage b = approvalMessage a" using unforgeable [OF k(4)] by blast
  have "nul_free (ap_PlanID a) \<and> nul_free (ap_Repository a) \<and> nul_free (ap_Approver a)"
    using a(1,2) k(3) assms(6,7) digests by (simp add: approvalKeyID_def nul_free_def)
  note same = approvalMessage_inj [OF b(2) fields [OF b(1)] this]
  show ?thesis using k(1,2) b(1) a same by metis
qed

text \<open>A requirement, and a scheme whose only valid signature is the one of a single approval.\<close>

definition sample_requirement :: Requirement where
  "sample_requirement = \<lparr>req_Policy = ''approval'', req_PlanID = ''p'', req_Repository = ''tools'', req_GitRevision = ''r'',
     req_Root = ''/w'', req_Now = 0, req_ForgeRepository = ''o/n'', req_Forge = ''github'', req_ForgeHost = [],
     req_ApprovalKeys = [b64_encode (replicate 32 (CHR ''k''))]\<rparr>"

definition sample_approval :: Approval where
  "sample_approval = \<lparr>ap_PlanID = ''p'', ap_Repository = ''tools'', ap_Approver = ''ed25519:d'',
     ap_ExpiresAt = ''2026-01-01T00:00:00Z'', ap_Signature = b64_encode (replicate 64 (CHR ''s''))\<rparr>"

definition sample_crypto :: crypto where
  "sample_crypto = \<lparr>cr_sha256 = (\<lambda>_. ''d''), cr_verify = (\<lambda>pk msg sig. msg = approvalMessage sample_approval),
     cr_sign = (\<lambda>sk msg. replicate 64 (CHR ''s'')), cr_public = (\<lambda>sk. take 32 sk)\<rparr>"

definition sample_evaluator :: DefaultEvaluator where
  "sample_evaluator = \<lparr>ev_approvalFile = ''f'', ev_forges = None\<rparr>"

definition sample_evidence :: "gostring \<Rightarrow> ApprovalFile option" where
  "sample_evidence f = Some \<lparr>af_SchemaVersion = 1, af_Approvals = [sample_approval]\<rparr>"

theorem approval_gate_binds_plan_witness:
  "\<exists>encoded \<in> set (req_ApprovalKeys sample_requirement). \<exists>pk. b64_decode encoded = Some pk \<and>
    (\<exists>a \<in> {sample_approval}. ap_PlanID a = ''p'' \<and> ap_Repository a = ''tools'' \<and>
       (\<exists>t. parse_rfc3339 (ap_ExpiresAt a) = Some t \<and> 0 < t))"
proof -
  have "Authorize sample_crypto sample_evidence sample_evaluator sample_requirement = None" by code_simp
  then have "\<exists>encoded \<in> set (req_ApprovalKeys sample_requirement). \<exists>pk. b64_decode encoded = Some pk \<and>
    (\<exists>a \<in> {sample_approval}. ap_PlanID a = req_PlanID sample_requirement \<and> ap_Repository a = req_Repository sample_requirement \<and>
       (\<exists>t. parse_rfc3339 (ap_ExpiresAt a) = Some t \<and> req_Now sample_requirement < t))"
    by (rule approval_gate_binds_plan)
       (auto simp: sample_requirement_def sample_crypto_def sample_approval_def nul_free_def)
  then show ?thesis by (simp add: sample_requirement_def)
qed

text \<open>
  C29: an approval made with \<^verbatim>\<open>SignApproval\<close> opens the gate it was made for. If the public key returned with
  it is among the repository's approval keys, the approval is in the evidence file and has not expired,
  then the gate authorizes the plan, provided the signature scheme verifies its own signatures.
\<close>

theorem signed_approval_authorizes:
  assumes "SignApproval cr keyFile (req_PlanID req) (req_Repository req) expiresAt = Inr (a, encoded)"
    and "encoded \<in> set (req_ApprovalKeys req)" and "req_Policy req = ''approval''"
    and "ev_approvalFile evaluator \<noteq> []" and "read (ev_approvalFile evaluator) = Some evidence"
    and "af_SchemaVersion evidence = ApprovalSchema" and "a \<in> set (af_Approvals evidence)"
    and "parse_rfc3339 expiresAt = Some t" and "req_Now req < t"
    and scheme: "\<And>sk msg. length sk = 64 \<Longrightarrow> length (cr_public cr sk) = 32 \<and> length (cr_sign cr sk msg) = 64 \<and>
      cr_verify cr (cr_public cr sk) msg (cr_sign cr sk msg)"
  shows "Authorize cr read evaluator req = None"
proof -
  obtain sk where sk: "length sk = 64" "encoded = b64_encode (cr_public cr sk)" and a: "ap_PlanID a = req_PlanID req"
    "ap_Repository a = req_Repository req" "ap_Approver a = approvalKeyID cr (cr_public cr sk)" "ap_ExpiresAt a = expiresAt"
    "ap_Signature a = b64_encode (cr_sign cr sk (approvalMessage a))"
    using assms(1) by (auto simp: SignApproval_def Let_def approvalMessage_def split: option.splits if_splits)
  have "verifyApproval cr a (req_ApprovalKeys req)"
    using sk a assms(2) scheme [OF sk(1), of "approvalMessage a"]
    by (auto simp: verifyApproval_def verify_keys_iff b64_decode_encode intro!: bexI [of _ encoded])
  then have "find_approval cr req (af_Approvals evidence)"
    using a assms(7,8,9) by (auto simp: find_approval_iff approvalKeyID_def)
  then show ?thesis using assms(3-6) by (simp add: Authorize_def requireApproval_def LoadApprovals_def)
qed

theorem signed_approval_authorizes_witness:
  "Authorize (sample_crypto\<lparr>cr_verify := \<lambda>_ _ _. True\<rparr>) (\<lambda>_. Some \<lparr>af_SchemaVersion = 1, af_Approvals =
       [sample_approval]\<rparr>) sample_evaluator sample_requirement = None"
proof (rule signed_approval_authorizes)
  show "SignApproval (sample_crypto\<lparr>cr_verify := \<lambda>_ _ _. True\<rparr>) (Some (1, b64_encode (replicate 64 (CHR ''k''))))
      (req_PlanID sample_requirement) (req_Repository sample_requirement) ''2026-01-01T00:00:00Z''
    = Inr (sample_approval, b64_encode (replicate 32 (CHR ''k'')))" by code_simp
  show "parse_rfc3339 ''2026-01-01T00:00:00Z'' = Some 63902822400000000000" by code_simp
  show "(\<lambda>_. Some \<lparr>af_SchemaVersion = 1, af_Approvals = [sample_approval]\<rparr>) (ev_approvalFile sample_evaluator)
    = Some \<lparr>af_SchemaVersion = 1, af_Approvals = [sample_approval]\<rparr>" by (rule refl)
qed (simp_all add: sample_requirement_def sample_evaluator_def sample_crypto_def ApprovalSchema_def)




end
