(* ===== verification/Apply.thy ===== *)
theory Apply
  imports Apply_Checks Gate "HOL-Library.Sublist"
begin

section \<open>Applying a plan\<close>

text \<open>
  The publication phases of \<^verbatim>\<open>engine/workspace.go\<close>, from \<^verbatim>\<open>authorize\<close> to \<^verbatim>\<open>ApplyWorkspace\<close>, as code that calls
  an environment: the clock, the gate evaluator, the hosts, Git, the ledger and receipt files, and the
  clients that verify a tree. The environment is an argument, a record of operations on a world it keeps
  to itself, so that what is proved here holds for every environment. Each call is logged with its
  arguments and its answer, and the properties are about that log: what has to have happened before a
  host is asked to switch a repository. Progress reports are not logged. The stage a host returned is kept in the list of prepared
  repositories, as the code keeps it, for the cleanup.
\<close>

datatype apply_error = NotPrepared plan_error | PlanExpired | NeedsGateEvidence gostring | GateFailed gostring | HostFailed host_failure
  | GitMoved | GitLockHeld | ObservationMismatch | ProbeFailed | ClientUnsupported gostring | StageFilesFailed | LedgerMismatch
  | LedgerFailed gostring | HookFailed | ReceiptsFailed | RestoreGate apply_error | RestoreHost host_failure
  | Compensated gostring apply_error | NotCompensated gostring apply_error apply_error

datatype event = ClockRead int | GateAsked Requirement bool | HeadAsserted gostring bool | RevisionAsserted gostring bool
  | GitLocked gostring bool | GitUnlocked | Observed gostring "host_failure + PublishedRevision"
  | AccessRead gostring "host_failure + ClientAccess" | FilesListed gostring "HostFile list option"
  | StageRequested gostring StageRequest "host_failure + StagedPublication"
  | CommitRequested gostring StagedPublication ExpectedRevision "host_failure + CommitResult"
  | RestoreRequested gostring RestoreRef ExpectedRevision "host_failure + PublishedRevision"
  | AbortRequested gostring StagedPublication "host_failure + unit" | CredentialDestroyed gostring
  | TreeVerified gostring gostring bool | EndpointProbed gostring ClientAccess bool
  | CleanGitRequired "gostring option" | LedgerRevisionRead "gostring option" | CommitPathsValidated gostring bool
  | LedgerValidated gostring gostring bool | RecordsPrepared gostring bool | LedgersCommitted "gostring list" "gostring option"
  | HookRun bool | ReceiptsCommitted gostring "DeploymentRecord list" bool

record 'w apply_env =
  env_clock :: "'w \<Rightarrow> 'w \<times> int"
  env_gates :: "(Requirement \<Rightarrow> 'w \<Rightarrow> 'w \<times> bool) option"
  env_host :: "HostRepository \<Rightarrow> 'w host"
  env_head :: "gostring \<Rightarrow> 'w \<Rightarrow> 'w \<times> bool"
  env_revision :: "gostring \<Rightarrow> 'w \<Rightarrow> 'w \<times> bool"
  env_git_lock :: "gostring \<Rightarrow> 'w \<Rightarrow> 'w \<times> bool"
  env_git_unlock :: "'w \<Rightarrow> 'w \<times> unit"
  env_destroy :: "gostring \<Rightarrow> 'w \<Rightarrow> 'w \<times> unit"
  env_output :: "Repository \<Rightarrow> gostring option"
  env_verify_tree :: "gostring \<Rightarrow> gostring \<Rightarrow> 'w \<Rightarrow> 'w \<times> bool"
  env_probe :: "gostring \<Rightarrow> gostring \<Rightarrow> ClientAccess \<Rightarrow> 'w \<Rightarrow> 'w \<times> bool"
  env_files :: "gostring \<Rightarrow> 'w \<Rightarrow> 'w \<times> HostFile list option"
  env_clean_git :: "'w \<Rightarrow> 'w \<times> gostring option"
  env_ledger_revision :: "gostring \<Rightarrow> 'w \<Rightarrow> 'w \<times> gostring option"
  env_commit_paths :: "gostring \<Rightarrow> gostring list \<Rightarrow> 'w \<Rightarrow> 'w \<times> bool"
  env_validate_ledger :: "gostring \<Rightarrow> applyRepository \<Rightarrow> RepositoryLock \<Rightarrow> 'w \<Rightarrow> 'w \<times> bool"
  env_prepare_records :: "applyRepository \<Rightarrow> RepositoryLock \<Rightarrow> 'w \<Rightarrow> 'w \<times> bool"
  env_commit_ledgers :: "gostring list \<Rightarrow> 'w \<Rightarrow> 'w \<times> gostring option"
  env_hook :: "('w \<Rightarrow> 'w \<times> bool) option"
  env_receipts :: "gostring \<Rightarrow> DeploymentRecord list \<Rightarrow> 'w \<Rightarrow> 'w \<times> bool"

record 'w apply_state =
  as_world :: 'w
  as_trace :: "event list"
  as_prepared :: "applyRepository list"
  as_Applied :: int
  as_Current :: int
  as_deployments :: "DeploymentRecord list"

type_synonym ('w, 'a) applying = "('w apply_state, apply_error, 'a) eff"

definition call :: "('w \<Rightarrow> 'w \<times> 'r) \<Rightarrow> ('r \<Rightarrow> event) \<Rightarrow> ('w, 'r) applying" where
  "call operation ev = (\<lambda>s. case operation (as_world s) of (w, r) \<Rightarrow> (s\<lparr>as_world := w, as_trace := as_trace s @ [ev r]\<rparr>, Inr r))"

definition expect :: "('w, bool) applying \<Rightarrow> apply_error \<Rightarrow> ('w, unit) applying" where
  "expect m e = andThen m (\<lambda>b. guard b e)"

definition expect_some :: "('w, 'a option) applying \<Rightarrow> apply_error \<Rightarrow> ('w, 'a) applying" where
  "expect_some m e = andThen m (\<lambda>r. case r of None \<Rightarrow> fail e | Some a \<Rightarrow> ok a)"

definition expect_host :: "('w, host_failure + 'a) applying \<Rightarrow> ('w, 'a) applying" where
  "expect_host m = andThen m (\<lambda>r. case r of Inl e \<Rightarrow> fail (HostFailed e) | Inr a \<Rightarrow> ok a)"

subsection \<open>Authorization and restoring\<close>

definition requirement :: "applyPreparation \<Rightarrow> applyRepository \<Rightarrow> int \<Rightarrow> Requirement" where
  "requirement prep item now =
     (let payload = plan_Payload (prep_plan prep) in
      \<lparr>req_Policy = repo_Gate (it_repository item), req_PlanID = plan_PlanID (prep_plan prep), req_Repository = it_Name item,
       req_GitRevision = pay_GitRevision payload, req_Root = prep_root prep, req_Now = now,
       req_ForgeRepository = pay_ForgeRepository payload, req_Forge = pay_Forge payload, req_ForgeHost = pay_ForgeHost payload,
       req_ApprovalKeys = plr_ApprovalKeys (it_planned item)\<rparr>)"

definition authorize :: "'w apply_env \<Rightarrow> applyPreparation \<Rightarrow> applyRepository \<Rightarrow> ('w, unit) applying" where
  "authorize env prep item =
     (if it_Action item = ''noop'' then ok ()
      else andThen (call (env_clock env) ClockRead) (\<lambda>now.
        andThen (guard (now < prep_expiresAt prep) PlanExpired) (\<lambda>_.
        if repo_Gate (it_repository item) = ''auto'' then ok ()
        else case env_gates env of None \<Rightarrow> fail (NeedsGateEvidence (it_Name item))
          | Some gates \<Rightarrow> expect (call (gates (requirement prep item now)) (GateAsked (requirement prep item now))) (GateFailed (it_Name item)))))"

definition restoreFailedPublication :: "'w apply_env \<Rightarrow> applyPreparation \<Rightarrow> applyRepository \<Rightarrow> RestoreRef \<Rightarrow> ExpectedRevision \<Rightarrow> ('w, unit) applying" where
  "restoreFailedPublication env prep item reference expected =
     andThen (attempt (authorize env prep item)) (\<lambda>gate. case gate of Inl e \<Rightarrow> fail (RestoreGate e)
     | Inr _ \<Rightarrow> andThen (call (host_Restore (env_host env (it_hostRepository item)) (it_hostRepository item) reference expected)
            (RestoreRequested (it_Name item) reference expected))
        (\<lambda>r. case r of Inl e \<Rightarrow> fail (RestoreHost e) | Inr _ \<Rightarrow> ok ()))"

subsection \<open>Verification by clients\<close>

definition verifyStaged :: "'w apply_env \<Rightarrow> applyRepository \<Rightarrow> gostring \<Rightarrow> ('w, unit) applying" where
  "verifyStaged env item directory =
     (if repo_Format (it_repository item) \<in> set [''pypi'', ''deb'', ''helm'', ''raw'', ''rpm'', ''apk'']
      then expect (call (env_verify_tree env (repo_Format (it_repository item)) directory) (TreeVerified (it_Name item) directory)) ProbeFailed
      else fail (ClientUnsupported (repo_Format (it_repository item))))"

definition endpointProbeExists :: "gostring \<Rightarrow> bool" where
  "endpointProbeExists format \<longleftrightarrow> format = ''pypi'' \<or> format = ''deb'' \<or> format = ''raw''"

definition verifyEndpointClient :: "'w apply_env \<Rightarrow> applyRepository \<Rightarrow> ClientAccess \<Rightarrow> ('w, unit) applying" where
  "verifyEndpointClient env item access =
     (let r = it_repository item in
      if \<not> fs_RemoteClientVerification (Supports (host_Type (repo_Host r)) (repo_Format r)) then fail (ClientUnsupported (repo_Format r))
      else if \<not> endpointProbeExists (repo_Format r) then verifyStaged env item (it_stage item)
      else expect (call (env_probe env (repo_Format r) (it_stage item) access) (EndpointProbed (it_Name item) access)) ProbeFailed)"

definition verifyCanonicalClient :: "'w apply_env \<Rightarrow> applyRepository \<Rightarrow> ClientAccess \<Rightarrow> ('w, unit) applying" where
  "verifyCanonicalClient env item access =
     (if host_Type (repo_Host (it_repository item)) = ''local''
      then (case env_output env (it_repository item) of None \<Rightarrow> fail ProbeFailed | Some output \<Rightarrow> verifyStaged env item output)
      else verifyEndpointClient env item access)"

subsection \<open>Publishing one repository\<close>

definition recordDeployment :: "'w apply_env \<Rightarrow> applyPreparation \<Rightarrow> applyRepository \<Rightarrow> gostring \<Rightarrow> ('w, unit) applying" where
  "recordDeployment env prep item nativeRevision =
     andThen (call (env_clock env) ClockRead) (\<lambda>now.
       update (\<lambda>s. s\<lparr>as_deployments := as_deployments s @ [deploymentRecordFor format_rfc3339 (it_planned item) (it_deployment item) (it_observed item)
         (it_signing item) nativeRevision (plan_PlanID (prep_plan prep)) (pay_CreatedAt (plan_Payload (prep_plan prep))) now]\<rparr>))"

definition restore_ref_of :: "PublishedRevision \<Rightarrow> RestoreRef" where
  "restore_ref_of observed = \<lparr>rr_ID = pub_RestoreID observed, rr_PlanID = pub_PlanID observed, rr_ChangeID = pub_ChangeID observed,
     rr_FailedTree = pub_TreeSHA256 observed, rr_DescriptorSHA256 = pub_RestoreSHA256 observed, rr_RootSHA256 = pub_RestoreRootSHA256 observed\<rparr>"

definition retry_failed :: "'w apply_env \<Rightarrow> applyPreparation \<Rightarrow> applyRepository \<Rightarrow> apply_error \<Rightarrow> ('w, unit) applying" where
  "retry_failed env prep item err =
     (if pub_RestoreID (it_observed item) = [] then fail err
      else andThen (attempt (restoreFailedPublication env prep item (restore_ref_of (it_observed item))
            (expectedRevisionFromPublished (it_observed item))))
        (\<lambda>r. case r of Inl restoreErr \<Rightarrow> fail (NotCompensated ''canonical retry probe failed'' err restoreErr)
         | Inr _ \<Rightarrow> andThen (update (\<lambda>s. s\<lparr>as_Current := as_Current s - 1\<rparr>)) (\<lambda>_. fail err)))"

definition verifyCurrent :: "'w apply_env \<Rightarrow> applyPreparation \<Rightarrow> applyRepository \<Rightarrow> ('w, unit) applying" where
  "verifyCurrent env prep item =
     andThen (update (\<lambda>s. s\<lparr>as_Current := as_Current s + 1\<rparr>)) (\<lambda>_.
     andThen (if prep_StructuralOnly prep \<or> it_Action item = ''noop'' then ok ()
        else andThen (expect_host (call (host_ReadAccess (env_host env (it_hostRepository item)) (it_hostRepository item) (it_observed item))
               (AccessRead (it_Name item)))) (\<lambda>access.
             andThen (attempt (verifyCanonicalClient env item access)) (\<lambda>probe. case probe of
               Inl err \<Rightarrow> retry_failed env prep item err | Inr _ \<Rightarrow> ok ()))) (\<lambda>_.
     if it_Action item = ''noop'' then ok () else recordDeployment env prep item (pub_NativeRevision (it_observed item))))"

text \<open>It always fails, with the outcome of the restore attached.\<close>

definition restore :: "'w apply_env \<Rightarrow> applyPreparation \<Rightarrow> applyRepository \<Rightarrow> CommitResult \<Rightarrow> apply_error \<Rightarrow> gostring \<Rightarrow> ('w, unit) applying" where
  "restore env prep item committed probeErr label =
     (case cr_RestoreRef committed of None \<Rightarrow> fail (Compensated label probeErr)
      | Some reference \<Rightarrow>
        andThen (attempt (restoreFailedPublication env prep item reference (expectedRevisionFromPublished (cr_Revision committed)))) (\<lambda>r. case r of
          Inl restoreErr \<Rightarrow> fail (NotCompensated label probeErr restoreErr)
        | Inr _ \<Rightarrow> andThen (update (\<lambda>s. s\<lparr>as_Applied := as_Applied s - 1\<rparr>)) (\<lambda>_. fail (Compensated label probeErr))))"

definition observed_as_committed :: "applyRepository \<Rightarrow> CommitResult \<Rightarrow> PublishedRevision \<Rightarrow> bool" where
  "observed_as_committed item committed canonical \<longleftrightarrow>
     \<not> (pub_TreeSHA256 canonical \<noteq> plr_DesiredTreeSHA256 (it_planned item) \<or>
        pub_NativeRevision canonical \<noteq> pub_NativeRevision (cr_Revision committed) \<or>
        (hr_Type (it_hostRepository item) = ''s3'' \<and> canonical \<noteq> cr_Revision committed))"

definition confirm :: "'w apply_env \<Rightarrow> applyPreparation \<Rightarrow> gostring \<Rightarrow> applyRepository \<Rightarrow> CommitResult \<Rightarrow> ('w, unit) applying" where
  "confirm env prep gitRevision item committed =
     andThen (update (\<lambda>s. s\<lparr>as_Applied := as_Applied s + 1\<rparr>)) (\<lambda>_.
     andThen (call (host_Observe (env_host env (it_hostRepository item)) (it_hostRepository item)) (Observed (it_Name item))) (\<lambda>seen.
     case seen of Inl e \<Rightarrow> restore env prep item committed (HostFailed e) ''canonical probe failed''
     | Inr canonical \<Rightarrow>
       if \<not> observed_as_committed item committed canonical
       then restore env prep item committed ObservationMismatch ''canonical probe failed''
       else andThen (if prep_StructuralOnly prep then ok (Inr ())
             else attempt (verifyCanonicalClient env item (let access = cr_Access committed in
                    if ca_Endpoint access = [] then access\<lparr>ca_Endpoint := cr_CanonicalEndpoint committed\<rparr> else access))) (\<lambda>probe.
           case probe of Inl err \<Rightarrow> restore env prep item committed err ''canonical client probe failed''
           | Inr _ \<Rightarrow> andThen (expect (call (env_head env gitRevision) (HeadAsserted gitRevision)) GitMoved) (\<lambda>_.
               recordDeployment env prep item (pub_NativeRevision (cr_Revision committed))))))"

definition publish :: "'w apply_env \<Rightarrow> applyPreparation \<Rightarrow> gostring \<Rightarrow> applyRepository \<Rightarrow> ('w, unit) applying" where
  "publish env prep gitRevision item =
     andThen (expect (call (env_head env gitRevision) (HeadAsserted gitRevision)) GitMoved) (\<lambda>_.
     andThen (authorize env prep item) (\<lambda>_.
     andThen (expect_host (call (host_Commit (env_host env (it_hostRepository item)) (it_hostRepository item) (it_hostStage item)
           (expectedRevisionFromPlan (it_planned item)))
         (CommitRequested (it_Name item) (it_hostStage item) (expectedRevisionFromPlan (it_planned item))))) (\<lambda>committed.
     case ca_Credential (cr_Access committed) of None \<Rightarrow> confirm env prep gitRevision item committed
     | Some credential \<Rightarrow> deferred (confirm env prep gitRevision item committed) (call (env_destroy env credential) (\<lambda>_. CredentialDestroyed (it_Name item))))))"

subsection \<open>Staging\<close>

definition stage_request :: "applyPreparation \<Rightarrow> applyRepository \<Rightarrow> HostFile list \<Rightarrow> StageRequest" where
  "stage_request prep item files = \<lparr>sr_PlanID = plan_PlanID (prep_plan prep), sr_ChangeID = plr_ChangeID (it_planned item),
     sr_PreviousRevision = plr_ObservedRevision (it_planned item), sr_Directory = it_stage item,
     sr_TreeSHA256 = plr_DesiredTreeSHA256 (it_planned item), sr_Files = files, sr_CommitPaths = repositoryCommitPaths (it_repository item)\<rparr>"

definition verify_preview :: "'w apply_env \<Rightarrow> applyPreparation \<Rightarrow> applyRepository \<Rightarrow> StagedPublication \<Rightarrow> ('w, unit) applying" where
  "verify_preview env prep item staged =
     (let hostType = hr_Type (it_hostRepository item);
          access = (let a = sp_Access staged in if ca_Endpoint a = [] then a\<lparr>ca_Endpoint := sp_PreviewEndpoint staged\<rparr> else a) in
      if prep_StructuralOnly prep then ok ()
      else if hostType = ''local'' then verifyStaged env item (it_stage item)
      else if \<not> fs_RemoteClientVerification (Supports hostType (repo_Format (it_repository item))) then fail (ClientUnsupported (repo_Format (it_repository item)))
      else if ca_Endpoint access = [] then verifyStaged env item (it_stage item)
      else verifyEndpointClient env item access)"

definition stage_one :: "'w apply_env \<Rightarrow> applyPreparation \<Rightarrow> nat \<Rightarrow> ('w, unit) applying" where
  "stage_one env prep index =
     andThen (gets (\<lambda>s. as_prepared s ! index)) (\<lambda>item.
     if it_current item then ok ()
     else andThen (expect_some (call (env_files env (it_stage item)) (FilesListed (it_Name item))) StageFilesFailed) (\<lambda>files.
       andThen (authorize env prep item) (\<lambda>_.
       andThen (expect_host (call (host_Stage (env_host env (it_hostRepository item)) (it_hostRepository item) (stage_request prep item files))
          (StageRequested (it_Name item) (stage_request prep item files)))) (\<lambda>staged.
       andThen (update (\<lambda>s. s\<lparr>as_prepared := (as_prepared s)[index := item\<lparr>it_hostStage := staged\<rparr>]\<rparr>)) (\<lambda>_.
       verify_preview env prep item staged)))))"

definition stageOnHosts :: "'w apply_env \<Rightarrow> applyPreparation \<Rightarrow> ('w, unit) applying" where
  "stageOnHosts env prep = andThen (gets (\<lambda>s. length (as_prepared s))) (\<lambda>n. each (stage_one env prep) [0..<n])"

subsection \<open>Ledgers and receipts\<close>

definition with_records :: "applyRepository list \<Rightarrow> applyRepository list" where
  "with_records items = filter (\<lambda>item. plr_PublicationRecords (it_planned item)) items"

definition validate_ledgers :: "'w apply_env \<Rightarrow> gostring \<Rightarrow> applyRepository list \<Rightarrow> ('w, unit) applying" where
  "validate_ledgers env ledgerRevision items = each (\<lambda>item. expect
     (call (env_validate_ledger env ledgerRevision item (activeRepositoryLock (it_lock item) (it_repository item))) (LedgerValidated ledgerRevision (it_Name item)))
     (LedgerFailed (it_Name item))) (with_records items)"

definition committed_before :: "'w apply_env \<Rightarrow> applyPreparation \<Rightarrow> applyRepository list \<Rightarrow> ('w, gostring) applying" where
  "committed_before env prep items =
     andThen (expect_some (call (env_clean_git env) CleanGitRequired) LedgerMismatch) (\<lambda>applyGitRevision.
     if prep_ledgerRepositories prep = [] then ok applyGitRevision
     else andThen (expect_some (call (env_ledger_revision env (plan_PlanID (prep_plan prep))) LedgerRevisionRead) (LedgerFailed [])) (\<lambda>ledgerRevision.
       andThen (expect (call (env_commit_paths env ledgerRevision (prep_ledgerRepositories prep)) (CommitPathsValidated ledgerRevision)) (LedgerFailed [])) (\<lambda>_.
       andThen (validate_ledgers env ledgerRevision items) (\<lambda>_. ok applyGitRevision))))"

definition commitPublicationLedgers :: "'w apply_env \<Rightarrow> applyPreparation \<Rightarrow> applyRepository list \<Rightarrow> ('w, gostring) applying" where
  "commitPublicationLedgers env prep items =
     andThen (if prep_ledgerCommitted prep then committed_before env prep items else ok []) (\<lambda>earlier.
     andThen (each (\<lambda>item. expect (call (env_prepare_records env item (activeRepositoryLock (it_lock item) (it_repository item)))
        (RecordsPrepared (it_Name item))) (LedgerFailed (it_Name item))) (with_records items)) (\<lambda>_.
     if prep_ledgerCommitted prep then ok earlier
     else if prep_ledgerRepositories prep = [] then ok (pay_GitRevision (plan_Payload (prep_plan prep)))
     else andThen (expect_some (call (env_commit_ledgers env (prep_ledgerRepositories prep)) (LedgersCommitted (prep_ledgerRepositories prep))) (LedgerFailed [])) (\<lambda>ledgerRevision.
       andThen (expect (call (env_commit_paths env ledgerRevision (prep_ledgerRepositories prep)) (CommitPathsValidated ledgerRevision)) (LedgerFailed [])) (\<lambda>_.
       andThen (validate_ledgers env ledgerRevision items) (\<lambda>_. ok ledgerRevision)))))"

definition publish_all :: "'w apply_env \<Rightarrow> applyPreparation \<Rightarrow> gostring \<Rightarrow> applyRepository list \<Rightarrow> ('w, unit) applying" where
  "publish_all env prep gitRevision items =
     each (\<lambda>item. if it_current item then verifyCurrent env prep item else publish env prep gitRevision item) items"

definition write_receipts :: "'w apply_env \<Rightarrow> gostring \<Rightarrow> ('w, unit) applying" where
  "write_receipts env gitRevision =
     andThen (case env_hook env of None \<Rightarrow> ok () | Some hook \<Rightarrow> expect (call hook HookRun) HookFailed) (\<lambda>_.
     andThen (gets as_deployments) (\<lambda>records.
     expect (call (env_receipts env gitRevision records) (ReceiptsCommitted gitRevision records)) ReceiptsFailed))"

text \<open>The lock on the Git revision is released before the receipts are written, and on every other way out.\<close>

definition publishAndRecord :: "'w apply_env \<Rightarrow> applyPreparation \<Rightarrow> gostring \<Rightarrow> ('w, unit) applying" where
  "publishAndRecord env prep gitRevision =
     andThen (gets as_prepared) (\<lambda>items.
     if list_ex (\<lambda>item. \<not> it_current item) items
     then andThen (expect (call (env_git_lock env gitRevision) (GitLocked gitRevision)) GitLockHeld) (\<lambda>_.
       andThen (deferred (publish_all env prep gitRevision items) (call (env_git_unlock env) (\<lambda>_. GitUnlocked))) (\<lambda>_.
       write_receipts env gitRevision))
     else andThen (expect (call (env_revision env gitRevision) (RevisionAsserted gitRevision)) GitMoved) (\<lambda>_.
       andThen (publish_all env prep gitRevision items) (\<lambda>_. write_receipts env gitRevision)))"

subsection \<open>The whole apply\<close>

text \<open>
  The repositories are prepared concurrently; their results are kept in the order of the plan, and the
  first failure in that order is the one reported.
\<close>

definition prepareRepositories :: "(plan_error + applyRepository) list \<Rightarrow> plan_error + applyRepository list" where
  "prepareRepositories results = (case filter isl results of Inl e # _ \<Rightarrow> Inl e | _ \<Rightarrow> Inr (map projr results))"

definition abort_stages :: "'w apply_env \<Rightarrow> ('w, unit) applying" where
  "abort_stages env = andThen (gets as_prepared) (\<lambda>items. each (\<lambda>item.
     if sp_ID (it_hostStage item) = [] then ok ()
     else andThen (call (host_Abort (env_host env (it_hostRepository item)) (it_hostRepository item) (it_hostStage item))
       (AbortRequested (it_Name item) (it_hostStage item))) (\<lambda>_. ok ())) items)"

record ApplyWorkspaceResult =
  res_PlanID :: gostring
  res_Applied :: int
  res_Current :: int
  res_DryRun :: bool

definition apply_phases :: "'w apply_env \<Rightarrow> applyPreparation \<Rightarrow> applyRepository list \<Rightarrow> ('w, unit) applying" where
  "apply_phases env prep prepared =
     andThen (each (authorize env prep) prepared) (\<lambda>_.
     if prep_DryRun prep then ok ()
     else deferred (andThen (stageOnHosts env prep) (\<lambda>_.
       andThen (gets as_prepared) (\<lambda>items.
       andThen (if prep_ledgerCommitted prep then ok () else each (authorize env prep) (with_records items)) (\<lambda>_.
       andThen (commitPublicationLedgers env prep items) (\<lambda>gitRevision.
       publishAndRecord env prep gitRevision))))) (abort_stages env))"

text \<open>\<open>ApplyWorkspace\<close> from the opened plan on: the log, the error if there was one, and the result.\<close>

definition ApplyWorkspace :: "'w apply_env \<Rightarrow> applyPreparation \<Rightarrow> (plan_error + applyRepository) list \<Rightarrow> 'w \<Rightarrow>
    'w apply_state \<times> (apply_error + ApplyWorkspaceResult)" where
  "ApplyWorkspace env prep results w =
     (let start = \<lparr>as_world = w, as_trace = [], as_prepared = [], as_Applied = 0, as_Current = 0, as_deployments = []\<rparr> in
      case prepareRepositories results of Inl e \<Rightarrow> (start, Inl (NotPrepared e))
      | Inr prepared \<Rightarrow>
        (case apply_phases env prep prepared (start\<lparr>as_prepared := prepared\<rparr>) of
           (s, Inl e) \<Rightarrow> (s, Inl e)
         | (s, Inr _) \<Rightarrow> (s, Inr (if prep_DryRun prep
             then \<lparr>res_PlanID = plan_PlanID (prep_plan prep), res_Applied = int (length (filter (\<lambda>i. \<not> it_current i) prepared)),
               res_Current = int (length prepared) - int (length (filter (\<lambda>i. \<not> it_current i) prepared)), res_DryRun = True\<rparr>
             else \<lparr>res_PlanID = plan_PlanID (prep_plan prep), res_Applied = as_Applied s, res_Current = as_Current s, res_DryRun = False\<rparr>))))"

end
