(* ===== verification/Apply_Order.thy ===== *)
theory Apply_Order
  imports Apply
begin

section \<open>The order of an apply\<close>

text \<open>
  What has to be in the log before an event that changes something outside: \<open>permitted\<close> says, for a log
  so far and the next event, whether the event may happen. The events that only read are always
  permitted.
\<close>

definition authorization :: "applyPreparation \<Rightarrow> applyRepository \<Rightarrow> event list \<Rightarrow> bool" where
  "authorization prep item seg \<longleftrightarrow> (\<exists>now. now < prep_expiresAt prep \<and>
     (repo_Gate (it_repository item) = ''auto'' \<and> seg = [ClockRead now] \<or> seg = [ClockRead now, GateAsked (requirement prep item now) True]))"

definition just_authorized :: "applyPreparation \<Rightarrow> applyRepository \<Rightarrow> event list \<Rightarrow> bool" where
  "just_authorized prep item t \<longleftrightarrow> (\<exists>t0 seg. t = t0 @ seg \<and> authorization prep item seg)"

definition confirmation :: "applyRepository list \<Rightarrow> gostring \<Rightarrow> event \<Rightarrow> bool" where
  "confirmation items name e \<longleftrightarrow> (\<exists>item \<in> set items. \<exists>canonical. it_Name item = name \<and> e = Observed name (Inr canonical) \<and>
     pub_TreeSHA256 canonical = plr_DesiredTreeSHA256 (it_planned item))"

text \<open>Every switch so far was followed at once by the observation of the desired tree.\<close>

definition confirmed :: "applyRepository list \<Rightarrow> event list \<Rightarrow> bool" where
  "confirmed items t \<longleftrightarrow> (\<forall>i name stage expected r. i < length t \<longrightarrow> t ! i = CommitRequested name stage expected r \<longrightarrow>
     Suc i < length t \<and> confirmation items name (t ! Suc i))"

definition earned :: "applyRepository list \<Rightarrow> event list \<Rightarrow> DeploymentRecord \<Rightarrow> bool" where
  "earned items t receipt \<longleftrightarrow> (\<exists>item \<in> set items. dr_Repository receipt = it_Name item \<and>
     dr_TreeSHA256 receipt = plr_DesiredTreeSHA256 (it_planned item) \<and>
     (if it_current item then dr_NativeRevision receipt = pub_NativeRevision (it_observed item)
      else \<exists>i stage expected committed canonical. Suc i < length t \<and> t ! i = CommitRequested (it_Name item) stage expected (Inr committed) \<and>
        t ! Suc i = Observed (it_Name item) (Inr canonical) \<and> pub_TreeSHA256 canonical = plr_DesiredTreeSHA256 (it_planned item) \<and>
        pub_NativeRevision canonical = dr_NativeRevision receipt))"

definition staged_in :: "event list \<Rightarrow> applyRepository \<Rightarrow> bool" where
  "staged_in t item \<longleftrightarrow> (\<exists>req stage. StageRequested (it_Name item) req (Inr stage) \<in> set t)"

definition recorded_in :: "applyPreparation \<Rightarrow> applyRepository list \<Rightarrow> event list \<Rightarrow> bool" where
  "recorded_in prep items t \<longleftrightarrow> (\<forall>item \<in> set (with_records items). RecordsPrepared (it_Name item) True \<in> set t) \<and>
     (\<not> prep_ledgerCommitted prep \<and> prep_ledgerRepositories prep \<noteq> [] \<longrightarrow>
       (\<exists>gitRev. LedgersCommitted (prep_ledgerRepositories prep) (Some gitRev) \<in> set t))"

definition all_staged :: "applyRepository list \<Rightarrow> event list \<Rightarrow> bool" where
  "all_staged items t \<longleftrightarrow> (\<forall>item \<in> set items. \<not> it_current item \<longrightarrow> staged_in t item)"

fun is_commit :: "event \<Rightarrow> bool" where
  "is_commit (CommitRequested name stage expected r) = True"
| "is_commit e = False"

text \<open>Git's lock was taken on the revision and has not been let go since.\<close>

definition git_held :: "gostring \<Rightarrow> event list \<Rightarrow> bool" where
  "git_held gitRev t \<longleftrightarrow> (\<exists>before since. t = before @ GitLocked gitRev True # since \<and> GitUnlocked \<notin> set since)"

fun permitted :: "applyPreparation \<Rightarrow> applyRepository list \<Rightarrow> event list \<Rightarrow> event \<Rightarrow> bool" where
  "permitted prep items t (StageRequested name req r) = (list_all (\<lambda>e. \<not> is_commit e) t \<and>
     (\<exists>item \<in> set items. it_Name item = name \<and> \<not> it_current item \<and> just_authorized prep item t \<and>
       sr_TreeSHA256 req = plr_DesiredTreeSHA256 (it_planned item)))"
| "permitted prep items t (LedgersCommitted repositories r) = (list_all (\<lambda>e. \<not> is_commit e) t \<and> all_staged items t)"
| "permitted prep items t (CommitRequested name stage expected r) =
     (all_staged items t \<and> recorded_in prep items t \<and> confirmed items t \<and>
      (\<exists>req. StageRequested name req (Inr stage) \<in> set t) \<and>
      (\<exists>item \<in> set items. \<exists>t0 gitRev seg. it_Name item = name \<and> \<not> it_current item \<and> expected = expectedRevisionFromPlan (it_planned item) \<and>
         t = t0 @ HeadAsserted gitRev True # seg \<and> authorization prep item seg \<and> git_held gitRev t0))"
| "permitted prep items t (RestoreRequested name reference expected r) =
     (\<exists>item \<in> set items. it_Name item = name \<and> just_authorized prep item t \<and>
       (if it_current item then reference = restore_ref_of (it_observed item) \<and> expected = expectedRevisionFromPublished (it_observed item)
        else \<exists>stage e committed. CommitRequested name stage e (Inr committed) \<in> set t \<and> cr_RestoreRef committed = Some reference \<and>
          expected = expectedRevisionFromPublished (cr_Revision committed)))"
| "permitted prep items t (ReceiptsCommitted gitRev records r) = (confirmed items t \<and> (\<forall>receipt \<in> set records. earned items t receipt))"
| "permitted prep items t e = True"

definition ordered :: "applyPreparation \<Rightarrow> applyRepository list \<Rightarrow> event list \<Rightarrow> bool" where
  "ordered prep items t \<longleftrightarrow> (\<forall>i < length t. permitted prep items (take i t) (t ! i))"

lemma ordered_Nil [simp]: "ordered prep items []"
  by (simp add: ordered_def)

lemma ordered_snoc [simp]: "ordered prep items (t @ [e]) \<longleftrightarrow> ordered prep items t \<and> permitted prep items t e"
  by (auto simp: ordered_def less_Suc_eq nth_append)

subsection \<open>Code that only reads\<close>

fun benign :: "event \<Rightarrow> bool" where
  "benign (StageRequested name req r) = False"
| "benign (CommitRequested name stage expected r) = False"
| "benign (RestoreRequested name reference expected r) = False"
| "benign (LedgersCommitted repositories r) = False"
| "benign (ReceiptsCommitted gitRev records r) = False"
| "benign GitUnlocked = False"
| "benign e = True"

lemma benign_permitted: "benign e \<Longrightarrow> permitted prep items t e"
  by (cases e) auto

lemma ordered_benign: "ordered prep items t \<Longrightarrow> list_all benign evs \<Longrightarrow> ordered prep items (t @ evs)"
proof (induction evs rule: rev_induct)
  case (snoc e evs)
  then show ?case using benign_permitted by (simp flip: append_assoc)
qed simp

abbreviation logged :: "'w apply_state \<Rightarrow> 'w \<Rightarrow> event list \<Rightarrow> 'w apply_state" where
  "logged s w evs \<equiv> s\<lparr>as_world := w, as_trace := as_trace s @ evs\<rparr>"

definition reads :: "('w, 'a) applying \<Rightarrow> (event list \<Rightarrow> 'a \<Rightarrow> bool) \<Rightarrow> bool" where
  "reads m Q \<longleftrightarrow> (\<forall>s. \<exists>w evs r. m s = (logged s w evs, r) \<and> list_all benign evs \<and> (\<forall>a. r = Inr a \<longrightarrow> Q evs a))"

lemma reads_weaken: "reads m Q \<Longrightarrow> (\<And>evs a. list_all benign evs \<Longrightarrow> Q evs a \<Longrightarrow> Q' evs a) \<Longrightarrow> reads m Q'"
  unfolding reads_def by metis

lemma reads_pure:
  assumes "\<And>s. m s = (s, r)" and "\<And>a. r = Inr a \<Longrightarrow> Q [] a"
  shows "reads m Q"
  unfolding reads_def
proof
  fix s
  have "m s = (logged s (as_world s) [], r)" using assms(1) by simp
  then show "\<exists>w evs r. m s = (logged s w evs, r) \<and> list_all benign evs \<and> (\<forall>a. r = Inr a \<longrightarrow> Q evs a)"
    using assms(2) by (intro exI [of _ "as_world s"] exI [of _ "[]"] exI [of _ r]) simp
qed

lemma reads_ok: "Q [] a \<Longrightarrow> reads (ok a) Q"
  by (rule reads_pure [where r = "Inr a"]) (simp_all add: ok_def)

lemma reads_fail: "reads (fail e) Q"
  by (rule reads_pure [where r = "Inl e"]) (simp_all add: fail_def)

lemma reads_guard: "(b \<Longrightarrow> Q [] ()) \<Longrightarrow> reads (guard b e) Q"
  by (simp add: guard_def reads_ok reads_fail)

lemma reads_call: "(\<And>r. benign (ev r)) \<Longrightarrow> (\<And>r. Q [ev r] r) \<Longrightarrow> reads (call operation ev) Q"
  by (auto simp: reads_def call_def split: prod.splits intro!: exI [of _ "[_]"])

lemma reads_andThen:
  assumes "reads m R" and "\<And>evs a. R evs a \<Longrightarrow> reads (f a) (\<lambda>evs'. Q (evs @ evs'))"
  shows "reads (andThen m f) Q"
  unfolding reads_def
proof
  fix s
  obtain w evs r where m: "m s = (logged s w evs, r)" "list_all benign evs" "\<And>a. r = Inr a \<Longrightarrow> R evs a"
    using assms(1) unfolding reads_def by metis
  show "\<exists>w evs r. andThen m f s = (logged s w evs, r) \<and> list_all benign evs \<and> (\<forall>a. r = Inr a \<longrightarrow> Q evs a)"
  proof (cases r)
    case (Inl e)
    then show ?thesis using m by (auto simp: andThen_def)
  next
    case (Inr a)
    obtain w' evs' r' where f: "f a (logged s w evs) = (logged (logged s w evs) w' evs', r')" "list_all benign evs'"
        "\<And>b. r' = Inr b \<Longrightarrow> Q (evs @ evs') b"
      using assms(2) [OF m(3) [OF Inr]] unfolding reads_def by metis
    have "andThen m f s = (logged s w' (evs @ evs'), r')" using m(1) Inr f(1) by (simp add: andThen_def)
    then show ?thesis using m(2) f(2,3) by (intro exI [of _ w'] exI [of _ "evs @ evs'"] exI [of _ r']) simp
  qed
qed

lemma reads_attempt:
  assumes "reads m (\<lambda>evs a. Q evs (Inr a))" and "\<And>evs e. Q evs (Inl e)"
  shows "reads (attempt m) Q"
  unfolding reads_def
proof
  fix s
  obtain w evs r where m: "m s = (logged s w evs, r)" "list_all benign evs" "\<And>a. r = Inr a \<Longrightarrow> Q evs (Inr a)"
    using assms(1) unfolding reads_def by metis
  have "Q evs r" using m(3) assms(2) by (cases r) auto
  then show "\<exists>w evs r. attempt m s = (logged s w evs, r) \<and> list_all benign evs \<and> (\<forall>a. r = Inr a \<longrightarrow> Q evs a)"
    using m(1,2) by (auto simp: attempt_def)
qed

lemma reads_expect: "reads m (\<lambda>evs b. b \<longrightarrow> Q evs ()) \<Longrightarrow> reads (expect m e) Q"
  unfolding expect_def by (erule reads_andThen) (auto intro: reads_guard)

lemma reads_expect_some: "reads m (\<lambda>evs r. \<forall>a. r = Some a \<longrightarrow> Q evs a) \<Longrightarrow> reads (expect_some m e) Q"
  unfolding expect_some_def by (erule reads_andThen) (auto split: option.split intro: reads_ok reads_fail)

lemma reads_expect_host: "reads m (\<lambda>evs r. \<forall>a. r = Inr a \<longrightarrow> Q evs a) \<Longrightarrow> reads (expect_host m) Q"
  unfolding expect_host_def by (erule reads_andThen) (auto split: sum.split intro: reads_ok reads_fail)

lemma reads_each: "(\<And>x. x \<in> set xs \<Longrightarrow> reads (f x) (\<lambda>_ _. True)) \<Longrightarrow> reads (each f xs) (\<lambda>_ _. True)"
  by (induction xs) (auto intro: reads_ok reads_andThen)

text \<open>What the parts that only read leave in the log.\<close>

lemma authorize_reads:
  "reads (authorize env prep item) (\<lambda>evs _. it_Action item = ''noop'' \<or> authorization prep item evs)"
proof (cases "it_Action item = ''noop''")
  case True
  then show ?thesis by (simp add: authorize_def reads_ok)
next
  case False
  have "reads (authorize env prep item) (\<lambda>evs _. authorization prep item evs)"
    unfolding authorize_def if_not_P [OF False]
  proof (rule reads_andThen)
    show "reads (call (env_clock env) ClockRead) (\<lambda>evs now. evs = [ClockRead now])" by (rule reads_call) simp_all
    fix evs now assume evs: "evs = [ClockRead now]"
    show "reads (andThen (guard (now < prep_expiresAt prep) PlanExpired) (\<lambda>_. if repo_Gate (it_repository item) = ''auto'' then ok ()
        else case env_gates env of None \<Rightarrow> fail (NeedsGateEvidence (it_Name item))
          | Some gates \<Rightarrow> expect (call (gates (requirement prep item now)) (GateAsked (requirement prep item now))) (GateFailed (it_Name item))))
      (\<lambda>evs' _. authorization prep item (evs @ evs'))"
    proof (rule reads_andThen)
      show "reads (guard (now < prep_expiresAt prep) PlanExpired) (\<lambda>evs _. evs = [] \<and> now < prep_expiresAt prep)" by (rule reads_guard) simp
    qed (auto simp: authorization_def evs intro!: reads_ok reads_fail reads_expect reads_call split: option.split)
  qed
  then show ?thesis by (rule reads_weaken) simp
qed

lemma verify_reads:
  "reads (verifyStaged env item directory) (\<lambda>_ _. True)" "reads (verifyEndpointClient env item access) (\<lambda>_ _. True)"
  "reads (verifyCanonicalClient env item access) (\<lambda>_ _. True)" "reads (verify_preview env prep item staged) (\<lambda>_ _. True)"
  by (auto simp: verifyStaged_def verifyEndpointClient_def verifyCanonicalClient_def verify_preview_def Let_def
      intro!: reads_expect reads_call reads_fail reads_ok split: option.split)

subsection \<open>What benign events keep\<close>

definition stable :: "('w apply_state \<Rightarrow> bool) \<Rightarrow> bool" where
  "stable P \<longleftrightarrow> (\<forall>s w evs. P s \<longrightarrow> list_all benign evs \<longrightarrow> P (logged s w evs))"

lemma stableD: "stable P \<Longrightarrow> P s \<Longrightarrow> list_all benign evs \<Longrightarrow> P (logged s w evs)"
  by (simp add: stable_def)

lemma runs_reads:
  assumes "reads m Q" and "\<And>w evs a. list_all benign evs \<Longrightarrow> Q evs a \<Longrightarrow> R a (logged s w evs)"
    and "\<And>w evs. list_all benign evs \<Longrightarrow> E (logged s w evs)"
  shows "runs m s R E"
proof -
  obtain w evs r where m: "m s = (logged s w evs, r)" "list_all benign evs" "\<And>a. r = Inr a \<Longrightarrow> Q evs a"
    using assms(1) unfolding reads_def by metis
  show ?thesis using m assms(2,3) [OF m(2)] by (cases r) (auto simp: runs_def)
qed

lemma runs_stable: "reads m Q \<Longrightarrow> stable P \<Longrightarrow> P s \<Longrightarrow> (\<And>a s. P s \<Longrightarrow> R a s) \<Longrightarrow> (\<And>s. P s \<Longrightarrow> E s) \<Longrightarrow> runs m s R E"
  by (rule runs_reads) (auto simp: stable_def)

lemma runs_call: "(\<And>w r. Q r (logged s w [ev r])) \<Longrightarrow> runs (call operation ev) s Q E"
  by (auto simp: runs_def call_def split: prod.splits)

lemma runs_expect_host:
  "(\<And>w a. Q a (logged s w [ev (Inr a)])) \<Longrightarrow> (\<And>w e. E (logged s w [ev (Inl e)])) \<Longrightarrow> runs (expect_host (call operation ev)) s Q E"
  unfolding expect_host_def runs_andThen by (rule runs_call) (auto split: sum.split)

lemma runs_expect_some:
  "(\<And>w a. Q a (logged s w [ev (Some a)])) \<Longrightarrow> (\<And>w. E (logged s w [ev None])) \<Longrightarrow> runs (expect_some (call operation ev) e) s Q E"
  unfolding expect_some_def runs_andThen by (rule runs_call) (auto split: option.split)

lemma runs_expect:
  "(\<And>w. Q () (logged s w [ev True])) \<Longrightarrow> (\<And>w. E (logged s w [ev False])) \<Longrightarrow> runs (expect (call operation ev) e) s Q E"
  unfolding expect_def runs_andThen by (rule runs_call) simp

lemma benign_not_commit: "list_all benign evs \<Longrightarrow> list_all (\<lambda>e. \<not> is_commit e) evs"
proof -
  have "benign e \<Longrightarrow> \<not> is_commit e" for e by (cases e) auto
  then show "list_all benign evs \<Longrightarrow> list_all (\<lambda>e. \<not> is_commit e) evs" by (auto simp: list_all_iff)
qed

lemma confirmed_append:
  assumes "confirmed items t" and "list_all (\<lambda>e. \<not> is_commit e) evs"
  shows "confirmed items (t @ evs)"
  unfolding confirmed_def
proof (intro allI impI)
  fix i name stage expected r
  assume i: "i < length (t @ evs)" and e: "(t @ evs) ! i = CommitRequested name stage expected r"
  have "i < length t"
  proof (rule ccontr)
    assume "\<not> i < length t"
    then have "evs ! (i - length t) = CommitRequested name stage expected r" "i - length t < length evs" using i e by (auto simp: nth_append)
    then show False using assms(2) by (metis is_commit.simps(1) list_all_length)
  qed
  then show "Suc i < length (t @ evs) \<and> confirmation items name ((t @ evs) ! Suc i)"
    using assms(1) e unfolding confirmed_def by (metis length_append nth_append trans_less_add1)
qed

lemma confirmed_pair:
  assumes "confirmed items t" and "confirmation items name e"
  shows "confirmed items (t @ [CommitRequested name stage expected r, e])"
  using assms by (auto simp: confirmed_def nth_append nth_Cons less_Suc_eq confirmation_def split: nat.splits)

lemma earned_append: "earned items t receipt \<Longrightarrow> earned items (t @ evs) receipt"
proof -
  have "\<exists>i. Suc i < length (t @ evs) \<and> (t @ evs) ! i = x \<and> (t @ evs) ! Suc i = y" if "Suc i < length t" "t ! i = x" "t ! Suc i = y" for i x y
    using that by (intro exI [of _ i]) (simp add: nth_append)
  then show "earned items t receipt \<Longrightarrow> earned items (t @ evs) receipt"
    unfolding earned_def by (metis (no_types, lifting))
qed

lemma facts_append:
  "all_staged items t \<Longrightarrow> all_staged items (t @ evs)" "recorded_in prep items t \<Longrightarrow> recorded_in prep items (t @ evs)"
  unfolding all_staged_def staged_in_def recorded_in_def set_append by blast+

lemma git_held_append: "git_held gitRev t \<Longrightarrow> GitUnlocked \<notin> set evs \<Longrightarrow> git_held gitRev (t @ evs)"
  unfolding git_held_def by fastforce

lemma git_held_taken: "git_held gitRev (t @ [GitLocked gitRev True])"
  unfolding git_held_def by (intro exI [of _ t] exI [of _ "[]"]) simp

lemma benign_not_unlock: "list_all benign evs \<Longrightarrow> GitUnlocked \<notin> set evs"
  by (auto simp: list_all_iff)

subsection \<open>The prepared repositories\<close>

definition same_items :: "applyRepository list \<Rightarrow> applyRepository list \<Rightarrow> bool" where
  "same_items items ps \<longleftrightarrow> map (it_hostStage_update (\<lambda>_. no_stage)) ps = map (it_hostStage_update (\<lambda>_. no_stage)) items"

lemma same_items_nth:
  assumes "same_items items ps" and "p \<in> set ps"
  obtains item where "item \<in> set items" "it_planned p = it_planned item" "it_repository p = it_repository item" "it_current p = it_current item"
    "it_observed p = it_observed item"
proof -
  have "p\<lparr>it_hostStage := no_stage\<rparr> \<in> set (map (it_hostStage_update (\<lambda>_. no_stage)) items)"
    using assms unfolding same_items_def by (metis imageI list.set_map)
  then obtain item where item: "item \<in> set items" "p\<lparr>it_hostStage := no_stage\<rparr> = item\<lparr>it_hostStage := no_stage\<rparr>" by auto
  have "it_planned (p\<lparr>it_hostStage := no_stage\<rparr>) = it_planned (item\<lparr>it_hostStage := no_stage\<rparr>)"
      "it_repository (p\<lparr>it_hostStage := no_stage\<rparr>) = it_repository (item\<lparr>it_hostStage := no_stage\<rparr>)"
      "it_current (p\<lparr>it_hostStage := no_stage\<rparr>) = it_current (item\<lparr>it_hostStage := no_stage\<rparr>)"
      "it_observed (p\<lparr>it_hostStage := no_stage\<rparr>) = it_observed (item\<lparr>it_hostStage := no_stage\<rparr>)" unfolding item(2) by simp_all
  then show ?thesis using that [OF item(1)] by simp
qed

lemma same_items_rev:
  assumes "same_items items ps" and "item \<in> set items"
  obtains p where "p \<in> set ps" "it_planned p = it_planned item" "it_repository p = it_repository item" "it_current p = it_current item"
  using same_items_nth [of ps items item] assms unfolding same_items_def by metis

lemma same_items_update:
  assumes "same_items items ps" and "i < length ps"
  shows "same_items items (ps[i := (ps ! i)\<lparr>it_hostStage := stage\<rparr>])"
proof -
  let ?f = "it_hostStage_update (\<lambda>_. no_stage)"
  have "map ?f (ps[i := (ps ! i)\<lparr>it_hostStage := stage\<rparr>]) = (map ?f ps)[i := map ?f ps ! i]" using assms(2) by (simp add: map_update)
  then show ?thesis using assms(1) unfolding same_items_def list_update_id by simp
qed

lemma authorization_cong:
  "it_planned p = it_planned item \<Longrightarrow> it_repository p = it_repository item \<Longrightarrow> authorization prep p seg = authorization prep item seg"
  by (simp add: authorization_def requirement_def)


subsection \<open>Staging\<close>

definition in_order :: "applyPreparation \<Rightarrow> applyRepository list \<Rightarrow> 'w apply_state \<Rightarrow> bool" where
  "in_order prep items s \<longleftrightarrow> ordered prep items (as_trace s)"

definition held :: "event list \<Rightarrow> applyRepository \<Rightarrow> bool" where
  "held t p \<longleftrightarrow> it_current p \<or> (\<exists>req. StageRequested (it_Name p) req (Inr (it_hostStage p)) \<in> set t)"

definition staging :: "applyPreparation \<Rightarrow> applyRepository list \<Rightarrow> nat \<Rightarrow> 'w apply_state \<Rightarrow> bool" where
  "staging prep items n s \<longleftrightarrow> ordered prep items (as_trace s) \<and> list_all (\<lambda>e. \<not> is_commit e) (as_trace s) \<and> as_deployments s = [] \<and>
     same_items items (as_prepared s) \<and> (\<forall>j < n. j < length (as_prepared s) \<longrightarrow> held (as_trace s) (as_prepared s ! j))"

lemma held_append: "held t p \<Longrightarrow> held (t @ evs) p"
  by (auto simp: held_def)

lemma stable_in_order: "stable (in_order prep items)"
  by (simp add: stable_def in_order_def ordered_benign)

lemma stable_staging: "stable (staging prep items n)"
  by (auto simp: stable_def staging_def ordered_benign benign_not_commit held_append)

lemma staging_in_order: "staging prep items n s \<Longrightarrow> in_order prep items s"
  by (simp add: staging_def in_order_def)

text \<open>Every repository that is not current has a change to make, as the preparation makes sure.\<close>

definition changes :: "applyRepository list \<Rightarrow> bool" where
  "changes items \<longleftrightarrow> (\<forall>item \<in> set items. \<not> it_current item \<longrightarrow> it_Action item \<noteq> ''noop'')"

lemma changes_same:
  assumes "changes items" and "same_items items ps" and "p \<in> set ps" and "\<not> it_current p"
  shows "it_Action p \<noteq> ''noop''"
  using assms(2,3) by (rule same_items_nth) (use assms(1,4) in \<open>auto simp: changes_def\<close>)

definition staging_at :: "applyPreparation \<Rightarrow> applyRepository list \<Rightarrow> nat \<Rightarrow> applyRepository \<Rightarrow> 'w apply_state \<Rightarrow> bool" where
  "staging_at prep items n p s \<longleftrightarrow> staging prep items n s \<and> n < length (as_prepared s) \<and> as_prepared s ! n = p \<and> \<not> it_current p"

lemma stable_staging_at: "stable (staging_at prep items n p)"
  by (auto simp: stable_def staging_at_def intro: stableD [OF stable_staging])

lemma staging_at_in_order: "staging_at prep items n p s \<Longrightarrow> in_order prep items s"
  unfolding staging_at_def by (blast intro: staging_in_order)

lemma stage_permitted:
  assumes "staging_at prep items n p s" and "just_authorized prep p (as_trace s)"
  shows "permitted prep items (as_trace s) (StageRequested (it_Name p) (stage_request prep p files) r)"
proof -
  have p: "same_items items (as_prepared s)" "p \<in> set (as_prepared s)" using assms(1) by (auto simp: staging_at_def staging_def)
  obtain item where item: "item \<in> set items" "it_planned p = it_planned item" "it_repository p = it_repository item" "it_current p = it_current item"
    by (rule same_items_nth [OF p])
  have "just_authorized prep item (as_trace s)"
    using assms(2) authorization_cong [OF item(2,3)] by (auto simp: just_authorized_def)
  then show ?thesis using assms(1) item by (auto simp: staging_at_def staging_def stage_request_def)
qed

lemma staged_next:
  assumes "staging_at prep items n p s" and "just_authorized prep p (as_trace s)"
  shows "staging prep items (Suc n) (as_prepared_update (\<lambda>_. (as_prepared s)[n := p\<lparr>it_hostStage := stage\<rparr>])
    (logged s w [StageRequested (it_Name p) (stage_request prep p files) (Inr stage)]))" (is "staging _ _ _ ?s")
  unfolding staging_def
proof (intro conjI allI impI)
  have s: "staging prep items n s" "n < length (as_prepared s)" "p = as_prepared s ! n" using assms(1) by (auto simp: staging_at_def)
  show "ordered prep items (as_trace ?s)" "list_all (\<lambda>e. \<not> is_commit e) (as_trace ?s)" "as_deployments ?s = []"
    using s(1) stage_permitted [OF assms] by (simp_all add: staging_def)
  show "same_items items (as_prepared ?s)"
    using s same_items_update [of items "as_prepared s" n stage] by (simp add: staging_def)
  fix j assume "j < Suc n" "j < length (as_prepared ?s)"
  then show "held (as_trace ?s) (as_prepared ?s ! j)"
  proof (cases "j = n")
    case True
    then show ?thesis using s(2) by (auto simp: held_def)
  next
    case False
    then show ?thesis using s(1) \<open>j < Suc n\<close> \<open>j < length (as_prepared ?s)\<close> by (auto simp: staging_def intro: held_append)
  qed
qed

text \<open>An authorization that succeeds is the last thing in the log.\<close>

lemma runs_authorize:
  assumes "stable P" and "P s" and "it_Action p \<noteq> ''noop''"
    and "\<And>s. P s \<Longrightarrow> just_authorized prep p (as_trace s) \<Longrightarrow> Q () s" and "\<And>s. P s \<Longrightarrow> E s"
  shows "runs (authorize env prep p) s Q E"
  using authorize_reads
proof (rule runs_reads)
  fix w evs a assume evs: "list_all benign evs" "it_Action p = ''noop'' \<or> authorization prep p evs"
  then have "just_authorized prep p (as_trace (logged s w evs))" using assms(3) by (auto simp: just_authorized_def)
  then show "Q a (logged s w evs)" using assms(1,2,4) evs(1) by (simp add: stable_def)
next
  fix w evs assume "list_all benign evs"
  then show "E (logged s w evs)" using assms(1,2,5) by (simp add: stable_def)
qed

lemma stage_one_ordered:
  assumes "changes items" and "staging prep items n s" and "n < length (as_prepared s)"
  shows "runs (stage_one env prep n) s (\<lambda>_. staging prep items (Suc n)) (in_order prep items)"
proof (cases "it_current (as_prepared s ! n)")
  case True
  then show ?thesis using assms(2) by (auto simp: stage_one_def staging_def held_def less_Suc_eq)
next
  case False
  let ?p = "as_prepared s ! n"
  have at: "staging_at prep items n ?p s" using assms(2,3) False by (simp add: staging_at_def)
  have noop: "it_Action ?p \<noteq> ''noop''" using assms False by (intro changes_same [OF assms(1)]) (auto simp: staging_def)
  have staged: "runs (expect_host (call operation (StageRequested (it_Name ?p) (stage_request prep ?p files)))) s'
      (\<lambda>stage s'. staging prep items (Suc n) (as_prepared_update (\<lambda>_. (as_prepared s')[n := ?p\<lparr>it_hostStage := stage\<rparr>]) s')) (in_order prep items)"
    if "staging_at prep items n ?p s'" "just_authorized prep ?p (as_trace s')" for s' :: "'a apply_state" and operation files
    using staged_next [OF that] stage_permitted [OF that] staging_at_in_order [OF that(1)]
    by (intro runs_expect_host) (simp_all add: in_order_def)
  have preview: "runs (verify_preview env prep ?p stage) s' (\<lambda>_. staging prep items (Suc n)) (in_order prep items)"
    if "staging prep items (Suc n) s'" for s' :: "'a apply_state" and stage
    using that by (rule runs_stable [OF verify_reads(4) stable_staging]) (auto intro: staging_in_order)
  have authorized: "runs (authorize env prep ?p) s' Q (in_order prep items)"
    if "staging_at prep items n ?p s'" "\<And>s. staging_at prep items n ?p s \<Longrightarrow> just_authorized prep ?p (as_trace s) \<Longrightarrow> Q () s" for s' :: "'a apply_state" and Q
    using stable_staging_at that(1) noop by (rule runs_authorize) (auto intro: staging_at_in_order that(2))
  have listed: "staging_at prep items n ?p (logged s w [FilesListed name files])" for w name files
    by (rule stableD [OF stable_staging_at at]) simp
  show ?thesis
    unfolding stage_one_def runs_andThen runs_gets if_not_P [OF False] runs_update
    by (intro runs_expect_some authorized listed runs_conseq [OF staged] preview) (auto intro: listed staging_at_in_order)
qed

lemma same_items_length: "same_items items ps \<Longrightarrow> length ps = length items"
  unfolding same_items_def by (metis length_map)

lemma stageOnHosts_ordered:
  assumes "changes items" and "staging prep items 0 s"
  shows "runs (stageOnHosts env prep) s (\<lambda>_. staging prep items (length items)) (in_order prep items)"
proof -
  have "length (as_prepared s) = length items" using assms(2) by (auto simp: staging_def intro: same_items_length)
  moreover have "runs (each (stage_one env prep) [0..<length items]) s (\<lambda>_. staging prep items (length [0..<length items])) (in_order prep items)"
  proof (rule runs_each_done [where I = "\<lambda>done. staging prep items (length done)"])
    show "staging prep items (length []) s" using assms(2) by simp
    fix "done" i rest and s :: "'a apply_state"
    assume split: "[0..<length items] = done @ i # rest" and s: "staging prep items (length done) s"
    have before: "length done < length items" using arg_cong [OF split, of length] by simp
    then have "[0..<length items] ! length done = length done" by simp
    then have "i = length done" using split by simp
    moreover have "length (as_prepared s) = length items" using s by (auto simp: staging_def intro: same_items_length)
    ultimately show "runs (stage_one env prep i) s (\<lambda>_. staging prep items (length (done @ [i]))) (in_order prep items)"
      using stage_one_ordered [OF assms(1) s] before by simp
  qed
  ultimately show ?thesis by (simp add: stageOnHosts_def)
qed

definition staged_all :: "applyPreparation \<Rightarrow> applyRepository list \<Rightarrow> applyRepository list \<Rightarrow> 'w apply_state \<Rightarrow> bool" where
  "staged_all prep items ps s \<longleftrightarrow> ordered prep items (as_trace s) \<and> list_all (\<lambda>e. \<not> is_commit e) (as_trace s) \<and> as_deployments s = [] \<and>
     as_prepared s = ps \<and> same_items items ps \<and> (\<forall>p \<in> set ps. held (as_trace s) p)"

lemma staging_done: "staging prep items (length items) s \<Longrightarrow> staged_all prep items (as_prepared s) s"
  using same_items_length [of items "as_prepared s"] unfolding staging_def staged_all_def by (auto simp: in_set_conv_nth)

lemma stable_staged_all: "stable (staged_all prep items ps)"
  by (auto simp: stable_def staged_all_def ordered_benign benign_not_commit held_append)

lemma staged_all_in_order: "staged_all prep items ps s \<Longrightarrow> in_order prep items s"
  by (simp add: staged_all_def in_order_def)

lemma held_all_staged:
  assumes "same_items items ps" and "\<forall>p \<in> set ps. held t p"
  shows "all_staged items t"
  unfolding all_staged_def
proof (intro ballI impI)
  fix item assume "item \<in> set items" "\<not> it_current item"
  with assms(1) obtain p where "p \<in> set ps" "it_planned p = it_planned item" "\<not> it_current p" by (metis same_items_rev)
  then show "staged_in t item" using assms(2) unfolding staged_in_def held_def by metis
qed

subsection \<open>The ledgers\<close>

definition recording :: "applyPreparation \<Rightarrow> applyRepository list \<Rightarrow> applyRepository list \<Rightarrow> applyRepository list \<Rightarrow> 'w apply_state \<Rightarrow> bool" where
  "recording prep items ps done s \<longleftrightarrow> staged_all prep items ps s \<and> (\<forall>p \<in> set done. RecordsPrepared (it_Name p) True \<in> set (as_trace s))"

lemma stable_recording: "stable (recording prep items ps done)"
  by (auto simp: stable_def recording_def intro: stableD [OF stable_staged_all])

lemma recording_in_order: "recording prep items ps done s \<Longrightarrow> in_order prep items s"
  unfolding recording_def by (blast intro: staged_all_in_order)

lemma recorded_names:
  assumes "recording prep items ps (with_records ps) s" and "item \<in> set (with_records items)"
  shows "RecordsPrepared (it_Name item) True \<in> set (as_trace s)"
proof -
  have "same_items items ps" "item \<in> set items" "plr_PublicationRecords (it_planned item)"
    using assms by (auto simp: recording_def staged_all_def with_records_def)
  then obtain p where "p \<in> set ps" "it_planned p = it_planned item" by (metis same_items_rev)
  then show ?thesis using assms(1) \<open>plr_PublicationRecords _\<close> unfolding recording_def with_records_def by force
qed

definition ready :: "applyPreparation \<Rightarrow> applyRepository list \<Rightarrow> applyRepository list \<Rightarrow> 'w apply_state \<Rightarrow> bool" where
  "ready prep items ps s \<longleftrightarrow> staged_all prep items ps s \<and> recorded_in prep items (as_trace s)"

lemma stable_ready: "stable (ready prep items ps)"
  by (auto simp: stable_def ready_def intro: stableD [OF stable_staged_all] facts_append)

lemma ready_in_order: "ready prep items ps s \<Longrightarrow> in_order prep items s"
  unfolding ready_def by (blast intro: staged_all_in_order)

lemma ledger_reads: "reads (validate_ledgers env gitRevision ps) (\<lambda>_ _. True)" "reads (committed_before env prep ps) (\<lambda>_ _. True)"
proof -
  show validate: "reads (validate_ledgers env gitRevision ps) (\<lambda>_ _. True)" for gitRevision
    unfolding validate_ledgers_def by (rule reads_each, rule reads_expect, rule reads_call) auto
  show "reads (committed_before env prep ps) (\<lambda>_ _. True)"
    unfolding committed_before_def
    by (intro reads_andThen [where R = "\<lambda>_ _. True"] reads_expect_some reads_expect reads_call)
      (auto intro!: reads_ok reads_andThen [where R = "\<lambda>_ _. True"] reads_expect_some reads_expect reads_call validate)
qed

lemma records_ordered:
  assumes "staged_all prep items ps s"
  shows "runs (each (\<lambda>item. expect (call (env_prepare_records env item (lock item)) (RecordsPrepared (it_Name item))) (LedgerFailed (it_Name item)))
    (with_records ps)) s (\<lambda>_. recording prep items ps (with_records ps)) (in_order prep items)"
proof (rule runs_each_done)
  show "recording prep items ps [] s" using assms by (simp add: recording_def)
  fix "done" p rest and s :: "'a apply_state"
  assume s: "recording prep items ps done s"
  have logged: "recording prep items ps done (logged s w [RecordsPrepared (it_Name p) b])" for w b
    by (rule stableD [OF stable_recording s]) simp
  then have "recording prep items ps (done @ [p]) (logged s w [RecordsPrepared (it_Name p) True])" for w
    unfolding recording_def by auto
  then show "runs (expect (call (env_prepare_records env p (lock p)) (RecordsPrepared (it_Name p))) (LedgerFailed (it_Name p))) s
    (\<lambda>_. recording prep items ps (done @ [p])) (in_order prep items)"
    by (intro runs_expect) (blast intro: recording_in_order logged)+
qed

lemma ledger_commit_ready:
  assumes "recording prep items ps (with_records ps) s"
  shows "in_order prep items (logged s w [LedgersCommitted (prep_ledgerRepositories prep) r])"
    and "r = Some gitRev \<Longrightarrow> ready prep items ps (logged s w [LedgersCommitted (prep_ledgerRepositories prep) r])"
proof -
  have s: "staged_all prep items ps s" using assms by (simp add: recording_def)
  have permitted: "permitted prep items (as_trace s) (LedgersCommitted (prep_ledgerRepositories prep) r)"
    using s held_all_staged [of items ps "as_trace s"] by (simp add: staged_all_def)
  then show "in_order prep items (logged s w [LedgersCommitted (prep_ledgerRepositories prep) r])"
    using s by (simp add: in_order_def staged_all_def)
  assume "r = Some gitRev"
  then show "ready prep items ps (logged s w [LedgersCommitted (prep_ledgerRepositories prep) r])"
    using s permitted recorded_names [OF assms] by (auto simp: ready_def staged_all_def recorded_in_def intro: held_append)
qed

lemma nothing_to_commit_ready:
  assumes "recording prep items ps (with_records ps) s" and "prep_ledgerCommitted prep \<or> prep_ledgerRepositories prep = []"
  shows "ready prep items ps s"
  using assms recorded_names [OF assms(1)] by (auto simp: ready_def recorded_in_def recording_def)

lemma commitPublicationLedgers_ordered:
  assumes "staged_all prep items ps s"
  shows "runs (commitPublicationLedgers env prep ps) s (\<lambda>_. ready prep items ps) (in_order prep items)"
proof -
  let ?paths = "\<lambda>gitRev. andThen (expect (call (env_commit_paths env gitRev (prep_ledgerRepositories prep)) (CommitPathsValidated gitRev)) (LedgerFailed []))
      (\<lambda>_. andThen (validate_ledgers env gitRev ps) (\<lambda>_. ok gitRev))"
  have "reads (?paths gitRev) (\<lambda>_ _. True)" for gitRev
    by (intro reads_andThen [where R = "\<lambda>_ _. True"] reads_expect reads_call ledger_reads reads_ok) auto
  then have paths: "runs (?paths gitRev) s' (\<lambda>_. ready prep items ps) (in_order prep items)" if "ready prep items ps s'" for gitRev and s' :: "'a apply_state"
    using stable_ready that by (rule runs_stable) (auto intro: ready_in_order)
  have commit: "runs (expect_some (call (env_commit_ledgers env (prep_ledgerRepositories prep)) (LedgersCommitted (prep_ledgerRepositories prep))) (LedgerFailed []))
      s' (\<lambda>_. ready prep items ps) (in_order prep items)"
    if "recording prep items ps (with_records ps) s'" for s' :: "'a apply_state"
    by (rule runs_expect_some; rule ledger_commit_ready [OF that]) (rule refl)
  have records: "runs (each (\<lambda>item. expect (call (env_prepare_records env item (activeRepositoryLock (it_lock item) (it_repository item)))
      (RecordsPrepared (it_Name item))) (LedgerFailed (it_Name item))) (with_records ps)) s' (\<lambda>_. recording prep items ps (with_records ps)) (in_order prep items)"
    if "staged_all prep items ps s'" for s' :: "'a apply_state"
    using that by (rule records_ordered)
  have earlier: "runs (if prep_ledgerCommitted prep then committed_before env prep ps else ok []) s (\<lambda>_. staged_all prep items ps) (in_order prep items)"
    using assms by (auto intro: runs_stable [OF ledger_reads(2) stable_staged_all] staged_all_in_order)
  have written: "runs (andThen (expect_some (call (env_commit_ledgers env (prep_ledgerRepositories prep))
      (LedgersCommitted (prep_ledgerRepositories prep))) (LedgerFailed [])) ?paths) s' (\<lambda>_. ready prep items ps) (in_order prep items)"
    if "recording prep items ps (with_records ps) s'" for s' :: "'a apply_state"
    unfolding runs_andThen [of "expect_some _ _"] by (rule runs_conseq [OF commit [OF that] paths])
  show ?thesis
    unfolding commitPublicationLedgers_def runs_andThen [of "each _ _"] runs_andThen [of "if _ then _ else _"]
    apply (rule runs_conseq [OF earlier])
     apply (rule runs_conseq [OF records], assumption)
    subgoal using nothing_to_commit_ready written by (auto simp del: runs_andThen)
    by assumption+
qed

subsection \<open>Publishing\<close>

definition publishing :: "applyPreparation \<Rightarrow> applyRepository list \<Rightarrow> applyRepository list \<Rightarrow> gostring \<Rightarrow> 'w apply_state \<Rightarrow> bool" where
  "publishing prep items ps gitRev s \<longleftrightarrow> ordered prep items (as_trace s) \<and> confirmed items (as_trace s) \<and>
     all_staged items (as_trace s) \<and> recorded_in prep items (as_trace s) \<and>
     (\<forall>p \<in> set ps. held (as_trace s) p \<and> (it_current p \<or> git_held gitRev (as_trace s))) \<and>
     (\<forall>receipt \<in> set (as_deployments s). earned items (as_trace s) receipt)"

lemma stable_publishing: "stable (publishing prep items ps gitRev)"
  by (auto simp: stable_def publishing_def ordered_benign benign_not_commit confirmed_append facts_append held_append earned_append
      git_held_append benign_not_unlock)

lemma publishing_in_order: "publishing prep items ps gitRev s \<Longrightarrow> in_order prep items s"
  by (simp add: publishing_def in_order_def)

lemma ready_publishing:
  assumes "ready prep items ps s" and "\<forall>p \<in> set ps. it_current p \<or> git_held gitRev (as_trace s)"
  shows "publishing prep items ps gitRev s"
proof -
  have "confirmed items (as_trace s)" if "list_all (\<lambda>e. \<not> is_commit e) (as_trace s)"
    using confirmed_append [of items "[]" "as_trace s"] that by (simp add: confirmed_def)
  then show ?thesis using assms held_all_staged by (auto simp: publishing_def ready_def staged_all_def)
qed

text \<open>A repository of the apply that may be put back: what to restore was recorded when it was switched.\<close>

definition returnable :: "applyRepository list \<Rightarrow> applyRepository \<Rightarrow> RestoreRef \<Rightarrow> ExpectedRevision \<Rightarrow> event list \<Rightarrow> bool" where
  "returnable items p reference expected t \<longleftrightarrow> it_Action p \<noteq> ''noop'' \<and>
     (\<exists>item \<in> set items. it_planned p = it_planned item \<and> it_repository p = it_repository item \<and>
       (if it_current item then reference = restore_ref_of (it_observed item) \<and> expected = expectedRevisionFromPublished (it_observed item)
        else \<exists>stage e committed. CommitRequested (it_Name p) stage e (Inr committed) \<in> set t \<and> cr_RestoreRef committed = Some reference \<and>
          expected = expectedRevisionFromPublished (cr_Revision committed)))"

lemma returnable_append: "returnable items p reference expected t \<Longrightarrow> returnable items p reference expected (t @ evs)"
  unfolding returnable_def set_append if_bool_eq_conj by blast

lemma returnable_permitted:
  assumes "returnable items p reference expected t" and "just_authorized prep p t"
  shows "permitted prep items t (RestoreRequested (it_Name p) reference expected r)"
proof -
  obtain item where item: "item \<in> set items" "it_planned p = it_planned item" "it_repository p = it_repository item"
      "if it_current item then reference = restore_ref_of (it_observed item) \<and> expected = expectedRevisionFromPublished (it_observed item)
       else \<exists>stage e committed. CommitRequested (it_Name p) stage e (Inr committed) \<in> set t \<and> cr_RestoreRef committed = Some reference \<and>
          expected = expectedRevisionFromPublished (cr_Revision committed)"
    using assms(1) unfolding returnable_def by blast
  have "just_authorized prep item t" using assms(2) authorization_cong [OF item(2,3)] by (simp add: just_authorized_def)
  then show ?thesis using item by auto
qed

lemma restoreFailedPublication_ordered:
  assumes "in_order prep items s" and "returnable items p reference expected (as_trace s)"
  shows "runs (restoreFailedPublication env prep p reference expected) s (\<lambda>_. in_order prep items) (in_order prep items)"
proof -
  let ?P = "\<lambda>s. in_order prep items s \<and> returnable items p reference expected (as_trace s)"
  have stable: "stable ?P" by (auto simp: stable_def in_order_def ordered_benign returnable_append)
  have noop: "it_Action p \<noteq> ''noop''" using assms(2) by (simp add: returnable_def)
  have "runs (authorize env prep p) s (\<lambda>_ s. ?P s \<and> just_authorized prep p (as_trace s)) (in_order prep items)"
    using stable _ noop by (rule runs_authorize) (use assms in auto)
  then have authorized: "runs (attempt (authorize env prep p)) s (\<lambda>r s. in_order prep items s \<and>
      (\<forall>u. r = Inr u \<longrightarrow> ?P s \<and> just_authorized prep p (as_trace s))) (in_order prep items)"
    unfolding runs_attempt by (rule runs_conseq) auto
  have "in_order prep items (logged s w [RestoreRequested (it_Name p) reference expected r])"
    if "?P s" "just_authorized prep p (as_trace s)" for s :: "'a apply_state" and w r
    using that returnable_permitted [OF _ that(2), of items reference expected r] by (simp add: in_order_def)
  then show ?thesis unfolding restoreFailedPublication_def runs_andThen
    by (intro runs_conseq [OF authorized]) (auto split: sum.split intro!: runs_call)
qed

lemma restore_ordered:
  assumes "in_order prep items s" and "CommitRequested (it_Name p) stage expected (Inr committed) \<in> set (as_trace s)"
    and "same_items items ps" and "p \<in> set ps" and "\<not> it_current p" and "changes items"
  shows "runs (restore env prep p committed err label) s Q (in_order prep items)"
proof (cases "cr_RestoreRef committed")
  case None
  then show ?thesis using assms(1) by (simp add: restore_def)
next
  case (Some reference)
  obtain item where item: "item \<in> set items" "it_planned p = it_planned item" "it_repository p = it_repository item" "it_current p = it_current item"
    by (rule same_items_nth [OF assms(3,4)])
  have "returnable items p reference (expectedRevisionFromPublished (cr_Revision committed)) (as_trace s)"
    using Some assms(2,5) item changes_same [OF assms(6,3,4,5)] unfolding returnable_def by auto
  from restoreFailedPublication_ordered [OF assms(1) this, where env = env]
  show ?thesis using Some by (auto simp: restore_def elim!: runs_conseq) (auto simp: in_order_def)
qed

text \<open>The revision a receipt may name for a repository: the one observed right after its switch.\<close>

definition recordable :: "applyRepository list \<Rightarrow> applyRepository \<Rightarrow> gostring \<Rightarrow> event list \<Rightarrow> bool" where
  "recordable items p native t \<longleftrightarrow> (\<exists>item \<in> set items. it_planned p = it_planned item \<and>
     (if it_current item then native = pub_NativeRevision (it_observed item)
      else \<exists>i stage expected committed canonical. Suc i < length t \<and> t ! i = CommitRequested (it_Name item) stage expected (Inr committed) \<and>
        t ! Suc i = Observed (it_Name item) (Inr canonical) \<and> pub_TreeSHA256 canonical = plr_DesiredTreeSHA256 (it_planned item) \<and>
        pub_NativeRevision canonical = native))"

lemma recordable_earned:
  "recordable items p native t \<Longrightarrow> earned items t (deploymentRecordFor format_time (it_planned p) previous observed signing native planID deployedAt now)"
  unfolding recordable_def earned_def by (auto simp: deploymentRecordFor_def Let_def)

lemma recordDeployment_ordered:
  assumes "publishing prep items ps gitRev s" and "recordable items p native (as_trace s)"
  shows "runs (recordDeployment env prep p native) s (\<lambda>_. publishing prep items ps gitRev) (in_order prep items)"
proof -
  have "publishing prep items ps gitRev (logged s w [ClockRead now])" for w now
    by (rule stableD [OF stable_publishing assms(1)]) simp
  then show ?thesis
    using earned_append [OF recordable_earned [OF assms(2)]]
    unfolding recordDeployment_def runs_andThen by (intro runs_call) (simp add: publishing_def)
qed

definition switched :: "applyPreparation \<Rightarrow> applyRepository list \<Rightarrow> applyRepository list \<Rightarrow> gostring \<Rightarrow> applyRepository \<Rightarrow> CommitResult \<Rightarrow> 'w apply_state \<Rightarrow> bool" where
  "switched prep items ps gitRev p committed s \<longleftrightarrow> in_order prep items s \<and> (\<exists>t stage expected. publishing prep items ps gitRev (s\<lparr>as_trace := t\<rparr>) \<and>
     as_trace s = t @ [CommitRequested (it_Name p) stage expected (Inr committed)])"

lemma switched_confirmed:
  assumes "switched prep items ps gitRev p committed s" and "observed_as_committed p committed canonical"
    and "same_items items ps" and "p \<in> set ps" and "\<not> it_current p"
  shows "publishing prep items ps gitRev (logged s w [Observed (it_Name p) (Inr canonical)])"
    and "recordable items p (pub_NativeRevision (cr_Revision committed)) (as_trace (logged s w [Observed (it_Name p) (Inr canonical)]))"
proof -
  obtain t stage expected where t: "publishing prep items ps gitRev (s\<lparr>as_trace := t\<rparr>)"
      "as_trace s = t @ [CommitRequested (it_Name p) stage expected (Inr committed)]" "ordered prep items (as_trace s)"
    using assms(1) by (auto simp: switched_def in_order_def)
  obtain item where item: "item \<in> set items" "it_planned p = it_planned item" "it_current p = it_current item"
    by (rule same_items_nth [OF assms(3,4)])
  let ?pair = "[CommitRequested (it_Name p) stage expected (Inr committed), Observed (it_Name p) (Inr canonical)]"
  have seen: "pub_TreeSHA256 canonical = plr_DesiredTreeSHA256 (it_planned item)" "pub_NativeRevision canonical = pub_NativeRevision (cr_Revision committed)"
    using assms(2) item(2) by (auto simp: observed_as_committed_def)
  have "confirmed items (t @ ?pair)"
    using t(1) item seen by (intro confirmed_pair) (auto simp: publishing_def confirmation_def)
  moreover have "ordered prep items (t @ ?pair)" using t(2,3) ordered_snoc [of prep items "as_trace s" "Observed (it_Name p) (Inr canonical)"] by simp
  ultimately show "publishing prep items ps gitRev (logged s w [Observed (it_Name p) (Inr canonical)])"
    using t(1,2) by (auto simp: publishing_def facts_append held_append earned_append git_held_append)
  have "Suc (length t) < length (t @ ?pair)" "(t @ ?pair) ! length t = ?pair ! 0" "(t @ ?pair) ! Suc (length t) = ?pair ! 1"
    by (simp_all add: nth_append)
  then show "recordable items p (pub_NativeRevision (cr_Revision committed)) (as_trace (logged s w [Observed (it_Name p) (Inr canonical)]))"
    using item assms(5) seen t(2) unfolding recordable_def by (intro bexI [OF _ item(1)]) auto
qed

lemma stable_recordable: "stable (\<lambda>s. publishing prep items ps gitRev s \<and> recordable items p native (as_trace s) \<and> (\<forall>e \<in> evs. e \<in> set (as_trace s)))"
proof -
  have "recordable items p native (t @ evs)" if "recordable items p native t" for t evs
  proof -
    have "\<exists>i. Suc i < length (t @ evs) \<and> (t @ evs) ! i = x \<and> (t @ evs) ! Suc i = y" if "Suc i < length t" "t ! i = x" "t ! Suc i = y" for i x y
      using that by (intro exI [of _ i]) (simp add: nth_append)
    then show ?thesis using that unfolding recordable_def by (metis (no_types, lifting))
  qed
  then show ?thesis by (auto simp: stable_def intro: stableD [OF stable_publishing])
qed

lemma confirm_ordered:
  assumes "switched prep items ps gitRev p committed s" and "same_items items ps" and "p \<in> set ps" and "\<not> it_current p" and "changes items"
  shows "runs (confirm env prep gitRev p committed) s (\<lambda>_. publishing prep items ps gitRev) (in_order prep items)"
proof -
  obtain t stage expected where "as_trace s = t @ [CommitRequested (it_Name p) stage expected (Inr committed)]"
    using assms(1) unfolding switched_def by blast
  then have commit: "CommitRequested (it_Name p) stage expected (Inr committed) \<in> set (as_trace s)" by simp
  let ?commit = "CommitRequested (it_Name p) stage expected (Inr committed)"
  let ?K = "\<lambda>s. publishing prep items ps gitRev s \<and> recordable items p (pub_NativeRevision (cr_Revision committed)) (as_trace s) \<and>
      (\<forall>e \<in> {?commit}. e \<in> set (as_trace s))"
  have stable: "stable ?K" by (rule stable_recordable)
  have returned: "runs (restore env prep p committed err label) s' Q (in_order prep items)"
    if "in_order prep items s'" "?commit \<in> set (as_trace s')" for err label Q and s' :: "'a apply_state"
    by (rule restore_ordered [OF that assms(2-5)])
  have seen: "?K (logged (s\<lparr>as_Applied := n\<rparr>) w [Observed (it_Name p) (Inr canonical)])" if "observed_as_committed p committed canonical" for n w canonical
  proof -
    have "switched prep items ps gitRev p committed (s\<lparr>as_Applied := n\<rparr>)"
      using assms(1) by (auto simp: switched_def in_order_def publishing_def)
    from switched_confirmed [OF this that assms(2-4)] show ?thesis using commit by simp
  qed
  have ordered: "in_order prep items (logged (s\<lparr>as_Applied := n\<rparr>) w [Observed (it_Name p) r])" for n w r
    using assms(1) by (simp add: switched_def in_order_def)
  have recorded: "runs (expect (call (env_head env gitRev) (HeadAsserted gitRev)) GitMoved) s'
      (\<lambda>_ s'. runs (recordDeployment env prep p (pub_NativeRevision (cr_Revision committed))) s' (\<lambda>_. publishing prep items ps gitRev) (in_order prep items))
      (in_order prep items)" if "?K s'" for s' :: "'a apply_state"
    using reads_expect [OF reads_call] stable that by (rule runs_stable) (auto intro: recordDeployment_ordered publishing_in_order)
  have checked: "runs (andThen (if prep_StructuralOnly prep then ok (Inr ()) else attempt (verifyCanonicalClient env p access))
      (\<lambda>probe. case probe of Inl err \<Rightarrow> restore env prep p committed err label
         | Inr _ \<Rightarrow> andThen (expect (call (env_head env gitRev) (HeadAsserted gitRev)) GitMoved)
             (\<lambda>_. recordDeployment env prep p (pub_NativeRevision (cr_Revision committed))))) s' (\<lambda>_. publishing prep items ps gitRev) (in_order prep items)"
    (is "runs (andThen ?m _) _ _ _") if "?K s'" for access label and s' :: "'a apply_state"
  proof -
    have "reads ?m (\<lambda>_ _. True)" by (auto intro: reads_ok reads_attempt verify_reads)
    then show ?thesis using stable that unfolding runs_andThen [of ?m]
      by (rule runs_stable) (auto split: sum.split intro!: returned recorded dest: publishing_in_order)
  qed
  show ?thesis
    unfolding confirm_def runs_andThen [of "update _"] runs_andThen [of "call _ _"] runs_update
    apply (rule runs_call)
    subgoal for w r
    proof (cases r)
      case (Inl e)
      show ?thesis unfolding Inl sum.case by (rule returned [OF ordered]) (simp add: commit)
    next
      case (Inr canonical)
      show ?thesis
      proof (cases "observed_as_committed p committed canonical")
        case True
        show ?thesis unfolding Inr sum.case using checked [OF seen [OF True]] True by (simp only: simp_thms if_False)
      next
        case False
        show ?thesis unfolding Inr sum.case if_P [OF False] by (rule returned [OF ordered]) (simp add: commit)
      qed
    qed
    done
qed

lemma commit_permitted:
  assumes "publishing prep items ps gitRev s" and "same_items items ps" and "p \<in> set ps" and "\<not> it_current p"
    and "authorization prep p seg"
  shows "permitted prep items (as_trace s @ HeadAsserted gitRev True # seg)
    (CommitRequested (it_Name p) (it_hostStage p) (expectedRevisionFromPlan (it_planned p)) r)"
proof -
  obtain item where item: "item \<in> set items" "it_planned p = it_planned item" "it_repository p = it_repository item" "it_current p = it_current item"
    by (rule same_items_nth [OF assms(2,3)])
  have seg: "list_all (\<lambda>e. \<not> is_commit e) (HeadAsserted gitRev True # seg)" using assms(5) by (auto simp: authorization_def)
  have "\<exists>req. StageRequested (it_Name p) req (Inr (it_hostStage p)) \<in> set (as_trace s)" and lock: "git_held gitRev (as_trace s)"
    using assms(1,3,4) unfolding publishing_def held_def by metis+
  then have "\<exists>req. StageRequested (it_Name p) req (Inr (it_hostStage p)) \<in> set (as_trace s @ HeadAsserted gitRev True # seg)" by auto
  moreover have "all_staged items (as_trace s @ HeadAsserted gitRev True # seg)" "recorded_in prep items (as_trace s @ HeadAsserted gitRev True # seg)"
    using assms(1) by (auto simp: publishing_def intro: facts_append)
  moreover have "confirmed items (as_trace s @ HeadAsserted gitRev True # seg)"
    using assms(1) seg by (intro confirmed_append) (auto simp: publishing_def)
  moreover have "authorization prep item seg" using assms(5) authorization_cong [OF item(2,3)] by simp
  ultimately show ?thesis using item assms(4) lock by auto
qed

lemma publish_ordered:
  assumes "publishing prep items ps gitRev s" and "same_items items ps" and "p \<in> set ps" and "\<not> it_current p" and "changes items"
  shows "runs (publish env prep gitRev p) s (\<lambda>_. publishing prep items ps gitRev) (in_order prep items)"
proof -
  note noop = changes_same [OF assms(5,2,3,4)]
  have log: "publishing prep items ps gitRev (logged s' w evs)" if "publishing prep items ps gitRev s'" "list_all benign evs" for s' :: "'a apply_state" and w evs
    by (rule stableD [OF stable_publishing that])
  have committed: "in_order prep items (logged s' w [CommitRequested (it_Name p) (it_hostStage p) (expectedRevisionFromPlan (it_planned p)) r])"
    "switched prep items ps gitRev p committed (logged s' w [CommitRequested (it_Name p) (it_hostStage p) (expectedRevisionFromPlan (it_planned p)) (Inr committed)])"
    if "as_trace s' = as_trace s @ HeadAsserted gitRev True # seg" "authorization prep p seg" "publishing prep items ps gitRev s'" for s' :: "'a apply_state" and w seg r committed
  proof -
    note allowed = commit_permitted [OF assms(1-4) that(2), folded that(1)]
    show order: "in_order prep items (logged s' w [CommitRequested (it_Name p) (it_hostStage p) (expectedRevisionFromPlan (it_planned p)) r])" for r
      using that(3) allowed by (simp add: in_order_def publishing_def)
    show "switched prep items ps gitRev p committed (logged s' w [CommitRequested (it_Name p) (it_hostStage p) (expectedRevisionFromPlan (it_planned p)) (Inr committed)])"
      unfolding switched_def using order that(3) by (auto simp: publishing_def)
  qed
  have confirm: "runs (case ca_Credential (cr_Access committed) of None \<Rightarrow> confirm env prep gitRev p committed
      | Some credential \<Rightarrow> deferred (confirm env prep gitRev p committed) (call (env_destroy env credential) (\<lambda>_. CredentialDestroyed (it_Name p)))) s'
      (\<lambda>_. publishing prep items ps gitRev) (in_order prep items)" if "switched prep items ps gitRev p committed s'" for s' :: "'a apply_state" and committed
  proof -
    have "in_order prep items (logged s' w [CredentialDestroyed name])" if "in_order prep items s'" for s' :: "'a apply_state" and w name
      by (rule stableD [OF stable_in_order that]) simp
    then show ?thesis using confirm_ordered [OF that assms(2-5), where env = env] log
      by (auto split: option.split elim!: runs_conseq intro!: runs_call)
  qed
  have switch: "runs (authorize env prep p) (logged s w [HeadAsserted gitRev True]) (\<lambda>_ s'. runs (expect_host (call operation
      (CommitRequested (it_Name p) (it_hostStage p) (expectedRevisionFromPlan (it_planned p))))) s'
      (\<lambda>committed. switched prep items ps gitRev p committed) (in_order prep items)) (in_order prep items)" for w operation
    using authorize_reads
  proof (rule runs_reads)
    fix w' seg a assume seg: "list_all benign seg" "it_Action p = ''noop'' \<or> authorization prep p seg"
    let ?s = "logged (logged s w [HeadAsserted gitRev True]) w' seg"
    have "publishing prep items ps gitRev ?s" by (rule log [OF log [OF assms(1)] seg(1)]) simp
    then show "runs (expect_host (call operation (CommitRequested (it_Name p) (it_hostStage p) (expectedRevisionFromPlan (it_planned p))))) ?s
        (\<lambda>committed. switched prep items ps gitRev p committed) (in_order prep items)"
      using seg(2) noop by (intro runs_expect_host committed) auto
  qed (auto intro!: publishing_in_order log assms(1))
  show ?thesis
    unfolding publish_def runs_andThen
    by (intro runs_expect runs_conseq [OF switch]) (auto intro!: publishing_in_order log assms(1) elim!: runs_conseq intro: confirm)
qed

lemma retry_failed_ordered:
  assumes "in_order prep items s" and "same_items items ps" and "p \<in> set ps" and "it_current p" and "it_Action p \<noteq> ''noop''"
  shows "runs (retry_failed env prep p err) s Q (in_order prep items)"
proof -
  obtain item where "item \<in> set items" "it_planned p = it_planned item" "it_repository p = it_repository item" "it_current p = it_current item"
      "it_observed p = it_observed item"
    by (rule same_items_nth [OF assms(2,3)])
  then have "returnable items p (restore_ref_of (it_observed p)) (expectedRevisionFromPublished (it_observed p)) (as_trace s)"
    using assms(4,5) unfolding returnable_def by auto
  from restoreFailedPublication_ordered [OF assms(1) this, where env = env]
  show ?thesis using assms(1) by (auto simp: retry_failed_def elim!: runs_conseq) (auto simp: in_order_def)
qed

lemma verifyCurrent_ordered:
  assumes "publishing prep items ps gitRev s" and "same_items items ps" and "p \<in> set ps" and "it_current p"
  shows "runs (verifyCurrent env prep p) s (\<lambda>_. publishing prep items ps gitRev) (in_order prep items)"
proof -
  let ?P = "publishing prep items ps gitRev" and ?s = "s\<lparr>as_Current := as_Current s + 1\<rparr>"
  have start: "?P ?s" using assms(1) by (simp add: publishing_def)
  have recorded: "runs (if it_Action p = ''noop'' then ok () else recordDeployment env prep p (pub_NativeRevision (it_observed p))) s'
      (\<lambda>_. ?P) (in_order prep items)" if "?P s'" for s' :: "'a apply_state"
  proof -
    obtain item where "item \<in> set items" "it_planned p = it_planned item" "it_current p = it_current item" "it_observed p = it_observed item"
      by (rule same_items_nth [OF assms(2,3)])
    then have "recordable items p (pub_NativeRevision (it_observed p)) (as_trace s')" using assms(4) unfolding recordable_def by auto
    then show ?thesis using that by (auto intro: recordDeployment_ordered)
  qed
  have retry: "runs (retry_failed env prep p err) s' Q (in_order prep items)" if "?P s'" "it_Action p \<noteq> ''noop''" for s' :: "'a apply_state" and err Q
    by (rule retry_failed_ordered [OF publishing_in_order [OF that(1)] assms(2-4) that(2)])
  have probe: "runs (andThen (attempt (verifyCanonicalClient env p access)) (\<lambda>probe. case probe of Inl err \<Rightarrow> retry_failed env prep p err | Inr _ \<Rightarrow> ok ()))
      s' (\<lambda>_. ?P) (in_order prep items)" if "?P s'" "it_Action p \<noteq> ''noop''" for s' :: "'a apply_state" and access
    unfolding runs_andThen [of "attempt _"] using reads_attempt [OF verify_reads(3) TrueI] stable_publishing that(1)
    by (rule runs_stable) (auto split: sum.split intro: retry [OF _ that(2)] publishing_in_order)
  have access: "runs (if prep_StructuralOnly prep \<or> it_Action p = ''noop'' then ok ()
        else andThen (expect_host (call operation (AccessRead (it_Name p)))) (\<lambda>access.
             andThen (attempt (verifyCanonicalClient env p access)) (\<lambda>probe. case probe of
               Inl err \<Rightarrow> retry_failed env prep p err | Inr _ \<Rightarrow> ok ()))) ?s (\<lambda>_. ?P) (in_order prep items)" for operation
  proof (cases "prep_StructuralOnly prep \<or> it_Action p = ''noop''")
    case True
    then show ?thesis using start by simp
  next
    case False
    have read: "?P (logged ?s w [AccessRead (it_Name p) r])" for w r
      by (rule stableD [OF stable_publishing start]) simp
    show ?thesis unfolding if_not_P [OF False] runs_andThen [of "expect_host _"]
      using False by (intro runs_expect_host probe read publishing_in_order [OF read]) auto
  qed
  show ?thesis unfolding verifyCurrent_def runs_andThen [of "update _"] runs_update runs_andThen [of "if _ then _ else _"]
    by (rule runs_conseq [OF access]) (rule recorded)
qed

lemma publish_all_ordered:
  assumes "publishing prep items ps gitRev s" and "same_items items ps" and "changes items"
  shows "runs (publish_all env prep gitRev ps) s (\<lambda>_. publishing prep items ps gitRev) (in_order prep items)"
  unfolding publish_all_def using assms
  by (intro runs_each) (auto intro: verifyCurrent_ordered publish_ordered)

text \<open>After the last switch Git's lock is let go, and the receipts are written.\<close>

definition published :: "applyPreparation \<Rightarrow> applyRepository list \<Rightarrow> 'w apply_state \<Rightarrow> bool" where
  "published prep items s \<longleftrightarrow> ordered prep items (as_trace s) \<and> confirmed items (as_trace s) \<and>
     (\<forall>receipt \<in> set (as_deployments s). earned items (as_trace s) receipt)"

lemma stable_published: "stable (published prep items)"
  by (auto simp: stable_def published_def ordered_benign benign_not_commit confirmed_append earned_append)

lemma publishing_published: "publishing prep items ps gitRev s \<Longrightarrow> published prep items s"
  by (simp add: publishing_def published_def)

lemma published_unlocked: "published prep items s \<Longrightarrow> published prep items (logged s w [GitUnlocked])"
  by (simp add: published_def confirmed_append earned_append)

lemma write_receipts_ordered:
  assumes "published prep items s"
  shows "runs (write_receipts env gitRev) s (\<lambda>_. in_order prep items) (in_order prep items)"
proof -
  have receipts: "in_order prep items (logged s' w [ReceiptsCommitted gitRev (as_deployments s') b])" if "published prep items s'" for s' :: "'a apply_state" and w b
    using that by (simp add: in_order_def published_def)
  have "reads (case env_hook env of None \<Rightarrow> ok () | Some hook \<Rightarrow> expect (call hook HookRun) HookFailed) (\<lambda>_ _. True)"
    by (auto split: option.split intro!: reads_ok reads_expect reads_call)
  then show ?thesis unfolding write_receipts_def runs_andThen runs_gets
    using stable_published assms by (rule runs_stable) (auto intro!: runs_expect receipts simp: in_order_def published_def)
qed

lemma publishAndRecord_ordered:
  assumes "ready prep items ps s" and "changes items"
  shows "runs (publishAndRecord env prep gitRev) s (\<lambda>_. in_order prep items) (in_order prep items)"
proof -
  have ps: "as_prepared s = ps" "same_items items ps" using assms(1) by (auto simp: ready_def staged_all_def)
  have log: "ready prep items ps (logged s w evs)" if "list_all benign evs" for w evs by (rule stableD [OF stable_ready assms(1) that])
  have unlocked: "in_order prep items (logged s' w [GitUnlocked])" if "in_order prep items s'" for s' :: "'a apply_state" and w
    using that by (simp add: in_order_def)
  have locked: "publishing prep items ps gitRev (logged s w [GitLocked gitRev True])" for w
    by (rule ready_publishing [OF log]) (auto intro: git_held_taken)
  have current: "publishing prep items ps gitRev (logged s w [RevisionAsserted gitRev b])" if "\<not> list_ex (\<lambda>p. \<not> it_current p) ps" for w b
    using that by (intro ready_publishing [OF log]) (auto simp: list_ex_iff)
  have rest: "runs (publish_all env prep gitRev ps) s' (\<lambda>_ s'. runs (write_receipts env gitRev) s' (\<lambda>_. in_order prep items) (in_order prep items)) (in_order prep items)"
    if "publishing prep items ps gitRev s'" for s' :: "'a apply_state"
    by (rule runs_conseq [OF publish_all_ordered [OF that ps(2) assms(2)]]) (auto intro: write_receipts_ordered publishing_published)
  have deferred: "runs (deferred (publish_all env prep gitRev ps) (call (env_git_unlock env) (\<lambda>_. GitUnlocked))) s'
      (\<lambda>_ s'. runs (write_receipts env gitRev) s' (\<lambda>_. in_order prep items) (in_order prep items)) (in_order prep items)"
    if "publishing prep items ps gitRev s'" for s' :: "'a apply_state"
    unfolding runs_deferred by (rule runs_conseq [OF publish_all_ordered [OF that ps(2) assms(2)]])
      (auto intro!: runs_call write_receipts_ordered published_unlocked unlocked intro: publishing_published)
  show ?thesis
    unfolding publishAndRecord_def runs_andThen runs_gets ps(1)
    by (auto simp del: runs_deferred intro!: runs_expect deferred rest locked current ready_in_order [OF log])
qed

text \<open>The cleanup only drops stages.\<close>

lemma abort_stages_ordered: "in_order prep items s \<Longrightarrow> runs (abort_stages env) s (\<lambda>_. in_order prep items) (in_order prep items)"
proof -
  have "reads (each (\<lambda>item. if sp_ID (it_hostStage item) = [] then ok ()
     else andThen (call (host_Abort (env_host env (it_hostRepository item)) (it_hostRepository item) (it_hostStage item))
       (AbortRequested (it_Name item) (it_hostStage item))) (\<lambda>_. ok ())) ps) (\<lambda>_ _. True)" for ps
    by (rule reads_each) (auto intro!: reads_ok reads_andThen [where R = "\<lambda>_ _. True"] reads_call)
  then show "in_order prep items s \<Longrightarrow> ?thesis" unfolding abort_stages_def runs_andThen runs_gets
    by (rule runs_stable [OF _ stable_in_order]) auto
qed

lemma apply_phases_ordered:
  assumes "changes items" and "as_trace s = []" and "as_deployments s = []" and "as_prepared s = items"
  shows "runs (apply_phases env prep items) s (\<lambda>_. in_order prep items) (in_order prep items)"
proof -
  have start: "staging prep items 0 s" using assms by (simp add: staging_def same_items_def)
  have authorize_all: "reads (each (authorize env prep) ps) (\<lambda>_ _. True)" for ps
    by (rule reads_each) (rule reads_weaken [OF authorize_reads], simp)
  have first: "runs (each (authorize env prep) items) s (\<lambda>_. staging prep items 0) (in_order prep items)"
    using authorize_all stable_staging start by (rule runs_stable) (auto intro: staging_in_order)
  have again: "runs (if prep_ledgerCommitted prep then ok () else each (authorize env prep) (with_records ps)) s' (\<lambda>_. staged_all prep items ps) (in_order prep items)"
    if "staged_all prep items ps s'" for ps and s' :: "'a apply_state"
    using that by (auto intro: runs_stable [OF authorize_all stable_staged_all] staged_all_in_order)
  have published: "runs (andThen (if prep_ledgerCommitted prep then ok () else each (authorize env prep) (with_records ps)) (\<lambda>_.
       andThen (commitPublicationLedgers env prep ps) (publishAndRecord env prep))) s' (\<lambda>_. in_order prep items) (in_order prep items)"
    if "staged_all prep items ps s'" for ps and s' :: "'a apply_state"
    unfolding runs_andThen by (intro runs_conseq [OF again [OF that]] runs_conseq [OF commitPublicationLedgers_ordered])
      (auto intro: publishAndRecord_ordered assms(1))
  have work: "runs (andThen (stageOnHosts env prep) (\<lambda>_. andThen (gets as_prepared) (\<lambda>items'.
       andThen (if prep_ledgerCommitted prep then ok () else each (authorize env prep) (with_records items')) (\<lambda>_.
       andThen (commitPublicationLedgers env prep items') (publishAndRecord env prep))))) s' (\<lambda>_. in_order prep items) (in_order prep items)"
    if "staging prep items 0 s'" for s' :: "'a apply_state"
    unfolding runs_andThen [of "stageOnHosts _ _"] runs_andThen [of "gets _"] runs_gets
    by (rule runs_conseq [OF stageOnHosts_ordered [OF assms(1) that]]) (blast intro: published staging_done)+
  show ?thesis unfolding apply_phases_def runs_andThen [of "each _ _"]
    by (rule runs_conseq [OF first])
      (auto simp del: runs_andThen intro!: runs_conseq [OF work] abort_stages_ordered intro: staging_in_order)
qed

subsection \<open>The log of an apply\<close>

definition prepared_from :: "plan_lib \<Rightarrow> applyPreparation \<Rightarrow> (plan_error + applyRepository) list \<Rightarrow> bool" where
  "prepared_from lib prep results \<longleftrightarrow> (\<forall>r \<in> set results. \<exists>view directory planned. r = prepareRepository lib prep view directory planned)"

lemma prepareRepositories_Inr: "prepareRepositories results = Inr items \<longleftrightarrow> results = map Inr items"
proof
  assume result: "prepareRepositories results = Inr items"
  have "filter isl results = []"
  proof (cases "filter isl results")
    case (Cons r rs)
    then have "isl r" by (auto simp: filter_eq_Cons_iff)
    then show ?thesis using result Cons by (cases r) (simp_all add: prepareRepositories_def)
  qed simp
  then have "items = map projr results" "\<forall>r \<in> set results. \<not> isl r" using result by (simp_all add: prepareRepositories_def filter_empty_conv)
  then show "results = map Inr items" by (simp add: map_idI)
qed (simp add: prepareRepositories_def filter_empty_conv o_def)

lemma prepared_changes:
  assumes "prepared_from lib prep results" and "prepareRepositories results = Inr items"
  shows "changes items"
  unfolding changes_def
proof (intro ballI impI)
  fix item assume "item \<in> set items" and fresh: "\<not> it_current item"
  then obtain view directory planned where "prepareRepository lib prep view directory planned = Inr item"
    using assms unfolding prepareRepositories_Inr prepared_from_def by force
  then obtain repository lock ledger deployment observed signing where facts:
      "prepare_observation prep planned repository lock ledger deployment observed signing = Inr ()"
      "finish_prepare prep view directory planned repository lock (toHostRepository (prep_root prep) (ws_ID (man_Workspace (prep_manifest prep)))
         (repositoryHostIdentity lib repository) (plr_Name planned) repository) observed deployment signing = Inr item"
    by (rule prepareRepository_elim) (rule that)
  note item = finish_prepare_facts [OF facts(2)]
  show "it_Action item \<noteq> ''noop''" using not_current_unchanged(2) [OF facts(1)] item(1,9) fresh by simp
qed

lemma ApplyWorkspace_ordered:
  assumes "prepared_from lib prep results" and "prepareRepositories results = Inr items" and "ApplyWorkspace env prep results w = (s, outcome)"
  shows "ordered prep items (as_trace s)"
proof -
  let ?start = "\<lparr>as_world = w, as_trace = [], as_prepared = items, as_Applied = 0, as_Current = 0, as_deployments = []\<rparr>"
  have "runs (apply_phases env prep items) ?start (\<lambda>_. in_order prep items) (in_order prep items)"
    by (rule apply_phases_ordered) (auto intro: prepared_changes assms)
  then show ?thesis using assms(2,3)
    by (auto simp: ApplyWorkspace_def Let_def in_order_def runs_def split: prod.splits sum.splits)
qed

subsection \<open>Properties\<close>

text \<open>
  C1: no repository is switched early. When an apply asks a host to switch a repository, every repository
  of the plan that needs a switch has been staged, the publication records of every repository that needs
  them have been written and committed, and every switch before this one was confirmed by observing the
  desired tree. The stage is one the host handed out for this repository, the repository is one that
  still needs the change, and the revision expected is the one the plan observed. The last things that
  happened are that Git's head was checked against a revision, that the clock was read and the plan had
  not expired, and that the gate, unless it is automatic, was asked and agreed; and the lock on Git was
  taken for that very revision and has not been released since.
\<close>

theorem switch_comes_last:
  assumes "prepared_from lib prep results" and "prepareRepositories results = Inr items" and "ApplyWorkspace env prep results w = (s, outcome)"
    and "i < length (as_trace s)" and "as_trace s ! i = CommitRequested name stage expected r"
  shows "let t = take i (as_trace s) in
    all_staged items t \<and> recorded_in prep items t \<and> confirmed items t \<and> (\<exists>req. StageRequested name req (Inr stage) \<in> set t) \<and>
    (\<exists>item \<in> set items. it_Name item = name \<and> \<not> it_current item \<and> expected = expectedRevisionFromPlan (it_planned item) \<and>
      (\<exists>t0 gitRev seg. t = t0 @ HeadAsserted gitRev True # seg \<and> authorization prep item seg \<and> git_held gitRev t0))"
proof -
  have "permitted prep items (take i (as_trace s)) (as_trace s ! i)"
    using ApplyWorkspace_ordered [OF assms(1-3)] assms(4) by (simp add: ordered_def)
  then show ?thesis unfolding assms(5) Let_def by auto
qed

text \<open>
  C6: receipts are earned. Every deployment record an apply commits names a repository of the plan and the
  tree the plan desired, and its native revision is the one the host was observed to serve: before the
  apply when the repository was already current, and otherwise right after it was switched.
\<close>

theorem receipts_are_earned:
  assumes "prepared_from lib prep results" and "prepareRepositories results = Inr items" and "ApplyWorkspace env prep results w = (s, outcome)"
    and "i < length (as_trace s)" and "as_trace s ! i = ReceiptsCommitted gitRev records r"
  shows "\<forall>receipt \<in> set records. earned items (take i (as_trace s)) receipt"
  using ApplyWorkspace_ordered [OF assms(1-3)] assms(4,5) by (fastforce simp: ordered_def)

subsection \<open>An apply that succeeds\<close>

definition tools_revision :: PublishedRevision where
  "tools_revision = no_revision\<lparr>pub_NativeRevision := ''r1'', pub_TreeSHA256 := plr_DesiredTreeSHA256 tools_planned\<rparr>"

definition tools_stage :: StagedPublication where
  "tools_stage = no_stage\<lparr>sp_ID := ''stage''\<rparr>"

definition tools_host :: "unit host" where
  "tools_host = \<lparr>host_Capabilities = (\<lambda>_ w. (w, Inl (OtherFailure ''none''))), host_Observe = (\<lambda>_ w. (w, Inr tools_revision)),
     host_ReadAccess = (\<lambda>_ _ w. (w, Inr no_access)), host_Stage = (\<lambda>_ _ w. (w, Inr tools_stage)),
     host_Commit = (\<lambda>_ _ _ w. (w, Inr \<lparr>cr_Revision = tools_revision, cr_CanonicalEndpoint = [], cr_RestoreRef = None, cr_Access = no_access\<rparr>)),
     host_Restore = (\<lambda>_ _ _ w. (w, Inr no_revision)), host_Abort = (\<lambda>_ _ w. (w, Inr ()))\<rparr>"

definition tools_env :: "unit apply_env" where
  "tools_env = \<lparr>env_clock = (\<lambda>w. (w, 6)), env_gates = None, env_host = (\<lambda>_. tools_host), env_head = (\<lambda>_ w. (w, True)),
     env_revision = (\<lambda>_ w. (w, True)), env_git_lock = (\<lambda>_ w. (w, True)), env_git_unlock = (\<lambda>w. (w, ())), env_destroy = (\<lambda>_ w. (w, ())),
     env_output = (\<lambda>_. None), env_verify_tree = (\<lambda>_ _ w. (w, True)), env_probe = (\<lambda>_ _ _ w. (w, True)), env_files = (\<lambda>_ w. (w, Some [])),
     env_clean_git = (\<lambda>w. (w, Some [])), env_ledger_revision = (\<lambda>_ w. (w, Some [])), env_commit_paths = (\<lambda>_ _ w. (w, True)),
     env_validate_ledger = (\<lambda>_ _ _ w. (w, True)), env_prepare_records = (\<lambda>_ _ w. (w, True)), env_commit_ledgers = (\<lambda>_ w. (w, Some ''c1'')),
     env_hook = None, env_receipts = (\<lambda>_ _ w. (w, True))\<rparr>"

abbreviation tools_results :: "(plan_error + applyRepository) list" where
  "tools_results \<equiv> [prepareRepository tools_lib tools_preparation tools_view ''/w/s'' tools_planned]"

abbreviation tools_items :: "applyRepository list" where
  "tools_items \<equiv> [projr (prepareRepository tools_lib tools_preparation tools_view ''/w/s'' tools_planned)]"

lemma tools_prepared_from: "prepared_from tools_lib tools_preparation tools_results"
  by (auto simp: prepared_from_def)

lemma tools_items_prepared: "prepareRepositories tools_results = Inr tools_items"
  by (simp add: prepareRepositories_Inr tools_prepared)

lemma tools_planned_facts: "plr_Action tools_planned = ''create''" "plr_PublicationRecords tools_planned" "repo_Gate tools_repository = ''auto''"
  by code_simp+

lemmas code_defs = ok_def fail_def guard_def update_def gets_def andThen_def attempt_def deferred_def call_def expect_def expect_some_def expect_host_def

lemma tools_run:
  "case ApplyWorkspace tools_env tools_preparation tools_results () of (s, outcome) \<Rightarrow>
     length (as_trace s) = 19 \<and> is_commit (as_trace s ! 12) \<and> outcome = Inr \<lparr>res_PlanID = replicate 64 CHR ''1'', res_Applied = 1, res_Current = 0, res_DryRun = False\<rparr> \<and>
     (case as_trace s ! 17 of ReceiptsCommitted gitRev records r \<Rightarrow> map dr_NativeRevision records = [''r1''] | _ \<Rightarrow> False)"
  unfolding tools_prepared
  by (simp add: ApplyWorkspace_def prepareRepositories_def apply_phases_def Let_def authorize_def code_defs tools_planned_facts
    tools_env_def tools_preparation_def stageOnHosts_def stage_one_def tools_host_def verify_preview_def with_records_def commitPublicationLedgers_def
    validate_ledgers_def publishAndRecord_def publish_all_def publish_def confirm_def observed_as_committed_def recordDeployment_def write_receipts_def
    abort_stages_def no_access_def tools_revision_def tools_stage_def deploymentRecordFor_def)

theorem switch_comes_last_witness:
  "\<exists>s outcome. ApplyWorkspace tools_env tools_preparation tools_results () = (s, outcome) \<and> is_commit (as_trace s ! 12) \<and>
     all_staged tools_items (take 12 (as_trace s)) \<and> recorded_in tools_preparation tools_items (take 12 (as_trace s))"
proof -
  obtain s outcome where run: "ApplyWorkspace tools_env tools_preparation tools_results () = (s, outcome)" by fastforce
  then have "12 < length (as_trace s)" "is_commit (as_trace s ! 12)" using tools_run by simp_all
  then obtain name stage expected r where "as_trace s ! 12 = CommitRequested name stage expected r" by (cases "as_trace s ! 12") auto
  from switch_comes_last [OF tools_prepared_from tools_items_prepared run \<open>12 < _\<close> this] show ?thesis
    using run \<open>is_commit _\<close> by (simp add: Let_def)
qed

theorem receipts_are_earned_witness:
  "\<exists>s outcome gitRev records r. ApplyWorkspace tools_env tools_preparation tools_results () = (s, outcome) \<and>
     as_trace s ! 17 = ReceiptsCommitted gitRev records r \<and> records \<noteq> [] \<and> earned tools_items (take 17 (as_trace s)) (hd records)"
proof -
  obtain s outcome where run: "ApplyWorkspace tools_env tools_preparation tools_results () = (s, outcome)" by fastforce
  then have long: "17 < length (as_trace s)" using tools_run by simp
  obtain gitRev records r where receipts: "as_trace s ! 17 = ReceiptsCommitted gitRev records r" "records \<noteq> []"
    using tools_run run by (auto split: event.splits)
  from receipts_are_earned [OF tools_prepared_from tools_items_prepared run long receipts(1)] show ?thesis
    using run receipts by force
qed

end
