(* ===== verification/Apply_Result.thy ===== *)
theory Apply_Result
  imports Apply_Order
begin

section \<open>What an apply reports and leaves behind\<close>

text \<open>
  The counts an apply reports, what a dry run may do, and the stages the cleanup drops. The proofs follow
  the phases of \<open>ApplyWorkspace\<close> once more, with invariants about the counters and the prepared
  repositories in place of the log.
\<close>

lemma runs_any [simp]: "runs m s (\<lambda>_ _. True) (\<lambda>_. True)"
  by (simp add: runs_def split: prod.split sum.split)

lemma always_fails: "runs (restore env prep p committed err label) s Q (\<lambda>_. True)" "runs (retry_failed env prep p err) s Q (\<lambda>_. True)"
  by (auto simp: restore_def retry_failed_def split: option.split)

subsection \<open>The counters\<close>

definition tally :: "bool list \<Rightarrow> int \<Rightarrow> int \<Rightarrow> 'w apply_state \<Rightarrow> bool" where
  "tally currents applied current s \<longleftrightarrow> map it_current (as_prepared s) = currents \<and> as_Applied s = applied \<and> as_Current s = current"

lemma stable_tally: "stable (tally currents applied current)"
  by (simp add: stable_def tally_def)

lemma tally_logged [simp]: "tally currents applied current (logged s w evs) = tally currents applied current s"
  by (simp add: tally_def)

lemma tally_reads: "reads m Q \<Longrightarrow> tally cs a c s \<Longrightarrow> runs m s (\<lambda>_. tally cs a c) (\<lambda>_. True)"
  by (rule runs_stable [OF _ stable_tally]) auto

lemma tally_authorize: "tally cs a c s \<Longrightarrow> runs (authorize env prep p) s (\<lambda>_. tally cs a c) (\<lambda>_. True)"
  by (rule tally_reads [OF authorize_reads])

lemma tally_stage_one:
  assumes "tally cs a c s" and "n < length (as_prepared s)"
  shows "runs (stage_one env prep n) s (\<lambda>_. tally cs a c) (\<lambda>_. True)"
proof (cases "it_current (as_prepared s ! n)")
  case True
  then show ?thesis using assms(1) by (simp add: stage_one_def)
next
  case False
  let ?p = "as_prepared s ! n"
  have files: "runs (expect_some (call operation (FilesListed (it_Name ?p))) e) s (\<lambda>_ s'. tally cs a c s' \<and> as_prepared s' = as_prepared s) (\<lambda>_. True)" for operation e
    using assms(1) by (intro runs_expect_some) simp_all
  have auth: "runs (authorize env prep ?p) s' (\<lambda>_ s'. tally cs a c s' \<and> as_prepared s' = as_prepared s) (\<lambda>_. True)"
    if "tally cs a c s' \<and> as_prepared s' = as_prepared s" for s' :: "'a apply_state"
    using authorize_reads by (rule runs_reads) (use that in simp_all)
  have staged: "runs (expect_host (call operation ev)) s' (\<lambda>stage s'. tally cs a c (s'\<lparr>as_prepared := (as_prepared s')[n := ?p\<lparr>it_hostStage := stage\<rparr>]\<rparr>)) (\<lambda>_. True)"
    if "tally cs a c s' \<and> as_prepared s' = as_prepared s" for s' :: "'a apply_state" and operation ev
  proof -
    have "map it_current ((as_prepared s)[n := ?p\<lparr>it_hostStage := stage\<rparr>]) = map it_current (as_prepared s)" for stage
      using assms(2) list_update_id [of "map it_current (as_prepared s)" n] by (simp add: map_update)
    then show ?thesis using that by (intro runs_expect_host) (auto simp: tally_def)
  qed
  show ?thesis unfolding stage_one_def runs_andThen runs_gets if_not_P [OF False] runs_update
    by (intro runs_conseq [OF files] runs_conseq [OF auth] runs_conseq [OF staged] tally_reads [OF verify_reads(4)])
qed

lemma tally_stageOnHosts:
  assumes "tally cs a c s"
  shows "runs (stageOnHosts env prep) s (\<lambda>_. tally cs a c) (\<lambda>_. True)"
proof -
  have "length (as_prepared s) = length cs" if "tally cs a c s" for s :: "'a apply_state" using that by (auto simp: tally_def)
  then show ?thesis using assms by (simp add: stageOnHosts_def) (rule runs_each, auto intro!: tally_stage_one)
qed

lemma tally_ledgers:
  assumes "tally cs a c s"
  shows "runs (commitPublicationLedgers env prep ps) s (\<lambda>_. tally cs a c) (\<lambda>_. True)"
proof -
  have earlier: "runs (if prep_ledgerCommitted prep then committed_before env prep ps else ok []) s (\<lambda>_. tally cs a c) (\<lambda>_. True)"
    using assms by (auto intro: tally_reads [OF ledger_reads(2)])
  have records: "runs (each (\<lambda>item. expect (call (operation item) (RecordsPrepared (it_Name item))) (e item)) xs) s' (\<lambda>_. tally cs a c) (\<lambda>_. True)"
    if "tally cs a c s'" for operation e xs and s' :: "'a apply_state"
    using that by (rule runs_each) (auto intro!: runs_expect)
  show ?thesis unfolding commitPublicationLedgers_def runs_andThen
    by (intro runs_conseq [OF earlier] runs_conseq [OF records])
      (auto intro!: runs_expect_some runs_expect runs_conseq [OF tally_reads [OF ledger_reads(1)]])
qed

lemma tally_verifyCurrent:
  assumes "tally cs a c s"
  shows "runs (verifyCurrent env prep p) s (\<lambda>_. tally cs a (c + 1)) (\<lambda>_. True)"
proof -
  let ?s = "s\<lparr>as_Current := as_Current s + 1\<rparr>"
  have start: "tally cs a (c + 1) ?s" using assms by (simp add: tally_def)
  have recorded: "runs (if it_Action p = ''noop'' then ok () else recordDeployment env prep p native) s' (\<lambda>_. tally cs a (c + 1)) (\<lambda>_. True)"
    if "tally cs a (c + 1) s'" for native and s' :: "'a apply_state"
    using that by (auto simp: recordDeployment_def tally_def intro!: runs_call)
  have probe: "runs (andThen (attempt (verifyCanonicalClient env p access)) (\<lambda>probe. case probe of Inl err \<Rightarrow> retry_failed env prep p err | Inr _ \<Rightarrow> ok ()))
      s' (\<lambda>_. tally cs a (c + 1)) (\<lambda>_. True)" if "tally cs a (c + 1) s'" for access and s' :: "'a apply_state"
    unfolding runs_andThen [of "attempt _"]
    by (rule runs_conseq [OF tally_reads [OF reads_attempt [OF verify_reads(3) TrueI] that]]) (auto split: sum.split intro: always_fails)
  have access: "runs (if prep_StructuralOnly prep \<or> it_Action p = ''noop'' then ok ()
        else andThen (expect_host (call operation (AccessRead (it_Name p)))) (\<lambda>access.
             andThen (attempt (verifyCanonicalClient env p access)) (\<lambda>probe. case probe of
               Inl err \<Rightarrow> retry_failed env prep p err | Inr _ \<Rightarrow> ok ()))) ?s (\<lambda>_. tally cs a (c + 1)) (\<lambda>_. True)" for operation
  proof (cases "prep_StructuralOnly prep \<or> it_Action p = ''noop''")
    case False
    show ?thesis unfolding if_not_P [OF False] runs_andThen [of "expect_host _"] by (intro runs_expect_host probe) (simp_all only: tally_logged start)
  qed (use start in simp)
  show ?thesis unfolding verifyCurrent_def runs_andThen [of "update _"] runs_update runs_andThen [of "if _ then _ else _"]
    by (rule runs_conseq [OF access], rule recorded) simp_all
qed

lemma tally_confirm:
  assumes "tally cs a c s"
  shows "runs (confirm env prep gitRev p committed) s (\<lambda>_. tally cs (a + 1) c) (\<lambda>_. True)"
proof -
  have recorded: "runs (recordDeployment env prep p native) s' (\<lambda>_. tally cs (a + 1) c) (\<lambda>_. True)" if "tally cs (a + 1) c s'" for native and s' :: "'a apply_state"
    using that by (auto simp: recordDeployment_def tally_def intro!: runs_call)
  have start: "tally cs (a + 1) c (logged (s\<lparr>as_Applied := as_Applied s + 1\<rparr>) w evs)" for w evs using assms by (simp add: tally_def)
  have probe: "runs (andThen (if prep_StructuralOnly prep then ok (Inr ()) else attempt (verifyCanonicalClient env p access)) (\<lambda>probe.
           case probe of Inl err \<Rightarrow> restore env prep p committed err label
           | Inr _ \<Rightarrow> andThen (expect (call (env_head env gitRev) (HeadAsserted gitRev)) GitMoved) (\<lambda>_.
               recordDeployment env prep p native))) s' (\<lambda>_. tally cs (a + 1) c) (\<lambda>_. True)" (is "runs (andThen ?m _) _ _ _")
    if "tally cs (a + 1) c s'" for access label native and s' :: "'a apply_state"
  proof -
    have "reads ?m (\<lambda>_ _. True)" by (auto intro: reads_ok reads_attempt verify_reads)
    then show ?thesis unfolding runs_andThen [of ?m]
      by (rule runs_conseq [OF tally_reads [OF _ that]]) (auto split: sum.split intro!: always_fails runs_expect recorded)
  qed
  show ?thesis unfolding confirm_def runs_andThen [of "update _"] runs_andThen [of "call _ _"] runs_update
    apply (rule runs_call)
    subgoal for w r
    proof (cases r)
      case (Inr canonical)
      then show ?thesis using always_fails(1) probe [OF start]
        by (cases "observed_as_committed p committed canonical") (simp_all only: sum.case simp_thms if_True if_False)
    qed (simp add: always_fails)
    done
qed

lemma tally_publish:
  assumes "tally cs a c s"
  shows "runs (publish env prep gitRev p) s (\<lambda>_. tally cs (a + 1) c) (\<lambda>_. True)"
proof -
  have confirmed: "runs (case credential of None \<Rightarrow> confirm env prep gitRev p committed
      | Some secret \<Rightarrow> deferred (confirm env prep gitRev p committed) (call (env_destroy env secret) (\<lambda>_. CredentialDestroyed (it_Name p)))) s'
      (\<lambda>_. tally cs (a + 1) c) (\<lambda>_. True)" if "tally cs a c s'" for credential committed and s' :: "'a apply_state"
    using runs_conseq [OF tally_confirm [OF that]] by (auto split: option.split intro!: runs_call runs_conseq [OF tally_confirm [OF that]])
  show ?thesis using assms unfolding publish_def runs_andThen
    by (auto intro!: runs_expect runs_conseq [OF tally_authorize] runs_expect_host confirmed)
qed

lemma tally_publish_all:
  assumes "tally cs 0 0 s"
  shows "runs (publish_all env prep gitRev ps) s
    (\<lambda>_. tally cs (int (length (filter (\<lambda>p. \<not> it_current p) ps))) (int (length (filter it_current ps)))) (\<lambda>_. True)"
  unfolding publish_all_def
proof (rule runs_each_done)
  show "tally cs (int (length (filter (\<lambda>p. \<not> it_current p) []))) (int (length (filter it_current []))) s" using assms by simp
  fix "done" rest :: "applyRepository list" and p and s :: "'a apply_state"
  assume "tally cs (int (length (filter (\<lambda>p. \<not> it_current p) done))) (int (length (filter it_current done))) s"
  from tally_verifyCurrent [OF this, of env prep p] tally_publish [OF this, of env prep gitRev p]
  show "runs (if it_current p then verifyCurrent env prep p else publish env prep gitRev p) s
    (\<lambda>_. tally cs (int (length (filter (\<lambda>p. \<not> it_current p) (done @ [p])))) (int (length (filter it_current (done @ [p]))))) (\<lambda>_. True)"
    by (auto simp: ac_simps)
qed

lemma tally_write_receipts: "tally cs a c s \<Longrightarrow> runs (write_receipts env gitRev) s (\<lambda>_. tally cs a c) (\<lambda>_. True)"
  by (auto simp: write_receipts_def split: option.split intro!: runs_expect)

definition counted :: "applyRepository list \<Rightarrow> 'w apply_state \<Rightarrow> bool" where
  "counted items s \<longleftrightarrow> as_Applied s = int (length (filter (\<lambda>p. \<not> it_current p) items)) \<and> as_Current s = int (length (filter it_current items))"

lemma tally_counted:
  assumes "tally cs (int (length (filter (\<lambda>p. \<not> it_current p) ps))) (int (length (filter it_current ps))) s"
    and "map it_current ps = map it_current items"
  shows "counted items s"
proof -
  have "length (filter (P \<circ> it_current) ps) = length (filter (P \<circ> it_current) items)" for P
    using arg_cong [OF assms(2), of "\<lambda>l. length (filter P l)"] by (simp add: filter_map)
  from this [of Not] this [of id] show ?thesis using assms(1) by (simp add: tally_def counted_def o_def)
qed

lemma tally_publishAndRecord:
  assumes "tally (map it_current items) 0 0 s"
  shows "runs (publishAndRecord env prep gitRev) s (\<lambda>_. counted items) (\<lambda>_. True)"
proof -
  let ?ps = "as_prepared s"
  let ?done = "tally (map it_current items) (int (length (filter (\<lambda>p. \<not> it_current p) ?ps))) (int (length (filter it_current ?ps)))"
  have same: "map it_current ?ps = map it_current items" using assms by (simp add: tally_def)
  have written: "runs (write_receipts env gitRev) s' (\<lambda>_. counted items) (\<lambda>_. True)" if "?done s'" for s' :: "'a apply_state"
    by (rule runs_conseq [OF tally_write_receipts [OF that]]) (auto intro: tally_counted same)
  have "runs (publish_all env prep gitRev ?ps) s' (\<lambda>_ s'. runs (write_receipts env gitRev) s' (\<lambda>_. counted items) (\<lambda>_. True)) (\<lambda>_. True)"
    "runs (deferred (publish_all env prep gitRev ?ps) (call (env_git_unlock env) (\<lambda>_. GitUnlocked))) s'
      (\<lambda>_ s'. runs (write_receipts env gitRev) s' (\<lambda>_. counted items) (\<lambda>_. True)) (\<lambda>_. True)"
    if "tally (map it_current items) 0 0 s'" for s' :: "'a apply_state"
    unfolding runs_deferred by (rule runs_conseq [OF tally_publish_all [OF that]]; auto intro!: written runs_call)+
  then show ?thesis using assms unfolding publishAndRecord_def runs_andThen runs_gets
    by (auto simp del: runs_deferred intro!: runs_expect)
qed

lemma apply_phases_counted:
  assumes "as_prepared s = items" and "as_Applied s = 0" and "as_Current s = 0" and "\<not> prep_DryRun prep"
  shows "runs (apply_phases env prep items) s (\<lambda>_. counted items) (\<lambda>_. True)"
proof -
  let ?T = "tally (map it_current items) 0 0"
  have start: "?T s" using assms by (simp add: tally_def)
  have authorize_all: "runs (each (authorize env prep) ps) s' (\<lambda>_. ?T) (\<lambda>_. True)" if "?T s'" for ps and s' :: "'a apply_state"
    using that by (rule runs_each) (rule tally_authorize)
  have aborted: "runs (abort_stages env) s' (\<lambda>_. counted items) (counted items)" if "counted items s'" for s' :: "'a apply_state"
    using that by (auto simp: abort_stages_def counted_def intro!: runs_each runs_call)
  show ?thesis unfolding apply_phases_def runs_andThen runs_deferred runs_gets if_not_P [OF assms(4)]
    by (intro runs_conseq [OF authorize_all [OF start]] runs_conseq [OF tally_stageOnHosts])
      (auto intro!: runs_conseq [OF authorize_all] runs_conseq [OF tally_ledgers] runs_conseq [OF tally_publishAndRecord] aborted)
qed

subsection \<open>Code that stages nothing\<close>

fun is_stage :: "event \<Rightarrow> bool" where
  "is_stage (StageRequested name req r) = True"
| "is_stage e = False"

definition quiet :: "('w apply_state, 'e, 'a) eff \<Rightarrow> bool" where
  "quiet m \<longleftrightarrow> (\<forall>s. as_prepared (fst (m s)) = as_prepared s \<and>
     (\<exists>evs. as_trace (fst (m s)) = as_trace s @ evs \<and> list_all (\<lambda>e. \<not> is_stage e) evs))"

named_theorems quiet_intro \<open>the parts of an apply that stage nothing\<close>

lemma quiet_basic [quiet_intro]: "quiet (ok a)" "quiet (fail e)" "quiet (guard b e)" "quiet (gets f)"
  by (simp_all add: quiet_def ok_def fail_def guard_def gets_def)

lemma quiet_update: "(\<And>s. as_prepared (f s) = as_prepared s \<and> as_trace (f s) = as_trace s) \<Longrightarrow> quiet (update f)"
  by (simp add: quiet_def update_def)

lemma quiet_call: "(\<And>r. \<not> is_stage (ev r)) \<Longrightarrow> quiet (call operation ev)"
  by (auto simp: quiet_def call_def split: prod.split)

lemma quiet_andThen [quiet_intro]:
  assumes "quiet m" and "\<And>a. quiet (f a)"
  shows "quiet (andThen m f)"
  unfolding quiet_def
proof
  fix s
  obtain s1 r where m: "m s = (s1, r)" by fastforce
  then obtain evs where first: "as_prepared s1 = as_prepared s" "as_trace s1 = as_trace s @ evs" "list_all (\<lambda>e. \<not> is_stage e) evs"
    using assms(1) unfolding quiet_def by (metis fst_conv)
  show "as_prepared (fst (andThen m f s)) = as_prepared s \<and> (\<exists>evs. as_trace (fst (andThen m f s)) = as_trace s @ evs \<and> list_all (\<lambda>e. \<not> is_stage e) evs)"
  proof (cases r)
    case (Inr a)
    obtain evs' where "as_prepared (fst (f a s1)) = as_prepared s1" "as_trace (fst (f a s1)) = as_trace s1 @ evs'" "list_all (\<lambda>e. \<not> is_stage e) evs'"
      using assms(2) unfolding quiet_def by metis
    then show ?thesis using m Inr first by (simp add: andThen_def)
  qed (use m first in \<open>simp add: andThen_def\<close>)
qed

lemma quiet_attempt [quiet_intro]: "quiet m \<Longrightarrow> quiet (attempt m)"
  by (simp add: quiet_def attempt_def split: prod.split) (metis fst_conv)

lemma quiet_deferred [quiet_intro]:
  assumes "quiet m" and "quiet cleanup"
  shows "quiet (deferred m cleanup)"
proof -
  have "fst (deferred m cleanup s) = fst (andThen (attempt m) (\<lambda>_. cleanup) s)" for s
    by (simp add: deferred_def andThen_def attempt_def split: prod.split)
  then show ?thesis using quiet_andThen [OF quiet_attempt [OF assms(1)] assms(2)] by (simp add: quiet_def)
qed

lemma quiet_each [quiet_intro]: "(\<And>x. x \<in> set xs \<Longrightarrow> quiet (f x)) \<Longrightarrow> quiet (each f xs)"
  by (induction xs) (auto intro: quiet_basic quiet_andThen)

lemma quiet_expect [quiet_intro]: "quiet m \<Longrightarrow> quiet (expect m e)" "quiet n \<Longrightarrow> quiet (expect_some n e)" "quiet k \<Longrightarrow> quiet (expect_host k)"
  unfolding expect_def expect_some_def expect_host_def by (auto intro!: quiet_intro split: option.split sum.split)

lemma quiet_authorize [quiet_intro]: "quiet (authorize env prep p)"
  by (auto simp: authorize_def split: option.split intro!: quiet_intro quiet_call)

lemma quiet_verify [quiet_intro]: "quiet (verifyStaged env p directory)" "quiet (verifyEndpointClient env p access)"
    "quiet (verifyCanonicalClient env p access)" "quiet (verify_preview env prep p stage)"
  by (auto simp: verifyStaged_def verifyEndpointClient_def verifyCanonicalClient_def verify_preview_def Let_def split: option.split
      intro!: quiet_intro quiet_call)

lemma quiet_restore [quiet_intro]: "quiet (restoreFailedPublication env prep p reference expected)" "quiet (restore env prep p committed err label)"
    "quiet (retry_failed env prep p err)"
proof -
  show "quiet (restoreFailedPublication env prep p reference expected)" for reference expected
    by (auto simp: restoreFailedPublication_def split: sum.split intro!: quiet_intro quiet_call)
  then show "quiet (restore env prep p committed err label)" "quiet (retry_failed env prep p err)"
    by (auto simp: restore_def retry_failed_def split: sum.split option.split intro!: quiet_intro quiet_update)
qed

lemma quiet_publish [quiet_intro]: "quiet (publish_all env prep gitRev ps)"
proof -
  have recorded: "quiet (recordDeployment env prep p native)" for p native
    by (auto simp: recordDeployment_def intro!: quiet_intro quiet_call quiet_update)
  have current: "quiet (verifyCurrent env prep p)" for p
    by (auto simp: verifyCurrent_def split: sum.split intro!: quiet_intro quiet_call quiet_update recorded)
  have "quiet (confirm env prep gitRev p committed)" for p committed
    by (auto simp: confirm_def split: sum.split intro!: quiet_intro quiet_call quiet_update recorded)
  then have "quiet (publish env prep gitRev p)" for p
    by (auto simp: publish_def split: option.split intro!: quiet_intro quiet_call)
  then show ?thesis using current by (auto simp: publish_all_def intro!: quiet_intro)
qed

lemma quiet_rest [quiet_intro]: "quiet (commitPublicationLedgers env prep ps)" "quiet (publishAndRecord env prep gitRev)"
proof -
  show "quiet (commitPublicationLedgers env prep ps)"
    by (auto simp: commitPublicationLedgers_def committed_before_def validate_ledgers_def intro!: quiet_intro quiet_call)
  have "quiet (write_receipts env gitRev)"
    by (auto simp: write_receipts_def split: option.split intro!: quiet_intro quiet_call)
  then show "quiet (publishAndRecord env prep gitRev)"
    by (auto simp: publishAndRecord_def intro!: quiet_intro quiet_call)
qed

subsection \<open>The stages an apply leaves\<close>

definition tracked :: "'w apply_state \<Rightarrow> bool" where
  "tracked s \<longleftrightarrow> (\<forall>name req stage. StageRequested name req (Inr stage) \<in> set (as_trace s) \<longrightarrow> sp_ID stage \<noteq> [] \<longrightarrow>
     (\<exists>p \<in> set (as_prepared s). it_Name p = name \<and> it_hostStage p = stage))"

lemma quiet_keeps:
  assumes "quiet m" and "\<And>s' evs. as_prepared s' = as_prepared s \<Longrightarrow> as_trace s' = as_trace s @ evs \<Longrightarrow> list_all (\<lambda>e. \<not> is_stage e) evs \<Longrightarrow> P s'"
  shows "runs m s (\<lambda>_. P) P"
proof -
  have "P (fst (m s))" using assms unfolding quiet_def by blast
  then show ?thesis by (cases "m s") (auto simp: runs_def split: sum.split)
qed

lemma tracked_cong:
  assumes "tracked s" and "as_prepared s' = as_prepared s" and "as_trace s' = as_trace s @ evs" and "list_all (\<lambda>e. \<not> is_stage e) evs"
  shows "tracked s'"
proof -
  have "StageRequested name req r \<notin> set evs" for name req r using assms(4) by (auto simp: list_all_iff)
  then show ?thesis using assms(1-3) by (simp add: tracked_def)
qed

definition tracking :: "nat \<Rightarrow> 'w apply_state \<Rightarrow> bool" where
  "tracking n s \<longleftrightarrow> tracked s \<and> (\<forall>j \<ge> n. j < length (as_prepared s) \<longrightarrow> sp_ID (it_hostStage (as_prepared s ! j)) = [])"

lemma tracking_quiet: "quiet m \<Longrightarrow> tracking n s \<Longrightarrow> runs m s (\<lambda>_ s'. tracking n s' \<and> as_prepared s' = as_prepared s) tracked"
  by (rule runs_conseq [OF quiet_keeps [where P = "\<lambda>s'. tracking n s' \<and> as_prepared s' = as_prepared s"]])
    (auto simp: tracking_def intro: tracked_cong)

lemma tracking_staged:
  assumes "tracking n s" and "n < length (as_prepared s)" and "p = as_prepared s ! n"
  shows "tracking (Suc n) (as_prepared_update (\<lambda>_. (as_prepared s)[n := p\<lparr>it_hostStage := stage\<rparr>]) (logged s w [StageRequested (it_Name p) req (Inr stage)]))"
    (is "tracking _ ?s")
proof -
  have "\<exists>q \<in> set (as_prepared ?s). it_Name q = name \<and> it_hostStage q = held"
    if stage: "StageRequested name req' (Inr held) \<in> set (as_trace s)" "sp_ID held \<noteq> []" for name req' held
  proof -
    obtain q where q: "q \<in> set (as_prepared s)" "it_Name q = name" "it_hostStage q = held"
      using assms(1) stage unfolding tracking_def tracked_def by blast
    then obtain j where j: "j < length (as_prepared s)" "as_prepared s ! j = q" by (auto simp: in_set_conv_nth)
    moreover have "j \<noteq> n" using assms(1,2) j q(3) stage(2) unfolding tracking_def by blast
    ultimately have "as_prepared ?s ! j = q" "j < length (as_prepared ?s)" by simp_all
    then have "q \<in> set (as_prepared ?s)" by (metis nth_mem)
    then show ?thesis using q(2,3) by blast
  qed
  moreover have "\<exists>q \<in> set (as_prepared ?s). it_Name q = it_Name p \<and> it_hostStage q = stage"
    using assms(2) by (intro bexI [of _ "p\<lparr>it_hostStage := stage\<rparr>"]) (simp_all add: set_update_memI)
  moreover have "name = it_Name p \<and> held = stage \<or> StageRequested name req' (Inr held) \<in> set (as_trace s)"
    if "StageRequested name req' (Inr held) \<in> set (as_trace ?s)" for name req' held using that by auto
  ultimately have "tracked ?s" unfolding tracked_def by blast
  then show ?thesis using assms by (auto simp: tracking_def)
qed

lemma tracking_stage_one:
  assumes "tracking n s" and "n < length (as_prepared s)"
  shows "runs (stage_one env prep n) s (\<lambda>_ s'. tracking (Suc n) s' \<and> length (as_prepared s') = length (as_prepared s)) tracked"
proof (cases "it_current (as_prepared s ! n)")
  case True
  then show ?thesis using assms by (simp add: stage_one_def tracking_def)
next
  case False
  let ?p = "as_prepared s ! n"
  let ?same = "\<lambda>s'. tracking n s' \<and> as_prepared s' = as_prepared s"
  have files: "runs (expect_some (call operation (FilesListed (it_Name ?p))) e) s (\<lambda>_. ?same) tracked" for operation e
    by (intro tracking_quiet assms(1) quiet_intro quiet_call) simp
  have auth: "runs (authorize env prep ?p) s' (\<lambda>_. ?same) tracked" if "?same s'" for s' :: "'a apply_state"
    using tracking_quiet [OF quiet_authorize, of n s'] that by simp
  have staged: "runs (expect_host (call operation (StageRequested (it_Name ?p) req))) s' (\<lambda>stage s'. tracking (Suc n)
      (s'\<lparr>as_prepared := (as_prepared s')[n := ?p\<lparr>it_hostStage := stage\<rparr>]\<rparr>) \<and> length (as_prepared s') = length (as_prepared s)) tracked"
    if "?same s'" for s' :: "'a apply_state" and operation req
    using that assms(2) tracking_staged [of n s' ?p] by (intro runs_expect_host) (auto simp: tracking_def tracked_def)
  have preview: "runs (verify_preview env prep ?p stage) s' (\<lambda>_ s'. tracking (Suc n) s' \<and> length (as_prepared s') = length (as_prepared s)) tracked"
    if "tracking (Suc n) s'" "length (as_prepared s') = length (as_prepared s)" for s' :: "'a apply_state" and stage
    by (rule runs_conseq [OF tracking_quiet [OF quiet_verify(4) that(1)]]) (use that(2) in auto)
  show ?thesis unfolding stage_one_def runs_andThen runs_gets if_not_P [OF False] runs_update
    by (intro runs_conseq [OF files] runs_conseq [OF auth] runs_conseq [OF staged] preview) auto
qed

lemma tracking_stageOnHosts:
  assumes "tracking 0 s"
  shows "runs (stageOnHosts env prep) s (\<lambda>_. tracked) tracked"
proof -
  let ?n = "length (as_prepared s)"
  have "runs (each (stage_one env prep) [0..<?n]) s (\<lambda>_ s'. tracking (length [0..<?n]) s' \<and> length (as_prepared s') = ?n) tracked"
  proof (rule runs_each_done [where I = "\<lambda>done s'. tracking (length done) s' \<and> length (as_prepared s') = ?n"])
    show "tracking (length []) s \<and> length (as_prepared s) = ?n" using assms by simp
    fix "done" i rest and s' :: "'a apply_state"
    assume split: "[0..<?n] = done @ i # rest" and s': "tracking (length done) s' \<and> length (as_prepared s') = ?n"
    have before: "length done < ?n" using arg_cong [OF split, of length] by simp
    then have "[0..<?n] ! length done = length done" by simp
    then have "i = length done" using split by simp
    then show "runs (stage_one env prep i) s' (\<lambda>_ s'. tracking (length (done @ [i])) s' \<and> length (as_prepared s') = ?n) tracked"
      using tracking_stage_one [of "length done" s'] s' before by simp
  qed
  then show ?thesis unfolding stageOnHosts_def runs_andThen runs_gets by (rule runs_conseq) (simp_all add: tracking_def)
qed

definition dropped :: "'w apply_state \<Rightarrow> bool" where
  "dropped s \<longleftrightarrow> (\<forall>name req stage. StageRequested name req (Inr stage) \<in> set (as_trace s) \<longrightarrow> sp_ID stage \<noteq> [] \<longrightarrow>
     (\<exists>r. AbortRequested name stage r \<in> set (as_trace s)))"

lemma abort_drops:
  assumes "tracked s"
  shows "runs (abort_stages env) s (\<lambda>_. dropped) dropped"
proof -
  let ?f = "\<lambda>item. if sp_ID (it_hostStage item) = [] then ok ()
     else andThen (call (host_Abort (env_host env (it_hostRepository item)) (it_hostRepository item) (it_hostStage item))
       (AbortRequested (it_Name item) (it_hostStage item))) (\<lambda>_. ok ())"
  let ?I = "\<lambda>done s'. tracked s' \<and> as_prepared s' = as_prepared s \<and>
    (\<forall>p \<in> set done. sp_ID (it_hostStage p) \<noteq> [] \<longrightarrow> (\<exists>r. AbortRequested (it_Name p) (it_hostStage p) r \<in> set (as_trace s')))"
  have "runs (each ?f (as_prepared s)) s (\<lambda>_. ?I (as_prepared s)) (\<lambda>_. False)"
  proof (rule runs_each_done [where I = ?I])
    show "?I [] s" using assms by simp
    fix "done" p rest and s' :: "'a apply_state"
    assume I: "?I done s'"
    have "tracked (logged s' w [AbortRequested (it_Name p) (it_hostStage p) r])" for w r
      by (rule tracked_cong [of s' _ "[AbortRequested (it_Name p) (it_hostStage p) r]"]) (use I in simp_all)
    then have after: "?I (done @ [p]) (logged s' w [AbortRequested (it_Name p) (it_hostStage p) r])" for w r using I by auto
    show "runs (?f p) s' (\<lambda>_. ?I (done @ [p])) (\<lambda>_. False)"
    proof (cases "sp_ID (it_hostStage p) = []")
      case False
      show ?thesis unfolding if_not_P [OF False] runs_andThen runs_ok by (rule runs_call) (rule after)
    qed (use I in auto)
  qed
  then show ?thesis unfolding abort_stages_def runs_andThen runs_gets
  proof (rule runs_conseq)
    fix s' :: "'a apply_state" assume I: "?I (as_prepared s) s'"
    show "dropped s'" unfolding dropped_def
    proof (intro allI impI)
      fix name req stage assume stage: "StageRequested name req (Inr stage) \<in> set (as_trace s')" "sp_ID stage \<noteq> []"
      then obtain p where "p \<in> set (as_prepared s)" "it_Name p = name" "it_hostStage p = stage" using I unfolding tracked_def by metis
      then show "\<exists>r. AbortRequested name stage r \<in> set (as_trace s')" using I stage(2) by blast
    qed
  qed simp
qed

lemma apply_phases_dropped:
  assumes "as_trace s = []" and "as_prepared s = items" and "\<forall>p \<in> set items. it_hostStage p = no_stage"
  shows "runs (apply_phases env prep items) s (\<lambda>_. dropped) dropped"
proof -
  let ?unstaged = "\<lambda>s' :: 'a apply_state. list_all (\<lambda>e. \<not> is_stage e) (as_trace s') \<and> as_prepared s' = items"
  have none: "tracking 0 s'" "dropped s'" if "?unstaged s'" for s'
  proof -
    have "StageRequested name req r \<notin> set (as_trace s')" for name req r using that by (auto simp: list_all_iff)
    then show "tracking 0 s'" "dropped s'" using that assms(3) by (auto simp: tracking_def tracked_def dropped_def no_stage_def)
  qed
  have first: "runs (each (authorize env prep) items) s (\<lambda>_. ?unstaged) ?unstaged"
    by (rule quiet_keeps [OF quiet_each [OF quiet_authorize]]) (use assms in simp)
  have quiet: "runs m s' (\<lambda>_. tracked) tracked" if "quiet m" "tracked s'" for m :: "('a, 'b) applying" and s'
    using that(1) by (rule quiet_keeps) (use that(2) in \<open>auto intro: tracked_cong\<close>)
  have rest: "quiet (andThen (gets as_prepared) (\<lambda>items'. andThen (if prep_ledgerCommitted prep then ok () else each (authorize env prep) (with_records items')) (\<lambda>_.
       andThen (commitPublicationLedgers env prep items') (publishAndRecord env prep))))"
    by (auto intro!: quiet_intro)
  have work: "runs (andThen (stageOnHosts env prep) (\<lambda>_. andThen (gets as_prepared) (\<lambda>items'.
       andThen (if prep_ledgerCommitted prep then ok () else each (authorize env prep) (with_records items')) (\<lambda>_.
       andThen (commitPublicationLedgers env prep items') (publishAndRecord env prep))))) s' (\<lambda>_. tracked) tracked"
    if "?unstaged s'" for s'
    unfolding runs_andThen [of "stageOnHosts _ _"]
    by (rule runs_conseq [OF tracking_stageOnHosts [OF none(1) [OF that]]]) (rule quiet [OF rest])
  show ?thesis unfolding apply_phases_def runs_andThen [of "each _ _"]
    by (rule runs_conseq [OF first]) (auto simp del: runs_andThen intro!: runs_conseq [OF work] abort_drops none(2))
qed

subsection \<open>Dry runs\<close>

fun consultation :: "event \<Rightarrow> bool" where
  "consultation (ClockRead now) = True"
| "consultation (GateAsked req answer) = True"
| "consultation e = False"

lemma apply_phases_consults:
  assumes "as_trace s = []" and "prep_DryRun prep"
  shows "runs (apply_phases env prep items) s (\<lambda>_ s'. list_all consultation (as_trace s')) (\<lambda>s'. list_all consultation (as_trace s'))"
proof -
  let ?P = "\<lambda>s' :: 'a apply_state. list_all consultation (as_trace s')"
  have "runs (authorize env prep p) s' (\<lambda>_. ?P) ?P" if "?P s'" for p and s' :: "'a apply_state"
    using that unfolding authorize_def by (auto split: option.split intro!: runs_call runs_expect)
  then have "runs (each (authorize env prep) items) s (\<lambda>_. ?P) ?P" using assms(1) by (intro runs_each) auto
  then show ?thesis using assms(2) by (simp add: apply_phases_def)
qed

subsection \<open>Properties\<close>

text \<open>
  C21: the counts an apply reports are those of the repositories that were prepared: the ones it switched
  are exactly those that were not current, and the rest it verified in place. A dry run of the same
  preparation reports the same counts.
\<close>

theorem apply_reports_the_dry_run:
  assumes "prepareRepositories results = Inr items" and "ApplyWorkspace env prep results w = (s, Inr result)"
  shows "res_Applied result = int (length (filter (\<lambda>p. \<not> it_current p) items)) \<and> res_Current result = int (length (filter it_current items)) \<and>
    res_PlanID result = plan_PlanID (prep_plan prep) \<and> res_DryRun result = prep_DryRun prep"
proof -
  have sum: "int (length items) - int (length (filter (\<lambda>p. \<not> it_current p) items)) = int (length (filter it_current items))"
    using sum_length_filter_compl [of it_current items] by simp
  let ?start = "\<lparr>as_world = w, as_trace = [], as_prepared = items, as_Applied = 0, as_Current = 0, as_deployments = []\<rparr>"
  show ?thesis
  proof (cases "prep_DryRun prep")
    case True
    then show ?thesis using assms sum by (auto simp: ApplyWorkspace_def Let_def split: prod.splits sum.splits)
  next
    case False
    then have "runs (apply_phases env prep items) ?start (\<lambda>_. counted items) (\<lambda>_. True)" by (intro apply_phases_counted) simp_all
    then show ?thesis using assms False
      by (auto simp: ApplyWorkspace_def Let_def counted_def runs_def split: prod.splits sum.splits)
  qed
qed


text \<open>
  A dry run reads the clock and asks the gates, and does nothing else: it never calls a host, Git, a
  client or the ledgers, however it ends.
\<close>

theorem dry_run_only_asks:
  assumes "prep_DryRun prep" and "ApplyWorkspace env prep results w = (s, outcome)"
  shows "\<forall>e \<in> set (as_trace s). (\<exists>now. e = ClockRead now) \<or> (\<exists>req answer. e = GateAsked req answer)"
proof -
  have "list_all consultation (as_trace s)"
  proof (cases "prepareRepositories results")
    case (Inr items)
    let ?start = "\<lparr>as_world = w, as_trace = [], as_prepared = items, as_Applied = 0, as_Current = 0, as_deployments = []\<rparr>"
    have "runs (apply_phases env prep items) ?start (\<lambda>_ s'. list_all consultation (as_trace s')) (\<lambda>s'. list_all consultation (as_trace s'))"
      by (rule apply_phases_consults) (simp_all add: assms(1))
    then show ?thesis using assms(2) Inr by (auto simp: ApplyWorkspace_def Let_def runs_def split: prod.splits sum.splits)
  qed (use assms(2) in \<open>auto simp: ApplyWorkspace_def Let_def\<close>)
  moreover have "consultation e \<Longrightarrow> (\<exists>now. e = ClockRead now) \<or> (\<exists>req answer. e = GateAsked req answer)" for e by (cases e) auto
  ultimately show ?thesis by (auto simp: list_all_iff)
qed

text \<open>
  C20: no stage is left behind. Whatever an apply does and however it ends, every stage with an identifier
  that a host handed out is given back to that host for the same repository before the apply returns.
\<close>

theorem every_stage_is_dropped:
  assumes "prepared_from lib prep results" and "ApplyWorkspace env prep results w = (s, outcome)"
    and "StageRequested name req (Inr stage) \<in> set (as_trace s)" and "sp_ID stage \<noteq> []"
  shows "\<exists>r. AbortRequested name stage r \<in> set (as_trace s)"
proof (cases "prepareRepositories results")
  case (Inl e)
  then show ?thesis using assms(2,3) by (auto simp: ApplyWorkspace_def Let_def)
next
  case (Inr items)
  let ?start = "\<lparr>as_world = w, as_trace = [], as_prepared = items, as_Applied = 0, as_Current = 0, as_deployments = []\<rparr>"
  have "\<forall>p \<in> set items. it_hostStage p = no_stage"
  proof
    fix p assume "p \<in> set items"
    then obtain view directory planned where "prepareRepository lib prep view directory planned = Inr p"
      using assms(1) Inr unfolding prepareRepositories_Inr prepared_from_def by force
    then show "it_hostStage p = no_stage" by (rule prepareRepository_elim) (rule finish_prepare_facts(7))
  qed
  then have "runs (apply_phases env prep items) ?start (\<lambda>_. dropped) dropped" by (intro apply_phases_dropped) simp_all
  then have "dropped s" using assms(2) Inr by (auto simp: ApplyWorkspace_def Let_def runs_def split: prod.splits sum.splits)
  then show ?thesis using assms(3,4) unfolding dropped_def by blast
qed

subsection \<open>The example once more\<close>

lemma tools_dry_run:
  "case ApplyWorkspace tools_env (tools_preparation\<lparr>prep_DryRun := True\<rparr>) tools_results () of (s, outcome) \<Rightarrow>
     as_trace s = [ClockRead 6] \<and> outcome = Inr \<lparr>res_PlanID = replicate 64 CHR ''1'', res_Applied = 1, res_Current = 0, res_DryRun = True\<rparr>"
  unfolding tools_prepared
  by (simp add: ApplyWorkspace_def prepareRepositories_def apply_phases_def Let_def authorize_def code_defs tools_planned_facts tools_env_def tools_preparation_def)

lemma tools_run_stages:
  "case ApplyWorkspace tools_env tools_preparation tools_results () of (s, outcome) \<Rightarrow>
     (\<exists>req. StageRequested (plr_Name tools_planned) req (Inr tools_stage) \<in> set (as_trace s))"
  unfolding tools_prepared
  by (simp add: ApplyWorkspace_def prepareRepositories_def apply_phases_def Let_def authorize_def code_defs tools_planned_facts
    tools_env_def tools_preparation_def stageOnHosts_def stage_one_def tools_host_def verify_preview_def with_records_def commitPublicationLedgers_def
    validate_ledgers_def publishAndRecord_def publish_all_def publish_def confirm_def observed_as_committed_def recordDeployment_def write_receipts_def
    abort_stages_def no_access_def tools_revision_def tools_stage_def)

theorem apply_reports_the_dry_run_witness:
  "\<exists>s result. ApplyWorkspace tools_env tools_preparation tools_results () = (s, Inr result) \<and>
     res_Applied result = int (length (filter (\<lambda>p. \<not> it_current p) tools_items))"
proof -
  obtain s outcome where run: "ApplyWorkspace tools_env tools_preparation tools_results () = (s, outcome)" by fastforce
  then obtain result where "outcome = Inr result" using tools_run by auto
  then show ?thesis using apply_reports_the_dry_run [OF tools_items_prepared, of tools_env tools_preparation "()" s result] run by auto
qed

theorem dry_run_only_asks_witness:
  "\<exists>s outcome. ApplyWorkspace tools_env (tools_preparation\<lparr>prep_DryRun := True\<rparr>) tools_results () = (s, outcome) \<and> as_trace s \<noteq> [] \<and>
     ((\<exists>now. hd (as_trace s) = ClockRead now) \<or> (\<exists>req answer. hd (as_trace s) = GateAsked req answer))"
proof -
  obtain s outcome where run: "ApplyWorkspace tools_env (tools_preparation\<lparr>prep_DryRun := True\<rparr>) tools_results () = (s, outcome)" by fastforce
  then have "as_trace s \<noteq> []" using tools_dry_run by auto
  with dry_run_only_asks [OF _ run] run show ?thesis by auto
qed

theorem every_stage_is_dropped_witness:
  "\<exists>s outcome r. ApplyWorkspace tools_env tools_preparation tools_results () = (s, outcome) \<and>
     AbortRequested (plr_Name tools_planned) tools_stage r \<in> set (as_trace s)"
proof -
  obtain s outcome where run: "ApplyWorkspace tools_env tools_preparation tools_results () = (s, outcome)" by fastforce
  then obtain req where "StageRequested (plr_Name tools_planned) req (Inr tools_stage) \<in> set (as_trace s)" using tools_run_stages by auto
  moreover have "sp_ID tools_stage \<noteq> []" by (simp add: tools_stage_def)
  ultimately show ?thesis using every_stage_is_dropped [OF tools_prepared_from run] run by blast
qed

end
