(* ===== verification/Build_Graph.thy ===== *)
theory Build_Graph
  imports Go_Path Go_Time Hexdigest Decimal "HOL-Library.List_Lexorder" "HOL-Library.Char_ord"
begin

section \<open>The build graph\<close>

text \<open>
  \<^verbatim>\<open>internal/buildgraph/finalize.go\<close> with the structures of \<^verbatim>\<open>internal/domain/artifact.go\<close> it works on:
  how the output of a format becomes a repository tree with a management manifest, and the digest that
  stands for the tree. SHA-256 and the indented JSON encoding of the manifest are arguments.
  \<^verbatim>\<open>sort.Slice\<close> sorts by path; where two paths are equal the result is refused.
\<close>

record File =
  file_Path :: gostring
  file_Size :: int
  file_SHA256 :: gostring
  file_Content :: "gostring option"
  file_BlobSHA256 :: gostring

record VerificationCase =
  vc_Project :: gostring
  vc_Package :: gostring
  vc_Version :: gostring
  vc_Architecture :: gostring

record InstallSpec =
  is_Kind :: gostring
  is_IndexPath :: gostring
  is_Suite :: gostring
  is_Component :: gostring
  is_Architectures :: "gostring list"
  is_SigningKeyPath :: gostring
  is_SigningFingerprint :: gostring
  is_TrustedSigningFingerprints :: "gostring list"

record Signature =
  sig_Path :: gostring
  sig_Scheme :: gostring
  sig_Fingerprint :: gostring
  sig_PayloadSHA256 :: gostring
  sig_SHA256 :: gostring
  sig_CreatedAt :: gostring

record RepositoryArtifact =
  ra_Format :: gostring
  ra_Files :: "File list"
  ra_Install :: InstallSpec
  ra_VerificationCases :: "VerificationCase list"
  ra_Signatures :: "Signature list"

record ManifestFile =
  mf_Path :: gostring
  mf_Size :: int
  mf_SHA256 :: gostring

record RepositoryManifest =
  rm_SchemaVersion :: int
  rm_Format :: gostring
  rm_GeneratedAt :: gostring
  rm_TreeSHA256 :: gostring
  rm_Files :: "ManifestFile list"
  rm_Install :: InstallSpec
  rm_VerificationCases :: "VerificationCase list"
  rm_Signatures :: "Signature list"

definition ManifestFilename :: gostring where "ManifestFilename = ''snailmail.repository.json''"
definition graph_ManifestSchema :: int where "graph_ManifestSchema = 3"

definition SupportedManifestSchema :: "int \<Rightarrow> bool" where
  "SupportedManifestSchema schema \<longleftrightarrow> schema = 1 \<or> schema = 2 \<or> schema = graph_ManifestSchema"

subsection \<open>The tree digest\<close>

text \<open>\<^verbatim>\<open>strconv.FormatInt\<close> in base 10.\<close>

function format_nat :: "nat \<Rightarrow> gostring" where
  "format_nat n = (if n < 10 then [char_of (48 + n)] else format_nat (n div 10) @ [char_of (48 + n mod 10)])"
  by auto
termination by (relation "measure id") auto

declare format_nat.simps [simp del]

definition FormatInt :: "int \<Rightarrow> gostring" where
  "FormatInt n = (if n < 0 then CHR ''-'' # format_nat (nat (- n)) else format_nat (nat n))"

definition tree_line :: "ManifestFile \<Rightarrow> gostring" where
  "tree_line f = mf_Path f @ nul @ FormatInt (mf_Size f) @ nul @ mf_SHA256 f @ [CHR 0x0A]"

definition tree_text :: "ManifestFile list \<Rightarrow> gostring" where
  "tree_text files = concat (map tree_line files)"

definition TreeDigest :: "(gostring \<Rightarrow> gostring) \<Rightarrow> ManifestFile list \<Rightarrow> gostring" where
  "TreeDigest sha256 files = sha256 (tree_text files)"

subsection \<open>Finalizing a repository\<close>

datatype finalize_error = FormatRequired | TimeRequired | UnsafePath gostring | ReservedPath gostring | BackslashPath gostring
  | ContentAndBlob gostring | NegativeSize gostring | InvalidDigest gostring | DigestsDiffer gostring | DuplicatePath gostring

text \<open>The file with its size and digest filled in, or the first thing wrong with it.\<close>

definition graph_validateFile :: "(gostring \<Rightarrow> gostring) \<Rightarrow> File \<Rightarrow> finalize_error + File" where
  "graph_validateFile sha256 file =
     (let p = file_Path file in
      if p = [] \<or> is_abs p \<or> path_clean p \<noteq> p \<or> p = ''.'' \<or> has_prefix p ''../'' then Inl (UnsafePath p)
      else if p = ManifestFilename then Inl (ReservedPath p)
      else if CHR 0x5C \<in> set p then Inl (BackslashPath p)
      else if file_BlobSHA256 file = [] then
        (let content = (case file_Content file of None \<Rightarrow> [] | Some c \<Rightarrow> c) in
         Inr (file\<lparr>file_Size := int (length content), file_SHA256 := sha256 content\<rparr>))
      else if file_Content file \<noteq> None then Inl (ContentAndBlob p)
      else if file_Size file < 0 then Inl (NegativeSize p)
      else if hex_decoded_length (file_SHA256 file) \<noteq> Some 32 then Inl (InvalidDigest p)
      else if file_BlobSHA256 file \<noteq> file_SHA256 file then Inl (DigestsDiffer p)
      else Inr file)"

fun validate_files :: "(gostring \<Rightarrow> gostring) \<Rightarrow> File list \<Rightarrow> finalize_error + File list" where
  "validate_files sha256 [] = Inr []"
| "validate_files sha256 (f # fs) = (case graph_validateFile sha256 f of Inl e \<Rightarrow> Inl e
     | Inr f' \<Rightarrow> (case validate_files sha256 fs of Inl e \<Rightarrow> Inl e | Inr fs' \<Rightarrow> Inr (f' # fs')))"

fun adjacent_duplicate :: "File list \<Rightarrow> gostring option" where
  "adjacent_duplicate (f # g # rest) = (if file_Path f = file_Path g then Some (file_Path g) else adjacent_duplicate (g # rest))"
| "adjacent_duplicate fs = None"

definition manifest_file :: "File \<Rightarrow> ManifestFile" where
  "manifest_file f = \<lparr>mf_Path = file_Path f, mf_Size = file_Size f, mf_SHA256 = file_SHA256 f\<rparr>"

definition Finalize :: "(gostring \<Rightarrow> gostring) \<Rightarrow> (RepositoryManifest \<Rightarrow> gostring) \<Rightarrow> RepositoryArtifact \<Rightarrow> int \<Rightarrow>
    finalize_error + RepositoryArtifact \<times> RepositoryManifest" where
  "Finalize sha256 marshalIndent artifact generatedAt =
     (if ra_Format artifact = [] then Inl FormatRequired
      else if generatedAt = 0 then Inl TimeRequired
      else case validate_files sha256 (ra_Files artifact) of Inl e \<Rightarrow> Inl e
      | Inr valid \<Rightarrow>
        let files = sort_key file_Path valid in
        case adjacent_duplicate files of Some p \<Rightarrow> Inl (DuplicatePath p)
        | None \<Rightarrow>
          let manifestFiles = map manifest_file files;
              manifest = \<lparr>rm_SchemaVersion = graph_ManifestSchema, rm_Format = ra_Format artifact, rm_GeneratedAt = format_rfc3339 generatedAt,
                rm_TreeSHA256 = TreeDigest sha256 manifestFiles, rm_Files = manifestFiles, rm_Install = ra_Install artifact,
                rm_VerificationCases = ra_VerificationCases artifact, rm_Signatures = ra_Signatures artifact\<rparr>;
              manifestBytes = marshalIndent manifest @ [CHR 0x0A] in
          Inr (artifact\<lparr>ra_Files := files @ [\<lparr>file_Path = ManifestFilename, file_Size = int (length manifestBytes),
            file_SHA256 = sha256 manifestBytes, file_Content = Some manifestBytes, file_BlobSHA256 = []\<rparr>]\<rparr>, manifest))"

subsection \<open>The digest binds the tree\<close>

lemma format_nat_digits: "list_all is_digit (format_nat n) \<and> format_nat n \<noteq> [] \<and> digits_val (format_nat n) = n"
proof (induction n rule: format_nat.induct)
  case (1 n)
  have digit: "is_digit (char_of (48 + m))" "digit_val (char_of (48 + m)) = m" if "m < 10" for m :: nat
    using that by (simp_all add: is_digit_range digit_val_def)
  show ?case
  proof (cases "n < 10")
    case True
    then show ?thesis using digit by (simp add: format_nat.simps [of n] digits_val_def)
  next
    case False
    have "n mod 10 < 10" by simp
    then show ?thesis using 1 False digit [of "n mod 10"] by (simp add: format_nat.simps [of n] digits_val_def)
  qed
qed

lemma FormatInt_inj: "FormatInt a = FormatInt b \<longleftrightarrow> a = b"
proof
  have sign: "format_nat n \<noteq> CHR ''-'' # xs" for n xs using format_nat_digits [of n] by (auto simp: is_digit_def)
  have nats: "format_nat m = format_nat n \<Longrightarrow> m = n" for m n using format_nat_digits by metis
  assume "FormatInt a = FormatInt b"
  then show "a = b" using sign sign [symmetric] nats [of "nat a" "nat b"] nats [of "nat (- a)" "nat (- b)"]
    by (auto simp: FormatInt_def split: if_splits)
qed simp

lemma FormatInt_nul_free: "nul_free (FormatInt n)"
proof -
  have "\<not> is_digit CHR 0x00" by code_simp
  then have "nul_free (format_nat m)" for m using format_nat_digits [of m] by (auto simp: nul_free_def list_all_iff)
  then show ?thesis by (auto simp: FormatInt_def nul_free_def)
qed

definition tree_entry :: "ManifestFile \<Rightarrow> bool" where
  "tree_entry f \<longleftrightarrow> nul_free (mf_Path f) \<and> CHR 0x0A \<notin> set (mf_SHA256 f)"

lemma newline_split: "c \<notin> set a \<Longrightarrow> c \<notin> set a' \<Longrightarrow> a @ c # b = a' @ c # b' \<longleftrightarrow> a = a' \<and> b = b'"
  by (induction a a' rule: list_induct2') auto

lemma tree_line_split:
  assumes "tree_entry f" and "tree_entry g"
  shows "tree_line f @ xs = tree_line g @ ys \<longleftrightarrow> f = g \<and> xs = ys"
proof -
  have "tree_line f @ xs = tree_line g @ ys \<longleftrightarrow> mf_Path f @ nul @ (FormatInt (mf_Size f) @ nul @ (mf_SHA256 f @ CHR 0x0A # xs)) =
      mf_Path g @ nul @ (FormatInt (mf_Size g) @ nul @ (mf_SHA256 g @ CHR 0x0A # ys))" by (simp add: tree_line_def)
  also have "\<dots> \<longleftrightarrow> mf_Path f = mf_Path g \<and> mf_Size f = mf_Size g \<and> mf_SHA256 f = mf_SHA256 g \<and> xs = ys"
    using assms FormatInt_nul_free newline_split [of "CHR 0x0A" "mf_SHA256 f" "mf_SHA256 g"]
    by (simp add: tree_entry_def nul_split FormatInt_inj)
  finally show ?thesis by (auto intro: ManifestFile.equality)
qed

lemma tree_text_inj:
  assumes "list_all tree_entry fs" and "list_all tree_entry gs" and "tree_text fs = tree_text gs"
  shows "fs = gs"
  using assms
proof (induction fs gs rule: list_induct2')
  case (4 f fs g gs)
  then show ?case by (simp add: tree_text_def tree_line_split)
qed (simp_all add: tree_text_def tree_line_def nul_def)

lemma validate_files_Inr:
  assumes "validate_files sha256 fs = Inr gs"
  shows "list_all2 (\<lambda>f g. graph_validateFile sha256 f = Inr g) fs gs"
  using assms by (induction fs arbitrary: gs) (auto split: sum.splits)

lemma adjacent_duplicate_None: "sorted (map file_Path fs) \<Longrightarrow> adjacent_duplicate fs = None \<longleftrightarrow> distinct (map file_Path fs)"
proof (induction fs rule: adjacent_duplicate.induct)
  case (1 f g rest)
  then show ?case by (auto simp: order.order_iff_strict dest: order.antisym)
qed simp_all

definition file_checked :: "(gostring \<Rightarrow> gostring) \<Rightarrow> File \<Rightarrow> bool" where
  "file_checked sha256 f \<longleftrightarrow> path_clean (file_Path f) = file_Path f \<and> \<not> is_abs (file_Path f) \<and> \<not> has_prefix (file_Path f) ''../'' \<and>
     file_Path f \<noteq> ManifestFilename \<and> (file_BlobSHA256 f = [] \<longrightarrow> file_SHA256 f = sha256 (case file_Content f of None \<Rightarrow> [] | Some c \<Rightarrow> c) \<and>
          file_Size f = int (length (case file_Content f of None \<Rightarrow> [] | Some c \<Rightarrow> c))) \<and>
     (file_BlobSHA256 f \<noteq> [] \<longrightarrow> file_SHA256 f = file_BlobSHA256 f \<and> 0 \<le> file_Size f)"

lemma graph_validateFile_Inr: "graph_validateFile sha256 f = Inr g \<Longrightarrow> file_checked sha256 g"
  unfolding graph_validateFile_def Let_def file_checked_def by (auto split: if_splits)

subsection \<open>Properties\<close>

text \<open>
  A tree digest stands for one tree. Two lists of files whose paths contain no NUL and whose digests
  contain no line break are hashed from different bytes unless they are equal, in order, path, size and
  digest; so as far as SHA-256 does not collide on the two texts, equal tree digests mean equal trees.
\<close>

theorem tree_digest_binds:
  assumes "list_all tree_entry fs" and "list_all tree_entry gs" and "inj_on sha256 {tree_text fs, tree_text gs}"
  shows "TreeDigest sha256 fs = TreeDigest sha256 gs \<longleftrightarrow> fs = gs"
  using tree_text_inj [OF assms(1,2)] assms(3) by (auto simp: TreeDigest_def inj_on_def)

theorem tree_digest_binds_witness:
  "let fs = [\<lparr>mf_Path = ''a'', mf_Size = 1, mf_SHA256 = ''00''\<rparr>]; gs = [\<lparr>mf_Path = ''a'', mf_Size = 10, mf_SHA256 = ''0''\<rparr>] in
     TreeDigest rev fs \<noteq> TreeDigest rev gs"
  using tree_digest_binds [of "[\<lparr>mf_Path = ''a'', mf_Size = 1, mf_SHA256 = ''00''\<rparr>]" "[\<lparr>mf_Path = ''a'', mf_Size = 10, mf_SHA256 = ''0''\<rparr>]" rev]
  by (simp add: tree_entry_def nul_free_def inj_on_def)

text \<open>
  C39: what finalizing yields. The files come out in strict order of their paths, each a plain relative path
  that is not the manifest's, with the size and digest of its bytes when it carries them; the manifest
  lists exactly these files, names the digest of the list, and is itself added as the last file with its
  own size and digest.
\<close>

theorem finalize_describes_tree:
  assumes "Finalize sha256 marshalIndent artifact generatedAt = Inr (out, manifest)"
  shows "\<exists>files content. ra_Files out = files @ [\<lparr>file_Path = ManifestFilename, file_Size = int (length content), file_SHA256 = sha256 content,
        file_Content = Some content, file_BlobSHA256 = []\<rparr>] \<and> content = marshalIndent manifest @ [CHR 0x0A] \<and>
      sorted (map file_Path files) \<and> distinct (map file_Path files) \<and> mset (map file_Path files) = mset (map file_Path (ra_Files artifact)) \<and>
      rm_Files manifest = map manifest_file files \<and> rm_TreeSHA256 manifest = TreeDigest sha256 (rm_Files manifest) \<and>
      (\<forall>f \<in> set files. path_clean (file_Path f) = file_Path f \<and> \<not> is_abs (file_Path f) \<and> \<not> has_prefix (file_Path f) ''../'' \<and>
        file_Path f \<noteq> ManifestFilename \<and> (file_BlobSHA256 f = [] \<longrightarrow> file_SHA256 f = sha256 (case file_Content f of None \<Rightarrow> [] | Some c \<Rightarrow> c) \<and>
          file_Size f = int (length (case file_Content f of None \<Rightarrow> [] | Some c \<Rightarrow> c))) \<and>
        (file_BlobSHA256 f \<noteq> [] \<longrightarrow> file_SHA256 f = file_BlobSHA256 f \<and> 0 \<le> file_Size f))"
proof -
  obtain valid where valid: "validate_files sha256 (ra_Files artifact) = Inr valid"
    using assms by (auto simp: Finalize_def Let_def split: if_splits sum.splits)
  let ?files = "sort_key file_Path valid" and ?content = "marshalIndent manifest @ [CHR 0x0A]"
  have unique: "adjacent_duplicate ?files = None" and out: "ra_Files out = ?files @ [\<lparr>file_Path = ManifestFilename, file_Size = int (length ?content),
      file_SHA256 = sha256 ?content, file_Content = Some ?content, file_BlobSHA256 = []\<rparr>]"
    and manifest: "rm_Files manifest = map manifest_file ?files" "rm_TreeSHA256 manifest = TreeDigest sha256 (rm_Files manifest)"
    using assms valid by (auto simp: Finalize_def Let_def split: if_splits option.splits)
  have checked: "list_all2 (\<lambda>f g. graph_validateFile sha256 f = Inr g) (ra_Files artifact) valid" by (rule validate_files_Inr [OF valid])
  have "map file_Path valid = map file_Path (ra_Files artifact)"
    using checked by (induction rule: list_all2_induct) (auto simp: graph_validateFile_def Let_def split: if_splits)
  then have "mset (map file_Path ?files) = mset (map file_Path (ra_Files artifact))" by (metis mset_map mset_sort)
  moreover have "sorted (map file_Path ?files)" by simp
  moreover have "distinct (map file_Path ?files)" using unique adjacent_duplicate_None [of ?files] by simp
  moreover have "\<forall>g \<in> set ?files. file_checked sha256 g"
  proof
    fix g assume "g \<in> set ?files"
    then obtain f where "graph_validateFile sha256 f = Inr g"
      using checked by (metis (mono_tags, lifting) in_set_conv_nth list_all2_conv_all_nth set_sort)
    then show "file_checked sha256 g" by (rule graph_validateFile_Inr)
  qed
  ultimately show ?thesis using out manifest unfolding file_checked_def by (intro exI [of _ ?files] exI [of _ ?content]) blast
qed

definition sample_artifact :: RepositoryArtifact where
  "sample_artifact = \<lparr>ra_Format = ''raw/v1'', ra_Files = [
      \<lparr>file_Path = ''b'', file_Size = 0, file_SHA256 = [], file_Content = Some ''xy'', file_BlobSHA256 = []\<rparr>,
      \<lparr>file_Path = ''a'', file_Size = 3, file_SHA256 = replicate 64 CHR ''0'', file_Content = None, file_BlobSHA256 = replicate 64 CHR ''0''\<rparr>],
     ra_Install = \<lparr>is_Kind = ''raw'', is_IndexPath = ''.'', is_Suite = [], is_Component = [], is_Architectures = [], is_SigningKeyPath = [],
       is_SigningFingerprint = [], is_TrustedSigningFingerprints = []\<rparr>, ra_VerificationCases = [], ra_Signatures = []\<rparr>"

lemma sample_files:
  "validate_files rev (ra_Files sample_artifact) = Inr [
      \<lparr>file_Path = ''b'', file_Size = 2, file_SHA256 = ''yx'', file_Content = Some ''xy'', file_BlobSHA256 = []\<rparr>,
      \<lparr>file_Path = ''a'', file_Size = 3, file_SHA256 = replicate 64 CHR ''0'', file_Content = None, file_BlobSHA256 = replicate 64 CHR ''0''\<rparr>]"
  by code_simp

theorem finalize_describes_tree_witness:
  "\<exists>out manifest. Finalize rev (\<lambda>_. ''{}'') sample_artifact 1 = Inr (out, manifest) \<and> length (ra_Files out) = 3 \<and>
     rm_TreeSHA256 manifest = TreeDigest rev (rm_Files manifest)"
proof -
  have "ra_Format sample_artifact \<noteq> []" "(''a'' :: gostring) \<le> ''b''" by (simp_all add: sample_artifact_def)
  then obtain out manifest where run: "Finalize rev (\<lambda>_. ''{}'') sample_artifact 1 = Inr (out, manifest)" "length (ra_Files out) = 3"
    by (simp add: Finalize_def sample_files Let_def)
  from finalize_describes_tree [OF run(1)] show ?thesis using run by blast
qed

end
