(* ===== verification/S3_Model.thy ===== *)
theory S3_Model
  imports Build_Graph Host_Port Effects Manifest_Checks Formats
begin

section \<open>The object-store host: data, keys and checks\<close>

text \<open>
  The part of \<^verbatim>\<open>adapters/host/s3\<close> that computes without calling the store: the structures of
  \<^verbatim>\<open>objects.go\<close>, the descriptors a publication leaves in the bucket, where each object lives, and the
  checks on repositories, requests, manifests and metadata. Object metadata is an association list read
  as a map; \<^verbatim>\<open>reflect.DeepEqual\<close> on two of them is \<open>same_metadata\<close>. SHA-256, the JSON codecs,
  \<^verbatim>\<open>url.Parse\<close>, \<^verbatim>\<open>url.JoinPath\<close> and the MIME table are functions of the record \<open>s3_lib\<close>.
\<close>

subsection \<open>Objects\<close>

datatype object_error = ErrNotFound | ErrPrecondition | OtherObjectError gostring

type_synonym metadata = "(gostring \<times> gostring) list"

definition meta :: "metadata \<Rightarrow> gostring \<Rightarrow> gostring" where
  "meta m k = (case map_of m k of None \<Rightarrow> [] | Some v \<Rightarrow> v)"

definition same_metadata :: "metadata \<Rightarrow> metadata \<Rightarrow> bool" where
  "same_metadata a b \<longleftrightarrow> list_all (\<lambda>k. map_of a k = map_of b k) (map fst a @ map fst b)"

lemma same_metadata_iff: "same_metadata a b \<longleftrightarrow> map_of a = map_of b"
proof
  assume same: "same_metadata a b"
  show "map_of a = map_of b"
  proof
    fix k
    show "map_of a k = map_of b k"
    proof (cases "k \<in> fst ` set a \<union> fst ` set b")
      case True
      then show ?thesis using same by (auto simp: same_metadata_def list_all_iff)
    next
      case False
      then show ?thesis by (simp add: map_of_eq_None_iff [THEN iffD2])
    qed
  qed
qed (simp add: same_metadata_def list_all_iff)

record Conditions =
  cond_IfMatch :: gostring
  cond_IfNoneMatch :: bool

definition no_conditions :: Conditions where "no_conditions = \<lparr>cond_IfMatch = [], cond_IfNoneMatch = False\<rparr>"
definition if_match :: "gostring \<Rightarrow> Conditions" where "if_match etag = \<lparr>cond_IfMatch = etag, cond_IfNoneMatch = False\<rparr>"
definition if_none_match :: Conditions where "if_none_match = \<lparr>cond_IfMatch = [], cond_IfNoneMatch = True\<rparr>"

record ObjectInfo =
  oi_ETag :: gostring
  oi_Size :: int
  oi_SHA256 :: gostring
  oi_Metadata :: metadata

record PutRequest =
  put_Key :: gostring
  put_Body :: gostring
  put_Size :: int
  put_SHA256 :: gostring
  put_ContentType :: gostring
  put_Metadata :: metadata
  put_Conditions :: Conditions

record ListedObject =
  lo_Key :: gostring
  lo_Size :: int
  lo_ETag :: gostring

record ListRequest =
  lq_Prefix :: gostring
  lq_After :: gostring
  lq_Limit :: int

record ListResult =
  lr_Objects :: "ListedObject list"
  lr_More :: gostring

text \<open>The client of the store, on a world of its own.\<close>

record 'w ObjectClient =
  oc_Head :: "gostring \<Rightarrow> 'w \<Rightarrow> 'w \<times> (object_error + ObjectInfo)"
  oc_Get :: "gostring \<Rightarrow> int \<Rightarrow> 'w \<Rightarrow> 'w \<times> (object_error + gostring \<times> ObjectInfo)"
  oc_Put :: "PutRequest \<Rightarrow> 'w \<Rightarrow> 'w \<times> (object_error + ObjectInfo)"
  oc_CopyCreate :: "gostring \<Rightarrow> gostring \<Rightarrow> int \<Rightarrow> gostring \<Rightarrow> 'w \<Rightarrow> 'w \<times> (object_error + ObjectInfo)"
  oc_Delete :: "gostring \<Rightarrow> Conditions \<Rightarrow> 'w \<Rightarrow> 'w \<times> (object_error + unit)"
  oc_List :: "ListRequest \<Rightarrow> 'w \<Rightarrow> 'w \<times> (object_error + ListResult)"

subsection \<open>Descriptors\<close>

record publicationDescriptor =
  pd_PlanID :: gostring
  pd_ChangeID :: gostring
  pd_TreeSHA256 :: gostring
  pd_Files :: "HostFile list"
  pd_CommitPaths :: "gostring list"

record releaseDescriptor =
  rd_TreeSHA256 :: gostring
  rd_Files :: "HostFile list"
  rd_CommitPaths :: "gostring list"

record stagePointer =
  ptr_ID :: gostring
  ptr_DescriptorSHA256 :: gostring

record rootBinding =
  rb_TreeSHA256 :: gostring
  rb_PlanID :: gostring
  rb_ChangeID :: gostring
  rb_ReleaseSHA256 :: gostring
  rb_ManifestSHA256 :: gostring
  rb_RestoreID :: gostring
  rb_RestoreSHA256 :: gostring
  rb_RestoreRootSHA256 :: gostring

record restoreDescriptor =
  rs_PlanID :: gostring
  rs_ChangeID :: gostring
  rs_AfterTreeSHA256 :: gostring
  rs_RootExisted :: bool
  rs_BeforeTreeSHA256 :: gostring
  rs_BeforePlanID :: gostring
  rs_BeforeChangeID :: gostring
  rs_BeforeMetadata :: metadata

record ReadScope =
  scope_WorkspaceID :: gostring
  scope_Repository :: gostring
  scope_HostIdentity :: gostring
  scope_Bucket :: gostring
  scope_Endpoint :: gostring
  scope_PlanID :: gostring
  scope_ChangeID :: gostring
  scope_StageID :: gostring
  scope_TreeSHA256 :: gostring
  scope_Prefixes :: "gostring list"

record 'a json =
  json_Marshal :: "'a \<Rightarrow> gostring"
  json_Unmarshal :: "gostring \<Rightarrow> 'a option"

record s3_lib =
  s3_manifest_lib :: manifest_lib
  s3_digestBytes :: "gostring \<Rightarrow> gostring"
  s3_JoinPath :: "gostring \<Rightarrow> gostring \<Rightarrow> gostring option"
  s3_TypeByExtension :: "gostring \<Rightarrow> gostring"
  s3_publication :: "publicationDescriptor json"
  s3_release :: "releaseDescriptor json"
  s3_pointer :: "stagePointer json"
  s3_restore :: "restoreDescriptor json"
  s3_manifest :: "RepositoryManifest json"
  s3_parse_time :: "gostring \<Rightarrow> int option"

text \<open>
  An error of the adapter: a host error with the store error it wraps, if it does, or an error of the
  client or of the file system passed on as it is.
\<close>

datatype s3_failure = S3Error HostError "object_error option" | S3Client object_error | S3Other gostring

definition isNotFound :: "s3_failure \<Rightarrow> bool" where
  "isNotFound e = (case e of S3Error _ cause \<Rightarrow> cause = Some ErrNotFound | S3Client c \<Rightarrow> c = ErrNotFound | S3Other _ \<Rightarrow> False)"

definition hostError :: "ErrorKind \<Rightarrow> gostring \<Rightarrow> s3_failure" where
  "hostError kind operation = S3Error \<lparr>he_Kind = kind, he_Operation = operation, he_Retryable = False, he_EffectMayHaveOccurred = False\<rparr> None"

definition infrastructure :: "gostring \<Rightarrow> object_error \<Rightarrow> s3_failure" where
  "infrastructure operation err =
     S3Error \<lparr>he_Kind = ErrorInfrastructure, he_Operation = operation, he_Retryable = True, he_EffectMayHaveOccurred = False\<rparr> (Some err)"

text \<open>The same around an error that is already one of the adapter, or none of the store.\<close>

definition store_cause :: "s3_failure \<Rightarrow> object_error option" where
  "store_cause e = (case e of S3Error _ cause \<Rightarrow> cause | S3Client c \<Rightarrow> Some c | S3Other _ \<Rightarrow> None)"

definition infrastructure_around :: "gostring \<Rightarrow> object_error option \<Rightarrow> s3_failure" where
  "infrastructure_around operation cause =
     S3Error \<lparr>he_Kind = ErrorInfrastructure, he_Operation = operation, he_Retryable = True, he_EffectMayHaveOccurred = False\<rparr> cause"

definition effectUnknown :: "gostring \<Rightarrow> object_error option \<Rightarrow> s3_failure" where
  "effectUnknown operation cause =
     S3Error \<lparr>he_Kind = ErrorIndeterminate, he_Operation = operation, he_Retryable = False, he_EffectMayHaveOccurred = True\<rparr> cause"

subsection \<open>Keys\<close>

definition objectKey :: "HostRepository \<Rightarrow> gostring \<Rightarrow> gostring" where
  "objectKey repository name =
     (if hr_Prefix repository = [] then path_clean name
      else path_join [trim (\<lambda>c. c = CHR ''/'') (hr_Prefix repository), name])"

definition stageKey :: "HostRepository \<Rightarrow> gostring \<Rightarrow> gostring \<Rightarrow> gostring" where
  "stageKey repository identifier name = objectKey repository (path_join [''.snailmail'', ''stages'', identifier, name])"

definition stageDescriptorKey :: "HostRepository \<Rightarrow> gostring \<Rightarrow> gostring" where
  "stageDescriptorKey repository identifier = objectKey repository (path_join [''.snailmail'', ''stages'', identifier, ''stage.json''])"

definition stagePointerKey :: "HostRepository \<Rightarrow> gostring \<Rightarrow> gostring" where
  "stagePointerKey repository effectID = objectKey repository (path_join [''.snailmail'', ''stages'', ''effects'', effectID @ ''.json''])"

definition releaseKey :: "HostRepository \<Rightarrow> gostring \<Rightarrow> gostring \<Rightarrow> gostring" where
  "releaseKey repository treeSHA256 name = objectKey repository (path_join [''.snailmail'', ''releases'', treeSHA256, name])"

definition releaseDescriptorKey :: "HostRepository \<Rightarrow> gostring \<Rightarrow> gostring" where
  "releaseDescriptorKey repository treeSHA256 = objectKey repository (path_join [''.snailmail'', ''releases'', treeSHA256, ''release.json''])"

definition publicationManifestKey :: "HostRepository \<Rightarrow> gostring \<Rightarrow> gostring" where
  "publicationManifestKey repository manifestSHA256 = objectKey repository (path_join [''.snailmail'', ''manifests'', manifestSHA256 @ ''.json''])"

definition restoreDescriptorKey :: "HostRepository \<Rightarrow> gostring \<Rightarrow> gostring" where
  "restoreDescriptorKey repository identifier = objectKey repository (path_join [''.snailmail'', ''restores'', identifier, ''restore.json''])"

definition restoreRootKey :: "HostRepository \<Rightarrow> gostring \<Rightarrow> gostring" where
  "restoreRootKey repository identifier = objectKey repository (path_join [''.snailmail'', ''restores'', identifier, ''root.html''])"

definition commitLockKey :: "HostRepository \<Rightarrow> gostring" where
  "commitLockKey repository = objectKey repository (path_join [''.snailmail'', ''commit.lock''])"

definition listing_Filename :: gostring where "listing_Filename = ''index.html''"

definition browsablePageKey :: "HostRepository \<Rightarrow> gostring" where
  "browsablePageKey repository = objectKey repository listing_Filename"

definition snailmailOwned :: "gostring \<Rightarrow> bool" where
  "snailmailOwned name \<longleftrightarrow> name = listing_Filename \<or> name = ManifestFilename"

text \<open>The flag says whether the format rebinds its root document.\<close>

definition publishedFileKey :: "bool \<Rightarrow> HostRepository \<Rightarrow> gostring \<Rightarrow> gostring \<Rightarrow> gostring \<Rightarrow> gostring" where
  "publishedFileKey rebinds repository treeSHA256 rootPath name =
     (if rebinds \<or> name = rootPath \<or> snailmailOwned name then releaseKey repository treeSHA256 name else objectKey repository name)"

definition readPrefixes :: "bool \<Rightarrow> HostRepository \<Rightarrow> gostring \<Rightarrow> gostring \<Rightarrow> gostring list" where
  "readPrefixes rebinds repository treeSHA256 rootPath =
     (if rebinds then [objectKey repository rootPath, releaseKey repository treeSHA256 []]
      else [objectKey repository [], releaseKey repository treeSHA256 []])"

definition releaseDirectory :: "gostring \<Rightarrow> gostring" where
  "releaseDirectory treeSHA256 = ''.snailmail/releases/'' @ treeSHA256 @ ''/''"

subsection \<open>Limits and identifiers\<close>

definition maximumMetadataSize :: int where "maximumMetadataSize = 16777216"
definition maximumListingSize :: int where "maximumListingSize = 16777216"
definition maximumFiles :: nat where "maximumFiles = 20000"
definition maximumTreeBytes :: int where "maximumTreeBytes = 4294967296"

definition validIdentifier :: "gostring \<Rightarrow> bool" where
  "validIdentifier value \<longleftrightarrow> length value = 64 \<and> ValidSHA256 value"

text \<open>\<^verbatim>\<open>^[a-z][a-z0-9-]*:[a-f0-9]{12}$\<close>\<close>

definition changeID_matches :: "gostring \<Rightarrow> bool" where
  "changeID_matches s = (case cut_first (CHR '':'') s of None \<Rightarrow> False
     | Some (name, digest) \<Rightarrow> (case name of [] \<Rightarrow> False | c # cs \<Rightarrow> is_lower c \<and> list_all (\<lambda>d. is_lower d \<or> is_digit d \<or> d = CHR ''-'') cs) \<and>
         length digest = 12 \<and> list_all lower_hex digest)"

definition effectIdentifier :: "s3_lib \<Rightarrow> gostring \<Rightarrow> gostring \<Rightarrow> gostring" where
  "effectIdentifier lib planID changeID = s3_digestBytes lib (planID @ nul @ changeID)"

text \<open>\<^verbatim>\<open>hasControl\<close>: only the ASCII control characters, unlike \<open>has_control\<close> of the sources of artifacts.\<close>

definition hasControl :: "gostring \<Rightarrow> bool" where
  "hasControl value = list_ex (\<lambda>c. of_char c < (32 :: nat) \<or> of_char c = (127 :: nat)) value"

subsection \<open>Checks on repositories and requests\<close>

definition s3_validateHTTPURL :: "s3_lib \<Rightarrow> gostring \<Rightarrow> bool" where
  "s3_validateHTTPURL lib value =
     (if hasControl value then False
      else case ul_parse (ml_url (s3_manifest_lib lib)) value of None \<Rightarrow> False
        | Some parsed \<Rightarrow> \<not> ((url_Scheme parsed \<noteq> ''http'' \<and> url_Scheme parsed \<noteq> ''https'') \<or> url_Host parsed = [] \<or>
            url_User parsed \<or> url_RawQuery parsed \<noteq> [] \<or> url_Fragment parsed \<noteq> []))"

definition configure :: "bool \<Rightarrow> s3_failure + unit" where
  "configure valid = requireR valid (hostError ErrorInvalidConfiguration ''configure S3 host'')"

definition s3_validateRepository :: "s3_lib \<Rightarrow> bool \<Rightarrow> HostRepository \<Rightarrow> s3_failure + unit" where
  "s3_validateRepository lib has_broker r =
     (let pre = trim (\<lambda>c. c = CHR ''/'') (hr_Prefix r) in
     andR (configure (hr_Type r = ''s3'' \<and> fs_Publish (Supports (hr_Type r) (hr_Format r)))) (\<lambda>_.
     andR (configure (hr_Visibility r = ''public'' \<or> hr_Visibility r = ''private'')) (\<lambda>_.
     andR (configure (\<not> (hr_Visibility r = ''private'' \<and> (hr_ReadAuth r \<noteq> ''basic'' \<or> hr_CredentialBroker r = [])))) (\<lambda>_.
     andR (configure (\<not> (hr_Visibility r = ''private'' \<and> (\<not> ValidSHA256 (hr_WorkspaceID r) \<or> \<not> ValidSHA256 (hr_HostIdentity r))))) (\<lambda>_.
     andR (configure (\<not> (hr_Path r \<noteq> [] \<or> hr_Bucket r = [] \<or> hr_CanonicalEndpoint r = []))) (\<lambda>_.
     andR (configure (\<not> (hasControl (hr_Bucket r) \<or> hasControl (hr_Region r)))) (\<lambda>_.
     andR (configure (\<not> (pre \<noteq> hr_Prefix r \<or> CHR 0x5C \<in> set pre \<or> hasControl pre \<or>
       (pre \<noteq> [] \<and> (path_clean pre \<noteq> pre \<or> has_prefix pre ''../''))))) (\<lambda>_.
     andR (configure (s3_validateHTTPURL lib (hr_CanonicalEndpoint r))) (\<lambda>_.
     andR (configure (secure_endpoint (s3_manifest_lib lib) (hr_CanonicalEndpoint r))) (\<lambda>_.
     andR (configure (hr_Endpoint r = [] \<or> s3_validateHTTPURL lib (hr_Endpoint r))) (\<lambda>_.
     andR (configure (hr_Endpoint r = [] \<or> secure_endpoint (s3_manifest_lib lib) (hr_Endpoint r))) (\<lambda>_.
     configure (\<not> (hr_Visibility r = ''private'' \<and> \<not> has_broker))))))))))))))"

definition singleRootPath :: "HostRepository \<Rightarrow> s3_failure + gostring" where
  "singleRootPath repository = (case hr_CommitPaths repository of [root] \<Rightarrow> Inr root
     | _ \<Rightarrow> Inl (hostError ErrorInvalidConfiguration ''resolve S3 commit path''))"

definition s3_validateFile :: "HostFile \<Rightarrow> bool" where
  "s3_validateFile file = (let p = hf_Path file in
     \<not> (p = [] \<or> p = ''.'' \<or> length p > 1024 \<or> is_abs p \<or> path_clean p \<noteq> p \<or> has_prefix p ''../'' \<or> CHR 0x5C \<in> set p \<or>
        hf_Size file < 0 \<or> \<not> ValidSHA256 (hf_SHA256 file)))"

fun check_files :: "gostring option \<Rightarrow> int \<Rightarrow> HostFile list \<Rightarrow> bool" where
  "check_files previous bytes [] = True"
| "check_files previous bytes (f # fs) = (s3_validateFile f \<and> previous \<noteq> Some (hf_Path f) \<and> \<not> hf_Size f > maximumTreeBytes - bytes \<and>
     check_files (Some (hf_Path f)) (bytes + hf_Size f) fs)"

definition host_manifest_file :: "HostFile \<Rightarrow> ManifestFile" where
  "host_manifest_file f = \<lparr>mf_Path = hf_Path f, mf_Size = hf_Size f, mf_SHA256 = hf_SHA256 f\<rparr>"

definition tree_files :: "HostFile list \<Rightarrow> ManifestFile list" where
  "tree_files files = map host_manifest_file (filter (\<lambda>f. hf_Path f \<noteq> ManifestFilename) files)"

definition stage_check :: "bool \<Rightarrow> s3_failure + unit" where
  "stage_check valid = requireR valid (hostError ErrorInvalidConfiguration ''stage S3 repository'')"

definition descriptorFromRequest :: "s3_lib \<Rightarrow> HostRepository \<Rightarrow> StageRequest \<Rightarrow> s3_failure + publicationDescriptor" where
  "descriptorFromRequest lib repository request =
     (let files = sort_key hf_Path (sr_Files request);
          descriptor = \<lparr>pd_PlanID = sr_PlanID request, pd_ChangeID = sr_ChangeID request, pd_TreeSHA256 = sr_TreeSHA256 request,
            pd_Files = files, pd_CommitPaths = sr_CommitPaths request\<rparr> in
     andR (singleRootPath repository) (\<lambda>rootPath.
     andR (stage_check (ValidSHA256 (sr_TreeSHA256 request) \<and> ValidSHA256 (sr_PlanID request) \<and> changeID_matches (sr_ChangeID request))) (\<lambda>_.
     andR (stage_check (sr_CommitPaths request = [rootPath])) (\<lambda>_.
     andR (stage_check (files \<noteq> [] \<and> \<not> length files > maximumFiles)) (\<lambda>_.
     andR (stage_check (check_files None 0 files)) (\<lambda>_.
     andR (stage_check (list_ex (\<lambda>f. hf_Path f = rootPath) files)) (\<lambda>_.
     andR (stage_check (TreeDigest (s3_digestBytes lib) (tree_files files) = sr_TreeSHA256 request)) (\<lambda>_.
     andR (stage_check (\<not> int (length (json_Marshal (s3_publication lib) descriptor)) > maximumMetadataSize)) (\<lambda>_.
     Inr descriptor)))))))))"

definition releaseDescriptorFromPublication :: "publicationDescriptor \<Rightarrow> releaseDescriptor" where
  "releaseDescriptorFromPublication publication = \<lparr>rd_TreeSHA256 = pd_TreeSHA256 publication,
     rd_Files = filter (\<lambda>f. hf_Path f \<noteq> ManifestFilename) (pd_Files publication), rd_CommitPaths = pd_CommitPaths publication\<rparr>"

definition publicationDigestBindings :: "s3_lib \<Rightarrow> publicationDescriptor \<Rightarrow> s3_failure + gostring \<times> gostring" where
  "publicationDigestBindings lib publication =
     (case filter (\<lambda>f. hf_Path f = ManifestFilename) (pd_Files publication) of
        [] \<Rightarrow> Inl (hostError ErrorInvalidConfiguration ''bind S3 publication'')
      | file # _ \<Rightarrow> Inr (s3_digestBytes lib (json_Marshal (s3_release lib) (releaseDescriptorFromPublication publication)), hf_SHA256 file))"

definition decodePublicationDescriptor :: "s3_lib \<Rightarrow> HostRepository \<Rightarrow> gostring \<Rightarrow> gostring \<Rightarrow> s3_failure + publicationDescriptor" where
  "decodePublicationDescriptor lib repository content operation =
     andR (someR (json_Unmarshal (s3_publication lib) content) (hostError ErrorIndeterminate operation)) (\<lambda>descriptor.
     andR (requireR (descriptorFromRequest lib repository \<lparr>sr_PlanID = pd_PlanID descriptor, sr_ChangeID = pd_ChangeID descriptor,
         sr_PreviousRevision = [], sr_Directory = [], sr_TreeSHA256 = pd_TreeSHA256 descriptor, sr_Files = pd_Files descriptor,
         sr_CommitPaths = pd_CommitPaths descriptor\<rparr> = Inr descriptor) (hostError ErrorIndeterminate operation)) (\<lambda>_.
     Inr descriptor))"

definition decodeRelease :: "s3_lib \<Rightarrow> HostRepository \<Rightarrow> gostring \<Rightarrow> s3_failure + releaseDescriptor" where
  "decodeRelease lib repository content =
     (let bad = hostError ErrorIndeterminate ''decode S3 release descriptor'' in
     andR (someR (json_Unmarshal (s3_release lib) content) bad) (\<lambda>descriptor.
     andR (case descriptorFromRequest lib repository \<lparr>sr_PlanID = replicate 64 CHR ''0'', sr_ChangeID = ''release:000000000000'',
         sr_PreviousRevision = [], sr_Directory = [], sr_TreeSHA256 = rd_TreeSHA256 descriptor, sr_Files = rd_Files descriptor,
         sr_CommitPaths = rd_CommitPaths descriptor\<rparr> of
         Inl _ \<Rightarrow> Inl bad
       | Inr validated \<Rightarrow> requireR (pd_Files validated = rd_Files descriptor \<and> pd_CommitPaths validated = rd_CommitPaths descriptor) bad) (\<lambda>_.
     andR (requireR (TreeDigest (s3_digestBytes lib) (tree_files (rd_Files descriptor)) = rd_TreeSHA256 descriptor) bad) (\<lambda>_.
     Inr descriptor))))"

subsection \<open>Publication metadata\<close>

definition bindingAnnotation :: "rootBinding \<Rightarrow> gostring" where
  "bindingAnnotation b = ''snailmail tree='' @ rb_TreeSHA256 b @ '' plan='' @ rb_PlanID b @ '' change='' @ rb_ChangeID b @
     '' release='' @ rb_ReleaseSHA256 b @ '' manifest='' @ rb_ManifestSHA256 b @ '' restore='' @ rb_RestoreID b @
     '' restore-descriptor='' @ rb_RestoreSHA256 b @ '' restore-root='' @ rb_RestoreRootSHA256 b"

definition legacyBindingAnnotation :: "gostring \<Rightarrow> gostring \<Rightarrow> gostring" where
  "legacyBindingAnnotation planID changeID = ''snailmail plan='' @ planID @ '' change='' @ changeID"

definition rootBindingFromRevision :: "PublishedRevision \<Rightarrow> rootBinding" where
  "rootBindingFromRevision published = \<lparr>rb_TreeSHA256 = pub_TreeSHA256 published, rb_PlanID = pub_PlanID published, rb_ChangeID = pub_ChangeID published,
     rb_ReleaseSHA256 = pub_ReleaseSHA256 published, rb_ManifestSHA256 = pub_ManifestSHA256 published, rb_RestoreID = pub_RestoreID published,
     rb_RestoreSHA256 = pub_RestoreSHA256 published, rb_RestoreRootSHA256 = pub_RestoreRootSHA256 published\<rparr>"

text \<open>What \<^verbatim>\<open>Observe\<close> reads out of the metadata of the root object.\<close>

definition revision_of_root :: "ObjectInfo \<Rightarrow> PublishedRevision" where
  "revision_of_root root = (let m = meta (oi_Metadata root) in
     \<lparr>pub_NativeRevision = oi_ETag root, pub_TreeSHA256 = m ''tree-sha256'', pub_PlanID = m ''plan-id'', pub_ChangeID = m ''change-id'',
      pub_RestoreID = m ''restore-id'', pub_ReleaseSHA256 = m ''release-sha256'', pub_ManifestSHA256 = m ''manifest-sha256'',
      pub_RestoreSHA256 = m ''restore-sha256'', pub_RestoreRootSHA256 = m ''restore-root-sha256''\<rparr>)"

definition metadataMatchesRevision :: "metadata \<Rightarrow> PublishedRevision \<Rightarrow> bool" where
  "metadataMatchesRevision metadata published \<longleftrightarrow>
     meta metadata ''tree-sha256'' = pub_TreeSHA256 published \<and> meta metadata ''plan-id'' = pub_PlanID published \<and>
     meta metadata ''change-id'' = pub_ChangeID published \<and> meta metadata ''release-id'' = pub_TreeSHA256 published \<and>
     meta metadata ''release-sha256'' = pub_ReleaseSHA256 published \<and> meta metadata ''manifest-sha256'' = pub_ManifestSHA256 published \<and>
     meta metadata ''restore-id'' = pub_RestoreID published \<and> meta metadata ''restore-sha256'' = pub_RestoreSHA256 published \<and>
     meta metadata ''restore-root-sha256'' = pub_RestoreRootSHA256 published"

definition managed_identity :: "PublishedRevision \<Rightarrow> bool" where
  "managed_identity published \<longleftrightarrow> ValidSHA256 (pub_TreeSHA256 published) \<and> ValidSHA256 (pub_PlanID published) \<and>
     changeID_matches (pub_ChangeID published) \<and> validIdentifier (pub_RestoreID published) \<and> ValidSHA256 (pub_RestoreSHA256 published) \<and>
     (pub_RestoreRootSHA256 published = [] \<or> ValidSHA256 (pub_RestoreRootSHA256 published)) \<and>
     ValidSHA256 (pub_ReleaseSHA256 published) \<and> ValidSHA256 (pub_ManifestSHA256 published)"

definition validManagedMetadata :: "metadata \<Rightarrow> bool" where
  "validManagedMetadata metadata \<longleftrightarrow> (let published = (revision_of_root \<lparr>oi_ETag = [], oi_Size = 0, oi_SHA256 = [], oi_Metadata = metadata\<rparr>) in
     managed_identity published \<and> metadataMatchesRevision metadata published)"

definition hasReservedMetadata :: "metadata \<Rightarrow> bool" where
  "hasReservedMetadata metadata = list_ex (\<lambda>key. map_of metadata key \<noteq> None)
     [''tree-sha256'', ''plan-id'', ''change-id'', ''release-id'', ''release-sha256'', ''manifest-sha256'',
      ''restore-id'', ''restore-sha256'', ''restore-root-sha256'']"

definition revisionMatchesBinding :: "PublishedRevision \<Rightarrow> rootBinding \<Rightarrow> bool" where
  "revisionMatchesBinding published binding \<longleftrightarrow> rootBindingFromRevision published = binding"

definition revisionMatchesExpected :: "PublishedRevision \<Rightarrow> ExpectedRevision \<Rightarrow> bool" where
  "revisionMatchesExpected published expected \<longleftrightarrow> expectedRevisionFromPublished published = expected"

definition s3_commitResult :: "HostRepository \<Rightarrow> PublishedRevision \<Rightarrow> ClientAccess \<Rightarrow> CommitResult" where
  "s3_commitResult repository published access = \<lparr>cr_Revision = published, cr_CanonicalEndpoint = hr_CanonicalEndpoint repository,
     cr_RestoreRef = Some \<lparr>rr_ID = pub_RestoreID published, rr_PlanID = pub_PlanID published, rr_ChangeID = pub_ChangeID published,
       rr_FailedTree = pub_TreeSHA256 published, rr_DescriptorSHA256 = pub_RestoreSHA256 published, rr_RootSHA256 = pub_RestoreRootSHA256 published\<rparr>,
     cr_Access = access\<rparr>"

definition revisionFromRestore :: "gostring \<Rightarrow> restoreDescriptor \<Rightarrow> PublishedRevision" where
  "revisionFromRestore nativeRevision d =
     (if rs_BeforeTreeSHA256 d = [] then no_revision\<lparr>pub_NativeRevision := nativeRevision\<rparr>
      else let m = meta (rs_BeforeMetadata d) in
        \<lparr>pub_NativeRevision = nativeRevision, pub_TreeSHA256 = rs_BeforeTreeSHA256 d, pub_PlanID = rs_BeforePlanID d,
         pub_ChangeID = rs_BeforeChangeID d, pub_RestoreID = m ''restore-id'', pub_ReleaseSHA256 = m ''release-sha256'',
         pub_ManifestSHA256 = m ''manifest-sha256'', pub_RestoreSHA256 = m ''restore-sha256'', pub_RestoreRootSHA256 = m ''restore-root-sha256''\<rparr>)"

definition decodeRestore :: "s3_lib \<Rightarrow> gostring \<Rightarrow> s3_failure + restoreDescriptor" where
  "decodeRestore lib content =
     (let bad = hostError ErrorIndeterminate ''decode S3 restore descriptor'' in
     andR (someR (json_Unmarshal (s3_restore lib) content) bad) (\<lambda>d.
     andR (requireR (\<not> (\<not> ValidSHA256 (rs_PlanID d) \<or> \<not> changeID_matches (rs_ChangeID d) \<or> \<not> ValidSHA256 (rs_AfterTreeSHA256 d) \<or>
        (rs_BeforeTreeSHA256 d \<noteq> [] \<and> (\<not> ValidSHA256 (rs_BeforeTreeSHA256 d) \<or> \<not> ValidSHA256 (rs_BeforePlanID d) \<or> \<not> changeID_matches (rs_BeforeChangeID d))) \<or>
        (rs_BeforeTreeSHA256 d = [] \<and> (rs_BeforePlanID d \<noteq> [] \<or> rs_BeforeChangeID d \<noteq> [])) \<or>
        (rs_RootExisted d \<and> rs_BeforeTreeSHA256 d = [] \<and> hasReservedMetadata (rs_BeforeMetadata d) \<and> \<not> validManagedMetadata (rs_BeforeMetadata d)) \<or>
        (\<not> rs_RootExisted d \<and> (rs_BeforeTreeSHA256 d \<noteq> [] \<or> rs_BeforePlanID d \<noteq> [] \<or> rs_BeforeChangeID d \<noteq> [] \<or> rs_BeforeMetadata d \<noteq> [])))) bad) (\<lambda>_.
     andR (requireR (rs_BeforeTreeSHA256 d = [] \<or> metadataMatchesRevision (rs_BeforeMetadata d) (revisionFromRestore [] d)) bad) (\<lambda>_.
     andR (requireR (content = json_Marshal (s3_restore lib) d) bad) (\<lambda>_.
     Inr d)))))"

subsection \<open>The published manifest\<close>

definition manifestFormatIs :: "gostring \<Rightarrow> gostring \<Rightarrow> bool" where
  "manifestFormatIs manifestFormat repositoryFormat \<longleftrightarrow> repositoryFormat \<noteq> [] \<and> has_prefix manifestFormat (repositoryFormat @ ''/'')"

definition requireCanonicalManifest :: "s3_lib \<Rightarrow> gostring \<Rightarrow> RepositoryManifest \<Rightarrow> bool" where
  "requireCanonicalManifest lib content manifest \<longleftrightarrow> content = json_Marshal (s3_manifest lib) manifest @ [CHR 0x0A]"

definition case_name :: "VerificationCase \<Rightarrow> gostring" where
  "case_name v = (if vc_Package v = [] then vc_Project v else vc_Package v)"

fun generic_cases :: "VerificationCase option \<Rightarrow> VerificationCase list \<Rightarrow> bool" where
  "generic_cases previous [] = True"
| "generic_cases previous (v # vs) = (\<not> (case_name v = [] \<or> vc_Version v = [] \<or> hasControl (case_name v) \<or> hasControl (vc_Version v) \<or>
        hasControl (vc_Architecture v)) \<and>
     (case previous of None \<Rightarrow> True | Some p \<Rightarrow> \<not> (case_name p > case_name v \<or> (case_name p = case_name v \<and> vc_Version p \<ge> vc_Version v))) \<and>
     generic_cases (Some v) vs)"

definition validateGenericVerificationCases :: "s3_lib \<Rightarrow> gostring \<Rightarrow> RepositoryManifest \<Rightarrow> bool" where
  "validateGenericVerificationCases lib content manifest \<longleftrightarrow> rm_VerificationCases manifest \<noteq> [] \<and>
     generic_cases None (rm_VerificationCases manifest) \<and> requireCanonicalManifest lib content manifest"

fun pypi_cases :: "gostring list \<Rightarrow> VerificationCase option \<Rightarrow> VerificationCase list \<Rightarrow> bool" where
  "pypi_cases paths previous [] = True"
| "pypi_cases paths previous (v # vs) = (\<not> (vc_Project v = [] \<or> vc_Project v \<noteq> pypi_NormalizeName (vc_Project v) \<or> vc_Package v \<noteq> [] \<or>
        vc_Version v = [] \<or> hasControl (vc_Version v) \<or> vc_Architecture v \<noteq> [] \<or>
        path_join [''simple'', vc_Project v, ''index.html''] \<notin> set paths) \<and>
     (case previous of None \<Rightarrow> True | Some p \<Rightarrow> \<not> (vc_Project p > vc_Project v \<or> (vc_Project p = vc_Project v \<and> vc_Version p \<ge> vc_Version v))) \<and>
     pypi_cases paths (Some v) vs)"

definition project_of :: "HostFile \<Rightarrow> gostring option" where
  "project_of f = (case split_on (CHR ''/'') (hf_Path f) of
     [a, b, c] \<Rightarrow> if a = ''simple'' \<and> c = ''index.html'' then Some b else None | _ \<Rightarrow> None)"

definition validatePublishedManifest :: "s3_lib \<Rightarrow> HostRepository \<Rightarrow> gostring \<Rightarrow> RepositoryManifest \<Rightarrow> releaseDescriptor \<Rightarrow> bool" where
  "validatePublishedManifest lib repository content manifest descriptor \<longleftrightarrow>
     SupportedManifestSchema (rm_SchemaVersion manifest) \<and> manifestFormatIs (rm_Format manifest) (hr_Format repository) \<and>
     rm_TreeSHA256 manifest = rd_TreeSHA256 descriptor \<and>
     (case s3_parse_time lib (rm_GeneratedAt manifest) of None \<Rightarrow> False | Some t \<Rightarrow> format_rfc3339 t = rm_GeneratedAt manifest) \<and>
     is_Kind (rm_Install manifest) = hr_Format repository \<and> is_IndexPath (rm_Install manifest) \<noteq> [] \<and>
     \<not> (hr_Format repository = ''pypi'' \<and> (is_IndexPath (rm_Install manifest) \<noteq> ''simple/'' \<or> is_Suite (rm_Install manifest) \<noteq> [] \<or>
        is_Component (rm_Install manifest) \<noteq> [] \<or> is_Architectures (rm_Install manifest) \<noteq> [])) \<and>
     rm_Files manifest = map host_manifest_file (rd_Files descriptor) \<and>
     (if hr_Format repository \<noteq> ''pypi'' then validateGenericVerificationCases lib content manifest
      else pypi_cases (map hf_Path (rd_Files descriptor)) None (rm_VerificationCases manifest) \<and>
        (let projects = List.map_filter project_of (rd_Files descriptor) in
         projects \<noteq> [] \<and> set projects = set (map vc_Project (rm_VerificationCases manifest))) \<and>
        requireCanonicalManifest lib content manifest)"

subsection \<open>Client routes\<close>

definition clientRoute :: "s3_lib \<Rightarrow> gostring \<Rightarrow> HostFile \<Rightarrow> gostring option \<Rightarrow> s3_failure + ClientRoute" where
  "clientRoute lib endpoint file content =
     (let routePath = (if has_suffix (hf_Path file) ''/index.html'' then trim_suffix (hf_Path file) ''index.html'' else hf_Path file) in
      case s3_JoinPath lib (trim_suffix endpoint ''/'' @ ''/'') routePath of None \<Rightarrow> Inl (S3Other ''url.JoinPath'')
      | Some address \<Rightarrow>
        Inr \<lparr>route_URL = (if has_suffix routePath ''/'' \<and> \<not> has_suffix address ''/'' then address @ ''/'' else address),
          route_Size = (case content of None \<Rightarrow> hf_Size file | Some c \<Rightarrow> int (length c)),
          route_SHA256 = (case content of None \<Rightarrow> hf_SHA256 file | Some c \<Rightarrow> s3_digestBytes lib c)\<rparr>)"

primrec routes_for :: "(HostFile \<Rightarrow> s3_failure + ClientRoute) \<Rightarrow> HostFile list \<Rightarrow> s3_failure + ClientRoute list" where
  "routes_for f [] = Inr []"
| "routes_for f (x # xs) = andR (f x) (\<lambda>r. andR (routes_for f xs) (\<lambda>rs. Inr (r # rs)))"

definition clientRoutes :: "s3_lib \<Rightarrow> gostring \<Rightarrow> gostring \<Rightarrow> HostFile list \<Rightarrow> gostring option \<Rightarrow> s3_failure + ClientRoute list" where
  "clientRoutes lib endpoint rootPath files rootContent =
     routes_for (\<lambda>file. clientRoute lib endpoint file (if rootPath \<noteq> [] \<and> hf_Path file = rootPath then rootContent else None)) files"

definition canonicalClientRoutes :: "s3_lib \<Rightarrow> gostring \<Rightarrow> gostring \<Rightarrow> gostring \<Rightarrow> bool \<Rightarrow> HostFile list \<Rightarrow> gostring \<Rightarrow> s3_failure + ClientRoute list" where
  "canonicalClientRoutes lib endpoint treeSHA256 rootPath staged files rootContent =
     (let releaseEndpoint = trim_suffix endpoint ''/'' @ ''/.snailmail/releases/'' @ treeSHA256 in
      routes_for (\<lambda>file.
        let base = (if staged then (if hf_Path file = rootPath then endpoint else releaseEndpoint)
                    else if snailmailOwned (hf_Path file) then releaseEndpoint else endpoint) in
        clientRoute lib base file (if hf_Path file = rootPath then Some rootContent else None)) files)"

definition file_ext :: "gostring \<Rightarrow> gostring" where
  "file_ext name = (case cut_last (CHR ''.'') (case cut_last (CHR ''/'') name of None \<Rightarrow> name | Some (_, b) \<Rightarrow> b) of None \<Rightarrow> [] | Some (_, e) \<Rightarrow> CHR ''.'' # e)"

definition contentType :: "s3_lib \<Rightarrow> gostring \<Rightarrow> gostring" where
  "contentType lib name = (if file_ext name \<noteq> [] \<and> s3_TypeByExtension lib (file_ext name) \<noteq> [] then s3_TypeByExtension lib (file_ext name)
     else ''application/octet-stream'')"

end
