(* ===== verification/S3_Host.thy ===== *)
theory S3_Host
  imports S3_Model
begin

section \<open>The object-store host: operations\<close>

text \<open>
  The operations of \<^verbatim>\<open>adapters/host/s3/s3.go\<close> as code that calls an environment: the store, the
  credential broker, the clock, the random source, and the files and the verifier of a staged tree. As in
  the apply, every call is logged with its answer. The requests \<^verbatim>\<open>forEachObject\<close> makes side by side are
  made in order here, up to the first failure; its caller sees the same error, and further requests of the
  same kind may be under way when it does. The format's rewriter of a root document is a field of the
  environment.
\<close>

datatype s3_event = HeadCall gostring "object_error + ObjectInfo" | GetCall gostring "object_error + gostring \<times> ObjectInfo"
  | PutCall PutRequest "object_error + ObjectInfo" | CopyCall gostring gostring "object_error + ObjectInfo"
  | DeleteCall gostring Conditions "object_error + unit" | ListCall ListRequest "object_error + ListResult" | BrokerCall ReadScope "gostring option" | CredentialDropped gostring
  | TimeCall int | RandomCall "gostring option" | FileRead gostring "gostring option" | TreeVerify gostring "RepositoryManifest option"

record 'w s3_env =
  s3e_client :: "'w ObjectClient"
  s3e_broker :: "(gostring \<times> (ReadScope \<Rightarrow> 'w \<Rightarrow> 'w \<times> gostring option)) option"
  s3e_rewriter :: "(gostring \<Rightarrow> gostring \<Rightarrow> gostring \<Rightarrow> gostring option) option"
  s3e_now :: "'w \<Rightarrow> 'w \<times> int"
  s3e_random :: "'w \<Rightarrow> 'w \<times> gostring option"
  s3e_destroy :: "gostring \<Rightarrow> 'w \<Rightarrow> 'w \<times> unit"
  s3e_read :: "gostring \<Rightarrow> 'w \<Rightarrow> 'w \<times> gostring option"
  s3e_VerifyRepository :: "gostring \<Rightarrow> 'w \<Rightarrow> 'w \<times> RepositoryManifest option"

record 'w s3_state =
  s3_world :: 'w
  s3_log :: "s3_event list"

type_synonym ('w, 'a) s3 = "('w s3_state, s3_failure, 'a) eff"

definition s3_call :: "('w \<Rightarrow> 'w \<times> 'r) \<Rightarrow> ('r \<Rightarrow> s3_event) \<Rightarrow> ('w, 'r) s3" where
  "s3_call operation ev = (\<lambda>s. case operation (s3_world s) of (w, r) \<Rightarrow> (\<lparr>s3_world = w, s3_log = s3_log s @ [ev r]\<rparr>, Inr r))"

definition s3_lift :: "s3_failure + 'a \<Rightarrow> ('w, 'a) s3" where
  "s3_lift r = (case r of Inl e \<Rightarrow> fail e | Inr a \<Rightarrow> ok a)"

definition s3_Head :: "'w s3_env \<Rightarrow> gostring \<Rightarrow> ('w, object_error + ObjectInfo) s3" where
  "s3_Head env key = s3_call (oc_Head (s3e_client env) key) (HeadCall key)"

definition s3_Get :: "'w s3_env \<Rightarrow> gostring \<Rightarrow> int \<Rightarrow> ('w, object_error + gostring \<times> ObjectInfo) s3" where
  "s3_Get env key limit = s3_call (oc_Get (s3e_client env) key limit) (GetCall key)"

definition s3_Put :: "'w s3_env \<Rightarrow> PutRequest \<Rightarrow> ('w, object_error + ObjectInfo) s3" where
  "s3_Put env request = s3_call (oc_Put (s3e_client env) request) (PutCall request)"

definition s3_Copy :: "'w s3_env \<Rightarrow> gostring \<Rightarrow> gostring \<Rightarrow> int \<Rightarrow> gostring \<Rightarrow> ('w, object_error + ObjectInfo) s3" where
  "s3_Copy env source destination bytes sha256 = s3_call (oc_CopyCreate (s3e_client env) source destination bytes sha256) (CopyCall source destination)"

definition s3_Delete :: "'w s3_env \<Rightarrow> gostring \<Rightarrow> Conditions \<Rightarrow> ('w, object_error + unit) s3" where
  "s3_Delete env key conditions = s3_call (oc_Delete (s3e_client env) key conditions) (DeleteCall key conditions)"

definition s3_List :: "'w s3_env \<Rightarrow> ListRequest \<Rightarrow> ('w, object_error + ListResult) s3" where
  "s3_List env request = s3_call (oc_List (s3e_client env) request) (ListCall request)"

text \<open>A call whose error is wrapped, with a missing object told apart.\<close>

definition get_bound :: "'w s3_env \<Rightarrow> gostring \<Rightarrow> gostring \<Rightarrow> gostring \<Rightarrow> ('w, gostring \<times> ObjectInfo) s3" where
  "get_bound env key missing operation = andThen (s3_Get env key maximumMetadataSize) (\<lambda>r. case r of
     Inl ErrNotFound \<Rightarrow> fail (hostError ErrorIndeterminate missing) | Inl e \<Rightarrow> fail (infrastructure operation e) | Inr x \<Rightarrow> ok x)"

definition get_or_fail :: "'w s3_env \<Rightarrow> gostring \<Rightarrow> gostring \<Rightarrow> ('w, gostring \<times> ObjectInfo) s3" where
  "get_or_fail env key operation = andThen (s3_Get env key maximumMetadataSize) (\<lambda>r. case r of
     Inl e \<Rightarrow> fail (infrastructure operation e) | Inr x \<Rightarrow> ok x)"

definition as_missing :: "gostring \<Rightarrow> ('w, 'a) s3 \<Rightarrow> ('w, 'a) s3" where
  "as_missing operation m = andThen (attempt m) (\<lambda>r. case r of
     Inl e \<Rightarrow> fail (if isNotFound e then hostError ErrorIndeterminate operation else e) | Inr a \<Rightarrow> ok a)"

definition onError :: "('w, 'a) s3 \<Rightarrow> ('w, unit) s3 \<Rightarrow> ('w, 'a) s3" where
  "onError m cleanup = (\<lambda>s. case m s of (s', Inr a) \<Rightarrow> (s', Inr a) | (s', Inl e) \<Rightarrow> (fst (cleanup s'), Inl e))"

definition has_broker :: "'w s3_env \<Rightarrow> bool" where
  "has_broker env \<longleftrightarrow> s3e_broker env \<noteq> None"

definition rebinds :: "'w s3_env \<Rightarrow> bool" where
  "rebinds env \<longleftrightarrow> s3e_rewriter env \<noteq> None"

definition rewriteRoot :: "'w s3_env \<Rightarrow> gostring \<Rightarrow> gostring \<Rightarrow> gostring \<Rightarrow> s3_failure + gostring" where
  "rewriteRoot env content treeSHA256 annotation = (case s3e_rewriter env of None \<Rightarrow> Inr content
     | Some rewrite \<Rightarrow> someR (rewrite content (releaseDirectory treeSHA256) annotation) (hostError ErrorInvalidConfiguration ''rewrite S3 root''))"

subsection \<open>Reading descriptors\<close>

definition loadStage :: "s3_lib \<Rightarrow> 'w s3_env \<Rightarrow> HostRepository \<Rightarrow> gostring \<Rightarrow> ('w, publicationDescriptor) s3" where
  "loadStage lib env repository identifier =
     andThen (guard (validIdentifier identifier) (hostError ErrorInvalidConfiguration ''load S3 stage'')) (\<lambda>_.
     andThen (get_or_fail env (stageDescriptorKey repository identifier) ''read S3 stage descriptor'') (\<lambda>(content, _).
     s3_lift (decodePublicationDescriptor lib repository content ''decode S3 stage descriptor'')))"

definition loadStagePointer :: "s3_lib \<Rightarrow> 'w s3_env \<Rightarrow> HostRepository \<Rightarrow> gostring \<Rightarrow> ('w, stagePointer) s3" where
  "loadStagePointer lib env repository effectID =
     andThen (s3_Get env (stagePointerKey repository effectID) maximumMetadataSize) (\<lambda>r. case r of Inl e \<Rightarrow> fail (S3Client e)
     | Inr (content, _) \<Rightarrow> (case json_Unmarshal (s3_pointer lib) content of None \<Rightarrow> fail (hostError ErrorIndeterminate ''decode S3 stage pointer'')
       | Some pointer \<Rightarrow> if \<not> validIdentifier (ptr_ID pointer) \<or> \<not> ValidSHA256 (ptr_DescriptorSHA256 pointer)
           then fail (hostError ErrorIndeterminate ''decode S3 stage pointer'') else ok pointer))"

definition loadRelease :: "s3_lib \<Rightarrow> 'w s3_env \<Rightarrow> HostRepository \<Rightarrow> gostring \<Rightarrow> ('w, releaseDescriptor \<times> gostring) s3" where
  "loadRelease lib env repository treeSHA256 =
     andThen (get_or_fail env (releaseDescriptorKey repository treeSHA256) ''read S3 release descriptor'') (\<lambda>(content, _).
     andThen (s3_lift (decodeRelease lib repository content)) (\<lambda>descriptor. ok (descriptor, s3_digestBytes lib content)))"

definition loadRestore :: "s3_lib \<Rightarrow> 'w s3_env \<Rightarrow> HostRepository \<Rightarrow> gostring \<Rightarrow> ('w, restoreDescriptor \<times> gostring) s3" where
  "loadRestore lib env repository identifier =
     andThen (get_or_fail env (restoreDescriptorKey repository identifier) ''read S3 restore descriptor'') (\<lambda>(content, _).
     andThen (s3_lift (decodeRestore lib content)) (\<lambda>descriptor. ok (descriptor, s3_digestBytes lib content)))"

subsection \<open>Observing\<close>

definition stored_as :: "ObjectInfo \<Rightarrow> HostFile \<Rightarrow> bool" where
  "stored_as info file \<longleftrightarrow> oi_Size info = hf_Size file \<and> oi_SHA256 info = hf_SHA256 file \<and> meta (oi_Metadata info) ''sha256'' = hf_SHA256 file"

definition check_object :: "'w s3_env \<Rightarrow> HostRepository \<Rightarrow> gostring \<Rightarrow> gostring \<Rightarrow> gostring \<Rightarrow> gostring \<Rightarrow> HostFile \<Rightarrow> ('w, unit) s3" where
  "check_object env repository treeSHA256 rootPath corrupt operation file =
     andThen (s3_Head env (publishedFileKey (rebinds env) repository treeSHA256 rootPath (hf_Path file))) (\<lambda>r. case r of
       Inl ErrNotFound \<Rightarrow> fail (hostError ErrorIndeterminate corrupt) | Inl e \<Rightarrow> fail (infrastructure operation e)
     | Inr info \<Rightarrow> guard (stored_as info file) (hostError ErrorIndeterminate corrupt))"

definition observe_release :: "s3_lib \<Rightarrow> 'w s3_env \<Rightarrow> HostRepository \<Rightarrow> PublishedRevision \<Rightarrow> ('w, releaseDescriptor) s3" where
  "observe_release lib env repository published =
     andThen (as_missing ''observe S3 release'' (loadRelease lib env repository (pub_TreeSHA256 published))) (\<lambda>(descriptor, descriptorDigest).
     andThen (guard (rd_TreeSHA256 descriptor = pub_TreeSHA256 published \<and> pub_ReleaseSHA256 published = descriptorDigest)
        (hostError ErrorIndeterminate ''observe S3 repository'')) (\<lambda>_.
     andThen (get_bound env (publicationManifestKey repository (pub_ManifestSHA256 published)) ''observe S3 manifest'' ''read S3 publication manifest'') (\<lambda>(content, info).
     andThen (guard (oi_SHA256 info = pub_ManifestSHA256 published \<and> s3_digestBytes lib content = pub_ManifestSHA256 published)
        (hostError ErrorIndeterminate ''observe S3 manifest'')) (\<lambda>_.
     andThen (guard (case json_Unmarshal (s3_manifest lib) content of None \<Rightarrow> False
          | Some manifest \<Rightarrow> validatePublishedManifest lib repository content manifest descriptor)
        (hostError ErrorIndeterminate ''observe S3 manifest'')) (\<lambda>_.
     ok descriptor)))))"

definition observe_restore :: "s3_lib \<Rightarrow> 'w s3_env \<Rightarrow> HostRepository \<Rightarrow> PublishedRevision \<Rightarrow> ('w, unit) s3" where
  "observe_restore lib env repository published =
     andThen (as_missing ''observe S3 restore state'' (loadRestore lib env repository (pub_RestoreID published))) (\<lambda>(descriptor, digest).
     andThen (guard (digest = pub_RestoreSHA256 published \<and> rs_AfterTreeSHA256 descriptor = pub_TreeSHA256 published \<and>
          rs_PlanID descriptor = pub_PlanID published \<and> rs_ChangeID descriptor = pub_ChangeID published \<and>
          rs_RootExisted descriptor = (pub_RestoreRootSHA256 published \<noteq> []))
        (hostError ErrorIndeterminate ''observe S3 restore state'')) (\<lambda>_.
     if \<not> rs_RootExisted descriptor then ok ()
     else andThen (get_bound env (restoreRootKey repository (pub_RestoreID published)) ''observe S3 restore state'' ''read retained S3 root'') (\<lambda>(content, info).
       guard (s3_digestBytes lib content = pub_RestoreRootSHA256 published \<and> oi_SHA256 info = pub_RestoreRootSHA256 published \<and>
          meta (oi_Metadata info) ''sha256'' = pub_RestoreRootSHA256 published)
        (hostError ErrorIndeterminate ''observe S3 restore state''))))"

definition observe_canonical :: "s3_lib \<Rightarrow> 'w s3_env \<Rightarrow> HostRepository \<Rightarrow> gostring \<Rightarrow> ObjectInfo \<Rightarrow> PublishedRevision \<Rightarrow> ('w, PublishedRevision) s3" where
  "observe_canonical lib env repository rootPath root published =
     andThen (get_bound env (releaseKey repository (pub_TreeSHA256 published) rootPath) ''read immutable S3 root'' ''read immutable S3 root'') (\<lambda>(releaseRoot, _).
     andThen (s3_lift (rewriteRoot env releaseRoot (pub_TreeSHA256 published) (bindingAnnotation (rootBindingFromRevision published)))) (\<lambda>expectedRoot.
     andThen (s3_Get env (objectKey repository rootPath) maximumMetadataSize) (\<lambda>r. case r of
       Inl _ \<Rightarrow> fail (hostError ErrorIndeterminate ''observe S3 root'')
     | Inr (canonicalRoot, canonicalInfo) \<Rightarrow>
       if oi_ETag canonicalInfo \<noteq> oi_ETag root \<or> \<not> same_metadata (oi_Metadata canonicalInfo) (oi_Metadata root)
       then fail (hostError ErrorIndeterminate ''observe S3 root'')
       else if canonicalRoot = expectedRoot then ok published
       else if rewriteRoot env releaseRoot (pub_TreeSHA256 published) (legacyBindingAnnotation (pub_PlanID published) (pub_ChangeID published)) = Inr canonicalRoot
       then ok (no_revision\<lparr>pub_NativeRevision := oi_ETag root\<rparr>)
       else fail (hostError ErrorIndeterminate ''observe S3 root''))))"

definition observe_root :: "s3_lib \<Rightarrow> 'w s3_env \<Rightarrow> HostRepository \<Rightarrow> gostring \<Rightarrow> ObjectInfo \<Rightarrow> ('w, PublishedRevision) s3" where
  "observe_root lib env repository rootPath root =
     (let published = revision_of_root root in
      if pub_TreeSHA256 published = [] \<and> pub_PlanID published = [] \<and> pub_ChangeID published = [] \<and> pub_RestoreID published = []
      then (if hasReservedMetadata (oi_Metadata root) then fail (hostError ErrorIndeterminate ''observe S3 repository'')
            else ok (no_revision\<lparr>pub_NativeRevision := oi_ETag root\<rparr>))
      else andThen (guard (managed_identity published \<and> meta (oi_Metadata root) ''release-id'' = pub_TreeSHA256 published)
          (hostError ErrorIndeterminate ''observe S3 repository'')) (\<lambda>_.
        andThen (observe_release lib env repository published) (\<lambda>descriptor.
        andThen (observe_restore lib env repository published) (\<lambda>_.
        andThen (each (check_object env repository (pub_TreeSHA256 published) rootPath ''observe S3 release'' ''inspect S3 release object'') (rd_Files descriptor)) (\<lambda>_.
        observe_canonical lib env repository rootPath root published)))))"

definition s3_Observe :: "s3_lib \<Rightarrow> 'w s3_env \<Rightarrow> HostRepository \<Rightarrow> ('w, PublishedRevision) s3" where
  "s3_Observe lib env repository =
     andThen (s3_lift (singleRootPath repository)) (\<lambda>rootPath.
     andThen (s3_lift (s3_validateRepository lib (has_broker env) repository)) (\<lambda>_.
     andThen (s3_Head env (objectKey repository rootPath)) (\<lambda>r. case r of
       Inl ErrNotFound \<Rightarrow> ok no_revision | Inl e \<Rightarrow> fail (infrastructure ''observe S3 root'' e)
     | Inr root \<Rightarrow> observe_root lib env repository rootPath root)))"

definition s3_Capabilities :: "s3_lib \<Rightarrow> 'w s3_env \<Rightarrow> HostRepository \<Rightarrow> s3_failure + Capabilities" where
  "s3_Capabilities lib env repository =
     andR (s3_validateRepository lib (has_broker env) repository) (\<lambda>_.
     andR (singleRootPath repository) (\<lambda>_.
     Inr \<lparr>cap_FaithfulPreview = True, cap_ConditionalCommit = True, cap_ConditionalRestore = True, cap_PrivateRead = has_broker env,
       cap_CredentialBrokerIdentity = (case s3e_broker env of None \<Rightarrow> [] | Some (identity, _) \<Rightarrow> identity)\<rparr>))"

subsection \<open>Read access\<close>

definition drop_access :: "'w s3_env \<Rightarrow> ClientAccess \<Rightarrow> ('w, unit) s3" where
  "drop_access env access = (case ca_Credential access of None \<Rightarrow> ok ()
     | Some credential \<Rightarrow> s3_call (s3e_destroy env credential) (\<lambda>_. CredentialDropped credential))"

definition issueAccess :: "'w s3_env \<Rightarrow> HostRepository \<Rightarrow> ReadScope \<Rightarrow> ClientRoute list \<Rightarrow> ('w, ClientAccess) s3" where
  "issueAccess env repository scope routes =
     (let access = \<lparr>ca_Endpoint = (if scope_StageID scope \<noteq> [] then trim_suffix (hr_CanonicalEndpoint repository) ''/'' @ ''/.snailmail/stages/'' @ scope_StageID scope
            else hr_CanonicalEndpoint repository), ca_Routes = routes, ca_PropagationTimeout = 0, ca_Credential = None\<rparr> in
      if hr_Visibility repository = ''public'' then ok access
      else case s3e_broker env of None \<Rightarrow> fail (S3Other ''nil credential broker'')
        | Some (_, issue) \<Rightarrow> andThen (s3_call (issue scope) (BrokerCall scope)) (\<lambda>r. case r of
            None \<Rightarrow> fail (S3Error \<lparr>he_Kind = ErrorInfrastructure, he_Operation = ''issue private S3 read credential'', he_Retryable = True,
              he_EffectMayHaveOccurred = False\<rparr> None)
          | Some credential \<Rightarrow> ok (access\<lparr>ca_Credential := Some credential\<rparr>)))"

definition revision_scope :: "'w s3_env \<Rightarrow> HostRepository \<Rightarrow> gostring \<Rightarrow> gostring \<Rightarrow> gostring \<Rightarrow> gostring \<Rightarrow> ReadScope" where
  "revision_scope env repository planID changeID treeSHA256 rootPath =
     \<lparr>scope_WorkspaceID = hr_WorkspaceID repository, scope_Repository = hr_Name repository, scope_HostIdentity = hr_HostIdentity repository,
      scope_Bucket = hr_Bucket repository, scope_Endpoint = hr_CanonicalEndpoint repository, scope_PlanID = planID, scope_ChangeID = changeID,
      scope_StageID = [], scope_TreeSHA256 = treeSHA256, scope_Prefixes = readPrefixes (rebinds env) repository treeSHA256 rootPath\<rparr>"

definition s3_ReadAccess :: "s3_lib \<Rightarrow> 'w s3_env \<Rightarrow> HostRepository \<Rightarrow> PublishedRevision \<Rightarrow> ('w, ClientAccess) s3" where
  "s3_ReadAccess lib env repository published =
     andThen (s3_lift (singleRootPath repository)) (\<lambda>rootPath.
     andThen (s3_lift (s3_validateRepository lib (has_broker env) repository)) (\<lambda>_.
     andThen (guard (pub_TreeSHA256 published \<noteq> []) (hostError ErrorInvalidConfiguration ''issue S3 read access'')) (\<lambda>_.
     andThen (s3_Observe lib env repository) (\<lambda>observed.
     andThen (guard (observed = published) (hostError ErrorStale ''issue S3 read access'')) (\<lambda>_.
     andThen (loadRelease lib env repository (pub_TreeSHA256 published)) (\<lambda>(descriptor, _).
     andThen (get_or_fail env (releaseKey repository (pub_TreeSHA256 published) rootPath) ''read immutable S3 root'') (\<lambda>(releaseRoot, _).
     andThen (s3_lift (rewriteRoot env releaseRoot (pub_TreeSHA256 published) (bindingAnnotation (rootBindingFromRevision published)))) (\<lambda>canonicalRoot.
     andThen (s3_lift (canonicalClientRoutes lib (hr_CanonicalEndpoint repository) (pub_TreeSHA256 published) rootPath (rebinds env) (rd_Files descriptor) canonicalRoot)) (\<lambda>routes.
     issueAccess env repository (revision_scope env repository (pub_PlanID published) (pub_ChangeID published) (pub_TreeSHA256 published) rootPath) routes)))))))))"

subsection \<open>Staging\<close>

definition s3_stageResult :: "s3_lib \<Rightarrow> 'w s3_env \<Rightarrow> HostRepository \<Rightarrow> gostring \<Rightarrow> publicationDescriptor \<Rightarrow> ('w, StagedPublication) s3" where
  "s3_stageResult lib env repository identifier descriptor =
     (let endpoint = trim_suffix (hr_CanonicalEndpoint repository) ''/'' @ ''/.snailmail/stages/'' @ identifier in
     andThen (s3_lift (clientRoutes lib endpoint [] (pd_Files descriptor) None)) (\<lambda>routes.
     andThen (issueAccess env repository \<lparr>scope_WorkspaceID = hr_WorkspaceID repository, scope_Repository = hr_Name repository,
        scope_HostIdentity = hr_HostIdentity repository, scope_Bucket = hr_Bucket repository, scope_Endpoint = hr_CanonicalEndpoint repository,
        scope_PlanID = pd_PlanID descriptor, scope_ChangeID = pd_ChangeID descriptor, scope_StageID = identifier,
        scope_TreeSHA256 = pd_TreeSHA256 descriptor, scope_Prefixes = [stageKey repository identifier []]\<rparr> routes) (\<lambda>access.
     ok \<lparr>sp_ID = identifier, sp_PlanID = pd_PlanID descriptor, sp_ChangeID = pd_ChangeID descriptor, sp_PreviousRevision = [],
       sp_PreviewEndpoint = endpoint, sp_TreeSHA256 = pd_TreeSHA256 descriptor, sp_Files = pd_Files descriptor,
       sp_CommitPaths = pd_CommitPaths descriptor, sp_Access = access\<rparr>)))"

definition put_json :: "s3_lib \<Rightarrow> gostring \<Rightarrow> gostring \<Rightarrow> Conditions \<Rightarrow> PutRequest" where
  "put_json lib key content conditions = \<lparr>put_Key = key, put_Body = content, put_Size = int (length content), put_SHA256 = s3_digestBytes lib content,
     put_ContentType = ''application/json'', put_Metadata = [(''sha256'', s3_digestBytes lib content)], put_Conditions = conditions\<rparr>"

definition upload :: "s3_lib \<Rightarrow> 'w s3_env \<Rightarrow> HostRepository \<Rightarrow> gostring \<Rightarrow> gostring \<Rightarrow> HostFile \<Rightarrow> ('w, unit) s3" where
  "upload lib env repository identifier directory file =
     (let name = path_join [directory, hf_Path file] in
     andThen (s3_call (s3e_read env name) (FileRead name)) (\<lambda>r. case r of None \<Rightarrow> fail (S3Other ''hash file'')
     | Some hashed \<Rightarrow>
       andThen (guard (int (length hashed) = hf_Size file \<and> s3_digestBytes lib hashed = hf_SHA256 file) (hostError ErrorStale ''stage S3 repository'')) (\<lambda>_.
       andThen (s3_call (s3e_read env name) (FileRead name)) (\<lambda>r. case r of None \<Rightarrow> fail (S3Other ''open file'')
       | Some body \<Rightarrow>
         andThen (s3_Put env \<lparr>put_Key = stageKey repository identifier (hf_Path file), put_Body = body, put_Size = hf_Size file,
           put_SHA256 = hf_SHA256 file, put_ContentType = contentType lib (hf_Path file), put_Metadata = [(''sha256'', hf_SHA256 file)],
           put_Conditions = no_conditions\<rparr>) (\<lambda>r. case r of Inl e \<Rightarrow> fail (infrastructure ''upload S3 stage object'' e)
         | Inr stored \<Rightarrow> guard (stored_as stored file) (hostError ErrorInfrastructure ''verify S3 stage object''))))))"

text \<open>Removing what was uploaded; a failure here only changes the message of the error.\<close>

definition delete_keys :: "'w s3_env \<Rightarrow> gostring list \<Rightarrow> ('w, unit) s3" where
  "delete_keys env keys = each (\<lambda>key. andThen (s3_Delete env key no_conditions) (\<lambda>_. ok ())) keys"

text \<open>
  Publishing the pointer that makes the stage the one of its plan and change. The result is what still has
  to be done once the stage is no longer ours to remove: return it, use the one that came first, or report
  that it is not known whether the pointer was written.
\<close>

definition publish_pointer :: "s3_lib \<Rightarrow> 'w s3_env \<Rightarrow> HostRepository \<Rightarrow> gostring \<Rightarrow> publicationDescriptor \<Rightarrow> gostring list \<Rightarrow> StagedPublication \<Rightarrow>
    ('w, ('w, StagedPublication) s3) s3" where
  "publish_pointer lib env repository identifier descriptor uploaded staged =
     (let descriptorDigest = s3_digestBytes lib (json_Marshal (s3_publication lib) descriptor);
          effectID = effectIdentifier lib (pd_PlanID descriptor) (pd_ChangeID descriptor);
          pointerContent = json_Marshal (s3_pointer lib) \<lparr>ptr_ID = identifier, ptr_DescriptorSHA256 = descriptorDigest\<rparr> in
     andThen (s3_Put env (put_json lib (stagePointerKey repository effectID) pointerContent if_none_match)) (\<lambda>r. case r of
       Inr _ \<Rightarrow> ok (ok staged)
     | Inl ErrPrecondition \<Rightarrow>
       andThen (attempt (loadStagePointer lib env repository effectID)) (\<lambda>read. case read of
         Inl readErr \<Rightarrow> fail (infrastructure_around ''read concurrent S3 stage pointer'' (store_cause readErr))
       | Inr pointer \<Rightarrow> andThen (attempt (loadStage lib env repository (ptr_ID pointer))) (\<lambda>load. case load of
           Inl _ \<Rightarrow> fail (hostError ErrorIndeterminate ''publish S3 stage pointer'')
         | Inr existing \<Rightarrow>
           if ptr_DescriptorSHA256 pointer \<noteq> descriptorDigest \<or> existing \<noteq> descriptor then fail (hostError ErrorIndeterminate ''publish S3 stage pointer'')
           else andThen (delete_keys env uploaded) (\<lambda>_. andThen (drop_access env (sp_Access staged)) (\<lambda>_.
             ok (s3_stageResult lib env repository (ptr_ID pointer) existing)))))
     | Inl e \<Rightarrow>
       andThen (attempt (loadStagePointer lib env repository effectID)) (\<lambda>read. case read of
         Inr pointer \<Rightarrow> if ptr_ID pointer = identifier \<and> ptr_DescriptorSHA256 pointer = descriptorDigest then ok (ok staged)
           else fail (infrastructure ''publish S3 stage pointer'' e)
       | Inl readErr \<Rightarrow> if isNotFound readErr then fail (infrastructure ''publish S3 stage pointer'' e)
           else ok (andThen (drop_access env (sp_Access staged)) (\<lambda>_. fail (effectUnknown ''publish S3 stage pointer'' None))))))"

definition stage_fresh :: "s3_lib \<Rightarrow> 'w s3_env \<Rightarrow> HostRepository \<Rightarrow> StageRequest \<Rightarrow> publicationDescriptor \<Rightarrow> ('w, StagedPublication) s3" where
  "stage_fresh lib env repository request descriptor =
     andThen (s3_call (s3e_random env) RandomCall) (\<lambda>r. case r of None \<Rightarrow> fail (infrastructure_around ''create S3 stage identity'' None)
     | Some identifier \<Rightarrow>
       (let files = map (\<lambda>file. stageKey repository identifier (hf_Path file)) (pd_Files descriptor);
            descriptorKey = stageDescriptorKey repository identifier in
       andThen (onError (andThen (each (upload lib env repository identifier (sr_Directory request)) (pd_Files descriptor)) (\<lambda>_.
         andThen (s3_call (s3e_VerifyRepository env (sr_Directory request)) (TreeVerify (sr_Directory request))) (\<lambda>verified.
         guard (case verified of None \<Rightarrow> False | Some manifest \<Rightarrow> manifestFormatIs (rm_Format manifest) (hr_Format repository) \<and>
             rm_TreeSHA256 manifest = sr_TreeSHA256 request) (hostError ErrorInvalidConfiguration ''stage S3 repository''))))
         (delete_keys env files)) (\<lambda>_.
       andThen (onError
         (andThen (s3_Put env (put_json lib descriptorKey (json_Marshal (s3_publication lib) descriptor) no_conditions)) (\<lambda>r. case r of
            Inl e \<Rightarrow> fail (infrastructure ''write S3 stage descriptor'' e)
          | Inr _ \<Rightarrow> andThen (s3_stageResult lib env repository identifier descriptor) (\<lambda>staged.
              onError (publish_pointer lib env repository identifier descriptor (files @ [descriptorKey]) staged) (drop_access env (sp_Access staged)))))
         (delete_keys env (files @ [descriptorKey]))) (\<lambda>finish. finish))))"

definition s3_Stage :: "s3_lib \<Rightarrow> 'w s3_env \<Rightarrow> HostRepository \<Rightarrow> StageRequest \<Rightarrow> ('w, StagedPublication) s3" where
  "s3_Stage lib env repository request =
     andThen (s3_lift (s3_validateRepository lib (has_broker env) repository)) (\<lambda>_.
     andThen (s3_lift (descriptorFromRequest lib repository request)) (\<lambda>descriptor.
     andThen (attempt (loadStagePointer lib env repository (effectIdentifier lib (pd_PlanID descriptor) (pd_ChangeID descriptor)))) (\<lambda>r. case r of
       Inr pointer \<Rightarrow>
         andThen (loadStage lib env repository (ptr_ID pointer)) (\<lambda>existing.
         if ptr_DescriptorSHA256 pointer = s3_digestBytes lib (json_Marshal (s3_publication lib) descriptor) \<and> existing = descriptor
         then s3_stageResult lib env repository (ptr_ID pointer) existing
         else fail (hostError ErrorIndeterminate ''reuse S3 stage''))
     | Inl e \<Rightarrow> if isNotFound e then stage_fresh lib env repository request descriptor
         else fail (infrastructure_around ''read S3 stage pointer'' (store_cause e)))))"

subsection \<open>Materializing a release\<close>

text \<open>Copying an object to a place it never changes at; an object that is already there must be the same.\<close>

definition copy_create :: "'w s3_env \<Rightarrow> gostring \<Rightarrow> gostring \<Rightarrow> HostFile \<Rightarrow> gostring \<Rightarrow> gostring \<Rightarrow> gostring \<Rightarrow> gostring \<Rightarrow> ('w, unit) s3" where
  "copy_create env source destination file reconcile conflict copying verifying =
     andThen (s3_Copy env source destination (hf_Size file) (hf_SHA256 file)) (\<lambda>r. case r of
       Inl ErrPrecondition \<Rightarrow> andThen (s3_Head env destination) (\<lambda>h. case h of
         Inl e \<Rightarrow> fail (infrastructure reconcile e)
       | Inr stored \<Rightarrow> guard (stored_as stored file) (hostError ErrorIndeterminate conflict))
     | Inl e \<Rightarrow> fail (infrastructure copying e)
     | Inr stored \<Rightarrow> guard (stored_as stored file) (hostError ErrorInfrastructure verifying))"

text \<open>Writing an object that is never rewritten; one that is already there must have the same bytes.\<close>

definition put_once :: "'w s3_env \<Rightarrow> PutRequest \<Rightarrow> (object_error \<Rightarrow> s3_failure) \<Rightarrow> gostring \<Rightarrow> gostring \<Rightarrow> ('w, unit) s3" where
  "put_once env request reading conflict writing =
     andThen (s3_Put env request) (\<lambda>r. case r of
       Inl ErrPrecondition \<Rightarrow> andThen (s3_Get env (put_Key request) maximumMetadataSize) (\<lambda>g. case g of
         Inl e \<Rightarrow> fail (reading e)
       | Inr (existing, _) \<Rightarrow> guard (existing = put_Body request) (hostError ErrorIndeterminate conflict))
     | Inl e \<Rightarrow> fail (infrastructure writing e)
     | Inr _ \<Rightarrow> ok ())"

definition materializeRelease :: "s3_lib \<Rightarrow> 'w s3_env \<Rightarrow> HostRepository \<Rightarrow> gostring \<Rightarrow> publicationDescriptor \<Rightarrow> ('w, gostring) s3" where
  "materializeRelease lib env repository stageID publication =
     (let descriptor = releaseDescriptorFromPublication publication;
          content = json_Marshal (s3_release lib) descriptor in
     andThen (s3_lift (singleRootPath repository)) (\<lambda>rootPath.
     andThen (each (\<lambda>file. copy_create env (stageKey repository stageID (hf_Path file))
         (publishedFileKey (rebinds env) repository (rd_TreeSHA256 descriptor) rootPath (hf_Path file)) file
         ''reconcile S3 release object'' ''materialize S3 release'' ''materialize S3 release object'' ''verify S3 release object'') (rd_Files descriptor)) (\<lambda>_.
     andThen (put_once env (put_json lib (releaseDescriptorKey repository (rd_TreeSHA256 descriptor)) content if_none_match)
         (infrastructure ''read S3 release descriptor'') ''materialize S3 release'' ''write S3 release descriptor'') (\<lambda>_.
     ok (s3_digestBytes lib content)))))"

definition materializePublicationManifest :: "s3_lib \<Rightarrow> 'w s3_env \<Rightarrow> HostRepository \<Rightarrow> gostring \<Rightarrow> publicationDescriptor \<Rightarrow> ('w, gostring) s3" where
  "materializePublicationManifest lib env repository stageID descriptor =
     (case filter (\<lambda>f. hf_Path f = ManifestFilename) (pd_Files descriptor) of
        [] \<Rightarrow> fail (hostError ErrorInvalidConfiguration ''materialize S3 manifest'')
      | manifest # _ \<Rightarrow>
        andThen (get_or_fail env (stageKey repository stageID (hf_Path manifest)) ''read staged S3 publication manifest'') (\<lambda>(content, info).
        andThen (guard (oi_Size info = hf_Size manifest \<and> oi_SHA256 info = hf_SHA256 manifest \<and> s3_digestBytes lib content = hf_SHA256 manifest \<and>
            (case json_Unmarshal (s3_manifest lib) content of None \<Rightarrow> False
             | Some decoded \<Rightarrow> validatePublishedManifest lib repository content decoded (releaseDescriptorFromPublication descriptor)))
          (hostError ErrorInvalidConfiguration ''materialize S3 manifest'')) (\<lambda>_.
        andThen (copy_create env (stageKey repository stageID (hf_Path manifest)) (publicationManifestKey repository (hf_SHA256 manifest)) manifest
          ''reconcile S3 publication manifest'' ''materialize S3 manifest'' ''materialize S3 publication manifest'' ''verify S3 publication manifest'') (\<lambda>_.
        ok (hf_SHA256 manifest)))))"

definition retain_root :: "s3_lib \<Rightarrow> 'w s3_env \<Rightarrow> HostRepository \<Rightarrow> gostring \<Rightarrow> gostring \<Rightarrow> PublishedRevision \<Rightarrow> ('w, gostring \<times> metadata) s3" where
  "retain_root lib env repository rootPath restoreID before =
     andThen (get_or_fail env (objectKey repository rootPath) ''retain prior S3 root'') (\<lambda>(content, info).
     andThen (guard (oi_ETag info = pub_NativeRevision before \<and> (pub_TreeSHA256 before = [] \<or> metadataMatchesRevision (oi_Metadata info) before))
       (hostError ErrorStale ''retain prior S3 root'')) (\<lambda>_.
     andThen (put_once env \<lparr>put_Key = restoreRootKey repository restoreID, put_Body = content, put_Size = int (length content),
         put_SHA256 = s3_digestBytes lib content, put_ContentType = contentType lib rootPath, put_Metadata = [(''sha256'', s3_digestBytes lib content)],
         put_Conditions = if_none_match\<rparr> (\<lambda>_. hostError ErrorIndeterminate ''retain prior S3 root'') ''retain prior S3 root'' ''retain prior S3 root'') (\<lambda>_.
     ok (s3_digestBytes lib content, oi_Metadata info))))"

definition prepareRestore :: "s3_lib \<Rightarrow> 'w s3_env \<Rightarrow> HostRepository \<Rightarrow> gostring \<Rightarrow> publicationDescriptor \<Rightarrow> PublishedRevision \<Rightarrow> ('w, gostring \<times> gostring) s3" where
  "prepareRestore lib env repository restoreID after before =
     andThen (s3_lift (singleRootPath repository)) (\<lambda>rootPath.
     andThen (if pub_NativeRevision before \<noteq> [] then retain_root lib env repository rootPath restoreID before else ok ([], [])) (\<lambda>(rootDigest, beforeMetadata).
     (let descriptor = \<lparr>rs_PlanID = pd_PlanID after, rs_ChangeID = pd_ChangeID after, rs_AfterTreeSHA256 = pd_TreeSHA256 after,
            rs_RootExisted = (pub_NativeRevision before \<noteq> []), rs_BeforeTreeSHA256 = pub_TreeSHA256 before, rs_BeforePlanID = pub_PlanID before,
            rs_BeforeChangeID = pub_ChangeID before, rs_BeforeMetadata = beforeMetadata\<rparr>;
          content = json_Marshal (s3_restore lib) descriptor in
     andThen (put_once env (put_json lib (restoreDescriptorKey repository restoreID) content if_none_match)
       (infrastructure ''read S3 restore descriptor'') ''prepare S3 restore'' ''write S3 restore descriptor'') (\<lambda>_.
     ok (s3_digestBytes lib content, rootDigest)))))"

subsection \<open>Committing\<close>

definition lease :: int where "lease = 15 * 60 * Second"

definition lock_request :: "s3_lib \<Rightarrow> HostRepository \<Rightarrow> gostring \<Rightarrow> int \<Rightarrow> Conditions \<Rightarrow> PutRequest" where
  "lock_request lib repository owner now conditions = \<lparr>put_Key = commitLockKey repository, put_Body = owner, put_Size = int (length owner),
     put_SHA256 = s3_digestBytes lib owner, put_ContentType = ''text/plain'', put_Metadata = [(''expires'', format_rfc3339 (now + lease))],
     put_Conditions = conditions\<rparr>"

text \<open>The entity tag of the lock object taken.\<close>

definition acquireCommitLock :: "s3_lib \<Rightarrow> 'w s3_env \<Rightarrow> HostRepository \<Rightarrow> gostring \<Rightarrow> ('w, gostring) s3" where
  "acquireCommitLock lib env repository owner =
     andThen (s3_call (s3e_now env) TimeCall) (\<lambda>now.
     andThen (s3_Put env (lock_request lib repository owner now if_none_match)) (\<lambda>r. case r of
       Inr info \<Rightarrow> ok (oi_ETag info)
     | Inl ErrPrecondition \<Rightarrow>
       andThen (s3_Head env (commitLockKey repository)) (\<lambda>h. case h of Inl e \<Rightarrow> fail (infrastructure ''inspect S3 publication lease'' e)
       | Inr existing \<Rightarrow>
         andThen (s3_call (s3e_now env) TimeCall) (\<lambda>later.
         andThen (guard (case s3_parse_time lib (meta (oi_Metadata existing) ''expires'') of None \<Rightarrow> False | Some expires \<Rightarrow> later > expires)
           (hostError ErrorInfrastructure ''acquire S3 publication lease'')) (\<lambda>_.
         andThen (s3_Put env (lock_request lib repository owner now (if_match (oi_ETag existing)))) (\<lambda>r. case r of
           Inl e \<Rightarrow> fail (infrastructure ''acquire S3 publication lease'' e) | Inr info \<Rightarrow> ok (oi_ETag info)))))
     | Inl e \<Rightarrow> fail (infrastructure ''acquire S3 publication lease'' e)))"

definition release_lock :: "'w s3_env \<Rightarrow> HostRepository \<Rightarrow> gostring \<Rightarrow> ('w, unit) s3" where
  "release_lock env repository etag = andThen (s3_Delete env (commitLockKey repository) (if_match etag)) (\<lambda>_. ok ())"

definition refreshBrowsablePage :: "s3_lib \<Rightarrow> 'w s3_env \<Rightarrow> HostRepository \<Rightarrow> gostring \<Rightarrow> ('w, unit) s3" where
  "refreshBrowsablePage lib env repository stageID =
     andThen (s3_Get env (stageKey repository stageID listing_Filename) maximumListingSize) (\<lambda>r. case r of Inl _ \<Rightarrow> ok ()
     | Inr (content, _) \<Rightarrow> andThen (s3_Put env \<lparr>put_Key = browsablePageKey repository, put_Body = content, put_Size = int (length content),
         put_SHA256 = s3_digestBytes lib content, put_ContentType = contentType lib listing_Filename, put_Metadata = [], put_Conditions = no_conditions\<rparr>) (\<lambda>_. ok ()))"

definition switch_conditions :: "ExpectedRevision \<Rightarrow> Conditions" where
  "switch_conditions expected = \<lparr>cond_IfMatch = er_NativeRevision expected, cond_IfNoneMatch = (er_NativeRevision expected = [])\<rparr>"

definition root_metadata :: "rootBinding \<Rightarrow> metadata" where
  "root_metadata b = [(''tree-sha256'', rb_TreeSHA256 b), (''plan-id'', rb_PlanID b), (''change-id'', rb_ChangeID b), (''release-id'', rb_TreeSHA256 b),
     (''release-sha256'', rb_ReleaseSHA256 b), (''restore-id'', rb_RestoreID b), (''manifest-sha256'', rb_ManifestSHA256 b),
     (''restore-sha256'', rb_RestoreSHA256 b)] @ (if rb_RestoreRootSHA256 b = [] then [] else [(''restore-root-sha256'', rb_RestoreRootSHA256 b)])"

definition revision_of_binding :: "gostring \<Rightarrow> rootBinding \<Rightarrow> PublishedRevision" where
  "revision_of_binding etag b = \<lparr>pub_NativeRevision = etag, pub_TreeSHA256 = rb_TreeSHA256 b, pub_PlanID = rb_PlanID b, pub_ChangeID = rb_ChangeID b,
     pub_RestoreID = rb_RestoreID b, pub_ReleaseSHA256 = rb_ReleaseSHA256 b, pub_ManifestSHA256 = rb_ManifestSHA256 b,
     pub_RestoreSHA256 = rb_RestoreSHA256 b, pub_RestoreRootSHA256 = rb_RestoreRootSHA256 b\<rparr>"

text \<open>The switch itself; when the answer of the store is lost, the root is observed again.\<close>

definition switch_root :: "s3_lib \<Rightarrow> 'w s3_env \<Rightarrow> HostRepository \<Rightarrow> gostring \<Rightarrow> gostring \<Rightarrow> rootBinding \<Rightarrow> gostring \<Rightarrow> ExpectedRevision \<Rightarrow> ClientAccess \<Rightarrow> ('w, CommitResult) s3" where
  "switch_root lib env repository rootPath stageID binding rootContent expected access =
     andThen (s3_Put env \<lparr>put_Key = objectKey repository rootPath, put_Body = rootContent, put_Size = int (length rootContent),
         put_SHA256 = s3_digestBytes lib rootContent, put_ContentType = contentType lib rootPath, put_Metadata = root_metadata binding,
         put_Conditions = switch_conditions expected\<rparr>) (\<lambda>r. case r of
       Inr root \<Rightarrow> andThen (refreshBrowsablePage lib env repository stageID) (\<lambda>_.
         ok (s3_commitResult repository (revision_of_binding (oi_ETag root) binding) access))
     | Inl e \<Rightarrow> andThen (attempt (s3_Observe lib env repository)) (\<lambda>observed. case observed of
         Inr postcondition \<Rightarrow> if revisionMatchesBinding postcondition binding then ok (s3_commitResult repository postcondition access)
           else if e = ErrPrecondition then fail (S3Error \<lparr>he_Kind = ErrorStale, he_Operation = ''commit S3 root metadata'', he_Retryable = False,
             he_EffectMayHaveOccurred = False\<rparr> (Some e))
           else fail (effectUnknown ''commit S3 root metadata'' (Some e))
       | Inl _ \<Rightarrow> fail (effectUnknown ''commit S3 root metadata'' None)))"

definition commit_release :: "s3_lib \<Rightarrow> 'w s3_env \<Rightarrow> HostRepository \<Rightarrow> gostring \<Rightarrow> StagedPublication \<Rightarrow> publicationDescriptor \<Rightarrow> PublishedRevision \<Rightarrow> ExpectedRevision \<Rightarrow> ('w, CommitResult) s3" where
  "commit_release lib env repository rootPath staged descriptor observed expected =
     andThen (materializeRelease lib env repository (sp_ID staged) descriptor) (\<lambda>releaseDigest.
     andThen (materializePublicationManifest lib env repository (sp_ID staged) descriptor) (\<lambda>manifestDigest.
     andThen (prepareRestore lib env repository (sp_ID staged) descriptor observed) (\<lambda>(restoreDigest, restoreRootDigest).
     andThen (get_or_fail env (stageKey repository (sp_ID staged) rootPath) ''read staged S3 root metadata'') (\<lambda>(stagedRoot, _).
     (let binding = \<lparr>rb_TreeSHA256 = pd_TreeSHA256 descriptor, rb_PlanID = pd_PlanID descriptor, rb_ChangeID = pd_ChangeID descriptor,
            rb_ReleaseSHA256 = releaseDigest, rb_ManifestSHA256 = manifestDigest, rb_RestoreID = sp_ID staged, rb_RestoreSHA256 = restoreDigest,
            rb_RestoreRootSHA256 = restoreRootDigest\<rparr> in
     andThen (s3_lift (rewriteRoot env stagedRoot (rb_TreeSHA256 binding) (bindingAnnotation binding))) (\<lambda>rootContent.
     andThen (s3_lift (canonicalClientRoutes lib (hr_CanonicalEndpoint repository) (pd_TreeSHA256 descriptor) rootPath (rebinds env) (pd_Files descriptor) rootContent)) (\<lambda>routes.
     andThen (issueAccess env repository (revision_scope env repository (pd_PlanID descriptor) (pd_ChangeID descriptor) (pd_TreeSHA256 descriptor) rootPath) routes) (\<lambda>access.
     onError (switch_root lib env repository rootPath (sp_ID staged) binding rootContent expected access) (drop_access env access)))))))))"

definition commit_locked :: "s3_lib \<Rightarrow> 'w s3_env \<Rightarrow> HostRepository \<Rightarrow> gostring \<Rightarrow> StagedPublication \<Rightarrow> publicationDescriptor \<Rightarrow> gostring \<times> gostring \<Rightarrow> ExpectedRevision \<Rightarrow> ('w, CommitResult) s3" where
  "commit_locked lib env repository rootPath staged descriptor digests expected =
     andThen (s3_Observe lib env repository) (\<lambda>observed.
     if pub_TreeSHA256 observed = pd_TreeSHA256 descriptor \<and> pub_PlanID observed = pd_PlanID descriptor \<and> pub_ChangeID observed = pd_ChangeID descriptor \<and>
        pub_ReleaseSHA256 observed = fst digests \<and> pub_ManifestSHA256 observed = snd digests
     then (if pub_RestoreID observed = sp_ID staged
           then andThen (s3_ReadAccess lib env repository observed) (\<lambda>access. ok (s3_commitResult repository observed access))
           else fail (hostError ErrorIndeterminate ''commit S3 repository''))
     else andThen (guard (revisionMatchesExpected observed expected) (hostError ErrorStale ''commit S3 repository'')) (\<lambda>_.
       commit_release lib env repository rootPath staged descriptor observed expected))"

definition s3_Commit :: "s3_lib \<Rightarrow> 'w s3_env \<Rightarrow> HostRepository \<Rightarrow> StagedPublication \<Rightarrow> ExpectedRevision \<Rightarrow> ('w, CommitResult) s3" where
  "s3_Commit lib env repository staged expected =
     andThen (s3_lift (singleRootPath repository)) (\<lambda>rootPath.
     andThen (s3_lift (s3_validateRepository lib (has_broker env) repository)) (\<lambda>_.
     andThen (loadStage lib env repository (sp_ID staged)) (\<lambda>descriptor.
     andThen (guard (sp_PlanID staged = pd_PlanID descriptor \<and> sp_ChangeID staged = pd_ChangeID descriptor \<and> sp_TreeSHA256 staged = pd_TreeSHA256 descriptor \<and>
         sp_Files staged = pd_Files descriptor \<and> sp_CommitPaths staged = pd_CommitPaths descriptor)
       (hostError ErrorInvalidConfiguration ''commit S3 repository'')) (\<lambda>_.
     andThen (s3_lift (publicationDigestBindings lib descriptor)) (\<lambda>digests.
     andThen (acquireCommitLock lib env repository (sp_ID staged)) (\<lambda>lock.
     deferred (commit_locked lib env repository rootPath staged descriptor digests expected) (release_lock env repository lock)))))))"

subsection \<open>Restoring\<close>

definition validateRestoreTarget :: "s3_lib \<Rightarrow> 'w s3_env \<Rightarrow> HostRepository \<Rightarrow> restoreDescriptor \<Rightarrow> gostring \<Rightarrow> ('w, unit) s3" where
  "validateRestoreTarget lib env repository descriptor rootContent =
     (let published = revisionFromRestore [] descriptor; bad = hostError ErrorIndeterminate ''validate S3 restore target'' in
     andThen (s3_lift (singleRootPath repository)) (\<lambda>rootPath.
     if rs_BeforeTreeSHA256 descriptor = [] then ok ()
     else andThen (loadRelease lib env repository (pub_TreeSHA256 published)) (\<lambda>(release, releaseDigest).
       andThen (guard (releaseDigest = pub_ReleaseSHA256 published) bad) (\<lambda>_.
       andThen (get_bound env (publicationManifestKey repository (pub_ManifestSHA256 published)) ''validate S3 restore target'' ''read retained S3 publication manifest'') (\<lambda>(content, info).
       andThen (guard (oi_SHA256 info = pub_ManifestSHA256 published \<and> s3_digestBytes lib content = pub_ManifestSHA256 published \<and>
           (case json_Unmarshal (s3_manifest lib) content of None \<Rightarrow> False
            | Some manifest \<Rightarrow> validatePublishedManifest lib repository content manifest release)) bad) (\<lambda>_.
       andThen (each (check_object env repository (pub_TreeSHA256 published) rootPath ''validate S3 restore target'' ''inspect retained S3 release object'') (rd_Files release)) (\<lambda>_.
       andThen (get_bound env (releaseKey repository (pub_TreeSHA256 published) rootPath) ''validate S3 restore target'' ''read retained immutable S3 root'') (\<lambda>(immutableRoot, _).
       andThen (s3_lift (rewriteRoot env immutableRoot (pub_TreeSHA256 published) (bindingAnnotation (rootBindingFromRevision published)))) (\<lambda>expectedRoot.
       guard (rootContent = expectedRoot) bad)))))))))"

text \<open>The revision now canonical when the restore has already taken effect.\<close>

definition restorePostcondition :: "s3_lib \<Rightarrow> 'w s3_env \<Rightarrow> HostRepository \<Rightarrow> restoreDescriptor \<Rightarrow> RestoreRef \<Rightarrow> ('w, PublishedRevision option) s3" where
  "restorePostcondition lib env repository descriptor reference =
     andThen (s3_lift (singleRootPath repository)) (\<lambda>rootPath.
     if \<not> rs_RootExisted descriptor
     then andThen (s3_Head env (objectKey repository rootPath)) (\<lambda>r. case r of
       Inl ErrNotFound \<Rightarrow> ok (Some no_revision) | Inl e \<Rightarrow> fail (infrastructure ''inspect restored S3 root'' e) | Inr _ \<Rightarrow> ok None)
     else andThen (s3_Get env (objectKey repository rootPath) maximumMetadataSize) (\<lambda>r. case r of
       Inl ErrNotFound \<Rightarrow> ok None | Inl e \<Rightarrow> fail (infrastructure ''inspect restored S3 root'' e)
     | Inr (content, info) \<Rightarrow>
       if s3_digestBytes lib content \<noteq> rr_RootSHA256 reference \<or> \<not> same_metadata (oi_Metadata info) (rs_BeforeMetadata descriptor) then ok None
       else andThen (s3_Observe lib env repository) (\<lambda>observed. ok (Some observed))))"

text \<open>What a failed write of the root means, after looking whether it took effect.\<close>

definition settle_restore :: "s3_lib \<Rightarrow> 'w s3_env \<Rightarrow> HostRepository \<Rightarrow> restoreDescriptor \<Rightarrow> RestoreRef \<Rightarrow> object_error \<Rightarrow> ('w, PublishedRevision) s3" where
  "settle_restore lib env repository descriptor reference e =
     andThen (attempt (restorePostcondition lib env repository descriptor reference)) (\<lambda>r. case r of
       Inr (Some published) \<Rightarrow> ok published
     | Inl _ \<Rightarrow> fail (effectUnknown ''restore S3 root'' None)
     | Inr None \<Rightarrow> if e = ErrPrecondition
         then fail (S3Error \<lparr>he_Kind = ErrorStale, he_Operation = ''restore S3 root'', he_Retryable = False, he_EffectMayHaveOccurred = False\<rparr> (Some e))
         else fail (effectUnknown ''restore S3 root'' (Some e)))"

definition restore_root :: "s3_lib \<Rightarrow> 'w s3_env \<Rightarrow> HostRepository \<Rightarrow> gostring \<Rightarrow> restoreDescriptor \<Rightarrow> RestoreRef \<Rightarrow> ExpectedRevision \<Rightarrow> ('w, PublishedRevision) s3" where
  "restore_root lib env repository rootPath descriptor reference expected =
     (if \<not> rs_RootExisted descriptor
      then andThen (s3_Delete env (objectKey repository rootPath) (if_match (er_NativeRevision expected))) (\<lambda>r. case r of
        Inl e \<Rightarrow> settle_restore lib env repository descriptor reference e | Inr _ \<Rightarrow> ok no_revision)
      else andThen (get_bound env (restoreRootKey repository (rr_ID reference)) ''read retained S3 root'' ''read retained S3 root'') (\<lambda>(content, _).
        andThen (guard (s3_digestBytes lib content = rr_RootSHA256 reference) (hostError ErrorIndeterminate ''read retained S3 root'')) (\<lambda>_.
        andThen (validateRestoreTarget lib env repository descriptor content) (\<lambda>_.
        andThen (s3_Put env \<lparr>put_Key = objectKey repository rootPath, put_Body = content, put_Size = int (length content),
            put_SHA256 = s3_digestBytes lib content, put_ContentType = contentType lib rootPath, put_Metadata = rs_BeforeMetadata descriptor,
            put_Conditions = if_match (er_NativeRevision expected)\<rparr>) (\<lambda>r. case r of
          Inl e \<Rightarrow> settle_restore lib env repository descriptor reference e
        | Inr root \<Rightarrow> andThen (attempt (s3_Observe lib env repository)) (\<lambda>seen. case seen of
            Inr observed \<Rightarrow> if observed = revisionFromRestore (oi_ETag root) descriptor then ok observed
              else fail (effectUnknown ''verify restored S3 root'' None)
          | Inl _ \<Rightarrow> fail (effectUnknown ''verify restored S3 root'' None)))))))"

definition restore_locked :: "s3_lib \<Rightarrow> 'w s3_env \<Rightarrow> HostRepository \<Rightarrow> gostring \<Rightarrow> RestoreRef \<Rightarrow> ExpectedRevision \<Rightarrow> ('w, PublishedRevision) s3" where
  "restore_locked lib env repository rootPath reference expected =
     andThen (as_missing ''restore S3 repository'' (loadRestore lib env repository (rr_ID reference))) (\<lambda>(descriptor, descriptorDigest).
     andThen (guard (descriptorDigest = rr_DescriptorSHA256 reference \<and> rs_AfterTreeSHA256 descriptor = rr_FailedTree reference \<and>
         rs_PlanID descriptor = rr_PlanID reference \<and> rs_ChangeID descriptor = rr_ChangeID reference)
       (hostError ErrorIndeterminate ''restore S3 repository'')) (\<lambda>_.
     andThen (s3_Observe lib env repository) (\<lambda>observed.
     andThen (restorePostcondition lib env repository descriptor reference) (\<lambda>already. case already of Some published \<Rightarrow> ok published
     | None \<Rightarrow>
       andThen (guard (revisionMatchesExpected observed expected \<and> pub_PlanID observed = rr_PlanID reference \<and> pub_ChangeID observed = rr_ChangeID reference \<and>
           pub_TreeSHA256 observed = rr_FailedTree reference \<and> pub_RestoreID observed = rr_ID reference \<and>
           pub_RestoreSHA256 observed = rr_DescriptorSHA256 reference \<and> pub_RestoreRootSHA256 observed = rr_RootSHA256 reference)
         (hostError ErrorStale ''restore S3 repository'')) (\<lambda>_.
       restore_root lib env repository rootPath descriptor reference expected)))))"

definition s3_Restore :: "s3_lib \<Rightarrow> 'w s3_env \<Rightarrow> HostRepository \<Rightarrow> RestoreRef \<Rightarrow> ExpectedRevision \<Rightarrow> ('w, PublishedRevision) s3" where
  "s3_Restore lib env repository reference expected =
     andThen (s3_lift (singleRootPath repository)) (\<lambda>rootPath.
     andThen (s3_lift (s3_validateRepository lib (has_broker env) repository)) (\<lambda>_.
     andThen (guard (validIdentifier (rr_ID reference) \<and> rr_PlanID reference \<noteq> [] \<and> rr_ChangeID reference \<noteq> [] \<and> ValidSHA256 (rr_FailedTree reference) \<and>
         ValidSHA256 (rr_DescriptorSHA256 reference) \<and> (rr_RootSHA256 reference = [] \<or> ValidSHA256 (rr_RootSHA256 reference)))
       (hostError ErrorInvalidConfiguration ''restore S3 repository'')) (\<lambda>_.
     andThen (acquireCommitLock lib env repository (''restore-'' @ rr_ID reference)) (\<lambda>lock.
     deferred (restore_locked lib env repository rootPath reference expected) (release_lock env repository lock)))))"

subsection \<open>Aborting\<close>

definition s3_Abort :: "s3_lib \<Rightarrow> 'w s3_env \<Rightarrow> HostRepository \<Rightarrow> StagedPublication \<Rightarrow> ('w, unit) s3" where
  "s3_Abort lib env repository staged =
     andThen (s3_lift (s3_validateRepository lib (has_broker env) repository)) (\<lambda>_.
     andThen (guard (validIdentifier (sp_ID staged)) (hostError ErrorInvalidConfiguration ''abort S3 stage'')) (\<lambda>_.
     andThen (drop_access env (sp_Access staged)) (\<lambda>_.
     andThen (attempt (loadStage lib env repository (sp_ID staged))) (\<lambda>r. case r of
       Inl e \<Rightarrow> if isNotFound e then ok () else fail e
     | Inr descriptor \<Rightarrow>
       (let pointerKey = stagePointerKey repository (effectIdentifier lib (pd_PlanID descriptor) (pd_ChangeID descriptor)) in
       andThen (s3_Get env pointerKey maximumMetadataSize) (\<lambda>g. case g of
         Inl ErrNotFound \<Rightarrow> ok () | Inl e \<Rightarrow> fail (infrastructure ''read S3 stage pointer'' e)
       | Inr (content, info) \<Rightarrow>
         if (case json_Unmarshal (s3_pointer lib) content of None \<Rightarrow> False | Some pointer \<Rightarrow> ptr_ID pointer = sp_ID staged)
         then andThen (s3_Delete env pointerKey (if_match (oi_ETag info))) (\<lambda>d. case d of
           Inl ErrNotFound \<Rightarrow> ok () | Inl ErrPrecondition \<Rightarrow> ok () | Inl e \<Rightarrow> fail (infrastructure ''abort S3 stage pointer'' e) | Inr _ \<Rightarrow> ok ())
         else ok ()))))))"

subsection \<open>The adapter as a host\<close>

definition s3_public :: "s3_failure \<Rightarrow> host_failure" where
  "s3_public e = (case e of S3Error h _ \<Rightarrow> HostFailure h | S3Client _ \<Rightarrow> OtherFailure ''store'' | S3Other m \<Rightarrow> OtherFailure m)"

definition s3_run :: "('w, 'a) s3 \<Rightarrow> 'w \<Rightarrow> 'w \<times> (host_failure + 'a)" where
  "s3_run m w = (case m \<lparr>s3_world = w, s3_log = []\<rparr> of (s, r) \<Rightarrow> (s3_world s, map_sum s3_public id r))"

definition s3_host :: "s3_lib \<Rightarrow> 'w s3_env \<Rightarrow> 'w host" where
  "s3_host lib env = \<lparr>host_Capabilities = (\<lambda>repository w. (w, map_sum s3_public id (s3_Capabilities lib env repository))),
     host_Observe = (\<lambda>repository. s3_run (s3_Observe lib env repository)),
     host_ReadAccess = (\<lambda>repository published. s3_run (s3_ReadAccess lib env repository published)),
     host_Stage = (\<lambda>repository request. s3_run (s3_Stage lib env repository request)),
     host_Commit = (\<lambda>repository staged expected. s3_run (s3_Commit lib env repository staged expected)),
     host_Restore = (\<lambda>repository reference expected. s3_run (s3_Restore lib env repository reference expected)),
     host_Abort = (\<lambda>repository staged. s3_run (s3_Abort lib env repository staged))\<rparr>"

end
