(* ===== verification/S3_Keys.thy ===== *)
theory S3_Keys
  imports S3_Model Slash_Paths
begin

section \<open>The object-store host: where its objects live\<close>

text \<open>
  The keys of \<^verbatim>\<open>adapters/host/s3/s3.go\<close> by their elements: for a repository the adapter accepts, every key is
  the elements of the prefix followed by plain elements, so two keys are equal only when those are. The
  objects the adapter rewrites are the root, the commit lock, the browsable page and what is below the
  stages directory; releases, retained roots and publication manifests are none of these.
\<close>

subsection \<open>Keys by elements\<close>

definition prefix_elements :: "HostRepository \<Rightarrow> gostring list" where
  "prefix_elements repository = (if hr_Prefix repository = [] then [] else path_elements (hr_Prefix repository))"

definition good_prefix :: "HostRepository \<Rightarrow> bool" where
  "good_prefix repository \<longleftrightarrow> trim (\<lambda>c. c = CHR ''/'') (hr_Prefix repository) = hr_Prefix repository"

lemma validRepository_prefix: "s3_validateRepository lib b r = Inr u \<Longrightarrow> good_prefix r"
  by (auto simp: s3_validateRepository_def good_prefix_def configure_def Let_def)

lemma trimmed_not_abs:
  assumes "trim (\<lambda>c. c = CHR ''/'') s = s"
  shows "\<not> is_abs s"
proof
  assume "is_abs s"
  then obtain t where s: "s = CHR ''/'' # t" by (cases s) (auto simp: is_abs_def)
  have "length (trim (\<lambda>c. c = CHR ''/'') s) \<le> length t"
    unfolding trim_def trim_right_def trim_left_def s
    by (simp add: order_trans [OF length_dropWhile_le])
  then show False using assms s by simp
qed

lemma objectKey_slashed:
  assumes "good_prefix repository" and "list_all plain_element es" and "es \<noteq> []"
  shows "objectKey repository (slashed es) = slashed (prefix_elements repository @ es)"
proof (cases "hr_Prefix repository = []")
  case True
  then show ?thesis using assms by (simp add: objectKey_def prefix_elements_def path_clean_slashed)
next
  case False
  then have "\<not> is_abs (hr_Prefix repository @ ''/'' @ slashed es)"
    using trimmed_not_abs assms(1) is_abs_append by (simp add: good_prefix_def)
  then show ?thesis using False assms path_elements_below [OF False assms(2,3)]
    by (simp add: objectKey_def prefix_elements_def good_prefix_def path_join_def path_clean_def)
qed

lemma key_inject:
  assumes "list_all plain_element as" "list_all plain_element bs" "as \<noteq> []" "bs \<noteq> []"
  shows "slashed (prefix_elements repository @ as) = slashed (prefix_elements repository @ bs) \<longleftrightarrow> as = bs"
proof -
  have "list_all no_slash (prefix_elements repository)"
    by (simp add: prefix_elements_def path_elements_no_slash)
  then show ?thesis using assms plain_no_slash slashed_inject by auto
qed

subsection \<open>Names the adapter accepts\<close>

definition plain_name :: "gostring \<Rightarrow> bool" where
  "plain_name p \<longleftrightarrow> path_elements p \<noteq> [] \<and> list_all plain_element (path_elements p) \<and> slashed (path_elements p) = p"

lemma plain_name_slashed: "plain_name p \<longleftrightarrow> (\<exists>es. es \<noteq> [] \<and> list_all plain_element es \<and> p = slashed es)"
  unfolding plain_name_def by (metis path_elements_slashed)

text \<open>
  The check of a staged file lets one name through that is not a name below the tree: the parent
  reference itself, which does not begin with the parent reference and a slash.
\<close>

lemma validFile_name:
  assumes "s3_validateFile file"
  shows "plain_name (hf_Path file) \<or> hf_Path file = ''..''"
proof -
  let ?p = "hf_Path file"
  have p: "\<not> is_abs ?p" "path_clean ?p = ?p" "?p \<noteq> ''.''" "\<not> has_prefix ?p ''../''"
    using assms by (auto simp: s3_validateFile_def Let_def)
  have ne: "path_elements ?p \<noteq> []" using p(1,2,3) by (auto simp: path_clean_def)
  have joined: "slashed (path_elements ?p) = ?p" using p(1,2) ne by (simp add: path_clean_def)
  obtain k ps where shape: "path_elements ?p = replicate k ''..'' @ ps" "list_all plain_element ps"
    using path_elements_shape by blast
  show ?thesis
  proof (cases k)
    case 0
    then show ?thesis using shape ne joined by (simp add: plain_name_def)
  next
    case (Suc n)
    then show ?thesis using shape(1) joined p(4) join_starts_parent [of "path_elements ?p" "tl (path_elements ?p)"] by simp
  qed
qed

lemma hex_plain: "ValidSHA256 v \<Longrightarrow> plain_element v"
proof -
  assume v: "ValidSHA256 v"
  have "length v = 64" and "list_all lower_hex v" using v by (simp_all add: ValidSHA256_iff)
  moreover have "\<not> lower_hex (CHR ''/'')" by code_simp
  ultimately show "plain_element v" by (auto simp: plain_element_def list_all_iff)
qed

lemma identifier_plain: "validIdentifier v \<Longrightarrow> plain_element v"
  by (simp add: validIdentifier_def hex_plain)

lemma hex_json_plain: "ValidSHA256 v \<Longrightarrow> plain_element (v @ ''.json'')"
  using hex_plain by (auto simp: plain_element_def)

lemma path_join_name:
  assumes "list_all plain_element es" and "es \<noteq> []" and "plain_name p"
  shows "path_join (es @ [p]) = slashed (es @ path_elements p)"
proof -
  have "slashed (es @ [p]) = slashed (es @ path_elements p)"
    using assms by (simp add: slashed_append plain_name_def)
  then show ?thesis using assms path_clean_slashed [of "es @ path_elements p"]
    by (cases es) (simp_all add: path_join_def plain_name_def plain_element_def)
qed

subsection \<open>The keys\<close>

lemma literal_elements [simp]:
  "plain_element ''.snailmail''" "plain_element ''stages''" "plain_element ''effects''" "plain_element ''releases''"
  "plain_element ''release.json''" "plain_element ''stage.json''" "plain_element ''manifests''" "plain_element ''restores''"
  "plain_element ''restore.json''" "plain_element ''root.html''" "plain_element ''commit.lock''" "plain_element ''index.html''"
  by code_simp+

lemma objectKey_name:
  "good_prefix repository \<Longrightarrow> plain_name p \<Longrightarrow> objectKey repository p = slashed (prefix_elements repository @ path_elements p)"
  using objectKey_slashed by (metis plain_name_def)

lemma objectKey_join:
  "good_prefix repository \<Longrightarrow> list_all plain_element es \<Longrightarrow> es \<noteq> [] \<Longrightarrow>
    objectKey repository (path_join es) = slashed (prefix_elements repository @ es)"
  by (simp add: path_join_plain objectKey_slashed)

lemma objectKey_join_name:
  "good_prefix repository \<Longrightarrow> list_all plain_element es \<Longrightarrow> es \<noteq> [] \<Longrightarrow> plain_name p \<Longrightarrow>
    objectKey repository (path_join (es @ [p])) = slashed (prefix_elements repository @ es @ path_elements p)"
  using objectKey_slashed [of repository "es @ path_elements p"] by (simp add: path_join_name plain_name_def)

text \<open>Where each key is, below the prefix.\<close>

definition at :: "HostRepository \<Rightarrow> gostring list \<Rightarrow> gostring \<Rightarrow> bool" where
  "at repository es key \<longleftrightarrow> es \<noteq> [] \<and> list_all plain_element es \<and> key = slashed (prefix_elements repository @ es)"

lemma at_unique: "at repository es key \<Longrightarrow> at repository fs key \<Longrightarrow> es = fs"
  using key_inject unfolding at_def by metis

lemma at_releaseKey: "good_prefix r \<Longrightarrow> ValidSHA256 tree \<Longrightarrow> plain_name p \<Longrightarrow>
    at r ([''.snailmail'', ''releases'', tree] @ path_elements p) (releaseKey r tree p)"
  using objectKey_join_name [of r "[''.snailmail'', ''releases'', tree]" p] hex_plain by (auto simp: at_def releaseKey_def plain_name_def)

lemma at_stageKey: "good_prefix r \<Longrightarrow> validIdentifier i \<Longrightarrow> plain_name p \<Longrightarrow>
    at r ([''.snailmail'', ''stages'', i] @ path_elements p) (stageKey r i p)"
  using objectKey_join_name [of r "[''.snailmail'', ''stages'', i]" p] identifier_plain by (auto simp: at_def stageKey_def plain_name_def)

lemma stageKey_parent:
  assumes "good_prefix r" and "validIdentifier i"
  shows "at r [''.snailmail'', ''stages''] (stageKey r i ''..'')"
proof -
  have i: "plain_element i" using assms(2) by (rule identifier_plain)
  have "list_all no_slash [''.snailmail'', ''stages'', i, ''..'']" using i by (simp add: plain_element_def)
  then have "split_on (CHR ''/'') (slashed [''.snailmail'', ''stages'', i, ''..'']) = [''.snailmail'', ''stages'', i, ''..'']"
    by (rule split_on_join [rotated]) simp
  moreover have "\<not> is_abs (slashed [''.snailmail'', ''stages'', i, ''..''])" by (simp add: is_abs_def)
  ultimately have "path_elements (slashed [''.snailmail'', ''stages'', i, ''..'']) = [''.snailmail'', ''stages'']"
    using i by (simp add: path_elements_def clean_step_def plain_element_def del: join_with.simps)
  then have "path_join [''.snailmail'', ''stages'', i, ''..''] = slashed [''.snailmail'', ''stages'']"
    using \<open>\<not> is_abs _\<close> by (simp add: path_join_def path_clean_def)
  then show ?thesis using objectKey_slashed [OF assms(1), of "[''.snailmail'', ''stages'']"] by (simp add: at_def stageKey_def)
qed

lemma at_fixed_keys:
  assumes "good_prefix r"
  shows "at r [''.snailmail'', ''commit.lock''] (commitLockKey r)"
    and "at r [''index.html''] (browsablePageKey r)"
    and "ValidSHA256 e \<Longrightarrow> at r [''.snailmail'', ''stages'', ''effects'', e @ ''.json''] (stagePointerKey r e)"
    and "validIdentifier i \<Longrightarrow> at r [''.snailmail'', ''stages'', i, ''stage.json''] (stageDescriptorKey r i)"
    and "ValidSHA256 t \<Longrightarrow> at r [''.snailmail'', ''releases'', t, ''release.json''] (releaseDescriptorKey r t)"
    and "ValidSHA256 m \<Longrightarrow> at r [''.snailmail'', ''manifests'', m @ ''.json''] (publicationManifestKey r m)"
    and "validIdentifier i \<Longrightarrow> at r [''.snailmail'', ''restores'', i, ''restore.json''] (restoreDescriptorKey r i)"
    and "validIdentifier i \<Longrightarrow> at r [''.snailmail'', ''restores'', i, ''root.html''] (restoreRootKey r i)"
  using objectKey_join [OF assms] objectKey_slashed [OF assms, of "[''index.html'']"] hex_plain hex_json_plain identifier_plain
  by (auto simp: at_def commitLockKey_def browsablePageKey_def listing_Filename_def stagePointerKey_def stageDescriptorKey_def
      releaseDescriptorKey_def publicationManifestKey_def restoreDescriptorKey_def restoreRootKey_def)

lemma at_objectKey: "good_prefix r \<Longrightarrow> plain_name p \<Longrightarrow> at r (path_elements p) (objectKey r p)"
  by (simp add: at_def objectKey_name plain_name_def)

subsection \<open>What may be rewritten\<close>

definition in_stages :: "HostRepository \<Rightarrow> gostring \<Rightarrow> bool" where
  "in_stages repository key \<longleftrightarrow> (\<exists>es. at repository ([''.snailmail'', ''stages''] @ es) key)"

definition rewritable :: "HostRepository \<Rightarrow> gostring \<Rightarrow> gostring \<Rightarrow> bool" where
  "rewritable repository rootPath key \<longleftrightarrow> key = objectKey repository rootPath \<or> key = commitLockKey repository \<or>
     key = browsablePageKey repository \<or> in_stages repository key"

text \<open>A root document outside the adapter's own directory.\<close>

definition outer_root :: "gostring \<Rightarrow> bool" where
  "outer_root rootPath \<longleftrightarrow> plain_name rootPath \<and> hd (path_elements rootPath) \<noteq> ''.snailmail''"

lemma in_stages_keys:
  assumes "good_prefix r" and "validIdentifier i"
  shows "in_stages r (stageDescriptorKey r i)"
    and "s3_validateFile f \<Longrightarrow> in_stages r (stageKey r i (hf_Path f))"
    and "ValidSHA256 e \<Longrightarrow> in_stages r (stagePointerKey r e)"
proof -
  show "in_stages r (stageDescriptorKey r i)" "ValidSHA256 e \<Longrightarrow> in_stages r (stagePointerKey r e)"
    using at_fixed_keys(3,4) [OF assms(1)] assms(2) unfolding in_stages_def by auto
  show "in_stages r (stageKey r i (hf_Path f))" if "s3_validateFile f"
    using validFile_name [OF that] at_stageKey [OF assms] stageKey_parent [OF assms] unfolding in_stages_def
    by (metis append_Cons append_Nil append_Nil2)
qed

lemma not_rewritable:
  assumes "good_prefix r" and "outer_root rootPath" and "at r es key"
    and "es \<noteq> path_elements rootPath" and "es \<noteq> [''.snailmail'', ''commit.lock'']" and "es \<noteq> [''index.html'']"
    and "take 2 es \<noteq> [''.snailmail'', ''stages'']"
  shows "\<not> rewritable r rootPath key"
proof -
  note unique = at_unique [OF assms(3)]
  have "key \<noteq> objectKey r rootPath" using unique at_objectKey [OF assms(1)] assms(2,4) by (auto simp: outer_root_def)
  moreover have "key \<noteq> commitLockKey r" using unique at_fixed_keys(1) [OF assms(1)] assms(5) by auto
  moreover have "key \<noteq> browsablePageKey r" using unique at_fixed_keys(2) [OF assms(1)] assms(6) by auto
  moreover have "\<not> in_stages r key" using unique assms(7) by (auto simp: in_stages_def)
  ultimately show ?thesis by (simp add: rewritable_def)
qed

lemma release_not_rewritable:
  assumes "good_prefix r" and "outer_root rootPath" and "ValidSHA256 tree"
  shows "plain_name p \<Longrightarrow> \<not> rewritable r rootPath (releaseKey r tree p)"
    and "\<not> rewritable r rootPath (releaseDescriptorKey r tree)"
    and "\<not> rewritable r rootPath (publicationManifestKey r tree)"
proof -
  have root: "path_elements rootPath \<noteq> ''.snailmail'' # es" for es using assms(2) by (auto simp: outer_root_def)
  note keys = at_releaseKey [OF assms(1,3)] at_fixed_keys(5,6) [OF assms(1), OF assms(3)]
  show "plain_name p \<Longrightarrow> \<not> rewritable r rootPath (releaseKey r tree p)"
    using root [symmetric] by (intro not_rewritable [OF assms(1,2) keys(1)]) auto
  show "\<not> rewritable r rootPath (releaseDescriptorKey r tree)" "\<not> rewritable r rootPath (publicationManifestKey r tree)"
    using root [symmetric] by (intro not_rewritable [OF assms(1,2) keys(2)] not_rewritable [OF assms(1,2) keys(3)]; auto)+
qed

end
