(* ===== verification/S3_Trace.thy ===== *)
theory S3_Trace
  imports S3_Host S3_Keys
begin

section \<open>The object-store host: what its operations write\<close>

text \<open>
  Every piece of the adapter's code leaves a log of its calls and a changed world. \<open>obeys\<close> says that each
  call of the log that writes names a key and conditions that a discipline allows, and that the objects of
  the world changed call by call as an object store changes them. The store is code outside the repository:
  what it promises is the hypothesis \<open>honest_store\<close>, that a call changes at most the object it names and
  that a conditional call changes it only when its conditions hold. The promise is made of every answer, so
  also of an error after which it is not known whether the write took place.
\<close>

subsection \<open>The store\<close>

type_synonym objects = "gostring \<Rightarrow> (gostring \<times> ObjectInfo) option"

definition permits :: "Conditions \<Rightarrow> (gostring \<times> ObjectInfo) option \<Rightarrow> bool" where
  "permits c current \<longleftrightarrow> (cond_IfNoneMatch c \<longrightarrow> current = None) \<and>
     (cond_IfMatch c \<noteq> [] \<longrightarrow> (case current of None \<Rightarrow> False | Some (_, info) \<Rightarrow> oi_ETag info = cond_IfMatch c))"

text \<open>The key a call writes to, and under which conditions; a copy only creates.\<close>

definition write_of :: "s3_event \<Rightarrow> (gostring \<times> Conditions) option" where
  "write_of e = (case e of PutCall request _ \<Rightarrow> Some (put_Key request, put_Conditions request)
     | CopyCall _ destination _ \<Rightarrow> Some (destination, if_none_match)
     | DeleteCall key conditions _ \<Rightarrow> Some (key, conditions) | _ \<Rightarrow> None)"

definition store_step :: "s3_event \<Rightarrow> objects \<Rightarrow> objects \<Rightarrow> bool" where
  "store_step e before after \<longleftrightarrow> after = before \<or>
     (case write_of e of None \<Rightarrow> False | Some (key, conditions) \<Rightarrow> permits conditions (before key) \<and> (\<exists>v. after = before(key := v)))"

definition honest_store :: "('w \<Rightarrow> objects) \<Rightarrow> 'w s3_env \<Rightarrow> bool" where
  "honest_store objects env \<longleftrightarrow>
     (\<forall>w key. objects (fst (oc_Head (s3e_client env) key w)) = objects w) \<and>
     (\<forall>w key limit. objects (fst (oc_Get (s3e_client env) key limit w)) = objects w) \<and>
     (\<forall>w request. case oc_Put (s3e_client env) request w of (w', r) \<Rightarrow> store_step (PutCall request r) (objects w) (objects w')) \<and>
     (\<forall>w source destination bytes sha256. case oc_CopyCreate (s3e_client env) source destination bytes sha256 w of
        (w', r) \<Rightarrow> store_step (CopyCall source destination r) (objects w) (objects w')) \<and>
     (\<forall>w key conditions. case oc_Delete (s3e_client env) key conditions w of
        (w', r) \<Rightarrow> store_step (DeleteCall key conditions r) (objects w) (objects w')) \<and>
     (\<forall>w request. objects (fst (oc_List (s3e_client env) request w)) = objects w) \<and>
     (\<forall>w scope identity issue. s3e_broker env = Some (identity, issue) \<longrightarrow> objects (fst (issue scope w)) = objects w) \<and>
     (\<forall>w. objects (fst (s3e_now env w)) = objects w) \<and> (\<forall>w. objects (fst (s3e_random env w)) = objects w) \<and>
     (\<forall>w credential. objects (fst (s3e_destroy env credential w)) = objects w) \<and>
     (\<forall>w name. objects (fst (s3e_read env name w)) = objects w) \<and>
     (\<forall>w directory. objects (fst (s3e_VerifyRepository env directory w)) = objects w)"

subsection \<open>Traces\<close>

type_synonym discipline = "gostring \<Rightarrow> Conditions \<Rightarrow> bool"

definition allowed :: "discipline \<Rightarrow> s3_event \<Rightarrow> bool" where
  "allowed W e = (case write_of e of None \<Rightarrow> True | Some (key, conditions) \<Rightarrow> W key conditions)"

inductive store_trace :: "discipline \<Rightarrow> objects \<Rightarrow> s3_event list \<Rightarrow> objects \<Rightarrow> bool" for W where
  trace_Nil: "store_trace W before [] before"
| trace_Cons: "allowed W e \<Longrightarrow> store_step e before between \<Longrightarrow> store_trace W between es after \<Longrightarrow> store_trace W before (e # es) after"

lemma trace_append: "store_trace W a es b \<Longrightarrow> store_trace W b fs c \<Longrightarrow> store_trace W a (es @ fs) c"
  by (induction rule: store_trace.induct) (auto intro: store_trace.intros)

lemma trace_single: "allowed W e \<Longrightarrow> store_step e a b \<Longrightarrow> store_trace W a [e] b"
  by (auto intro: store_trace.intros)

text \<open>An object that every allowed write either leaves alone or only creates stays as it is.\<close>

lemma trace_keeps:
  assumes "store_trace W before es after" and "\<And>c. W key c \<Longrightarrow> cond_IfNoneMatch c" and "before key = Some object"
  shows "after key = Some object"
  using assms
proof (induction rule: store_trace.induct)
  case (trace_Cons e before between es after)
  have "permits c (before key) \<Longrightarrow> \<not> W key c" for c
    using trace_Cons.prems by (auto simp: permits_def)
  then have "between key = Some object"
    using trace_Cons.hyps(1,2) trace_Cons.prems(2) by (auto simp: store_step_def allowed_def split: option.splits)
  then show ?case using trace_Cons.IH trace_Cons.prems(1) by blast
qed

text \<open>An object that every allowed write names under the same conditions changes only from a state that meets them.\<close>

lemma trace_conditional:
  assumes "store_trace W before es after" and "\<And>c. W key c \<Longrightarrow> c = conditions"
  shows "after key = before key \<or> permits conditions (before key)"
  using assms
proof (induction rule: store_trace.induct)
  case (trace_Cons e before between es after)
  have "between key = before key \<or> permits conditions (before key)"
    using trace_Cons.hyps(1,2) trace_Cons.prems by (auto simp: store_step_def allowed_def split: option.splits)
  then show ?case using trace_Cons.IH trace_Cons.prems by metis
qed simp

lemma trace_allowed: "store_trace W before es after \<Longrightarrow> list_all (allowed W) es"
  by (induction rule: store_trace.induct) simp_all

subsection \<open>Code that keeps to a discipline\<close>

definition returns :: "('s, 'e, 'a) eff \<Rightarrow> 'a \<Rightarrow> bool" where
  "returns m a \<longleftrightarrow> (\<exists>s s'. m s = (s', Inr a))"

definition obeys :: "('w \<Rightarrow> objects) \<Rightarrow> discipline \<Rightarrow> ('w, 'a) s3 \<Rightarrow> bool" where
  "obeys objects W m \<longleftrightarrow> (\<forall>s. \<exists>es. s3_log (fst (m s)) = s3_log s @ es \<and> store_trace W (objects (s3_world s)) es (objects (s3_world (fst (m s)))))"

named_theorems obeys_intro \<open>code that keeps to a discipline, by its parts\<close>
named_theorems returns_simps \<open>what code can return\<close>

lemma returns_basic [returns_simps]: "returns (ok a) b \<longleftrightarrow> a = b" "returns (fail e) b \<longleftrightarrow> False" "returns (guard c e) u \<longleftrightarrow> c"
    "returns (s3_lift r) b \<longleftrightarrow> r = Inr b"
  by (auto simp: returns_def ok_def fail_def guard_def s3_lift_def split: sum.split)

lemma returns_andThen: "returns (andThen m f) b \<Longrightarrow> \<exists>a. returns m a \<and> returns (f a) b"
proof -
  assume "returns (andThen m f) b"
  then obtain s s' where "andThen m f s = (s', Inr b)" by (auto simp: returns_def)
  then show ?thesis by (cases "m s"; cases "snd (m s)") (auto simp: andThen_def returns_def)
qed

lemma returns_wrapped: "returns (onError m c) a \<Longrightarrow> returns m a" "returns (deferred m c) a \<Longrightarrow> returns m a"
    "returns (attempt m) (Inr a) \<Longrightarrow> returns m a"
proof -
  have "\<exists>s'. m s = (s', Inr a)" if "onError m c s = (t, Inr a) \<or> deferred m c s = (t, Inr a) \<or> attempt m s = (t, Inr (Inr a))" for s t
    using that by (cases "m s"; cases "snd (m s)") (auto simp: onError_def deferred_def attempt_def)
  then show "returns (onError m c) a \<Longrightarrow> returns m a" "returns (deferred m c) a \<Longrightarrow> returns m a"
    "returns (attempt m) (Inr a) \<Longrightarrow> returns m a"
    unfolding returns_def by blast+
qed

lemma obeys_basic [obeys_intro]: "obeys objects W (ok a)" "obeys objects W (fail e)" "obeys objects W (guard c e)" "obeys objects W (s3_lift r)"
  by (auto simp: obeys_def ok_def fail_def guard_def s3_lift_def trace_Nil split: sum.split)

lemma obeys_andThen [obeys_intro]:
  assumes "obeys objects W m" and "\<And>a. returns m a \<Longrightarrow> obeys objects W (f a)"
  shows "obeys objects W (andThen m f)"
  unfolding obeys_def
proof
  fix s
  obtain s' r where m: "m s = (s', r)" by fastforce
  obtain es where es: "s3_log s' = s3_log s @ es" "store_trace W (objects (s3_world s)) es (objects (s3_world s'))"
    using assms(1) m unfolding obeys_def by (metis fst_conv)
  show "\<exists>es. s3_log (fst (andThen m f s)) = s3_log s @ es \<and> store_trace W (objects (s3_world s)) es (objects (s3_world (fst (andThen m f s))))"
  proof (cases r)
    case (Inr a)
    then have "obeys objects W (f a)" using assms(2) m by (auto simp: returns_def)
    then obtain fs where "s3_log (fst (f a s')) = s3_log s' @ fs" "store_trace W (objects (s3_world s')) fs (objects (s3_world (fst (f a s'))))"
      unfolding obeys_def by blast
    then show ?thesis using es m Inr trace_append by (intro exI [of _ "es @ fs"]) (auto simp: andThen_def)
  qed (use es m in \<open>auto simp: andThen_def\<close>)
qed

lemma obeys_attempt [obeys_intro]: "obeys objects W m \<Longrightarrow> obeys objects W (attempt m)"
  by (simp add: obeys_def attempt_def case_prod_beta)

lemma obeys_wrapped [obeys_intro]:
  assumes "obeys objects W m" and "obeys objects W cleanup"
  shows "obeys objects W (deferred m cleanup)" "obeys objects W (onError m cleanup)"
proof -
  have *: "obeys objects W (andThen (attempt m) (\<lambda>_. cleanup))" using assms by (intro obeys_intro) auto
  have "fst (deferred m cleanup s) = fst (andThen (attempt m) (\<lambda>_. cleanup) s)" for s
    by (simp add: deferred_def andThen_def attempt_def split: prod.split)
  then show "obeys objects W (deferred m cleanup)" using * by (simp add: obeys_def)
  have "obeys objects W (andThen (attempt m) (\<lambda>r. case r of Inl _ \<Rightarrow> cleanup | Inr _ \<Rightarrow> ok ()))"
    using assms by (intro obeys_intro) (auto intro: obeys_intro split: sum.split)
  moreover have "fst (onError m cleanup s) = fst (andThen (attempt m) (\<lambda>r. case r of Inl _ \<Rightarrow> cleanup | Inr _ \<Rightarrow> ok ()) s)" for s
    by (simp add: onError_def andThen_def attempt_def ok_def split: prod.split sum.split)
  ultimately show "obeys objects W (onError m cleanup)" by (simp add: obeys_def)
qed

lemma obeys_each [obeys_intro]: "(\<And>x. x \<in> set xs \<Longrightarrow> obeys objects W (f x)) \<Longrightarrow> obeys objects W (each f xs)"
  by (induction xs) (auto intro!: obeys_intro)

lemma obeys_call:
  assumes "\<And>w. allowed W (ev (snd (operation w))) \<and> store_step (ev (snd (operation w))) (objects w) (objects (fst (operation w)))"
  shows "obeys objects W (s3_call operation ev)"
  unfolding obeys_def s3_call_def using assms trace_single by (simp add: case_prod_beta)

lemma runs_whatever: "(\<And>a s'. Q a s') \<Longrightarrow> (\<And>s'. E s') \<Longrightarrow> runs m s Q E"
  by (simp add: runs_def split: prod.split sum.split)

subsection \<open>Reading\<close>

lemma store_step_same [simp]: "store_step e before before"
  by (simp add: store_step_def)

lemma obeys_reads [obeys_intro]:
  assumes "honest_store objects env"
  shows "obeys objects W (s3_Head env key)" "obeys objects W (s3_Get env key limit)" "obeys objects W (s3_List env request)" "obeys objects W (s3_call (s3e_now env) TimeCall)"
    "obeys objects W (s3_call (s3e_random env) RandomCall)" "obeys objects W (s3_call (s3e_read env name) (FileRead name))"
    "obeys objects W (s3_call (s3e_VerifyRepository env directory) (TreeVerify directory))"
    "obeys objects W (drop_access env access)"
  unfolding s3_Head_def s3_Get_def s3_List_def drop_access_def
  using assms by (auto intro!: obeys_call obeys_intro split: option.split simp: honest_store_def allowed_def write_of_def)

lemma obeys_issue [obeys_intro]: "honest_store objects env \<Longrightarrow> obeys objects W (issueAccess env repository scope routes)"
  unfolding issueAccess_def
  by (auto intro!: obeys_call obeys_intro split: option.split simp: honest_store_def allowed_def write_of_def Let_def)

lemma obeys_writes:
  assumes "honest_store objects env"
  shows "W (put_Key request) (put_Conditions request) \<Longrightarrow> obeys objects W (s3_Put env request)"
    "W destination if_none_match \<Longrightarrow> obeys objects W (s3_Copy env source destination bytes sha256)"
    "W key conditions \<Longrightarrow> obeys objects W (s3_Delete env key conditions)"
  unfolding s3_Put_def s3_Copy_def s3_Delete_def using assms
  by (auto intro!: obeys_call simp: honest_store_def allowed_def write_of_def case_prod_beta)

lemmas branches = option.split sum.split object_error.split prod.split if_split

lemma obeys_get [obeys_intro]:
  assumes "honest_store objects env"
  shows "obeys objects W (get_bound env key missing operation)" "obeys objects W (get_or_fail env key operation)"
  unfolding get_bound_def get_or_fail_def using assms by (auto intro!: obeys_intro split: branches)

lemma obeys_as_missing [obeys_intro]: "obeys objects W m \<Longrightarrow> obeys objects W (as_missing operation m)"
  unfolding as_missing_def by (auto intro!: obeys_intro split: branches)

lemma obeys_load [obeys_intro]:
  assumes "honest_store objects env"
  shows "obeys objects W (loadStage lib env repository identifier)" "obeys objects W (loadStagePointer lib env repository effectID)"
    "obeys objects W (loadRelease lib env repository tree)" "obeys objects W (loadRestore lib env repository identifier)"
  unfolding loadStage_def loadStagePointer_def loadRelease_def loadRestore_def
  using assms by (auto intro!: obeys_intro split: branches)

lemma obeys_observe [obeys_intro]:
  assumes "honest_store objects env"
  shows "obeys objects W (check_object env repository tree rootPath corrupt operation file)"
    "obeys objects W (observe_release lib env repository published)" "obeys objects W (observe_restore lib env repository published)"
    "obeys objects W (observe_canonical lib env repository rootPath root published)"
  unfolding check_object_def observe_release_def observe_restore_def observe_canonical_def
  using assms by (auto intro!: obeys_intro split: branches)

lemma obeys_Observe [obeys_intro]: "honest_store objects env \<Longrightarrow> obeys objects W (s3_Observe lib env repository)"
  unfolding s3_Observe_def observe_root_def by (auto intro!: obeys_intro split: branches simp: Let_def)

lemma obeys_ReadAccess [obeys_intro]: "honest_store objects env \<Longrightarrow> obeys objects W (s3_ReadAccess lib env repository published)"
  unfolding s3_ReadAccess_def by (auto intro!: obeys_intro split: branches)

subsection \<open>Staging and aborting\<close>

lemma check_files_valid: "check_files previous bytes files \<Longrightarrow> list_all s3_validateFile files"
  by (induction previous bytes files rule: check_files.induct) auto

lemma descriptorFromRequest_valid:
  assumes "descriptorFromRequest lib repository request = Inr descriptor"
  shows "list_all s3_validateFile (pd_Files descriptor)" "ValidSHA256 (pd_TreeSHA256 descriptor)"
    "ValidSHA256 (pd_PlanID descriptor)"
  using assms check_files_valid by (auto simp: descriptorFromRequest_def stage_check_def Let_def)

lemma decodePublication_valid:
  assumes "decodePublicationDescriptor lib repository content operation = Inr descriptor"
  shows "list_all s3_validateFile (pd_Files descriptor)" "ValidSHA256 (pd_TreeSHA256 descriptor)"
  using assms descriptorFromRequest_valid by (auto simp: decodePublicationDescriptor_def)

lemma returns_loadStage:
  assumes "returns (loadStage lib env repository identifier) descriptor"
  shows "validIdentifier identifier" "list_all s3_validateFile (pd_Files descriptor)" "ValidSHA256 (pd_TreeSHA256 descriptor)"
  using assms decodePublication_valid unfolding loadStage_def
  by (auto dest!: returns_andThen simp: returns_simps)

text \<open>What the digests and the random source give: lower-case hexadecimal of 32 bytes.\<close>

definition hex_sources :: "s3_lib \<Rightarrow> 'w s3_env \<Rightarrow> bool" where
  "hex_sources lib env \<longleftrightarrow> (\<forall>s. ValidSHA256 (s3_digestBytes lib s)) \<and> (\<forall>w i. snd (s3e_random env w) = Some i \<longrightarrow> validIdentifier i)"

lemma returns_random: "hex_sources lib env \<Longrightarrow> returns (s3_call (s3e_random env) RandomCall) (Some i) \<Longrightarrow> validIdentifier i"
  by (auto simp: returns_def s3_call_def hex_sources_def case_prod_beta)

lemma obeys_delete_keys: "honest_store objects env \<Longrightarrow> (\<And>k. k \<in> set keys \<Longrightarrow> W k no_conditions) \<Longrightarrow> obeys objects W (delete_keys env keys)"
  unfolding delete_keys_def by (auto intro!: obeys_intro obeys_writes)

lemma obeys_stageResult [obeys_intro]: "honest_store objects env \<Longrightarrow> obeys objects W (s3_stageResult lib env repository identifier descriptor)"
  unfolding s3_stageResult_def by (auto intro!: obeys_intro split: branches simp: Let_def)

lemma put_json_writes [simp]: "put_Key (put_json lib key content conditions) = key" "put_Conditions (put_json lib key content conditions) = conditions"
  by (simp_all add: put_json_def)

lemma obeys_upload: "honest_store objects env \<Longrightarrow> W (stageKey repository identifier (hf_Path file)) no_conditions \<Longrightarrow>
    obeys objects W (upload lib env repository identifier directory file)"
  unfolding upload_def by (auto intro!: obeys_intro obeys_writes split: branches simp: Let_def)

lemma obeys_publish_pointer:
  assumes "honest_store objects env" and "hex_sources lib env"
    and "\<And>e. ValidSHA256 e \<Longrightarrow> W (stagePointerKey repository e) if_none_match" and "\<And>k. k \<in> set uploaded \<Longrightarrow> W k no_conditions"
  shows "obeys objects W (publish_pointer lib env repository identifier descriptor uploaded staged)"
    and "returns (publish_pointer lib env repository identifier descriptor uploaded staged) finish \<Longrightarrow> obeys objects W finish"
proof -
  show "obeys objects W (publish_pointer lib env repository identifier descriptor uploaded staged)"
    unfolding publish_pointer_def effectIdentifier_def using assms
    by (auto intro!: obeys_intro obeys_writes obeys_delete_keys split: branches simp: Let_def hex_sources_def)
  show "returns (publish_pointer lib env repository identifier descriptor uploaded staged) finish \<Longrightarrow> obeys objects W finish"
    unfolding publish_pointer_def using assms(1)
    by (auto dest!: returns_andThen intro!: obeys_intro simp: returns_simps Let_def split: sum.splits object_error.splits if_splits)
qed

lemma obeys_Stage:
  assumes "honest_store objects env" and "hex_sources lib env" and "\<And>k c. in_stages repository k \<Longrightarrow> W k c"
  shows "obeys objects W (s3_Stage lib env repository request)"
proof -
  have "obeys objects W (stage_fresh lib env repository request descriptor)"
    if "good_prefix repository" "descriptorFromRequest lib repository request = Inr descriptor" for descriptor
  proof -
    have keys: "W (stageDescriptorKey repository i) c" "ValidSHA256 e \<Longrightarrow> W (stagePointerKey repository e) c"
      "f \<in> set (pd_Files descriptor) \<Longrightarrow> W (stageKey repository i (hf_Path f)) c" if "validIdentifier i" for i e f c
      using in_stages_keys [OF \<open>good_prefix repository\<close> that] descriptorFromRequest_valid(1) [OF \<open>_ = Inr descriptor\<close>] assms(3)
      by (auto simp: list_all_iff)
    have pointer: "obeys objects W (publish_pointer lib env repository i descriptor (map (\<lambda>f. stageKey repository i (hf_Path f)) (pd_Files descriptor) @ [stageDescriptorKey repository i]) staged)"
      "returns (publish_pointer lib env repository i descriptor (map (\<lambda>f. stageKey repository i (hf_Path f)) (pd_Files descriptor) @ [stageDescriptorKey repository i]) staged) finish \<Longrightarrow> obeys objects W finish"
      if "validIdentifier i" for i staged finish
      using keys [OF that] assms(1,2) by (auto intro!: obeys_publish_pointer(1) elim!: obeys_publish_pointer(2) [rotated 4])
    then show ?thesis unfolding stage_fresh_def using assms(1) keys returns_random [OF assms(2)]
      by (auto intro!: pointer(1) elim!: pointer(2) [rotated] intro!: obeys_intro obeys_writes obeys_delete_keys obeys_upload simp: Let_def returns_simps split: option.split sum.splits
          dest!: returns_andThen returns_wrapped(1))
  qed
  then show ?thesis unfolding s3_Stage_def using assms(1)
    by (auto intro!: obeys_intro split: branches simp: returns_simps dest!: validRepository_prefix)
qed

lemma obeys_Abort:
  assumes "honest_store objects env" and "hex_sources lib env" and "\<And>k c. in_stages repository k \<Longrightarrow> W k c"
  shows "obeys objects W (s3_Abort lib env repository staged)"
  unfolding s3_Abort_def using assms in_stages_keys(3)
  by (auto intro!: obeys_intro obeys_writes split: branches simp: Let_def returns_simps hex_sources_def effectIdentifier_def dest!: validRepository_prefix)

subsection \<open>Committing and restoring\<close>

text \<open>The objects a commit creates and never rewrites.\<close>

definition commit_creates :: "bool \<Rightarrow> HostRepository \<Rightarrow> gostring \<Rightarrow> StagedPublication \<Rightarrow> gostring set" where
  "commit_creates rebinding repository rootPath staged =
     publishedFileKey rebinding repository (sp_TreeSHA256 staged) rootPath ` hf_Path ` set (sp_Files staged) \<union>
     publicationManifestKey repository ` hf_SHA256 ` set (sp_Files staged) \<union>
     {releaseDescriptorKey repository (sp_TreeSHA256 staged), restoreDescriptorKey repository (sp_ID staged), restoreRootKey repository (sp_ID staged)}"

lemma obeys_create:
  assumes "honest_store objects env" and "W destination if_none_match"
  shows "obeys objects W (copy_create env source destination file reconcile conflict copying verifying)"
    and "destination = put_Key request \<Longrightarrow> put_Conditions request = if_none_match \<Longrightarrow> obeys objects W (put_once env request reading conflict writing)"
  unfolding copy_create_def put_once_def using assms by (auto intro!: obeys_intro obeys_writes split: branches)

lemma obeys_lock:
  assumes "honest_store objects env" and "\<And>c. W (commitLockKey repository) c"
  shows "obeys objects W (acquireCommitLock lib env repository owner)" "obeys objects W (release_lock env repository etag)"
  unfolding acquireCommitLock_def release_lock_def lock_request_def using assms
  by (auto intro!: obeys_intro obeys_writes split: branches)

lemma obeys_prepareRestore:
  assumes "honest_store objects env" and "W (restoreDescriptorKey repository i) if_none_match" and "W (restoreRootKey repository i) if_none_match"
  shows "obeys objects W (prepareRestore lib env repository i after before)"
  unfolding prepareRestore_def retain_root_def using assms
  by (auto intro!: obeys_intro obeys_create split: branches simp: Let_def)

lemma obeys_switch_root:
  assumes "honest_store objects env" and "W (objectKey repository rootPath) (switch_conditions expected)" and "W (browsablePageKey repository) no_conditions"
  shows "obeys objects W (switch_root lib env repository rootPath stageID binding rootContent expected access)"
  unfolding switch_root_def refreshBrowsablePage_def using assms
  by (auto intro!: obeys_intro obeys_writes split: branches)

lemma obeys_commit_release:
  assumes "honest_store objects env" and "singleRootPath repository = Inr rootPath"
    and "W (objectKey repository rootPath) (switch_conditions expected)" and "W (browsablePageKey repository) no_conditions"
    and "\<And>k. k \<in> commit_creates (rebinds env) repository rootPath staged \<Longrightarrow> W k if_none_match"
    and "sp_TreeSHA256 staged = pd_TreeSHA256 descriptor" and "sp_Files staged = pd_Files descriptor"
  shows "obeys objects W (commit_release lib env repository rootPath staged descriptor observed expected)"
proof -
  have created: "W (publishedFileKey (rebinds env) repository (pd_TreeSHA256 descriptor) rootPath (hf_Path f)) if_none_match"
    "W (publicationManifestKey repository (hf_SHA256 f)) if_none_match" if "f \<in> set (pd_Files descriptor)" for f
    using that assms(5-7) by (auto simp: commit_creates_def)
  have fixed: "W (releaseDescriptorKey repository (pd_TreeSHA256 descriptor)) if_none_match"
    "W (restoreDescriptorKey repository (sp_ID staged)) if_none_match" "W (restoreRootKey repository (sp_ID staged)) if_none_match"
    using assms(5,6) by (auto simp: commit_creates_def)
  have "obeys objects W (materializeRelease lib env repository (sp_ID staged) descriptor)"
    unfolding materializeRelease_def releaseDescriptorFromPublication_def using assms(1,2) created fixed
    by (auto intro!: obeys_intro obeys_create simp: Let_def returns_simps)
  moreover have "obeys objects W (materializePublicationManifest lib env repository (sp_ID staged) descriptor)"
    unfolding materializePublicationManifest_def using assms(1) created
    by (auto intro!: obeys_intro obeys_create split: list.split simp: filter_eq_Cons_iff)
  ultimately show ?thesis unfolding commit_release_def using assms(1,3,4) fixed
    by (auto intro!: obeys_intro obeys_prepareRestore obeys_switch_root split: branches simp: Let_def)
qed

lemma obeys_Commit:
  assumes "honest_store objects env" and "singleRootPath repository = Inr rootPath"
    and "W (objectKey repository rootPath) (switch_conditions expected)" and "W (browsablePageKey repository) no_conditions"
    and "\<And>c. W (commitLockKey repository) c"
    and "\<And>k. s3_validateRepository lib (has_broker env) repository = Inr () \<Longrightarrow> validIdentifier (sp_ID staged) \<Longrightarrow>
        list_all s3_validateFile (sp_Files staged) \<Longrightarrow> ValidSHA256 (sp_TreeSHA256 staged) \<Longrightarrow>
        k \<in> commit_creates (rebinds env) repository rootPath staged \<Longrightarrow> W k if_none_match"
  shows "obeys objects W (s3_Commit lib env repository staged expected)"
  unfolding s3_Commit_def commit_locked_def using assms(1-5)
  by (auto intro!: obeys_intro obeys_lock obeys_commit_release assms(6) split: branches simp: returns_simps returns_loadStage)

lemma obeys_Restore:
  assumes "honest_store objects env" and "singleRootPath repository = Inr rootPath"
    and "W (objectKey repository rootPath) (if_match (er_NativeRevision expected))" and "\<And>c. W (commitLockKey repository) c"
  shows "obeys objects W (s3_Restore lib env repository reference expected)"
proof -
  have "obeys objects W (restorePostcondition lib env repository descriptor reference)" for descriptor
    unfolding restorePostcondition_def using assms(1) by (auto intro!: obeys_intro split: branches simp: Let_def)
  moreover have "obeys objects W (validateRestoreTarget lib env repository descriptor content)" for descriptor content
    unfolding validateRestoreTarget_def using assms(1) by (auto intro!: obeys_intro split: branches simp: Let_def)
  ultimately have "obeys objects W (restore_root lib env repository rootPath descriptor reference expected)"
    "obeys objects W (restorePostcondition lib env repository descriptor reference)" for descriptor
    unfolding restore_root_def settle_restore_def using assms(1,3) by (auto intro!: obeys_intro obeys_writes split: branches)
  then show ?thesis unfolding s3_Restore_def restore_locked_def using assms
    by (auto intro!: obeys_intro obeys_lock split: branches simp: returns_simps)
qed

end
