(* ===== verification/S3_Memory.thy ===== *)
theory S3_Memory
  imports S3_Trace
begin

section \<open>The object-store host: a store in memory\<close>

text \<open>
  An object store that keeps its objects in an association list and does what the conditions of a call
  say, the promise of \<open>honest_store\<close> for it, and a repository, a staged publication and a store that holds
  it, on which the operations can be run.
\<close>

type_synonym memory = "(gostring \<times> (gostring \<times> ObjectInfo)) list"

definition memory_client :: "memory ObjectClient" where
  "memory_client = \<lparr>
     oc_Head = (\<lambda>key w. (w, case map_of w key of None \<Rightarrow> Inl ErrNotFound | Some (_, info) \<Rightarrow> Inr info)),
     oc_Get = (\<lambda>key limit w. (w, case map_of w key of None \<Rightarrow> Inl ErrNotFound
       | Some (body, info) \<Rightarrow> if int (length body) > limit then Inl (OtherObjectError ''too large'') else Inr (body, info))),
     oc_Put = (\<lambda>request w. if permits (put_Conditions request) (map_of w (put_Key request))
       then (let info = \<lparr>oi_ETag = put_SHA256 request, oi_Size = put_Size request, oi_SHA256 = put_SHA256 request, oi_Metadata = put_Metadata request\<rparr>
             in ((put_Key request, (put_Body request, info)) # w, Inr info))
       else (w, Inl ErrPrecondition)),
     oc_CopyCreate = (\<lambda>source destination bytes sha256 w. case map_of w source of None \<Rightarrow> (w, Inl ErrNotFound)
       | Some (body, info) \<Rightarrow> if map_of w destination = None then ((destination, (body, info)) # w, Inr info) else (w, Inl ErrPrecondition)),
     oc_Delete = (\<lambda>key conditions w. if permits conditions (map_of w key) then (filter (\<lambda>(k, _). k \<noteq> key) w, Inr ()) else (w, Inl ErrPrecondition)),
     oc_List = (\<lambda>request w. (w, Inr \<lparr>lr_Objects = map (\<lambda>(k, _, info). \<lparr>lo_Key = k, lo_Size = oi_Size info, lo_ETag = oi_ETag info\<rparr>)
       (filter (\<lambda>(k, _). has_prefix k (lq_Prefix request)) w), lr_More = []\<rparr>))\<rparr>"

definition memory_env :: "memory s3_env" where
  "memory_env = \<lparr>s3e_client = memory_client, s3e_broker = None, s3e_rewriter = None, s3e_now = (\<lambda>w. (w, 0)),
     s3e_random = (\<lambda>w. (w, Some (replicate 64 CHR ''1''))), s3e_destroy = (\<lambda>_ w. (w, ())), s3e_read = (\<lambda>_ w. (w, None)),
     s3e_VerifyRepository = (\<lambda>_ w. (w, None))\<rparr>"

lemma map_of_filter_key: "map_of (filter (\<lambda>(k, _). k \<noteq> key) w) = (map_of w)(key := None)"
  by (induction w) (auto simp: fun_eq_iff)

lemma memory_honest: "honest_store map_of memory_env"
  unfolding honest_store_def memory_env_def memory_client_def
  by (auto simp: store_step_def write_of_def permits_def if_none_match_def Let_def map_of_filter_key split: option.split)

subsection \<open>A publication\<close>

definition zeros :: gostring where "zeros = replicate 64 CHR ''0''"

definition chart_url :: url where
  "chart_url = \<lparr>url_Scheme = ''https'', url_Host = ''c'', url_Hostname = ''c'', url_User = False, url_Fragment = [], url_RawQuery = [],
     url_Path = [], url_RawPath = [], url_String = []\<rparr>"

definition chart_files :: "HostFile list" where
  "chart_files = [\<lparr>hf_Path = ''index.yaml'', hf_Size = 1, hf_SHA256 = zeros\<rparr>, \<lparr>hf_Path = ManifestFilename, hf_Size = 2, hf_SHA256 = zeros\<rparr>]"

definition chart_publication :: publicationDescriptor where
  "chart_publication = \<lparr>pd_PlanID = zeros, pd_ChangeID = ''c:000000000000'', pd_TreeSHA256 = zeros, pd_Files = chart_files,
     pd_CommitPaths = [''index.yaml'']\<rparr>"

definition chart_manifest :: RepositoryManifest where
  "chart_manifest = \<lparr>rm_SchemaVersion = 3, rm_Format = ''helm/1'', rm_GeneratedAt = ''0001-01-01T00:00:00Z'', rm_TreeSHA256 = zeros,
     rm_Files = [\<lparr>mf_Path = ''index.yaml'', mf_Size = 1, mf_SHA256 = zeros\<rparr>],
     rm_Install = \<lparr>is_Kind = ''helm'', is_IndexPath = ''index.yaml'', is_Suite = [], is_Component = [], is_Architectures = [],
       is_SigningKeyPath = [], is_SigningFingerprint = [], is_TrustedSigningFingerprints = []\<rparr>,
     rm_VerificationCases = [\<lparr>vc_Project = [], vc_Package = ''p'', vc_Version = ''1'', vc_Architecture = []\<rparr>], rm_Signatures = []\<rparr>"

definition chart_restore :: restoreDescriptor where
  "chart_restore = \<lparr>rs_PlanID = zeros, rs_ChangeID = ''c:000000000000'', rs_AfterTreeSHA256 = zeros, rs_RootExisted = False,
     rs_BeforeTreeSHA256 = [], rs_BeforePlanID = [], rs_BeforeChangeID = [], rs_BeforeMetadata = []\<rparr>"

definition chart_lib :: s3_lib where
  "chart_lib = \<lparr>s3_manifest_lib = \<lparr>ml_url = \<lparr>ul_parse = (\<lambda>_. Some chart_url), ul_addr = (\<lambda>_. None)\<rparr>, ml_escaped = url_Path, ml_sha256 = (\<lambda>_. zeros)\<rparr>,
     s3_digestBytes = (\<lambda>_. zeros), s3_JoinPath = (\<lambda>a b. Some (a @ b)), s3_TypeByExtension = (\<lambda>_. []),
     s3_publication = \<lparr>json_Marshal = (\<lambda>_. ''p''), json_Unmarshal = (\<lambda>_. Some chart_publication)\<rparr>,
     s3_release = \<lparr>json_Marshal = (\<lambda>_. ''r''), json_Unmarshal = (\<lambda>_. Some (releaseDescriptorFromPublication chart_publication))\<rparr>,
     s3_pointer = \<lparr>json_Marshal = (\<lambda>_. ''q''), json_Unmarshal = (\<lambda>_. None)\<rparr>,
     s3_restore = \<lparr>json_Marshal = (\<lambda>_. ''b''), json_Unmarshal = (\<lambda>_. Some chart_restore)\<rparr>,
     s3_manifest = \<lparr>json_Marshal = (\<lambda>_. ''m''), json_Unmarshal = (\<lambda>_. Some chart_manifest)\<rparr>,
     s3_parse_time = (\<lambda>_. Some 0)\<rparr>"

definition chart_repository :: HostRepository where
  "chart_repository = \<lparr>hr_Name = ''charts'', hr_WorkspaceID = zeros, hr_HostIdentity = zeros, hr_Format = ''helm'', hr_CommitPaths = [''index.yaml''],
     hr_Type = ''s3'', hr_Visibility = ''public'', hr_WorkspaceRoot = [], hr_Path = [], hr_Target = [], hr_Bucket = ''b'', hr_Prefix = ''charts'',
     hr_Region = [], hr_Endpoint = [], hr_CanonicalEndpoint = ''https://c'', hr_UsePathStyle = False, hr_ReadAuth = [], hr_CredentialBroker = [],
     hr_RemoteRepository = [], hr_Branch = [], hr_PreviewRepository = [], hr_PreviewBranch = [], hr_PreviewEndpoint = []\<rparr>"

definition chart_staged :: StagedPublication where
  "chart_staged = \<lparr>sp_ID = replicate 64 CHR ''1'', sp_PlanID = zeros, sp_ChangeID = ''c:000000000000'', sp_PreviousRevision = [],
     sp_PreviewEndpoint = [], sp_TreeSHA256 = zeros, sp_Files = chart_files, sp_CommitPaths = [''index.yaml''],
     sp_Access = \<lparr>ca_Endpoint = [], ca_Routes = [], ca_PropagationTimeout = 0, ca_Credential = None\<rparr>\<rparr>"

definition chart_info :: "int \<Rightarrow> ObjectInfo" where
  "chart_info bytes = \<lparr>oi_ETag = ''e'', oi_Size = bytes, oi_SHA256 = zeros, oi_Metadata = [(''sha256'', zeros)]\<rparr>"

definition chart_store :: memory where
  "chart_store = [(stageDescriptorKey chart_repository (sp_ID chart_staged), (''p'', chart_info 1)),
     (stageKey chart_repository (sp_ID chart_staged) ''index.yaml'', (''x'', chart_info 1)),
     (stageKey chart_repository (sp_ID chart_staged) ManifestFilename, (''m'' @ [CHR 0x0A], chart_info 2))]"

definition chart_expected :: ExpectedRevision where
  "chart_expected = expectedRevisionFromPublished no_revision"

definition chart_commit :: "memory s3_state \<times> (s3_failure + CommitResult)" where
  "chart_commit = s3_Commit chart_lib memory_env chart_repository chart_staged chart_expected \<lparr>s3_world = chart_store, s3_log = []\<rparr>"

definition writes_root :: "s3_event \<Rightarrow> bool" where
  "writes_root e = (case e of PutCall request _ \<Rightarrow> put_Key request = ''charts/index.yaml'' | _ \<Rightarrow> False)"

definition chart_observation :: "memory \<Rightarrow> memory s3_state \<times> (s3_failure + PublishedRevision)" where
  "chart_observation w = s3_Observe chart_lib memory_env chart_repository \<lparr>s3_world = w, s3_log = []\<rparr>"

text \<open>
  Whether a commit wrote the root, whether the root is still absent, whether an observation then sees
  the tree and whether its release can be loaded; of the commit's result, so that it is computed once.
\<close>

fun root_seen :: "memory s3_state \<times> (s3_failure + CommitResult) \<Rightarrow> bool \<times> bool \<times> bool \<times> bool" where
  "root_seen (s, r) = (list_ex writes_root (s3_log s), map_of (s3_world s) ''charts/index.yaml'' = None,
     case snd (chart_observation (s3_world s)) of Inl _ \<Rightarrow> False | Inr published \<Rightarrow> pub_TreeSHA256 published = zeros,
     snd (loadRelease chart_lib memory_env chart_repository zeros \<lparr>s3_world = s3_world s, s3_log = []\<rparr>) =
       Inr (releaseDescriptorFromPublication chart_publication, zeros))"

lemma chart_writes_root: "root_seen chart_commit = (True, False, True, True)"
  by code_simp

lemma chart_committed:
  "list_ex writes_root (s3_log (fst chart_commit))" "map_of (s3_world (fst chart_commit)) ''charts/index.yaml'' \<noteq> None"
  "\<exists>published. snd (chart_observation (s3_world (fst chart_commit))) = Inr published \<and> pub_TreeSHA256 published = zeros"
  "snd (loadRelease chart_lib memory_env chart_repository zeros \<lparr>s3_world = s3_world (fst chart_commit), s3_log = []\<rparr>) =
       Inr (releaseDescriptorFromPublication chart_publication, zeros)"
proof -
  have "root_seen (fst chart_commit, snd chart_commit) = (True, False, True, True)" using chart_writes_root by simp
  then have seen: "list_ex writes_root (s3_log (fst chart_commit))" "(map_of (s3_world (fst chart_commit)) ''charts/index.yaml'' = None) = False"
    "case snd (chart_observation (s3_world (fst chart_commit))) of Inl _ \<Rightarrow> False | Inr published \<Rightarrow> pub_TreeSHA256 published = zeros"
    "snd (loadRelease chart_lib memory_env chart_repository zeros \<lparr>s3_world = s3_world (fst chart_commit), s3_log = []\<rparr>) =
       Inr (releaseDescriptorFromPublication chart_publication, zeros)"
    unfolding root_seen.simps prod.inject by blast+
  then show "list_ex writes_root (s3_log (fst chart_commit))" "map_of (s3_world (fst chart_commit)) ''charts/index.yaml'' \<noteq> None"
    "\<exists>published. snd (chart_observation (s3_world (fst chart_commit))) = Inr published \<and> pub_TreeSHA256 published = zeros"
    "snd (loadRelease chart_lib memory_env chart_repository zeros \<lparr>s3_world = s3_world (fst chart_commit), s3_log = []\<rparr>) =
       Inr (releaseDescriptorFromPublication chart_publication, zeros)"
    by (auto split: sum.splits)
qed

lemma chart_hex: "hex_sources chart_lib memory_env"
proof -
  have "ValidSHA256 zeros" "validIdentifier (replicate 64 CHR ''1'')" by code_simp+
  then show ?thesis by (simp add: hex_sources_def chart_lib_def memory_env_def)
qed

lemma chart_keys:
  "good_prefix chart_repository" "hr_CommitPaths chart_repository = [''index.yaml'']" "outer_root ''index.yaml''" "ValidSHA256 zeros"
  "objectKey chart_repository ''index.yaml'' = ''charts/index.yaml''" "\<not> rebinds memory_env" "''index.yaml'' \<noteq> listing_Filename"
  "list_all (\<lambda>f. hf_Path f \<noteq> ''..'') (sp_Files chart_staged)"
  by code_simp+

end
