(* ===== verification/S3_Safety.thy ===== *)
theory S3_Safety
  imports S3_Memory
begin

section \<open>The object-store host: safety\<close>

text \<open>
  What follows from the writes of the adapter: a published object never changes, whatever operations come
  later, and the root changes only from the state the caller expected. The store of the witnesses keeps
  its objects in a function and does what the conditions say.
\<close>

subsection \<open>Sequences of operations\<close>

datatype s3_operation = DoObserve | DoReadAccess PublishedRevision | DoStage StageRequest | DoCommit StagedPublication ExpectedRevision
  | DoRestore RestoreRef ExpectedRevision | DoAbort StagedPublication

fun s3_operate :: "s3_lib \<Rightarrow> 'w s3_env \<Rightarrow> HostRepository \<Rightarrow> s3_operation \<Rightarrow> 'w \<Rightarrow> 'w" where
  "s3_operate lib env repository DoObserve w = fst (host_Observe (s3_host lib env) repository w)"
| "s3_operate lib env repository (DoReadAccess published) w = fst (host_ReadAccess (s3_host lib env) repository published w)"
| "s3_operate lib env repository (DoStage request) w = fst (host_Stage (s3_host lib env) repository request w)"
| "s3_operate lib env repository (DoCommit staged expected) w = fst (host_Commit (s3_host lib env) repository staged expected w)"
| "s3_operate lib env repository (DoRestore reference expected) w = fst (host_Restore (s3_host lib env) repository reference expected w)"
| "s3_operate lib env repository (DoAbort staged) w = fst (host_Abort (s3_host lib env) repository staged w)"

lemma obeys_run:
  assumes "obeys objects W m"
  shows "\<exists>es. store_trace W (objects w) es (objects (fst (s3_run m w)))"
  using assms unfolding obeys_def s3_run_def by (auto simp: case_prod_beta) (metis s3_state.select_convs(1))

text \<open>Writes that either only create or go to an object that is not published.\<close>

definition create_only :: "HostRepository \<Rightarrow> gostring \<Rightarrow> discipline" where
  "create_only repository rootPath key conditions \<longleftrightarrow> cond_IfNoneMatch conditions \<or> rewritable repository rootPath key"

lemma operate_create_only:
  assumes "honest_store objects env" and "hex_sources lib env" and "hr_CommitPaths repository = [rootPath]"
  shows "\<exists>es. store_trace (create_only repository rootPath) (objects w) es (objects (s3_operate lib env repository operation w))"
proof -
  have root: "singleRootPath repository = Inr rootPath" using assms(3) by (simp add: singleRootPath_def)
  let ?W = "create_only repository rootPath"
  have W: "?W key if_none_match" "?W (objectKey repository rootPath) c" "?W (browsablePageKey repository) c" "?W (commitLockKey repository) c"
    "in_stages repository key \<Longrightarrow> ?W key c" for key c
    by (simp_all add: create_only_def rewritable_def if_none_match_def)
  note pieces = obeys_Observe [OF assms(1), of ?W] obeys_ReadAccess [OF assms(1), of ?W] obeys_Stage [OF assms(1,2), of _ ?W, OF W(5)]
    obeys_Commit [OF assms(1) root, of ?W, OF W(2,3,4,1)] obeys_Restore [OF assms(1) root, of ?W, OF W(2,4)] obeys_Abort [OF assms(1,2), of _ ?W, OF W(5)]
  show ?thesis by (cases operation) (simp_all add: s3_host_def pieces obeys_run)
qed

lemma operations_create_only:
  assumes "honest_store objects env" and "hex_sources lib env" and "hr_CommitPaths repository = [rootPath]"
  shows "\<exists>es. store_trace (create_only repository rootPath) (objects w) es (objects (fold (s3_operate lib env repository) operations w))"
proof (induction operations arbitrary: w)
  case (Cons operation operations)
  then show ?case using operate_create_only [OF assms] trace_append by simp blast
qed (auto intro: trace_Nil)

lemma published_not_rewritable:
  assumes "good_prefix r" and "outer_root rootPath" and "ValidSHA256 tree" and "outer_root name"
  shows "\<not> rewritable r rootPath (publishedFileKey rebinding r tree rootPath name)"
proof (cases "rebinding \<or> name = rootPath \<or> snailmailOwned name")
  case True
  then show ?thesis using release_not_rewritable(1) [OF assms(1-3)] assms(4) by (simp add: publishedFileKey_def outer_root_def)
next
  case False
  have name: "plain_name name" "hd (path_elements name) \<noteq> ''.snailmail''" using assms(4) by (simp_all add: outer_root_def)
  have "path_elements name \<noteq> [''index.html'']" "path_elements name \<noteq> path_elements rootPath"
    using False name(1) assms(2) unfolding plain_name_def outer_root_def snailmailOwned_def listing_Filename_def
    by (metis join_with.simps(2))+
  moreover have "take 2 (path_elements name) \<noteq> [''.snailmail'', ''stages'']" "path_elements name \<noteq> [''.snailmail'', ''commit.lock'']"
    using name(2) by (cases "path_elements name"; auto)+
  ultimately show ?thesis using False not_rewritable [OF assms(1,2) at_objectKey [OF assms(1) name(1)]]
    by (simp add: publishedFileKey_def)
qed

text \<open>No object but the root is at the root's key.\<close>

lemma root_apart:
  assumes "good_prefix r" and "outer_root rootPath" and "at r es key" and "es \<noteq> path_elements rootPath"
  shows "key \<noteq> objectKey r rootPath"
  using at_unique [OF assms(3)] at_objectKey [OF assms(1)] assms(2,4) by (auto simp: outer_root_def)

lemma created_apart:
  assumes "good_prefix r" and "outer_root rootPath" and "validIdentifier (sp_ID staged)"
    and "list_all s3_validateFile (sp_Files staged)" and "ValidSHA256 (sp_TreeSHA256 staged)"
    and "list_all (\<lambda>f. hf_Path f \<noteq> ''..'') (sp_Files staged)" and "key \<in> commit_creates rebinding r rootPath staged"
  shows "key \<noteq> objectKey r rootPath"
proof -
  note apart = root_apart [OF assms(1,2)]
  have inner: "\<And>es. ''.snailmail'' # es \<noteq> path_elements rootPath" using assms(2) unfolding outer_root_def by (metis list.sel(1))
  have valid: "plain_name (hf_Path f)" "ValidSHA256 (hf_SHA256 f)" if "f \<in> set (sp_Files staged)" for f
  proof -
    have f: "s3_validateFile f" "hf_Path f \<noteq> ''..''" using that assms(4,6) by (auto simp: list_all_iff)
    show "plain_name (hf_Path f)" using validFile_name [OF f(1)] f(2) by blast
    show "ValidSHA256 (hf_SHA256 f)" using f(1) by (simp add: s3_validateFile_def Let_def)
  qed
  have elements: "path_elements p \<noteq> path_elements rootPath" if "plain_name p" "p \<noteq> rootPath" for p
    using that assms(2) unfolding plain_name_def outer_root_def by metis
  consider f where "f \<in> set (sp_Files staged)" "key = publishedFileKey rebinding r (sp_TreeSHA256 staged) rootPath (hf_Path f)"
    | f where "f \<in> set (sp_Files staged)" "key = publicationManifestKey r (hf_SHA256 f)"
    | "key \<in> {releaseDescriptorKey r (sp_TreeSHA256 staged), restoreDescriptorKey r (sp_ID staged), restoreRootKey r (sp_ID staged)}"
    using assms(7) unfolding commit_creates_def by blast
  then show ?thesis
  proof cases
    case (1 f)
    note release = apart [OF at_releaseKey [OF assms(1,5) valid(1) [OF 1(1)]]] and canonical = apart [OF at_objectKey [OF assms(1) valid(1) [OF 1(1)]]]
    show ?thesis using 1(2) release canonical elements [OF valid(1) [OF 1(1)]] inner by (auto simp: publishedFileKey_def)
  next
    case (2 f)
    then show ?thesis using apart [OF at_fixed_keys(6) [OF assms(1) valid(2)]] inner by auto
  next
    case 3
    note fixed = at_fixed_keys(5) [OF assms(1,5)] at_fixed_keys(7,8) [OF assms(1,3)]
    show ?thesis using 3 apart [OF fixed(1)] apart [OF fixed(2)] apart [OF fixed(3)] inner by auto
  qed
qed

definition root_guarded :: "HostRepository \<Rightarrow> gostring \<Rightarrow> Conditions \<Rightarrow> discipline" where
  "root_guarded repository rootPath conditions key c \<longleftrightarrow> (key = objectKey repository rootPath \<longrightarrow> c = conditions)"

lemma lock_apart: "good_prefix r \<Longrightarrow> outer_root rootPath \<Longrightarrow> commitLockKey r \<noteq> objectKey r rootPath"
  by (rule root_apart [OF _ _ at_fixed_keys(1)]) (auto simp: outer_root_def dest: sym)

text \<open>
  An object of a release (a file, the release descriptor or a publication manifest) that is in the store keeps its
  bytes, its entity tag and its metadata, whatever observations, stages, commits, restores and aborts come later.
\<close>

lemma release_object_kept:
  assumes "honest_store objects env" and "hex_sources lib env"
    and "good_prefix repository" and "hr_CommitPaths repository = [rootPath]" and "outer_root rootPath"
    and "ValidSHA256 tree" and "outer_root name"
    and "key \<in> {publishedFileKey (rebinds env) repository tree rootPath name, releaseDescriptorKey repository tree,
           publicationManifestKey repository tree}"
    and "objects w key = Some object"
  shows "objects (fold (s3_operate lib env repository) operations w) key = Some object"
proof -
  obtain es where trace: "store_trace (create_only repository rootPath) (objects w) es (objects (fold (s3_operate lib env repository) operations w))"
    using operations_create_only [OF assms(1,2,4)] by blast
  have "\<not> rewritable repository rootPath key"
    using assms(8) published_not_rewritable [OF assms(3,5,6,7)] release_not_rewritable(2,3) [OF assms(3,5,6)] by auto
  then show ?thesis using assms(9) by (intro trace_keeps [OF trace]) (simp_all add: create_only_def)
qed

subsection \<open>Properties\<close>

text \<open>
  C7: a commit moves the root only from the state it was told to expect: if the root object is not the same
  afterwards, then before the commit it carried the expected entity tag, or was absent when none was
  expected. This holds also when the commit fails or its answer is lost.
\<close>

theorem commit_moves_only_the_expected_root:
  assumes "honest_store objects env" and "good_prefix repository" and "hr_CommitPaths repository = [rootPath]"
    and "outer_root rootPath" and "rootPath \<noteq> listing_Filename" and "list_all (\<lambda>f. hf_Path f \<noteq> ''..'') (sp_Files staged)"
    and "host_Commit (s3_host lib env) repository staged expected w = (w', result)"
    and "objects w' (objectKey repository rootPath) \<noteq> objects w (objectKey repository rootPath)"
  shows "permits (switch_conditions expected) (objects w (objectKey repository rootPath))"
proof -
  let ?W = "root_guarded repository rootPath (switch_conditions expected)"
  have root: "singleRootPath repository = Inr rootPath" using assms(3) by (simp add: singleRootPath_def)
  have "browsablePageKey repository \<noteq> objectKey repository rootPath"
    using assms(4,5) by (intro root_apart [OF assms(2,4) at_fixed_keys(2) [OF assms(2)]])
      (metis join_with.simps(2) listing_Filename_def outer_root_def plain_name_def)
  then have W: "?W (objectKey repository rootPath) (switch_conditions expected)" "?W (browsablePageKey repository) no_conditions"
    "?W (commitLockKey repository) c" for c
    using lock_apart [OF assms(2,4)] by (simp_all add: root_guarded_def)
  have "obeys objects ?W (s3_Commit lib env repository staged expected)"
    by (rule obeys_Commit [OF assms(1) root W])
      (use created_apart [OF assms(2,4) _ _ _ assms(6)] in \<open>simp add: root_guarded_def\<close>)
  from obeys_run [OF this, of w] obtain es where "store_trace ?W (objects w) es (objects w')"
    using assms(7) by (auto simp: s3_host_def)
  then show ?thesis using trace_conditional assms(8) unfolding root_guarded_def by blast
qed

theorem commit_moves_only_the_expected_root_witness:
  "permits (switch_conditions chart_expected) (map_of chart_store (objectKey chart_repository ''index.yaml''))"
proof (rule commit_moves_only_the_expected_root [OF memory_honest chart_keys(1-3,7,8)])
  show "host_Commit (s3_host chart_lib memory_env) chart_repository chart_staged chart_expected chart_store =
      (s3_world (fst chart_commit), map_sum s3_public id (snd chart_commit))"
    by (simp add: s3_host_def s3_run_def chart_commit_def case_prod_beta)
  have "map_of chart_store ''charts/index.yaml'' = None" by code_simp
  then show "map_of (s3_world (fst chart_commit)) (objectKey chart_repository ''index.yaml'') \<noteq> map_of chart_store (objectKey chart_repository ''index.yaml'')"
    using chart_committed(2) by (simp add: chart_keys)
qed

end
