(* ===== verification/S3_Order.thy ===== *)
theory S3_Order
  imports S3_Safety
begin

section \<open>The object-store host: the switch comes last\<close>

text \<open>
  A commit writes the root only when the store has confirmed everything the new root leads to: every file
  of the release, the release descriptor, the publication manifest and the description of how to go back.
  The order is read off the log of the commit's calls, so it needs no assumption on the store.
\<close>

subsection \<open>What a log confirms\<close>

definition placed :: "s3_event list \<Rightarrow> gostring \<Rightarrow> HostFile \<Rightarrow> bool" where
  "placed log key file = list_ex (\<lambda>e. case e of CopyCall _ k (Inr info) \<Rightarrow> k = key \<and> stored_as info file
     | HeadCall k (Inr info) \<Rightarrow> k = key \<and> stored_as info file | _ \<Rightarrow> False) log"

definition kept :: "s3_event list \<Rightarrow> gostring \<Rightarrow> (gostring \<Rightarrow> bool) \<Rightarrow> bool" where
  "kept log key is_content = list_ex (\<lambda>e. case e of PutCall request (Inr _) \<Rightarrow> put_Key request = key \<and> is_content (put_Body request)
     | GetCall k (Inr (body, _)) \<Rightarrow> k = key \<and> is_content body | _ \<Rightarrow> False) log"

definition staged_release :: "StagedPublication \<Rightarrow> releaseDescriptor" where
  "staged_release staged = \<lparr>rd_TreeSHA256 = sp_TreeSHA256 staged,
     rd_Files = filter (\<lambda>f. hf_Path f \<noteq> ManifestFilename) (sp_Files staged), rd_CommitPaths = sp_CommitPaths staged\<rparr>"

definition release_in_place :: "s3_lib \<Rightarrow> bool \<Rightarrow> HostRepository \<Rightarrow> gostring \<Rightarrow> StagedPublication \<Rightarrow> s3_event list \<Rightarrow> bool" where
  "release_in_place lib rebinding repository rootPath staged log \<longleftrightarrow>
     list_all (\<lambda>f. placed log (publishedFileKey rebinding repository (sp_TreeSHA256 staged) rootPath (hf_Path f)) f) (rd_Files (staged_release staged)) \<and>
     kept log (releaseDescriptorKey repository (sp_TreeSHA256 staged)) (\<lambda>body. body = json_Marshal (s3_release lib) (staged_release staged))"

definition manifest_in_place :: "HostRepository \<Rightarrow> StagedPublication \<Rightarrow> s3_event list \<Rightarrow> bool" where
  "manifest_in_place repository staged log \<longleftrightarrow>
     list_ex (\<lambda>f. hf_Path f = ManifestFilename \<and> placed log (publicationManifestKey repository (hf_SHA256 f)) f) (sp_Files staged)"

definition way_back_in_place :: "HostRepository \<Rightarrow> StagedPublication \<Rightarrow> s3_event list \<Rightarrow> bool" where
  "way_back_in_place repository staged log \<longleftrightarrow> kept log (restoreDescriptorKey repository (sp_ID staged)) (\<lambda>_. True)"

lemma placed_append [simp]: "placed log key file \<Longrightarrow> placed (log @ es) key file"
  and kept_append [simp]: "kept log key P \<Longrightarrow> kept (log @ es) key P"
  by (auto simp: placed_def kept_def)

definition in_place :: "s3_lib \<Rightarrow> bool \<Rightarrow> HostRepository \<Rightarrow> gostring \<Rightarrow> StagedPublication \<Rightarrow> s3_event list \<Rightarrow> bool" where
  "in_place lib rebinding repository rootPath staged log \<longleftrightarrow> release_in_place lib rebinding repository rootPath staged log \<and>
     manifest_in_place repository staged log \<and> way_back_in_place repository staged log"

lemma in_place_append:
  "release_in_place lib b repository rootPath staged log \<Longrightarrow> release_in_place lib b repository rootPath staged (log @ es)"
  "manifest_in_place repository staged log \<Longrightarrow> manifest_in_place repository staged (log @ es)"
  "way_back_in_place repository staged log \<Longrightarrow> way_back_in_place repository staged (log @ es)"
  by (auto simp: release_in_place_def manifest_in_place_def way_back_in_place_def list_all_iff list_ex_iff)

subsection \<open>Logs of code\<close>

text \<open>Every store keeps the promise about no objects at all, so the log part of a discipline holds of any.\<close>

abbreviation logs :: "discipline \<Rightarrow> ('w, 'a) s3 \<Rightarrow> bool" where
  "logs W m \<equiv> obeys (\<lambda>_ _. None) W m"

lemma any_store: "honest_store (\<lambda>_ _. None) env"
  by (simp add: honest_store_def case_prod_beta)

definition extends :: "discipline \<Rightarrow> 'w s3_state \<Rightarrow> 'w s3_state \<Rightarrow> bool" where
  "extends W s s' \<longleftrightarrow> (\<exists>es. s3_log s' = s3_log s @ es \<and> list_all (allowed W) es)"

lemma logs_extends: "logs W m \<Longrightarrow> extends W s (fst (m s))"
  using trace_allowed unfolding obeys_def extends_def by metis

text \<open>What a piece of code leaves, with what its log can hold and what it can return.\<close>

lemma runs_with:
  assumes "runs m s Q (\<lambda>_. True)" and "logs W m"
    and "\<And>a s'. Q a s' \<Longrightarrow> extends W s s' \<Longrightarrow> returns m a \<Longrightarrow> R a s'" and "\<And>s'. extends W s s' \<Longrightarrow> E s'"
  shows "runs m s R E"
proof -
  obtain s' r where m: "m s = (s', r)" by fastforce
  have "extends W s s'" using logs_extends [OF assms(2), of s] m by simp
  then show ?thesis using assms(1,3,4) m by (cases r) (auto simp: runs_def returns_def)
qed

lemma runs_logs:
  assumes "logs W m" and "\<And>a s'. extends W s s' \<Longrightarrow> returns m a \<Longrightarrow> Q a s'" and "\<And>s'. extends W s s' \<Longrightarrow> E s'"
  shows "runs m s Q E"
  by (rule runs_with [where Q = "\<lambda>_ _. True", OF _ assms(1)]) (use assms(2,3) in \<open>auto simp: runs_def split: prod.split sum.split\<close>)

lemma runs_s3_call [simp]: "runs (s3_call operation ev) s Q E \<longleftrightarrow>
    (case operation (s3_world s) of (w, r) \<Rightarrow> Q r \<lparr>s3_world = w, s3_log = s3_log s @ [ev r]\<rparr>)"
  by (simp add: runs_def s3_call_def split: prod.split)

lemma runs_onError [simp]: "runs (onError m cleanup) s Q E \<longleftrightarrow> runs m s Q (\<lambda>s'. runs cleanup s' (\<lambda>_. E) E)"
  by (auto simp: runs_def onError_def split: prod.split sum.split)

subsection \<open>The pieces of a commit\<close>

lemma copy_create_places:
  "runs (copy_create env source destination file a b c d) s (\<lambda>_ s'. placed (s3_log s') destination file) (\<lambda>_. True)"
  unfolding copy_create_def s3_Copy_def s3_Head_def
  by (auto simp: placed_def split: prod.split sum.split object_error.split)

lemma put_once_keeps:
  "P (put_Body request) \<Longrightarrow> runs (put_once env request reading b c) s (\<lambda>_ s'. kept (s3_log s') (put_Key request) P) (\<lambda>_. True)"
  unfolding put_once_def s3_Put_def s3_Get_def
  by (auto simp: kept_def split: prod.split sum.split object_error.split)

lemma materializeRelease_places:
  assumes "singleRootPath repository = Inr rootPath" and "staged_release staged = releaseDescriptorFromPublication descriptor"
    and "sp_TreeSHA256 staged = pd_TreeSHA256 descriptor"
  shows "runs (materializeRelease lib env repository i descriptor) s
    (\<lambda>_ s'. release_in_place lib (rebinds env) repository rootPath staged (s3_log s')) (\<lambda>_. True)"
proof -
  let ?release = "releaseDescriptorFromPublication descriptor"
  let ?key = "\<lambda>f. publishedFileKey (rebinds env) repository (rd_TreeSHA256 ?release) rootPath (hf_Path f)"
  let ?copy = "\<lambda>file. copy_create env (stageKey repository i (hf_Path file)) (?key file) file ''reconcile S3 release object''
    ''materialize S3 release'' ''materialize S3 release object'' ''verify S3 release object''"
  have tree: "rd_TreeSHA256 ?release = sp_TreeSHA256 staged" using assms(3) by (simp add: releaseDescriptorFromPublication_def)
  have copied: "runs (each ?copy (rd_Files ?release)) s (\<lambda>_ s'. list_all (\<lambda>f. placed (s3_log s') (?key f) f) (rd_Files ?release)) (\<lambda>_. True)" for s
  proof (rule runs_each_done [where I = "\<lambda>done s'. list_all (\<lambda>f. placed (s3_log s') (?key f) f) done"])
    fix "done" x rest and s :: "'a s3_state" assume "list_all (\<lambda>f. placed (s3_log s) (?key f) f) done"
    moreover have "logs (\<lambda>_ _. True) (?copy x)" by (intro obeys_create any_store) simp
    ultimately show "runs (?copy x) s (\<lambda>_ s'. list_all (\<lambda>f. placed (s3_log s') (?key f) f) (done @ [x])) (\<lambda>_. True)"
      by (intro runs_with [OF copy_create_places]) (auto simp: extends_def list_all_iff)
  qed simp
  have written: "runs (put_once env (put_json lib (releaseDescriptorKey repository (rd_TreeSHA256 ?release)) (json_Marshal (s3_release lib) ?release) if_none_match)
       (infrastructure ''read S3 release descriptor'') ''materialize S3 release'' ''write S3 release descriptor'') s'
     (\<lambda>_ s'. release_in_place lib (rebinds env) repository rootPath staged (s3_log s')) (\<lambda>_. True)"
    if "list_all (\<lambda>f. placed (s3_log s') (?key f) f) (rd_Files ?release)" for s'
  proof (rule runs_with [OF put_once_keeps [where P = "\<lambda>body. body = json_Marshal (s3_release lib) ?release"]])
    show "logs (\<lambda>_ _. True) (put_once env (put_json lib (releaseDescriptorKey repository (rd_TreeSHA256 ?release)) (json_Marshal (s3_release lib) ?release) if_none_match)
       (infrastructure ''read S3 release descriptor'') ''materialize S3 release'' ''write S3 release descriptor'')"
      by (intro obeys_create any_store) simp_all
  qed (use that tree assms(2) in \<open>auto simp: release_in_place_def extends_def list_all_iff put_json_def\<close>)
  show ?thesis unfolding materializeRelease_def using assms(1) written
    by (auto simp: s3_lift_def Let_def intro!: runs_conseq [OF copied] runs_conseq [OF written])
qed

lemma materializeManifest_places:
  assumes "sp_Files staged = pd_Files descriptor"
  shows "runs (materializePublicationManifest lib env repository i descriptor) s (\<lambda>_ s'. manifest_in_place repository staged (s3_log s')) (\<lambda>_. True)"
proof (cases "filter (\<lambda>f. hf_Path f = ManifestFilename) (pd_Files descriptor)")
  case Nil
  then show ?thesis by (simp add: materializePublicationManifest_def)
next
  case (Cons manifest rest)
  then have "manifest \<in> set (sp_Files staged)" "hf_Path manifest = ManifestFilename" using assms by (auto simp: filter_eq_Cons_iff)
  then have found: "manifest_in_place repository staged log" if "placed log (publicationManifestKey repository (hf_SHA256 manifest)) manifest" for log
    using that by (auto simp: manifest_in_place_def list_ex_iff)
  show ?thesis unfolding materializePublicationManifest_def using Cons
    by (auto intro!: runs_whatever [where m = "get_or_fail env k operation" for k operation] runs_conseq [OF copy_create_places] found)
qed

lemma prepareRestore_places:
  "runs (prepareRestore lib env repository (sp_ID staged) after before) s (\<lambda>_ s'. way_back_in_place repository staged (s3_log s')) (\<lambda>_. True)"
proof -
  have written: "runs (put_once env (put_json lib (restoreDescriptorKey repository (sp_ID staged)) content if_none_match) reading conflict writing) s'
      (\<lambda>_ s'. way_back_in_place repository staged (s3_log s')) (\<lambda>_. True)" for content reading conflict writing s'
    using put_once_keeps [of "\<lambda>_. True" "put_json lib (restoreDescriptorKey repository (sp_ID staged)) content if_none_match"]
    by (simp add: way_back_in_place_def)
  show ?thesis unfolding prepareRestore_def
    by (cases "singleRootPath repository") (auto simp: s3_lift_def Let_def intro!: runs_whatever [where m = "retain_root lib env repository p i before" for p i] runs_conseq [OF written] split: prod.split)
qed

subsection \<open>Writes of the root\<close>

definition root_writes_follow :: "gostring \<Rightarrow> (s3_event list \<Rightarrow> bool) \<Rightarrow> s3_event list \<Rightarrow> bool" where
  "root_writes_follow root P log \<longleftrightarrow> (\<forall>before request answer after. log = before @ PutCall request answer # after \<longrightarrow> put_Key request = root \<longrightarrow> P before)"

lemma root_writes_elsewhere:
  assumes "root_writes_follow root P log" and "list_all (allowed (\<lambda>k _. k \<noteq> root)) es"
  shows "root_writes_follow root P (log @ es)"
  unfolding root_writes_follow_def
proof (intro allI impI)
  fix before request answer after
  assume split: "log @ es = before @ PutCall request answer # after" and root: "put_Key request = root"
  have "PutCall request answer \<notin> set es" using assms(2) root by (auto simp: list_all_iff allowed_def write_of_def)
  then obtain us where "log = before @ PutCall request answer # us"
    using split by (auto simp: append_eq_append_conv2 append_eq_Cons_conv)
  then show "P before" using assms(1) root by (auto simp: root_writes_follow_def)
qed

lemma root_writes_after:
  assumes "root_writes_follow root P log" and "P log" and "\<And>xs ys. P xs \<Longrightarrow> P (xs @ ys)"
  shows "root_writes_follow root P (log @ es)"
  unfolding root_writes_follow_def
proof (intro allI impI)
  fix before request answer after
  assume split: "log @ es = before @ PutCall request answer # after" and root: "put_Key request = root"
  then consider us where "log = before @ PutCall request answer # us" | us where "before = log @ us"
    by (auto simp: append_eq_append_conv2 append_eq_Cons_conv)
  then show "P before" using assms root by cases (auto simp: root_writes_follow_def)
qed

lemma in_place_mono: "in_place lib b repository rootPath staged log \<Longrightarrow> in_place lib b repository rootPath staged (log @ es)"
  by (simp add: in_place_def in_place_append)

abbreviation switch_last :: "s3_lib \<Rightarrow> bool \<Rightarrow> HostRepository \<Rightarrow> gostring \<Rightarrow> StagedPublication \<Rightarrow> 'w s3_state \<Rightarrow> bool" where
  "switch_last lib rebinding repository rootPath staged s \<equiv>
     root_writes_follow (objectKey repository rootPath) (in_place lib rebinding repository rootPath staged) (s3_log s)"

text \<open>A commit in its two parts: what puts the release in place, and whatever comes after it.\<close>

lemma release_then:
  assumes root: "singleRootPath repository = Inr rootPath"
    and same: "sp_TreeSHA256 staged = pd_TreeSHA256 descriptor" "sp_Files staged = pd_Files descriptor" "sp_CommitPaths staged = pd_CommitPaths descriptor"
    and apart: "\<And>k. k \<in> commit_creates (rebinds env) repository rootPath staged \<Longrightarrow> k \<noteq> objectKey repository rootPath"
    and start: "switch_last lib (rebinds env) repository rootPath staged s"
    and rest: "\<And>a b c. logs (\<lambda>_ _. True) (f a b c)"
  shows "runs (andThen (materializeRelease lib env repository (sp_ID staged) descriptor) (\<lambda>a.
      andThen (materializePublicationManifest lib env repository (sp_ID staged) descriptor) (\<lambda>b.
      andThen (prepareRestore lib env repository (sp_ID staged) descriptor observed) (\<lambda>c. f a b c)))) s
    (\<lambda>_. switch_last lib (rebinds env) repository rootPath staged) (switch_last lib (rebinds env) repository rootPath staged)"
proof -
  let ?R = "switch_last lib (rebinds env) repository rootPath staged"
  let ?W = "\<lambda>k (_ :: Conditions). k \<noteq> objectKey repository rootPath"
  let ?A = "\<lambda>s. release_in_place lib (rebinds env) repository rootPath staged (s3_log s)"
  let ?B = "\<lambda>s. manifest_in_place repository staged (s3_log s)"
  have created: "?W (publishedFileKey (rebinds env) repository (pd_TreeSHA256 descriptor) rootPath (hf_Path f)) c"
    "?W (publicationManifestKey repository (hf_SHA256 f)) c" if "f \<in> set (pd_Files descriptor)" for f c
    using that apart same by (auto simp: commit_creates_def)
  have fixed: "?W (releaseDescriptorKey repository (pd_TreeSHA256 descriptor)) c"
    "?W (restoreDescriptorKey repository (sp_ID staged)) c" "?W (restoreRootKey repository (sp_ID staged)) c" for c
    using apart same by (auto simp: commit_creates_def)
  have release: "logs ?W (materializeRelease lib env repository (sp_ID staged) descriptor)"
    unfolding materializeRelease_def releaseDescriptorFromPublication_def using root created fixed
    by (auto intro!: obeys_intro obeys_create any_store simp: Let_def returns_simps)
  have manifest: "logs ?W (materializePublicationManifest lib env repository (sp_ID staged) descriptor)"
    unfolding materializePublicationManifest_def using created
    by (auto intro!: obeys_intro obeys_create any_store split: list.split simp: filter_eq_Cons_iff)
  have restore: "logs ?W (prepareRestore lib env repository (sp_ID staged) descriptor observed)"
    by (intro obeys_prepareRestore any_store fixed)
  have elsewhere: "?R s \<Longrightarrow> extends ?W s s' \<Longrightarrow> ?R s'" for s s'
    using root_writes_elsewhere unfolding extends_def by metis
  have later: "?A s \<Longrightarrow> extends ?W s s' \<Longrightarrow> ?A s'" "?B s \<Longrightarrow> extends ?W s s' \<Longrightarrow> ?B s'" for s s'
    using in_place_append unfolding extends_def by metis+
  have after: "runs (f a b c) s (\<lambda>_. ?R) ?R" if "?R s" "in_place lib (rebinds env) repository rootPath staged (s3_log s)" for a b c s
    using that root_writes_after [where P = "in_place lib (rebinds env) repository rootPath staged", OF _ _ in_place_mono] by (intro runs_logs [OF rest]) (auto simp: extends_def)
  have "staged_release staged = releaseDescriptorFromPublication descriptor"
    using same by (simp add: staged_release_def releaseDescriptorFromPublication_def)
  note places = materializeRelease_places [OF root this same(1), of lib env "sp_ID staged"] materializeManifest_places [OF same(2)] prepareRestore_places
  have third: "runs (andThen (prepareRestore lib env repository (sp_ID staged) descriptor observed) (\<lambda>c. f a b c)) s (\<lambda>_. ?R) ?R"
    if "?R s" "?A s" "?B s" for a b s
    unfolding runs_andThen using that later elsewhere
    by (intro runs_with [OF places(3) restore] after) (auto simp: in_place_def)
  have second: "runs (andThen (materializePublicationManifest lib env repository (sp_ID staged) descriptor) (\<lambda>b.
      andThen (prepareRestore lib env repository (sp_ID staged) descriptor observed) (\<lambda>c. f a b c))) s (\<lambda>_. ?R) ?R" if "?R s" "?A s" for a s
    unfolding runs_andThen [of "materializePublicationManifest _ _ _ _ _"] using that later elsewhere
    by (intro runs_with [OF places(2) manifest] third) auto
  show ?thesis unfolding runs_andThen [of "materializeRelease _ _ _ _ _"] using start elsewhere
    by (intro runs_with [OF places(1) release] second) auto
qed

lemma commit_release_ordered:
  assumes "singleRootPath repository = Inr rootPath" "sp_TreeSHA256 staged = pd_TreeSHA256 descriptor" "sp_Files staged = pd_Files descriptor"
    "sp_CommitPaths staged = pd_CommitPaths descriptor"
    "\<And>k. k \<in> commit_creates (rebinds env) repository rootPath staged \<Longrightarrow> k \<noteq> objectKey repository rootPath"
    "switch_last lib (rebinds env) repository rootPath staged s"
  shows "runs (commit_release lib env repository rootPath staged descriptor observed expected) s
    (\<lambda>_. switch_last lib (rebinds env) repository rootPath staged) (switch_last lib (rebinds env) repository rootPath staged)"
  unfolding commit_release_def
  by (rule release_then [OF assms]) (auto intro!: obeys_intro obeys_switch_root any_store split: prod.split simp: Let_def)

lemma elsewhere_then:
  assumes "logs (\<lambda>k _. k \<noteq> objectKey repository rootPath) m" and "switch_last lib b repository rootPath staged s"
    and "\<And>a s'. returns m a \<Longrightarrow> switch_last lib b repository rootPath staged s' \<Longrightarrow> runs (f a) s' Q E"
    and "\<And>s'. switch_last lib b repository rootPath staged s' \<Longrightarrow> E s'"
  shows "runs (andThen m f) s Q E"
proof -
  have "switch_last lib b repository rootPath staged s'" if "extends (\<lambda>k _. k \<noteq> objectKey repository rootPath) s s'" for s'
    using that assms(2) root_writes_elsewhere unfolding extends_def by metis
  then show ?thesis unfolding runs_andThen using assms(3,4) by (intro runs_logs [OF assms(1)]) auto
qed

lemma Commit_ordered:
  assumes "good_prefix repository" and "outer_root rootPath" and root: "singleRootPath repository = Inr rootPath"
    and "list_all (\<lambda>f. hf_Path f \<noteq> ''..'') (sp_Files staged)" and "switch_last lib (rebinds env) repository rootPath staged s"
  shows "runs (s3_Commit lib env repository staged expected) s
    (\<lambda>_. switch_last lib (rebinds env) repository rootPath staged) (switch_last lib (rebinds env) repository rootPath staged)"
proof -
  let ?R = "switch_last lib (rebinds env) repository rootPath staged"
  let ?W = "\<lambda>k (_ :: Conditions). k \<noteq> objectKey repository rootPath"
  have lock: "logs ?W (acquireCommitLock lib env repository owner)" "logs ?W (release_lock env repository etag)" for owner etag
    using lock_apart [OF assms(1,2)] by (auto intro!: obeys_lock any_store)
  have released: "runs (release_lock env repository etag) s (\<lambda>_. ?R) ?R" if "?R s" for etag s
    using elsewhere_then [OF lock(2) that, where f = "\<lambda>_. ok ()" and Q = "\<lambda>_. ?R" and E = ?R] by simp
  note next_step = elsewhere_then [of repository rootPath _ lib "rebinds env" staged]
  have locked: "runs (commit_locked lib env repository rootPath staged descriptor digests expected) s (\<lambda>_. ?R) ?R"
    if "validIdentifier (sp_ID staged)" "list_all s3_validateFile (sp_Files staged)" "ValidSHA256 (sp_TreeSHA256 staged)"
      "sp_TreeSHA256 staged = pd_TreeSHA256 descriptor" "sp_Files staged = pd_Files descriptor" "sp_CommitPaths staged = pd_CommitPaths descriptor" "?R s"
    for descriptor digests s
    unfolding commit_locked_def using that(7)
    by (auto intro!: next_step commit_release_ordered root that(4-6) obeys_intro any_store
        dest: created_apart [OF assms(1,2) that(1-3) assms(4)] simp del: runs_andThen split: if_split)
  show ?thesis unfolding s3_Commit_def using root assms(5)
    by (auto intro!: next_step obeys_intro any_store lock locked runs_conseq [OF released] runs_conseq [OF locked]
        simp: returns_simps returns_loadStage simp del: runs_andThen)
qed

subsection \<open>What an observation has seen\<close>

lemma check_object_places:
  "runs (check_object env repository tree rootPath corrupt operation file) s
     (\<lambda>_ s'. placed (s3_log s') (publishedFileKey (rebinds env) repository tree rootPath (hf_Path file)) file) (\<lambda>_. True)"
  unfolding check_object_def s3_Head_def by (auto simp: placed_def split: prod.split sum.split object_error.split)

lemma each_check_places:
  "runs (each (check_object env repository tree rootPath corrupt operation) files) s
     (\<lambda>_ s'. list_all (\<lambda>f. placed (s3_log s') (publishedFileKey (rebinds env) repository tree rootPath (hf_Path f)) f) files) (\<lambda>_. True)"
proof (rule runs_each_done [where I = "\<lambda>done s'. list_all (\<lambda>f. placed (s3_log s') (publishedFileKey (rebinds env) repository tree rootPath (hf_Path f)) f) done"])
  fix "done" x rest and s :: "'a s3_state"
  assume "list_all (\<lambda>f. placed (s3_log s) (publishedFileKey (rebinds env) repository tree rootPath (hf_Path f)) f) done"
  moreover have "logs (\<lambda>_ _. True) (check_object env repository tree rootPath corrupt operation x)" by (intro obeys_intro any_store)
  ultimately show "runs (check_object env repository tree rootPath corrupt operation x) s
      (\<lambda>_ s'. list_all (\<lambda>f. placed (s3_log s') (publishedFileKey (rebinds env) repository tree rootPath (hf_Path f)) f) (done @ [x])) (\<lambda>_. True)"
    by (intro runs_with [OF check_object_places]) (auto simp: extends_def list_all_iff)
qed simp

lemma returns_release:
  assumes "returns (observe_release lib env repository published) descriptor"
  shows "rd_TreeSHA256 descriptor = pub_TreeSHA256 published"
    and "TreeDigest (s3_digestBytes lib) (tree_files (rd_Files descriptor)) = pub_TreeSHA256 published"
proof -
  have "returns (as_missing operation m) a \<Longrightarrow> returns m a" for operation a and m :: "('x, 'y) s3"
    unfolding as_missing_def by (auto dest!: returns_andThen simp: returns_simps split: sum.splits dest: returns_wrapped(3))
  then show "rd_TreeSHA256 descriptor = pub_TreeSHA256 published"
    "TreeDigest (s3_digestBytes lib) (tree_files (rd_Files descriptor)) = pub_TreeSHA256 published"
    using assms unfolding observe_release_def loadRelease_def decodeRelease_def Let_def
    by (fastforce dest!: returns_andThen simp: returns_simps)+
qed

lemma observe_root_sees:
  "runs (observe_root lib env repository rootPath root) s (\<lambda>published s'. pub_TreeSHA256 published \<noteq> [] \<longrightarrow>
     (\<exists>files. TreeDigest (s3_digestBytes lib) (tree_files files) = pub_TreeSHA256 published \<and>
        list_all (\<lambda>f. placed (s3_log s') (publishedFileKey (rebinds env) repository (pub_TreeSHA256 published) rootPath (hf_Path f)) f) files)) (\<lambda>_. True)"
proof -
  let ?published = "revision_of_root root"
  let ?seen = "\<lambda>files s'. list_all (\<lambda>f. placed (s3_log s') (publishedFileKey (rebinds env) repository (pub_TreeSHA256 ?published) rootPath (hf_Path f)) f) files"
  have canonical: "runs (observe_canonical lib env repository rootPath root ?published) s (\<lambda>published s'.
      (published = ?published \<or> pub_TreeSHA256 published = []) \<and> ?seen files s') (\<lambda>_. True)" if "?seen files s" for files s
  proof (rule runs_logs [where W = "\<lambda>_ _. True"])
    show "logs (\<lambda>_ _. True) (observe_canonical lib env repository rootPath root ?published)" by (intro obeys_intro any_store)
    show "(a = ?published \<or> pub_TreeSHA256 a = []) \<and> ?seen files s'"
      if "extends (\<lambda>_ _. True) s s'" "returns (observe_canonical lib env repository rootPath root ?published) a" for a s'
      using that \<open>?seen files s\<close> unfolding observe_canonical_def
      by (auto dest!: returns_andThen simp: returns_simps extends_def list_all_iff no_revision_def split: sum.splits if_splits)
  qed simp
  have checked: "runs (andThen (each (check_object env repository (pub_TreeSHA256 ?published) rootPath ''observe S3 release'' ''inspect S3 release object'') files)
      (\<lambda>_. observe_canonical lib env repository rootPath root ?published)) s
      (\<lambda>published s'. (published = ?published \<or> pub_TreeSHA256 published = []) \<and> ?seen files s') (\<lambda>_. True)" for files s
    unfolding runs_andThen by (rule runs_conseq [OF each_check_places]) (use canonical in auto)
  let ?Q = "\<lambda>published s'. pub_TreeSHA256 published \<noteq> [] \<longrightarrow> (\<exists>files. TreeDigest (s3_digestBytes lib) (tree_files files) = pub_TreeSHA256 published \<and>
        list_all (\<lambda>f. placed (s3_log s') (publishedFileKey (rebinds env) repository (pub_TreeSHA256 published) rootPath (hf_Path f)) f) files)"
  have rest: "runs (andThen (observe_restore lib env repository ?published) (\<lambda>_.
      andThen (each (check_object env repository (pub_TreeSHA256 ?published) rootPath ''observe S3 release'' ''inspect S3 release object'') (rd_Files descriptor))
      (\<lambda>_. observe_canonical lib env repository rootPath root ?published))) s ?Q (\<lambda>_. True)"
    if "returns (observe_release lib env repository ?published) descriptor" for descriptor s
    unfolding runs_andThen [of "observe_restore _ _ _ _"]
    using returns_release [OF that] by (intro runs_whatever runs_conseq [OF checked [of "rd_Files descriptor"]]) auto
  have "runs (andThen (observe_release lib env repository ?published) (\<lambda>descriptor. andThen (observe_restore lib env repository ?published) (\<lambda>_.
      andThen (each (check_object env repository (pub_TreeSHA256 ?published) rootPath ''observe S3 release'' ''inspect S3 release object'') (rd_Files descriptor))
      (\<lambda>_. observe_canonical lib env repository rootPath root ?published)))) s ?Q (\<lambda>_. True)"
    unfolding runs_andThen [of "observe_release _ _ _ _"]
    by (rule runs_logs [where W = "\<lambda>_ _. True"]) (auto intro!: obeys_intro any_store rest simp del: runs_andThen)
  then show ?thesis unfolding observe_root_def Let_def by (auto simp: no_revision_def runs_andThen [of "guard _ _"] simp del: runs_andThen)
qed

subsection \<open>Properties\<close>

text \<open>
  C3: the root is switched last. In the calls a commit makes, whatever the store answers, a write of the root
  comes after the store has confirmed every file of the release with its size and digest, the release
  descriptor, the publication manifest and the description of how to go back.
\<close>

theorem root_is_switched_last:
  assumes "good_prefix repository" and "hr_CommitPaths repository = [rootPath]" and "outer_root rootPath"
    and "list_all (\<lambda>f. hf_Path f \<noteq> ''..'') (sp_Files staged)"
    and "s3_Commit lib env repository staged expected \<lparr>s3_world = w, s3_log = []\<rparr> = (s', result)"
    and "s3_log s' = before @ PutCall request answer # after" and "put_Key request = objectKey repository rootPath"
  shows "in_place lib (rebinds env) repository rootPath staged before"
proof -
  have root: "singleRootPath repository = Inr rootPath" using assms(2) by (simp add: singleRootPath_def)
  have "root_writes_follow (objectKey repository rootPath) (in_place lib (rebinds env) repository rootPath staged) (s3_log s')"
    using Commit_ordered [OF assms(1,3) root assms(4), of lib env "\<lparr>s3_world = w, s3_log = []\<rparr>" expected] assms(5)
    by (auto simp: root_writes_follow_def runs_def split: sum.splits)
  then show ?thesis using assms(6,7) by (auto simp: root_writes_follow_def)
qed

theorem root_is_switched_last_witness:
  "\<exists>before request answer after. s3_log (fst chart_commit) = before @ PutCall request answer # after \<and>
     put_Key request = objectKey chart_repository ''index.yaml'' \<and>
     in_place chart_lib False chart_repository ''index.yaml'' chart_staged before"
proof -
  obtain e where "e \<in> set (s3_log (fst chart_commit))" "writes_root e" using chart_committed(1) by (auto simp: list_ex_iff)
  then obtain request answer where "PutCall request answer \<in> set (s3_log (fst chart_commit))"
    and key: "put_Key request = objectKey chart_repository ''index.yaml''"
    by (auto simp: writes_root_def chart_keys split: s3_event.splits)
  then obtain before after where split: "s3_log (fst chart_commit) = before @ PutCall request answer # after" by (meson split_list)
  have "s3_Commit chart_lib memory_env chart_repository chart_staged chart_expected \<lparr>s3_world = chart_store, s3_log = []\<rparr> =
      (fst chart_commit, snd chart_commit)" by (simp add: chart_commit_def)
  from root_is_switched_last [OF chart_keys(1-3,8) this split key]
  have "in_place chart_lib False chart_repository ''index.yaml'' chart_staged before" by (simp add: chart_keys)
  then show ?thesis using split key by blast
qed

text \<open>
  C8: when an observation reports a published tree, it has seen all of it: there is a list of files whose tree
  digest is the one reported, and the store has answered for each of them, at the key clients read it from,
  with its size and digest.
\<close>

theorem observed_release_is_complete:
  assumes "hr_CommitPaths repository = [rootPath]"
    and "s3_Observe lib env repository \<lparr>s3_world = w, s3_log = []\<rparr> = (s', Inr published)" and "pub_TreeSHA256 published \<noteq> []"
  shows "\<exists>files. TreeDigest (s3_digestBytes lib) (tree_files files) = pub_TreeSHA256 published \<and>
    list_all (\<lambda>f. placed (s3_log s') (publishedFileKey (rebinds env) repository (pub_TreeSHA256 published) rootPath (hf_Path f)) f) files"
proof -
  let ?Q = "\<lambda>published s'. pub_TreeSHA256 published \<noteq> [] \<longrightarrow> (\<exists>files. TreeDigest (s3_digestBytes lib) (tree_files files) = pub_TreeSHA256 published \<and>
        list_all (\<lambda>f. placed (s3_log s') (publishedFileKey (rebinds env) repository (pub_TreeSHA256 published) rootPath (hf_Path f)) f) files)"
  have root: "singleRootPath repository = Inr rootPath" using assms(1) by (simp add: singleRootPath_def)
  have "runs (s3_Observe lib env repository) s ?Q (\<lambda>_. True)" for s
    unfolding s3_Observe_def s3_Head_def root using observe_root_sees [of lib env repository rootPath]
    by (cases "s3_validateRepository lib (has_broker env) repository")
      (auto simp: s3_lift_def no_revision_def split: prod.split sum.split object_error.split)
  from runs_ok_value [OF this assms(2)] show ?thesis using assms(3) by blast
qed

theorem observed_release_is_complete_witness:
  "\<exists>published. snd (chart_observation (s3_world (fst chart_commit))) = Inr published \<and> (\<exists>files.
     TreeDigest (s3_digestBytes chart_lib) (tree_files files) = pub_TreeSHA256 published \<and>
     list_all (\<lambda>f. placed (s3_log (fst (chart_observation (s3_world (fst chart_commit)))))
       (publishedFileKey (rebinds memory_env) chart_repository (pub_TreeSHA256 published) ''index.yaml'' (hf_Path f)) f) files)"
proof -
  obtain published where published: "snd (chart_observation (s3_world (fst chart_commit))) = Inr published" "pub_TreeSHA256 published = zeros"
    using chart_committed(3) by blast
  then have run: "s3_Observe chart_lib memory_env chart_repository \<lparr>s3_world = s3_world (fst chart_commit), s3_log = []\<rparr> =
      (fst (chart_observation (s3_world (fst chart_commit))), Inr published)"
    by (metis chart_observation_def prod.collapse)
  have "pub_TreeSHA256 published \<noteq> []" using published(2) by (simp add: zeros_def)
  from observed_release_is_complete [OF chart_keys(2) run this] show ?thesis
    by (intro exI [of _ published] conjI published(1))
qed

end
