(* ===== verification/S3_Collect.thy ===== *)
theory S3_Collect
  imports S3_Trace
begin

section \<open>The object-store host: collecting superseded releases\<close>

text \<open>
  \<^verbatim>\<open>adapters/host/s3/collect.go\<close>. A collection walks listings page by page; the walk is given the number of
  pages it may read, and running out of them is an error of its own. The set of trees to keep is a list
  without the order Go leaves open. The structures are those of \<^verbatim>\<open>host/collect.go\<close>.
\<close>

record Retention =
  ret_KeepTrees :: "gostring list"
  ret_DryRun :: bool

record CollectResult =
  col_Removed :: int
  col_RemovedBytes :: int
  col_KeptRevisions :: int
  col_DryRun :: bool

definition releasePrefix :: gostring where "releasePrefix = ''.snailmail/releases/''"

definition treeFromReleaseKey :: "gostring \<Rightarrow> gostring \<Rightarrow> gostring option" where
  "treeFromReleaseKey pre key =
     (let remainder = trim_prefix key pre in
      if remainder = key then None
      else case cut_first (CHR ''/'') remainder of None \<Rightarrow> None
        | Some (tree, rest) \<Rightarrow> if rest = [] \<or> \<not> ValidSHA256 tree then None else Some tree)"

subsection \<open>What must survive\<close>

definition protectedTrees :: "s3_lib \<Rightarrow> 'w s3_env \<Rightarrow> HostRepository \<Rightarrow> Retention \<Rightarrow> ('w, gostring list) s3" where
  "protectedTrees lib env repository retention =
     andThen (guard (list_all ValidSHA256 (ret_KeepTrees retention)) (hostError ErrorInvalidConfiguration ''collect S3 releases'')) (\<lambda>_.
     andThen (s3_Observe lib env repository) (\<lambda>observed.
     andThen (guard (pub_TreeSHA256 observed \<noteq> []) (hostError ErrorInvalidConfiguration ''collect S3 releases'')) (\<lambda>_.
     (let keep = List.insert (pub_TreeSHA256 observed) (remdups (ret_KeepTrees retention)) in
      if pub_RestoreID observed = [] then ok keep
      else andThen (as_missing ''collect S3 releases'' (loadRestore lib env repository (pub_RestoreID observed))) (\<lambda>(restore, _).
        ok (if rs_BeforeTreeSHA256 restore = [] then keep else List.insert (rs_BeforeTreeSHA256 restore) keep))))))"

primrec referenced_by :: "s3_lib \<Rightarrow> 'w s3_env \<Rightarrow> HostRepository \<Rightarrow> gostring list \<Rightarrow> ('w, gostring list) s3" where
  "referenced_by lib env repository [] = ok []"
| "referenced_by lib env repository (tree # trees) =
     andThen (as_missing ''collect orphaned S3 objects'' (loadRelease lib env repository tree)) (\<lambda>(release, _).
     andThen (referenced_by lib env repository trees) (\<lambda>keys.
     ok (map (\<lambda>file. objectKey repository (hf_Path file)) (rd_Files release) @ keys)))"

definition referencedObjectKeys :: "s3_lib \<Rightarrow> 'w s3_env \<Rightarrow> HostRepository \<Rightarrow> gostring list \<Rightarrow> ('w, gostring list) s3" where
  "referencedObjectKeys lib env repository keep = referenced_by lib env repository keep"

subsection \<open>Walking a listing\<close>

primrec visit_all :: "('o \<Rightarrow> 'c \<Rightarrow> ('w, 'c) s3) \<Rightarrow> 'o list \<Rightarrow> 'c \<Rightarrow> ('w, 'c) s3" where
  "visit_all visit [] acc = ok acc"
| "visit_all visit (x # xs) acc = andThen (visit x acc) (\<lambda>acc. visit_all visit xs acc)"

definition out_of_pages :: s3_failure where "out_of_pages = S3Other ''listing goes on''"

primrec walk_pages :: "nat \<Rightarrow> 'w s3_env \<Rightarrow> gostring \<Rightarrow> gostring \<Rightarrow> (ListedObject \<Rightarrow> 'c \<Rightarrow> ('w, 'c) s3) \<Rightarrow> gostring \<Rightarrow> 'c \<Rightarrow> ('w, 'c) s3" where
  "walk_pages 0 env pre operation visit after acc = fail out_of_pages"
| "walk_pages (Suc pages) env pre operation visit after acc =
     andThen (s3_List env \<lparr>lq_Prefix = pre, lq_After = after, lq_Limit = 0\<rparr>) (\<lambda>r. case r of
       Inl e \<Rightarrow> fail (infrastructure operation e)
     | Inr page \<Rightarrow> andThen (visit_all visit (lr_Objects page) acc) (\<lambda>acc.
         if lr_More page = [] then ok acc else walk_pages pages env pre operation visit (lr_More page) acc))"

text \<open>Counting an object as removed and, outside a dry run, deleting it.\<close>

definition remove_object :: "'w s3_env \<Rightarrow> bool \<Rightarrow> gostring \<Rightarrow> ListedObject \<Rightarrow> ('w, unit) s3" where
  "remove_object env dryRun operation object =
     (if dryRun then ok ()
      else andThen (s3_Delete env (lo_Key object) no_conditions) (\<lambda>r. case r of
        Inl ErrNotFound \<Rightarrow> ok () | Inl e \<Rightarrow> fail (infrastructure operation e) | Inr _ \<Rightarrow> ok ()))"

type_synonym walk = "int \<times> int \<times> gostring list"

definition visit_release :: "'w s3_env \<Rightarrow> gostring \<Rightarrow> gostring list \<Rightarrow> bool \<Rightarrow> ListedObject \<Rightarrow> walk \<Rightarrow> ('w, walk) s3" where
  "visit_release env pre keep dryRun object acc =
     (case acc of (removed, bytes, seen) \<Rightarrow> case treeFromReleaseKey pre (lo_Key object) of None \<Rightarrow> ok acc
      | Some tree \<Rightarrow> (let seen = List.insert tree seen in
          if tree \<in> set keep then ok (removed, bytes, seen)
          else andThen (remove_object env dryRun ''delete superseded S3 release object'' object) (\<lambda>_.
            ok (removed + 1, bytes + lo_Size object, seen))))"

definition with_slash :: "gostring \<Rightarrow> gostring" where
  "with_slash pre = (if has_suffix pre ''/'' then pre else pre @ ''/'')"

definition visit_orphan :: "'w s3_env \<Rightarrow> HostRepository \<Rightarrow> gostring list \<Rightarrow> bool \<Rightarrow> ListedObject \<Rightarrow> int \<times> int \<Rightarrow> ('w, int \<times> int) s3" where
  "visit_orphan env repository referenced dryRun object acc =
     (case acc of (removed, bytes) \<Rightarrow>
      let reserved = objectKey repository ''.snailmail'' in
      if lo_Key object = reserved \<or> has_prefix (lo_Key object) (reserved @ ''/'') \<or> lo_Key object \<in> set referenced \<or>
         lo_Key object = browsablePageKey repository then ok acc
      else andThen (remove_object env dryRun ''delete orphaned S3 object'' object) (\<lambda>_. ok (removed + 1, bytes + lo_Size object)))"

definition collectOrphanedObjects :: "nat \<Rightarrow> s3_lib \<Rightarrow> 'w s3_env \<Rightarrow> HostRepository \<Rightarrow> gostring list \<Rightarrow> Retention \<Rightarrow> ('w, int \<times> int) s3" where
  "collectOrphanedObjects pages lib env repository keep retention =
     (if rebinds env then ok (0, 0)
      else andThen (referencedObjectKeys lib env repository keep) (\<lambda>referenced.
        (let pre = objectKey repository []; pre = (if pre \<noteq> [] then with_slash pre else pre) in
         walk_pages pages env pre ''list S3 objects'' (visit_orphan env repository referenced (ret_DryRun retention)) [] (0, 0))))"

definition s3_Collect :: "nat \<Rightarrow> s3_lib \<Rightarrow> 'w s3_env \<Rightarrow> HostRepository \<Rightarrow> Retention \<Rightarrow> ('w, CollectResult) s3" where
  "s3_Collect pages lib env repository retention =
     andThen (s3_lift (s3_validateRepository lib (has_broker env) repository)) (\<lambda>_.
     andThen (s3_lift (singleRootPath repository)) (\<lambda>_.
     andThen (protectedTrees lib env repository retention) (\<lambda>keep.
     (let pre = with_slash (objectKey repository releasePrefix) in
     andThen (walk_pages pages env pre ''list S3 releases'' (visit_release env pre keep (ret_DryRun retention)) [] (0, 0, [])) (\<lambda>(removed, bytes, seen).
     andThen (collectOrphanedObjects pages lib env repository keep retention) (\<lambda>(orphans, orphanBytes).
     ok \<lparr>col_Removed = removed + orphans, col_RemovedBytes = bytes + orphanBytes,
       col_KeptRevisions = int (length (filter (\<lambda>tree. tree \<in> set keep) seen)), col_DryRun = ret_DryRun retention\<rparr>))))))"

end
