(* ===== verification/S3_Collect_Safety.thy ===== *)
theory S3_Collect_Safety
  imports S3_Collect S3_Memory
begin

section \<open>The object-store host: what a collection leaves alone\<close>

text \<open>
  A collection on a store that keeps its promises removes nothing that a protected release is made of: the
  release of the live revision, of the revision it would be rolled back to, and of every tree the caller
  names. Reading is a promise of its own here: a read answers from the object it names.
\<close>

definition faithful_reads :: "('w \<Rightarrow> objects) \<Rightarrow> 'w s3_env \<Rightarrow> bool" where
  "faithful_reads objects env \<longleftrightarrow> (\<forall>w w' key limit. objects w key = objects w' key \<longrightarrow>
     snd (oc_Get (s3e_client env) key limit w) = snd (oc_Get (s3e_client env) key limit w'))"

subsection \<open>Code that leaves an object alone\<close>

abbreviation spares :: "('w \<Rightarrow> objects) \<Rightarrow> gostring \<Rightarrow> ('w, 'a) s3 \<Rightarrow> bool" where
  "spares objects key m \<equiv> obeys objects (\<lambda>k _. k \<noteq> key) m"

lemma trace_spares: "store_trace (\<lambda>k _. k \<noteq> key) before es after \<Longrightarrow> after key = before key"
  by (induction rule: store_trace.induct) (auto simp: store_step_def allowed_def split: option.splits)

lemma spares_same: "spares objects key m \<Longrightarrow> objects (s3_world (fst (m s))) key = objects (s3_world s) key"
  using trace_spares unfolding obeys_def by metis

lemma runs_spares:
  assumes "spares objects key m" and "\<And>a s'. objects (s3_world s') key = objects (s3_world s) key \<Longrightarrow> returns m a \<Longrightarrow> Q a s'"
    and "\<And>s'. objects (s3_world s') key = objects (s3_world s) key \<Longrightarrow> E s'"
  shows "runs m s Q E"
proof -
  obtain s' r where m: "m s = (s', r)" by fastforce
  have "objects (s3_world s') key = objects (s3_world s) key" using spares_same [OF assms(1), of s] m by simp
  then show ?thesis using assms(2,3) m by (cases r) (auto simp: runs_def returns_def)
qed

lemma spares_walk:
  assumes "honest_store objects env" and "\<And>object acc. obeys objects W (visit object acc)"
  shows "obeys objects W (walk_pages pages env pre operation visit after acc)"
proof -
  have "obeys objects W (visit_all visit xs acc)" for xs acc
    using assms(2) by (induction xs arbitrary: acc) (auto intro!: obeys_intro)
  then show ?thesis using assms(1)
    by (induction pages arbitrary: after acc) (auto intro!: obeys_intro split: sum.split)
qed

lemma spares_remove:
  "honest_store objects env \<Longrightarrow> lo_Key object \<noteq> key \<Longrightarrow> spares objects key (remove_object env dryRun operation object)"
  unfolding remove_object_def by (auto intro!: obeys_intro obeys_writes split: branches)

lemma spares_release:
  assumes "honest_store objects env" and "\<And>tree. treeFromReleaseKey pre key = Some tree \<Longrightarrow> tree \<in> set keep"
  shows "spares objects key (visit_release env pre keep dryRun object acc)"
  unfolding visit_release_def using assms by (auto intro!: obeys_intro spares_remove split: option.split prod.split simp: Let_def)

lemma spares_orphan:
  assumes "honest_store objects env" and "key \<in> set referenced \<or> has_prefix key (objectKey repository ''.snailmail'' @ ''/'')"
  shows "spares objects key (visit_orphan env repository referenced dryRun object acc)"
  unfolding visit_orphan_def using assms by (auto intro!: obeys_intro spares_remove split: prod.split simp: Let_def)

lemma obeys_protected [obeys_intro]: "honest_store objects env \<Longrightarrow> obeys objects W (protectedTrees lib env repository retention)"
  unfolding protectedTrees_def by (auto intro!: obeys_intro split: prod.split simp: Let_def)

lemma obeys_referenced [obeys_intro]: "honest_store objects env \<Longrightarrow> obeys objects W (referenced_by lib env repository trees)"
  by (induction trees) (auto intro!: obeys_intro split: prod.split)

subsection \<open>Reading the same release again\<close>

lemma loadRelease_same:
  assumes "faithful_reads objects env" and "objects (s3_world s) (releaseDescriptorKey repository tree) = objects (s3_world t) (releaseDescriptorKey repository tree)"
  shows "snd (loadRelease lib env repository tree s) = snd (loadRelease lib env repository tree t)"
proof -
  have "snd (oc_Get (s3e_client env) (releaseDescriptorKey repository tree) maximumMetadataSize (s3_world s)) =
      snd (oc_Get (s3e_client env) (releaseDescriptorKey repository tree) maximumMetadataSize (s3_world t))"
    using assms unfolding faithful_reads_def by blast
  then show ?thesis
    unfolding loadRelease_def get_or_fail_def s3_Get_def andThen_def s3_call_def s3_lift_def ok_def fail_def
    by (auto split: prod.splits sum.splits)
qed

lemma referenced_by_covers:
  assumes "honest_store objects env" and "faithful_reads objects env" and "tree \<in> set trees"
    and "snd (loadRelease lib env repository tree t) = Inr (release, digest)"
    and "objects (s3_world s) (releaseDescriptorKey repository tree) = objects (s3_world t) (releaseDescriptorKey repository tree)"
  shows "runs (referenced_by lib env repository trees) s (\<lambda>keys _. objectKey repository ` hf_Path ` set (rd_Files release) \<subseteq> set keys) (\<lambda>_. True)"
  using assms(3,5)
proof (induction trees arbitrary: s)
  case (Cons first trees)
  show ?case
  proof (cases "first = tree")
    case True
    have read: "snd (loadRelease lib env repository tree s) = Inr (release, digest)"
      using loadRelease_same [OF assms(2) Cons.prems(2)] assms(4) by simp
    then have "runs (as_missing operation (loadRelease lib env repository tree)) s (\<lambda>r _. r = (release, digest)) (\<lambda>_. True)" for operation
      by (cases "loadRelease lib env repository tree s") (auto simp: as_missing_def runs_def andThen_def attempt_def ok_def)
    then show ?thesis unfolding True referenced_by.simps runs_andThen
      by (rule runs_conseq) (auto intro!: runs_whatever)
  next
    case False
    then have tree: "tree \<in> set trees" using Cons.prems(1) by simp
    have rest: "runs (referenced_by lib env repository trees) s' (\<lambda>keys _. objectKey repository ` hf_Path ` set (rd_Files release) \<subseteq> set keys) (\<lambda>_. True)"
      if "objects (s3_world s') (releaseDescriptorKey repository tree) = objects (s3_world s) (releaseDescriptorKey repository tree)" for s'
      using Cons.IH [OF tree] that Cons.prems(2) by simp
    show ?thesis unfolding referenced_by.simps runs_andThen
      by (rule runs_spares [where key = "releaseDescriptorKey repository tree" and objects = objects])
        (use assms(1) in \<open>auto intro!: obeys_intro runs_conseq [OF rest] split: prod.split\<close>)
  qed
qed simp

subsection \<open>Keys under the release directory\<close>

lemma releases_directory:
  assumes "good_prefix r"
  shows "with_slash (objectKey r releasePrefix) = slashed (prefix_elements r @ [''.snailmail'', ''releases'']) @ ''/''"
proof -
  have plain: "list_all plain_element [''.snailmail'', ''releases'']" by simp
  have split: "split_on (CHR ''/'') releasePrefix = [''.snailmail'', ''releases'', []]" by code_simp
  have elements: "path_elements (s @ ''/'' @ releasePrefix) = path_elements s @ [''.snailmail'', ''releases'']" if "s \<noteq> []" for s
    using split_on_append [of "CHR ''/''" s releasePrefix] split fold_clean_push [OF plain, of "is_abs s"] is_abs_append [OF that]
    by (simp add: path_elements_def clean_step_def)
  have key: "objectKey r releasePrefix = slashed (prefix_elements r @ [''.snailmail'', ''releases''])"
  proof (cases "hr_Prefix r = []")
    case True
    have "path_clean releasePrefix = slashed [''.snailmail'', ''releases'']" by code_simp
    then show ?thesis using True by (simp add: objectKey_def prefix_elements_def)
  next
    case False
    then show ?thesis using elements [OF False] trimmed_not_abs assms is_abs_append [OF False]
      by (simp add: objectKey_def prefix_elements_def good_prefix_def path_join_def path_clean_def)
  qed
  have "\<not> has_suffix (slashed (prefix_elements r @ [''.snailmail'', ''releases''])) ''/''"
    by (cases "prefix_elements r = []") (simp_all add: slashed_append has_suffix_def)
  then show ?thesis by (simp add: with_slash_def key)
qed

lemma below_directory:
  assumes "at r es key" and "has_prefix key (slashed (prefix_elements r @ ds) @ ''/'')" and "list_all plain_element ds" and "ds \<noteq> []"
  shows "take (length ds) es = ds"
proof -
  obtain t where "key = slashed (prefix_elements r @ ds) @ CHR ''/'' # t" using assms(2) by (auto simp: has_prefix_iff)
  moreover have slash: "list_all no_slash (prefix_elements r)" by (simp add: prefix_elements_def path_elements_no_slash)
  ultimately have "split_on (CHR ''/'') key = (prefix_elements r @ ds) @ split_on (CHR ''/'') t"
    using split_on_join [of "prefix_elements r @ ds"] assms(3,4) plain_no_slash split_on_append by simp
  moreover have "split_on (CHR ''/'') key = prefix_elements r @ es"
    using assms(1) slash split_on_join [of "prefix_elements r @ es"] plain_no_slash by (simp add: at_def)
  ultimately show ?thesis by simp
qed

lemma tree_of_release:
  assumes "good_prefix r" and "at r ([''.snailmail'', ''releases'', tree] @ es) key" and "ValidSHA256 tree" and "es \<noteq> []"
  shows "treeFromReleaseKey (with_slash (objectKey r releasePrefix)) key = Some tree"
    and "has_prefix key (objectKey r ''.snailmail'' @ ''/'')"
proof -
  have es: "list_all plain_element es" using assms(2) by (simp add: at_def)
  have key: "key = (slashed (prefix_elements r @ [''.snailmail'', ''releases'']) @ ''/'') @ tree @ CHR ''/'' # slashed es"
    using assms(2,4) slashed_append [of "prefix_elements r @ [''.snailmail'', ''releases'']" "tree # es"] slashed_append [of "[tree]" es]
    by (simp add: at_def)
  have "no_slash tree" using hex_plain [OF assms(3)] by (simp add: plain_element_def)
  then have "cut_first (CHR ''/'') (tree @ CHR ''/'' # slashed es) = Some (tree, slashed es)"
    by (induction tree) (auto simp: cut_first_def)
  moreover have "slashed es \<noteq> []" using es assms(4) by (cases es) (auto simp: join_with_Cons plain_element_def)
  ultimately show "treeFromReleaseKey (with_slash (objectKey r releasePrefix)) key = Some tree"
    using assms(3) by (simp add: treeFromReleaseKey_def releases_directory [OF assms(1)] key trim_prefix_def del: append_assoc)
  have "objectKey r ''.snailmail'' = slashed (prefix_elements r @ [''.snailmail''])"
    using objectKey_slashed [OF assms(1), of "[''.snailmail'']"] by simp
  moreover have "key = slashed (prefix_elements r @ [''.snailmail'']) @ ''/'' @ slashed (''releases'' # tree # es)"
    using assms(2) slashed_append [of "prefix_elements r @ [''.snailmail'']" "''releases'' # tree # es"] by (simp add: at_def)
  ultimately show "has_prefix key (objectKey r ''.snailmail'' @ ''/'')" by (auto simp: has_prefix_iff)
qed

lemma tree_of_canonical:
  assumes "good_prefix r" and "at r es key" and "hd es \<noteq> ''.snailmail''"
  shows "treeFromReleaseKey (with_slash (objectKey r releasePrefix)) key = None"
proof -
  have "\<not> has_prefix key (with_slash (objectKey r releasePrefix))"
    using below_directory [OF assms(2), of "[''.snailmail'', ''releases'']"] assms(3) releases_directory [OF assms(1)]
    by (cases es) auto
  then show ?thesis by (simp add: treeFromReleaseKey_def trim_prefix_def)
qed

subsection \<open>A collection and one object\<close>

text \<open>The trees a collection keeps: those it was given, the live one and the one to go back to.\<close>

lemma protectedTrees_keep:
  assumes "protectedTrees lib env repository retention s = (s', Inr keep)"
  shows "set (ret_KeepTrees retention) \<subseteq> set keep"
    and "snd (s3_Observe lib env repository s) = Inr published \<Longrightarrow> pub_TreeSHA256 published \<in> set keep"
  using assms unfolding protectedTrees_def
  by (auto simp: andThen_def guard_def ok_def fail_def Let_def split: prod.splits sum.splits if_splits)

lemma loadRelease_valid:
  assumes "returns (loadRelease lib env repository tree) (release, digest)" and "singleRootPath repository = Inr rootPath"
  shows "rootPath \<in> hf_Path ` set (rd_Files release)"
  using assms unfolding loadRelease_def decodeRelease_def descriptorFromRequest_def stage_check_def Let_def
  by (auto dest!: returns_andThen simp: returns_simps list_ex_iff split: sum.splits)

text \<open>
  What a collection does to one key once the trees to keep are known, given that the key belongs to a kept
  release, or that the loaded descriptors of the kept releases name it.
\<close>

lemma collect_spares:
  assumes "honest_store objects env" and start: "protectedTrees lib env repository retention s = (s1, Inr keep)"
    and release: "\<And>tree. treeFromReleaseKey (with_slash (objectKey repository releasePrefix)) key = Some tree \<Longrightarrow> tree \<in> set keep"
    and orphan: "\<not> rebinds env \<Longrightarrow> has_prefix key (objectKey repository ''.snailmail'' @ ''/'') \<or>
      (\<forall>s'. (\<forall>tree \<in> set keep. ValidSHA256 tree \<longrightarrow> objects (s3_world s') (releaseDescriptorKey repository tree) = objects (s3_world s) (releaseDescriptorKey repository tree)) \<longrightarrow>
        runs (referenced_by lib env repository keep) s' (\<lambda>keys _. key \<in> set keys) (\<lambda>_. True))"
    and "good_prefix repository"
  shows "objects (s3_world (fst (s3_Collect pages lib env repository retention s))) key = objects (s3_world s) key"
proof -
  let ?pre = "with_slash (objectKey repository releasePrefix)"
  let ?same = "\<lambda>s'. objects (s3_world s') key = objects (s3_world s) key"
  let ?kept = "\<lambda>s'. \<forall>tree \<in> set keep. ValidSHA256 tree \<longrightarrow> objects (s3_world s') (releaseDescriptorKey repository tree) = objects (s3_world s) (releaseDescriptorKey repository tree)"
  let ?walk = "walk_pages pages env ?pre ''list S3 releases'' (visit_release env ?pre keep (ret_DryRun retention)) [] (0, 0, [])"
  have begun: "objects (s3_world s1) k = objects (s3_world s) k" for k
    using spares_same [OF obeys_protected [OF assms(1)], of lib repository retention s k] start by simp
  have walk: "spares objects key ?walk" "tree \<in> set keep \<Longrightarrow> ValidSHA256 tree \<Longrightarrow> spares objects (releaseDescriptorKey repository tree) ?walk" for tree
    using release assms(1) tree_of_release(1) [OF assms(5), of tree "[''release.json'']" "releaseDescriptorKey repository tree"] at_fixed_keys(5) [OF assms(5)]
    by (auto intro!: spares_walk spares_release)
  have walked: "runs ?walk s1 (\<lambda>_ s'. ?same s' \<and> ?kept s') ?same"
    using spares_same [OF walk(1), where s = s1] spares_same [OF walk(2), where s = s1] begun
    by (auto simp: runs_def split: prod.split sum.split)
  have orphans: "runs (collectOrphanedObjects pages lib env repository keep retention) s' (\<lambda>_. ?same) ?same" if "?same s'" "?kept s'" for s'
  proof (cases "rebinds env")
    case True
    then show ?thesis using that by (simp add: collectOrphanedObjects_def)
  next
    case False
    have visited: "runs (walk_pages pages env p ''list S3 objects'' (visit_orphan env repository referenced (ret_DryRun retention)) [] (0, 0)) s'' (\<lambda>_. ?same) ?same"
      if "key \<in> set referenced \<or> has_prefix key (objectKey repository ''.snailmail'' @ ''/'')" "?same s''" for p referenced s''
      using that by (intro runs_spares [where objects = objects and key = key] spares_walk assms(1) spares_orphan) auto
    have "has_prefix key (objectKey repository ''.snailmail'' @ ''/'') \<or> runs (referenced_by lib env repository keep) s' (\<lambda>keys _. key \<in> set keys) (\<lambda>_. True)"
      using orphan [OF False] that(2) by blast
    then have read: "runs (referenced_by lib env repository keep) s' (\<lambda>keys s''. ?same s'' \<and>
        (key \<in> set keys \<or> has_prefix key (objectKey repository ''.snailmail'' @ ''/''))) ?same"
      using that(1) spares_same [OF obeys_referenced [OF assms(1)], of lib repository keep s' key]
      by (auto simp: runs_def split: prod.splits sum.splits)
    show ?thesis unfolding collectOrphanedObjects_def referencedObjectKeys_def if_not_P [OF False] runs_andThen Let_def
      by (rule runs_conseq [OF read]) (auto intro!: visited)
  qed
  have after: "runs (andThen ?walk (\<lambda>(removed, bytes, seen). andThen (collectOrphanedObjects pages lib env repository keep retention) (\<lambda>(orphans, orphanBytes).
      ok \<lparr>col_Removed = removed + orphans, col_RemovedBytes = bytes + orphanBytes,
        col_KeptRevisions = int (length (filter (\<lambda>tree. tree \<in> set keep) seen)), col_DryRun = ret_DryRun retention\<rparr>))) s1 (\<lambda>_. ?same) ?same"
    unfolding runs_andThen by (rule runs_conseq [OF walked]) (auto intro!: runs_conseq [OF orphans] split: prod.split)
  have "runs (s3_Collect pages lib env repository retention) s (\<lambda>_. ?same) ?same"
    using after start unfolding s3_Collect_def s3_lift_def
    by (auto simp: runs_def andThen_def ok_def fail_def Let_def split: sum.splits prod.splits)
  then show ?thesis by (auto simp: runs_def split: prod.splits sum.splits)
qed

lemma collect_without_trees:
  assumes "honest_store objects env" and "protectedTrees lib env repository retention s = (s1, Inl e)"
  shows "objects (s3_world (fst (s3_Collect pages lib env repository retention s))) key = objects (s3_world s) key"
proof -
  have "objects (s3_world s1) key = objects (s3_world s) key"
    using spares_same [OF obeys_protected [OF assms(1)], of lib repository retention s key] assms(2) by simp
  then show ?thesis using assms(2) unfolding s3_Collect_def s3_lift_def andThen_def ok_def fail_def
    by (auto split: sum.splits)
qed

text \<open>A file of a kept release is spared at every key it is read from.\<close>

lemma collect_spares_file:
  assumes "honest_store objects env" and "faithful_reads objects env" and "good_prefix repository"
    and keep: "protectedTrees lib env repository retention s = (s1, Inr keep)" "tree \<in> set keep" "ValidSHA256 tree"
    and loaded: "snd (loadRelease lib env repository tree s) = Inr (release, digest)"
    and name: "outer_root name" "name \<in> hf_Path ` set (rd_Files release)"
  shows "objects (s3_world (fst (s3_Collect pages lib env repository retention s))) (objectKey repository name) = objects (s3_world s) (objectKey repository name)"
proof (rule collect_spares [OF assms(1) keep(1)])
  have at: "at repository (path_elements name) (objectKey repository name)" using at_objectKey [OF assms(3)] name(1) by (simp add: outer_root_def)
  show "tree' \<in> set keep" if "treeFromReleaseKey (with_slash (objectKey repository releasePrefix)) (objectKey repository name) = Some tree'" for tree'
    using tree_of_canonical [OF assms(3) at] name(1) that by (simp add: outer_root_def)
  have "runs (referenced_by lib env repository keep) s' (\<lambda>keys _. objectKey repository name \<in> set keys) (\<lambda>_. True)"
    if "\<forall>tree \<in> set keep. ValidSHA256 tree \<longrightarrow> objects (s3_world s') (releaseDescriptorKey repository tree) = objects (s3_world s) (releaseDescriptorKey repository tree)" for s'
    using that keep name(2) by (intro runs_conseq [OF referenced_by_covers [OF assms(1,2) keep(2) loaded]]) auto
  then show "has_prefix (objectKey repository name) (objectKey repository ''.snailmail'' @ ''/'') \<or>
      (\<forall>s'. (\<forall>tree \<in> set keep. ValidSHA256 tree \<longrightarrow> objects (s3_world s') (releaseDescriptorKey repository tree) = objects (s3_world s) (releaseDescriptorKey repository tree)) \<longrightarrow>
        runs (referenced_by lib env repository keep) s' (\<lambda>keys _. objectKey repository name \<in> set keys) (\<lambda>_. True))"
    by blast
qed (rule assms(3))

lemma collect_spares_directory:
  assumes "honest_store objects env" and "good_prefix repository"
    and keep: "protectedTrees lib env repository retention s = (s1, Inr keep)" "tree \<in> set keep" "ValidSHA256 tree"
    and "at repository ([''.snailmail'', ''releases'', tree] @ es) key" "es \<noteq> []"
  shows "objects (s3_world (fst (s3_Collect pages lib env repository retention s))) key = objects (s3_world s) key"
  using tree_of_release [OF assms(2,6) keep(3) assms(7)] keep(2)
  by (intro collect_spares [OF assms(1) keep(1) _ _ assms(2)]) auto

subsection \<open>Properties\<close>

text \<open>
  C10: a collection spares what is protected. Whatever it removes and however it ends, the root, the descriptor
  of the live release and of every release the caller names, and each of their files at the key clients read
  it from are in the store as before.
\<close>

theorem collection_spares_protected_releases:
  assumes "honest_store objects env" and "faithful_reads objects env"
    and "good_prefix repository" and "hr_CommitPaths repository = [rootPath]" and "outer_root rootPath"
    and "s3_Observe lib env repository \<lparr>s3_world = w, s3_log = []\<rparr> = (s1, Inr published)"
    and "tree = pub_TreeSHA256 published \<or> tree \<in> set (ret_KeepTrees retention)" and "ValidSHA256 tree"
    and "loadRelease lib env repository tree \<lparr>s3_world = w, s3_log = []\<rparr> = (s2, Inr (release, digest))"
    and "file \<in> set (rd_Files release)" and "outer_root (hf_Path file)"
    and "key \<in> {objectKey repository rootPath, releaseDescriptorKey repository tree,
           publishedFileKey (rebinds env) repository tree rootPath (hf_Path file)}"
  shows "objects (s3_world (fst (s3_Collect pages lib env repository retention \<lparr>s3_world = w, s3_log = []\<rparr>))) key = objects w key"
proof -
  let ?s = "\<lparr>s3_world = w, s3_log = []\<rparr>"
  have root: "singleRootPath repository = Inr rootPath" using assms(4) by (simp add: singleRootPath_def)
  have loaded: "snd (loadRelease lib env repository tree ?s) = Inr (release, digest)" using assms(9) by simp
  have "returns (loadRelease lib env repository tree) (release, digest)" using assms(9) by (auto simp: returns_def)
  then have in_release: "rootPath \<in> hf_Path ` set (rd_Files release)" using loadRelease_valid root by blast
  obtain s' r where trees: "protectedTrees lib env repository retention ?s = (s', r)" by fastforce
  show ?thesis
  proof (cases r)
    case (Inl e)
    then show ?thesis using collect_without_trees [OF assms(1)] trees by simp
  next
    case (Inr keep)
    then have keep: "protectedTrees lib env repository retention ?s = (s', Inr keep)" using trees by simp
    have tree: "tree \<in> set keep" using protectedTrees_keep(1) [OF keep] protectedTrees_keep(2) [OF keep, of published] assms(6,7) by auto
    note directory = collect_spares_directory [OF assms(1,3) keep tree assms(8)]
      and file_spared = collect_spares_file [OF assms(1,2,3) keep tree assms(8) loaded]
    have "plain_name (hf_Path file)" using assms(11) by (simp add: outer_root_def)
    then have "objects (s3_world (fst (s3_Collect pages lib env repository retention ?s))) (releaseKey repository tree (hf_Path file)) = objects w (releaseKey repository tree (hf_Path file))"
      using directory [OF at_releaseKey [OF assms(3,8)]] by (simp add: plain_name_def)
    moreover have "objects (s3_world (fst (s3_Collect pages lib env repository retention ?s))) (releaseDescriptorKey repository tree) = objects w (releaseDescriptorKey repository tree)"
      using directory [of "[''release.json'']"] at_fixed_keys(5) [OF assms(3,8)] by simp
    ultimately show ?thesis using assms(10,12) file_spared [OF assms(5) in_release] file_spared [OF assms(11)] by (auto simp: publishedFileKey_def)
  qed
qed

lemma memory_reads: "faithful_reads map_of memory_env"
  by (simp add: faithful_reads_def memory_env_def memory_client_def)

theorem collection_spares_protected_releases_witness:
  "map_of (s3_world (fst (s3_Collect 1 chart_lib memory_env chart_repository \<lparr>ret_KeepTrees = [], ret_DryRun = False\<rparr>
      \<lparr>s3_world = s3_world (fst chart_commit), s3_log = []\<rparr>))) ''charts/index.yaml'' \<noteq> None"
proof -
  let ?w = "s3_world (fst chart_commit)"
  obtain published where published: "snd (chart_observation ?w) = Inr published" "pub_TreeSHA256 published = zeros"
    using chart_committed(3) by blast
  then have seen: "s3_Observe chart_lib memory_env chart_repository \<lparr>s3_world = ?w, s3_log = []\<rparr> = (fst (chart_observation ?w), Inr published)"
    by (metis chart_observation_def prod.collapse)
  have loaded: "loadRelease chart_lib memory_env chart_repository zeros \<lparr>s3_world = ?w, s3_log = []\<rparr> =
      (fst (loadRelease chart_lib memory_env chart_repository zeros \<lparr>s3_world = ?w, s3_log = []\<rparr>), Inr (releaseDescriptorFromPublication chart_publication, zeros))"
    using chart_committed(4) by (metis prod.collapse)
  have "\<lparr>hf_Path = ''index.yaml'', hf_Size = 1, hf_SHA256 = zeros\<rparr> \<in> set (rd_Files (releaseDescriptorFromPublication chart_publication))"
    by code_simp
  then have "map_of (s3_world (fst (s3_Collect 1 chart_lib memory_env chart_repository \<lparr>ret_KeepTrees = [], ret_DryRun = False\<rparr>
      \<lparr>s3_world = ?w, s3_log = []\<rparr>))) (objectKey chart_repository ''index.yaml'') = map_of ?w (objectKey chart_repository ''index.yaml'')"
    by (rule collection_spares_protected_releases [OF memory_honest memory_reads chart_keys(1-3) seen disjI1 [OF published(2) [symmetric]] chart_keys(4) loaded])
      (simp_all add: chart_keys)
  then show ?thesis using chart_committed(2) by (simp add: chart_keys)
qed

lemma dry_collection:
  assumes "honest_store objects env" and "ret_DryRun retention"
  shows "objects (s3_world (fst (s3_Collect pages lib env repository retention s))) = objects (s3_world s)"
proof
  fix key
  have "spares objects key (s3_Collect pages lib env repository retention)"
    unfolding s3_Collect_def collectOrphanedObjects_def referencedObjectKeys_def
    using assms by (auto intro!: obeys_intro spares_walk simp: visit_release_def visit_orphan_def remove_object_def Let_def split: prod.split option.split)
  then show "objects (s3_world (fst (s3_Collect pages lib env repository retention s))) key = objects (s3_world s) key"
    by (rule spares_same)
qed

end
