(* ===== verification/S3_Lifetime.thy ===== *)
theory S3_Lifetime
  imports S3_Safety S3_Collect_Safety
begin

section \<open>The object-store host: the life of a release\<close>

text \<open>
  All operations of the adapter together: the ones a release is made and switched by, and the collection of old
  releases, in any order.
\<close>

datatype adapter_call = Operate s3_operation | CollectCall nat Retention

fun adapter_run :: "s3_lib \<Rightarrow> 'w s3_env \<Rightarrow> HostRepository \<Rightarrow> adapter_call \<Rightarrow> 'w \<Rightarrow> 'w" where
  "adapter_run lib env repository (Operate operation) w = s3_operate lib env repository operation w"
| "adapter_run lib env repository (CollectCall pages retention) w =
     s3_world (fst (s3_Collect pages lib env repository retention \<lparr>s3_world = w, s3_log = []\<rparr>))"

subsection \<open>One collection\<close>

lemma manifest_not_release:
  assumes "good_prefix r" and "ValidSHA256 m"
  shows "treeFromReleaseKey (with_slash (objectKey r releasePrefix)) (publicationManifestKey r m) = None"
    and "has_prefix (publicationManifestKey r m) (objectKey r ''.snailmail'' @ ''/'')"
proof -
  note at = at_fixed_keys(6) [OF assms]
  have "\<not> has_prefix (publicationManifestKey r m) (with_slash (objectKey r releasePrefix))"
    using below_directory [OF at, of "[''.snailmail'', ''releases'']"] releases_directory [OF assms(1)] by auto
  then show "treeFromReleaseKey (with_slash (objectKey r releasePrefix)) (publicationManifestKey r m) = None"
    by (simp add: treeFromReleaseKey_def trim_prefix_def)
  have "objectKey r ''.snailmail'' = slashed (prefix_elements r @ [''.snailmail''])"
    using objectKey_slashed [OF assms(1), of "[''.snailmail'']"] by simp
  moreover have "publicationManifestKey r m = slashed (prefix_elements r @ [''.snailmail'']) @ ''/'' @ slashed [''manifests'', m @ ''.json'']"
    using at slashed_append [of "prefix_elements r @ [''.snailmail'']" "[''manifests'', m @ ''.json'']"] by (simp add: at_def)
  ultimately show "has_prefix (publicationManifestKey r m) (objectKey r ''.snailmail'' @ ''/'')" by (auto simp: has_prefix_iff)
qed

lemma collection_keeps_object:
  assumes "honest_store objects env" and "faithful_reads objects env" and "good_prefix repository" and "ValidSHA256 tree" and "outer_root name"
    and "key \<in> {publishedFileKey (rebinds env) repository tree rootPath name, releaseDescriptorKey repository tree,
           publicationManifestKey repository tree}"
    and "tree \<in> set (ret_KeepTrees retention)"
    and "snd (loadRelease lib env repository tree s) = Inr (release, digest)" and "name \<in> hf_Path ` set (rd_Files release)"
  shows "objects (s3_world (fst (s3_Collect pages lib env repository retention s))) key = objects (s3_world s) key"
proof (cases "protectedTrees lib env repository retention s")
  case (Pair s1 r)
  show ?thesis
  proof (cases r)
    case (Inl e)
    then show ?thesis using collect_without_trees [OF assms(1)] Pair by blast
  next
    case (Inr keep)
    then have keep: "protectedTrees lib env repository retention s = (s1, Inr keep)" using Pair by simp
    have tree: "tree \<in> set keep" using protectedTrees_keep(1) [OF keep] assms(7) by blast
    note directory = collect_spares_directory [OF assms(1,3) keep tree assms(4)]
      and spared = collect_spares_file [OF assms(1,2,3) keep tree assms(4,8,5,9)]
    have "plain_name name" using assms(5) by (simp add: outer_root_def)
    then have "objects (s3_world (fst (s3_Collect pages lib env repository retention s))) (releaseKey repository tree name) = objects (s3_world s) (releaseKey repository tree name)"
      using directory [OF at_releaseKey [OF assms(3,4)]] by (simp add: plain_name_def)
    moreover have "objects (s3_world (fst (s3_Collect pages lib env repository retention s))) (releaseDescriptorKey repository tree) = objects (s3_world s) (releaseDescriptorKey repository tree)"
      using directory [of "[''release.json'']"] at_fixed_keys(5) [OF assms(3,4)] by simp
    moreover have "objects (s3_world (fst (s3_Collect pages lib env repository retention s))) (publicationManifestKey repository tree) = objects (s3_world s) (publicationManifestKey repository tree)"
      using manifest_not_release [OF assms(3,4)] by (intro collect_spares [OF assms(1) keep _ _ assms(3)]) auto
    ultimately show ?thesis using assms(6) spared by (auto simp: publishedFileKey_def)
  qed
qed

subsection \<open>Properties\<close>

text \<open>
  C4: what is published stays as it is. Take an object of a release (a file, the release descriptor or a
  publication manifest) that is in a store that honours conditions, of a repository with one root document
  outside the adapter's own directory. Whatever observations, stages, commits, restores, aborts and
  collections of the repository come later, the object keeps its bytes, its entity tag and its metadata,
  provided that every collection among them is told to keep the release, and that the release, when there is a
  collection, can be loaded and lists the file, and reads answer from the object they name.
\<close>

theorem published_objects_never_change:
  assumes "honest_store objects env" and "hex_sources lib env"
    and "good_prefix repository" and "hr_CommitPaths repository = [rootPath]" and "outer_root rootPath"
    and "ValidSHA256 tree" and "outer_root name"
    and "key \<in> {publishedFileKey (rebinds env) repository tree rootPath name, releaseDescriptorKey repository tree,
           publicationManifestKey repository tree}"
    and "objects w key = Some object"
    and kept: "\<And>pages retention. CollectCall pages retention \<in> set calls \<Longrightarrow> tree \<in> set (ret_KeepTrees retention) \<and> faithful_reads objects env \<and>
      objects w (releaseDescriptorKey repository tree) \<noteq> None \<and>
      (\<exists>release digest. snd (loadRelease lib env repository tree \<lparr>s3_world = w, s3_log = []\<rparr>) = Inr (release, digest) \<and>
         name \<in> hf_Path ` set (rd_Files release))"
  shows "objects (fold (adapter_run lib env repository) calls w) key = Some object"
  using assms(9) kept
proof (induction calls arbitrary: w)
  case (Cons c calls)
  note kept_by = release_object_kept [OF assms(1-7), where operations = "[_]", unfolded fold.simps comp_def id_def]
  let ?w = "adapter_run lib env repository c w" and ?descriptor = "releaseDescriptorKey repository tree"
  have same: "objects ?w k = objects w k" if present: "objects w k \<noteq> None" and k: "k \<in> {key, ?descriptor}" for k
  proof (cases c)
    case (Operate operation)
    obtain stored where "objects w k = Some stored" using present by blast
    then show ?thesis using kept_by [of k w stored operation] assms(8) k Operate by auto
  next
    case (CollectCall pages retention)
    obtain release digest where "faithful_reads objects env" "tree \<in> set (ret_KeepTrees retention)"
        "snd (loadRelease lib env repository tree \<lparr>s3_world = w, s3_log = []\<rparr>) = Inr (release, digest)" "name \<in> hf_Path ` set (rd_Files release)"
      using Cons.prems(2) [of pages retention] CollectCall by auto
    then show ?thesis using collection_keeps_object [OF assms(1) _ assms(3,6,7), of k rootPath retention lib "\<lparr>s3_world = w, s3_log = []\<rparr>" release digest pages] assms(8) k CollectCall
      by auto
  qed
  have "objects (fold (adapter_run lib env repository) calls ?w) key = Some object"
  proof (rule Cons.IH)
    show "objects ?w key = Some object" using same [of key] Cons.prems(1) by simp
    fix pages retention assume "CollectCall pages retention \<in> set calls"
    then have at: "tree \<in> set (ret_KeepTrees retention)" "faithful_reads objects env" "objects w ?descriptor \<noteq> None"
        "\<exists>release digest. snd (loadRelease lib env repository tree \<lparr>s3_world = w, s3_log = []\<rparr>) = Inr (release, digest) \<and> name \<in> hf_Path ` set (rd_Files release)"
      using Cons.prems(2) [of pages retention] by auto
    have "objects ?w ?descriptor = objects w ?descriptor" using same [OF at(3)] by simp
    then have "snd (loadRelease lib env repository tree \<lparr>s3_world = ?w, s3_log = []\<rparr>) = snd (loadRelease lib env repository tree \<lparr>s3_world = w, s3_log = []\<rparr>)"
      by (intro loadRelease_same [OF at(2)]) simp
    then show "tree \<in> set (ret_KeepTrees retention) \<and> faithful_reads objects env \<and> objects ?w ?descriptor \<noteq> None \<and>
      (\<exists>release digest. snd (loadRelease lib env repository tree \<lparr>s3_world = ?w, s3_log = []\<rparr>) = Inr (release, digest) \<and> name \<in> hf_Path ` set (rd_Files release))"
      using at \<open>objects ?w ?descriptor = objects w ?descriptor\<close> by simp
  qed
  then show ?case by simp
qed simp

text \<open>After a release was published, its descriptor lives through an observation, a collection and another commit.\<close>

lemma memory_release_stored:
  assumes "snd (loadRelease lib memory_env repository tree \<lparr>s3_world = w, s3_log = []\<rparr>) = Inr r"
  shows "map_of w (releaseDescriptorKey repository tree) \<noteq> None"
  using assms by (auto simp: loadRelease_def get_or_fail_def s3_Get_def andThen_def s3_call_def s3_lift_def ok_def fail_def memory_env_def memory_client_def
      split: prod.splits sum.splits option.splits)

theorem published_objects_never_change_witness:
  "map_of (fold (adapter_run chart_lib memory_env chart_repository)
      [Operate DoObserve, CollectCall 1 \<lparr>ret_KeepTrees = [zeros], ret_DryRun = False\<rparr>, Operate (DoCommit chart_staged chart_expected)]
      (s3_world (fst chart_commit))) (releaseDescriptorKey chart_repository zeros) \<noteq> None"
proof -
  obtain object where stored: "map_of (s3_world (fst chart_commit)) (releaseDescriptorKey chart_repository zeros) = Some object"
    using memory_release_stored [OF chart_committed(4)] by blast
  have "''index.yaml'' \<in> hf_Path ` set (rd_Files (releaseDescriptorFromPublication chart_publication))" by code_simp
  then show ?thesis
    using published_objects_never_change [OF memory_honest chart_hex chart_keys(1-4,3) _ stored, where calls = "[Operate DoObserve,
        CollectCall 1 \<lparr>ret_KeepTrees = [zeros], ret_DryRun = False\<rparr>, Operate (DoCommit chart_staged chart_expected)]"]
      chart_committed(4) memory_reads stored by simp
qed

end
