(* ===== verification/Lock_Shard.thy ===== *)
theory Lock_Shard
  imports Lock_Store Effects Slash_Paths
begin

section \<open>The lock on disk\<close>

text \<open>
  \<^verbatim>\<open>internal/state/lockshard.go\<close>, \<^verbatim>\<open>internal/state/locksize.go\<close> and the functions \<^verbatim>\<open>LoadLock\<close>,
  \<^verbatim>\<open>WriteLock\<close> and \<^verbatim>\<open>atomicWrite\<close> of \<^verbatim>\<open>internal/state/store.go\<close>: a lock in one file, or in one file per
  package below a root that names them and a digest over the set. The disk has named files and
  directories; a list of faults says which of the calls to come fail, so that an error return at any point, and
  with it the state a crash leaves there, is some list. A call that fails changes nothing; a temporary file
  is outside the named ones until it is renamed. SHA-256, the TOML codecs, the order in which Go walks a map,
  and the environment variable are a record of parameters. Shards read side by side are read in the
  order of the index, which is the order their errors are reported in.
\<close>

datatype shard_error = LockPath path_error | LockTooLarge | ShardIndexEdited | ShardLeavesDirectory gostring
  | ShardUnreadable gostring | ShardDigest gostring | ShardUndecodable gostring | ShardPackage gostring gostring
  | InvalidLockSchema | LockUnreadable | LockUndecodable | SchemaOneOrigin | LockEncode | LockCall gostring

definition LockShardSchema :: int where "LockShardSchema = 3"
definition LockShardThreshold :: nat where "LockShardThreshold = 2000"

record lockShardEntry =
  se_Package :: gostring
  se_Path :: gostring
  se_SHA256 :: gostring

record lockRoot =
  sr_SchemaVersion :: int
  sr_Repository :: gostring
  sr_Placement :: "Placement list"
  sr_MerkleRoot :: gostring
  sr_Shard :: "lockShardEntry list"

record lockShard =
  sh_Package :: gostring
  sh_PackageVersion :: "PackageVersion list"

record shard_lib =
  sl_sha256 :: "gostring \<Rightarrow> gostring"
  sl_marshalLock :: "RepositoryLock \<Rightarrow> gostring option"
  sl_unmarshalLock :: "gostring \<Rightarrow> RepositoryLock option"
  sl_marshalRoot :: "lockRoot \<Rightarrow> gostring option"
  sl_unmarshalRoot :: "gostring \<Rightarrow> lockRoot option"
  sl_marshalShard :: "lockShard \<Rightarrow> gostring option"
  sl_unmarshalShard :: "gostring \<Rightarrow> lockShard option"
  sl_order :: "gostring list \<Rightarrow> gostring list"
  sl_environment :: gostring

subsection \<open>The disk\<close>

record lock_disk =
  ld_files :: "(gostring \<times> gostring) list"
  ld_dirs :: "gostring list"
  ld_faults :: "bool list"

definition disk_read :: "lock_disk \<Rightarrow> gostring \<Rightarrow> gostring option" where
  "disk_read disk name = map_of (ld_files disk) name"

definition disk_remove :: "gostring \<Rightarrow> lock_disk \<Rightarrow> lock_disk" where
  "disk_remove name disk = disk\<lparr>ld_files := filter (\<lambda>f. fst f \<noteq> name) (ld_files disk)\<rparr>"

definition disk_write :: "gostring \<Rightarrow> gostring \<Rightarrow> lock_disk \<Rightarrow> lock_disk" where
  "disk_write name content disk = (disk_remove name disk)\<lparr>ld_files := (name, content) # ld_files (disk_remove name disk)\<rparr>"

definition disk_mkdir :: "gostring \<Rightarrow> lock_disk \<Rightarrow> lock_disk" where
  "disk_mkdir name disk = disk\<lparr>ld_dirs := name # ld_dirs disk\<rparr>"

text \<open>A name exists when something is at it or below it.\<close>

definition disk_exists :: "lock_disk \<Rightarrow> gostring \<Rightarrow> bool" where
  "disk_exists disk name = list_ex (\<lambda>n. n = name \<or> has_prefix n (name @ ''/'')) (map fst (ld_files disk) @ ld_dirs disk)"

definition io_call :: "gostring \<Rightarrow> (lock_disk \<Rightarrow> lock_disk) \<Rightarrow> (lock_disk, shard_error, unit) eff" where
  "io_call what f = (\<lambda>disk. case ld_faults disk of
      [] \<Rightarrow> (f disk, Inr ())
    | fault # faults \<Rightarrow> if fault then (disk\<lparr>ld_faults := faults\<rparr>, Inl (LockCall what)) else ((f disk)\<lparr>ld_faults := faults\<rparr>, Inr ()))"

definition io_calls :: "gostring list \<Rightarrow> (lock_disk, shard_error, unit) eff" where
  "io_calls whats = each (\<lambda>what. io_call what id) whats"

definition state_atomicWrite :: "gostring \<Rightarrow> gostring \<Rightarrow> (lock_disk, shard_error, unit) eff" where
  "state_atomicWrite name content =
     andThen (io_call ''directories'' (disk_mkdir (path_dir name))) (\<lambda>_.
     andThen (io_calls [''create'', ''chmod'', ''write'', ''sync'', ''close'']) (\<lambda>_.
     andThen (io_call ''rename'' (disk_write name content)) (\<lambda>_.
     io_call ''sync directory'' id)))"

subsection \<open>Names and digests of shards\<close>

definition path_ext :: "gostring \<Rightarrow> gostring" where
  "path_ext s = (let base = rev (takeWhile (\<lambda>c. c \<noteq> CHR ''/'') (rev s)) in
     if CHR ''.'' \<in> set base then CHR ''.'' # rev (takeWhile (\<lambda>c. c \<noteq> CHR ''.'') (rev base)) else [])"

definition shardDirectory :: "gostring \<Rightarrow> gostring" where
  "shardDirectory lockPath = trim_suffix lockPath (path_ext lockPath) @ ''.d''"

text \<open>
  The letters of the lower-cased name that go into a slug. Two letters beyond ASCII have an ASCII letter as
  their lower case: U+212A, the Kelvin sign, and U+0130, the capital I with a dot.
\<close>

fun slug_letters :: "gostring \<Rightarrow> gostring" where
  "slug_letters [] = []"
| "slug_letters (c # cs) =
     (if is_lower (to_lower_char c) \<or> is_digit c then to_lower_char c # slug_letters cs
      else if c \<in> {CHR ''-'', CHR ''_'', CHR ''.'', CHR ''+''} then CHR ''-'' # slug_letters cs
      else if has_prefix (c # cs) [CHR 0xE2, CHR 0x84, CHR 0xAA] then CHR ''k'' # slug_letters cs
      else if has_prefix (c # cs) [CHR 0xC4, CHR 0xB0] then CHR ''i'' # slug_letters cs
      else slug_letters cs)"

definition shardSlug :: "gostring \<Rightarrow> gostring" where
  "shardSlug packageName = trim (\<lambda>c. c = CHR ''-'') (take 48 (slug_letters packageName))"

definition shardRelativePath :: "shard_lib \<Rightarrow> gostring \<Rightarrow> gostring" where
  "shardRelativePath lib packageName =
     (let digest = sl_sha256 lib packageName; slug = shardSlug packageName in
      if slug = [] then path_join [take 2 digest, take 12 digest @ ''.toml'']
      else path_join [take 2 digest, slug @ ''-'' @ take 12 digest @ ''.toml''])"

definition merkle_line :: "lockShardEntry \<Rightarrow> gostring" where
  "merkle_line entry = se_Package entry @ nul @ se_Path entry @ nul @ se_SHA256 entry @ [CHR 0x0A]"

definition merkleRoot :: "shard_lib \<Rightarrow> lockShardEntry list \<Rightarrow> gostring" where
  "merkleRoot lib entries = sl_sha256 lib (concat (map merkle_line (sort_key se_Package entries)))"

definition looksSharded :: "shard_lib \<Rightarrow> gostring \<Rightarrow> lockRoot option" where
  "looksSharded lib content = (case sl_unmarshalRoot lib content of None \<Rightarrow> None
     | Some root \<Rightarrow> if sr_SchemaVersion root = LockShardSchema then Some root else None)"

definition shouldShard :: "lock_disk \<Rightarrow> gostring \<Rightarrow> RepositoryLock \<Rightarrow> bool" where
  "shouldShard disk lockPath lock \<longleftrightarrow> length (lock_PackageVersion lock) > LockShardThreshold \<or> disk_exists disk (shardDirectory lockPath)"

text \<open>The map Go fills from the index; a path that is not in it reads as the empty string.\<close>

definition previousShardDigests :: "shard_lib \<Rightarrow> lock_disk \<Rightarrow> gostring \<Rightarrow> gostring \<Rightarrow> gostring" where
  "previousShardDigests lib disk lockPath relative =
     (case disk_read disk lockPath of None \<Rightarrow> [] | Some content \<Rightarrow>
      case looksSharded lib content of None \<Rightarrow> [] | Some root \<Rightarrow>
      case map_of (rev (map (\<lambda>entry. (se_Path entry, se_SHA256 entry)) (sr_Shard root))) relative of None \<Rightarrow> [] | Some digest \<Rightarrow> digest)"

subsection \<open>Writing\<close>

definition writeShardFile :: "gostring \<Rightarrow> gostring \<Rightarrow> (lock_disk, shard_error, unit) eff" where
  "writeShardFile name content =
     andThen (io_calls [''create'', ''chmod'', ''write'', ''close'']) (\<lambda>_. io_call ''rename'' (disk_write name content))"

definition syncPath :: "gostring \<Rightarrow> (lock_disk, shard_error, unit) eff" where
  "syncPath name = io_calls [''open'', ''sync'', ''close'']"

definition syncPaths :: "gostring list \<Rightarrow> (lock_disk, shard_error, unit) eff" where
  "syncPaths names = andThen (each syncPath names) (\<lambda>_. each syncPath (remdups (map path_dir names)))"

definition removeStaleShards :: "gostring \<Rightarrow> gostring list \<Rightarrow> (lock_disk, shard_error, unit) eff" where
  "removeStaleShards directory keep =
     andThen (io_call ''walk'' id) (\<lambda>_.
     andThen (gets (\<lambda>disk. sort (filter (\<lambda>n. has_prefix n (directory @ ''/'')) (map fst (ld_files disk))))) (each (\<lambda>name.
       if \<not> has_suffix name ''.toml'' then ok ()
       else case path_rel directory name of None \<Rightarrow> fail (LockCall ''rel'')
       | Some relative \<Rightarrow> if relative \<in> set keep then ok () else io_call ''remove'' (disk_remove name))))"

definition versions_of :: "RepositoryLock \<Rightarrow> gostring \<Rightarrow> PackageVersion list" where
  "versions_of lock packageName = filter (\<lambda>pv. pv_Package pv = packageName) (lock_PackageVersion lock)"

definition shard_of :: "RepositoryLock \<Rightarrow> gostring \<Rightarrow> lockShard" where
  "shard_of lock packageName = \<lparr>sh_Package = packageName, sh_PackageVersion = versions_of lock packageName\<rparr>"

text \<open>The loop over the packages, with the directories created, the files changed and the entries so far.\<close>

primrec write_shards :: "shard_lib \<Rightarrow> gostring \<Rightarrow> (gostring \<Rightarrow> gostring) \<Rightarrow> RepositoryLock \<Rightarrow> gostring list \<Rightarrow>
    gostring list \<Rightarrow> gostring list \<Rightarrow> lockShardEntry list \<Rightarrow> (lock_disk, shard_error, gostring list \<times> lockShardEntry list) eff" where
  "write_shards lib directory previous lock [] created changed entries = ok (changed, entries)"
| "write_shards lib directory previous lock (packageName # packages) created changed entries =
     (let relative = shardRelativePath lib packageName in
      case sl_marshalShard lib (shard_of lock packageName) of None \<Rightarrow> fail LockEncode
      | Some encoded \<Rightarrow>
        (let name = path_join [directory, relative]; parent = path_dir name; digest = sl_sha256 lib encoded;
             rewritten = (previous relative \<noteq> digest) in
         andThen (if parent \<in> set created then ok () else io_call ''mkdir'' (disk_mkdir parent)) (\<lambda>_.
         andThen (if rewritten then writeShardFile name encoded else ok ()) (\<lambda>_.
         write_shards lib directory previous lock packages (parent # created) (if rewritten then changed @ [name] else changed)
           (entries @ [\<lparr>se_Package = packageName, se_Path = relative, se_SHA256 = digest\<rparr>])))))"

definition writeShardedLock :: "shard_lib \<Rightarrow> gostring \<Rightarrow> RepositoryLock \<Rightarrow> (lock_disk, shard_error, unit) eff" where
  "writeShardedLock lib lockPath lock =
     (let directory = shardDirectory lockPath; packages = sl_order lib (remdups (map pv_Package (lock_PackageVersion lock))) in
      andThen (gets (\<lambda>disk. previousShardDigests lib disk lockPath)) (\<lambda>previous.
      andThen (write_shards lib directory previous lock packages [] [] []) (\<lambda>(changed, entries).
      andThen (removeStaleShards directory (map se_Path entries)) (\<lambda>_.
      (let entries = sort_key se_Package entries;
           root = \<lparr>sr_SchemaVersion = LockShardSchema, sr_Repository = lock_Repository lock, sr_Placement = lock_Placement lock,
             sr_MerkleRoot = merkleRoot lib entries, sr_Shard = entries\<rparr> in
       case sl_marshalRoot lib root of None \<Rightarrow> fail LockEncode
       | Some encoded \<Rightarrow> andThen (syncPaths changed) (\<lambda>_. state_atomicWrite lockPath encoded))))))"

definition WriteLock :: "shard_lib \<Rightarrow> file_system \<Rightarrow> gostring \<Rightarrow> Repository \<Rightarrow> RepositoryLock \<Rightarrow> (lock_disk, shard_error, unit) eff" where
  "WriteLock lib fs root repository lock =
     (let lock = canonicalizeLock (lock\<lparr>lock_SchemaVersion := LockSchema\<rparr>) in
      case WorkspacePath fs root (repo_Lock repository) of Inl e \<Rightarrow> fail (LockPath e)
      | Inr name \<Rightarrow>
        andThen (gets (\<lambda>disk. shouldShard disk name lock)) (\<lambda>sharded.
        if sharded then writeShardedLock lib name lock
        else case sl_marshalLock lib lock of None \<Rightarrow> fail LockEncode
          | Some encoded \<Rightarrow> state_atomicWrite name encoded))"

subsection \<open>Reading\<close>

definition DefaultMaxLockBytes :: int where "DefaultMaxLockBytes = 128 * 2 ^ 20"

definition maxLockBytes :: "shard_lib \<Rightarrow> int" where
  "maxLockBytes lib =
     (if sl_environment lib = [] then DefaultMaxLockBytes
      else case parse_int 64 (sl_environment lib) of None \<Rightarrow> DefaultMaxLockBytes
        | Some parsed \<Rightarrow> if parsed \<le> 0 then DefaultMaxLockBytes else parsed)"

definition requireLockWithinLimit :: "shard_lib \<Rightarrow> int \<Rightarrow> shard_error option" where
  "requireLockWithinLimit lib given = (if given \<le> maxLockBytes lib then None else Some LockTooLarge)"

definition read_shard :: "shard_lib \<Rightarrow> lock_disk \<Rightarrow> gostring \<Rightarrow> lockShardEntry \<Rightarrow> shard_error + int \<times> PackageVersion list" where
  "read_shard lib disk directory entry =
     (case disk_read disk (path_join [directory, se_Path entry]) of None \<Rightarrow> Inl (ShardUnreadable (se_Package entry))
      | Some content \<Rightarrow>
        if sl_sha256 lib content \<noteq> se_SHA256 entry then Inl (ShardDigest (se_Package entry))
        else case sl_unmarshalShard lib content of None \<Rightarrow> Inl (ShardUndecodable (se_Package entry))
        | Some shard \<Rightarrow> if sh_Package shard \<noteq> se_Package entry then Inl (ShardPackage (se_Package entry) (sh_Package shard))
          else Inr (int (length content), sh_PackageVersion shard))"

primrec read_shards :: "shard_lib \<Rightarrow> lock_disk \<Rightarrow> gostring \<Rightarrow> int \<Rightarrow> lockShardEntry list \<Rightarrow> shard_error + PackageVersion list" where
  "read_shards lib disk directory sum_so_far [] = Inr []"
| "read_shards lib disk directory sum_so_far (entry # entries) =
     andR (read_shard lib disk directory entry) (\<lambda>(bytes, versions).
     andR (noError id (requireLockWithinLimit lib (sum_so_far + bytes))) (\<lambda>_.
     andR (read_shards lib disk directory (sum_so_far + bytes) entries) (\<lambda>rest. Inr (versions @ rest))))"

definition leaves_directory :: "lockShardEntry \<Rightarrow> bool" where
  "leaves_directory entry \<longleftrightarrow> contains_sub (se_Path entry) ''..'' \<or> has_prefix (se_Path entry) ''/''"

definition readShardedLock :: "shard_lib \<Rightarrow> lock_disk \<Rightarrow> gostring \<Rightarrow> lockRoot \<Rightarrow> shard_error + RepositoryLock" where
  "readShardedLock lib disk lockPath root =
     (if merkleRoot lib (sr_Shard root) \<noteq> sr_MerkleRoot root then Inl ShardIndexEdited
      else case find leaves_directory (sr_Shard root) of Some entry \<Rightarrow> Inl (ShardLeavesDirectory (se_Path entry))
      | None \<Rightarrow> andR (read_shards lib disk (shardDirectory lockPath) 0 (sr_Shard root)) (\<lambda>versions.
          Inr \<lparr>lock_SchemaVersion = LockSchema, lock_Repository = sr_Repository root, lock_PackageVersion = versions,
            lock_Placement = sr_Placement root\<rparr>))"

definition has_origin :: "RepositoryLock \<Rightarrow> bool" where
  "has_origin lock = list_ex (\<lambda>pv. list_ex (\<lambda>b. blob_Origin b \<noteq> None) (pv_Blobs pv)) (lock_PackageVersion lock)"

definition decode_lock :: "shard_lib \<Rightarrow> gostring \<Rightarrow> shard_error + RepositoryLock" where
  "decode_lock lib content =
     andR (someR (sl_unmarshalLock lib content) LockUndecodable) (\<lambda>lock.
     andR (requireR (\<not> (lock_SchemaVersion lock = 1 \<and> has_origin lock)) SchemaOneOrigin) (\<lambda>_.
     (let lock = (if lock_SchemaVersion lock = 1 then lock\<lparr>lock_SchemaVersion := LockSchema\<rparr> else lock) in
      if lock_SchemaVersion lock \<noteq> LockSchema \<or> lock_Repository lock = [] then Inl InvalidLockSchema
      else Inr (canonicalizeLock lock))))"

definition LoadLock :: "shard_lib \<Rightarrow> file_system \<Rightarrow> lock_disk \<Rightarrow> gostring \<Rightarrow> Repository \<Rightarrow> shard_error + RepositoryLock" where
  "LoadLock lib fs disk root repository =
     (case WorkspacePath fs root (repo_Lock repository) of Inl e \<Rightarrow> Inl (LockPath e)
      | Inr name \<Rightarrow> (case disk_read disk name of None \<Rightarrow> Inl LockUnreadable
        | Some content \<Rightarrow>
          andR (noError id (requireLockWithinLimit lib (int (length content)))) (\<lambda>_.
          (case looksSharded lib content of
            Some index \<Rightarrow> andR (readShardedLock lib disk name index) (\<lambda>lock.
              if lock_Repository lock = [] then Inl InvalidLockSchema else Inr (canonicalizeLock lock))
          | None \<Rightarrow> decode_lock lib content))))"

end
