(* ===== verification/Lock_Shard_Paths.thy ===== *)
theory Lock_Shard_Paths
  imports Lock_Shard
begin

section \<open>Where the shards of a lock are\<close>

text \<open>
  The names \<^verbatim>\<open>internal/state/lockshard.go\<close> derives: for a lock inside a workspace the directory of its shards is
  beside it, every shard is strictly below that directory and is found again by its relative path, and
  the lock itself is not below it.
\<close>

subsection \<open>Strings\<close>

lemma contains_sub_iff: "contains_sub s t \<longleftrightarrow> (\<exists>u v. s = u @ t @ v)"
proof (induction s)
  case (Cons c s)
  have "(\<exists>u v. c # s = u @ t @ v) \<longleftrightarrow> (\<exists>v. c # s = t @ v) \<or> (\<exists>u v. s = u @ t @ v)"
    by (metis append_Cons append_Nil list.exhaust list.inject)
  then show ?case using Cons.IH by (simp add: has_prefix_iff)
qed simp

lemma slug_letters_plain: "c \<in> set (slug_letters s) \<Longrightarrow> is_lower c \<or> is_digit c \<or> c = CHR ''-''"
proof (induction s rule: slug_letters.induct)
  case (2 x xs)
  have "is_lower CHR ''k''" "is_lower CHR ''i''" by code_simp+
  moreover have "to_lower_char x = x" if "is_digit x"
    using that by (auto simp: to_lower_char_def is_digit_def is_upper_def less_eq_char_def)
  ultimately show ?case using 2 by (auto split: if_splits)
qed simp

lemma trim_set: "set (trim p s) \<subseteq> set s"
  unfolding trim_def trim_right_def trim_left_def by (auto dest!: set_dropWhileD)

lemma shardSlug_plain: "c \<in> set (shardSlug s) \<Longrightarrow> is_lower c \<or> is_digit c \<or> c = CHR ''-''"
  unfolding shardSlug_def by (auto dest!: subsetD [OF trim_set] in_set_takeD slug_letters_plain)

subsection \<open>The relative path of a shard\<close>

definition shard_letter :: "char \<Rightarrow> bool" where
  "shard_letter c \<longleftrightarrow> is_lower c \<or> is_digit c \<or> c = CHR ''-''"

lemma shard_letter_not: "\<not> shard_letter (CHR ''.'')" "\<not> shard_letter (CHR ''/'')"
  by code_simp+

lemma lower_hex_letter: "lower_hex c \<Longrightarrow> shard_letter c"
  by (auto simp: lower_hex_def shard_letter_def is_lower_def less_eq_char_def)

definition shard_path :: "gostring \<Rightarrow> gostring \<Rightarrow> gostring \<Rightarrow> bool" where
  "shard_path relative directory stem \<longleftrightarrow> relative = slashed [directory, stem @ ''.toml''] \<and>
     length directory = 2 \<and> list_all shard_letter directory \<and> stem \<noteq> [] \<and> list_all shard_letter stem"

lemma letters_plain: "list_all shard_letter s \<Longrightarrow> s \<noteq> [] \<Longrightarrow> plain_element s \<and> plain_element (s @ ''.toml'')"
  using shard_letter_not by (cases s) (auto simp: plain_element_def list_all_iff)

lemma shardRelativePath_shape:
  assumes "ValidSHA256 (sl_sha256 lib packageName)"
  obtains directory stem where "shard_path (shardRelativePath lib packageName) directory stem"
proof -
  let ?digest = "sl_sha256 lib packageName"
  define stem where "stem = (if shardSlug packageName = [] then take 12 ?digest else shardSlug packageName @ ''-'' @ take 12 ?digest)"
  have digest: "length ?digest = 64" "list_all shard_letter ?digest"
    using assms lower_hex_letter by (auto simp: ValidSHA256_iff list_all_iff)
  have parts: "list_all shard_letter (take 2 ?digest)" "list_all shard_letter (take 12 ?digest)" "list_all shard_letter (shardSlug packageName)"
    using digest shardSlug_plain by (auto simp: list_all_iff shard_letter_def dest!: in_set_takeD)
  have "shard_letter (CHR ''-'')" by code_simp
  then have "list_all shard_letter stem" and "stem \<noteq> []" using parts digest by (auto simp: stem_def)
  moreover have "take 2 ?digest \<noteq> []" and "length (take 2 ?digest) = 2" using digest by auto
  moreover have "shardRelativePath lib packageName = slashed [take 2 ?digest, stem @ ''.toml'']"
    unfolding shardRelativePath_def stem_def Let_def
    using path_join_plain [of "[take 2 ?digest, stem @ ''.toml'']"] letters_plain [OF parts(1)] letters_plain [of stem] calculation
    by (simp add: stem_def split: if_splits)
  ultimately show ?thesis using that [of "take 2 ?digest" stem] parts(1) by (simp add: shard_path_def)
qed

lemma shard_path_stays:
  assumes "shard_path relative directory stem"
  shows "\<not> contains_sub relative ''..''" and "\<not> has_prefix relative ''/''" and "has_suffix relative ''.toml''"
proof -
  let ?dots = "\<lambda>s. length (filter (\<lambda>c. c = CHR ''.'') s)"
  have "?dots directory = 0" "?dots stem = 0" using assms shard_letter_not by (auto simp: shard_path_def list_all_iff filter_empty_conv)
  then have "?dots relative = 1" using assms by (simp add: shard_path_def)
  then show "\<not> contains_sub relative ''..''" by (auto simp: contains_sub_iff)
  show "\<not> has_prefix relative ''/''" using assms shard_letter_not by (cases directory) (auto simp: shard_path_def)
  show "has_suffix relative ''.toml''" using assms by (simp add: shard_path_def has_suffix_def)
qed

subsection \<open>The directory of the shards\<close>

definition lock_name :: "gostring \<Rightarrow> bool" where
  "lock_name name \<longleftrightarrow> (\<exists>es b. list_all plain_element (es @ [b]) \<and> name = ''/'' @ slashed (es @ [b]))"

lemma WorkspacePath_name:
  assumes "WorkspacePath fs root relative = Inr name" and "fs_eval fs root = Some resolved" and "is_abs resolved"
  shows "lock_name name"
proof -
  have valid: "validateRelativePath relative = None" and name: "name = path_join [resolved, relative]"
    using assms by (auto simp: WorkspacePath_def Let_def split: option.splits sum.splits if_splits)
  have ne: "resolved \<noteq> []" using assms(3) by (auto simp: is_abs_def)
  have elements: "path_elements name = path_elements resolved @ path_elements relative"
    using candidate_elements [OF assms(3) valid] name by simp
  have plain: "list_all plain_element (path_elements name)" and some: "path_elements relative \<noteq> []"
    using validateRelativePath_elements [OF valid] path_elements_abs [OF assms(3)] elements by auto
  have "is_abs (resolved @ ''/'' @ relative)" using assms(3) is_abs_append [OF ne] by simp
  then have "name = ''/'' @ slashed (path_elements name)"
    using name ne by (simp add: path_join_def path_elements_clean) (simp add: path_clean_def)
  moreover obtain es b where "path_elements name = es @ [b]" using some elements by (metis append_is_Nil_conv rev_exhaust)
  ultimately show ?thesis using plain unfolding lock_name_def by metis
qed

lemma path_ext_split:
  assumes "CHR ''/'' \<notin> set b"
  shows "\<exists>stem. b = stem @ path_ext b"
proof -
  have "takeWhile (\<lambda>c. c \<noteq> CHR ''/'') (rev b) = rev b" by (rule takeWhile_eq_all_conv [THEN iffD2]) (use assms in auto)
  then have base: "rev (takeWhile (\<lambda>c. c \<noteq> CHR ''/'') (rev b)) = b" by (metis rev_rev_ident)
  show ?thesis
  proof (cases "CHR ''.'' \<in> set b")
    case True
    then obtain stem rest where "b = stem @ CHR ''.'' # rest" "CHR ''.'' \<notin> set rest" using split_list_last by metis
    moreover from this have "takeWhile (\<lambda>c. c \<noteq> CHR ''.'') (rev b) = rev rest" by (simp add: takeWhile_append)
    ultimately show ?thesis using base True by (auto simp: path_ext_def)
  qed (simp add: path_ext_def base)
qed

lemma path_ext_base: "CHR ''/'' \<notin> set b \<Longrightarrow> path_ext (p @ ''/'' @ b) = path_ext b"
proof -
  assume b: "CHR ''/'' \<notin> set b"
  have "takeWhile (\<lambda>c. c \<noteq> CHR ''/'') (rev (p @ ''/'' @ b)) = rev b"
    using b by (simp add: takeWhile_append)
  moreover have "takeWhile (\<lambda>c. c \<noteq> CHR ''/'') (rev b) = rev b" using b by (auto intro: takeWhile_eq_all_conv [THEN iffD2])
  ultimately show ?thesis by (simp only: path_ext_def)
qed

lemma trim_suffix_append [simp]: "trim_suffix (s @ e) e = s"
  by (simp add: trim_suffix_def has_suffix_def)

lemma shardDirectory_shape:
  assumes "lock_name name"
  obtains ds where "list_all plain_element ds" "ds \<noteq> []" "shardDirectory name = ''/'' @ slashed ds"
    "\<not> has_prefix name (shardDirectory name @ ''/'')"
proof -
  obtain es b where plain: "list_all plain_element (es @ [b])" and name: "name = ''/'' @ slashed (es @ [b])"
    using assms by (auto simp: lock_name_def)
  define p where "p = (if es = [] then [] else ''/'' @ slashed es)"
  have split: "''/'' @ slashed (es @ [x]) = p @ ''/'' @ x" for x by (simp add: p_def slashed_append)
  have b: "CHR ''/'' \<notin> set b" using plain by (simp add: plain_element_def)
  obtain stem where stem: "b = stem @ path_ext b" using path_ext_split [OF b] by blast
  have ext: "path_ext name = path_ext b" using name split path_ext_base [OF b] by metis
  have "name = (p @ ''/'' @ stem) @ path_ext name" using name split stem ext by (metis append.assoc)
  then have directory: "shardDirectory name = p @ ''/'' @ stem @ ''.d''"
    unfolding shardDirectory_def using trim_suffix_append by (metis append.assoc)
  have "CHR ''/'' \<notin> set stem" using b stem by (metis Un_iff set_append)
  then have "plain_element (stem @ ''.d'')" by (cases stem) (auto simp: plain_element_def)
  then have "list_all plain_element (es @ [stem @ ''.d''])" using plain by simp
  moreover have "shardDirectory name = ''/'' @ slashed (es @ [stem @ ''.d''])" using directory split by metis
  moreover have "\<not> has_prefix name (shardDirectory name @ ''/'')"
  proof
    assume "has_prefix name (shardDirectory name @ ''/'')"
    then have "has_prefix (p @ ''/'' @ stem @ path_ext b) (p @ ''/'' @ stem @ ''.d/'')"
      using name split stem directory by (metis (no_types, lifting) append.assoc append_Cons append_Nil)
    then have "has_prefix (path_ext b) ''.d/''" by (simp only: has_prefix_same)
    then have "CHR ''/'' \<in> set (path_ext b)" by (auto simp: has_prefix_iff)
    then show False using b stem by (metis Un_iff set_append)
  qed
  ultimately show ?thesis using that [of "es @ [stem @ ''.d'']"] by simp
qed

lemma strip_common_append: "strip_common ds (ds @ rs) = ([], rs)"
  by (induction ds) simp_all

text \<open>Every shard is below the directory and found again by its relative path.\<close>

definition shard_file :: "shard_lib \<Rightarrow> gostring \<Rightarrow> gostring \<Rightarrow> gostring" where
  "shard_file lib name packageName = path_join [shardDirectory name, shardRelativePath lib packageName]"

lemma shard_file_below:
  assumes "lock_name name" and "ValidSHA256 (sl_sha256 lib packageName)"
  shows "shard_file lib name packageName = shardDirectory name @ ''/'' @ shardRelativePath lib packageName"
    and "path_rel (shardDirectory name) (shard_file lib name packageName) = Some (shardRelativePath lib packageName)"
    and "shard_file lib name packageName \<noteq> name"
proof -
  obtain ds where ds: "list_all plain_element ds" "ds \<noteq> []" "shardDirectory name = ''/'' @ slashed ds"
    "\<not> has_prefix name (shardDirectory name @ ''/'')" using shardDirectory_shape [OF assms(1)] .
  obtain d stem where shape: "shard_path (shardRelativePath lib packageName) d stem" using shardRelativePath_shape [OF assms(2)] .
  define rs where "rs = [d, stem @ ''.toml'']"
  have rs: "list_all plain_element rs" "rs \<noteq> []" "shardRelativePath lib packageName = slashed rs"
    using shape letters_plain [of d] letters_plain [of stem] by (cases d; auto simp: shard_path_def rs_def)+
  have below: "shardDirectory name @ ''/'' @ slashed rs = ''/'' @ slashed (ds @ rs)" using ds rs by (simp add: slashed_append)
  have elements: "path_elements (''/'' @ slashed (ds @ rs)) = ds @ rs" using ds rs path_elements_join by simp
  have clean: "path_clean (''/'' @ slashed (ds @ rs)) = ''/'' @ slashed (ds @ rs)"
    using elements by (simp add: path_clean_def is_abs_def)
  show at_name: "shard_file lib name packageName = shardDirectory name @ ''/'' @ shardRelativePath lib packageName"
    using clean below ds(3) rs(3) by (simp add: shard_file_def path_join_def)
  have "path_elements (shardDirectory name) = ds" using ds path_elements_join by simp
  then show "path_rel (shardDirectory name) (shard_file lib name packageName) = Some (shardRelativePath lib packageName)"
    using at_name below elements rs ds(3) strip_common_append by (simp add: path_rel_def is_abs_def)
  show "shard_file lib name packageName \<noteq> name" using ds(4) at_name by (metis has_prefix_append append.assoc)
qed

lemma shard_file_inject:
  assumes "lock_name name" and "\<And>p. ValidSHA256 (sl_sha256 lib p)" and "inj_on (shardRelativePath lib) ps"
  shows "inj_on (shard_file lib name) ps"
  using assms(3) shard_file_below(1) [OF assms(1,2)] by (auto simp: inj_on_def)

end
