(* ===== verification/Lock_Shard_Safety.thy ===== *)
theory Lock_Shard_Safety
  imports Lock_Shard_Paths Lock_Safety
begin

section \<open>What a write of the lock leaves\<close>

text \<open>
  The calls of \<^verbatim>\<open>internal/state/lockshard.go\<close> on the disk, one lemma each, and from them what the disk
  holds after a write that succeeded and after one that failed at any call. Loading the lock then gives what was
  written, or refuses, or gives what was there before.
\<close>

subsection \<open>Sorting and grouping\<close>

lemma sort_key_map: "sort_key f (map g xs) = map g (sort_key (\<lambda>x. f (g x)) xs)"
proof -
  have "insort_key f (g x) (map g ys) = map g (insort_key (\<lambda>x. f (g x)) x ys)" for x ys by (induction ys) simp_all
  then show ?thesis by (induction xs) simp_all
qed

lemma filter_groups:
  "distinct ks \<Longrightarrow> filter (\<lambda>x. f x = k) (concat (map (\<lambda>k. filter (\<lambda>x. f x = k) xs) ks)) = (if k \<in> set ks then filter (\<lambda>x. f x = k) xs else [])"
  by (induction ks) (auto simp: filter_empty_conv intro!: filter_cong)

lemma sorted_group: "sorted (map f (filter (\<lambda>x. f x = k) xs))"
  by (induction xs) auto

lemma sorted_groups: "sorted ks \<Longrightarrow> sorted (map f (concat (map (\<lambda>k. filter (\<lambda>x. f x = k) xs) ks)))"
  by (induction ks) (auto simp: sorted_append sorted_group)

lemma concat_groups:
  assumes "sorted (map f xs)" and "set ks = f ` set xs" and "distinct ks"
  shows "concat (map (\<lambda>k. filter (\<lambda>x. f x = k) xs) (sort ks)) = xs" (is "?ys = _")
proof -
  have group: "filter (\<lambda>x. f x = k) ?ys = filter (\<lambda>x. f x = k) xs" for k
  proof -
    have "filter (\<lambda>x. f x = k) xs = []" if "k \<notin> f ` set xs" using that by (auto simp: filter_empty_conv)
    then show ?thesis using filter_groups [of "sort ks" f k xs] assms(2,3) by (cases "k \<in> f ` set xs") simp_all
  qed
  have "count (mset ?ys) x = count (mset xs) x" for x
  proof -
    have "count (mset ys) x = count (mset (filter (\<lambda>y. f y = f x) ys)) x" for ys by (simp add: count_mset)
    then show ?thesis using group by metis
  qed
  then have "mset ?ys = mset xs" by (rule multiset_eqI)
  moreover have "filter (\<lambda>x. f k = f x) ?ys = filter (\<lambda>x. f k = f x) xs" for k
    using group [of "f k"] by (simp add: eq_commute)
  ultimately have "sort_key f xs = ?ys" by (intro properties_for_sort_key sorted_groups) auto
  then show ?thesis using sort_key_id_if_sorted [OF assms(1)] by simp
qed

subsection \<open>Calls\<close>

lemma disk_read_simps [simp]:
  "disk_read (disk_write n c disk) = (disk_read disk)(n \<mapsto> c)"
  "disk_read (disk_remove n disk) = (disk_read disk)(n := None)"
  "disk_read (disk_mkdir n disk) = disk_read disk" "disk_read (disk\<lparr>ld_faults := faults\<rparr>) = disk_read disk"
proof -
  have "map_of (filter (\<lambda>f. fst f \<noteq> n) fs) = (map_of fs)(n := None)" for fs :: "(gostring \<times> gostring) list"
    by (induction fs) (auto simp: fun_eq_iff)
  then show "disk_read (disk_remove n disk) = (disk_read disk)(n := None)" and "disk_read (disk_write n c disk) = (disk_read disk)(n \<mapsto> c)"
    by (auto simp: disk_read_def disk_remove_def disk_write_def fun_eq_iff)
qed (simp_all add: disk_read_def disk_mkdir_def fun_eq_iff)

text \<open>What code leaves in the files, on a return and on an error.\<close>

definition leaves :: "lock_disk \<Rightarrow> (lock_disk, shard_error, 'a) eff \<Rightarrow> ('a \<Rightarrow> (gostring \<rightharpoonup> gostring) \<Rightarrow> bool) \<Rightarrow> ((gostring \<rightharpoonup> gostring) \<Rightarrow> bool) \<Rightarrow> bool" where
  "leaves s m Q E = runs m s (\<lambda>a s'. Q a (disk_read s')) (\<lambda>s'. E (disk_read s'))"

lemma leaves_conseq: "leaves s m Q E \<Longrightarrow> (\<And>a f. Q a f \<Longrightarrow> Q' a f) \<Longrightarrow> (\<And>f. E f \<Longrightarrow> E' f) \<Longrightarrow> leaves s m Q' E'"
  unfolding leaves_def by (erule runs_conseq) auto

lemma leaves_ok [simp]: "leaves s (ok a) Q E = Q a (disk_read s)" "leaves s (fail e) Q E = E (disk_read s)"
  "leaves s (gets g) Q E = Q (g s) (disk_read s)"
  by (simp_all add: leaves_def)

lemma leaves_then:
  assumes "leaves s m Q E" and "\<And>a s'. Q a (disk_read s') \<Longrightarrow> leaves s' (f a) Q' E"
  shows "leaves s (andThen m f) Q' E"
  using assms unfolding leaves_def by (auto elim: runs_conseq)

lemma leaves_gets: "leaves s (f (g s)) Q E \<Longrightarrow> leaves s (andThen (gets g) f) Q E"
  by (simp add: leaves_def)

lemma leaves_call:
  assumes "\<And>s. disk_read (f s) = g (disk_read s)"
  shows "leaves s (io_call what f) (\<lambda>_ fs. fs = g (disk_read s)) (\<lambda>fs. fs = disk_read s)"
  using assms by (auto simp: leaves_def runs_def io_call_def split: list.split)

lemma leaves_each:
  assumes "I (disk_read s)" and "\<And>x s. x \<in> set xs \<Longrightarrow> I (disk_read s) \<Longrightarrow> leaves s (f x) (\<lambda>_. I) I"
  shows "leaves s (each f xs) (\<lambda>_. I) I"
  using assms unfolding leaves_def by (intro runs_each) auto

lemma leaves_calls: "leaves s (io_calls whats) (\<lambda>_ fs. fs = disk_read s) (\<lambda>fs. fs = disk_read s)"
  unfolding io_calls_def by (rule leaves_each) (auto intro: leaves_conseq [OF leaves_call [where g = id]])

lemma leaves_atomicWrite:
  "leaves s (state_atomicWrite name content) (\<lambda>_ fs. fs = (disk_read s)(name \<mapsto> content))
     (\<lambda>fs. fs = disk_read s \<or> fs = (disk_read s)(name \<mapsto> content))"
proof -
  let ?E = "\<lambda>fs. fs = disk_read s \<or> fs = (disk_read s)(name \<mapsto> content)" and ?same = "\<lambda>_ fs. fs = disk_read s"
  have "leaves s (io_call ''directories'' (disk_mkdir d)) ?same ?E" for d
    by (rule leaves_conseq [OF leaves_call [where g = id]]) simp_all
  moreover have "leaves s' (io_calls whats) ?same ?E" if "disk_read s' = disk_read s" for s' whats
    using leaves_conseq [OF leaves_calls] that by auto
  moreover have "leaves s' (io_call ''rename'' (disk_write name content)) (\<lambda>_ fs. fs = (disk_read s)(name \<mapsto> content)) ?E" if "disk_read s' = disk_read s" for s'
    by (rule leaves_conseq [OF leaves_call [where g = "\<lambda>fs. fs(name \<mapsto> content)"]]) (simp_all add: that)
  moreover have "leaves s' (io_call ''sync directory'' id) (\<lambda>_ fs. fs = (disk_read s)(name \<mapsto> content)) ?E" if "disk_read s' = (disk_read s)(name \<mapsto> content)" for s'
    by (rule leaves_conseq [OF leaves_call [where g = id]]) (simp_all add: that)
  ultimately show ?thesis unfolding state_atomicWrite_def by (intro leaves_then) assumption+
qed

lemma leaves_writeShardFile:
  "leaves s (writeShardFile name content) (\<lambda>_ fs. fs = (disk_read s)(name \<mapsto> content)) (\<lambda>fs. fs = disk_read s)"
  unfolding writeShardFile_def
  by (rule leaves_then leaves_calls leaves_conseq [OF leaves_call [where g = "\<lambda>fs. fs(name \<mapsto> content)"]] | simp)+

lemma leaves_syncPaths: "leaves s (syncPaths names) (\<lambda>_ fs. fs = disk_read s) (\<lambda>fs. fs = disk_read s)"
proof -
  have "leaves s (each syncPath xs) (\<lambda>_ fs. fs = disk_read s) (\<lambda>fs. fs = disk_read s)" for xs s
    unfolding syncPath_def by (rule leaves_each) (auto intro: leaves_conseq [OF leaves_calls])
  then show ?thesis unfolding syncPaths_def by (auto intro!: leaves_then intro: leaves_conseq)
qed

text \<open>Removing stale shards takes away files below the directory that are not to be kept.\<close>

definition cleared :: "gostring \<Rightarrow> gostring list \<Rightarrow> (gostring \<rightharpoonup> gostring) \<Rightarrow> (gostring \<rightharpoonup> gostring) \<Rightarrow> bool" where
  "cleared directory keep before after \<longleftrightarrow> (\<forall>n. after n = before n \<or>
     has_prefix n (directory @ ''/'') \<and> (\<forall>relative. path_rel directory n = Some relative \<longrightarrow> relative \<notin> set keep))"

lemma leaves_removeStaleShards:
  "leaves s (removeStaleShards directory keep) (\<lambda>_. cleared directory keep (disk_read s)) (cleared directory keep (disk_read s))"
proof -
  have removed: "leaves s' (io_call ''remove'' (disk_remove n)) (\<lambda>_. cleared directory keep before) (cleared directory keep before)"
    if "cleared directory keep before (disk_read s')" "has_prefix n (directory @ ''/'')" "path_rel directory n = Some relative" "relative \<notin> set keep"
    for s' n relative and before :: "gostring \<rightharpoonup> gostring"
    by (rule leaves_conseq [OF leaves_call [where g = "\<lambda>fs. fs(n := None)"]]) (use that in \<open>auto simp: cleared_def\<close>)
  show ?thesis unfolding removeStaleShards_def
    by (rule leaves_then [where Q = "\<lambda>_ fs. fs = disk_read s"], rule leaves_conseq [OF leaves_call [where g = id]])
      (auto simp: cleared_def [of directory keep "disk_read s" "disk_read s"] intro!: leaves_gets leaves_each removed split: option.split)
qed

subsection \<open>Writing the shards\<close>

definition entry_of :: "shard_lib \<Rightarrow> RepositoryLock \<Rightarrow> gostring \<Rightarrow> lockShardEntry" where
  "entry_of lib lock p = \<lparr>se_Package = p, se_Path = shardRelativePath lib p, se_SHA256 = sl_sha256 lib (the (sl_marshalShard lib (shard_of lock p)))\<rparr>"

definition holds_shard :: "shard_lib \<Rightarrow> gostring \<Rightarrow> RepositoryLock \<Rightarrow> (gostring \<rightharpoonup> gostring) \<Rightarrow> gostring \<Rightarrow> bool" where
  "holds_shard lib name lock fs p \<longleftrightarrow> (\<exists>encoded. sl_marshalShard lib (shard_of lock p) = Some encoded \<and> fs (shard_file lib name p) = Some encoded)"

text \<open>A digest the previous index records for a shard is that of the file that is there.\<close>

definition vouched :: "shard_lib \<Rightarrow> gostring \<Rightarrow> RepositoryLock \<Rightarrow> (gostring \<Rightarrow> gostring) \<Rightarrow> (gostring \<rightharpoonup> gostring) \<Rightarrow> gostring \<Rightarrow> bool" where
  "vouched lib name lock previous fs p \<longleftrightarrow> (\<forall>encoded. sl_marshalShard lib (shard_of lock p) = Some encoded \<longrightarrow>
     previous (shardRelativePath lib p) = sl_sha256 lib encoded \<longrightarrow> fs (shard_file lib name p) = Some encoded)"

lemma leaves_write_shards:
  assumes "distinct packages" and "inj_on (shard_file lib name) (set packages)" and "\<forall>p \<in> set packages. vouched lib name lock previous (disk_read s) p"
  shows "leaves s (write_shards lib (shardDirectory name) previous lock packages created changed entries)
    (\<lambda>(_, entries') fs. entries' = entries @ map (entry_of lib lock) packages \<and> (\<forall>p \<in> set packages. holds_shard lib name lock fs p) \<and>
       (\<forall>n. n \<notin> shard_file lib name ` set packages \<longrightarrow> fs n = disk_read s n))
    (\<lambda>fs. \<forall>n. n \<notin> shard_file lib name ` set packages \<longrightarrow> fs n = disk_read s n)"
  using assms
proof (induction packages arbitrary: s created changed entries)
  case (Cons p packages)
  show ?case
  proof (cases "sl_marshalShard lib (shard_of lock p)")
    case (Some encoded)
    let ?name = "shard_file lib name p" and ?rewritten = "previous (shardRelativePath lib p) \<noteq> sl_sha256 lib encoded"
    let ?E = "\<lambda>fs. \<forall>n. n \<notin> shard_file lib name ` set (p # packages) \<longrightarrow> fs n = disk_read s n"
    have made: "leaves s (if b then ok () else io_call ''mkdir'' (disk_mkdir d)) (\<lambda>_ fs. fs = disk_read s) ?E" for b d
      using leaves_conseq [OF leaves_call [where g = id and f = "disk_mkdir d" and s = s]] by auto
    have one: "leaves s' (if ?rewritten then writeShardFile ?name encoded else ok ())
        (\<lambda>_ fs. fs ?name = Some encoded \<and> (\<forall>n. n \<noteq> ?name \<longrightarrow> fs n = disk_read s n)) ?E" if "disk_read s' = disk_read s" for s'
      using that Some Cons.prems(3) leaves_conseq [OF leaves_writeShardFile [of s' ?name encoded]] by (auto simp: vouched_def)
    have rest: "leaves s' (write_shards lib (shardDirectory name) previous lock packages created' changed' (entries @ [entry_of lib lock p]))
        (\<lambda>(_, entries') fs. entries' = entries @ map (entry_of lib lock) (p # packages) \<and> (\<forall>p \<in> set (p # packages). holds_shard lib name lock fs p) \<and> ?E fs) ?E"
      if here: "disk_read s' ?name = Some encoded \<and> (\<forall>n. n \<noteq> ?name \<longrightarrow> disk_read s' n = disk_read s n)" for s' created' changed'
    proof -
      have apart: "shard_file lib name q \<noteq> ?name" if "q \<in> set packages" for q using Cons.prems(1,2) that by (auto simp: inj_on_def)
      then have new: "?name \<notin> shard_file lib name ` set packages" by fastforce
      have "\<forall>q \<in> set packages. vouched lib name lock previous (disk_read s') q"
        using Cons.prems(3) here apart by (auto simp: vouched_def)
      moreover have "distinct packages" "inj_on (shard_file lib name) (set packages)" using Cons.prems(1,2) by auto
      ultimately have "leaves s' (write_shards lib (shardDirectory name) previous lock packages created' changed' (entries @ [entry_of lib lock p]))
        (\<lambda>(_, entries') fs. entries' = (entries @ [entry_of lib lock p]) @ map (entry_of lib lock) packages \<and>
          (\<forall>p \<in> set packages. holds_shard lib name lock fs p) \<and> (\<forall>n. n \<notin> shard_file lib name ` set packages \<longrightarrow> fs n = disk_read s' n))
        (\<lambda>fs. \<forall>n. n \<notin> shard_file lib name ` set packages \<longrightarrow> fs n = disk_read s' n)" by (intro Cons.IH)
      then show ?thesis by (rule leaves_conseq) (use here new Some in \<open>auto simp: holds_shard_def\<close>)
    qed
    have entry: "\<lparr>se_Package = p, se_Path = shardRelativePath lib p, se_SHA256 = sl_sha256 lib encoded\<rparr> = entry_of lib lock p"
      using Some by (simp add: entry_of_def)
    show ?thesis unfolding write_shards.simps Let_def Some option.case shard_file_def [symmetric] entry
      by (rule leaves_then [OF made], rule leaves_then [OF one], assumption, rule rest, assumption)
  qed simp
qed simp

subsection \<open>Writing the root\<close>

abbreviation lock_packages :: "RepositoryLock \<Rightarrow> gostring list" where
  "lock_packages lock \<equiv> remdups (map pv_Package (lock_PackageVersion lock))"

definition root_of :: "shard_lib \<Rightarrow> RepositoryLock \<Rightarrow> lockRoot" where
  "root_of lib lock = (let entries = map (entry_of lib lock) (sort (lock_packages lock)) in
     \<lparr>sr_SchemaVersion = LockShardSchema, sr_Repository = lock_Repository lock, sr_Placement = lock_Placement lock,
       sr_MerkleRoot = merkleRoot lib entries, sr_Shard = entries\<rparr>)"

definition holds_lock :: "shard_lib \<Rightarrow> gostring \<Rightarrow> RepositoryLock \<Rightarrow> (gostring \<rightharpoonup> gostring) \<Rightarrow> bool" where
  "holds_lock lib name lock fs \<longleftrightarrow> (\<exists>encoded. sl_marshalRoot lib (root_of lib lock) = Some encoded \<and> fs name = Some encoded) \<and>
     (\<forall>p \<in> set (lock_packages lock). holds_shard lib name lock fs p)"

definition walks_all :: "shard_lib \<Rightarrow> bool" where
  "walks_all lib \<longleftrightarrow> (\<forall>xs. distinct xs \<longrightarrow> distinct (sl_order lib xs) \<and> set (sl_order lib xs) = set xs)"

definition hex_digests :: "shard_lib \<Rightarrow> bool" where
  "hex_digests lib \<longleftrightarrow> (\<forall>content. ValidSHA256 (sl_sha256 lib content))"

lemma leaves_writeShardedLock:
  assumes "lock_name name" and "hex_digests lib" and "walks_all lib" and "inj_on (shardRelativePath lib) (set (lock_packages lock))"
    and "\<forall>p \<in> set (lock_packages lock). vouched lib name lock (previousShardDigests lib s name) (disk_read s) p"
  shows "leaves s (writeShardedLock lib name lock) (\<lambda>_. holds_lock lib name lock) (\<lambda>fs. fs name = disk_read s name \<or> holds_lock lib name lock fs)"
proof -
  let ?ps = "sl_order lib (lock_packages lock)" and ?E = "\<lambda>fs. fs name = disk_read s name \<or> holds_lock lib name lock fs"
  let ?I = "\<lambda>fs. (\<forall>p \<in> set (lock_packages lock). holds_shard lib name lock fs p) \<and> fs name = disk_read s name"
  have ps: "distinct ?ps" "set ?ps = set (lock_packages lock)" using assms(3) by (auto simp: walks_all_def)
  have hex: "\<And>p. ValidSHA256 (sl_sha256 lib p)" using assms(2) by (simp add: hex_digests_def)
  have apart: "name \<notin> shard_file lib name ` A" for A using shard_file_below(3) [OF assms(1) hex, symmetric] by auto
  have sorted: "sort_key se_Package (map (entry_of lib lock) ?ps) = map (entry_of lib lock) (sort (lock_packages lock))"
  proof -
    have "sort ?ps = sort (lock_packages lock)" using ps by (intro sorted_distinct_set_unique) auto
    then show ?thesis by (simp add: sort_key_map entry_of_def)
  qed
  have shards: "leaves s (write_shards lib (shardDirectory name) (previousShardDigests lib s name) lock ?ps [] [] [])
      (\<lambda>(_, entries) fs. entries = map (entry_of lib lock) ?ps \<and> ?I fs) ?E"
    by (rule leaves_conseq [OF leaves_write_shards]) (use ps assms(5) apart shard_file_inject [OF assms(1) hex assms(4)] in auto)
  have stale: "leaves s' (removeStaleShards (shardDirectory name) (map se_Path (map (entry_of lib lock) ?ps))) (\<lambda>_. ?I) ?E" if "?I (disk_read s')" for s'
  proof (rule leaves_conseq [OF leaves_removeStaleShards])
    fix fs assume cleared: "cleared (shardDirectory name) (map se_Path (map (entry_of lib lock) ?ps)) (disk_read s') fs"
    have root: "fs name = disk_read s' name" using cleared shardDirectory_shape [OF assms(1)] by (metis cleared_def)
    moreover have "fs (shard_file lib name p) = disk_read s' (shard_file lib name p)" if "p \<in> set (lock_packages lock)" for p
      using cleared that ps(2) shard_file_below(2) [OF assms(1) hex] unfolding cleared_def by (fastforce simp: entry_of_def)
    ultimately show "?I fs" "?E fs" using that by (auto simp: holds_shard_def)
  qed
  have final: "leaves s' (andThen (syncPaths changed) (\<lambda>_. state_atomicWrite name encoded)) (\<lambda>_. holds_lock lib name lock) ?E"
    if "?I (disk_read s')" "sl_marshalRoot lib (root_of lib lock) = Some encoded" for s' changed encoded
  proof (rule leaves_then [where Q = "\<lambda>_. ?I"])
    show "leaves s' (syncPaths changed) (\<lambda>_. ?I) ?E" by (rule leaves_conseq [OF leaves_syncPaths]) (use that in auto)
    have "holds_lock lib name lock (fs(name \<mapsto> encoded))" if "?I fs" for fs
      using that \<open>sl_marshalRoot lib (root_of lib lock) = Some encoded\<close> apart [of "set (lock_packages lock)"] by (auto simp: holds_lock_def holds_shard_def image_iff)
    then show "leaves s'' (state_atomicWrite name encoded) (\<lambda>_. holds_lock lib name lock) ?E" if "?I (disk_read s'')" for s''
      by (intro leaves_conseq [OF leaves_atomicWrite]) (use that in auto)
  qed
  have tail: "leaves s' (andThen (removeStaleShards (shardDirectory name) (map se_Path (map (entry_of lib lock) ?ps)))
      (\<lambda>_. case sl_marshalRoot lib (root_of lib lock) of None \<Rightarrow> fail LockEncode
         | Some encoded \<Rightarrow> andThen (syncPaths changed) (\<lambda>_. state_atomicWrite name encoded))) (\<lambda>_. holds_lock lib name lock) ?E"
    if "?I (disk_read s')" for s' changed
  proof (cases "sl_marshalRoot lib (root_of lib lock)")
    case None
    then show ?thesis using leaves_then [OF stale [OF that], of "\<lambda>_. fail LockEncode"] by simp
  next
    case (Some encoded)
    then show ?thesis using leaves_then [OF stale [OF that] final [OF _ Some]] by simp
  qed
  have "leaves s (andThen (write_shards lib (shardDirectory name) (previousShardDigests lib s name) lock ?ps [] [] []) f) (\<lambda>_. holds_lock lib name lock) ?E"
    if "\<And>changed. f (changed, map (entry_of lib lock) ?ps) = andThen (removeStaleShards (shardDirectory name) (map se_Path (map (entry_of lib lock) ?ps)))
      (\<lambda>_. case sl_marshalRoot lib (root_of lib lock) of None \<Rightarrow> fail LockEncode
         | Some encoded \<Rightarrow> andThen (syncPaths changed) (\<lambda>_. state_atomicWrite name encoded))" for f
    by (rule leaves_then [OF shards]) (use tail that in auto)
  then show ?thesis unfolding writeShardedLock_def Let_def by (intro leaves_gets) (simp add: sorted root_of_def Let_def)
qed

subsection \<open>Loading\<close>

text \<open>What the TOML library promises: decoding gives back what was encoded, and a lock read as a root shows its schema number.\<close>

definition toml_laws :: "shard_lib \<Rightarrow> bool" where
  "toml_laws lib \<longleftrightarrow>
     (\<forall>shard encoded. sl_marshalShard lib shard = Some encoded \<longrightarrow> sl_unmarshalShard lib encoded = Some shard) \<and>
     (\<forall>root encoded. sl_marshalRoot lib root = Some encoded \<longrightarrow> sl_unmarshalRoot lib encoded = Some root) \<and>
     (\<forall>lock encoded. sl_marshalLock lib lock = Some encoded \<longrightarrow> sl_unmarshalLock lib encoded = Some lock \<and>
       (\<forall>root. sl_unmarshalRoot lib encoded = Some root \<longrightarrow> sr_SchemaVersion root = lock_SchemaVersion lock))"

lemma read_shards_written:
  assumes "toml_laws lib" and "\<forall>p \<in> set ps. holds_shard lib name lock (disk_read s) p"
  shows "read_shards lib s (shardDirectory name) sum_so_far (map (entry_of lib lock) ps) \<in> {Inl LockTooLarge, Inr (concat (map (versions_of lock) ps))}"
  using assms(2)
proof (induction ps arbitrary: sum_so_far)
  case (Cons p ps)
  then obtain encoded where encoded: "sl_marshalShard lib (shard_of lock p) = Some encoded" "disk_read s (shard_file lib name p) = Some encoded"
    by (auto simp: holds_shard_def)
  have "sl_unmarshalShard lib encoded = Some (shard_of lock p)" using assms(1) encoded(1) by (simp add: toml_laws_def)
  then have "read_shard lib s (shardDirectory name) (entry_of lib lock p) = Inr (int (length encoded), versions_of lock p)"
    using encoded by (simp add: read_shard_def entry_of_def shard_file_def shard_of_def)
  then show ?case using Cons.IH [of "sum_so_far + int (length encoded)"] Cons.prems
    by (auto simp: requireLockWithinLimit_def noError_def)
qed simp

lemma canonical_groups:
  assumes "canonicalizeLock lock = lock"
  shows "concat (map (versions_of lock) (sort (lock_packages lock))) = lock_PackageVersion lock"
proof -
  have "sorted (map version_key (lock_PackageVersion lock))" using assms by (metis canonicalize_simps(4) sorted_sort_key)
  then have "sorted (map pv_Package (lock_PackageVersion lock))"
    by (auto simp: sorted_wrt_map version_key_def elim!: sorted_wrt_mono_rel [rotated])
  then show ?thesis unfolding versions_of_def by (rule concat_groups) auto
qed

lemma andR_either: "m \<in> {Inl e, Inr a} \<Longrightarrow> f a \<in> {Inl e, Inr b} \<Longrightarrow> andR m f \<in> {Inl e, Inr b}"
  by auto

lemma load_written:
  assumes "WorkspacePath fs root (repo_Lock repository) = Inr name" and "toml_laws lib" and "hex_digests lib"
    and "canonicalizeLock lock = lock" and "lock_SchemaVersion lock = LockSchema" and "lock_Repository lock \<noteq> []"
    and "holds_lock lib name lock (disk_read s)"
  shows "LoadLock lib fs s root repository \<in> {Inl LockTooLarge, Inr lock}"
proof -
  let ?index = "root_of lib lock" and ?entries = "map (entry_of lib lock) (sort (lock_packages lock))"
  obtain encoded where encoded: "sl_marshalRoot lib ?index = Some encoded" "disk_read s name = Some encoded"
    and shards: "\<forall>p \<in> set (sort (lock_packages lock)). holds_shard lib name lock (disk_read s) p"
    using assms(7) by (auto simp: holds_lock_def)
  have index: "sr_Shard ?index = ?entries" "sr_MerkleRoot ?index = merkleRoot lib ?entries" "sr_SchemaVersion ?index = LockShardSchema"
    by (simp_all add: root_of_def Let_def)
  have sharded: "looksSharded lib encoded = Some ?index"
    using assms(2) encoded(1) index(3) by (simp add: looksSharded_def toml_laws_def)
  have hex: "\<And>p. ValidSHA256 (sl_sha256 lib p)" using assms(3) by (simp add: hex_digests_def)
  have "\<not> leaves_directory (entry_of lib lock p)" for p
  proof -
    obtain d stem where "shard_path (shardRelativePath lib p) d stem" using shardRelativePath_shape [OF hex] .
    then show ?thesis using shard_path_stays(1,2) by (simp add: leaves_directory_def entry_of_def)
  qed
  then have inside: "find leaves_directory ?entries = None" by (auto simp: find_None_iff)
  have whole: "\<lparr>lock_SchemaVersion = LockSchema, lock_Repository = sr_Repository ?index, lock_PackageVersion = lock_PackageVersion lock,
      lock_Placement = sr_Placement ?index\<rparr> = lock" using assms(5) by (simp add: root_of_def Let_def)
  have shards_read: "readShardedLock lib s name ?index \<in> {Inl LockTooLarge, Inr lock}"
    using read_shards_written [OF assms(2) shards, of 0] canonical_groups [OF assms(4)] whole
    by (auto simp: readShardedLock_def index inside)
  have within: "noError id (requireLockWithinLimit lib (int (length encoded))) \<in> {Inl LockTooLarge, Inr ()}"
    by (simp add: requireLockWithinLimit_def noError_def)
  have "LoadLock lib fs s root repository = andR (noError id (requireLockWithinLimit lib (int (length encoded)))) (\<lambda>_.
      andR (readShardedLock lib s name ?index) (\<lambda>lock. if lock_Repository lock = [] then Inl InvalidLockSchema else Inr (canonicalizeLock lock)))"
    using assms(1) encoded(2) sharded by (simp add: LoadLock_def)
  also have "\<dots> \<in> {Inl LockTooLarge, Inr lock}"
    by (rule andR_either [OF within andR_either [OF shards_read]]) (simp add: assms(4,6))
  finally show ?thesis .
qed

end
