(* ===== verification/Lock_Roundtrip.thy ===== *)
theory Lock_Roundtrip
  imports Lock_Shard_Safety Manifest_Store
begin

section \<open>Writing a lock and loading it\<close>

text \<open>
  \<^verbatim>\<open>WriteLock\<close> and \<^verbatim>\<open>LoadLock\<close> together, in both layouts: a write that succeeds is loaded back, and a write that
  fails at any call leaves a lock that loads as before, as written, or not at all.
\<close>

abbreviation canonical :: "RepositoryLock \<Rightarrow> RepositoryLock" where
  "canonical lock \<equiv> canonicalizeLock (lock\<lparr>lock_SchemaVersion := LockSchema\<rparr>)"

definition shard_texts :: "shard_lib \<Rightarrow> RepositoryLock \<Rightarrow> gostring set" where
  "shard_texts lib lock = {encoded. \<exists>p. sl_marshalShard lib (shard_of (canonical lock) p) = Some encoded}"

text \<open>The lock that is there loads, or is not in shards.\<close>

definition intact :: "shard_lib \<Rightarrow> file_system \<Rightarrow> lock_disk \<Rightarrow> gostring \<Rightarrow> Repository \<Rightarrow> bool" where
  "intact lib fs s root repository \<longleftrightarrow> (\<exists>old. LoadLock lib fs s root repository = Inr old) \<or>
     (\<forall>name content. WorkspacePath fs root (repo_Lock repository) = Inr name \<longrightarrow> disk_read s name = Some content \<longrightarrow> looksSharded lib content = None)"

subsection \<open>The shards of a lock that loads\<close>

lemma read_shards_each:
  "read_shards lib s directory sum_so_far entries = Inr versions \<Longrightarrow> entry \<in> set entries \<Longrightarrow> \<exists>r. read_shard lib s directory entry = Inr r"
  by (induction entries arbitrary: sum_so_far versions) (auto split: prod.splits)

lemma read_shard_digest:
  "read_shard lib s directory entry = Inr r \<Longrightarrow>
     \<exists>content. disk_read s (path_join [directory, se_Path entry]) = Some content \<and> sl_sha256 lib content = se_SHA256 entry \<and>
       r = (int (length content), sh_PackageVersion (the (sl_unmarshalShard lib content)))"
  by (auto simp: read_shard_def split: option.splits if_splits)

lemma LoadLock_sharded:
  assumes "LoadLock lib fs s root repository = Inr lock" and "WorkspacePath fs root (repo_Lock repository) = Inr name"
    and "disk_read s name = Some content" and "looksSharded lib content = Some index"
  shows "\<exists>versions. read_shards lib s (shardDirectory name) 0 (sr_Shard index) = Inr versions \<and>
    lock = canonicalizeLock \<lparr>lock_SchemaVersion = LockSchema, lock_Repository = sr_Repository index, lock_PackageVersion = versions,
      lock_Placement = sr_Placement index\<rparr>"
  using assms by (auto simp: LoadLock_def readShardedLock_def split: if_splits option.splits)

lemma vouched_intact:
  assumes "intact lib fs s root repository" and "WorkspacePath fs root (repo_Lock repository) = Inr name" and "hex_digests lib"
    and "inj_on (sl_sha256 lib) (ran (disk_read s) \<union> shard_texts lib lock)"
  shows "vouched lib name (canonical lock) (previousShardDigests lib s name) (disk_read s) p"
  unfolding vouched_def
proof (intro allI impI)
  fix encoded assume encoded: "sl_marshalShard lib (shard_of (canonical lock) p) = Some encoded"
    and previous: "previousShardDigests lib s name (shardRelativePath lib p) = sl_sha256 lib encoded"
  have "length (sl_sha256 lib encoded) = 64" using assms(3) by (simp add: hex_digests_def ValidSHA256_iff)
  then have "previousShardDigests lib s name (shardRelativePath lib p) \<noteq> []" using previous by auto
  then obtain content index where root: "disk_read s name = Some content" "looksSharded lib content = Some index"
    and digest: "map_of (rev (map (\<lambda>entry. (se_Path entry, se_SHA256 entry)) (sr_Shard index))) (shardRelativePath lib p) = Some (sl_sha256 lib encoded)"
    using previous by (auto simp: previousShardDigests_def split: option.splits)
  from digest obtain entry where entry: "entry \<in> set (sr_Shard index)" "se_Path entry = shardRelativePath lib p" "se_SHA256 entry = sl_sha256 lib encoded"
    by (auto dest!: map_of_SomeD)
  from root obtain old where "LoadLock lib fs s root repository = Inr old" using assms(1,2) by (fastforce simp: intact_def)
  then obtain r where "read_shard lib s (shardDirectory name) entry = Inr r"
    using LoadLock_sharded [OF _ assms(2) root] read_shards_each entry(1) by meson
  then obtain found where found: "disk_read s (shard_file lib name p) = Some found" "sl_sha256 lib found = sl_sha256 lib encoded"
    using read_shard_digest entry by (metis shard_file_def)
  moreover have "found \<in> ran (disk_read s)" "encoded \<in> shard_texts lib lock" using found(1) encoded by (auto simp: ran_def shard_texts_def)
  ultimately show "disk_read s (shard_file lib name p) = Some encoded" using assms(4) by (metis UnCI inj_onD)
qed

text \<open>Two disks with the same root whose shards both match it hold the same lock.\<close>

lemma read_shards_agree:
  assumes "inj_on (sl_sha256 lib) (ran (disk_read s) \<union> ran (disk_read s'))"
    and "read_shards lib s directory sum_so_far entries = Inr versions" and "read_shards lib s' directory sum_so_far entries = Inr versions'"
  shows "versions = versions'"
  using assms(2,3)
proof (induction entries arbitrary: sum_so_far versions versions')
  case (Cons entry entries)
  obtain r r' where r: "read_shard lib s directory entry = Inr r" "read_shard lib s' directory entry = Inr r'"
    using Cons.prems by auto
  then have "r = r'" using assms(1) read_shard_digest [OF r(1)] read_shard_digest [OF r(2)] by (metis UnCI inj_onD ranI)
  then show ?case using Cons r by (auto split: prod.splits)
qed simp

lemma load_same_root:
  assumes "inj_on (sl_sha256 lib) (ran (disk_read s) \<union> ran (disk_read s'))" and "WorkspacePath fs root (repo_Lock repository) = Inr name"
    and "disk_read s' name = disk_read s name" and "LoadLock lib fs s root repository = Inr old" and "LoadLock lib fs s' root repository = Inr new"
  shows "new = old"
proof -
  obtain content where content: "disk_read s name = Some content" using assms(2,4) by (auto simp: LoadLock_def split: option.splits)
  show ?thesis
  proof (cases "looksSharded lib content")
    case (Some index)
    then show ?thesis using LoadLock_sharded [OF assms(4,2) content Some] LoadLock_sharded [OF assms(5,2) _ Some] content assms(3)
        read_shards_agree [OF assms(1)] by fastforce
  qed (use assms(2-5) content in \<open>auto simp: LoadLock_def\<close>)
qed

subsection \<open>Both layouts\<close>

definition written :: "shard_lib \<Rightarrow> gostring \<Rightarrow> RepositoryLock \<Rightarrow> (gostring \<rightharpoonup> gostring) \<Rightarrow> bool" where
  "written lib name lock fs \<longleftrightarrow> holds_lock lib name lock fs \<or> (\<exists>encoded. sl_marshalLock lib lock = Some encoded \<and> fs name = Some encoded)"

lemma load_any_written:
  assumes "WorkspacePath fs root (repo_Lock repository) = Inr name" and "toml_laws lib" and "hex_digests lib"
    and "lock_Repository lock \<noteq> []" and "written lib name (canonical lock) (disk_read s)"
  shows "LoadLock lib fs s root repository \<in> {Inl LockTooLarge, Inr (canonical lock)}"
proof -
  have fixed: "canonicalizeLock (canonical lock) = canonical lock" using canonicalize_lossless by blast
  have fields: "lock_SchemaVersion (canonical lock) = LockSchema" "lock_Repository (canonical lock) \<noteq> []" using assms(4) by simp_all
  consider (shards) "holds_lock lib name (canonical lock) (disk_read s)"
    | (whole) encoded where "sl_marshalLock lib (canonical lock) = Some encoded" "disk_read s name = Some encoded"
    using assms(5) by (auto simp: written_def)
  then show ?thesis
  proof cases
    case shards
    then show ?thesis using load_written [OF assms(1-3) fixed fields] by simp
  next
    case whole
    have "looksSharded lib encoded = None" "sl_unmarshalLock lib encoded = Some (canonical lock)"
      using assms(2) whole(1) by (auto simp: looksSharded_def toml_laws_def LockShardSchema_def LockSchema_def split: option.split)
    moreover have "LockSchema \<noteq> 1" by (simp add: LockSchema_def)
    ultimately have "LoadLock lib fs s root repository = andR (noError id (requireLockWithinLimit lib (int (length encoded)))) (\<lambda>_. Inr (canonical lock))"
      using assms(1) whole(2) fields fixed by (simp add: LoadLock_def decode_lock_def del: canonicalize_simps(3,4))
    then show ?thesis by (simp add: requireLockWithinLimit_def noError_def)
  qed
qed

lemma leaves_WriteLock:
  assumes "WorkspacePath fs root (repo_Lock repository) = Inr name" and "fs_eval fs root = Some resolved" and "is_abs resolved"
    and "hex_digests lib" and "walks_all lib" and "inj_on (shardRelativePath lib) (pv_Package ` set (lock_PackageVersion lock))"
    and "inj_on (sl_sha256 lib) (ran (disk_read s) \<union> shard_texts lib lock)" and "intact lib fs s root repository"
  shows "leaves s (WriteLock lib fs root repository lock) (\<lambda>_. written lib name (canonical lock))
    (\<lambda>f. f name = disk_read s name \<or> written lib name (canonical lock) f)"
proof -
  have packages: "set (lock_packages (canonical lock)) = pv_Package ` set (lock_PackageVersion lock)"
    by (auto simp: sort_blobs_def image_iff)
  have sharded: "leaves s (writeShardedLock lib name (canonical lock)) (\<lambda>_. written lib name (canonical lock))
      (\<lambda>f. f name = disk_read s name \<or> written lib name (canonical lock) f)"
    by (rule leaves_conseq [OF leaves_writeShardedLock [OF WorkspacePath_name [OF assms(1-3)] assms(4,5)]])
      (use packages assms(6) vouched_intact [OF assms(8,1,4,7)] in \<open>auto simp: written_def\<close>)
  have whole: "leaves s (state_atomicWrite name encoded) (\<lambda>_. written lib name (canonical lock))
      (\<lambda>f. f name = disk_read s name \<or> written lib name (canonical lock) f)" if "sl_marshalLock lib (canonical lock) = Some encoded" for encoded
    by (rule leaves_conseq [OF leaves_atomicWrite]) (use that in \<open>auto simp: written_def\<close>)
  show ?thesis unfolding WriteLock_def Let_def assms(1) sum.case
    by (rule leaves_gets) (auto simp: sharded split: option.split intro: whole)
qed

subsection \<open>Properties\<close>

text \<open>
  C15: a lock that was written is loaded back. After a write of a lock that returned without an error, in one
  file or in shards, over a lock that loaded or was not in shards, the lock on disk loads to the canonical
  form of what was written, unless it is larger than the limit a load accepts. The TOML library decodes what
  it encoded, and the hash does not collide on the texts involved.
\<close>

theorem written_lock_loads:
  assumes "WriteLock lib fs root repository lock s = (s', Inr ())" and "fs_eval fs root = Some resolved" and "is_abs resolved"
    and "toml_laws lib" and "hex_digests lib" and "walks_all lib" and "lock_Repository lock \<noteq> []"
    and "inj_on (shardRelativePath lib) (pv_Package ` set (lock_PackageVersion lock))"
    and "inj_on (sl_sha256 lib) (ran (disk_read s) \<union> shard_texts lib lock)" and "intact lib fs s root repository"
  shows "LoadLock lib fs s' root repository \<in> {Inl LockTooLarge, Inr (canonical lock)}"
proof -
  obtain name where name: "WorkspacePath fs root (repo_Lock repository) = Inr name"
    using assms(1) by (cases "WorkspacePath fs root (repo_Lock repository)") (auto simp: WriteLock_def fail_def)
  have "written lib name (canonical lock) (disk_read s')"
    using runs_ok_value [OF leaves_WriteLock [OF name assms(2,3,5,6,8,9,10), unfolded leaves_def] assms(1)] .
  then show ?thesis by (rule load_any_written [OF name assms(4,5,7)])
qed

text \<open>
  C18: a write of the lock that is cut short is never mistaken for another lock. Whichever call of the write
  fails, a later load refuses, or gives the lock that was there before, or the one that was being
  written; it never gives a mixture.
\<close>

theorem interrupted_lock_write_is_loud:
  assumes "WriteLock lib fs root repository lock s = (s', Inl e)" and "fs_eval fs root = Some resolved" and "is_abs resolved"
    and "toml_laws lib" and "hex_digests lib" and "walks_all lib" and "lock_Repository lock \<noteq> []"
    and "inj_on (shardRelativePath lib) (pv_Package ` set (lock_PackageVersion lock))"
    and "inj_on (sl_sha256 lib) (ran (disk_read s) \<union> ran (disk_read s') \<union> shard_texts lib lock)"
    and "LoadLock lib fs s root repository = Inr old" and "LoadLock lib fs s' root repository = Inr new"
  shows "new = old \<or> new = canonical lock"
proof -
  obtain name where name: "WorkspacePath fs root (repo_Lock repository) = Inr name"
    using assms(10) by (auto simp: LoadLock_def split: sum.splits)
  have "inj_on (sl_sha256 lib) (ran (disk_read s) \<union> shard_texts lib lock)" "intact lib fs s root repository"
    using assms(9,10) by (auto simp: intact_def elim: inj_on_subset)
  from runs_error_value [OF leaves_WriteLock [OF name assms(2,3,5,6,8) this, unfolded leaves_def] assms(1)]
  show ?thesis
  proof
    assume "disk_read s' name = disk_read s name"
    then show ?thesis using load_same_root [OF _ name _ assms(10,11)] assms(9) by (blast intro: inj_on_subset)
  next
    assume "written lib name (canonical lock) (disk_read s')"
    then show ?thesis using load_any_written [OF name assms(4,5,7)] assms(11) by force
  qed
qed


text \<open>A workspace whose lock is in one file, with a directory for shards, so that the next write makes them.\<close>

definition small_lock :: "gostring \<Rightarrow> RepositoryLock" where
  "small_lock version = \<lparr>lock_SchemaVersion = LockSchema, lock_Repository = ''apt'', lock_PackageVersion =
     [\<lparr>pv_Package = ''p'', pv_Version = version, pv_State = ''draft'', pv_Blobs = []\<rparr>], lock_Placement = []\<rparr>"

definition small_digest :: "gostring \<Rightarrow> gostring" where
  "small_digest content = replicate 64 (if content = ''shard'' then CHR ''0'' else if content = ''root'' then CHR ''1'' else CHR ''2'')"

definition small_root :: lockRoot where
  "small_root = \<lparr>sr_SchemaVersion = LockShardSchema, sr_Repository = ''apt'', sr_Placement = [], sr_MerkleRoot = replicate 64 (CHR ''2''),
     sr_Shard = [\<lparr>se_Package = ''p'', se_Path = ''22/p-222222222222.toml'', se_SHA256 = replicate 64 (CHR ''0'')\<rparr>]\<rparr>"

definition small_lib :: shard_lib where
  "small_lib = \<lparr>sl_sha256 = small_digest,
     sl_marshalLock = (\<lambda>lock. if lock = small_lock ''1'' then Some ''old'' else None),
     sl_unmarshalLock = (\<lambda>text. if text = ''old'' then Some (small_lock ''1'') else None),
     sl_marshalRoot = (\<lambda>index. if index = small_root then Some ''root'' else None),
     sl_unmarshalRoot = (\<lambda>text. if text = ''root'' then Some small_root else None),
     sl_marshalShard = (\<lambda>shard. if shard = shard_of (small_lock ''2'') ''p'' then Some ''shard'' else None),
     sl_unmarshalShard = (\<lambda>text. if text = ''shard'' then Some (shard_of (small_lock ''2'') ''p'') else None),
     sl_order = id, sl_environment = []\<rparr>"

definition small_fs :: file_system where
  "small_fs = \<lparr>fs_lstat = (\<lambda>_. Present), fs_eval = Some\<rparr>"

definition small_repository :: Repository where
  "small_repository = zero_repository\<lparr>repo_Lock := ''apt.lock.toml''\<rparr>"

definition small_disk :: "bool list \<Rightarrow> lock_disk" where
  "small_disk faults = \<lparr>ld_files = [(''/w/apt.lock.toml'', ''old'')], ld_dirs = [''/w/apt.lock.d''], ld_faults = faults\<rparr>"

definition small_write :: "bool list \<Rightarrow> lock_disk \<times> (shard_error + unit)" where
  "small_write faults = WriteLock small_lib small_fs ''/w'' small_repository (small_lock ''2'') (small_disk faults)"


definition cut_short :: "bool list" where
  "cut_short = replicate 6 False @ [True]"

lemma small_laws: "toml_laws small_lib" "hex_digests small_lib" "walks_all small_lib"
  by (auto simp: toml_laws_def hex_digests_def walks_all_def small_lib_def small_digest_def small_lock_def small_root_def LockShardSchema_def
      ValidSHA256_iff list_all_iff lower_hex_def is_digit_def less_eq_char_def)

lemma small_succeeds: "snd (small_write []) = Inr ()"
  by code_simp

lemma small_stops: "snd (small_write cut_short) = Inl (LockCall ''walk'')"
  by code_simp

lemma small_leaves: "map snd (ld_files (fst (small_write cut_short))) = [''shard'', ''old'']"
  by code_simp

lemma small_loads: "LoadLock small_lib small_fs (small_disk []) ''/w'' small_repository = Inr (small_lock ''1'')"
  by code_simp

lemma small_loads_before: "LoadLock small_lib small_fs (small_disk cut_short) ''/w'' small_repository = Inr (small_lock ''1'')"
  by code_simp

lemma small_loads_after: "LoadLock small_lib small_fs (fst (small_write cut_short)) ''/w'' small_repository = Inr (small_lock ''1'')"
  by code_simp

lemma small_digests:
  "inj_on (sl_sha256 small_lib) (ran (disk_read (small_disk faults)) \<union> shard_texts small_lib (small_lock ''2''))"
  "inj_on (sl_sha256 small_lib) (ran (disk_read (small_disk faults)) \<union> ran (disk_read (fst (small_write cut_short))) \<union> shard_texts small_lib (small_lock ''2''))"
proof -
  have inj: "inj_on (sl_sha256 small_lib) {''old'', ''shard''}" by (auto simp: inj_on_def small_lib_def small_digest_def)
  have "encoded = ''shard''" if "sl_marshalShard small_lib shard = Some encoded" for shard encoded using that by (simp add: small_lib_def split: if_splits)
  then have "shard_texts small_lib (small_lock ''2'') \<subseteq> {''shard''}" unfolding shard_texts_def by blast
  moreover have "ran (disk_read (small_disk faults)) \<subseteq> {''old''}" by (auto simp: disk_read_def small_disk_def ran_def)
  moreover have "ran (disk_read (fst (small_write cut_short))) \<subseteq> {''old'', ''shard''}"
  proof -
    have "ran (map_of fs) \<subseteq> set (map snd fs)" for fs :: "(gostring \<times> gostring) list" by (force simp: ran_def dest: map_of_SomeD)
    from this [of "ld_files (fst (small_write cut_short))"] show ?thesis
      unfolding small_leaves by (auto simp: disk_read_def [abs_def])
  qed
  ultimately have "ran (disk_read (small_disk faults)) \<union> shard_texts small_lib (small_lock ''2'') \<subseteq> {''old'', ''shard''}"
    and "ran (disk_read (small_disk faults)) \<union> ran (disk_read (fst (small_write cut_short))) \<union> shard_texts small_lib (small_lock ''2'') \<subseteq> {''old'', ''shard''}"
    by blast+
  then show "inj_on (sl_sha256 small_lib) (ran (disk_read (small_disk faults)) \<union> shard_texts small_lib (small_lock ''2''))"
    and "inj_on (sl_sha256 small_lib) (ran (disk_read (small_disk faults)) \<union> ran (disk_read (fst (small_write cut_short))) \<union> shard_texts small_lib (small_lock ''2''))"
    by (auto intro: inj_on_subset [OF inj])
qed

lemma small_given: "fs_eval small_fs ''/w'' = Some ''/w''" "is_abs ''/w''" "lock_Repository (small_lock ''2'') \<noteq> []"
    "inj_on (shardRelativePath small_lib) (pv_Package ` set (lock_PackageVersion (small_lock ''2'')))"
  by (simp_all add: small_fs_def is_abs_def small_lock_def)

theorem written_lock_loads_witness:
  "LoadLock small_lib small_fs (fst (small_write [])) ''/w'' small_repository \<in> {Inl LockTooLarge, Inr (canonical (small_lock ''2''))}"
proof (rule written_lock_loads [OF _ small_given(1,2) small_laws small_given(3,4) small_digests(1)])
  show "WriteLock small_lib small_fs ''/w'' small_repository (small_lock ''2'') (small_disk []) = (fst (small_write []), Inr ())"
    using small_succeeds by (metis small_write_def prod.collapse)
  show "intact small_lib small_fs (small_disk []) ''/w'' small_repository" using small_loads by (auto simp: intact_def)
qed

theorem interrupted_lock_write_is_loud_witness:
  "projr (LoadLock small_lib small_fs (fst (small_write cut_short)) ''/w'' small_repository) \<in> {small_lock ''1'', canonical (small_lock ''2'')}"
proof -
  have "WriteLock small_lib small_fs ''/w'' small_repository (small_lock ''2'') (small_disk cut_short) = (fst (small_write cut_short), Inl (LockCall ''walk''))"
    using small_stops by (metis small_write_def prod.collapse)
  from interrupted_lock_write_is_loud [OF this small_given(1,2) small_laws small_given(3,4) small_digests(2) small_loads_before small_loads_after]
  show ?thesis using small_loads_after by auto
qed

end
