(* ===== verification/Raw_Inspect.thy ===== *)
theory Raw_Inspect
  imports Lock_Store Effects
begin

section \<open>Raw artifacts\<close>

text \<open>
  \<^verbatim>\<open>formats/raw/inspect.go\<close>: the identity of an artifact that carries none, from its filename or from the
  operator, and the facts of \<^verbatim>\<open>internal/domain/artifact.go\<close> that every format derives. Filenames are
  ASCII, so that lower-casing them is lower-casing their bytes.
\<close>

record PackageFacts =
  facts_Name :: gostring
  facts_Version :: gostring
  facts_Architecture :: gostring
  facts_InstalledSize :: int
  facts_RequiresPython :: gostring
  facts_Requirements :: "gostring list"
  facts_Fields :: "(gostring \<times> gostring) list"

datatype raw_error = RawFilename gostring | RawTooLarge | RawShort gostring | RawNoIdentity gostring | RawName gostring | RawVersion gostring

definition raw_facts :: "gostring \<Rightarrow> gostring \<Rightarrow> gostring \<Rightarrow> PackageFacts" where
  "raw_facts name version architecture = \<lparr>facts_Name = name, facts_Version = version, facts_Architecture = architecture,
     facts_InstalledSize = 0, facts_RequiresPython = [], facts_Requirements = [], facts_Fields = []\<rparr>"

definition raw_namePattern :: rx where
  "raw_namePattern = Seq (Cls (\<lambda>c. is_alpha c \<or> is_digit c)) (Upto 127 (Cls (\<lambda>c. is_alpha c \<or> is_digit c \<or> c \<in> {CHR ''.'', CHR ''_'', CHR ''+'', CHR ''-''})))"

definition raw_versionPattern :: rx where
  "raw_versionPattern = Seq (Cls is_digit) (Upto 127 (Cls (\<lambda>c. is_alpha c \<or> is_digit c \<or> c \<in> {CHR ''.'', CHR ''+'', CHR ''~'', CHR ''-''})))"

definition raw_name_ok :: "gostring \<Rightarrow> bool" where
  "raw_name_ok name \<longleftrightarrow> rx_full raw_namePattern name \<noteq> None"

definition raw_version_ok :: "gostring \<Rightarrow> bool" where
  "raw_version_ok version \<longleftrightarrow> rx_full raw_versionPattern version \<noteq> None"

definition knownOperatingSystems :: "gostring list" where
  "knownOperatingSystems = [''linux'', ''darwin'', ''windows'', ''freebsd'', ''openbsd'', ''netbsd'', ''solaris'', ''aix'', ''js'']"

definition knownArchitectures :: "gostring list" where
  "knownArchitectures = [''amd64'', ''arm64'', ''386'', ''arm'', ''armv6'', ''armv7'', ''ppc64'', ''ppc64le'', ''s390x'', ''mips'', ''mipsle'',
     ''mips64'', ''mips64le'', ''riscv64'', ''loong64'', ''wasm'', ''universal'', ''x86_64'', ''aarch64'', ''i386'']"

subsection \<open>Filenames\<close>

definition compoundExtension :: "gostring \<Rightarrow> gostring" where
  "compoundExtension filename =
     (case find (has_suffix (to_lower filename)) [''.tar.gz'', ''.tar.bz2'', ''.tar.xz'', ''.tar.zst''] of
        Some ending \<Rightarrow> drop (length filename - length ending) filename
      | None \<Rightarrow> (case cut_last (CHR ''.'') filename of None \<Rightarrow> [] | Some (before, after) \<Rightarrow> if before = [] then [] else CHR ''.'' # after))"

definition trailingToken :: "gostring \<Rightarrow> (gostring \<times> gostring) option" where
  "trailingToken stem =
     (let fields = split_on (CHR ''_'') stem; n = length fields;
          joined = to_lower (fields ! (n - 2) @ ''_'' @ fields ! (n - 1)) in
      if n < 3 then None
      else if 4 \<le> n \<and> (joined \<in> set knownArchitectures \<or> joined \<in> set knownOperatingSystems)
      then Some (joined, join_with ''_'' (take (n - 2) fields))
      else Some (fields ! (n - 1), join_with ''_'' (take (n - 1) fields)))"

lemma join_split: "join_with [c] (split_on c s) = s"
proof (induction c s rule: split_on.induct)
  case (2 c x xs)
  then show ?case by (cases "split_on c xs"; cases "tl (split_on c xs)") auto
qed simp

lemma join_take_shorter: "k < length fs \<Longrightarrow> 0 < k \<Longrightarrow> length (join_with [c] (take k fs)) < length (join_with [c] fs)"
proof (induction fs arbitrary: k)
  case (Cons f fs)
  then obtain j where k: "k = Suc j" by (cases k) auto
  have "fs \<noteq> []" using Cons.prems k by auto
  then show ?case using Cons.IH [of j] Cons.prems k by (cases "j = 0") (auto simp: join_with_Cons take_eq_Nil)
qed simp

lemma trailingToken_shorter: "trailingToken stem = Some (token, remainder) \<Longrightarrow> length remainder < length stem"
  using join_take_shorter [of "length (split_on (CHR ''_'') stem) - 2" "split_on (CHR ''_'') stem" "CHR ''_''"]
    join_take_shorter [of "length (split_on (CHR ''_'') stem) - 1" "split_on (CHR ''_'') stem" "CHR ''_''"] join_split [of "CHR ''_''" stem]
  by (auto simp: trailingToken_def Let_def split: if_splits)

function strip_platform :: "gostring \<Rightarrow> gostring \<Rightarrow> gostring \<times> gostring" where
  "strip_platform stem architecture =
     (case trailingToken stem of None \<Rightarrow> (stem, architecture)
      | Some (token, remainder) \<Rightarrow>
        if to_lower token \<in> set knownArchitectures
        then strip_platform remainder (if architecture = [] then to_lower token else architecture)
        else if to_lower token \<in> set knownOperatingSystems then strip_platform remainder architecture
        else (stem, architecture))"
  by pat_completeness auto

termination by (relation "measure (\<lambda>(stem, _). length stem)") (auto dest: trailingToken_shorter)

declare strip_platform.simps [simp del]

definition parseFilename :: "gostring \<Rightarrow> gostring \<times> gostring \<times> gostring" where
  "parseFilename filename =
     (let (stem, architecture) = strip_platform (trim_suffix filename (compoundExtension filename)) [] in
      case split_on (CHR ''_'') stem of
        [name, version] \<Rightarrow> if \<not> raw_name_ok name \<or> \<not> raw_version_ok version then ([], [], []) else (name, version, architecture)
      | _ \<Rightarrow> ([], [], []))"

subsection \<open>Inspection\<close>

definition raw_MaxArtifactSize :: int where "raw_MaxArtifactSize = 2 * 2 ^ 30"

definition raw_Inspect :: "gostring \<Rightarrow> gostring \<Rightarrow> int \<Rightarrow> Identity \<Rightarrow> raw_error + PackageFacts" where
  "raw_Inspect filename content given supplied =
     andR (requireR (raw_IsArtifactFilename filename) (RawFilename filename)) (\<lambda>_.
     andR (requireR (\<not> (given < 0 \<or> raw_MaxArtifactSize < given)) RawTooLarge) (\<lambda>_.
     andR (requireR (int (length (take (nat given) content)) = given) (RawShort filename)) (\<lambda>_.
     (let (name, version, architecture) = parseFilename filename;
          name = (if id_Name supplied \<noteq> [] then id_Name supplied else name);
          version = (if id_Version supplied \<noteq> [] then id_Version supplied else version) in
      andR (requireR (\<not> (name = [] \<or> version = [])) (RawNoIdentity filename)) (\<lambda>_.
      andR (requireR (raw_name_ok name) (RawName name)) (\<lambda>_.
      andR (requireR (raw_version_ok version) (RawVersion version)) (\<lambda>_.
      Inr (raw_facts name version architecture))))))))"

definition FactsFor :: "gostring \<Rightarrow> gostring \<Rightarrow> gostring \<Rightarrow> raw_error + PackageFacts" where
  "FactsFor name version filename =
     andR (requireR (raw_IsArtifactFilename filename) (RawFilename filename)) (\<lambda>_.
     andR (requireR (raw_name_ok name) (RawName name)) (\<lambda>_.
     andR (requireR (raw_version_ok version) (RawVersion version)) (\<lambda>_.
     Inr (raw_facts name version (snd (snd (parseFilename filename)))))))"

text \<open>What an inspection yields, the published tree yields again from the path alone.\<close>

lemma inspected_facts_republish:
  "raw_Inspect filename content given supplied = Inr facts \<Longrightarrow> FactsFor (facts_Name facts) (facts_Version facts) filename = Inr facts"
  by (cases "parseFilename filename") (auto simp: raw_Inspect_def FactsFor_def Let_def raw_facts_def)

end
