(* ===== verification/Cas.thy ===== *)
theory Cas
  imports Raw_Inspect
begin

section \<open>The content-addressed store of a workspace\<close>

text \<open>
  \<^verbatim>\<open>internal/state/cas.go\<close> and \<^verbatim>\<open>internal/factscache/factscache.go\<close>: artifacts kept under the digest of their
  bytes, what is checked before bytes become an object and before an object is used, and the memo of the facts
  that were derived. The objects are indexed by digest; a temporary file is not an object. A list of
  faults says which of the calls to come fail. The digests, the inspection of the formats other than
  raw, and timestamp parsing are a record of parameters; cancellation of a context is not modelled,
  and the path of the object, which the code returns beside the blob, is left out.
\<close>

datatype cas_node = Regular gostring | Irregular

record cas_world =
  cas_objects :: "gostring \<Rightarrow> cas_node option"
  cas_facts :: "(gostring \<times> PackageFacts) list"
  cas_faults :: "bool list"

datatype fetch_error = BlobNotFound | BlobOther

datatype cas_error = CasCall gostring | CasPath path_error | CasMissing | CasNotRegular | CasCorrupt | CasFormat | CasTooLarge
  | CasChanged | CasInspect gostring | CasInvalidDigest | CasFetch fetch_error | CasUnsafeName

record cas_lib =
  cl_sha256 :: "gostring \<Rightarrow> gostring"
  cl_md5 :: "gostring \<Rightarrow> gostring"
  cl_sha1 :: "gostring \<Rightarrow> gostring"
  cl_inspect :: "format \<Rightarrow> gostring \<Rightarrow> gostring \<Rightarrow> int \<Rightarrow> Identity \<Rightarrow> gostring + PackageFacts"
  cl_parseTime :: "gostring \<Rightarrow> int option"

record Blob =
  db_Filename :: gostring
  db_Size :: int
  db_MD5 :: gostring
  db_SHA1 :: gostring
  db_SHA256 :: gostring
  db_Added :: int
  db_Facts :: PackageFacts

subsection \<open>Calls\<close>

definition cas_call :: "gostring \<Rightarrow> (cas_world, cas_error, unit) eff" where
  "cas_call what = (\<lambda>w. case cas_faults w of [] \<Rightarrow> (w, Inr ())
     | fault # faults \<Rightarrow> (w\<lparr>cas_faults := faults\<rparr>, if fault then Inl (CasCall what) else Inr ()))"

definition cas_calls :: "gostring list \<Rightarrow> (cas_world, cas_error, unit) eff" where
  "cas_calls whats = each cas_call whats"

definition cas_put :: "gostring \<Rightarrow> gostring \<Rightarrow> (cas_world, cas_error, unit) eff" where
  "cas_put digest content = update (\<lambda>w. w\<lparr>cas_objects := (cas_objects w)(digest \<mapsto> Regular content)\<rparr>)"

subsection \<open>The memo of facts\<close>

definition maxEntries :: nat where "maxEntries = 4096"

definition cache_key :: "gostring \<Rightarrow> gostring \<Rightarrow> gostring" where
  "cache_key format digest = format @ nul @ digest"

definition cache_Lookup :: "gostring \<Rightarrow> gostring \<Rightarrow> (gostring \<times> PackageFacts) list \<Rightarrow> PackageFacts option" where
  "cache_Lookup format digest cache = (if digest = [] then None else map_of cache (cache_key format digest))"

definition cache_Store :: "gostring \<Rightarrow> gostring \<Rightarrow> PackageFacts \<Rightarrow> (gostring \<times> PackageFacts) list \<Rightarrow> (gostring \<times> PackageFacts) list" where
  "cache_Store format digest facts cache =
     (if digest = [] \<or> maxEntries \<le> length cache then cache
      else (cache_key format digest, facts) # filter (\<lambda>entry. fst entry \<noteq> cache_key format digest) cache)"

subsection \<open>Digests and facts\<close>

text \<open>Whether MD5 and SHA-1 are computed beside SHA-256, and what they read as when they are not.\<close>

definition newLegacyDigests :: "gostring \<Rightarrow> bool" where
  "newLegacyDigests format = (case For format of Inl _ \<Rightarrow> True | Inr selected \<Rightarrow> RequiresLegacyDigests selected)"

definition md5Hex :: "cas_lib \<Rightarrow> bool \<Rightarrow> gostring \<Rightarrow> gostring" where
  "md5Hex lib legacy content = (if legacy then cl_md5 lib content else [])"

definition sha1Hex :: "cas_lib \<Rightarrow> bool \<Rightarrow> gostring \<Rightarrow> gostring" where
  "sha1Hex lib legacy content = (if legacy then cl_sha1 lib content else [])"

definition format_Inspect :: "cas_lib \<Rightarrow> format \<Rightarrow> gostring \<Rightarrow> gostring \<Rightarrow> int \<Rightarrow> Identity \<Rightarrow> gostring + PackageFacts" where
  "format_Inspect lib selected filename content given supplied =
     (if selected = RawFormat then (case raw_Inspect filename content given supplied of Inl _ \<Rightarrow> Inl ''raw'' | Inr facts \<Rightarrow> Inr facts)
      else cl_inspect lib selected filename content given supplied)"

definition cas_inspect :: "cas_lib \<Rightarrow> gostring \<Rightarrow> gostring \<Rightarrow> gostring \<Rightarrow> int \<Rightarrow> Identity \<Rightarrow> cas_error + PackageFacts" where
  "cas_inspect lib format filename content given supplied =
     (case For format of Inl _ \<Rightarrow> Inl CasFormat
      | Inr selected \<Rightarrow> (case format_Inspect lib selected filename content given supplied of Inl e \<Rightarrow> Inl (CasInspect e) | Inr facts \<Rightarrow> Inr facts))"

definition formatMaximum :: "gostring \<Rightarrow> cas_error + int" where
  "formatMaximum format = (case For format of Inl _ \<Rightarrow> Inl CasFormat | Inr selected \<Rightarrow> Inr (rule_MaxArtifactSize (rules selected)))"

definition parseLockTime :: "cas_lib \<Rightarrow> gostring \<Rightarrow> int" where
  "parseLockTime lib value = (if value = [] then 0 else case cl_parseTime lib value of None \<Rightarrow> 0 | Some t \<Rightarrow> t)"

definition ToLockedBlob :: "Blob \<Rightarrow> LockedBlob" where
  "ToLockedBlob b = \<lparr>blob_Filename = db_Filename b, blob_Architecture = facts_Architecture (db_Facts b), blob_Size = db_Size b, blob_MD5 = db_MD5 b,
     blob_SHA1 = db_SHA1 b, blob_SHA256 = db_SHA256 b, blob_Added = [], blob_Origin = None\<rparr>"

definition cas_lift :: "cas_error + 'a \<Rightarrow> (cas_world, cas_error, 'a) eff" where
  "cas_lift r = (case r of Inl e \<Rightarrow> fail e | Inr a \<Rightarrow> ok a)"

text \<open>Reading at most a number of bytes.\<close>

definition read_limited :: "int \<Rightarrow> gostring \<Rightarrow> gostring" where
  "read_limited limit content = take (nat limit) content"

subsection \<open>Inspecting bytes\<close>

definition safe_filename :: "gostring \<Rightarrow> bool" where
  "safe_filename filename \<longleftrightarrow> \<not> (filename = [] \<or> path_base filename \<noteq> filename \<or> contains_any filename [CHR 0x00, CHR 0x0D, CHR 0x0A, CHR ''/'', CHR 0x5C])"

definition InspectArtifactBytes :: "cas_lib \<Rightarrow> gostring \<Rightarrow> gostring \<Rightarrow> gostring \<Rightarrow> Identity \<Rightarrow> cas_error + Blob" where
  "InspectArtifactBytes lib format filename content supplied =
     andR (requireR (safe_filename filename) CasUnsafeName) (\<lambda>_.
     andR (formatMaximum format) (\<lambda>maximum.
     andR (requireR (int (length content) \<le> maximum) CasTooLarge) (\<lambda>_.
     andR (cas_inspect lib format filename content (int (length content)) supplied) (\<lambda>facts.
     (let legacy = newLegacyDigests format in
      Inr \<lparr>db_Filename = filename, db_Size = int (length content), db_MD5 = md5Hex lib legacy content, db_SHA1 = sha1Hex lib legacy content,
        db_SHA256 = cl_sha256 lib content, db_Added = 0, db_Facts = facts\<rparr>)))))"

text \<open>The same on an open file, with the size the caller gives.\<close>

definition InspectArtifactFile :: "cas_lib \<Rightarrow> gostring \<Rightarrow> gostring \<Rightarrow> gostring \<Rightarrow> int \<Rightarrow> Identity \<Rightarrow> (cas_world, cas_error, Blob) eff" where
  "InspectArtifactFile lib format filename content given supplied =
     andThen (guard (safe_filename filename) CasUnsafeName) (\<lambda>_.
     andThen (cas_lift (formatMaximum format)) (\<lambda>maximum.
     andThen (guard (given \<le> maximum) CasTooLarge) (\<lambda>_.
     andThen (cas_lift (cas_inspect lib format filename content given supplied)) (\<lambda>facts.
     andThen (cas_calls [''seek'', ''copy'']) (\<lambda>_.
     (let legacy = newLegacyDigests format in
      ok \<lparr>db_Filename = filename, db_Size = given, db_MD5 = md5Hex lib legacy content, db_SHA1 = sha1Hex lib legacy content,
        db_SHA256 = cl_sha256 lib content, db_Added = 0, db_Facts = facts\<rparr>))))))"

subsection \<open>Checking an object against the lock\<close>

definition verifyStoredBlob :: "cas_lib \<Rightarrow> gostring \<Rightarrow> int \<Rightarrow> (cas_world, cas_error, unit) eff" where
  "verifyStoredBlob lib expectedDigest expectedSize =
     andThen (cas_call ''lstat'') (\<lambda>_.
     andThen (gets (\<lambda>w. cas_objects w expectedDigest)) (\<lambda>node. case node of
       None \<Rightarrow> fail CasMissing
     | Some Irregular \<Rightarrow> fail CasNotRegular
     | Some (Regular content) \<Rightarrow>
         andThen (cas_calls [''open'', ''stat'', ''read'', ''close'']) (\<lambda>_.
         (let bytes = read_limited (expectedSize + 1) content in
          guard (int (length bytes) = expectedSize \<and> cl_sha256 lib bytes = expectedDigest) CasCorrupt))))"

definition validateLockedBlobOpen :: "cas_lib \<Rightarrow> gostring \<Rightarrow> gostring \<Rightarrow> LockedBlob \<Rightarrow> Identity \<Rightarrow> (cas_world, cas_error, Blob) eff" where
  "validateLockedBlobOpen lib content format locked supplied =
     andThen (cas_lift (formatMaximum format)) (\<lambda>maximum.
     andThen (guard (\<not> (blob_Size locked < 0 \<or> maximum < blob_Size locked)) CasCorrupt) (\<lambda>_.
     andThen (cas_calls [''stat'', ''read'']) (\<lambda>_.
     (let bytes = read_limited (blob_Size locked + 1) content; legacy = newLegacyDigests format; given = int (length bytes);
          md5 = md5Hex lib legacy bytes; sha1 = sha1Hex lib legacy bytes; sha256 = cl_sha256 lib bytes in
      andThen (guard (\<not> (given \<noteq> int (length content) \<or> given \<noteq> blob_Size locked \<or> sha256 \<noteq> blob_SHA256 locked \<or>
        legacyDigestConflict locked (locked\<lparr>blob_MD5 := md5, blob_SHA1 := sha1\<rparr>))) CasCorrupt) (\<lambda>_.
      andThen (gets (\<lambda>w. cache_Lookup format sha256 (cas_facts w))) (\<lambda>cached.
      andThen (case cached of Some facts \<Rightarrow> ok facts
        | None \<Rightarrow> andThen (cas_call ''seek'') (\<lambda>_. case cas_inspect lib format (blob_Filename locked) content given supplied of
            Inl _ \<Rightarrow> fail CasCorrupt
          | Inr facts \<Rightarrow> andThen (update (\<lambda>w. w\<lparr>cas_facts := cache_Store format sha256 facts (cas_facts w)\<rparr>)) (\<lambda>_. ok facts))) (\<lambda>facts.
      andThen (guard (facts_Architecture facts = blob_Architecture locked) CasCorrupt) (\<lambda>_.
      ok \<lparr>db_Filename = blob_Filename locked, db_Size = given, db_MD5 = md5, db_SHA1 = sha1, db_SHA256 = sha256,
        db_Added = parseLockTime lib (blob_Added locked), db_Facts = facts\<rparr>))))))))"

definition LoadBlob :: "cas_lib \<Rightarrow> gostring \<Rightarrow> LockedBlob \<Rightarrow> Identity \<Rightarrow> (cas_world, cas_error, Blob) eff" where
  "LoadBlob lib format locked supplied =
     andThen (guard (length (blob_SHA256 locked) = 64) CasInvalidDigest) (\<lambda>_.
     andThen (cas_calls [''resolve'', ''open root'', ''lstat'']) (\<lambda>_.
     andThen (gets (\<lambda>w. cas_objects w (blob_SHA256 locked))) (\<lambda>node. case node of
       None \<Rightarrow> fail CasMissing
     | Some Irregular \<Rightarrow> fail CasCorrupt
     | Some (Regular content) \<Rightarrow> andThen (cas_call ''open'') (\<lambda>_. validateLockedBlobOpen lib content format locked supplied))))"

definition ValidateLockedBlobReference :: "gostring \<Rightarrow> LockedBlob \<Rightarrow> cas_error + unit" where
  "ValidateLockedBlobReference format locked =
     andR (requireR (ValidSHA256 (blob_SHA256 locked)) CasCorrupt) (\<lambda>_.
     andR (formatMaximum format) (\<lambda>maximum. requireR (\<not> (blob_Size locked < 0 \<or> maximum < blob_Size locked)) CasCorrupt))"

definition validateLockedDigest :: "gostring \<Rightarrow> LockedBlob \<Rightarrow> cas_error + unit" where
  "validateLockedDigest format locked =
     andR (requireR (ValidSHA256 (blob_SHA256 locked)) CasInvalidDigest) (\<lambda>_.
     andR (formatMaximum format) (\<lambda>maximum. requireR (\<not> (blob_Size locked < 0 \<or> maximum < blob_Size locked)) CasTooLarge))"

subsection \<open>Admitting bytes\<close>

definition InstallBlob :: "cas_lib \<Rightarrow> gostring \<Rightarrow> LockedBlob \<Rightarrow> Identity \<Rightarrow> fetch_error + gostring \<Rightarrow> (cas_world, cas_error, Blob) eff" where
  "InstallBlob lib format locked supplied written_bytes =
     andThen (cas_lift (validateLockedDigest format locked)) (\<lambda>_.
     andThen (cas_calls [''resolve'', ''open root'', ''lstat'']) (\<lambda>_.
     andThen (gets (\<lambda>w. cas_objects w (blob_SHA256 locked))) (\<lambda>node.
     andThen (guard (node \<noteq> Some Irregular) CasNotRegular) (\<lambda>_.
     andThen (cas_calls [''mkdir'', ''random'', ''create'']) (\<lambda>_. case written_bytes of
       Inl e \<Rightarrow> fail (CasFetch e)
     | Inr content \<Rightarrow>
         andThen (cas_calls [''sync'', ''close'', ''lstat'', ''open'']) (\<lambda>_.
         andThen (validateLockedBlobOpen lib content format locked supplied) (\<lambda>_.
         andThen (cas_calls [''chmod'', ''rename'']) (\<lambda>_.
         andThen (cas_put (blob_SHA256 locked) content) (\<lambda>_.
         andThen (cas_calls [''open'', ''sync'', ''close'']) (\<lambda>_.
         LoadBlob lib format locked supplied))))))))))"

type_synonym blob_fetch = "gostring \<Rightarrow> int \<Rightarrow> fetch_error + gostring"

definition EnsureBlob :: "cas_lib \<Rightarrow> gostring \<Rightarrow> LockedBlob \<Rightarrow> blob_fetch option \<Rightarrow> Identity \<Rightarrow> (cas_world, cas_error, Blob) eff" where
  "EnsureBlob lib format locked store supplied =
     andThen (cas_lift (validateLockedDigest format locked)) (\<lambda>_.
     andThen (attempt (LoadBlob lib format locked supplied)) (\<lambda>loaded. case loaded of
       Inr b \<Rightarrow> ok b
     | Inl e \<Rightarrow> (case store of None \<Rightarrow> fail e
         | Some fetch \<Rightarrow> InstallBlob lib format locked supplied (fetch (blob_SHA256 locked) (blob_Size locked)))))"

text \<open>The file that is imported: what \<^verbatim>\<open>Lstat\<close> says of it, and its bytes when it is read.\<close>

record import_file =
  if_regular :: bool
  if_size :: int
  if_content :: gostring

definition PutArtifact :: "cas_lib \<Rightarrow> file_system \<Rightarrow> gostring \<Rightarrow> gostring \<Rightarrow> gostring \<Rightarrow> import_file option \<Rightarrow> Identity \<Rightarrow> (cas_world, cas_error, Blob) eff" where
  "PutArtifact lib fs root format sourceName imported supplied = (case imported of None \<Rightarrow> fail CasMissing
   | Some given \<Rightarrow>
     andThen (guard (if_regular given) CasNotRegular) (\<lambda>_.
     andThen (cas_lift (formatMaximum format)) (\<lambda>maximum.
     andThen (guard (if_size given \<le> maximum) CasTooLarge) (\<lambda>_.
     andThen (case WorkspacePath fs root ''.snailmail/cas/sha256'' of Inl e \<Rightarrow> fail (CasPath e) | Inr _ \<Rightarrow> ok ()) (\<lambda>_.
     andThen (cas_calls [''directories'', ''create'', ''open'', ''copy'', ''close'']) (\<lambda>_.
     (let content = read_limited (maximum + 1) (if_content given); bytes = int (length content); filename = path_base sourceName;
          legacy = newLegacyDigests format; digest = cl_sha256 lib content in
      andThen (guard (bytes = if_size given) CasChanged) (\<lambda>_.
      andThen (cas_call ''seek'') (\<lambda>_.
      andThen (cas_lift (cas_inspect lib format filename content bytes supplied)) (\<lambda>facts.
      andThen (cas_calls [''directories'', ''sync'', ''close'', ''chmod'', ''link'']) (\<lambda>_.
      andThen (gets (\<lambda>w. cas_objects w digest)) (\<lambda>node.
      andThen (if node = None then andThen (cas_put digest content) (\<lambda>_. cas_calls [''open'', ''sync'', ''close'']) else verifyStoredBlob lib digest bytes) (\<lambda>_.
      ok \<lparr>db_Filename = filename, db_Size = bytes, db_MD5 = md5Hex lib legacy content, db_SHA1 = sha1Hex lib legacy content,
        db_SHA256 = digest, db_Added = 0, db_Facts = facts\<rparr>)))))))))))))"

end
