(* ===== verification/Cas_Safety.thy ===== *)
theory Cas_Safety
  imports Cas
begin

section \<open>What the store of artifacts keeps\<close>

text \<open>
  Every operation of \<^verbatim>\<open>internal/state/cas.go\<close> at every point it can fail: the objects of the store hash to their
  names, none is lost, and a blob that is handed out is the one of the lock.
\<close>

definition cas_sound :: "cas_lib \<Rightarrow> cas_world \<Rightarrow> bool" where
  "cas_sound lib w \<longleftrightarrow> (\<forall>digest content. cas_objects w digest = Some (Regular content) \<longrightarrow> cl_sha256 lib content = digest)"

text \<open>What may become of the objects: one that is there stays or gives way to bytes with its digest, and a new one has its digest.\<close>

definition cas_step :: "cas_lib \<Rightarrow> cas_world \<Rightarrow> cas_world \<Rightarrow> bool" where
  "cas_step lib w w' \<longleftrightarrow> (\<forall>digest. cas_objects w' digest = cas_objects w digest \<or>
     (\<exists>content. cas_objects w' digest = Some (Regular content) \<and> cl_sha256 lib content = digest))"

lemma cas_step_refl: "cas_step lib w w"
  by (simp add: cas_step_def)

lemma cas_step_trans: "cas_step lib w w' \<Longrightarrow> cas_step lib w' w'' \<Longrightarrow> cas_step lib w w''"
  unfolding cas_step_def by metis

lemma cas_step_same: "cas_objects w' = cas_objects w \<Longrightarrow> cas_step lib w w'"
  by (simp add: cas_step_def)

lemma cas_step_sound: "cas_step lib w w' \<Longrightarrow> cas_sound lib w \<Longrightarrow> cas_sound lib w'"
  unfolding cas_step_def cas_sound_def by (metis cas_node.inject option.inject)

text \<open>Code that only takes such steps, by its parts.\<close>

named_theorems careful_intro \<open>code that keeps the objects of the store, by its parts\<close>

definition careful :: "cas_lib \<Rightarrow> (cas_world, 'e, 'a) eff \<Rightarrow> bool" where
  "careful lib m \<longleftrightarrow> (\<forall>w. cas_step lib w (fst (m w)))"

lemma careful_ok [careful_intro]: "careful lib (ok a)" "careful lib (fail e)" "careful lib (gets f)" "careful lib (guard b e)"
  by (simp_all add: careful_def ok_def fail_def gets_def guard_def cas_step_refl)

lemma careful_then [careful_intro]: "careful lib m \<Longrightarrow> (\<And>a. careful lib (f a)) \<Longrightarrow> careful lib (andThen m f)"
  unfolding careful_def andThen_def by (auto split: prod.split sum.split intro: cas_step_trans) (metis cas_step_trans fst_conv)+

lemma careful_attempt [careful_intro]: "careful lib m \<Longrightarrow> careful lib (attempt m)"
  unfolding careful_def attempt_def by (metis (mono_tags, lifting) case_prod_beta fst_conv)

lemma careful_call [careful_intro]: "careful lib (cas_call what)"
  by (auto simp: careful_def cas_call_def cas_step_refl cas_step_same split: list.split)

lemma careful_calls [careful_intro]: "careful lib (cas_calls whats)"
  unfolding cas_calls_def by (induction whats) (simp_all add: careful_intro)

lemma careful_lift [careful_intro]: "careful lib (cas_lift r)"
  by (cases r) (simp_all add: cas_lift_def careful_intro)

lemma careful_memo [careful_intro]: "careful lib (update (\<lambda>w. w\<lparr>cas_facts := f w\<rparr>))"
  by (simp add: careful_def update_def cas_step_def)

lemma careful_put [careful_intro]: "cl_sha256 lib content = digest \<Longrightarrow> careful lib (cas_put digest content)"
  by (simp add: careful_def cas_put_def update_def cas_step_def)

lemma careful_validate [careful_intro]: "careful lib (validateLockedBlobOpen lib' content format locked supplied)"
  unfolding validateLockedBlobOpen_def Let_def by (intro careful_intro) (auto intro!: careful_intro split: option.split sum.split)

lemma careful_LoadBlob [careful_intro]: "careful lib (LoadBlob lib' format locked supplied)"
  unfolding LoadBlob_def by (intro careful_intro) (auto intro!: careful_intro split: option.split cas_node.split)

lemma careful_verify [careful_intro]: "careful lib (verifyStoredBlob lib' digest given)"
  unfolding verifyStoredBlob_def Let_def by (intro careful_intro) (auto intro!: careful_intro split: option.split cas_node.split)

lemma careful_PutArtifact [careful_intro]: "careful lib (PutArtifact lib fs root format sourceName imported supplied)"
  unfolding PutArtifact_def Let_def
  by (cases imported) (auto intro!: careful_intro split: sum.split)

subsection \<open>Bytes that pass the check\<close>

text \<open>What a return of the check says of the bytes and of the blob.\<close>

definition blob_of_lock :: "cas_lib \<Rightarrow> LockedBlob \<Rightarrow> gostring \<Rightarrow> Blob \<Rightarrow> bool" where
  "blob_of_lock lib locked content b \<longleftrightarrow> int (length content) = blob_Size locked \<and> cl_sha256 lib content = blob_SHA256 locked \<and>
     db_Filename b = blob_Filename locked \<and> db_Size b = blob_Size locked \<and> db_SHA256 b = blob_SHA256 locked \<and>
     facts_Architecture (db_Facts b) = blob_Architecture locked"

lemma andThen_Inr: "andThen m f w = (w', Inr b) \<longleftrightarrow> (\<exists>w1 a. m w = (w1, Inr a) \<and> f a w1 = (w', Inr b))"
  by (auto simp: andThen_def split: prod.splits sum.splits)

lemma attempt_Inr: "attempt m w = (w', Inr r) \<longleftrightarrow> m w = (w', r)"
  by (auto simp: attempt_def split: prod.split)

lemma guard_Inr [simp]: "guard b e w = (w', Inr u) \<longleftrightarrow> b \<and> w' = w"
  by (auto simp: guard_def ok_def fail_def)

lemma read_limited_all: "length (read_limited limit content) = length content \<Longrightarrow> read_limited limit content = content"
  by (simp add: read_limited_def)

lemma validate_Inr:
  assumes "validateLockedBlobOpen lib content format locked supplied w = (w', Inr b)"
  shows "blob_of_lock lib locked content b"
proof -
  have "length (read_limited (blob_Size locked + 1) content) = length content"
    using assms by (auto simp: validateLockedBlobOpen_def Let_def andThen_Inr)
  then show ?thesis using assms unfolding validateLockedBlobOpen_def Let_def blob_of_lock_def
    by (auto simp: andThen_Inr ok_def dest!: read_limited_all)
qed

lemma careful_install [careful_intro]: "careful lib (InstallBlob lib format locked supplied written_bytes)"
proof -
  have install: "careful lib (andThen (validateLockedBlobOpen lib content format locked supplied) (\<lambda>_.
      andThen (cas_calls whats) (\<lambda>_. andThen (cas_put (blob_SHA256 locked) content) f)))" if "\<And>u. careful lib (f u)" for content whats f
  proof -
    have "cas_step lib w (fst (andThen (validateLockedBlobOpen lib content format locked supplied)
        (\<lambda>_. andThen (cas_calls whats) (\<lambda>_. andThen (cas_put (blob_SHA256 locked) content) f)) w))" for w
    proof (cases "validateLockedBlobOpen lib content format locked supplied w")
      case (Pair w1 r)
      then have step: "cas_step lib w w1" using careful_validate [of lib lib content format locked supplied] by (metis careful_def fst_conv)
      show ?thesis
      proof (cases r)
        case (Inr b)
        then have "cl_sha256 lib content = blob_SHA256 locked" using validate_Inr Pair by (auto simp: blob_of_lock_def)
        then have "careful lib (andThen (cas_calls whats) (\<lambda>_. andThen (cas_put (blob_SHA256 locked) content) f))"
          using that by (intro careful_intro) auto
        then show ?thesis using Pair Inr step by (auto simp: andThen_def careful_def intro: cas_step_trans)
      qed (use Pair step in \<open>simp add: andThen_def\<close>)
    qed
    then show ?thesis by (simp add: careful_def)
  qed
  show ?thesis unfolding InstallBlob_def by (intro careful_intro) (auto intro!: careful_intro install split: sum.split)
qed

lemma careful_ensure [careful_intro]: "careful lib (EnsureBlob lib format locked store supplied)"
  unfolding EnsureBlob_def by (intro careful_intro) (auto intro!: careful_intro split: sum.split option.split)

subsection \<open>Any use of the store\<close>

datatype cas_operation =
    PutOp file_system gostring gostring gostring "import_file option" Identity
  | LoadOp gostring LockedBlob Identity
  | InstallOp gostring LockedBlob Identity "fetch_error + gostring"
  | EnsureOp gostring LockedBlob "blob_fetch option" Identity

fun cas_operate :: "cas_lib \<Rightarrow> cas_operation \<Rightarrow> (cas_world, cas_error, Blob) eff" where
  "cas_operate lib (PutOp fs root format sourceName imported supplied) = PutArtifact lib fs root format sourceName imported supplied"
| "cas_operate lib (LoadOp format locked supplied) = LoadBlob lib format locked supplied"
| "cas_operate lib (InstallOp format locked supplied written_bytes) = InstallBlob lib format locked supplied written_bytes"
| "cas_operate lib (EnsureOp format locked store supplied) = EnsureBlob lib format locked store supplied"

primrec cas_operations :: "cas_lib \<Rightarrow> cas_operation list \<Rightarrow> cas_world \<Rightarrow> cas_world" where
  "cas_operations lib [] w = w"
| "cas_operations lib (operation # rest) w = cas_operations lib rest (fst (cas_operate lib operation w))"

lemma careful_operate: "careful lib (cas_operate lib operation)"
  by (cases operation) (simp_all add: careful_intro)

lemma cas_operations_step: "cas_step lib w (cas_operations lib operations w)"
proof (induction operations arbitrary: w)
  case (Cons operation rest)
  have "cas_step lib w (fst (cas_operate lib operation w))" using careful_operate by (simp add: careful_def)
  then show ?case using Cons.IH by (auto intro: cas_step_trans)
qed (simp add: cas_step_refl)

text \<open>
  C13: the store of artifacts stays sound. However imports, loads and installations follow each other, whatever
  bytes they are given and wherever they fail, every object that is a regular file hashes to the digest it
  is stored under, and an object that was there is there again with that digest.
\<close>

theorem cas_stays_sound:
  assumes "cas_sound lib w"
  shows "cas_sound lib (cas_operations lib operations w) \<and>
    (cas_objects w digest = Some (Regular content) \<longrightarrow>
      (\<exists>content'. cas_objects (cas_operations lib operations w) digest = Some (Regular content') \<and> cl_sha256 lib content' = digest))"
proof (intro conjI impI)
  have step: "cas_step lib w (cas_operations lib operations w)" by (rule cas_operations_step)
  then show "cas_sound lib (cas_operations lib operations w)" using assms by (rule cas_step_sound)
  assume "cas_objects w digest = Some (Regular content)"
  then show "\<exists>content'. cas_objects (cas_operations lib operations w) digest = Some (Regular content') \<and> cl_sha256 lib content' = digest"
    using step [unfolded cas_step_def, rule_format, of digest] assms by (auto simp: cas_sound_def)
qed

subsection \<open>A blob that is handed out\<close>

text \<open>Code that is careful whatever the digests are leaves the objects alone.\<close>

lemma careful_any_same:
  assumes "\<And>lib. careful lib m"
  shows "cas_objects (fst (m w)) = cas_objects w"
proof
  fix digest
  define odd :: cas_lib where "odd = \<lparr>cl_sha256 = (\<lambda>_. digest @ ''x''), cl_md5 = id, cl_sha1 = id, cl_inspect = (\<lambda>_ _ _ _ _. Inl []), cl_parseTime = (\<lambda>_. None)\<rparr>"
  have "cas_step odd w (fst (m w))" using assms [of odd] by (simp add: careful_def)
  then show "cas_objects (fst (m w)) digest = cas_objects w digest" unfolding cas_step_def odd_def by (metis cas_lib.select_convs(1) append_self_conv not_Cons_self2)
qed

lemma LoadBlob_objects: "LoadBlob lib format locked supplied w = (w', r) \<Longrightarrow> cas_objects w' = cas_objects w"
  using careful_any_same [OF careful_LoadBlob, of lib format locked supplied w] by simp

definition in_store :: "cas_lib \<Rightarrow> LockedBlob \<Rightarrow> cas_world \<Rightarrow> Blob \<Rightarrow> bool" where
  "in_store lib locked w b \<longleftrightarrow> (\<exists>content. cas_objects w (blob_SHA256 locked) = Some (Regular content) \<and> blob_of_lock lib locked content b)"

lemma LoadBlob_Inr:
  assumes "LoadBlob lib format locked supplied w = (w', Inr b)"
  shows "in_store lib locked w' b"
proof -
  let ?calls = "cas_calls [''resolve'', ''open root'', ''lstat'']"
  obtain w1 where calls: "?calls w = (w1, Inr ())" and node: "(case cas_objects w1 (blob_SHA256 locked) of None \<Rightarrow> fail CasMissing
      | Some Irregular \<Rightarrow> fail CasCorrupt
      | Some (Regular content) \<Rightarrow> andThen (cas_call ''open'') (\<lambda>_. validateLockedBlobOpen lib content format locked supplied)) w1 = (w', Inr b)"
    using assms by (auto simp: LoadBlob_def andThen_Inr gets_def)
  then obtain content w2 where content: "cas_objects w1 (blob_SHA256 locked) = Some (Regular content)"
    and valid: "validateLockedBlobOpen lib content format locked supplied w2 = (w', Inr b)"
    by (cases "cas_objects w1 (blob_SHA256 locked)"; cases "the (cas_objects w1 (blob_SHA256 locked))") (auto simp: fail_def andThen_Inr)
  have "cas_objects w (blob_SHA256 locked) = Some (Regular content)" using content calls careful_any_same [OF careful_calls, of "[''resolve'', ''open root'', ''lstat'']" w] by simp
  then show ?thesis using LoadBlob_objects [OF assms] valid validate_Inr by (auto simp: in_store_def)
qed

lemma InstallBlob_Inr: "InstallBlob lib format locked supplied written_bytes w = (w', Inr b) \<Longrightarrow> in_store lib locked w' b"
  unfolding InstallBlob_def by (cases written_bytes) (auto simp: andThen_Inr fail_def intro: LoadBlob_Inr)

text \<open>
  A blob that is handed out is the one the lock names: when a blob is found, locally or through a store, there
  is an object under its digest whose bytes have the digest and the size of the lock, and the blob has
  the name, the size, the digest and the architecture of the lock.
\<close>

lemma ensured_blob_is_the_locked_one:
  assumes "EnsureBlob lib format locked store supplied w = (w', Inr b)"
  shows "\<exists>content. cas_objects w' (blob_SHA256 locked) = Some (Regular content) \<and> cl_sha256 lib content = blob_SHA256 locked \<and>
    int (length content) = blob_Size locked \<and> db_Filename b = blob_Filename locked \<and> db_Size b = blob_Size locked \<and>
    db_SHA256 b = blob_SHA256 locked \<and> facts_Architecture (db_Facts b) = blob_Architecture locked"
proof -
  obtain w1 r w2 where load: "LoadBlob lib format locked supplied w1 = (w2, r)"
    and result: "(case r of Inr b \<Rightarrow> ok b | Inl e \<Rightarrow> (case store of None \<Rightarrow> fail e
      | Some fetch \<Rightarrow> InstallBlob lib format locked supplied (fetch (blob_SHA256 locked) (blob_Size locked)))) w2 = (w', Inr b)"
    using assms by (auto simp: EnsureBlob_def andThen_Inr attempt_Inr)
  have "in_store lib locked w' b"
    using load result LoadBlob_Inr InstallBlob_Inr by (cases r; cases store) (auto simp: ok_def fail_def)
  then show ?thesis by (auto simp: in_store_def blob_of_lock_def)
qed

subsection \<open>Importing and loading\<close>

lemma cas_calls_quiet: "cas_faults w = [] \<Longrightarrow> cas_call what w = (w, Inr ())" "cas_faults w = [] \<Longrightarrow> cas_calls whats w = (w, Inr ())"
proof -
  show "cas_faults w = [] \<Longrightarrow> cas_call what w = (w, Inr ())" for what by (simp add: cas_call_def)
  then show "cas_faults w = [] \<Longrightarrow> cas_calls whats w = (w, Inr ())"
    unfolding cas_calls_def by (induction whats) (simp_all add: ok_def andThen_def)
qed

lemma cas_calls_objects: "cas_call what w = (w', r) \<Longrightarrow> cas_objects w' = cas_objects w" "cas_calls whats w = (w', r) \<Longrightarrow> cas_objects w' = cas_objects w"
  using careful_any_same [OF careful_call, of what w] careful_any_same [OF careful_calls, of whats w] by simp_all

lemma cas_lift_Inr: "cas_lift r w = (w', Inr a) \<longleftrightarrow> r = Inr a \<and> w' = w"
  by (cases r) (auto simp: cas_lift_def ok_def fail_def)

lemma verify_Inr:
  assumes "verifyStoredBlob lib digest given w = (w', Inr u)"
  shows "\<exists>stored. cas_objects w' digest = Some (Regular stored) \<and> int (length (read_limited (given + 1) stored)) = given \<and>
    cl_sha256 lib (read_limited (given + 1) stored) = digest"
proof -
  obtain w1 where call: "cas_call ''lstat'' w = (w1, Inr ())" and node: "(case cas_objects w1 digest of None \<Rightarrow> fail CasMissing
      | Some Irregular \<Rightarrow> fail CasNotRegular
      | Some (Regular content) \<Rightarrow> andThen (cas_calls [''open'', ''stat'', ''read'', ''close'']) (\<lambda>_.
          guard (int (length (read_limited (given + 1) content)) = given \<and> cl_sha256 lib (read_limited (given + 1) content) = digest) CasCorrupt)) w1 = (w', Inr u)"
    using assms by (auto simp: verifyStoredBlob_def andThen_Inr gets_def Let_def)
  have "cas_objects w' = cas_objects w" using careful_any_same [OF careful_verify, of lib digest given w] assms by simp
  moreover have "cas_objects w1 = cas_objects w" using careful_any_same [OF careful_call, of "''lstat''" w] call by simp
  ultimately show ?thesis using node
    by (cases "cas_objects w1 digest"; cases "the (cas_objects w1 digest)") (auto simp: fail_def andThen_Inr)
qed

lemma read_limited_length: "int (length (read_limited (n + 1) content)) = n \<Longrightarrow> 0 \<le> n \<Longrightarrow> read_limited (n + 1) content = content"
  by (auto simp: read_limited_def min_def split: if_splits)

text \<open>What an import that succeeded has done.\<close>

lemma PutArtifact_Inr:
  assumes "PutArtifact lib fs root format sourceName (Some given) supplied w = (w', Inr b)"
    and "\<And>stored. cas_objects w (cl_sha256 lib (if_content given)) = Some (Regular stored) \<Longrightarrow> cl_sha256 lib stored = cl_sha256 lib (if_content given) \<Longrightarrow> stored = if_content given"
  shows "\<exists>maximum. formatMaximum format = Inr maximum \<and> int (length (if_content given)) \<le> maximum \<and>
    cas_inspect lib format (path_base sourceName) (if_content given) (int (length (if_content given))) supplied = Inr (db_Facts b) \<and>
    b = \<lparr>db_Filename = path_base sourceName, db_Size = int (length (if_content given)), db_MD5 = md5Hex lib (newLegacyDigests format) (if_content given),
      db_SHA1 = sha1Hex lib (newLegacyDigests format) (if_content given), db_SHA256 = cl_sha256 lib (if_content given), db_Added = 0, db_Facts = db_Facts b\<rparr> \<and>
    cas_objects w' (cl_sha256 lib (if_content given)) = Some (Regular (if_content given))"
proof -
  obtain maximum where maximum: "formatMaximum format = Inr maximum" "if_size given \<le> maximum"
    and bytes: "int (length (read_limited (maximum + 1) (if_content given))) = if_size given"
    using assms(1) by (cases "formatMaximum format") (auto simp: PutArtifact_def andThen_Inr Let_def cas_lift_def fail_def ok_def)
  have all: "read_limited (maximum + 1) (if_content given) = if_content given"
    using maximum(2) bytes by (auto simp: read_limited_def min_def split: if_splits)
  then have bytes: "int (length (if_content given)) = if_size given" using bytes by simp
  let ?digest = "cl_sha256 lib (if_content given)"
  obtain w1 w1' w2 w3 facts where inspect: "cas_lift (cas_inspect lib format (path_base sourceName) (if_content given) (if_size given) supplied) w1 = (w2, Inr facts)"
    and calls: "cas_calls [''directories'', ''sync'', ''close'', ''chmod'', ''link''] w2 = (w3, Inr ())"
    and early: "cas_calls [''directories'', ''create'', ''open'', ''copy'', ''close''] w = (w1', Inr ())" "cas_call ''seek'' w1' = (w1, Inr ())"
    and store: "(if cas_objects w3 ?digest = None then andThen (cas_put ?digest (if_content given)) (\<lambda>_. cas_calls [''open'', ''sync'', ''close''])
       else verifyStoredBlob lib ?digest (if_size given)) w3 = (w', Inr ())"
    and b: "b = \<lparr>db_Filename = path_base sourceName, db_Size = if_size given, db_MD5 = md5Hex lib (newLegacyDigests format) (if_content given),
      db_SHA1 = sha1Hex lib (newLegacyDigests format) (if_content given), db_SHA256 = ?digest, db_Added = 0, db_Facts = facts\<rparr>"
    using assms(1) maximum(1) all bytes
    by (auto simp: PutArtifact_def andThen_Inr Let_def gets_def ok_def fail_def cas_lift_def [of "Inr maximum"] cong: if_cong split: sum.splits)
  have same: "cas_objects w3 = cas_objects w" using early inspect calls cas_calls_objects by (auto simp: cas_lift_Inr)
  have "cas_objects w' ?digest = Some (Regular (if_content given))"
  proof (cases "cas_objects w3 ?digest")
    case None
    then show ?thesis using store cas_calls_objects(2) by (fastforce simp: andThen_Inr cas_put_def update_def)
  next
    case (Some node)
    then have verified: "verifyStoredBlob lib ?digest (if_size given) w3 = (w', Inr ())" using store by simp
    then obtain stored where stored: "cas_objects w' ?digest = Some (Regular stored)" "cl_sha256 lib stored = ?digest"
      using verify_Inr read_limited_length bytes by (metis of_nat_0_le_iff)
    moreover have "cas_objects w' = cas_objects w" using careful_any_same [OF careful_verify, of lib ?digest "if_size given" w3] verified same by simp
    ultimately show ?thesis using assms(2) by simp
  qed
  then show ?thesis using b inspect maximum bytes by (auto simp: cas_lift_Inr)
qed

definition shop_lib :: cas_lib where
  "shop_lib = \<lparr>cl_sha256 = (\<lambda>content. replicate 64 (if content = ''abc'' then CHR ''0'' else CHR ''1'')), cl_md5 = id, cl_sha1 = id,
     cl_inspect = (\<lambda>_ _ _ _ _. Inl []), cl_parseTime = (\<lambda>_. None)\<rparr>"

definition shop_world :: cas_world where
  "shop_world = \<lparr>cas_objects = Map.empty, cas_facts = [], cas_faults = []\<rparr>"

definition shop_fs :: file_system where
  "shop_fs = \<lparr>fs_lstat = (\<lambda>_. Present), fs_eval = Some\<rparr>"

definition shop_identity :: Identity where
  "shop_identity = \<lparr>id_Name = [], id_Version = []\<rparr>"

definition shop_put :: "cas_world \<times> (cas_error + Blob)" where
  "shop_put = PutArtifact shop_lib shop_fs ''/w'' ''raw'' ''/in/tool_1.0.zip'' (Some \<lparr>if_regular = True, if_size = 3, if_content = ''abc''\<rparr>) shop_identity shop_world"

definition shop_blob :: Blob where
  "shop_blob = \<lparr>db_Filename = ''tool_1.0.zip'', db_Size = 3, db_MD5 = [], db_SHA1 = [], db_SHA256 = replicate 64 (CHR ''0''), db_Added = 0,
     db_Facts = raw_facts ''tool'' ''1.0'' []\<rparr>"

lemma shop_parts:
  "WorkspacePath shop_fs ''/w'' ''.snailmail/cas/sha256'' = Inr ''/w/.snailmail/cas/sha256''" "path_base ''/in/tool_1.0.zip'' = ''tool_1.0.zip''"
  "cas_inspect shop_lib ''raw'' ''tool_1.0.zip'' ''abc'' 3 shop_identity = Inr (raw_facts ''tool'' ''1.0'' [])" "formatMaximum ''raw'' = Inr 2147483648"
  "newLegacyDigests ''raw'' = False"
  by code_simp+

lemma shop_put_runs:
  "shop_put = (shop_world\<lparr>cas_objects := [replicate 64 (CHR ''0'') \<mapsto> Regular ''abc'']\<rparr>, Inr shop_blob)"
proof -
  have "read_limited 2147483649 ''abc'' = ''abc''" by (simp add: read_limited_def)
  moreover have "cas_faults (shop_world\<lparr>cas_objects := objects\<rparr>) = []" "cas_faults shop_world = []" for objects by (simp_all add: shop_world_def)
  moreover have "cas_objects shop_world = Map.empty" "cl_sha256 shop_lib ''abc'' = replicate 64 (CHR ''0'')" by (simp_all add: shop_world_def shop_lib_def)
  ultimately show ?thesis unfolding shop_put_def PutArtifact_def
    by (simp add: Let_def andThen_def guard_def ok_def gets_def cas_lift_def cas_put_def update_def cas_calls_quiet shop_parts md5Hex_def sha1Hex_def shop_blob_def)
qed

theorem cas_stays_sound_witness:
  "cas_sound shop_lib (cas_operations shop_lib [PutOp shop_fs ''/w'' ''raw'' ''/in/tool_1.0.zip'' (Some \<lparr>if_regular = True, if_size = 3, if_content = ''abc''\<rparr>) shop_identity] shop_world)"
proof -
  have "cas_sound shop_lib shop_world" by (simp add: cas_sound_def shop_world_def)
  from cas_stays_sound [OF this] show ?thesis by blast
qed

text \<open>
  C14: what was imported is loaded back. After an import that succeeded, loading the blob the lock records for it
  gives the same blob, provided no call fails, the digest was not taken by other bytes with the same hash, and
  the facts remembered for the digest, if any, are those of this import. (Two raw artifacts with the same bytes
  and different names do not meet the last condition.)
\<close>

theorem imported_blob_loads:
  assumes "PutArtifact lib fs root format sourceName (Some given) supplied w = (w', Inr b)" and "cas_faults w' = []"
    and "\<And>stored. cas_objects w (cl_sha256 lib (if_content given)) = Some (Regular stored) \<Longrightarrow> cl_sha256 lib stored = cl_sha256 lib (if_content given) \<Longrightarrow> stored = if_content given"
    and "length (db_SHA256 b) = 64" and "cache_Lookup format (db_SHA256 b) (cas_facts w') \<in> {None, Some (db_Facts b)}"
  shows "snd (LoadBlob lib format (ToLockedBlob b) supplied w') = Inr b"
proof -
  from PutArtifact_Inr [OF assms(1,3)]
  obtain maximum where put: "formatMaximum format = Inr maximum" "int (length (if_content given)) \<le> maximum"
    "cas_inspect lib format (path_base sourceName) (if_content given) (int (length (if_content given))) supplied = Inr (db_Facts b)"
    "b = \<lparr>db_Filename = path_base sourceName, db_Size = int (length (if_content given)), db_MD5 = md5Hex lib (newLegacyDigests format) (if_content given),
      db_SHA1 = sha1Hex lib (newLegacyDigests format) (if_content given), db_SHA256 = cl_sha256 lib (if_content given), db_Added = 0, db_Facts = db_Facts b\<rparr>"
    "cas_objects w' (cl_sha256 lib (if_content given)) = Some (Regular (if_content given))" by blast
  obtain facts where facts: "facts = db_Facts b" by simp
  have locked: "ToLockedBlob b = \<lparr>blob_Filename = path_base sourceName, blob_Architecture = facts_Architecture facts, blob_Size = int (length (if_content given)),
      blob_MD5 = md5Hex lib (newLegacyDigests format) (if_content given), blob_SHA1 = sha1Hex lib (newLegacyDigests format) (if_content given),
      blob_SHA256 = cl_sha256 lib (if_content given), blob_Added = [], blob_Origin = None\<rparr>"
    using put(4) facts unfolding ToLockedBlob_def by (metis Blob.select_convs)
  have digest: "db_SHA256 b = cl_sha256 lib (if_content given)" using put(4) by (metis Blob.select_convs(5))
  have whole: "read_limited (int (length content) + 1) content = content" for content by (simp add: read_limited_def)
  show ?thesis
    using put(1,2,3,5) assms(2,4,5) digest facts put(4)
    by (auto simp: LoadBlob_def validateLockedBlobOpen_def Let_def andThen_def guard_def ok_def gets_def cas_calls_quiet whole locked
        cas_lift_def update_def legacyDigestConflict_def parseLockTime_def split: option.splits)
qed

theorem imported_blob_loads_witness:
  "snd (LoadBlob shop_lib ''raw'' (ToLockedBlob shop_blob) shop_identity (fst shop_put)) = Inr shop_blob"
proof -
  let ?w = "shop_world\<lparr>cas_objects := [replicate 64 (CHR ''0'') \<mapsto> Regular ''abc'']\<rparr>"
  have "snd (LoadBlob shop_lib ''raw'' (ToLockedBlob shop_blob) shop_identity ?w) = Inr shop_blob"
    by (rule imported_blob_loads [OF shop_put_runs [unfolded shop_put_def]]) (auto simp: shop_world_def shop_blob_def cache_Lookup_def)
  then show ?thesis by (simp add: shop_put_runs)
qed

end
