(* ===== verification/Locked_Blobs.thy ===== *)
theory Locked_Blobs
  imports Cas_Safety
begin

section \<open>The artifacts of a build\<close>

text \<open>
  \<^verbatim>\<open>engine/locked_blobs.go\<close> and \<^verbatim>\<open>engine/origin_restore.go\<close>: every artifact a repository publishes is taken from the
  store of the workspace, from the shared store, or from the origin the lock records. The loads, which the
  code runs side by side, run in the order of the lock; all of them run, and the first failure in that
  order is reported. URL parsing and the fetcher are parameters.
\<close>

record Response =
  resp_URL :: gostring
  resp_StatusCode :: int
  resp_ContentType :: gostring
  resp_Body :: gostring
  resp_Size :: int

type_synonym fetcher = "gostring \<Rightarrow> int \<Rightarrow> Response option"

datatype blob_error = CasFailed cas_error | OriginNotPublic | OriginFetch | OriginMissing | OriginStatus int | OriginUnsafe | OriginCorrupt
  | NotRestored blob_error | BlobDisagrees gostring gostring gostring

definition with_cas :: "(cas_world, cas_error, 'a) eff \<Rightarrow> (cas_world, blob_error, 'a) eff" where
  "with_cas m = (\<lambda>w. case m w of (w', r) \<Rightarrow> (w', case r of Inl e \<Rightarrow> Inl (CasFailed e) | Inr a \<Rightarrow> Inr a))"

definition DefaultMaxArtifactBytes :: int where "DefaultMaxArtifactBytes = 2 * 2 ^ 30"

definition maximumArtifactBytes :: "gostring \<Rightarrow> int" where
  "maximumArtifactBytes environment =
     (if environment = [] then DefaultMaxArtifactBytes
      else case parse_int 64 environment of None \<Rightarrow> DefaultMaxArtifactBytes
        | Some parsed \<Rightarrow> if parsed \<le> 0 then DefaultMaxArtifactBytes else parsed)"

definition blobIsAbsent :: "cas_error \<Rightarrow> bool" where
  "blobIsAbsent e \<longleftrightarrow> e = CasMissing \<or> e = CasFetch BlobNotFound"

definition restoreBlobFromOrigin :: "cas_lib \<Rightarrow> url_lib \<Rightarrow> gostring \<Rightarrow> gostring \<Rightarrow> LockedBlob \<Rightarrow> gostring \<Rightarrow> Identity \<Rightarrow> fetcher \<Rightarrow> (cas_world, blob_error, Blob) eff" where
  "restoreBlobFromOrigin lib urls environment format locked originURL supplied fetch =
     (case ul_parse urls originURL of None \<Rightarrow> fail OriginNotPublic | Some origin \<Rightarrow>
      if ValidatePublicURL urls (Some origin) \<noteq> None then fail OriginNotPublic
      else case fetch (url_String origin) (maximumArtifactBytes environment) of None \<Rightarrow> fail OriginFetch | Some response \<Rightarrow>
        if resp_StatusCode response = 404 then fail OriginMissing
        else if resp_StatusCode response \<noteq> 200 then fail (OriginStatus (resp_StatusCode response))
        else if resp_URL response \<noteq> [] \<and> (ul_parse urls (resp_URL response) = None \<or> ValidateRedirectURL urls (ul_parse urls (resp_URL response)) \<noteq> None)
        then fail OriginUnsafe
        else if int (length (resp_Body response)) \<noteq> blob_Size locked then fail OriginCorrupt
        else with_cas (InstallBlob lib format locked supplied (Inr (resp_Body response))))"

definition ensureBlob :: "cas_lib \<Rightarrow> url_lib \<Rightarrow> gostring \<Rightarrow> gostring \<Rightarrow> LockedBlob \<Rightarrow> blob_fetch option \<Rightarrow> Identity \<Rightarrow> fetcher option \<Rightarrow> (cas_world, blob_error, Blob) eff" where
  "ensureBlob lib urls environment format locked store supplied fetcher =
     andThen (attempt (EnsureBlob lib format locked store supplied)) (\<lambda>found. case found of
       Inr b \<Rightarrow> ok b
     | Inl e \<Rightarrow> (case (fetcher, blob_Origin locked) of
         (Some fetch, Some origin) \<Rightarrow>
           if \<not> blobIsAbsent e then fail (CasFailed e)
           else andThen (attempt (restoreBlobFromOrigin lib urls environment format locked (origin_URL origin) supplied fetch)) (\<lambda>restored. case restored of
             Inl e' \<Rightarrow> fail (NotRestored e') | Inr b \<Rightarrow> ok b)
       | _ \<Rightarrow> fail (CasFailed e)))"

definition nativePackageName :: "gostring \<Rightarrow> gostring \<Rightarrow> gostring" where
  "nativePackageName format name = (case For format of Inl _ \<Rightarrow> name | Inr selected \<Rightarrow> rule_NormalizeName (rules selected) name)"

definition blob_requests :: "PackageVersion list \<Rightarrow> (PackageVersion \<times> LockedBlob) list" where
  "blob_requests active = concat (map (\<lambda>pv. map (\<lambda>locked. (pv, locked)) (pv_Blobs pv)) active)"

definition load_request :: "cas_lib \<Rightarrow> url_lib \<Rightarrow> gostring \<Rightarrow> gostring \<Rightarrow> format \<Rightarrow> blob_fetch option \<Rightarrow> fetcher option \<Rightarrow> PackageVersion \<times> LockedBlob \<Rightarrow> (cas_world, blob_error, Blob) eff" where
  "load_request lib urls environment format selected store fetcher = (\<lambda>(pv, locked).
     andThen (ensureBlob lib urls environment format locked store (IdentityFor (Some selected) (pv_Package pv) (pv_Version pv)) fetcher) (\<lambda>found.
     if nativePackageName format (facts_Name (db_Facts found)) \<noteq> pv_Package pv \<or> facts_Version (db_Facts found) \<noteq> pv_Version pv
     then fail (BlobDisagrees (blob_SHA256 locked) (pv_Package pv) (pv_Version pv)) else ok found))"

primrec attempt_all :: "('x \<Rightarrow> ('w, 'e, 'a) eff) \<Rightarrow> 'x list \<Rightarrow> ('w, 'e, ('e + 'a) list) eff" where
  "attempt_all f [] = ok []"
| "attempt_all f (x # xs) = andThen (attempt (f x)) (\<lambda>r. andThen (attempt_all f xs) (\<lambda>rs. ok (r # rs)))"

primrec first_failure :: "('e + 'a) list \<Rightarrow> 'e + 'a list" where
  "first_failure [] = Inr []"
| "first_failure (r # rs) = andR r (\<lambda>a. andR (first_failure rs) (\<lambda>as. Inr (a # as)))"

definition loadLockedBlobs :: "cas_lib \<Rightarrow> url_lib \<Rightarrow> gostring \<Rightarrow> gostring \<Rightarrow> format \<Rightarrow> PackageVersion list \<Rightarrow> blob_fetch option \<Rightarrow> fetcher option \<Rightarrow> (cas_world, blob_error, Blob list) eff" where
  "loadLockedBlobs lib urls environment format selected active store fetcher =
     andThen (attempt_all (load_request lib urls environment format selected store fetcher) (blob_requests active)) (\<lambda>results.
     case first_failure results of Inl e \<Rightarrow> fail e | Inr blobs \<Rightarrow> ok blobs)"

subsection \<open>What a build is given\<close>

lemma with_cas_Inr: "with_cas m w = (w', Inr a) \<longleftrightarrow> m w = (w', Inr a)"
  by (auto simp: with_cas_def split: prod.splits sum.splits)

lemma careful_with_cas [careful_intro]: "careful lib m \<Longrightarrow> careful lib (with_cas m)"
  unfolding careful_def with_cas_def by (metis (mono_tags, lifting) case_prod_beta fst_conv)

lemma careful_restore [careful_intro]: "careful lib (restoreBlobFromOrigin lib urls environment format locked originURL supplied fetch)"
  unfolding restoreBlobFromOrigin_def by (auto intro!: careful_intro split: option.split)

lemma careful_ensureBlob [careful_intro]: "careful lib (ensureBlob lib urls environment format locked store supplied fetcher)"
  unfolding ensureBlob_def by (intro careful_intro) (auto intro!: careful_intro split: sum.split option.split)

lemma careful_request [careful_intro]: "careful lib (load_request lib urls environment format selected store fetcher request)"
  unfolding load_request_def by (cases request) (auto intro!: careful_intro)

lemma careful_all [careful_intro]: "(\<And>x. careful lib (f x)) \<Longrightarrow> careful lib (attempt_all f xs)"
  by (induction xs) (auto intro!: careful_intro)

lemma EnsureBlob_in_store: "EnsureBlob lib format locked store supplied w = (w', Inr b) \<Longrightarrow> in_store lib locked w' b"
  using ensured_blob_is_the_locked_one by (fastforce simp: in_store_def blob_of_lock_def)

lemma restore_in_store: "restoreBlobFromOrigin lib urls environment format locked originURL supplied fetch w = (w', Inr b) \<Longrightarrow> in_store lib locked w' b"
  by (auto simp: restoreBlobFromOrigin_def with_cas_Inr fail_def split: option.splits if_splits intro: InstallBlob_Inr)

lemma ensureBlob_in_store:
  assumes "ensureBlob lib urls environment format locked store supplied fetcher w = (w', Inr b)"
  shows "in_store lib locked w' b"
proof -
  obtain w1 r where ensure: "EnsureBlob lib format locked store supplied w = (w1, r)" by fastforce
  show ?thesis
  proof (cases r)
    case (Inr a)
    then show ?thesis using assms ensure EnsureBlob_in_store by (auto simp: ensureBlob_def andThen_def attempt_def ok_def)
  next
    case (Inl e)
    then obtain fetch w2 r' and origin :: ArtifactOrigin where restore: "restoreBlobFromOrigin lib urls environment format locked (origin_URL origin) supplied fetch w1 = (w2, r')"
      and "(case r' of Inl e' \<Rightarrow> fail (NotRestored e') | Inr b \<Rightarrow> ok b) w2 = (w', Inr b)"
      using assms ensure by (auto simp: ensureBlob_def andThen_Inr attempt_Inr fail_def [of "CasFailed e"] split: option.splits if_splits)
    then show ?thesis using restore_in_store by (cases r') (auto simp: ok_def fail_def)
  qed
qed

definition answers :: "cas_lib \<Rightarrow> gostring \<Rightarrow> cas_world \<Rightarrow> PackageVersion \<times> LockedBlob \<Rightarrow> Blob \<Rightarrow> bool" where
  "answers lib format w request b \<longleftrightarrow> (case request of (pv, locked) \<Rightarrow>
     (\<exists>content. cas_objects w (blob_SHA256 locked) = Some (Regular content) \<and> cl_sha256 lib content = blob_SHA256 locked) \<and>
     db_SHA256 b = blob_SHA256 locked \<and> db_Size b = blob_Size locked \<and> db_Filename b = blob_Filename locked \<and>
     facts_Architecture (db_Facts b) = blob_Architecture locked \<and>
     nativePackageName format (facts_Name (db_Facts b)) = pv_Package pv \<and> facts_Version (db_Facts b) = pv_Version pv)"

lemma load_request_answers:
  assumes "load_request lib urls environment format selected store fetcher request w = (w', Inr b)"
  shows "answers lib format w' request b"
proof -
  obtain pv locked where request: "request = (pv, locked)" by fastforce
  then have "in_store lib locked w' b" "nativePackageName format (facts_Name (db_Facts b)) = pv_Package pv" "facts_Version (db_Facts b) = pv_Version pv"
    using assms ensureBlob_in_store by (auto simp: load_request_def andThen_Inr ok_def fail_def split: if_splits)
  then show ?thesis using request by (auto simp: answers_def in_store_def blob_of_lock_def)
qed

lemma answers_step: "cas_step lib w w' \<Longrightarrow> answers lib format w request b \<Longrightarrow> answers lib format w' request b"
proof -
  assume step: "cas_step lib w w'" and holds: "answers lib format w request b"
  obtain pv locked where request: "request = (pv, locked)" by fastforce
  show ?thesis using holds step [unfolded cas_step_def, rule_format, of "blob_SHA256 locked"] by (auto simp: answers_def request)
qed

lemma attempt_all_answers:
  assumes "attempt_all (load_request lib urls environment format selected store fetcher) requests w = (w', Inr results)" and "first_failure results = Inr blobs"
  shows "list_all2 (answers lib format w') requests blobs"
  using assms
proof (induction requests arbitrary: w results blobs)
  case (Cons request requests)
  let ?load = "load_request lib urls environment format selected store fetcher"
  obtain w1 r rs where load: "?load request w = (w1, r)" and rest: "attempt_all ?load requests w1 = (w', Inr rs)" and results: "results = r # rs"
    using Cons.prems(1) by (auto simp: andThen_Inr attempt_Inr ok_def)
  obtain b bs where blobs: "r = Inr b" "first_failure rs = Inr bs" "blobs = b # bs" using Cons.prems(2) results by auto
  have "cas_step lib w1 w'" using rest careful_all [of lib ?load requests, OF careful_request]
    unfolding careful_def by (metis fst_conv)
  then have "answers lib format w' request b" using load load_request_answers answers_step blobs(1) by blast
  then show ?case using Cons.IH [OF rest blobs(2)] blobs(3) by simp
qed (auto simp: ok_def)

text \<open>
  C12: a build gets the artifacts of the lock and no others. When the artifacts of a repository have been loaded,
  wherever each came from, there is one for every artifact of the lock in its order, with the digest,
  size, filename and architecture of the lock and identified as the package and version it is recorded
  for, and the store holds an object with that digest.
\<close>

theorem build_uses_locked_artifacts:
  assumes "loadLockedBlobs lib urls environment format selected active store fetcher w = (w', Inr blobs)"
  shows "list_all2 (\<lambda>(pv, locked) b. db_SHA256 b = blob_SHA256 locked \<and> db_Size b = blob_Size locked \<and> db_Filename b = blob_Filename locked \<and>
      facts_Architecture (db_Facts b) = blob_Architecture locked \<and> nativePackageName format (facts_Name (db_Facts b)) = pv_Package pv \<and>
      facts_Version (db_Facts b) = pv_Version pv \<and>
      (\<exists>content. cas_objects w' (blob_SHA256 locked) = Some (Regular content) \<and> cl_sha256 lib content = blob_SHA256 locked))
    [(pv, locked). pv \<leftarrow> active, locked \<leftarrow> pv_Blobs pv] blobs"
proof -
  obtain w1 results where "attempt_all (load_request lib urls environment format selected store fetcher) (blob_requests active) w = (w1, Inr results)"
    "(case first_failure results of Inl e \<Rightarrow> fail e | Inr blobs \<Rightarrow> ok blobs) w1 = (w', Inr blobs)"
    using assms by (auto simp: loadLockedBlobs_def andThen_Inr)
  then have "list_all2 (answers lib format w') (blob_requests active) blobs"
    using attempt_all_answers by (cases "first_failure results") (fastforce simp: ok_def fail_def)+
  then show ?thesis unfolding blob_requests_def by (rule list_all2_mono) (auto simp: answers_def)
qed

subsection \<open>A workspace of raw artifacts\<close>

definition tool_blob :: "gostring \<Rightarrow> LockedBlob" where
  "tool_blob version = \<lparr>blob_Filename = ''tool_'' @ version @ ''_linux_amd64.tar.gz'', blob_Architecture = ''amd64'', blob_Size = 3, blob_MD5 = [], blob_SHA1 = [],
     blob_SHA256 = replicate 64 (CHR ''0''), blob_Added = [], blob_Origin = Some \<lparr>origin_Kind = ''url'', origin_URL = ''https://example.org/tool'', origin_Provenance = []\<rparr>\<rparr>"

definition tool_version :: "gostring \<Rightarrow> PackageVersion" where
  "tool_version version = \<lparr>pv_Package = ''tool'', pv_Version = version, pv_State = ''draft'', pv_Blobs = [tool_blob version]\<rparr>"

definition tool_urls :: url_lib where
  "tool_urls = \<lparr>ul_parse = (\<lambda>text. Some \<lparr>url_Scheme = ''https'', url_Host = ''example.org'', url_Hostname = ''example.org'', url_User = False, url_Fragment = [],
     url_RawQuery = [], url_Path = ''/tool'', url_RawPath = [], url_String = text\<rparr>), ul_addr = (\<lambda>_. None)\<rparr>"

definition tool_world :: "gostring \<Rightarrow> cas_world" where
  "tool_world content = \<lparr>cas_objects = [replicate 64 (CHR ''0'') \<mapsto> Regular content], cas_facts = [], cas_faults = []\<rparr>"

definition tool_load :: "gostring list \<Rightarrow> cas_world \<times> (blob_error + Blob list)" where
  "tool_load versions = loadLockedBlobs shop_lib tool_urls [] ''raw'' RawFormat (map tool_version versions) None None (tool_world ''abc'')"

definition succeeds :: "'w \<times> ('e + 'a) \<Rightarrow> bool" where
  "succeeds result = (case snd result of Inl _ \<Rightarrow> False | Inr _ \<Rightarrow> True)"

theorem build_uses_locked_artifacts_witness:
  "\<exists>b. snd (tool_load [''1.0'']) = Inr [b] \<and> db_SHA256 b = replicate 64 (CHR ''0'') \<and> facts_Version (db_Facts b) = ''1.0''"
proof -
  have "succeeds (tool_load [''1.0''])" by code_simp
  then obtain w' blobs where run: "tool_load [''1.0''] = (w', Inr blobs)" by (cases "tool_load [''1.0'']"; cases "snd (tool_load [''1.0''])") (auto simp: succeeds_def)
  from build_uses_locked_artifacts [OF this [unfolded tool_load_def]] run show ?thesis
    by (auto simp: tool_version_def tool_blob_def list_all2_Cons1)
qed

text \<open>
  Two versions of a raw package with the same bytes cannot be built together. The facts of an artifact are
  remembered by format and digest, although those of a raw artifact come from its filename and its record
  in the lock; the second version is given the facts of the first and refused, while each alone loads.
\<close>

theorem shared_raw_bytes_refused:
  "succeeds (tool_load [''1.0'']) \<and> succeeds (tool_load [''1.1'']) \<and>
    snd (tool_load [''1.0'', ''1.1'']) = Inl (BlobDisagrees (replicate 64 (CHR ''0'')) ''tool'' ''1.1'')"
  by (intro conjI; code_simp)

text \<open>
  A corrupt artifact is replaced from its origin when the shared store does not have it: the answer of the store
  hides that the artifact is present and wrong. Without a shared store the same artifact is refused.
\<close>

theorem corrupt_blob_replaced_from_origin:
  "succeeds (ensureBlob shop_lib tool_urls [] ''raw'' (tool_blob ''1.0'') (Some (\<lambda>_ _. Inl BlobNotFound)) (IdentityFor (Some RawFormat) ''tool'' ''1.0'')
      (Some (\<lambda>_ _. Some \<lparr>resp_URL = [], resp_StatusCode = 200, resp_ContentType = [], resp_Body = ''abc'', resp_Size = 3\<rparr>)) (tool_world ''bad'')) \<and>
    snd (ensureBlob shop_lib tool_urls [] ''raw'' (tool_blob ''1.0'') None (IdentityFor (Some RawFormat) ''tool'' ''1.0'')
      (Some (\<lambda>_ _. Some \<lparr>resp_URL = [], resp_StatusCode = 200, resp_ContentType = [], resp_Body = ''abc'', resp_Size = 3\<rparr>)) (tool_world ''bad'')) = Inl (CasFailed CasCorrupt)"
  by (intro conjI; code_simp)

end
