(* ===== verification/Workspace_Edits.thy ===== *)
theory Workspace_Edits
  imports Lock_Roundtrip Locked_Blobs Ledger Prune
begin

section \<open>Commands that edit a lock\<close>

text \<open>
  \<^verbatim>\<open>engine/workspace.go\<close> (\<^verbatim>\<open>AddArtifacts\<close>), \<^verbatim>\<open>engine/placements.go\<close> and \<^verbatim>\<open>engine/prune.go\<close>: the commands that change what a
  repository holds. The world has the disk of the locks, the store of artifacts, whether the workspace lock is
  held, and the session of adoptions that is open. The workspace root, Git, the manifest, the ledger history, the
  files to import, the network, the shared store and the clock are fields of an environment. A call on a file
  that is neither a lock nor an object fails when the faults of the store say so.
\<close>

record adoptSession =
  as_root :: gostring
  as_repository :: Repository
  as_lock :: RepositoryLock
  as_ledger :: "PublicationRecord list"
  as_name :: gostring
  as_dirty :: bool

record edit_world =
  ew_disk :: lock_disk
  ew_cas :: cas_world
  ew_held :: bool
  ew_session :: "adoptSession option"

datatype edit_error = EditUsage gostring | EditRoot | EditGit | EditHeld | EditManifest | EditNoRepository gostring | EditFormat
  | EditLock shard_error | EditInvalid lock_error | EditLedger | EditBindings ledger_error | EditRefused lock_error | EditPrune
  | EditArtifact cas_error | EditStore | EditFetch | EditStatus int | EditDigest | EditProvenance gostring | EditChanged
  | EditUrl | EditImport gostring | EditNoSession

datatype artifact_fetcher = PlainFetcher fetcher | StreamingFetcher "gostring \<Rightarrow> int \<Rightarrow> (Response \<times> gostring) option"

text \<open>An artifact that the index of a published repository names.\<close>

record importableFile =
  im_Filename :: gostring
  im_URLs :: "gostring list"
  im_SHA256 :: gostring
  im_Provenance :: gostring
  im_Ambiguous :: bool

record edit_env =
  ee_workspaceRoot :: "gostring \<Rightarrow> gostring option"
  ee_git :: "gostring \<Rightarrow> bool"
  ee_history :: "gostring \<Rightarrow> bool"
  ee_manifest :: "gostring \<Rightarrow> Manifest option"
  ee_ledger :: "gostring \<Rightarrow> gostring \<Rightarrow> PublicationRecord list option"
  ee_fs :: file_system
  ee_shards :: shard_lib
  ee_cas :: cas_lib
  ee_urls :: url_lib
  ee_parseTime :: "gostring \<Rightarrow> int option"
  ee_now :: gostring
  ee_compare :: "format \<Rightarrow> gostring \<Rightarrow> gostring \<Rightarrow> version_error + int"
  ee_resolver :: "(BlobStoreConfig \<Rightarrow> (gostring \<Rightarrow> int \<Rightarrow> bool) option) option"
  ee_source :: "gostring \<Rightarrow> import_file option"
  ee_environment :: gostring
  ee_temporary :: gostring
  ee_resolveReference :: "url \<Rightarrow> url \<Rightarrow> gostring"
  ee_enumerate :: "gostring \<Rightarrow> gostring \<Rightarrow> (importableFile list \<times> gostring) option"

subsection \<open>Shared steps\<close>

definition on_disk :: "(lock_disk, shard_error, 'a) eff \<Rightarrow> (edit_world, edit_error, 'a) eff" where
  "on_disk m = (\<lambda>w. case m (ew_disk w) of (disk, r) \<Rightarrow> (w\<lparr>ew_disk := disk\<rparr>, case r of Inl e \<Rightarrow> Inl (EditLock e) | Inr a \<Rightarrow> Inr a))"

definition on_cas :: "(cas_world, cas_error, 'a) eff \<Rightarrow> (edit_world, edit_error, 'a) eff" where
  "on_cas m = (\<lambda>w. case m (ew_cas w) of (cas, r) \<Rightarrow> (w\<lparr>ew_cas := cas\<rparr>, case r of Inl e \<Rightarrow> Inl (EditArtifact e) | Inr a \<Rightarrow> Inr a))"

definition the_value :: "'a option \<Rightarrow> edit_error \<Rightarrow> (edit_world, edit_error, 'a) eff" where
  "the_value v e = (case v of None \<Rightarrow> fail e | Some a \<Rightarrow> ok a)"

definition no_problem :: "('x \<Rightarrow> edit_error) \<Rightarrow> 'x option \<Rightarrow> (edit_world, edit_error, unit) eff" where
  "no_problem f problem = (case problem of None \<Rightarrow> ok () | Some x \<Rightarrow> fail (f x))"

definition AcquireWorkspaceLock :: "edit_env \<Rightarrow> gostring \<Rightarrow> (edit_world, edit_error, unit) eff" where
  "AcquireWorkspaceLock env root =
     (case WorkspacePath (ee_fs env) root ''.snailmail/workspace.lock'' of Inl _ \<Rightarrow> fail EditRoot
      | Inr _ \<Rightarrow> andThen (on_cas (cas_calls [''directories'', ''open''])) (\<lambda>_.
        andThen (gets ew_held) (\<lambda>held. if held then fail EditHeld else update (\<lambda>w. w\<lparr>ew_held := True\<rparr>))))"

definition unlock :: "(edit_world, edit_error, unit) eff" where
  "unlock = update (\<lambda>w. w\<lparr>ew_held := False\<rparr>)"

definition find_repository :: "Manifest \<Rightarrow> gostring \<Rightarrow> (edit_world, edit_error, Repository) eff" where
  "find_repository manifest name = the_value (map_of (man_Repositories manifest) name) (EditNoRepository name)"

definition load_lock :: "edit_env \<Rightarrow> gostring \<Rightarrow> gostring \<Rightarrow> Repository \<Rightarrow> (edit_world, edit_error, RepositoryLock) eff" where
  "load_lock env root name repository =
     andThen (gets (\<lambda>w. LoadLock (ee_shards env) (ee_fs env) (ew_disk w) root repository)) (\<lambda>r. case r of Inl e \<Rightarrow> fail (EditLock e)
     | Inr lock \<Rightarrow> andThen (no_problem EditInvalid (ValidateLock (ee_urls env) lock name (repo_Format repository))) (\<lambda>_. ok lock))"

definition load_ledger :: "edit_env \<Rightarrow> gostring \<Rightarrow> gostring \<Rightarrow> RepositoryLock \<Rightarrow> (edit_world, edit_error, PublicationRecord list) eff" where
  "load_ledger env root name lock =
     andThen (the_value (ee_ledger env root name) EditLedger) (\<lambda>ledger.
     andThen (no_problem EditBindings (ValidatePublishedBindings lock ledger)) (\<lambda>_. ok ledger))"

definition defaultPlacementDistro :: "Repository \<Rightarrow> gostring \<Rightarrow> gostring" where
  "defaultPlacementDistro repository requested =
     (if requested \<noteq> [] then requested
      else case For (repo_Format repository) of Inl _ \<Rightarrow> [] | Inr selected \<Rightarrow> if SupportsDistros selected then repo_Suite repository else [])"

text \<open>A result of an operation on a lock that is edited in place.\<close>

definition lock_result :: "RepositoryLock \<times> (lock_error + 'a) \<Rightarrow> (edit_world, edit_error, RepositoryLock \<times> 'a) eff" where
  "lock_result r = (case r of (lock, Inl e) \<Rightarrow> fail (EditRefused e) | (lock, Inr a) \<Rightarrow> ok (lock, a))"

definition check_and_write :: "edit_env \<Rightarrow> gostring \<Rightarrow> gostring \<Rightarrow> Repository \<Rightarrow> PublicationRecord list \<Rightarrow> RepositoryLock \<Rightarrow> bool \<Rightarrow> (edit_world, edit_error, unit) eff" where
  "check_and_write env root name repository ledger lock changed =
     andThen (no_problem EditInvalid (ValidateLock (ee_urls env) lock name (repo_Format repository))) (\<lambda>_.
     andThen (no_problem EditBindings (ValidatePublishedBindings lock ledger)) (\<lambda>_.
     if changed then on_disk (WriteLock (ee_shards env) (ee_fs env) root repository lock) else ok ()))"

subsection \<open>Promotion, yanking, retention\<close>

record PlacementMutationRequest =
  pm_Root :: gostring
  pm_Repository :: gostring
  pm_Package :: gostring
  pm_Version :: gostring
  pm_Track :: gostring
  pm_Distro :: gostring
  pm_All :: bool

record PlacementMutationResult =
  pmr_Repository :: gostring
  pmr_Package :: gostring
  pmr_Version :: gostring
  pmr_Track :: gostring
  pmr_Distro :: gostring
  pmr_Changed :: nat
  pmr_All :: bool

definition mutatePlacement :: "edit_env \<Rightarrow> PlacementMutationRequest \<Rightarrow> bool \<Rightarrow> (edit_world, edit_error, PlacementMutationResult) eff" where
  "mutatePlacement env request promote =
     andThen (the_value (ee_workspaceRoot env (pm_Root request)) EditRoot) (\<lambda>root.
     andThen (guard (ee_git env root) EditGit) (\<lambda>_.
     andThen (guard (\<not> (pm_Repository request = [] \<or> pm_Package request = [] \<or> pm_Version request = [])) (EditUsage ''required'')) (\<lambda>_.
     andThen (AcquireWorkspaceLock env root) (\<lambda>_. deferred
       (andThen (the_value (ee_manifest env root) EditManifest) (\<lambda>manifest.
        andThen (find_repository manifest (pm_Repository request)) (\<lambda>repository.
        andThen (load_lock env root (pm_Repository request) repository) (\<lambda>lock.
        andThen (load_ledger env root (pm_Repository request) lock) (\<lambda>ledger.
        (let packageName = nativePackageName (repo_Format repository) (pm_Package request);
             distro = (if pm_All request then pm_Distro request else defaultPlacementDistro repository (pm_Distro request)) in
         andThen (if promote
           then andThen (lock_result (PromotePlacement lock (repo_Format repository) packageName (pm_Version request) (pm_Track request) distro))
             (\<lambda>(lock, added). ok (lock, if added then 1 else 0))
           else lock_result (YankPlacements lock (repo_Format repository) packageName (pm_Version request) (pm_Track request) distro (pm_All request)))
           (\<lambda>(lock, changed).
         andThen (check_and_write env root (pm_Repository request) repository ledger lock (changed \<noteq> 0)) (\<lambda>_.
         ok \<lparr>pmr_Repository = pm_Repository request, pmr_Package = packageName, pmr_Version = pm_Version request, pmr_Track = pm_Track request,
           pmr_Distro = distro, pmr_Changed = changed, pmr_All = pm_All request\<rparr>)))))))) unlock))))"

definition Promote :: "edit_env \<Rightarrow> PlacementMutationRequest \<Rightarrow> (edit_world, edit_error, PlacementMutationResult) eff" where
  "Promote env request = mutatePlacement env (if pm_Track request = [] then request\<lparr>pm_Track := ''stable''\<rparr> else request) True"

definition Yank :: "edit_env \<Rightarrow> PlacementMutationRequest \<Rightarrow> (edit_world, edit_error, PlacementMutationResult) eff" where
  "Yank env request = (if pm_All request = (pm_Track request \<noteq> []) then fail (EditUsage ''track or all'') else mutatePlacement env request False)"

record PruneRequest =
  pq_Root :: gostring
  pq_Repository :: gostring
  pq_Keep :: int

record PruneResult =
  pqr_Repository :: gostring
  pqr_Keep :: int
  pqr_Removed :: nat

definition prune_result :: "RepositoryLock \<times> ('e prune_error + nat) \<Rightarrow> (edit_world, edit_error, RepositoryLock \<times> nat) eff" where
  "prune_result r = (case r of (lock, Inl e) \<Rightarrow> fail EditPrune | (lock, Inr a) \<Rightarrow> ok (lock, a))"

definition engine_Prune :: "edit_env \<Rightarrow> PruneRequest \<Rightarrow> (edit_world, edit_error, PruneResult) eff" where
  "engine_Prune env request =
     andThen (the_value (ee_workspaceRoot env (pq_Root request)) EditRoot) (\<lambda>root.
     andThen (guard (ee_git env root) EditGit) (\<lambda>_.
     andThen (guard (1 \<le> pq_Keep request) (EditUsage ''keep'')) (\<lambda>_.
     andThen (AcquireWorkspaceLock env root) (\<lambda>_. deferred
       (andThen (the_value (ee_manifest env root) EditManifest) (\<lambda>manifest.
        andThen (find_repository manifest (pq_Repository request)) (\<lambda>repository.
        andThen (load_lock env root (pq_Repository request) repository) (\<lambda>lock.
        andThen (load_ledger env root (pq_Repository request) lock) (\<lambda>ledger. case For (repo_Format repository) of Inl _ \<Rightarrow> fail EditFormat
        | Inr selected \<Rightarrow>
          andThen (prune_result (PrunePlacements lock (pq_Keep request) (Some (ee_compare env selected)))) (\<lambda>(lock, removed).
          andThen (check_and_write env root (pq_Repository request) repository ledger lock (removed \<noteq> 0)) (\<lambda>_.
          ok \<lparr>pqr_Repository = pq_Repository request, pqr_Keep = pq_Keep request, pqr_Removed = removed\<rparr>))))))) unlock))))"

subsection \<open>Adding artifacts\<close>

record AddArtifactsRequest =
  aa_Root :: gostring
  aa_Repository :: gostring
  aa_Artifacts :: "gostring list"
  aa_Track :: gostring
  aa_Name :: gostring
  aa_Version :: gostring

record AddArtifactsResult =
  aar_Repository :: gostring
  aar_Added :: nat
  aar_Skipped :: nat
  aar_Packages :: "gostring list"

definition resolveBlobStore :: "edit_env \<Rightarrow> Manifest \<Rightarrow> (edit_world, edit_error, (gostring \<Rightarrow> int \<Rightarrow> bool) option) eff" where
  "resolveBlobStore env manifest =
     (if bs_Type (man_BlobStore manifest) = ''local'' then ok None
      else case ee_resolver env of None \<Rightarrow> fail EditStore
      | Some resolve \<Rightarrow> (case resolve (man_BlobStore manifest) of None \<Rightarrow> fail EditStore | Some put \<Rightarrow> ok (Some put)))"

type_synonym add_progress = "RepositoryLock \<times> nat \<times> nat \<times> gostring list"

definition add_artifact :: "edit_env \<Rightarrow> gostring \<Rightarrow> Repository \<Rightarrow> format \<Rightarrow> (gostring \<Rightarrow> int \<Rightarrow> bool) option \<Rightarrow> AddArtifactsRequest \<Rightarrow> gostring \<Rightarrow> add_progress \<Rightarrow> (edit_world, edit_error, add_progress) eff" where
  "add_artifact env root repository selected store request artifact progress = (case progress of (lock, added, skipped, packages) \<Rightarrow>
     andThen (on_cas (PutArtifact (ee_cas env) (ee_fs env) root (repo_Format repository) artifact (ee_source env artifact)
       \<lparr>id_Name = aa_Name request, id_Version = aa_Version request\<rparr>)) (\<lambda>b.
     andThen (case store of None \<Rightarrow> ok ()
       | Some put \<Rightarrow> andThen (on_cas (LoadBlob (ee_cas env) (repo_Format repository) (ToLockedBlob b)
           (IdentityFor (Some selected) (facts_Name (db_Facts b)) (facts_Version (db_Facts b))))) (\<lambda>_.
         andThen (on_cas (cas_call ''open'')) (\<lambda>_. andThen (guard (put (db_SHA256 b) (db_Size b)) EditStore) (\<lambda>_. on_cas (cas_call ''close''))))) (\<lambda>_.
     (let packageName = nativePackageName (repo_Format repository) (facts_Name (db_Facts b)) in
      andThen (lock_result (AddBlob lock (repo_Format repository) (aa_Track request) (defaultPlacementDistro repository [])
        ((ToLockedBlob b)\<lparr>blob_Added := ee_now env\<rparr>) packageName (facts_Version (db_Facts b)))) (\<lambda>(lock, changed).
      ok (lock, if changed then added + 1 else added, if changed then skipped else skipped + 1,
        List.insert (packageName @ ''@'' @ facts_Version (db_Facts b)) packages))))))"

primrec add_artifacts :: "edit_env \<Rightarrow> gostring \<Rightarrow> Repository \<Rightarrow> format \<Rightarrow> (gostring \<Rightarrow> int \<Rightarrow> bool) option \<Rightarrow> AddArtifactsRequest \<Rightarrow> gostring list \<Rightarrow> add_progress \<Rightarrow> (edit_world, edit_error, add_progress) eff" where
  "add_artifacts env root repository selected store request [] progress = ok progress"
| "add_artifacts env root repository selected store request (artifact # artifacts) progress =
     andThen (add_artifact env root repository selected store request artifact progress) (\<lambda>progress.
     add_artifacts env root repository selected store request artifacts progress)"

definition AddArtifacts :: "edit_env \<Rightarrow> AddArtifactsRequest \<Rightarrow> (edit_world, edit_error, AddArtifactsResult) eff" where
  "AddArtifacts env request =
     andThen (the_value (ee_workspaceRoot env (aa_Root request)) EditRoot) (\<lambda>root.
     andThen (guard (ee_git env root) EditGit) (\<lambda>_.
     andThen (guard (aa_Artifacts request \<noteq> []) (EditUsage ''artifact'')) (\<lambda>_.
     andThen (AcquireWorkspaceLock env root) (\<lambda>_. deferred
       (andThen (the_value (ee_manifest env root) EditManifest) (\<lambda>manifest.
        andThen (find_repository manifest (aa_Repository request)) (\<lambda>repository. case For (repo_Format repository) of Inl _ \<Rightarrow> fail EditFormat
        | Inr selected \<Rightarrow>
          andThen (load_lock env root (aa_Repository request) repository) (\<lambda>lock.
          andThen (load_ledger env root (aa_Repository request) lock) (\<lambda>ledger.
          andThen (resolveBlobStore env manifest) (\<lambda>store.
          andThen (add_artifacts env root repository selected store request (aa_Artifacts request) (lock, 0, 0, [])) (\<lambda>(lock, added, skipped, packages).
          andThen (no_problem EditBindings (ValidatePublishedBindings lock ledger)) (\<lambda>_.
          andThen (if added \<noteq> 0 then on_disk (WriteLock (ee_shards env) (ee_fs env) root repository lock) else ok ()) (\<lambda>_.
          ok \<lparr>aar_Repository = aa_Repository request, aar_Added = added, aar_Skipped = skipped, aar_Packages = sort packages\<rparr>))))))))) unlock))))"

end
