(* ===== verification/Adoption.thy ===== *)
theory Adoption
  imports Workspace_Edits
begin

section \<open>Adopting artifacts and importing repositories\<close>

text \<open>
  \<^verbatim>\<open>engine/adopt.go\<close>, \<^verbatim>\<open>engine/adoptsession.go\<close> and the loop of \<^verbatim>\<open>engine/import.go\<close>: an artifact is fetched, checked
  against its digest, recorded in the lock with its origin and stored. A session keeps the lock in memory
  between adoptions; the field of the world is what the session pointer of the code points to. The
  enumeration of a published index and the resolution of a relative URL are parameters;
  cancellation and the two-minute limit are not modelled.
\<close>

record AdoptArtifactRequest =
  aq_Root :: gostring
  aq_Repository :: gostring
  aq_URL :: gostring
  aq_SHA256 :: gostring
  aq_Filename :: gostring
  aq_Name :: gostring
  aq_Version :: gostring
  aq_Track :: gostring
  aq_Distro :: gostring
  aq_DryRun :: bool
  aq_PublicOrigin :: bool
  aq_Provenance :: gostring
  aq_Fetcher :: "artifact_fetcher option"

record AdoptArtifactResult =
  ar_Repository :: gostring
  ar_Package :: gostring
  ar_Version :: gostring
  ar_Filename :: gostring
  ar_SHA256 :: gostring
  ar_OriginURL :: gostring
  ar_Changed :: bool
  ar_DryRun :: bool

subsection \<open>Sessions\<close>

definition the_session :: "(edit_world, edit_error, adoptSession) eff" where
  "the_session = andThen (gets ew_session) (\<lambda>session. the_value session EditNoSession)"

definition put_session :: "adoptSession \<Rightarrow> (edit_world, edit_error, unit) eff" where
  "put_session session = update (\<lambda>w. w\<lparr>ew_session := Some session\<rparr>)"

text \<open>An operation on the lock of the session, which keeps what the operation left of it, also after an error.\<close>

definition session_lock :: "(RepositoryLock \<Rightarrow> RepositoryLock \<times> (lock_error + 'a)) \<Rightarrow> (edit_world, edit_error, 'a) eff" where
  "session_lock f = andThen the_session (\<lambda>session. case f (as_lock session) of (lock, r) \<Rightarrow>
     andThen (put_session (session\<lparr>as_lock := lock\<rparr>)) (\<lambda>_. case r of Inl e \<Rightarrow> fail (EditRefused e) | Inr a \<Rightarrow> ok a))"

definition loadAdoptSession :: "edit_env \<Rightarrow> gostring \<Rightarrow> gostring \<Rightarrow> (edit_world, edit_error, adoptSession) eff" where
  "loadAdoptSession env root name =
     andThen (the_value (ee_manifest env root) EditManifest) (\<lambda>manifest.
     andThen (guard (bs_Type (man_BlobStore manifest) = ''local'') EditStore) (\<lambda>_.
     andThen (find_repository manifest name) (\<lambda>repository.
     andThen (load_lock env root name repository) (\<lambda>lock.
     andThen (the_value (ee_ledger env root name) EditLedger) (\<lambda>ledger.
     andThen (no_problem EditBindings (ValidatePublicationHistory (ee_parseTime env) name ledger)) (\<lambda>_.
     andThen (no_problem EditBindings (ValidatePublishedBindings lock ledger)) (\<lambda>_.
     ok \<lparr>as_root = root, as_repository = repository, as_lock = lock, as_ledger = ledger, as_name = name, as_dirty = False\<rparr>)))))))"

definition openAdoptSession :: "edit_env \<Rightarrow> gostring \<Rightarrow> gostring \<Rightarrow> (edit_world, edit_error, unit) eff" where
  "openAdoptSession env root name =
     andThen (AcquireWorkspaceLock env root) (\<lambda>_.
     andThen (attempt (loadAdoptSession env root name)) (\<lambda>loaded. case loaded of
       Inl e \<Rightarrow> andThen unlock (\<lambda>_. fail e)
     | Inr session \<Rightarrow> put_session session))"

definition closeSession :: "(edit_world, edit_error, unit) eff" where
  "closeSession = andThen unlock (\<lambda>_. update (\<lambda>w. w\<lparr>ew_session := None\<rparr>))"

definition adopt_flush :: "edit_env \<Rightarrow> (edit_world, edit_error, unit) eff" where
  "adopt_flush env = andThen the_session (\<lambda>session.
     if \<not> as_dirty session then ok ()
     else andThen (on_disk (WriteLock (ee_shards env) (ee_fs env) (as_root session) (as_repository session) (as_lock session))) (\<lambda>_.
       put_session (session\<lparr>as_dirty := False\<rparr>)))"

subsection \<open>Adoption\<close>

definition adoptIdentity :: "AdoptArtifactRequest \<Rightarrow> Identity" where
  "adoptIdentity request = \<lparr>id_Name = aq_Name request, id_Version = aq_Version request\<rparr>"

text \<open>What was fetched, and the bytes in the spooled file.\<close>

definition fetchArtifact :: "edit_env \<Rightarrow> artifact_fetcher \<Rightarrow> gostring \<Rightarrow> (edit_world, edit_error, Response \<times> gostring) eff" where
  "fetchArtifact env fetcher address = (let limit = maximumArtifactBytes (ee_environment env) in case fetcher of
     StreamingFetcher fetchTo \<Rightarrow> the_value (fetchTo address limit) EditFetch
   | PlainFetcher fetch \<Rightarrow>
       andThen (the_value (fetch address limit) EditFetch) (\<lambda>response.
       if resp_StatusCode response \<noteq> 200 then ok (response, [])
       else andThen (on_cas (cas_call ''write'')) (\<lambda>_.
         ok (response\<lparr>resp_Size := int (length (resp_Body response)), resp_Body := []\<rparr>, resp_Body response))))"

definition final_url_safe :: "url_lib \<Rightarrow> gostring \<Rightarrow> bool" where
  "final_url_safe urls address \<longleftrightarrow> address = [] \<or> (ul_parse urls address \<noteq> None \<and> ValidateRedirectURL urls (ul_parse urls address) = None)"

definition computing :: "AdoptArtifactRequest \<Rightarrow> bool" where
  "computing request \<longleftrightarrow> aq_SHA256 request = [] \<and> aq_Provenance request = ''computed''"

text \<open>The record of what was fetched in the lock of the session, and the checks of that lock.\<close>

definition adopt_record :: "edit_env \<Rightarrow> AdoptArtifactRequest \<Rightarrow> gostring \<Rightarrow> url \<Rightarrow> Blob \<Rightarrow> (edit_world, edit_error, AdoptArtifactResult) eff" where
  "adopt_record env request filename origin b = andThen the_session (\<lambda>session.
     (let repository = as_repository session; packageName = nativePackageName (repo_Format repository) (facts_Name (db_Facts b));
          version = facts_Version (db_Facts b);
          track = (if aq_Track request = [] then repo_Track repository else aq_Track request);
          distro = defaultPlacementDistro repository (aq_Distro request);
          provenance = (if aq_Provenance request = [] then ''operator'' else aq_Provenance request);
          source = \<lparr>origin_Kind = ''https'', origin_URL = url_String origin, origin_Provenance = provenance\<rparr> in
      andThen (guard (ValidProvenance provenance) (EditProvenance provenance)) (\<lambda>_.
      andThen (session_lock (\<lambda>lock. AddBlob lock (repo_Format repository) track distro
        ((ToLockedBlob b)\<lparr>blob_Added := ee_now env, blob_Origin := Some source\<rparr>) packageName version)) (\<lambda>added.
      andThen (session_lock (\<lambda>lock. SetBlobOrigin lock packageName version filename (db_SHA256 b) source)) (\<lambda>originChanged.
      andThen the_session (\<lambda>session.
      andThen (no_problem EditInvalid (ValidateLock (ee_urls env) (as_lock session) (aq_Repository request) (repo_Format repository))) (\<lambda>_.
      andThen (no_problem EditBindings (ValidatePublishedBindings (as_lock session) (as_ledger session))) (\<lambda>_.
      ok \<lparr>ar_Repository = aq_Repository request, ar_Package = packageName, ar_Version = version, ar_Filename = filename, ar_SHA256 = db_SHA256 b,
        ar_OriginURL = url_String origin, ar_Changed = added \<or> originChanged, ar_DryRun = aq_DryRun request\<rparr>))))))))"

definition adopt_into :: "edit_env \<Rightarrow> AdoptArtifactRequest \<Rightarrow> artifact_fetcher \<Rightarrow> gostring \<Rightarrow> gostring \<Rightarrow> url \<Rightarrow> bool \<Rightarrow> (edit_world, edit_error, AdoptArtifactResult) eff" where
  "adopt_into env request fetcher root filename origin in_session = andThen the_session (\<lambda>session.
     (let repository = as_repository session in
      andThen (on_cas (cas_calls [''mkdir'', ''open''])) (\<lambda>_.
      andThen (fetchArtifact env fetcher (url_String origin)) (\<lambda>(response, content).
      andThen (guard (resp_StatusCode response = 200) (EditStatus (resp_StatusCode response))) (\<lambda>_.
      andThen (guard (final_url_safe (ee_urls env) (resp_URL response)) EditUrl) (\<lambda>_.
      andThen (on_cas (cas_call ''seek'')) (\<lambda>_.
      andThen (on_cas (InspectArtifactFile (ee_cas env) (repo_Format repository) filename content (resp_Size response) (adoptIdentity request))) (\<lambda>b.
      andThen (guard (computing request \<or> db_SHA256 b = aq_SHA256 request) EditDigest) (\<lambda>_.
      andThen (adopt_record env request filename origin b) (\<lambda>result.
      if aq_DryRun request then ok result
      else andThen (on_cas (PutArtifact (ee_cas env) (ee_fs env) root (repo_Format repository) (path_join [ee_temporary env, filename])
          (Some \<lparr>if_regular = True, if_size = int (length content), if_content = content\<rparr>) (adoptIdentity request))) (\<lambda>stored.
        andThen (guard (db_SHA256 stored = db_SHA256 b) EditChanged) (\<lambda>_.
        if \<not> ar_Changed result then ok result
        else andThen (andThen the_session (\<lambda>session. put_session (session\<lparr>as_dirty := True\<rparr>))) (\<lambda>_.
          if in_session then ok result
          else andThen (adopt_flush env) (\<lambda>_. ok result))))))))))))))"

definition safe_adopt_filename :: "gostring \<Rightarrow> bool" where
  "safe_adopt_filename filename \<longleftrightarrow> \<not> (filename = [] \<or> filename = ''.'' \<or> path_base filename \<noteq> filename \<or>
     contains_any filename [CHR 0x00, CHR 0x0D, CHR 0x0A, CHR ''/'', CHR 0x5C])"

definition AdoptArtifact :: "edit_env \<Rightarrow> AdoptArtifactRequest \<Rightarrow> bool \<Rightarrow> (edit_world, edit_error, AdoptArtifactResult) eff" where
  "AdoptArtifact env request in_session =
     andThen (the_value (aq_Fetcher request) (EditUsage ''fetcher'')) (\<lambda>fetcher.
     andThen (guard (aq_PublicOrigin request) (EditUsage ''public origin'')) (\<lambda>_.
     andThen (guard (computing request \<or> validLowerHex (aq_SHA256 request) 32) (EditUsage ''pin'')) (\<lambda>_.
     andThen (the_value (ul_parse (ee_urls env) (aq_URL request)) EditUrl) (\<lambda>origin.
     andThen (guard (ValidatePublicURL (ee_urls env) (Some origin) = None) EditUrl) (\<lambda>_.
     (let filename = (if aq_Filename request = [] then path_base (url_Path origin) else aq_Filename request) in
      andThen (guard (safe_adopt_filename filename) (EditUsage ''filename'')) (\<lambda>_.
      andThen (the_value (ee_workspaceRoot env (aq_Root request)) EditRoot) (\<lambda>root.
      andThen (guard (ee_git env root) EditGit) (\<lambda>_.
      andThen (guard (ee_history env root) EditGit) (\<lambda>_.
      if in_session then adopt_into env request fetcher root filename origin True
      else andThen (openAdoptSession env root (aq_Repository request)) (\<lambda>_.
        deferred (adopt_into env request fetcher root filename origin False) closeSession)))))))))))"

subsection \<open>Importing a repository\<close>

record ImportRepositoryRequest =
  ir_Root :: gostring
  ir_Repository :: gostring
  ir_URL :: gostring
  ir_MinimumProvenance :: gostring
  ir_Track :: gostring
  ir_Distro :: gostring
  ir_PublicOrigin :: bool
  ir_DryRun :: bool
  ir_Limit :: int
  ir_Fetcher :: "artifact_fetcher option"

record ImportArtifact =
  ia_Package :: gostring
  ia_Version :: gostring
  ia_Filename :: gostring
  ia_SHA256 :: gostring
  ia_Origin :: gostring

datatype skip_reason = SkipAmbiguous | SkipNoDigest | SkipProvenance | SkipLimit | SkipFailed edit_error

record ImportSkipped =
  is_Filename :: gostring
  is_Reason :: skip_reason

record ImportRepositoryResult =
  irr_Repository :: gostring
  irr_IndexURL :: gostring
  irr_Listed :: nat
  irr_Imported :: "ImportArtifact list"
  irr_Skipped :: "ImportSkipped list"
  irr_DryRun :: bool

definition importCheckpointEvery :: nat where "importCheckpointEvery = 200"

definition importFormat :: "edit_env \<Rightarrow> gostring \<Rightarrow> gostring \<Rightarrow> (edit_world, edit_error, gostring) eff" where
  "importFormat env root name =
     andThen (the_value (ee_manifest env root) EditManifest) (\<lambda>manifest.
     andThen (find_repository manifest name) (\<lambda>repository. ok (repo_Format repository)))"

text \<open>The safe form of a URL that an index is read from or names.\<close>

definition parseDoctorURL :: "url_lib \<Rightarrow> gostring \<Rightarrow> url option" where
  "parseDoctorURL urls raw = (case ul_parse urls raw of None \<Rightarrow> None | Some value \<Rightarrow>
     if url_Scheme value \<noteq> ''https'' \<or> url_Host value = [] \<or> url_User value \<or> url_RawQuery value \<noteq> [] \<or> url_Fragment value \<noteq> [] \<or>
       contains_any raw [CHR 0x00, CHR 0x0D, CHR 0x0A, CHR 0x5C] \<or> has_control (url_Path value) \<or>
       contains_sub (to_lower (url_RawPath value)) ''%2f'' \<or> contains_sub (to_lower (url_RawPath value)) ''%5c'' then None
     else if list_ex (\<lambda>segment. segment = ''.'' \<or> segment = ''..'') (split_on (CHR ''/'') (url_Path value)) then None
     else Some value)"

definition resolveDoctorReference :: "edit_env \<Rightarrow> gostring \<Rightarrow> gostring \<Rightarrow> url option" where
  "resolveDoctorReference env baseRaw referenceRaw = (case parseDoctorURL (ee_urls env) baseRaw of None \<Rightarrow> None | Some base \<Rightarrow>
     (case ul_parse (ee_urls env) referenceRaw of None \<Rightarrow> None | Some reference \<Rightarrow>
       if url_User reference \<or> url_RawQuery reference \<noteq> [] \<or> contains_any referenceRaw [CHR 0x00, CHR 0x0D, CHR 0x0A, CHR 0x5C] then None
       else parseDoctorURL (ee_urls env) (ee_resolveReference env base (reference\<lparr>url_Fragment := []\<rparr>))))"

definition adopt_request :: "gostring \<Rightarrow> ImportRepositoryRequest \<Rightarrow> importableFile \<Rightarrow> url \<Rightarrow> AdoptArtifactRequest" where
  "adopt_request root request listed address = \<lparr>aq_Root = root, aq_Repository = ir_Repository request, aq_URL = url_String address,
     aq_SHA256 = im_SHA256 listed, aq_Filename = im_Filename listed, aq_Name = [], aq_Version = [], aq_Track = ir_Track request,
     aq_Distro = ir_Distro request, aq_DryRun = ir_DryRun request, aq_PublicOrigin = True, aq_Provenance = im_Provenance listed,
     aq_Fetcher = ir_Fetcher request\<rparr>"

primrec adopt_reachable :: "edit_env \<Rightarrow> gostring \<Rightarrow> ImportRepositoryRequest \<Rightarrow> gostring \<Rightarrow> importableFile \<Rightarrow> edit_error \<Rightarrow> gostring list
    \<Rightarrow> (edit_world, edit_error, AdoptArtifactResult) eff" where
  "adopt_reachable env root request indexURL listed lastErr [] = fail lastErr"
| "adopt_reachable env root request indexURL listed lastErr (reference # references) =
     (case resolveDoctorReference env indexURL reference of None \<Rightarrow> adopt_reachable env root request indexURL listed EditUrl references
      | Some address \<Rightarrow>
        andThen (attempt (AdoptArtifact env (adopt_request root request listed address) True)) (\<lambda>adopted. case adopted of
          Inl e \<Rightarrow> adopt_reachable env root request indexURL listed e references
        | Inr result \<Rightarrow> ok result))"

definition adoptFirstReachable :: "edit_env \<Rightarrow> gostring \<Rightarrow> ImportRepositoryRequest \<Rightarrow> gostring \<Rightarrow> importableFile
    \<Rightarrow> (edit_world, edit_error, AdoptArtifactResult) eff" where
  "adoptFirstReachable env root request indexURL listed =
     adopt_reachable env root request indexURL listed (EditImport ''no URL'') (im_URLs listed)"

text \<open>Why a listed artifact is not even fetched.\<close>

definition skip_before_fetch :: "ImportRepositoryRequest \<Rightarrow> nat \<Rightarrow> importableFile \<Rightarrow> skip_reason option" where
  "skip_before_fetch request imported listed =
     (if im_Ambiguous listed then Some SkipAmbiguous
      else if im_SHA256 listed = [] \<and> im_Provenance listed \<noteq> ''computed'' then Some SkipNoDigest
      else if ir_MinimumProvenance request \<noteq> [] \<and> \<not> AtLeast (im_Provenance listed) (ir_MinimumProvenance request) then Some SkipProvenance
      else if 0 < ir_Limit request \<and> ir_Limit request \<le> int imported then Some SkipLimit
      else None)"

definition imported_artifact :: "AdoptArtifactResult \<Rightarrow> ImportArtifact" where
  "imported_artifact adopted = \<lparr>ia_Package = ar_Package adopted, ia_Version = ar_Version adopted, ia_Filename = ar_Filename adopted,
     ia_SHA256 = ar_SHA256 adopted, ia_Origin = ar_OriginURL adopted\<rparr>"

primrec import_files :: "edit_env \<Rightarrow> gostring \<Rightarrow> ImportRepositoryRequest \<Rightarrow> gostring \<Rightarrow> importableFile list
    \<Rightarrow> ImportArtifact list \<times> ImportSkipped list \<Rightarrow> (edit_world, edit_error, ImportArtifact list \<times> ImportSkipped list) eff" where
  "import_files env root request indexURL [] progress = ok progress"
| "import_files env root request indexURL (listed # rest) progress = (case progress of (imported, skipped) \<Rightarrow>
     (let skip = (\<lambda>reason. skipped @ [\<lparr>is_Filename = im_Filename listed, is_Reason = reason\<rparr>]) in
      case skip_before_fetch request (length imported) listed of
        Some reason \<Rightarrow> import_files env root request indexURL rest (imported, skip reason)
      | None \<Rightarrow>
        andThen (attempt (adoptFirstReachable env root request indexURL listed)) (\<lambda>adopted. case adopted of
          Inl e \<Rightarrow> import_files env root request indexURL rest (imported, skip (SkipFailed e))
        | Inr result \<Rightarrow>
          (let imported = imported @ [imported_artifact result] in
           andThen (if \<not> ir_DryRun request \<and> length imported mod importCheckpointEvery = 0 then adopt_flush env else ok ()) (\<lambda>_.
           import_files env root request indexURL rest (imported, skipped))))))"

definition ImportRepository :: "edit_env \<Rightarrow> ImportRepositoryRequest \<Rightarrow> (edit_world, edit_error, ImportRepositoryResult) eff" where
  "ImportRepository env request =
     andThen (guard (ir_Fetcher request \<noteq> None) (EditUsage ''fetcher'')) (\<lambda>_.
     andThen (guard (ir_PublicOrigin request) (EditUsage ''public origin'')) (\<lambda>_.
     andThen (guard (ir_Repository request \<noteq> []) (EditUsage ''repository'')) (\<lambda>_.
     andThen (the_value (ee_workspaceRoot env (ir_Root request)) EditRoot) (\<lambda>root.
     andThen (importFormat env root (ir_Repository request)) (\<lambda>format.
     andThen (guard (format \<in> {''pypi'', ''helm'', ''deb'', ''rpm'', ''apk''}) (EditImport format)) (\<lambda>_.
     andThen (the_value (ee_enumerate env format (ir_URL request)) (EditImport ''index'')) (\<lambda>(listed, indexURL).
     andThen (openAdoptSession env root (ir_Repository request)) (\<lambda>_. deferred
       (andThen (import_files env root request indexURL listed ([], [])) (\<lambda>(imported, skipped).
        andThen (if ir_DryRun request then ok () else adopt_flush env) (\<lambda>_.
        ok \<lparr>irr_Repository = ir_Repository request, irr_IndexURL = indexURL, irr_Listed = length listed, irr_Imported = imported,
          irr_Skipped = skipped, irr_DryRun = ir_DryRun request\<rparr>))) closeSession))))))))"

end
