(* ===== verification/Edit_Safety.thy ===== *)
theory Edit_Safety
  imports Adoption
begin

section \<open>What the commands do to the workspace\<close>

text \<open>
  Which parts of the world the code leaves alone, by its parts; that a command writes no lock that it has not
  checked; and that it gives the workspace lock back.
\<close>

subsection \<open>Parts of the world that code leaves alone\<close>

named_theorems keeps_intro \<open>code that leaves a part of the world alone, by its parts\<close>

definition keeps :: "('s \<Rightarrow> 'x) \<Rightarrow> ('s, 'e, 'a) eff \<Rightarrow> bool" where
  "keeps g m \<longleftrightarrow> (\<forall>w. g (fst (m w)) = g w)"

lemma keeps_pure [keeps_intro]: "keeps g (ok a)" "keeps g (fail e)" "keeps g (gets f)" "keeps g (guard b e)"
  by (simp_all add: keeps_def ok_def fail_def gets_def guard_def)

lemma keeps_then [keeps_intro]: "keeps g m \<Longrightarrow> (\<And>a. keeps g (f a)) \<Longrightarrow> keeps g (andThen m f)"
  unfolding keeps_def andThen_def by (simp split: prod.split sum.split) (metis fst_conv)

lemma keeps_attempt [keeps_intro]: "keeps g m \<Longrightarrow> keeps g (attempt m)"
  unfolding keeps_def attempt_def by (metis (mono_tags, lifting) case_prod_beta fst_conv)

lemma keeps_if [keeps_intro]: "(b \<Longrightarrow> keeps g m) \<Longrightarrow> (\<not> b \<Longrightarrow> keeps g m') \<Longrightarrow> keeps g (if b then m else m')"
  by simp

lemma keeps_option [keeps_intro]: "keeps g m \<Longrightarrow> (\<And>a. keeps g (f a)) \<Longrightarrow> keeps g (case v of None \<Rightarrow> m | Some a \<Rightarrow> f a)"
  by (cases v) simp_all

lemma keeps_sum [keeps_intro]: "(\<And>e. keeps g (h e)) \<Longrightarrow> (\<And>a. keeps g (f a)) \<Longrightarrow> keeps g (case v of Inl e \<Rightarrow> h e | Inr a \<Rightarrow> f a)"
  by (cases v) simp_all

lemma keeps_pair [keeps_intro]: "(\<And>a b. keeps g (f a b)) \<Longrightarrow> keeps g (case v of (a, b) \<Rightarrow> f a b)"
  by (cases v) simp

lemma keeps_steps [keeps_intro]: "keeps g (the_value v e)" "keeps g (no_problem f problem)" "keeps g (lock_result r)" "keeps g (prune_result r')"
    "keeps g (find_repository manifest name)"
  by (cases v; cases problem; cases r; cases "snd r"; cases r'; cases "snd r'";
      simp add: the_value_def no_problem_def lock_result_def prune_result_def find_repository_def keeps_intro)+

lemma keeps_world [keeps_intro]: "keeps ew_disk (on_cas m)" "keeps ew_held (on_cas m)" "keeps ew_session (on_cas m)" "keeps ew_held (on_disk m')"
    "keeps ew_cas (on_disk m')" "keeps ew_session (on_disk m')" "keeps ew_disk (put_session session)" "keeps ew_held (put_session session)"
    "keeps ew_cas (put_session session)" "keeps ew_disk unlock" "keeps ew_cas unlock"
  by (simp_all add: keeps_def on_cas_def on_disk_def put_session_def unlock_def update_def split: prod.split)

lemma keeps_load [keeps_intro]: "keeps g (load_lock env root name repository)" "keeps g (load_ledger env root name lock)" "keeps g the_session"
  by (auto simp: load_lock_def load_ledger_def the_session_def intro!: keeps_intro)

lemma keeps_session_load [keeps_intro]: "keeps g (loadAdoptSession env root name)"
  unfolding loadAdoptSession_def by (intro keeps_intro)

lemma keeps_session_lock [keeps_intro]: "keeps ew_disk (session_lock f)" "keeps ew_held (session_lock f)" "keeps ew_cas (session_lock f)"
  unfolding session_lock_def by (intro keeps_intro)+

lemma keeps_fetch [keeps_intro]: "keeps ew_disk (fetchArtifact env fetcher address)" "keeps ew_held (fetchArtifact env fetcher address)"
    "keeps ew_session (fetchArtifact env fetcher address)"
  by (cases fetcher; auto simp: fetchArtifact_def Let_def intro!: keeps_intro)+

lemma keeps_record [keeps_intro]: "keeps ew_disk (adopt_record env request filename origin b)" "keeps ew_held (adopt_record env request filename origin b)"
    "keeps ew_cas (adopt_record env request filename origin b)"
  unfolding adopt_record_def Let_def by (intro keeps_intro)+

lemma keeps_flush [keeps_intro]: "keeps ew_held (adopt_flush env)" "keeps ew_cas (adopt_flush env)"
  unfolding adopt_flush_def by (intro keeps_intro)+

lemma keeps_held_into [keeps_intro]: "keeps ew_held (adopt_into env request fetcher root filename origin in_session)"
  unfolding adopt_into_def Let_def by (intro keeps_intro)

subsection \<open>The workspace lock\<close>

lemma Acquire_outcome:
  "AcquireWorkspaceLock env root w = (w', r) \<Longrightarrow>
     ew_disk w' = ew_disk w \<and> ew_session w' = ew_session w \<and> (case r of Inl _ \<Rightarrow> ew_held w' = ew_held w | Inr _ \<Rightarrow> \<not> ew_held w \<and> ew_held w')"
  by (auto simp: AcquireWorkspaceLock_def andThen_def on_cas_def gets_def update_def fail_def split: sum.splits prod.splits if_splits)

lemma keeps_locked [keeps_intro]: "keeps ew_held m \<Longrightarrow> keeps ew_held (andThen (AcquireWorkspaceLock env root) (\<lambda>_. deferred m unlock))"
  unfolding keeps_def
proof
  fix w assume m: "\<forall>w. ew_held (fst (m w)) = ew_held w"
  obtain w1 r where a: "AcquireWorkspaceLock env root w = (w1, r)" by fastforce
  show "ew_held (fst (andThen (AcquireWorkspaceLock env root) (\<lambda>_. deferred m unlock) w)) = ew_held w"
    using Acquire_outcome [OF a] a by (cases r) (auto simp: andThen_def deferred_def unlock_def update_def split: prod.split)
qed

lemma openAdoptSession_outcome:
  assumes "openAdoptSession env root name w = (w', r)"
  shows "ew_disk w' = ew_disk w \<and> (case r of Inl _ \<Rightarrow> ew_held w' = ew_held w | Inr _ \<Rightarrow> \<not> ew_held w \<and> ew_held w')"
proof -
  obtain w1 r1 where acquired: "AcquireWorkspaceLock env root w = (w1, r1)" by fastforce
  obtain w2 r2 where loaded: "loadAdoptSession env root name w1 = (w2, r2)" by fastforce
  have "ew_disk w2 = ew_disk w1" "ew_held w2 = ew_held w1"
    using loaded keeps_session_load [of ew_disk env root name] keeps_session_load [of ew_held env root name] unfolding keeps_def by (metis fst_conv)+
  then show ?thesis using assms acquired loaded Acquire_outcome [OF acquired]
    by (cases r1; cases r2) (auto simp: openAdoptSession_def andThen_def attempt_def unlock_def update_def put_session_def fail_def)
qed

lemma keeps_in_session [keeps_intro]:
  "keeps ew_held m \<Longrightarrow> keeps ew_held (andThen (openAdoptSession env root name) (\<lambda>_. deferred m closeSession))"
  unfolding keeps_def
proof
  fix w assume m: "\<forall>w. ew_held (fst (m w)) = ew_held w"
  obtain w1 r where a: "openAdoptSession env root name w = (w1, r)" by fastforce
  show "ew_held (fst (andThen (openAdoptSession env root name) (\<lambda>_. deferred m closeSession) w)) = ew_held w"
    using openAdoptSession_outcome [OF a] a by (cases r) (auto simp: andThen_def deferred_def closeSession_def unlock_def update_def split: prod.split)
qed

lemma keeps_adopt [keeps_intro]: "keeps ew_held (AdoptArtifact env request in_session)"
  unfolding AdoptArtifact_def Let_def by (intro keeps_intro)

lemma keeps_reachable [keeps_intro]: "keeps ew_held (adopt_reachable env root request indexURL listed lastErr references)"
  by (induction references arbitrary: lastErr) (auto intro!: keeps_intro split: option.split)

lemma keeps_import [keeps_intro]: "keeps ew_held (import_files env root request indexURL listed progress)"
proof (induction listed arbitrary: progress)
  case (Cons entry rest)
  show ?case unfolding import_files.simps Let_def adoptFirstReachable_def by (intro keeps_intro Cons.IH)
qed (simp add: keeps_intro)

lemma keeps_add [keeps_intro]: "keeps ew_held (add_artifacts env root repository selected store request artifacts progress)"
proof (induction artifacts arbitrary: progress)
  case (Cons artifact artifacts)
  show ?case unfolding add_artifacts.simps add_artifact_def Let_def by (intro keeps_intro Cons.IH)
qed (simp add: keeps_intro)

datatype edit_command = PromoteCommand PlacementMutationRequest | YankCommand PlacementMutationRequest | PruneCommand PruneRequest
  | AdoptCommand AdoptArtifactRequest | AddCommand AddArtifactsRequest | ImportCommand ImportRepositoryRequest

primrec edit_run :: "edit_env \<Rightarrow> edit_command \<Rightarrow> (edit_world, edit_error, unit) eff" where
  "edit_run env (PromoteCommand request) = andThen (Promote env request) (\<lambda>_. ok ())"
| "edit_run env (YankCommand request) = andThen (Yank env request) (\<lambda>_. ok ())"
| "edit_run env (PruneCommand request) = andThen (engine_Prune env request) (\<lambda>_. ok ())"
| "edit_run env (AdoptCommand request) = andThen (AdoptArtifact env request False) (\<lambda>_. ok ())"
| "edit_run env (AddCommand request) = andThen (AddArtifacts env request) (\<lambda>_. ok ())"
| "edit_run env (ImportCommand request) = andThen (ImportRepository env request) (\<lambda>_. ok ())"

lemma keeps_check_write [keeps_intro]: "keeps ew_held (check_and_write env root name repository ledger lock changed)"
  unfolding check_and_write_def by (intro keeps_intro)

lemma keeps_mutate [keeps_intro]: "keeps ew_held (mutatePlacement env request promote)"
  unfolding mutatePlacement_def Let_def by (intro keeps_intro)

lemma keeps_prune [keeps_intro]: "keeps ew_held (engine_Prune env request)"
  unfolding engine_Prune_def by (intro keeps_intro)

lemma keeps_add_all [keeps_intro]: "keeps ew_held (AddArtifacts env request)"
  unfolding AddArtifacts_def resolveBlobStore_def by (intro keeps_intro)

lemma keeps_import_all [keeps_intro]: "keeps ew_held (ImportRepository env request)"
  unfolding ImportRepository_def importFormat_def by (intro keeps_intro)

subsection \<open>Only checked locks are written\<close>

definition checked_write :: "edit_env \<Rightarrow> lock_disk \<Rightarrow> lock_disk \<Rightarrow> bool" where
  "checked_write env disk disk' \<longleftrightarrow> (\<exists>root name manifest repository ledger lock. ee_manifest env root = Some manifest \<and>
     map_of (man_Repositories manifest) name = Some repository \<and> ee_ledger env root name = Some ledger \<and>
     ValidateLock (ee_urls env) lock name (repo_Format repository) = None \<and> ValidatePublishedBindings lock ledger = None \<and>
     disk' = fst (WriteLock (ee_shards env) (ee_fs env) root repository lock disk))"

definition careful_disk :: "edit_env \<Rightarrow> lock_disk \<Rightarrow> edit_world \<Rightarrow> bool" where
  "careful_disk env disk w' \<longleftrightarrow> ew_disk w' = disk \<or> checked_write env disk (ew_disk w')"

lemma careful_disk_same: "ew_disk w' = disk \<Longrightarrow> careful_disk env disk w'"
  by (simp add: careful_disk_def)

lemma careful_disk_held [simp]: "careful_disk env disk (w\<lparr>ew_held := held\<rparr>) = careful_disk env disk w"
    "careful_disk env disk (w\<lparr>ew_session := session\<rparr>) = careful_disk env disk w"
  by (simp_all add: careful_disk_def)

lemma runs_keeps: "keeps g m \<Longrightarrow> runs m w (\<lambda>_ w'. g w' = g w) (\<lambda>w'. g w' = g w)"
  by (auto simp: keeps_def runs_def split: prod.split sum.split) (metis fst_conv)+

lemma runs_steps:
  "(\<And>a. v = Some a \<Longrightarrow> Q a w) \<Longrightarrow> E w \<Longrightarrow> runs (the_value v e) w Q E"
  "(problem = None \<Longrightarrow> Q' () w) \<Longrightarrow> E w \<Longrightarrow> runs (no_problem f problem) w Q' E"
  "(\<And>x. Q2 x w) \<Longrightarrow> E w \<Longrightarrow> runs (lock_result r) w Q2 E"
  "(\<And>x. Q3 x w) \<Longrightarrow> E w \<Longrightarrow> runs (prune_result r') w Q3 E"
  "(\<And>repository. map_of (man_Repositories manifest) name = Some repository \<Longrightarrow> Q4 repository w) \<Longrightarrow> E w \<Longrightarrow> runs (find_repository manifest name) w Q4 E"
  by (auto simp: the_value_def no_problem_def lock_result_def prune_result_def find_repository_def split: option.split prod.split sum.split)

lemma runs_load:
  "(\<And>lock. Q lock w) \<Longrightarrow> E w \<Longrightarrow> runs (load_lock env root name repository) w Q E"
  "(\<And>ledger. ee_ledger env root name = Some ledger \<Longrightarrow> Q' ledger w) \<Longrightarrow> E w \<Longrightarrow> runs (load_ledger env root name lock) w Q' E"
  by (auto simp: load_lock_def load_ledger_def the_value_def no_problem_def split: option.split sum.split)

lemma runs_on_disk [simp]: "runs (on_disk m) w Q E \<longleftrightarrow> runs m (ew_disk w) (\<lambda>a d. Q a (w\<lparr>ew_disk := d\<rparr>)) (\<lambda>d. E (w\<lparr>ew_disk := d\<rparr>))"
  by (simp add: runs_def on_disk_def split: prod.split sum.split)

lemma runs_write:
  assumes "ee_manifest env root = Some manifest" and "map_of (man_Repositories manifest) name = Some repository" and "ee_ledger env root name = Some ledger"
    and "ValidateLock (ee_urls env) lock name (repo_Format repository) = None" and "ValidatePublishedBindings lock ledger = None"
  shows "runs (on_disk (WriteLock (ee_shards env) (ee_fs env) root repository lock)) w (\<lambda>_. careful_disk env (ew_disk w)) (careful_disk env (ew_disk w))"
proof -
  have "checked_write env (ew_disk w) (fst (WriteLock (ee_shards env) (ee_fs env) root repository lock (ew_disk w)))"
    unfolding checked_write_def using assms by blast
  then show ?thesis by (auto simp: runs_def on_disk_def careful_disk_def split: prod.split sum.split)
qed

lemma runs_check_and_write:
  assumes "ee_manifest env root = Some manifest" and "map_of (man_Repositories manifest) name = Some repository" and "ee_ledger env root name = Some ledger"
  shows "runs (check_and_write env root name repository ledger lock changed) w (\<lambda>_. careful_disk env (ew_disk w)) (careful_disk env (ew_disk w))"
proof -
  have "runs (if changed then on_disk (WriteLock (ee_shards env) (ee_fs env) root repository lock) else ok ()) w
      (\<lambda>_. careful_disk env (ew_disk w)) (careful_disk env (ew_disk w))"
    if "ValidateLock (ee_urls env) lock name (repo_Format repository) = None" "ValidatePublishedBindings lock ledger = None"
    using runs_write [OF assms that] careful_disk_same [of w] by simp
  then show ?thesis unfolding check_and_write_def by (intro runs_then runs_steps) (simp_all add: careful_disk_same)
qed

lemma runs_acquire:
  assumes "\<And>w'. ew_disk w' = ew_disk w \<Longrightarrow> Q () w'" and "\<And>w'. ew_disk w' = ew_disk w \<Longrightarrow> E w'"
  shows "runs (AcquireWorkspaceLock env root) w Q E"
proof -
  obtain w' r where acquired: "AcquireWorkspaceLock env root w = (w', r)" by fastforce
  then have "ew_disk w' = ew_disk w" using Acquire_outcome by blast
  then show ?thesis using acquired assms by (cases r) (simp_all add: runs_def)
qed

lemma runs_unlock [simp]: "runs unlock w Q E \<longleftrightarrow> Q () (w\<lparr>ew_held := False\<rparr>)"
  by (simp add: unlock_def)

lemmas runs_rules = runs_parts runs_steps runs_load runs_acquire

lemma runs_check_then:
  assumes "ee_manifest env root = Some manifest" and "map_of (man_Repositories manifest) name = Some repository" and "ee_ledger env root name = Some ledger"
    and "ew_disk w = disk"
  shows "runs (check_and_write env root name repository ledger lock changed) w (\<lambda>_. careful_disk env disk) (careful_disk env disk)"
  using runs_check_and_write [OF assms(1-3), of lock changed w] assms(4) by simp

lemma runs_released:
  "runs m w (\<lambda>_. careful_disk env disk) (careful_disk env disk) \<Longrightarrow> runs (deferred m unlock) w (\<lambda>_. careful_disk env disk) (careful_disk env disk)"
  by simp

lemma careful_mutate: "runs (mutatePlacement env request promote) w (\<lambda>_. careful_disk env (ew_disk w)) (careful_disk env (ew_disk w))"
  unfolding mutatePlacement_def Let_def
  apply (intro runs_rules runs_released)
  apply (simp_all only: careful_disk_same runs_ok)
  apply (rule runs_check_then; assumption)+
  done

lemma careful_prune: "runs (engine_Prune env request) w (\<lambda>_. careful_disk env (ew_disk w)) (careful_disk env (ew_disk w))"
  unfolding engine_Prune_def
  apply (intro runs_rules runs_released)
  apply (simp_all only: careful_disk_same runs_ok)
  apply (rule runs_check_then; assumption)+
  done

definition opened :: "edit_env \<Rightarrow> gostring \<Rightarrow> gostring \<Rightarrow> adoptSession \<Rightarrow> bool" where
  "opened env root name session \<longleftrightarrow> as_root session = root \<and> ee_ledger env root name = Some (as_ledger session) \<and>
     (\<exists>manifest. ee_manifest env root = Some manifest \<and> map_of (man_Repositories manifest) name = Some (as_repository session))"

lemma runs_loadAdoptSession:
  "(\<And>session. opened env root name session \<Longrightarrow> Q session w) \<Longrightarrow> E w \<Longrightarrow> runs (loadAdoptSession env root name) w Q E"
  unfolding loadAdoptSession_def by (intro runs_rules) (simp_all add: opened_def)

lemma runs_openAdoptSession:
  assumes "\<And>w' session. ew_disk w' = ew_disk w \<Longrightarrow> ew_session w' = Some session \<Longrightarrow> opened env root name session \<Longrightarrow> Q () w'"
    and "\<And>w'. ew_disk w' = ew_disk w \<Longrightarrow> E w'"
  shows "runs (openAdoptSession env root name) w Q E"
  unfolding openAdoptSession_def
  by (intro runs_then runs_acquire) (auto simp: assms put_session_def intro!: runs_loadAdoptSession)

lemma runs_frame:
  assumes "keeps ew_disk m" and "keeps ew_session m" and "\<And>a w'. ew_disk w' = ew_disk w \<Longrightarrow> ew_session w' = ew_session w \<Longrightarrow> Q a w'"
    and "\<And>w'. ew_disk w' = ew_disk w \<Longrightarrow> E w'"
  shows "runs m w Q E"
proof -
  obtain w' r where m: "m w = (w', r)" by fastforce
  then have "ew_disk w' = ew_disk w" "ew_session w' = ew_session w" using assms(1,2) unfolding keeps_def by (metis fst_conv)+
  then show ?thesis using m assms(3,4) by (cases r) (simp_all add: runs_def)
qed

lemma runs_the_session: "ew_session w = Some session \<Longrightarrow> Q session w \<Longrightarrow> runs the_session w Q E"
  by (simp add: the_session_def the_value_def)

lemma runs_session_lock:
  assumes "ew_session w = Some session" and "\<And>a lock. Q a (w\<lparr>ew_session := Some (session\<lparr>as_lock := lock\<rparr>)\<rparr>)"
    and "\<And>w'. ew_disk w' = ew_disk w \<Longrightarrow> E w'"
  shows "runs (session_lock f) w Q E"
  using assms by (auto simp: session_lock_def put_session_def the_session_def the_value_def split: prod.split sum.split)

definition session_checked :: "edit_env \<Rightarrow> gostring \<Rightarrow> adoptSession \<Rightarrow> bool" where
  "session_checked env name session \<longleftrightarrow> ValidateLock (ee_urls env) (as_lock session) name (repo_Format (as_repository session)) = None \<and>
     ValidatePublishedBindings (as_lock session) (as_ledger session) = None"

lemma runs_adopt_record:
  assumes "ew_session w = Some session"
    and "\<And>a w' lock. ew_disk w' = ew_disk w \<Longrightarrow> ew_session w' = Some (session\<lparr>as_lock := lock\<rparr>) \<Longrightarrow>
      session_checked env (aq_Repository request) (session\<lparr>as_lock := lock\<rparr>) \<Longrightarrow> Q a w'"
    and "\<And>w'. ew_disk w' = ew_disk w \<Longrightarrow> E w'"
  shows "runs (adopt_record env request filename origin b) w Q E"
  unfolding adopt_record_def Let_def
  by (intro runs_rules runs_the_session [OF assms(1)] runs_session_lock [OF assms(1)])
    (auto simp: assms(3) session_checked_def intro!: runs_rules runs_session_lock runs_the_session assms(2) simp del: runs_andThen)

lemma opened_lock [simp]: "opened env root name (session\<lparr>as_lock := lock\<rparr>) = opened env root name session"
    "opened env root name (session\<lparr>as_dirty := dirty\<rparr>) = opened env root name session"
    "session_checked env name (session\<lparr>as_dirty := dirty\<rparr>) = session_checked env name session"
  by (simp_all add: opened_def session_checked_def)

lemma runs_adopt_flush:
  assumes "ew_session w = Some session" and "opened env root name session" and "session_checked env name session"
  shows "runs (adopt_flush env) w (\<lambda>_. careful_disk env (ew_disk w)) (careful_disk env (ew_disk w))"
proof -
  obtain manifest where manifest: "ee_manifest env root = Some manifest" "map_of (man_Repositories manifest) name = Some (as_repository session)"
    and same: "as_root session = root" "ee_ledger env root name = Some (as_ledger session)" using assms(2) by (auto simp: opened_def)
  have "runs (on_disk (WriteLock (ee_shards env) (ee_fs env) (as_root session) (as_repository session) (as_lock session))) w
      (\<lambda>_. careful_disk env (ew_disk w)) (careful_disk env (ew_disk w))"
    unfolding same(1) by (rule runs_write [OF manifest same(2)]) (use assms(3) in \<open>simp_all add: session_checked_def\<close>)
  then show ?thesis unfolding adopt_flush_def
    by (intro runs_then runs_the_session [OF assms(1)] runs_if_rule runs_ok_rule) (simp_all add: careful_disk_same put_session_def del: runs_on_disk)
qed

lemma runs_flush_then:
  assumes "ew_session w = Some session" and "opened env root name session" and "session_checked env name session" and "ew_disk w = disk"
  shows "runs (andThen (andThen the_session (\<lambda>session. put_session (session\<lparr>as_dirty := True\<rparr>))) (\<lambda>_. andThen (adopt_flush env) (\<lambda>_. ok a))) w
    (\<lambda>_. careful_disk env disk) (careful_disk env disk)"
  using runs_adopt_flush [of "w\<lparr>ew_session := Some (session\<lparr>as_dirty := True\<rparr>)\<rparr>" "session\<lparr>as_dirty := True\<rparr>" env root name] assms
  by (simp add: the_session_def the_value_def put_session_def)

lemmas runs_frames = runs_frame [OF keeps_world(1,3)] runs_frame [OF keeps_fetch(1,3)]

lemma careful_adopt_into:
  assumes "ew_session w = Some session" and "opened env root (aq_Repository request) session" and "ew_disk w = disk"
  shows "runs (adopt_into env request fetcher root filename origin False) w (\<lambda>_. careful_disk env disk) (careful_disk env disk)"
  unfolding adopt_into_def Let_def if_False
  by (intro runs_frames runs_guard_rule runs_pair_rule runs_if_rule runs_ok_rule runs_the_session [OF assms(1)]
      runs_adopt_record [where session = session] runs_flush_then [where root = root and name = "aq_Repository request"] runs_then)
    (simp_all only: careful_disk_same opened_lock assms)

lemma runs_closed:
  "runs m w (\<lambda>_. careful_disk env disk) (careful_disk env disk) \<Longrightarrow> runs (deferred m closeSession) w (\<lambda>_. careful_disk env disk) (careful_disk env disk)"
  by (simp add: closeSession_def)

lemma careful_adopt: "runs (AdoptArtifact env request False) w (\<lambda>_. careful_disk env (ew_disk w)) (careful_disk env (ew_disk w))"
  unfolding AdoptArtifact_def Let_def if_False
  by (intro runs_then runs_steps(1) runs_guard_rule runs_openAdoptSession runs_closed careful_adopt_into; (assumption | simp add: careful_disk_same))

end
