(* ===== verification/Adopt_Safety.thy ===== *)
theory Adopt_Safety
  imports Edit_Safety
begin

section \<open>What an adoption pins\<close>

text \<open>
  That an adoption which succeeds recorded the digest it was given, and that the artifact store has the artifact.
\<close>

lemma PutArtifact_stores:
  assumes "PutArtifact lib fs root format sourceName (Some given) supplied w = (w', Inr b)"
  shows "\<exists>stored. cas_objects w' (db_SHA256 b) = Some (Regular stored) \<and> cl_sha256 lib stored = db_SHA256 b"
proof -
  obtain maximum where maximum: "formatMaximum format = Inr maximum"
    using assms by (cases "formatMaximum format") (auto simp: PutArtifact_def andThen_Inr Let_def cas_lift_def fail_def ok_def)
  let ?content = "read_limited (maximum + 1) (if_content given)"
  obtain w1 where store: "(if cas_objects w1 (cl_sha256 lib ?content) = None then andThen (cas_put (cl_sha256 lib ?content) ?content) (\<lambda>_. cas_calls [''open'', ''sync'', ''close''])
       else verifyStoredBlob lib (cl_sha256 lib ?content) (int (length ?content))) w1 = (w', Inr ())" and b: "db_SHA256 b = cl_sha256 lib ?content"
    using assms maximum
    by (auto simp: PutArtifact_def andThen_Inr Let_def gets_def ok_def fail_def cas_lift_def [of "Inr maximum"] cong: if_cong split: sum.splits)
  show ?thesis
  proof (cases "cas_objects w1 (cl_sha256 lib ?content)")
    case None
    then show ?thesis using store b cas_calls_objects(2) by (fastforce simp: andThen_Inr cas_put_def update_def)
  next
    case (Some node)
    then have "verifyStoredBlob lib (cl_sha256 lib ?content) (int (length ?content)) w1 = (w', Inr ())" using store by simp
    then obtain stored where stored: "cas_objects w' (cl_sha256 lib ?content) = Some (Regular stored)"
        "int (length (read_limited (int (length ?content) + 1) stored)) = int (length ?content)"
        "cl_sha256 lib (read_limited (int (length ?content) + 1) stored) = cl_sha256 lib ?content"
      using verify_Inr by meson
    then show ?thesis using b read_limited_length [OF stored(2)] by simp
  qed
qed

definition stored_in :: "edit_env \<Rightarrow> gostring \<Rightarrow> edit_world \<Rightarrow> bool" where
  "stored_in env digest w \<longleftrightarrow> (\<exists>content. cas_objects (ew_cas w) digest = Some (Regular content) \<and> cl_sha256 (ee_cas env) content = digest)"

lemma runs_on_cas [simp]: "runs (on_cas m) w Q E \<longleftrightarrow> runs m (ew_cas w) (\<lambda>a c. Q a (w\<lparr>ew_cas := c\<rparr>)) (\<lambda>c. E (w\<lparr>ew_cas := c\<rparr>))"
  by (simp add: runs_def on_cas_def split: prod.split sum.split)

lemma runs_put:
  assumes "\<And>stored w'. stored_in env (db_SHA256 stored) w' \<Longrightarrow> Q stored w'"
  shows "runs (on_cas (PutArtifact (ee_cas env) fs root format name (Some given) supplied)) w Q (\<lambda>_. True)"
proof -
  obtain c r where run: "PutArtifact (ee_cas env) fs root format name (Some given) supplied (ew_cas w) = (c, r)" by fastforce
  moreover have "Q b (w\<lparr>ew_cas := c\<rparr>)" if "r = Inr b" for b
    using PutArtifact_stores run that by (intro assms) (auto simp: stored_in_def)
  ultimately show ?thesis unfolding runs_on_cas by (cases r) (simp_all add: runs_def)
qed

lemma runs_any_value: "(\<And>a w'. Q a w') \<Longrightarrow> runs m w Q (\<lambda>_. True)"
  by (simp add: runs_def split: prod.split sum.split)

lemma runs_keeps_value: "keeps ew_cas m \<Longrightarrow> (\<And>a w'. ew_cas w' = ew_cas w \<Longrightarrow> Q a w') \<Longrightarrow> runs m w Q (\<lambda>_. True)"
  by (rule runs_conseq [OF runs_keeps]) auto

lemma runs_record_digest: "(\<And>a w'. ar_SHA256 a = db_SHA256 b \<Longrightarrow> Q a w') \<Longrightarrow> runs (adopt_record env request filename origin b) w Q (\<lambda>_. True)"
  unfolding adopt_record_def Let_def
  by (intro runs_then runs_any_value runs_ok_rule) simp

definition pinned :: "edit_env \<Rightarrow> AdoptArtifactRequest \<Rightarrow> AdoptArtifactResult \<Rightarrow> edit_world \<Rightarrow> bool" where
  "pinned env request result w \<longleftrightarrow> (computing request \<or> ar_SHA256 result = aq_SHA256 request) \<and> (aq_DryRun request \<or> stored_in env (ar_SHA256 result) w)"

lemma pinned_into: "runs (adopt_into env request fetcher root filename origin in_session) w (\<lambda>result. pinned env request result) (\<lambda>_. True)"
proof -
  have finish: "runs (if \<not> ar_Changed result then ok result
      else andThen (andThen the_session (\<lambda>session. put_session (session\<lparr>as_dirty := True\<rparr>))) (\<lambda>_.
        if in_session then ok result else andThen (adopt_flush env) (\<lambda>_. ok result))) w (\<lambda>result. pinned env request result) (\<lambda>_. True)"
    if "pinned env request result w" for result w
    using that by (intro runs_if_rule runs_ok_rule runs_then runs_keeps_value keeps_intro) (simp_all add: pinned_def stored_in_def)
  show ?thesis unfolding adopt_into_def Let_def
    apply (rule runs_then, rule runs_any_value)+
    apply (rule runs_pair_rule)
    apply (rule runs_then, rule runs_any_value)
    apply (rule runs_then, rule runs_any_value)
    apply (rule runs_then, rule runs_any_value)
    apply (rule runs_then, rule runs_any_value)
    apply (rule runs_then, rule runs_guard_rule)
     apply (rule runs_then, rule runs_record_digest)
     apply (rule runs_if_rule)
      apply (simp add: pinned_def)
     apply (rule runs_then, rule runs_put)
     apply (rule runs_then, rule runs_guard_rule)
      apply (rule finish)
      apply (simp_all add: pinned_def)
    done
qed

lemma pinned_world [simp]: "pinned env request result (w\<lparr>ew_held := held\<rparr>) = pinned env request result w"
    "pinned env request result (w\<lparr>ew_session := session\<rparr>) = pinned env request result w"
  by (simp_all add: pinned_def stored_in_def)

lemma pinned_closed:
  "runs m w (\<lambda>result. pinned env request result) (\<lambda>_. True) \<Longrightarrow> runs (deferred m closeSession) w (\<lambda>result. pinned env request result) (\<lambda>_. True)"
  by (simp add: closeSession_def)

lemma pinned_adopt:
  "runs (AdoptArtifact env request in_session) w (\<lambda>result w'. (computing request \<or> validLowerHex (aq_SHA256 request) 32) \<and> pinned env request result w') (\<lambda>_. True)"
proof -
  have into: "runs (adopt_into env request fetcher root filename origin in_session) w
      (\<lambda>result w'. valid \<and> pinned env request result w') (\<lambda>_. True)" if valid for fetcher root filename origin in_session w valid
    using that pinned_into by simp
  have closed: "runs (deferred (adopt_into env request fetcher root filename origin in_session) closeSession) w
      (\<lambda>result w'. valid \<and> pinned env request result w') (\<lambda>_. True)" if valid for fetcher root filename origin in_session w valid
    using that pinned_closed [OF pinned_into] by simp
  show ?thesis unfolding AdoptArtifact_def Let_def
    apply (rule runs_then, rule runs_any_value)
    apply (rule runs_then, rule runs_any_value)
    apply (rule runs_then, rule runs_guard_rule)
     apply (rule runs_then, rule runs_any_value)+
     apply (rule runs_if_rule, erule into)
     apply (rule runs_then, rule runs_any_value, erule closed)
    apply simp
    done
qed

end
