(* ===== verification/Import_Poison.thy ===== *)
theory Import_Poison
  imports Adopt_Safety "HOL-Library.Multiset"
begin

section \<open>An artifact that an import cannot adopt\<close>

text \<open>
  A session records an artifact in its lock before the checks that may refuse it, and does not take it back. Here: once
  the lock of a session has an artifact that the ledger does not know under a version it has published, no
  adoption of the session can succeed, and the artifact stays in the lock.
\<close>

subsection \<open>The digests under an identity\<close>

definition digests_of :: "PackageVersion list \<Rightarrow> gostring \<Rightarrow> gostring multiset" where
  "digests_of pvs k = mset (concat (map (\<lambda>pv. map blob_SHA256 (pv_Blobs pv)) (filter (\<lambda>pv. pv_identity pv = k) pvs)))"

abbreviation pr_identity :: "PublicationRecord \<Rightarrow> gostring" where
  "pr_identity r \<equiv> version_identity (pr_Package r) (pr_Version r)"

text \<open>A published version of the lock has an artifact, or one more copy of it, than was published.\<close>

definition unpublished_artifact :: "PublicationRecord list \<Rightarrow> RepositoryLock \<Rightarrow> bool" where
  "unpublished_artifact ledger lock \<longleftrightarrow>
     (\<exists>r \<in> set ledger. \<not> digests_of (lock_PackageVersion lock) (pr_identity r) \<subseteq># mset (pr_BlobSHA256 r))"

lemma digests_of_simps [simp]:
  "digests_of [] k = {#}" "digests_of (pvs @ pvs') k = digests_of pvs k + digests_of pvs' k"
  "digests_of (pv # pvs) k = (if pv_identity pv = k then mset (map blob_SHA256 (pv_Blobs pv)) else {#}) + digests_of pvs k"
  by (simp_all add: digests_of_def)

lemma digests_added:
  assumes "added_versions f p v b pvs pvs' fresh"
  shows "digests_of pvs k \<subseteq># digests_of pvs' k"
  using assms
proof cases
  case (added_blob i)
  then have "i < length pvs" using first_index_Some by blast
  then have split: "pvs = take i pvs @ pvs ! i # drop (Suc i) pvs" by (rule id_take_nth_drop)
  have "digests_of (take i pvs @ pvs ! i # drop (Suc i) pvs) k \<subseteq># digests_of (take i pvs @ (pvs ! i)\<lparr>pv_Blobs := pv_Blobs (pvs ! i) @ [b]\<rparr> # drop (Suc i) pvs) k"
    by simp
  then show ?thesis using split added_blob(1) \<open>i < length pvs\<close> by (simp add: upd_conv_take_nth_drop)
qed simp_all

lemma digests_add: "digests_of (lock_PackageVersion lock) k \<subseteq># digests_of (lock_PackageVersion (fst (AddBlob lock format track distro b p v))) k"
proof (cases "AddBlob lock format track distro b p v")
  case (Pair lock' r)
  show ?thesis
  proof (cases r)
    case (Inl e)
    then have "lock' = lock" using AddBlob_Inl Pair by blast
    then show ?thesis using Pair by simp
  next
    case (Inr changed)
    then obtain f fresh where "added_versions f p v b (lock_PackageVersion lock) (lock_PackageVersion lock') fresh"
      using AddBlob_Inr [of lock format track distro b p v lock' changed] Pair by blast
    then show ?thesis using digests_added Pair by simp
  qed
qed

lemma digests_origin: "digests_of (lock_PackageVersion (fst (SetBlobOrigin lock p v filename digest origin))) k = digests_of (lock_PackageVersion lock) k"
proof -
  have blobs: "map blob_SHA256 blobs' = map blob_SHA256 blobs" if "set_origin_blobs filename digest origin blobs = Some (blobs', r)" for blobs blobs' r
    using that by (induction blobs arbitrary: blobs') (auto split: if_splits option.splits)
  have "digests_of (fst (set_origin_versions p v filename digest origin pvs)) k = digests_of pvs k" for pvs
  proof (induction pvs)
    case (Cons pv pvs)
    show ?case using Cons.IH
      by (auto simp: case_prod_beta dest!: blobs [THEN arg_cong [where f = mset]] split: option.split)
  qed simp
  then show ?thesis by (simp add: SetBlobOrigin_def case_prod_beta)
qed

text \<open>Such a lock fails the binding check.\<close>

lemma published_digests:
  assumes "distinct (map pv_identity (lock_PackageVersion lock))" and "pr_BlobSHA256 r \<noteq> []"
  shows "published_in lock r \<longleftrightarrow> digests_of (lock_PackageVersion lock) (pr_identity r) = mset (pr_BlobSHA256 r)"
proof -
  have other: "digests_of pvs k = {#}" if "k \<notin> pv_identity ` set pvs" for pvs k using that by (induction pvs) auto
  have one: "digests_of (lock_PackageVersion lock) (pr_identity r) = mset (blobDigests pv)"
    if pv: "pv \<in> set (lock_PackageVersion lock)" "pv_identity pv = pr_identity r" for pv
  proof -
    obtain before after where split: "lock_PackageVersion lock = before @ pv # after" using pv(1) by (meson split_list)
    have "pr_identity r \<notin> pv_identity ` set before" "pr_identity r \<notin> pv_identity ` set after" using assms(1) split pv(2) by (auto simp: image_iff)
    then show ?thesis using split pv(2) other by (simp add: blobDigests_def)
  qed
  have digests: "blobDigests pv = sort (pr_BlobSHA256 r) \<longleftrightarrow> mset (blobDigests pv) = mset (pr_BlobSHA256 r)" for pv
    by (metis blobDigests_sorted mset_sort properties_for_sort sorted_sort)
  show ?thesis
  proof
    assume "published_in lock r"
    then show "digests_of (lock_PackageVersion lock) (pr_identity r) = mset (pr_BlobSHA256 r)" using one digests by (auto simp: published_in_def)
  next
    assume same: "digests_of (lock_PackageVersion lock) (pr_identity r) = mset (pr_BlobSHA256 r)"
    have "pr_identity r \<in> pv_identity ` set (lock_PackageVersion lock)"
    proof (rule ccontr)
      assume "pr_identity r \<notin> pv_identity ` set (lock_PackageVersion lock)"
      then show False using other same assms(2) by simp
    qed
    then obtain pv where "pv \<in> set (lock_PackageVersion lock)" "pv_identity pv = pr_identity r" by auto
    then show "published_in lock r" using one same digests unfolding published_in_def by metis
  qed
qed

lemma bindings_digests:
  assumes "ValidateLock urls lock name format = None" and "\<forall>r \<in> set ledger. pr_BlobSHA256 r \<noteq> []"
  shows "ValidatePublishedBindings lock ledger = None \<longleftrightarrow>
    (\<forall>r \<in> set ledger. digests_of (lock_PackageVersion lock) (pr_identity r) = mset (pr_BlobSHA256 r))"
proof -
  have "distinct (map pv_identity (lock_PackageVersion lock))" using assms(1) by (auto simp: ValidateLock_iff lock_ok_def)
  then show ?thesis using ValidatePublishedBindings_iff published_digests assms(2) by (metis (no_types, lifting))
qed

lemma unpublished_refused:
  assumes "unpublished_artifact ledger lock" and "ValidateLock urls lock name format = None" and "\<forall>r \<in> set ledger. pr_BlobSHA256 r \<noteq> []"
  shows "ValidatePublishedBindings lock ledger \<noteq> None"
  using assms(1) unfolding bindings_digests [OF assms(2,3)] unpublished_artifact_def by (metis subset_mset.order_refl)

text \<open>When an addition breaks the bindings, the lock is of this kind.\<close>

lemma bindings_broken:
  assumes "ValidatePublishedBindings lock ledger = None" and "ValidatePublishedBindings lock' ledger \<noteq> None" and "\<forall>r \<in> set ledger. pr_BlobSHA256 r \<noteq> []"
    and "ValidateLock urls lock name format = None" and "ValidateLock urls' lock' name' format' = None"
    and "\<And>k. digests_of (lock_PackageVersion lock) k \<subseteq># digests_of (lock_PackageVersion lock') k"
  shows "unpublished_artifact ledger lock'"
  using assms(1,2,6) unfolding bindings_digests [OF assms(4,3)] bindings_digests [OF assms(5,3)] unpublished_artifact_def
  by (metis subset_mset.antisym)

subsection \<open>An adoption in a session, by its parts\<close>

definition on_session :: "(edit_world \<Rightarrow> bool) \<Rightarrow> bool" where
  "on_session P \<longleftrightarrow> (\<forall>w w'. ew_disk w' = ew_disk w \<longrightarrow> ew_session w' = ew_session w \<longrightarrow> P w \<longrightarrow> P w')"

lemma runs_on_session:
  assumes "on_session P" and "keeps ew_disk m" and "keeps ew_session m" and "P w" and "\<And>a w'. P w' \<Longrightarrow> Q a w'"
  shows "runs m w Q P"
proof -
  have "P (fst (m w))" using assms(1-4) by (auto simp: on_session_def keeps_def)
  then show ?thesis using assms(5) by (cases "m w"; cases "snd (m w)") (auto simp: runs_def)
qed

lemma runs_state_either: "runs m w (\<lambda>_. P) P \<Longrightarrow> m w = (w', r) \<Longrightarrow> P w'"
  by (cases r) (simp_all add: runs_def)

text \<open>What holds of the disk and the session at the start of an adoption, up to the record of what was fetched.\<close>

lemma runs_adopt_session:
  assumes "on_session P" and "P w"
    and recording: "\<And>w' filename origin b. P w' \<Longrightarrow> runs (adopt_record env request filename origin b) w' (\<lambda>_. R) P"
    and finish: "\<And>w' root (repository :: Repository) filename content (b :: Blob) (result :: AdoptArtifactResult). R w' \<Longrightarrow> runs (if aq_DryRun request then ok result
      else andThen (on_cas (PutArtifact (ee_cas env) (ee_fs env) root (repo_Format repository) (path_join [ee_temporary env, filename])
          (Some \<lparr>if_regular = True, if_size = int (length content), if_content = content\<rparr>) (adoptIdentity request))) (\<lambda>stored.
        andThen (guard (db_SHA256 stored = db_SHA256 b) EditChanged) (\<lambda>_.
        if \<not> ar_Changed result then ok result
        else andThen (andThen the_session (\<lambda>session. put_session (session\<lparr>as_dirty := True\<rparr>))) (\<lambda>_. ok result)))) w' Q P"
  shows "runs (AdoptArtifact env request True) w Q P"
proof -
  note part = runs_on_session [OF assms(1)]
  have "runs (adopt_into env request fetcher root filename origin True) w Q P" for fetcher root filename origin
    unfolding adopt_into_def Let_def if_True
    apply (rule runs_then, rule part, intro keeps_intro, intro keeps_intro, rule assms(2))
    apply (rule runs_then, rule part, intro keeps_intro, intro keeps_intro, assumption)+
    apply (rule runs_pair_rule)
    apply (rule runs_then, rule part, intro keeps_intro, intro keeps_intro, assumption)+
    apply (rule runs_then, rule runs_conseq [OF recording], assumption)
     apply (erule finish)
    apply assumption
    done
  then show ?thesis unfolding AdoptArtifact_def Let_def if_True
    by (intro runs_then runs_steps(1) runs_guard_rule assms(2))
qed

subsection \<open>A session that is stuck\<close>

text \<open>How the lock of the session grows, whatever an adoption does.\<close>

definition grown :: "adoptSession \<Rightarrow> lock_disk \<Rightarrow> edit_world \<Rightarrow> bool" where
  "grown session disk w \<longleftrightarrow> ew_disk w = disk \<and> (\<exists>session'. ew_session w = Some session' \<and> as_ledger session' = as_ledger session \<and>
     (\<forall>k. digests_of (lock_PackageVersion (as_lock session)) k \<subseteq># digests_of (lock_PackageVersion (as_lock session')) k))"

definition stuck :: "lock_disk \<Rightarrow> PublicationRecord list \<Rightarrow> bool \<Rightarrow> edit_world \<Rightarrow> bool" where
  "stuck disk ledger dirty w \<longleftrightarrow> ew_disk w = disk \<and>
     (\<exists>session. ew_session w = Some session \<and> as_ledger session = ledger \<and> as_dirty session = dirty \<and> unpublished_artifact ledger (as_lock session))"

lemma on_session_stuck: "on_session (stuck disk ledger dirty)"
  by (simp add: on_session_def stuck_def)

lemma unpublished_grows:
  assumes "unpublished_artifact ledger lock" and "\<And>k. digests_of (lock_PackageVersion lock) k \<subseteq># digests_of (lock_PackageVersion lock') k"
  shows "unpublished_artifact ledger lock'"
  using assms unfolding unpublished_artifact_def by (meson subset_mset.order_trans)

lemma stuck_session_lock:
  assumes "stuck disk ledger dirty w" and "\<And>lock k. digests_of (lock_PackageVersion lock) k \<subseteq># digests_of (lock_PackageVersion (fst (f lock))) k"
  shows "runs (session_lock f) w (\<lambda>_. stuck disk ledger dirty) (stuck disk ledger dirty)"
proof -
  obtain session where "ew_disk w = disk" "ew_session w = Some session" "as_ledger session = ledger" "as_dirty session = dirty" "unpublished_artifact ledger (as_lock session)"
    using assms(1) by (auto simp: stuck_def)
  then show ?thesis using unpublished_grows [OF _ assms(2)]
    by (auto simp: session_lock_def the_session_def the_value_def put_session_def stuck_def split: prod.split sum.split) (metis fst_conv)+
qed

lemma stuck_record:
  assumes "stuck disk ledger dirty w" and "\<forall>r \<in> set ledger. pr_BlobSHA256 r \<noteq> []"
  shows "runs (adopt_record env request filename origin b) w (\<lambda>_ _. False) (stuck disk ledger dirty)"
proof -
  have checks: "runs (andThen the_session (\<lambda>session. andThen (no_problem EditInvalid (ValidateLock (ee_urls env) (as_lock session) name format)) (\<lambda>_.
      andThen (no_problem EditBindings (ValidatePublishedBindings (as_lock session) (as_ledger session))) (\<lambda>_. ok result)))) w' (\<lambda>_ _. False) (stuck disk ledger dirty)"
    if here: "stuck disk ledger dirty w'" for w' name format and result :: AdoptArtifactResult
  proof -
    obtain session where session: "ew_session w' = Some session" "as_ledger session = ledger" "unpublished_artifact ledger (as_lock session)"
      using here by (auto simp: stuck_def)
    have "ValidatePublishedBindings (as_lock session) ledger \<noteq> None" if "ValidateLock (ee_urls env) (as_lock session) name format = None"
      by (rule unpublished_refused [OF session(3) that assms(2)])
    then show ?thesis using session(1,2) here
      by (cases "ValidateLock (ee_urls env) (as_lock session) name format") (auto simp: the_session_def the_value_def no_problem_def split: option.split)
  qed
  show ?thesis unfolding adopt_record_def Let_def
    apply (rule runs_then, rule runs_on_session [OF on_session_stuck], intro keeps_intro, intro keeps_intro, rule assms(1))
     apply (rule runs_then, rule runs_guard_rule)
      apply (rule runs_then, rule runs_conseq [OF stuck_session_lock [OF _ digests_add]], assumption)
       apply (rule runs_then, rule runs_conseq [OF stuck_session_lock], assumption)
         apply (simp add: digests_origin)
        apply (erule checks)
       apply assumption+
    done
qed

lemma stuck_adopt:
  assumes "stuck disk ledger dirty w" and "\<forall>r \<in> set ledger. pr_BlobSHA256 r \<noteq> []"
  shows "runs (AdoptArtifact env request True) w (\<lambda>_ _. False) (stuck disk ledger dirty)"
  by (rule runs_adopt_session [OF on_session_stuck assms(1) stuck_record]) (simp_all add: assms(2))

lemma stuck_reachable:
  "stuck disk ledger dirty w \<Longrightarrow> \<forall>r \<in> set ledger. pr_BlobSHA256 r \<noteq> [] \<Longrightarrow>
     runs (adopt_reachable env root request indexURL listed lastErr references) w (\<lambda>_ _. False) (stuck disk ledger dirty)"
proof (induction references arbitrary: lastErr w)
  case (Cons reference references)
  have "runs (adopt_reachable env root request indexURL listed err references) w' (\<lambda>_ _. False) (stuck disk ledger dirty)"
    if "stuck disk ledger dirty w'" for err w' by (rule Cons.IH [OF that Cons.prems(2)])
  then show ?case using Cons.prems runs_conseq [OF stuck_adopt [OF Cons.prems]]
    by (auto split: option.split)
qed simp

lemma stuck_import:
  "stuck disk ledger dirty w \<Longrightarrow> \<forall>r \<in> set ledger. pr_BlobSHA256 r \<noteq> [] \<Longrightarrow>
     runs (import_files env root request indexURL listed (imported, skipped)) w
       (\<lambda>(imported', skipped') w'. imported' = imported \<and> map is_Filename skipped' = map is_Filename skipped @ map im_Filename listed \<and> stuck disk ledger dirty w')
       (\<lambda>_. False)"
proof (induction listed arbitrary: skipped w)
  case (Cons entry rest)
  have rest: "runs (import_files env root request indexURL rest (imported, skipped @ [\<lparr>is_Filename = im_Filename entry, is_Reason = reason\<rparr>])) w'
       (\<lambda>(imported', skipped') w'. imported' = imported \<and> map is_Filename skipped' = map is_Filename skipped @ im_Filename entry # map im_Filename rest \<and> stuck disk ledger dirty w')
       (\<lambda>_. False)" if "stuck disk ledger dirty w'" for reason w'
    using Cons.IH [OF that Cons.prems(2), of "skipped @ [\<lparr>is_Filename = im_Filename entry, is_Reason = reason\<rparr>]"] by simp
  show ?case
  proof (cases "skip_before_fetch request (length imported) entry")
    case None
    show ?thesis unfolding import_files.simps Let_def prod.case None option.case adoptFirstReachable_def runs_andThen runs_attempt
      by (rule runs_conseq [OF stuck_reachable [OF Cons.prems]]) (simp_all add: rest)
  next
    case (Some reason)
    then show ?thesis using rest [OF Cons.prems(1)] by simp
  qed
qed (simp add: stuck_def)

subsection \<open>What an adoption does to the lock of its session\<close>

lemma on_session_grown: "on_session (grown session disk)"
  by (simp add: on_session_def grown_def)

lemma grown_session_lock:
  assumes "grown session disk w" and "\<And>lock k. digests_of (lock_PackageVersion lock) k \<subseteq># digests_of (lock_PackageVersion (fst (f lock))) k"
  shows "runs (session_lock f) w (\<lambda>_. grown session disk) (grown session disk)"
proof -
  obtain session' where here: "ew_disk w = disk" "ew_session w = Some session'" "as_ledger session' = as_ledger session"
      "\<And>k. digests_of (lock_PackageVersion (as_lock session)) k \<subseteq># digests_of (lock_PackageVersion (as_lock session')) k"
    using assms(1) by (auto simp: grown_def)
  have "digests_of (lock_PackageVersion (as_lock session)) k \<subseteq># digests_of (lock_PackageVersion (fst (f (as_lock session')))) k" for k
    using here(4) assms(2) subset_mset.order_trans by blast
  then have "grown session disk (w\<lparr>ew_session := Some (session'\<lparr>as_lock := fst (f (as_lock session'))\<rparr>)\<rparr>)"
    using here(1,3) by (auto simp: grown_def)
  then show ?thesis using here(2)
    by (auto simp: session_lock_def the_session_def the_value_def put_session_def split: prod.split sum.split)
qed

lemma grown_record:
  assumes "grown session disk w"
  shows "runs (adopt_record env request filename origin b) w (\<lambda>_. grown session disk) (grown session disk)"
proof -
  note part = runs_on_session [OF on_session_grown]
  show ?thesis unfolding adopt_record_def Let_def
    apply (rule runs_then, rule part, intro keeps_intro, intro keeps_intro, rule assms)
    apply (rule runs_then, rule runs_guard_rule)
     apply (rule runs_then, rule runs_conseq [OF grown_session_lock [OF _ digests_add]], assumption)
      apply (rule runs_then, rule runs_conseq [OF grown_session_lock], assumption)
        apply (simp add: digests_origin)
       apply (rule part, intro keeps_intro, intro keeps_intro)
        apply assumption+
    done
qed

lemma grown_adopt:
  assumes "grown session disk w"
  shows "runs (AdoptArtifact env request True) w (\<lambda>_. grown session disk) (grown session disk)"
proof (rule runs_adopt_session [OF on_session_grown assms grown_record])
  note part = runs_on_session [OF on_session_grown]
  have dirty: "runs (andThen the_session (\<lambda>session. put_session (session\<lparr>as_dirty := True\<rparr>))) w' (\<lambda>_. grown session disk) (grown session disk)"
    if "grown session disk w'" for w' using that by (auto simp: grown_def the_session_def the_value_def put_session_def)
  fix w' root and repository :: Repository and filename content and b :: Blob and result :: AdoptArtifactResult assume here: "grown session disk w'"
  show "runs (if aq_DryRun request then ok result
      else andThen (on_cas (PutArtifact (ee_cas env) (ee_fs env) root (repo_Format repository) (path_join [ee_temporary env, filename])
          (Some \<lparr>if_regular = True, if_size = int (length content), if_content = content\<rparr>) (adoptIdentity request))) (\<lambda>stored.
        andThen (guard (db_SHA256 stored = db_SHA256 b) EditChanged) (\<lambda>_.
        if \<not> ar_Changed result then ok result
        else andThen (andThen the_session (\<lambda>session. put_session (session\<lparr>as_dirty := True\<rparr>))) (\<lambda>_. ok result)))) w' (\<lambda>_. grown session disk) (grown session disk)"
    apply (rule runs_if_rule, rule runs_ok_rule, rule here)
    apply (rule runs_then, rule part, intro keeps_intro, intro keeps_intro, rule here)
    apply (rule runs_then, rule runs_guard_rule)
     apply (rule runs_if_rule, rule runs_ok_rule, assumption)
     apply (rule runs_then, rule runs_conseq [OF dirty], assumption)
      apply simp
     apply assumption+
    done
qed

text \<open>An adoption that breaks the bindings leaves its session stuck.\<close>

lemma adoption_gets_stuck:
  assumes "ew_session w = Some session" and "ValidateLock urls (as_lock session) name format = None"
    and "ValidatePublishedBindings (as_lock session) (as_ledger session) = None" and "\<forall>r \<in> set (as_ledger session). pr_BlobSHA256 r \<noteq> []"
    and "AdoptArtifact env request True w = (w1, r)" and "ew_session w1 = Some session1"
    and "ValidateLock urls (as_lock session1) name format = None" and "ValidatePublishedBindings (as_lock session1) (as_ledger session) \<noteq> None"
  shows "stuck (ew_disk w) (as_ledger session) (as_dirty session1) w1"
proof -
  have start: "grown session (ew_disk w) w" using assms(1) by (simp add: grown_def)
  then have "grown session (ew_disk w) w1" using runs_state_either [OF grown_adopt [OF start]] assms(5) by blast
  then have after: "ew_disk w1 = ew_disk w" "as_ledger session1 = as_ledger session"
      "\<And>k. digests_of (lock_PackageVersion (as_lock session)) k \<subseteq># digests_of (lock_PackageVersion (as_lock session1)) k"
    using assms(6) by (auto simp: grown_def)
  have "unpublished_artifact (as_ledger session) (as_lock session1)"
    by (rule bindings_broken [OF assms(3,8,4,2,7) after(3)])
  then show ?thesis using after(1,2) assms(6) by (auto simp: stuck_def)
qed

end
