(* ===== verification/Edit_Properties.thy ===== *)
theory Edit_Properties
  imports Import_Poison
begin

section \<open>Commands on a workspace\<close>

text \<open>
  The properties of the commands that edit a lock, a workspace with one PyPI repository to run them on, and two ways to
  write a lock that later commands refuse.
\<close>

subsection \<open>A workspace\<close>

lemma read_limited_short [code]: "read_limited limit content = (if int (length content) \<le> limit then content else take (nat limit) content)"
  by (auto simp: read_limited_def)

definition shelf_digest :: "gostring \<Rightarrow> gostring" where
  "shelf_digest content = replicate 64 (case content of [] \<Rightarrow> CHR ''0'' | c # _ \<Rightarrow> c)"

definition shelf_cas :: cas_lib where
  "shelf_cas = \<lparr>cl_sha256 = shelf_digest, cl_md5 = id, cl_sha1 = id,
     cl_inspect = (\<lambda>selected filename content given supplied. Inr (raw_facts ''x'' (take 3 (drop 2 filename)) [])), cl_parseTime = (\<lambda>_. None)\<rparr>"

definition shelf_blob :: "gostring \<Rightarrow> char \<Rightarrow> ArtifactOrigin option \<Rightarrow> LockedBlob" where
  "shelf_blob filename c origin = \<lparr>blob_Filename = filename, blob_Architecture = [], blob_Size = 1, blob_MD5 = [], blob_SHA1 = [],
     blob_SHA256 = shelf_digest [c], blob_Added = ''now'', blob_Origin = origin\<rparr>"

definition shelf_origin :: "char \<Rightarrow> ArtifactOrigin option" where
  "shelf_origin c = Some \<lparr>origin_Kind = ''https'', origin_URL = ''https://example.org/'' @ [c], origin_Provenance = ''index-stated''\<rparr>"

definition shelf_version :: "gostring \<Rightarrow> LockedBlob list \<Rightarrow> PackageVersion" where
  "shelf_version version blobs = \<lparr>pv_Package = ''x'', pv_Version = version, pv_State = ''draft'', pv_Blobs = blobs\<rparr>"

definition shelf_lock :: "PackageVersion list \<Rightarrow> RepositoryLock" where
  "shelf_lock versions = \<lparr>lock_SchemaVersion = LockSchema, lock_Repository = ''shelf'', lock_PackageVersion = versions,
     lock_Placement = map (\<lambda>pv. \<lparr>pl_Package = ''x'', pl_Version = pv_Version pv, pl_Track = ''stable'', pl_Distro = []\<rparr>) versions\<rparr>"

definition shelf_published :: PackageVersion where
  "shelf_published = shelf_version ''1.0'' [shelf_blob ''x-1.0.tar.gz'' CHR ''a'' None]"

definition shelf_before :: RepositoryLock where "shelf_before = shelf_lock [shelf_published]"

definition shelf_after :: RepositoryLock where
  "shelf_after = shelf_lock [shelf_version ''1.0'' [shelf_blob ''x-1.0.tar.gz'' CHR ''a'' None, shelf_blob ''x-1.0.whl'' CHR ''c'' (shelf_origin CHR ''c'')],
     shelf_version ''1.1'' [shelf_blob ''x-1.1.tar.gz'' CHR ''b'' (shelf_origin CHR ''b'')],
     shelf_version ''1.2'' [shelf_blob ''x-1.2.tar.gz'' CHR ''d'' (shelf_origin CHR ''d'')]]"

definition shelf_adopted :: RepositoryLock where
  "shelf_adopted = shelf_lock [shelf_published, shelf_version ''1.1'' [shelf_blob ''x-1.1.tar.gz'' CHR ''b'' (shelf_origin CHR ''b'')]]"

definition shelf_yanked :: RepositoryLock where "shelf_yanked = shelf_before\<lparr>lock_Placement := []\<rparr>"

definition shelf_shards :: shard_lib where
  "shelf_shards = \<lparr>sl_sha256 = shelf_digest,
     sl_marshalLock = (\<lambda>lock. map_of [(shelf_before, ''before''), (shelf_after, ''after''), (shelf_adopted, ''adopted''), (shelf_yanked, ''yanked'')] lock),
     sl_unmarshalLock = (\<lambda>text. map_of [(''before'', shelf_before), (''after'', shelf_after), (''adopted'', shelf_adopted), (''yanked'', shelf_yanked)] text),
     sl_marshalRoot = (\<lambda>_. None), sl_unmarshalRoot = (\<lambda>_. None), sl_marshalShard = (\<lambda>_. None), sl_unmarshalShard = (\<lambda>_. None),
     sl_order = id, sl_environment = []\<rparr>"

definition shelf_manifest :: Manifest where
  "shelf_manifest = empty_manifest\<lparr>man_Repositories := [(''shelf'', zero_repository\<lparr>repo_Format := ''pypi'', repo_Lock := ''shelf.lock.toml'', repo_Track := ''stable''\<rparr>)]\<rparr>"

definition shelf_record :: PublicationRecord where
  "shelf_record = candidate_record ''shelf'' (replicate 64 CHR ''1'') (''shelf:'' @ replicate 12 CHR ''2'') (replicate 64 CHR ''2'') ''t'' shelf_published"

definition shelf_listed :: "gostring \<Rightarrow> char \<Rightarrow> importableFile" where
  "shelf_listed filename c = \<lparr>im_Filename = filename, im_URLs = [''https://example.org/'' @ [c]], im_SHA256 = shelf_digest [c],
     im_Provenance = ''index-stated'', im_Ambiguous = False\<rparr>"

definition shelf_env :: edit_env where
  "shelf_env = \<lparr>ee_workspaceRoot = Some, ee_git = (\<lambda>_. True), ee_history = (\<lambda>_. True), ee_manifest = (\<lambda>_. Some shelf_manifest),
     ee_ledger = (\<lambda>_ _. Some [shelf_record]), ee_fs = small_fs, ee_shards = shelf_shards, ee_cas = shelf_cas, ee_urls = tool_urls,
     ee_parseTime = sample_time, ee_now = ''now'', ee_compare = (\<lambda>_ _ _. Inr 0), ee_resolver = None, ee_source = (\<lambda>_. None), ee_environment = [],
     ee_temporary = ''/tmp/adopt'', ee_resolveReference = (\<lambda>base reference. url_String reference),
     ee_enumerate = (\<lambda>_ _. Some ([shelf_listed ''x-1.1.tar.gz'' CHR ''b'', shelf_listed ''x-1.0.whl'' CHR ''c'', shelf_listed ''x-1.2.tar.gz'' CHR ''d''],
       ''https://example.org/simple/x/''))\<rparr>"

definition shelf_fetcher :: artifact_fetcher where
  "shelf_fetcher = PlainFetcher (\<lambda>address limit. Some \<lparr>resp_URL = [], resp_StatusCode = 200, resp_ContentType = [], resp_Body = [last address], resp_Size = 0\<rparr>)"

definition shelf_world :: edit_world where
  "shelf_world = \<lparr>ew_disk = \<lparr>ld_files = [(''/w/shelf.lock.toml'', ''before'')], ld_dirs = [''/w''], ld_faults = []\<rparr>,
     ew_cas = \<lparr>cas_objects = Map.empty, cas_facts = [], cas_faults = []\<rparr>, ew_held = False, ew_session = None\<rparr>"

definition shelf_import :: ImportRepositoryRequest where
  "shelf_import = \<lparr>ir_Root = ''/w'', ir_Repository = ''shelf'', ir_URL = ''https://example.org/simple/'', ir_MinimumProvenance = [], ir_Track = [], ir_Distro = [],
     ir_PublicOrigin = True, ir_DryRun = False, ir_Limit = 0, ir_Fetcher = Some shelf_fetcher\<rparr>"

definition shelf_yank :: PlacementMutationRequest where
  "shelf_yank = \<lparr>pm_Root = ''/w'', pm_Repository = ''shelf'', pm_Package = ''x'', pm_Version = ''1.0'', pm_Track = [], pm_Distro = [], pm_All = True\<rparr>"

definition shelf_adopt :: AdoptArtifactRequest where
  "shelf_adopt = \<lparr>aq_Root = ''/w'', aq_Repository = ''shelf'', aq_URL = ''https://example.org/b'', aq_SHA256 = shelf_digest ''b'', aq_Filename = ''x-1.1.tar.gz'',
     aq_Name = [], aq_Version = [], aq_Track = [], aq_Distro = [], aq_DryRun = False, aq_PublicOrigin = True, aq_Provenance = ''index-stated'',
     aq_Fetcher = Some shelf_fetcher\<rparr>"



text \<open>A repository of raw artifacts, and a file whose name has a tab.\<close>

definition tab_name :: gostring where "tab_name = ''x'' @ [CHR 0x09] @ ''y''"

definition tab_after :: RepositoryLock where
  "tab_after = shelf_lock [shelf_version ''1.0'' [shelf_blob tab_name CHR ''a'' None]]"

definition tab_env :: edit_env where
  "tab_env = shelf_env\<lparr>
     ee_manifest := (\<lambda>_. Some (empty_manifest\<lparr>man_Repositories := [(''shelf'', zero_repository\<lparr>repo_Format := ''raw'', repo_Lock := ''shelf.lock.toml''\<rparr>)]\<rparr>)),
     ee_ledger := (\<lambda>_ _. Some []),
     ee_shards := shelf_shards\<lparr>sl_marshalLock := (\<lambda>lock. map_of [(shelf_lock [], ''before''), (tab_after, ''after'')] lock),
       sl_unmarshalLock := (\<lambda>text. map_of [(''before'', shelf_lock []), (''after'', tab_after)] text)\<rparr>,
     ee_source := (\<lambda>_. Some \<lparr>if_regular = True, if_size = 1, if_content = ''a''\<rparr>)\<rparr>"

definition tab_add :: AddArtifactsRequest where
  "tab_add = \<lparr>aa_Root = ''/w'', aa_Repository = ''shelf'', aa_Artifacts = [''/in/'' @ tab_name], aa_Track = [], aa_Name = ''x'', aa_Version = ''1.0''\<rparr>"

subsection \<open>Properties\<close>

text \<open>
  C16: a promotion, a yank, a prune or an adoption writes no lock that it has not checked. However it ends, the disk is
  as it was, or it is what one write of a lock left, whole or interrupted, for a repository of the manifest, and that
  lock passes the validation and the publication bindings that every later command begins with.
\<close>

theorem commands_write_checked_locks:
  assumes "command \<in> range PromoteCommand \<union> range YankCommand \<union> range PruneCommand \<union> range AdoptCommand"
  shows "ew_disk (fst (edit_run env command w)) = ew_disk w \<or>
    (\<exists>root name manifest repository ledger lock. ee_manifest env root = Some manifest \<and>
      map_of (man_Repositories manifest) name = Some repository \<and> ee_ledger env root name = Some ledger \<and>
      ValidateLock (ee_urls env) lock name (repo_Format repository) = None \<and> ValidatePublishedBindings lock ledger = None \<and>
      ew_disk (fst (edit_run env command w)) = fst (WriteLock (ee_shards env) (ee_fs env) root repository lock (ew_disk w)))"
proof -
  have "runs (edit_run env command) w (\<lambda>_. careful_disk env (ew_disk w)) (careful_disk env (ew_disk w))"
    using assms careful_mutate careful_prune careful_adopt by (auto simp: Promote_def Yank_def careful_disk_same)
  then have "careful_disk env (ew_disk w) (fst (edit_run env command w))"
    by (cases "edit_run env command w"; cases "snd (edit_run env command w)") (simp_all add: runs_def)
  then show ?thesis by (simp add: careful_disk_def checked_write_def)
qed

theorem commands_write_checked_locks_witness:
  "let w' = fst (edit_run shelf_env (YankCommand shelf_yank) shelf_world) in ld_files (ew_disk w') = [(''/w/shelf.lock.toml'', ''yanked'')] \<and>
    (\<exists>root name manifest repository ledger lock. ee_manifest shelf_env root = Some manifest \<and>
      map_of (man_Repositories manifest) name = Some repository \<and> ee_ledger shelf_env root name = Some ledger \<and>
      ValidateLock (ee_urls shelf_env) lock name (repo_Format repository) = None \<and> ValidatePublishedBindings lock ledger = None \<and>
      ew_disk w' = fst (WriteLock (ee_shards shelf_env) (ee_fs shelf_env) root repository lock (ew_disk shelf_world)))"
proof -
  have files: "ld_files (ew_disk (fst (edit_run shelf_env (YankCommand shelf_yank) shelf_world))) = [(''/w/shelf.lock.toml'', ''yanked'')]" by code_simp
  moreover have "ew_disk (fst (edit_run shelf_env (YankCommand shelf_yank) shelf_world)) \<noteq> ew_disk shelf_world"
    using files by (auto simp: shelf_world_def)
  ultimately show ?thesis using commands_write_checked_locks [of "YankCommand shelf_yank" shelf_env shelf_world] unfolding Let_def by blast
qed

text \<open>
  C37: A command gives the workspace lock back. However a promotion, a yank, a prune, an adoption, an addition or an
  import ends, with a result or at any of its errors, the workspace lock is held after it exactly when it was held
  before, by another command.
\<close>

theorem commands_release_workspace: "ew_held (fst (edit_run env command w)) = ew_held w"
proof -
  have "keeps ew_held (edit_run env command)"
    by (cases command) (auto simp: Promote_def Yank_def intro!: keeps_intro)
  then show ?thesis by (simp add: keeps_def)
qed

text \<open>
  C17: an adoption records what it was asked for. When an adoption returns a result, alone or in the session of an
  import, the digest it reports is the pin it was given, which was a lower-case SHA-256, unless the request said that the
  digest is computed; and unless it was a dry run the artifact store holds an object with that digest.
\<close>

theorem adoption_is_pinned:
  assumes "AdoptArtifact env request in_session w = (w', Inr result)"
  shows "((ar_SHA256 result = aq_SHA256 request \<and> ValidSHA256 (ar_SHA256 result)) \<or> (aq_SHA256 request = [] \<and> aq_Provenance request = ''computed'')) \<and>
    (aq_DryRun request \<or> (\<exists>content. cas_objects (ew_cas w') (ar_SHA256 result) = Some (Regular content) \<and> cl_sha256 (ee_cas env) content = ar_SHA256 result))"
  using runs_ok_value [OF pinned_adopt assms] by (auto simp: pinned_def stored_in_def computing_def ValidSHA256_def)

theorem adoption_is_pinned_witness:
  "\<exists>w' result content. AdoptArtifact shelf_env shelf_adopt False shelf_world = (w', Inr result) \<and> ar_SHA256 result = shelf_digest ''b'' \<and>
    cas_objects (ew_cas w') (shelf_digest ''b'') = Some (Regular content) \<and> shelf_digest content = shelf_digest ''b''"
proof -
  have "succeeds (AdoptArtifact shelf_env shelf_adopt False shelf_world)" by code_simp
  then obtain w' result where run: "AdoptArtifact shelf_env shelf_adopt False shelf_world = (w', Inr result)"
    by (cases "AdoptArtifact shelf_env shelf_adopt False shelf_world"; cases "snd (AdoptArtifact shelf_env shelf_adopt False shelf_world)") (auto simp: succeeds_def)
  have "aq_SHA256 shelf_adopt = shelf_digest ''b''" "shelf_digest ''b'' \<noteq> []" "\<not> aq_DryRun shelf_adopt" "cl_sha256 (ee_cas shelf_env) = shelf_digest"
    by (simp_all add: shelf_adopt_def shelf_digest_def shelf_env_def shelf_cas_def)
  then show ?thesis using adoption_is_pinned [OF run] run by auto
qed



text \<open>
  A whole import that goes this way. The second of three listed artifacts would change a published version: it is reported as
  skipped, so is the third, which is harmless, and yet the lock that the import then writes for the sake of
  the first records all three. A yank that was possible before is refused, and the bytes of the skipped artifacts are not
  in the store.
\<close>

theorem refused_artifact_poisons_import:
  "let (w', r) = ImportRepository shelf_env shelf_import shelf_world in
    (case r of Inl _ \<Rightarrow> False | Inr result \<Rightarrow> map ia_Filename (irr_Imported result) = [''x-1.1.tar.gz''] \<and>
      map is_Filename (irr_Skipped result) = [''x-1.0.whl'', ''x-1.2.tar.gz'']) \<and>
    LoadLock (ee_shards shelf_env) (ee_fs shelf_env) (ew_disk w') ''/w'' (snd (hd (man_Repositories shelf_manifest))) = Inr shelf_after \<and>
    cas_objects (ew_cas w') (shelf_digest ''d'') = None \<and>
    succeeds (Yank shelf_env shelf_yank shelf_world) \<and> snd (Yank shelf_env shelf_yank w') = Inl (EditBindings (CannotChangeBytes ''x'' ''1.0''))"
  by code_simp

text \<open>
  An addition can write a lock that every later command refuses. The lock is validated when it is loaded and not
  before it is written: a raw artifact whose filename has a control character is added, and the same command run again
  is refused for the lock it wrote.
\<close>

theorem unchecked_addition_poisons_lock:
  "let (w', r) = AddArtifacts tab_env tab_add shelf_world in
    (case r of Inl _ \<Rightarrow> False | Inr result \<Rightarrow> aar_Added result = 1) \<and> snd (AddArtifacts tab_env tab_add w') = Inl (EditInvalid InvalidBlobFile)"
  by code_simp

end
