(* ===== verification/Rollback.thy ===== *)
theory Rollback
  imports S3_Safety Plan_Repository
begin

section \<open>Rolling back a publication\<close>

text \<open>
  \<^verbatim>\<open>engine/rollback.go\<close>: going back to the publication that the live one replaced, on a host that can verify it. The
  workspace root, its lock, the manifest and the hosts are fields of an environment, each a function on the world it
  changes. The property composes the command with the adapter for object stores.
\<close>

definition rollbackSchemaVersion :: int where "rollbackSchemaVersion = 1"

record RollbackRepositoryRequest =
  kq_Root :: gostring
  kq_Repository :: gostring
  kq_DryRun :: bool

record RollbackRepositoryResult =
  kr_SchemaVersion :: int
  kr_Repository :: gostring
  kr_From :: gostring
  kr_To :: gostring
  kr_DryRun :: bool
  kr_Note :: gostring

datatype rollback_error = RollbackUsage | RollbackRoot | RollbackHeld | RollbackManifest | RollbackNotConfigured gostring | RollbackResolve
  | RollbackHost host_failure | RollbackUnverifiable gostring | RollbackUnpublished gostring | RollbackFirst gostring

record 'w rollback_env =
  ke_root :: "gostring \<Rightarrow> gostring option"
  ke_lock :: "gostring \<Rightarrow> 'w \<Rightarrow> 'w \<times> (rollback_error + unit)"
  ke_unlock :: "'w \<Rightarrow> 'w"
  ke_manifest :: "gostring \<Rightarrow> 'w \<Rightarrow> 'w \<times> (rollback_error + Manifest)"
  ke_resolve :: "HostRepository \<Rightarrow> 'w \<Rightarrow> 'w \<times> (rollback_error + 'w host)"
  ke_plan_lib :: plan_lib

definition on_host :: "('w \<Rightarrow> 'w \<times> (host_failure + 'a)) \<Rightarrow> ('w, rollback_error, 'a) eff" where
  "on_host m = (\<lambda>w. case m w of (w', r) \<Rightarrow> (w', map_sum RollbackHost id r))"

definition expectedFromObserved :: "PublishedRevision \<Rightarrow> ExpectedRevision" where
  "expectedFromObserved published = \<lparr>er_NativeRevision = pub_NativeRevision published, er_TreeSHA256 = pub_TreeSHA256 published,
     er_PlanID = pub_PlanID published, er_ChangeID = pub_ChangeID published, er_ReleaseSHA256 = pub_ReleaseSHA256 published,
     er_ManifestSHA256 = pub_ManifestSHA256 published, er_RestoreID = pub_RestoreID published, er_RestoreSHA256 = pub_RestoreSHA256 published,
     er_RestoreRootSHA256 = pub_RestoreRootSHA256 published\<rparr>"

definition restore_reference :: "PublishedRevision \<Rightarrow> RestoreRef" where
  "restore_reference observed = \<lparr>rr_ID = pub_RestoreID observed, rr_PlanID = pub_PlanID observed, rr_ChangeID = pub_ChangeID observed,
     rr_FailedTree = pub_TreeSHA256 observed, rr_DescriptorSHA256 = pub_RestoreSHA256 observed, rr_RootSHA256 = pub_RestoreRootSHA256 observed\<rparr>"

definition rollback_on :: "RollbackRepositoryRequest \<Rightarrow> HostRepository \<Rightarrow> 'w host \<Rightarrow> ('w, rollback_error, RollbackRepositoryResult) eff" where
  "rollback_on request hostRepository selected =
     andThen (on_host (host_Capabilities selected hostRepository)) (\<lambda>capabilities.
     andThen (guard (cap_ConditionalRestore capabilities) (RollbackUnverifiable (hr_Type hostRepository))) (\<lambda>_.
     andThen (on_host (host_Observe selected hostRepository)) (\<lambda>observed.
     (let result = \<lparr>kr_SchemaVersion = rollbackSchemaVersion, kr_Repository = kq_Repository request, kr_From = pub_TreeSHA256 observed, kr_To = [],
            kr_DryRun = kq_DryRun request, kr_Note = []\<rparr> in
      andThen (guard (pub_TreeSHA256 observed \<noteq> []) (RollbackUnpublished (kq_Repository request))) (\<lambda>_.
      andThen (guard (pub_RestoreID observed \<noteq> []) (RollbackFirst (kq_Repository request))) (\<lambda>_.
      if kq_DryRun request then ok (result\<lparr>kr_Note := ''dry run''\<rparr>)
      else andThen (on_host (host_Restore selected hostRepository (restore_reference observed) (expectedFromObserved observed))) (\<lambda>restored.
        ok (result\<lparr>kr_To := pub_TreeSHA256 restored, kr_Note := ''the lock still describes the revision that was rolled back from''\<rparr>))))))))"

definition RollbackRepository :: "'w rollback_env \<Rightarrow> RollbackRepositoryRequest \<Rightarrow> ('w, rollback_error, RollbackRepositoryResult) eff" where
  "RollbackRepository env request =
     (if kq_Repository request = [] then fail RollbackUsage
      else case ke_root env (kq_Root request) of None \<Rightarrow> fail RollbackRoot
      | Some root \<Rightarrow>
        andThen (ke_lock env root) (\<lambda>_. deferred
          (andThen (ke_manifest env root) (\<lambda>manifest. case map_of (man_Repositories manifest) (kq_Repository request) of
             None \<Rightarrow> fail (RollbackNotConfigured (kq_Repository request))
           | Some repository \<Rightarrow>
             (let hostRepository = toHostRepository root (ws_ID (man_Workspace manifest)) (repositoryHostIdentity (ke_plan_lib env) repository)
                (kq_Repository request) repository in
              andThen (ke_resolve env hostRepository) (\<lambda>selected. rollback_on request hostRepository selected))))
          (update (ke_unlock env) :: ('w, rollback_error, unit) eff)))"

subsection \<open>Rolling back on an object store\<close>

text \<open>The workspace side of the environment does not write to the store, and every repository is on it.\<close>

definition rolls_on :: "('w \<Rightarrow> objects) \<Rightarrow> s3_lib \<Rightarrow> 'w s3_env \<Rightarrow> 'w rollback_env \<Rightarrow> bool" where
  "rolls_on objects lib store env \<longleftrightarrow> (\<forall>w root repository. objects (fst (ke_lock env root w)) = objects w \<and> objects (ke_unlock env w) = objects w \<and>
     objects (fst (ke_manifest env root w)) = objects w \<and> objects (fst (ke_resolve env repository w)) = objects w \<and>
     (\<forall>selected. snd (ke_resolve env repository w) = Inr selected \<longrightarrow> selected = s3_host lib store))"

text \<open>A restore writes the root only under the condition it was told to expect.\<close>

lemma restore_root_conditional:
  assumes "honest_store objects store" and "good_prefix repository" and "hr_CommitPaths repository = [rootPath]" and "outer_root rootPath"
  shows "objects (fst (s3_run (s3_Restore lib store repository reference expected) w)) (objectKey repository rootPath) = objects w (objectKey repository rootPath) \<or>
    permits (if_match (er_NativeRevision expected)) (objects w (objectKey repository rootPath))"
proof -
  let ?W = "root_guarded repository rootPath (if_match (er_NativeRevision expected))"
  have root: "singleRootPath repository = Inr rootPath" using assms(3) by (simp add: singleRootPath_def)
  have "?W (objectKey repository rootPath) (if_match (er_NativeRevision expected))" "\<And>c. ?W (commitLockKey repository) c"
    using lock_apart [OF assms(2,4)] by (simp_all add: root_guarded_def)
  then have "obeys objects ?W (s3_Restore lib store repository reference expected)" by (intro obeys_Restore [OF assms(1) root])
  from obeys_run [OF this, of w] show ?thesis using trace_conditional unfolding root_guarded_def by blast
qed

lemma observe_keeps:
  assumes "honest_store objects store"
  shows "objects (fst (s3_run (s3_Observe lib store repository) w)) = objects w"
proof -
  have "obeys objects (\<lambda>_ _. False) (s3_Observe lib store repository)" using assms by (rule obeys_Observe)
  from obeys_run [OF this, of w] obtain es where trace: "store_trace (\<lambda>_ _. False) (objects w) es (objects (fst (s3_run (s3_Observe lib store repository) w)))" by blast
  show ?thesis
  proof
    fix key
    show "objects (fst (s3_run (s3_Observe lib store repository) w)) key = objects w key"
      using trace_conditional [OF trace, where key = key and conditions = "if_none_match"] trace_conditional [OF trace, where key = key and conditions = "if_match ''x''"]
        trace_keeps [OF trace, where key = key] by (cases "objects w key") (auto simp: permits_def if_none_match_def if_match_def)
  qed
qed

definition rolled :: "('w \<Rightarrow> objects) \<Rightarrow> s3_lib \<Rightarrow> 'w s3_env \<Rightarrow> HostRepository \<Rightarrow> gostring \<Rightarrow> objects \<Rightarrow> 'w \<Rightarrow> bool" where
  "rolled objects lib store repository rootPath initial w' \<longleftrightarrow>
     objects w' (objectKey repository rootPath) = initial (objectKey repository rootPath) \<or>
     (\<exists>w0 observed. objects w0 = initial \<and> snd (host_Observe (s3_host lib store) repository w0) = Inr observed \<and> pub_TreeSHA256 observed \<noteq> [] \<and>
        pub_RestoreID observed \<noteq> [] \<and> permits (if_match (pub_NativeRevision observed)) (initial (objectKey repository rootPath)))"

lemma runs_on_host:
  "(\<And>a w'. m w = (w', Inr a) \<Longrightarrow> Q a w') \<Longrightarrow> (\<And>e w'. m w = (w', Inl e) \<Longrightarrow> E w') \<Longrightarrow> runs (on_host m) w Q E"
  by (cases "m w"; cases "snd (m w)") (auto simp: runs_def on_host_def)

lemma rolled_same: "objects w = initial \<Longrightarrow> rolled objects lib store repository rootPath initial w"
  by (simp add: rolled_def)

lemma rollback_on_rolls:
  assumes "honest_store objects store" and "good_prefix repository" and "hr_CommitPaths repository = [rootPath]" and "outer_root rootPath"
    and "objects w = initial"
  shows "runs (rollback_on request repository (s3_host lib store)) w (\<lambda>_. rolled objects lib store repository rootPath initial)
    (rolled objects lib store repository rootPath initial)"
proof -
  have asked: "w' = w" if "host_Capabilities (s3_host lib store) repository w = (w', r)" for w' r using that by (simp add: s3_host_def)
  have observed: "objects w' = initial" if "host_Observe (s3_host lib store) repository w = (w', r)" for w' r
    using observe_keeps [OF assms(1), of lib repository w] assms(5) that by (simp add: s3_host_def)
  have restored: "rolled objects lib store repository rootPath initial w''"
    if "host_Observe (s3_host lib store) repository w = (w', Inr published)" "pub_TreeSHA256 published \<noteq> []" "pub_RestoreID published \<noteq> []"
      "host_Restore (s3_host lib store) repository reference (expectedFromObserved published) w' = (w'', r)" for w' w'' published reference r
    using restore_root_conditional [OF assms(1-4), of lib reference "expectedFromObserved published" w'] observed [OF that(1)] that assms(5)
    by (auto simp: rolled_def s3_host_def expectedFromObserved_def)
  show ?thesis unfolding rollback_on_def Let_def
    by (intro runs_parts runs_on_host) (auto dest!: asked dest: observed intro: restored rolled_same simp: assms(5))
qed

lemma rolled_trans: "objects w' = objects w \<Longrightarrow> rolled objects lib store repository rootPath initial w' = rolled objects lib store repository rootPath initial w"
  by (simp add: rolled_def)

lemma runs_same:
  assumes "\<And>w. objects (fst (m w)) = objects w" and "\<And>a w'. objects w' = objects w \<Longrightarrow> snd (m w) = Inr a \<Longrightarrow> Q a w'" and "\<And>w'. objects w' = objects w \<Longrightarrow> E w'"
  shows "runs m w Q E"
  using assms(1) [of w] assms(2,3) by (cases "m w"; cases "snd (m w)") (simp_all add: runs_def)

subsection \<open>Properties\<close>

text \<open>
  C9: a rollback moves the root of an object store only from the publication it observed. On a store that honours conditions,
  however a rollback ends, the root object is as it was, or it carried the entity tag of a published revision that
  the rollback had observed and that replaced an earlier one.
\<close>

theorem rollback_moves_only_the_observed_root:
  assumes "honest_store objects store" and "rolls_on objects lib store env"
    and "ke_root env (kq_Root request) = Some root" and "\<forall>w. snd (ke_manifest env root w) = Inr manifest"
    and "map_of (man_Repositories manifest) (kq_Repository request) = Some configured"
    and "repository = toHostRepository root (ws_ID (man_Workspace manifest)) (repositoryHostIdentity (ke_plan_lib env) configured) (kq_Repository request) configured"
    and "good_prefix repository" and "hr_CommitPaths repository = [rootPath]" and "outer_root rootPath"
    and "w' = fst (RollbackRepository env request w)"
  shows "objects w' (objectKey repository rootPath) = objects w (objectKey repository rootPath) \<or>
    (\<exists>w0 observed. objects w0 = objects w \<and> snd (host_Observe (s3_host lib store) repository w0) = Inr observed \<and> pub_TreeSHA256 observed \<noteq> [] \<and>
      pub_RestoreID observed \<noteq> [] \<and> permits (if_match (pub_NativeRevision observed)) (objects w (objectKey repository rootPath)))"
proof -
  let ?R = "rolled objects lib store repository rootPath (objects w)"
  have apart: "objects (fst (ke_lock env root w)) = objects w" "objects (ke_unlock env w) = objects w" "objects (fst (ke_manifest env root w)) = objects w"
    "objects (fst (ke_resolve env repository w)) = objects w" "snd (ke_resolve env repository w) = Inr selected \<Longrightarrow> selected = s3_host lib store" for w selected
    using assms(2) unfolding rolls_on_def by blast+
  have on_store: "runs (rollback_on request repository selected) w2 (\<lambda>_. ?R) ?R"
    if "snd (ke_resolve env repository w1) = Inr selected" "objects w2 = objects w" for w1 w2 selected
    using rollback_on_rolls [OF assms(1,7-9) that(2), of request lib] apart(5) [OF that(1)] by simp
  have resolved: "runs (ke_resolve env repository) w1 (\<lambda>selected w2. runs (rollback_on request repository selected) w2 (\<lambda>_. ?R) ?R) ?R"
    if "objects w1 = objects w" for w1
    by (rule runs_same [where objects = objects and m = "ke_resolve env repository", OF apart(4)]) (simp_all add: on_store rolled_same that)
  have loaded: "runs (ke_manifest env root) w1 (\<lambda>found w2. found = manifest \<and> objects w2 = objects w) ?R" if "objects w1 = objects w" for w1
    by (rule runs_same [where objects = objects and m = "ke_manifest env root", OF apart(3)]) (use assms(4) that in \<open>auto simp: rolled_same\<close>)
  have "runs (ke_lock env root) w (\<lambda>_ w1. objects w1 = objects w) ?R"
    by (rule runs_same [where objects = objects and m = "ke_lock env root", OF apart(1)]) (simp_all add: rolled_same)
  moreover have released: "?R (ke_unlock env w1) = ?R w1" for w1 by (rule rolled_trans) (rule apart(2))
  moreover have "runs (ke_manifest env root) w1 (\<lambda>found w2. runs (case map_of (man_Repositories found) (kq_Repository request) of
      None \<Rightarrow> fail (RollbackNotConfigured (kq_Repository request))
    | Some configured \<Rightarrow> (let hostRepository = toHostRepository root (ws_ID (man_Workspace found)) (repositoryHostIdentity (ke_plan_lib env) configured)
          (kq_Repository request) configured in andThen (ke_resolve env hostRepository) (\<lambda>selected. rollback_on request hostRepository selected))) w2 (\<lambda>_. ?R) ?R) ?R"
    if "objects w1 = objects w" for w1
    by (rule runs_conseq [OF loaded [OF that]]) (use resolved in \<open>simp_all add: assms(5) assms(6) [symmetric] Let_def\<close>)
  ultimately have "runs (RollbackRepository env request) w (\<lambda>_. ?R) ?R"
    unfolding RollbackRepository_def assms(3) option.case
    by (auto simp: released rolled_same elim!: runs_conseq)
  then show ?thesis unfolding assms(10) by (cases "RollbackRepository env request w"; cases "snd (RollbackRepository env request w)") (auto simp: runs_def rolled_def)
qed

text \<open>A workspace with the charts of the memory store.\<close>

definition chart_configured :: Repository where
  "chart_configured = zero_repository\<lparr>repo_Format := ''helm'', repo_Visibility := ''public'',
     repo_Host := zero_host\<lparr>host_Type := ''s3'', host_Bucket := ''b'', host_Prefix := ''charts'', host_CanonicalEndpoint := ''https://c''\<rparr>\<rparr>"

definition chart_workspace :: Manifest where
  "chart_workspace = empty_manifest\<lparr>man_Workspace := (man_Workspace empty_manifest)\<lparr>ws_ID := zeros\<rparr>, man_Repositories := [(''charts'', chart_configured)]\<rparr>"

definition chart_rollback_env :: "memory rollback_env" where
  "chart_rollback_env = \<lparr>ke_root = Some, ke_lock = (\<lambda>_. ok ()), ke_unlock = id, ke_manifest = (\<lambda>_. ok chart_workspace),
     ke_resolve = (\<lambda>_. ok (s3_host chart_lib memory_env)),
     ke_plan_lib = \<lparr>lib_manifest = s3_manifest_lib chart_lib, lib_time = (\<lambda>_. None), lib_identity = (\<lambda>_ _ _. zeros), lib_recipe = (\<lambda>_. []), lib_blob = (\<lambda>_ _. []), lib_knowledge = []\<rparr>\<rparr>"

definition chart_rollback :: RollbackRepositoryRequest where
  "chart_rollback = \<lparr>kq_Root = [], kq_Repository = ''charts'', kq_DryRun = False\<rparr>"

text \<open>The objects that the commit of the charts leaves.\<close>

definition chart_live :: memory where
  "chart_live = [(''charts/index.yaml'', (''x'', (chart_info 1)\<lparr>oi_Metadata := [(''tree-sha256'', zeros), (''plan-id'', zeros), (''change-id'', ''c:000000000000''),
       (''release-id'', zeros), (''release-sha256'', zeros), (''restore-id'', replicate 64 CHR ''1''), (''manifest-sha256'', zeros), (''restore-sha256'', zeros)]\<rparr>)),
     (''charts/.snailmail/restores/'' @ replicate 64 CHR ''1'' @ ''/restore.json'', (''b'', chart_info 1)),
     (''charts/.snailmail/manifests/'' @ zeros @ ''.json'', (''m'' @ [CHR 0x0A], chart_info 2)),
     (''charts/.snailmail/releases/'' @ zeros @ ''/release.json'', (''r'', chart_info 1)),
     (''charts/.snailmail/releases/'' @ zeros @ ''/index.yaml'', (''x'', chart_info 1))]"

lemma chart_rolled_back: "map_of (fst (RollbackRepository chart_rollback_env chart_rollback chart_live)) ''charts/index.yaml'' = None"
  by code_simp

lemma chart_rollback_apart: "rolls_on map_of chart_lib memory_env chart_rollback_env"
  by (simp add: rolls_on_def chart_rollback_env_def ok_def)

lemma chart_rollback_repository:
  "chart_repository = toHostRepository [] (ws_ID (man_Workspace chart_workspace)) (repositoryHostIdentity (ke_plan_lib chart_rollback_env) chart_configured)
     (kq_Repository chart_rollback) chart_configured"
  by code_simp

theorem rollback_moves_only_the_observed_root_witness:
  "\<exists>w0 observed. map_of w0 = map_of chart_live \<and> snd (host_Observe (s3_host chart_lib memory_env) chart_repository w0) = Inr observed \<and>
    pub_TreeSHA256 observed \<noteq> [] \<and> pub_RestoreID observed \<noteq> [] \<and>
    permits (if_match (pub_NativeRevision observed)) (map_of chart_live (objectKey chart_repository ''index.yaml''))"
proof -
  let ?w = chart_live
  have "map_of chart_live ''charts/index.yaml'' \<noteq> None" by (simp add: chart_live_def)
  then have gone: "map_of (fst (RollbackRepository chart_rollback_env chart_rollback ?w)) (objectKey chart_repository ''index.yaml'') \<noteq> map_of ?w (objectKey chart_repository ''index.yaml'')"
    using chart_rolled_back unfolding chart_keys(5) by metis
  have "map_of (fst (RollbackRepository chart_rollback_env chart_rollback ?w)) (objectKey chart_repository ''index.yaml'') = map_of ?w (objectKey chart_repository ''index.yaml'') \<or>
    (\<exists>w0 observed. map_of w0 = map_of ?w \<and> snd (host_Observe (s3_host chart_lib memory_env) chart_repository w0) = Inr observed \<and> pub_TreeSHA256 observed \<noteq> [] \<and>
      pub_RestoreID observed \<noteq> [] \<and> permits (if_match (pub_NativeRevision observed)) (map_of ?w (objectKey chart_repository ''index.yaml'')))"
    by (rule rollback_moves_only_the_observed_root [OF memory_honest chart_rollback_apart _ _ _ chart_rollback_repository chart_keys(1-3)])
      (simp_all add: chart_rollback_env_def chart_rollback_def chart_workspace_def ok_def)
  then show ?thesis using gone by blast
qed

end
