(* ===== verification/S3_Collect_Ends.thy ===== *)
theory S3_Collect_Ends
  imports S3_Collect_Safety
begin

section \<open>The object-store host: a collection ends\<close>

text \<open>
  The walk over a listing asks for pages until one has no token for the next. On a store whose tokens advance
  it comes to an end, and so does the collection: given more pages than the listing has, it never stops
  for the want of them, and more would change nothing.
\<close>

definition fails_only :: "(s3_failure \<Rightarrow> bool) \<Rightarrow> ('w, 'a) s3 \<Rightarrow> bool" where
  "fails_only P m \<longleftrightarrow> (\<forall>s e. snd (m s) = Inl e \<longrightarrow> P e)"

named_theorems fails_intro \<open>the errors of code, by its parts\<close>

lemma fails_basic [fails_intro]: "fails_only P (ok a)" "P e \<Longrightarrow> fails_only P (fail e)" "P e \<Longrightarrow> fails_only P (guard c e)"
    "(\<And>e. r = Inl e \<Longrightarrow> P e) \<Longrightarrow> fails_only P (s3_lift r)" "fails_only P (s3_call operation ev)"
  by (auto simp: fails_only_def ok_def fail_def guard_def s3_lift_def s3_call_def split: sum.split prod.split)

lemma fails_andThen [fails_intro]: "fails_only P m \<Longrightarrow> (\<And>a. returns m a \<Longrightarrow> fails_only P (f a)) \<Longrightarrow> fails_only P (andThen m f)"
proof -
  assume m: "fails_only P m" and f: "\<And>a. returns m a \<Longrightarrow> fails_only P (f a)"
  show "fails_only P (andThen m f)" unfolding fails_only_def
  proof (intro allI impI)
    fix s e assume "snd (andThen m f s) = Inl e"
    obtain s' r where run: "m s = (s', r)" by fastforce
    show "P e"
    proof (cases r)
      case (Inl e')
      then have "snd (m s) = Inl e" using run \<open>snd (andThen m f s) = Inl e\<close> by (simp add: andThen_def)
      then show ?thesis using m unfolding fails_only_def by blast
    next
      case (Inr a)
      then have "snd (f a s') = Inl e" "returns m a" using run \<open>snd (andThen m f s) = Inl e\<close> by (auto simp: andThen_def returns_def)
      then show ?thesis using f unfolding fails_only_def by blast
    qed
  qed
qed

lemma fails_attempt [fails_intro]: "fails_only P (attempt m)"
  by (auto simp: fails_only_def attempt_def split: prod.split)

lemma fails_each [fails_intro]: "(\<And>x. fails_only P (f x)) \<Longrightarrow> fails_only P (each f xs)"
  by (induction xs) (auto intro!: fails_intro)

lemma fails_calls [fails_intro]: "fails_only P (s3_Head env key)" "fails_only P (s3_Get env key limit)" "fails_only P (s3_List env request)"
    "fails_only P (s3_Delete env key conditions)"
  unfolding s3_Head_def s3_Get_def s3_List_def s3_Delete_def by (rule fails_intro)+

lemma andR_Inl: "andR m f = Inl e \<longleftrightarrow> m = Inl e \<or> (\<exists>a. m = Inr a \<and> f a = Inl e)"
  and requireR_Inl: "requireR b e' = Inl e \<longleftrightarrow> \<not> b \<and> e' = e" and someR_Inl: "someR v e' = Inl e \<longleftrightarrow> v = None \<and> e' = e"
  by (cases m; simp add: andR_def) (auto simp: requireR_def someR_def split: option.split)

text \<open>Every error of the code below is one of the host.\<close>

definition is_host_error :: "s3_failure \<Rightarrow> bool" where
  "is_host_error e = (case e of S3Error _ _ \<Rightarrow> True | S3Client _ \<Rightarrow> True | S3Other _ \<Rightarrow> False)"

lemma host_errors [simp]: "is_host_error (hostError k m)" "is_host_error (infrastructure m c)" "is_host_error (S3Client c)" "\<not> is_host_error out_of_pages"
  by (simp_all add: is_host_error_def hostError_def infrastructure_def out_of_pages_def)

lemma pure_errors:
  "s3_validateRepository lib b r = Inl e \<Longrightarrow> is_host_error e" "singleRootPath r = Inl e \<Longrightarrow> is_host_error e"
  "decodeRelease lib r content = Inl e \<Longrightarrow> is_host_error e" "decodeRestore lib content = Inl e \<Longrightarrow> is_host_error e"
  "rewriteRoot env content tree annotation = Inl e \<Longrightarrow> is_host_error e"
proof -
  have *: "(case x of Inl _ \<Rightarrow> Inl bad | Inr v \<Rightarrow> requireR (c v) bad) = Inl e \<longleftrightarrow> (case x of Inl _ \<Rightarrow> True | Inr v \<Rightarrow> \<not> c v) \<and> bad = e" for x c and bad e :: s3_failure
    by (auto simp: requireR_def split: sum.split)
  show "s3_validateRepository lib b r = Inl e \<Longrightarrow> is_host_error e"
    by (auto simp: s3_validateRepository_def configure_def Let_def andR_Inl requireR_Inl)
  show "singleRootPath r = Inl e \<Longrightarrow> is_host_error e" "rewriteRoot env content tree annotation = Inl e \<Longrightarrow> is_host_error e"
    by (auto simp: singleRootPath_def rewriteRoot_def someR_Inl split: list.splits option.splits)
  show "decodeRelease lib r content = Inl e \<Longrightarrow> is_host_error e" "decodeRestore lib content = Inl e \<Longrightarrow> is_host_error e"
    unfolding decodeRelease_def decodeRestore_def Let_def andR_Inl requireR_Inl someR_Inl * by auto
qed

lemma fails_load [fails_intro]: "fails_only is_host_error (get_or_fail env key operation)" "fails_only is_host_error (get_bound env key missing operation)"
    "fails_only is_host_error (loadRelease lib env repository tree)" "fails_only is_host_error (loadRestore lib env repository identifier)"
proof -
  show get: "fails_only is_host_error (get_or_fail env key operation)" "fails_only is_host_error (get_bound env key missing operation)" for key operation missing
    unfolding get_or_fail_def get_bound_def by (auto intro!: fails_intro split: branches)
  show "fails_only is_host_error (loadRelease lib env repository tree)" "fails_only is_host_error (loadRestore lib env repository identifier)"
    unfolding loadRelease_def loadRestore_def by (auto intro!: fails_intro get dest: pure_errors split: prod.split)
qed

lemma fails_as_missing [fails_intro]:
  fixes m :: "('w, 'a) s3"
  assumes "fails_only is_host_error m"
  shows "fails_only is_host_error (as_missing operation m)"
proof -
  have "is_host_error e" if ret: "returns (attempt m :: ('w, s3_failure + 'a) s3) (Inl e)" for e
  proof -
    obtain s s' where "(attempt m :: ('w, s3_failure + 'a) s3) s = (s', Inr (Inl e))" using ret unfolding returns_def by blast
    then have "snd (m s) = Inl e" by (cases "m s") (simp add: attempt_def)
    then show ?thesis using assms by (auto simp: fails_only_def)
  qed
  then show ?thesis unfolding as_missing_def by (auto intro!: fails_intro split: sum.split)
qed

lemma fails_observe [fails_intro]: "fails_only is_host_error (check_object env repository tree rootPath corrupt operation file)"
    "fails_only is_host_error (observe_release lib env repository published)" "fails_only is_host_error (observe_restore lib env repository published)"
    "fails_only is_host_error (observe_canonical lib env repository rootPath root published)"
  unfolding check_object_def observe_release_def observe_restore_def observe_canonical_def
  by (auto intro!: fails_intro dest: pure_errors(5) split: branches)

lemma fails_Observe [fails_intro]: "fails_only is_host_error (s3_Observe lib env repository)"
  unfolding s3_Observe_def observe_root_def by (auto intro!: fails_intro dest: pure_errors split: branches simp: Let_def)

lemma fails_protected [fails_intro]: "fails_only is_host_error (protectedTrees lib env repository retention)"
  unfolding protectedTrees_def by (auto intro!: fails_intro split: prod.split simp: Let_def)

lemma fails_referenced [fails_intro]: "fails_only is_host_error (referenced_by lib env repository trees)"
  by (induction trees) (auto intro!: fails_intro split: prod.split)

lemma fails_visit [fails_intro]: "fails_only is_host_error (visit_release env pre keep dryRun object acc)"
    "fails_only is_host_error (visit_orphan env repository referenced dryRun object acc')"
  unfolding visit_release_def visit_orphan_def remove_object_def by (auto intro!: fails_intro split: branches simp: Let_def)

subsection \<open>The walk\<close>

definition advancing_listing :: "(gostring \<Rightarrow> nat) \<Rightarrow> 'w s3_env \<Rightarrow> bool" where
  "advancing_listing distance env \<longleftrightarrow> (\<forall>w request page. snd (oc_List (s3e_client env) request w) = Inr page \<longrightarrow> lr_More page \<noteq> [] \<longrightarrow>
     distance (lr_More page) < distance (lq_After request))"

lemma returns_page:
  "advancing_listing distance env \<Longrightarrow> returns (s3_List env request) (Inr page) \<Longrightarrow> lr_More page \<noteq> [] \<Longrightarrow> distance (lr_More page) < distance (lq_After request)"
  by (auto simp: advancing_listing_def returns_def s3_List_def s3_call_def case_prod_beta)

lemma visit_all_fails: "(\<And>x acc. fails_only P (visit x acc)) \<Longrightarrow> fails_only P (visit_all visit xs acc)"
  by (induction xs arbitrary: acc) (auto intro!: fails_intro)

lemma walk_fails:
  assumes "advancing_listing distance env" and "\<And>x acc. fails_only is_host_error (visit x acc)" and "distance after < pages"
  shows "fails_only is_host_error (walk_pages pages env pre operation visit after acc)"
  using assms(3)
proof (induction pages arbitrary: after acc)
  case (Suc pages)
  have "distance (lr_More page) < pages" if "returns (s3_List env \<lparr>lq_Prefix = pre, lq_After = after, lq_Limit = 0\<rparr>) (Inr page)" "lr_More page \<noteq> []" for page
    using returns_page [OF assms(1) that] Suc.prems by simp
  then show ?case using Suc.IH visit_all_fails [OF assms(2)] by (auto intro!: fails_intro split: sum.split)
qed simp

text \<open>With enough pages for the listing, more make no difference.\<close>

lemma andThen_cong: "(\<And>a. returns m a \<Longrightarrow> f a = g a) \<Longrightarrow> andThen m f = andThen m g"
  unfolding andThen_def returns_def fun_eq_iff by (auto split: prod.split sum.split)

lemma walk_enough:
  assumes "advancing_listing distance env" and "distance after < pages"
  shows "walk_pages (pages + further) env pre operation visit after acc = walk_pages pages env pre operation visit after acc"
  using assms(2)
proof (induction pages arbitrary: after acc)
  case (Suc pages)
  have "distance (lr_More page) < pages" if "returns (s3_List env \<lparr>lq_Prefix = pre, lq_After = after, lq_Limit = 0\<rparr>) (Inr page)" "lr_More page \<noteq> []" for page
    using returns_page [OF assms(1) that] Suc.prems by simp
  then show ?case using Suc.IH by (auto intro!: andThen_cong split: sum.split)
qed simp

subsection \<open>Property\<close>

text \<open>
  C11: a collection ends. On a store where the token of each page is further on than the page, a collection that
  may read more pages than there are steps never stops for the want of pages, and what it does and
  answers is the same however many more it may read.
\<close>

theorem collection_ends:
  assumes "advancing_listing distance env" and "distance [] < pages"
  shows "snd (s3_Collect pages lib env repository retention s) \<noteq> Inl out_of_pages \<and>
    s3_Collect (pages + further) lib env repository retention = s3_Collect pages lib env repository retention"
proof
  have "fails_only is_host_error (s3_Collect pages lib env repository retention)"
    unfolding s3_Collect_def collectOrphanedObjects_def referencedObjectKeys_def 
    by (auto intro!: fails_intro walk_fails [OF assms(1) _ assms(2)] dest: pure_errors split: prod.split simp: Let_def)
  then show "snd (s3_Collect pages lib env repository retention s) \<noteq> Inl out_of_pages"
    unfolding fails_only_def using host_errors(4) by metis
  show "s3_Collect (pages + further) lib env repository retention = s3_Collect pages lib env repository retention"
    unfolding s3_Collect_def collectOrphanedObjects_def walk_enough [OF assms] ..
qed

theorem collection_ends_witness:
  "snd (s3_Collect 1 chart_lib memory_env chart_repository \<lparr>ret_KeepTrees = [], ret_DryRun = False\<rparr> \<lparr>s3_world = chart_store, s3_log = []\<rparr>) \<noteq> Inl out_of_pages \<and>
    s3_Collect (1 + 7) chart_lib memory_env chart_repository \<lparr>ret_KeepTrees = [], ret_DryRun = False\<rparr> =
    s3_Collect 1 chart_lib memory_env chart_repository \<lparr>ret_KeepTrees = [], ret_DryRun = False\<rparr>"
  by (rule collection_ends [where distance = "\<lambda>_. 0"]) (simp_all add: advancing_listing_def memory_env_def memory_client_def)

end
