(* ===== verification/Collect_Workspace.thy ===== *)
theory Collect_Workspace
  imports S3_Collect_Ends Ledger Plan_Repository Manifest_Store
begin

section \<open>Collecting a workspace\<close>

text \<open>
  \<^verbatim>\<open>engine/collect.go\<close>: which published trees a collection keeps, and the walk over the repositories of a
  workspace that asks each host to collect. The workspace root, its lock, Git, the manifest, the ledger
  history and the hosts are fields of the environment, each a function on the world it changes.
\<close>

subsection \<open>Trees to keep\<close>

definition collectSchemaVersion :: int where "collectSchemaVersion = 1"

definition DefaultKeep :: int where "DefaultKeep = 10"

definition retentionFor :: "Repository \<Rightarrow> int option \<Rightarrow> int" where
  "retentionFor repository requested = (case requested of Some n \<Rightarrow> n
     | None \<Rightarrow> if repo_Keep repository > 0 then repo_Keep repository else DefaultKeep)"

text \<open>The loop from the last record backwards, on the records in that order.\<close>

fun newest_trees :: "int \<Rightarrow> gostring list \<Rightarrow> PublicationRecord list \<Rightarrow> gostring list" where
  "newest_trees keep trees [] = trees"
| "newest_trees keep trees (r # rs) =
     (if int (length trees) < keep
      then newest_trees keep (if pr_TreeSHA256 r = [] \<or> pr_TreeSHA256 r \<in> set trees then trees else trees @ [pr_TreeSHA256 r]) rs
      else trees)"

definition newestDistinctTrees :: "PublicationRecord list \<Rightarrow> int \<Rightarrow> gostring list" where
  "newestDistinctTrees records keep = (if keep \<le> 0 then [] else sort (newest_trees keep [] (rev records)))"

subsection \<open>The walk\<close>

type_synonym 'w collector = "HostRepository \<Rightarrow> Retention \<Rightarrow> 'w \<Rightarrow> 'w \<times> (gostring + CollectResult)"

record 'w collect_env =
  ce_root :: "gostring \<Rightarrow> gostring + gostring"
  ce_lock :: "gostring \<Rightarrow> 'w \<Rightarrow> 'w \<times> (gostring + unit)"
  ce_unlock :: "gostring \<Rightarrow> 'w \<Rightarrow> 'w"
  ce_clean :: "gostring \<Rightarrow> 'w \<Rightarrow> 'w \<times> (gostring + gostring)"
  ce_manifest :: "gostring \<Rightarrow> 'w \<Rightarrow> 'w \<times> (gostring + Manifest)"
  ce_cancelled :: "'w \<Rightarrow> 'w \<times> (gostring + unit)"
  ce_resolve :: "HostRepository \<Rightarrow> 'w \<Rightarrow> 'w \<times> (gostring + 'w collector option)"
  ce_history :: "gostring \<Rightarrow> gostring \<Rightarrow> gostring \<Rightarrow> 'w \<Rightarrow> 'w \<times> (gostring + PublicationRecord list)"
  ce_parseTime :: "gostring \<Rightarrow> int option"
  ce_plan_lib :: plan_lib

record CollectRequest =
  cw_Root :: gostring
  cw_Repository :: gostring
  cw_Keep :: "int option"
  cw_Apply :: bool

record CollectRepository =
  crep_Name :: gostring
  crep_Collectable :: bool
  crep_Removed :: int
  crep_RemovedBytes :: int
  crep_KeptRevisions :: int
  crep_Note :: gostring

record CollectWorkspaceResult =
  cwr_SchemaVersion :: int
  cwr_Workspace :: gostring
  cwr_GitRevision :: gostring
  cwr_Applied :: bool
  cwr_Removed :: int
  cwr_RemovedBytes :: int
  cwr_Repositories :: "CollectRepository list"

definition recentPublishedTrees :: "'w collect_env \<Rightarrow> gostring \<Rightarrow> gostring \<Rightarrow> gostring \<Rightarrow> int \<Rightarrow> ('w, gostring, gostring list) eff" where
  "recentPublishedTrees env root name gitRevision keep =
     (if keep = 0 then ok []
      else andThen (ce_history env root name gitRevision) (\<lambda>records.
        case ValidatePublicationHistory (ce_parseTime env) name records of Some _ \<Rightarrow> fail ''invalid publication ledger''
        | None \<Rightarrow> ok (newestDistinctTrees records keep)))"

definition collectRepository :: "'w collect_env \<Rightarrow> gostring \<Rightarrow> gostring \<Rightarrow> gostring \<Rightarrow> Repository \<Rightarrow> gostring \<Rightarrow> int \<Rightarrow> bool \<Rightarrow> ('w, gostring, CollectRepository) eff" where
  "collectRepository env root workspaceID name repository gitRevision keep apply_it =
     (let hostRepository = toHostRepository root workspaceID (repositoryHostIdentity (ce_plan_lib env) repository) name repository;
          reported = \<lparr>crep_Name = name, crep_Collectable = False, crep_Removed = 0, crep_RemovedBytes = 0, crep_KeptRevisions = 0, crep_Note = []\<rparr> in
      andThen (ce_resolve env hostRepository) (\<lambda>selected. case selected of
        None \<Rightarrow> ok (reported\<lparr>crep_Note := ''host keeps no superseded state''\<rparr>)
      | Some collect \<Rightarrow>
        andThen (recentPublishedTrees env root name gitRevision keep) (\<lambda>keepTrees.
        andThen (collect hostRepository \<lparr>ret_KeepTrees = keepTrees, ret_DryRun = \<not> apply_it\<rparr>) (\<lambda>collected.
        ok \<lparr>crep_Name = name, crep_Collectable = True, crep_Removed = col_Removed collected, crep_RemovedBytes = col_RemovedBytes collected,
          crep_KeptRevisions = col_KeptRevisions collected, crep_Note = []\<rparr>))))"

primrec collect_all :: "'w collect_env \<Rightarrow> CollectRequest \<Rightarrow> gostring \<Rightarrow> gostring \<Rightarrow> Manifest \<Rightarrow> gostring list \<Rightarrow> ('w, gostring, CollectRepository list) eff" where
  "collect_all env request root gitRevision manifest [] = ok []"
| "collect_all env request root gitRevision manifest (name # names) =
     andThen (ce_cancelled env) (\<lambda>_.
     if cw_Repository request \<noteq> [] \<and> cw_Repository request \<noteq> name then collect_all env request root gitRevision manifest names
     else case map_of (man_Repositories manifest) name of None \<Rightarrow> fail ''repository''
       | Some repository \<Rightarrow>
         andThen (collectRepository env root (ws_ID (man_Workspace manifest)) name repository gitRevision (retentionFor repository (cw_Keep request)) (cw_Apply request)) (\<lambda>reported.
         andThen (collect_all env request root gitRevision manifest names) (\<lambda>rest. ok (reported # rest))))"

definition CollectWorkspace :: "'w collect_env \<Rightarrow> CollectRequest \<Rightarrow> ('w, gostring, CollectWorkspaceResult) eff" where
  "CollectWorkspace env request =
     (if (case cw_Keep request of None \<Rightarrow> False | Some n \<Rightarrow> n < 0) then fail ''keep is not a number of publications''
      else case ce_root env (cw_Root request) of Inl e \<Rightarrow> fail e
      | Inr root \<Rightarrow>
        andThen (ce_lock env root) (\<lambda>_. deferred
          (andThen (ce_clean env root) (\<lambda>gitRevision.
           andThen (ce_manifest env root) (\<lambda>manifest.
           andThen (collect_all env request root gitRevision manifest (RepositoryNames manifest)) (\<lambda>repositories.
           if cw_Repository request \<noteq> [] \<and> repositories = [] then fail ''repository is not configured''
           else ok \<lparr>cwr_SchemaVersion = collectSchemaVersion, cwr_Workspace = ws_Name (man_Workspace manifest), cwr_GitRevision = gitRevision, cwr_Applied = cw_Apply request,
             cwr_Removed = sum_list (map crep_Removed repositories), cwr_RemovedBytes = sum_list (map crep_RemovedBytes repositories),
             cwr_Repositories = repositories\<rparr>))))
          (update (ce_unlock env root) :: ('w, gostring, unit) eff)))"

subsection \<open>The newest trees\<close>

definition ledger_trees :: "PublicationRecord list \<Rightarrow> gostring set" where
  "ledger_trees records = pr_TreeSHA256 ` set records - {[]}"

lemma newest_trees_mono: "set trees \<subseteq> set (newest_trees keep trees rs)"
  by (induction keep trees rs rule: newest_trees.induct) (auto split: if_splits)

lemma newest_trees_range: "set (newest_trees keep trees rs) \<subseteq> set trees \<union> ledger_trees rs"
  by (induction keep trees rs rule: newest_trees.induct) (force simp: ledger_trees_def subset_iff split: if_splits)+

lemma newest_trees_distinct: "distinct trees \<Longrightarrow> distinct (newest_trees keep trees rs)"
  by (induction keep trees rs rule: newest_trees.induct) auto

lemma newest_trees_bound: "int (length trees) \<le> keep \<Longrightarrow> int (length (newest_trees keep trees rs)) \<le> keep"
  by (induction keep trees rs rule: newest_trees.induct) auto

lemma newest_trees_member:
  assumes "distinct trees" and "pr_TreeSHA256 r \<notin> set trees \<union> ledger_trees newer" and "pr_TreeSHA256 r \<noteq> []"
  shows "pr_TreeSHA256 r \<in> set (newest_trees keep trees (newer @ r # older)) \<longleftrightarrow> int (card (set trees \<union> ledger_trees newer)) < keep"
  using assms
proof (induction newer arbitrary: trees)
  case Nil
  then show ?case using newest_trees_mono [of "trees @ [pr_TreeSHA256 r]" keep older]
    by (auto simp: ledger_trees_def distinct_card)
next
  case (Cons x newer)
  let ?trees = "if pr_TreeSHA256 x = [] \<or> pr_TreeSHA256 x \<in> set trees then trees else trees @ [pr_TreeSHA256 x]"
  have union: "set ?trees \<union> ledger_trees newer = set trees \<union> ledger_trees (x # newer)" by (auto simp: ledger_trees_def)
  show ?case
  proof (cases "int (length trees) < keep")
    case True
    then show ?thesis using Cons.IH [of ?trees] Cons.prems union by (auto simp: ledger_trees_def)
  next
    case False
    have "card (set trees) \<le> card (set trees \<union> ledger_trees (x # newer))" by (rule card_mono) (auto simp: ledger_trees_def)
    then have "keep \<le> int (card (set trees \<union> ledger_trees (x # newer)))" using False Cons.prems(1) by (simp add: distinct_card)
    then show ?thesis using False Cons.prems(2) by simp
  qed
qed

subsection \<open>Dry runs\<close>

text \<open>The collector of an object-store host.\<close>

definition s3_collector :: "nat \<Rightarrow> s3_lib \<Rightarrow> 'w s3_env \<Rightarrow> 'w collector" where
  "s3_collector pages lib env repository retention w =
     (case s3_Collect pages lib env repository retention \<lparr>s3_world = w, s3_log = []\<rparr> of (s, r) \<Rightarrow> (s3_world s, map_sum (\<lambda>_. ''collect'') id r))"

text \<open>An environment whose own calls change no object and whose hosts are object stores that keep their promise.\<close>

definition store_hosts :: "('w \<Rightarrow> objects) \<Rightarrow> 'w collect_env \<Rightarrow> bool" where
  "store_hosts objects env \<longleftrightarrow> (\<forall>root w. objects (fst (ce_lock env root w)) = objects w) \<and> (\<forall>root w. objects (ce_unlock env root w) = objects w) \<and>
     (\<forall>root w. objects (fst (ce_clean env root w)) = objects w) \<and> (\<forall>root w. objects (fst (ce_manifest env root w)) = objects w) \<and>
     (\<forall>w. objects (fst (ce_cancelled env w)) = objects w) \<and> (\<forall>r w. objects (fst (ce_resolve env r w)) = objects w) \<and>
     (\<forall>root name gitRevision w. objects (fst (ce_history env root name gitRevision w)) = objects w) \<and>
     (\<forall>r w collect. snd (ce_resolve env r w) = Inr (Some collect) \<longrightarrow>
        (\<exists>pages lib store. honest_store objects store \<and> collect = s3_collector pages lib store))"

definition untouched :: "('w \<Rightarrow> objects) \<Rightarrow> ('w, 'e, 'a) eff \<Rightarrow> bool" where
  "untouched objects m \<longleftrightarrow> (\<forall>w. objects (fst (m w)) = objects w)"

named_theorems untouched_intro \<open>code that changes no object, by its parts\<close>

lemma untouched_basic [untouched_intro]: "untouched objects (ok a)" "untouched objects (fail e)"
  by (simp_all add: untouched_def ok_def fail_def)

lemma untouched_andThen [untouched_intro]:
  "untouched objects m \<Longrightarrow> (\<And>a. returns m a \<Longrightarrow> untouched objects (f a)) \<Longrightarrow> untouched objects (andThen m f)"
  unfolding untouched_def andThen_def returns_def by (auto split: prod.split sum.split) (metis fst_conv)+

lemma untouched_deferred [untouched_intro]:
  "untouched objects m \<Longrightarrow> (\<And>w. objects (f w) = objects w) \<Longrightarrow> untouched objects (deferred m (update f))"
  by (auto simp: untouched_def deferred_def update_def split: prod.split) (metis fst_conv)

lemma untouched_calls [untouched_intro]:
  assumes "store_hosts objects env"
  shows "untouched objects (ce_lock env root)" "untouched objects (ce_clean env root)" "untouched objects (ce_manifest env root)"
    "untouched objects (ce_cancelled env)" "untouched objects (ce_resolve env r)" "untouched objects (ce_history env root name gitRevision)"
  using assms by (auto simp: store_hosts_def untouched_def)

lemma dry_collector:
  assumes "store_hosts objects env" and "returns (ce_resolve env r) (Some collect)" and "ret_DryRun retention"
  shows "untouched objects (collect r' retention)"
proof -
  obtain w w' where "ce_resolve env r w = (w', Inr (Some collect))" using assms(2) by (auto simp: returns_def)
  then obtain pages lib store where "honest_store objects store" and collect: "collect = s3_collector pages lib store"
    using assms(1) unfolding store_hosts_def by (metis snd_conv)
  then have "objects (s3_world (fst (s3_Collect pages lib store r' retention \<lparr>s3_world = w, s3_log = []\<rparr>))) = objects w" for w
    using dry_collection [of objects store] assms(3) by simp
  then show ?thesis unfolding untouched_def collect s3_collector_def by (simp add: case_prod_beta)
qed

lemma untouched_collect:
  assumes "store_hosts objects env" and "\<not> cw_Apply request"
  shows "untouched objects (collect_all env request root gitRevision manifest names)"
proof -
  have "untouched objects (recentPublishedTrees env root name gitRevision keep)" for name keep
    unfolding recentPublishedTrees_def using assms(1) by (auto intro!: untouched_intro split: option.split)
  then have "untouched objects (collectRepository env root workspaceID name repository gitRevision keep False)" for workspaceID name repository keep
    unfolding collectRepository_def using assms(1) by (auto intro!: untouched_intro dry_collector split: option.split simp: Let_def)
  then show ?thesis using assms by (induction names) (auto intro!: untouched_intro split: option.split)
qed

subsection \<open>Properties\<close>

text \<open>
  The trees kept are the newest ones. A tree of the ledger is kept exactly when fewer than the asked number
  of distinct trees were published after its last record; the result is sorted, without repetition and
  no longer than asked.
\<close>

theorem newest_trees_are_kept:
  assumes "records = older @ r # newer" and "pr_TreeSHA256 r \<noteq> []" and "pr_TreeSHA256 r \<notin> pr_TreeSHA256 ` set newer" and "0 \<le> keep"
  shows "(pr_TreeSHA256 r \<in> set (newestDistinctTrees records keep) \<longleftrightarrow> int (card (ledger_trees newer)) < keep) \<and>
    sorted (newestDistinctTrees records keep) \<and> distinct (newestDistinctTrees records keep) \<and>
    int (length (newestDistinctTrees records keep)) \<le> keep \<and> set (newestDistinctTrees records keep) \<subseteq> ledger_trees records"
proof -
  have rev: "rev records = rev newer @ r # rev older" and same: "ledger_trees (rev xs) = ledger_trees xs" for xs
    using assms(1) by (simp_all add: ledger_trees_def)
  have "pr_TreeSHA256 r \<in> set (newest_trees keep [] (rev records)) \<longleftrightarrow> int (card (ledger_trees newer)) < keep"
    using newest_trees_member [of "[]" r "rev newer" keep "rev older"] assms(2,3) unfolding rev same by (auto simp: ledger_trees_def)
  then show ?thesis using assms(4) newest_trees_bound [of "[]" keep "rev records"] newest_trees_distinct [of "[]" keep "rev records"]
      newest_trees_range [of keep "[]" "rev records"] unfolding newestDistinctTrees_def same by auto
qed

definition tree_record :: "gostring \<Rightarrow> PublicationRecord" where
  "tree_record tree = \<lparr>pr_SchemaVersion = 1, pr_PlanID = [], pr_ChangeID = [], pr_Repository = [], pr_Package = [], pr_Version = [],
     pr_BlobSHA256 = [], pr_TreeSHA256 = tree, pr_RecordedAt = []\<rparr>"

theorem newest_trees_are_kept_witness:
  "''b'' \<in> set (newestDistinctTrees (map tree_record [''a'', ''b'', ''c'', ''c'']) 2)"
proof -
  have "map tree_record [''a'', ''b'', ''c'', ''c''] = [tree_record ''a''] @ tree_record ''b'' # [tree_record ''c'', tree_record ''c'']" by simp
  from newest_trees_are_kept [OF this, of 2] show ?thesis by (simp add: tree_record_def ledger_trees_def)
qed

text \<open>
  Collecting a workspace without asking to apply it changes no object of any store, whichever repositories
  it visits and wherever it fails.
\<close>

theorem workspace_collection_is_dry_by_default:
  assumes "store_hosts objects env" and "\<not> cw_Apply request"
  shows "objects (fst (CollectWorkspace env request w)) = objects w"
proof -
  have "untouched objects (CollectWorkspace env request)"
    unfolding CollectWorkspace_def using assms untouched_collect [OF assms]
    by (auto intro!: untouched_intro split: option.split sum.split simp: store_hosts_def)
  then show ?thesis by (simp add: untouched_def)
qed

definition memory_workspace :: "memory collect_env" where
  "memory_workspace = \<lparr>ce_root = Inr, ce_lock = (\<lambda>_ w. (w, Inr ())), ce_unlock = (\<lambda>_ w. w), ce_clean = (\<lambda>_ w. (w, Inr ''head'')),
     ce_manifest = (\<lambda>_ w. (w, Inr empty_manifest)), ce_cancelled = (\<lambda>w. (w, Inr ())),
     ce_resolve = (\<lambda>_ w. (w, Inr (Some (s3_collector 1 chart_lib memory_env)))), ce_history = (\<lambda>_ _ _ w. (w, Inr [])),
     ce_parseTime = (\<lambda>_. None), ce_plan_lib = \<lparr>lib_manifest = bare_lib, lib_time = (\<lambda>_. None), lib_identity = (\<lambda>_ _ _. zeros),
       lib_recipe = (\<lambda>_. []), lib_blob = (\<lambda>_ _. []), lib_knowledge = []\<rparr>\<rparr>"

theorem workspace_collection_is_dry_by_default_witness:
  "map_of (fst (CollectWorkspace memory_workspace \<lparr>cw_Root = ''w'', cw_Repository = [], cw_Keep = Some 3, cw_Apply = False\<rparr> chart_store)) = map_of chart_store"
  by (rule workspace_collection_is_dry_by_default) (auto simp: store_hosts_def memory_workspace_def intro: memory_honest)

end
