(* ===== verification/Spec2Isabelle.thy ===== *)
theory Spec2Isabelle
  imports Build_Version Prune Apply_Result S3_Order S3_Lifetime Lock_Roundtrip Edit_Properties Rollback Collect_Workspace
begin

text \<open>
  A verification development for snailmail, a program that publishes package repositories (PyPI, Debian, Helm,
  RPM, Alpine and raw files) from a Git workspace to static hosts. Paths below are relative to the root of the repository.

  \<^bold>\<open>The program and its parts.\<close> A workspace has a manifest, and for every repository a lock that pins each artifact by its
  SHA-256. Commands edit locks (\<^verbatim>\<open>engine/placements.go\<close>, \<^verbatim>\<open>engine/prune.go\<close>, \<^verbatim>\<open>engine/adopt.go\<close>, \<^verbatim>\<open>engine/import.go\<close>,
  \<^verbatim>\<open>engine/workspace.go\<close>); the bytes are kept in a content-addressed store (\<^verbatim>\<open>internal/state/cas.go\<close>). A plan compares the locks with what
  hosts serve; a reviewed plan is applied: every repository is rebuilt and compared with the plan, staged on its host,
  recorded in an append-only ledger in Git, let through by a gate, and switched; a receipt follows (\<^verbatim>\<open>engine/workspace.go\<close>).
  Hosts are adapters behind a port (\<^verbatim>\<open>host/host.go\<close>); the one for object stores (\<^verbatim>\<open>adapters/host/s3\<close>) makes a release visible by
  writing one root object. Collections remove what no release needs (\<^verbatim>\<open>engine/collect.go\<close>, \<^verbatim>\<open>adapters/host/s3/collect.go\<close>).

  \<^bold>\<open>Conventions.\<close> A Go structure is a record with one field per Go field and a prefix of its own; a string is a list of
  characters, a byte each; a map is an association list; a pointer that may be nil is an option; an error is a value of a
  data type, with one constructor per kind of failure and not its text. Pure code with early returns uses the results of
  \<^verbatim>\<open>Effects\<close>. Code with effects is a function from a state to the state it leaves and an error or a value, also in \<^verbatim>\<open>Effects\<close>: what
  was done before an error stays done, and a deferred call runs however the code ends. Integers are kept at their
  width where the code can overflow (\<^verbatim>\<open>Decimal\<close>, \<^verbatim>\<open>Source_Url\<close>); sizes and counters that are only compared are mathematical integers.
  Code outside the repository is an argument or a field of a record of parameters: SHA-256 and the other digests, Ed25519,
  the JSON and TOML codecs, URL and address parsing, the SemVer library, the file system, Git, the network, the clock, object
  stores. Contexts are not modelled.

  \<^bold>\<open>Shared theories.\<close> \<^verbatim>\<open>Prelude\<close> has strings and generic lemmas; \<^verbatim>\<open>Comparator\<close> the laws of version comparators, as locales;
  \<^verbatim>\<open>Go_Regexp\<close>, \<^verbatim>\<open>Go_Path\<close>, \<^verbatim>\<open>Slash_Paths\<close>, \<^verbatim>\<open>Go_Time\<close>, \<^verbatim>\<open>Base64\<close>, \<^verbatim>\<open>Hexdigest\<close> and \<^verbatim>\<open>Decimal\<close> model the parts of the standard library that the
  sources use, and \<^verbatim>\<open>Go_Path\<close> also the functions of \<^verbatim>\<open>internal/state/store.go\<close> that confine paths (no path it returns leaves the workspace).

  \<^bold>\<open>Versions and formats.\<close> \<^verbatim>\<open>Deb_Version\<close>, \<^verbatim>\<open>Rpm_Version\<close>, \<^verbatim>\<open>Apk_Version\<close>, \<^verbatim>\<open>Pypi_Version\<close> and \<^verbatim>\<open>Raw_Version\<close> model \<^verbatim>\<open>formats/*/version.go\<close>: each comparator
  decides a reference order defined on the values that version strings spell, except where a finding says otherwise, and interprets
  the comparator locale. \<^verbatim>\<open>Formats\<close> is the registry (\<^verbatim>\<open>formats/format.go\<close>) and the support matrix (\<^verbatim>\<open>host/support.go\<close>). \<^verbatim>\<open>Raw_Inspect\<close>
  is the inspection of raw artifacts. \<^verbatim>\<open>Build_Version\<close> says when a binary calls itself a release (\<^verbatim>\<open>internal/version/version.go\<close>). \<^verbatim>\<open>Source_Url\<close>
  says which origins and addresses may be fetched from (\<^verbatim>\<open>source/source.go\<close>).

  \<^bold>\<open>State of a workspace.\<close> \<^verbatim>\<open>State_Model\<close> and \<^verbatim>\<open>Plan_Model\<close> are the structures of \<^verbatim>\<open>internal/state/model.go\<close>. \<^verbatim>\<open>Manifest_Checks\<close> and \<^verbatim>\<open>Manifest_Store\<close> load,
  migrate, validate and write the manifest and set up a repository (\<^verbatim>\<open>internal/state/store.go\<close>): round trips, and disjoint publication
  targets. \<^verbatim>\<open>Lock_Store\<close> has the operations on a lock; \<^verbatim>\<open>Lock_Safety\<close> states their contract as a locale, interpreted by each of them, and concludes
  that every history of edits with artifacts that pass the blob checks keeps a lock valid. \<^verbatim>\<open>Prune\<close> is retention (\<^verbatim>\<open>internal/state/prune.go\<close>), with the sort that the code
  calls modelled loop by loop. \<^verbatim>\<open>Lock_Shard\<close>, \<^verbatim>\<open>Lock_Shard_Paths\<close>, \<^verbatim>\<open>Lock_Shard_Safety\<close> and \<^verbatim>\<open>Lock_Roundtrip\<close> read and write a lock in one file
  or in shards on a disk whose calls may fail (\<^verbatim>\<open>internal/state/lockshard.go\<close>): what was written loads, and an interrupted write is never
  taken for something else. \<^verbatim>\<open>Ledger\<close> is the publication ledger (\<^verbatim>\<open>internal/state/ledger.go\<close>): append-only, replayed from Git, and
  exactly what binds the lock. \<^verbatim>\<open>Deployment\<close> is the journal of receipts (\<^verbatim>\<open>internal/state/deployment.go\<close>): a batch is written whole or
  taken back, and what could not be taken back is named. \<^verbatim>\<open>Cas\<close>, \<^verbatim>\<open>Cas_Safety\<close> and \<^verbatim>\<open>Locked_Blobs\<close> are the artifact store and the artifacts of a build: every object hashes to its name, and
  a build gets the artifacts of the lock and no others.

  \<^bold>\<open>Commands.\<close> \<^verbatim>\<open>Workspace_Edits\<close> and \<^verbatim>\<open>Adoption\<close> model promotion, yanking, retention, addition, adoption and import over the disk of the
  locks and the artifact store. \<^verbatim>\<open>Edit_Safety\<close>, \<^verbatim>\<open>Adopt_Safety\<close>, \<^verbatim>\<open>Import_Poison\<close> and \<^verbatim>\<open>Edit_Properties\<close> show that the workspace lock is given back, that four of
  the commands write no lock they have not checked, that an adoption stores what it was pinned to, and that an artifact which an import
  refuses for a published version makes it skip every later one and stays in the lock; and two runs, of an
  import and of an addition, that write a lock which later commands refuse.

  \<^bold>\<open>Publication.\<close> \<^verbatim>\<open>Gate\<close> and \<^verbatim>\<open>Forge\<close> are the gates (\<^verbatim>\<open>gate/gate.go\<close>, \<^verbatim>\<open>forge/\<close>): a gate opens on an approval of this plan that is still
  valid, or on the evidence of a merged pull request that the forge confirms. \<^verbatim>\<open>Rotation\<close> and \<^verbatim>\<open>Signing_Shape\<close> are signing transitions and recipes
  (\<^verbatim>\<open>engine/signing.go\<close>, \<^verbatim>\<open>engine/signing_recipe.go\<close>, \<^verbatim>\<open>formats/signing.go\<close>): in every history of applies a client that refreshes
  its keyring often enough can verify what is published. \<^verbatim>\<open>Bindings\<close>, \<^verbatim>\<open>Build_Graph\<close>,
  \<^verbatim>\<open>Plan_Repository\<close> and \<^verbatim>\<open>Apply_Checks\<close> are what a plan is made of and checked against; what passes is what was reviewed, and the
  checks that may still refuse a plan when nothing has changed are told exactly. \<^verbatim>\<open>Apply\<close> is the apply over an arbitrary environment, with a log of its calls; \<^verbatim>\<open>Apply_Order\<close> orders that log (everything
  else is staged, recorded and confirmed when a host is asked to switch), and \<^verbatim>\<open>Apply_Result\<close> has the counts, the dry run and the cleanup.
  \<^verbatim>\<open>Host_Port\<close> is the port that both the apply and the adapter speak.

  \<^bold>\<open>Object stores.\<close> \<^verbatim>\<open>S3_Model\<close> and \<^verbatim>\<open>S3_Host\<close> are the adapter of \<^verbatim>\<open>adapters/host/s3\<close>, \<^verbatim>\<open>S3_Keys\<close> tells its keys apart, \<^verbatim>\<open>S3_Trace\<close> reads its writes
  off the log, \<^verbatim>\<open>S3_Memory\<close> is a store to run it on. \<^verbatim>\<open>S3_Safety\<close> and \<^verbatim>\<open>S3_Order\<close>: the root moves only from
  the state that was expected, and only after the release is confirmed; \<^verbatim>\<open>S3_Lifetime\<close>: the objects of a release that every collection
  is told to keep never change. \<^verbatim>\<open>S3_Collect\<close>, \<^verbatim>\<open>S3_Collect_Safety\<close>, \<^verbatim>\<open>S3_Collect_Ends\<close> and
  \<^verbatim>\<open>Collect_Workspace\<close> are collection: protected releases survive, and the walk over a listing ends. \<^verbatim>\<open>Rollback\<close> is the command of \<^verbatim>\<open>engine/rollback.go\<close>
  composed with the adapter: it moves the root only from the publication that it observed.

  \<^bold>\<open>Hypotheses about code outside.\<close> \<^verbatim>\<open>honest_store\<close> (a call on an object store changes at most the object it names, when its conditions
  hold) and \<^verbatim>\<open>faithful_reads\<close>; \<^verbatim>\<open>advancing_listing\<close> (the tokens of a listing lead through finitely many pages); \<^verbatim>\<open>toml_laws\<close> (decoding what was
  encoded gives it back, and the two kinds of lock file are told apart) and \<^verbatim>\<open>codec_law\<close> (the same for a manifest); \<^verbatim>\<open>hex_digests\<close> (a digest is 64 lower-case digits); \<^verbatim>\<open>walks_all\<close> (a walk
  over a directory meets every file); \<^verbatim>\<open>rolls_on\<close> (the workspace side of a rollback does not write to the store); and, where an argument needs it, that a digest does not collide on the texts at hand.
  Each theorem that has such a hypothesis has a witness on a concrete instance.

  \<^bold>\<open>Bounds.\<close> Loops are recursion with a termination proof. The walk over a listing, which has no bound of its own in the code, gets a number of
  pages and fails with an error of its own when it runs out; \<^verbatim>\<open>S3_Collect_Ends\<close> shows that the number of pages of the listing is enough and
  that more change nothing. A disk and a store of artifacts carry a list that says which of the calls to come fail, of any length.

  \<^bold>\<open>Not modelled.\<close> The command line (\<^verbatim>\<open>cmd/snailmail\<close>) and reports (\<^verbatim>\<open>engine/status.go\<close>, \<^verbatim>\<open>internal/status\<close>, \<^verbatim>\<open>internal/listing\<close>, \<^verbatim>\<open>engine/site.go\<close>) only present what the engine
  returns. Verification with real clients (\<^verbatim>\<open>internal/app\<close>) starts containers and reads repositories back. Archive inspection and index
  rendering of five formats, and their signatures (\<^verbatim>\<open>formats/*/inspect.go\<close>, \<^verbatim>\<open>render.go\<close>, \<^verbatim>\<open>signature.go\<close>, \<^verbatim>\<open>signer/\<close>), are parsers and printers of binary formats around third-party libraries; they
  are parameters of \<^verbatim>\<open>Cas\<close> and of the plan checks. Driving the git command (most of \<^verbatim>\<open>internal/state/git.go\<close>), the AWS calls, the HTTP clients of the
  forges, the credential and signer processes are input and output. The adapters for GitHub Pages, rsync and local directories, and the
  commands doctor, ci, keys, rotation, rollout and check, drive processes, files and networks around the functions that are modelled here; the
  readers of published indexes of an import are parsers of the five formats.
\<close>

end
